(* ===== verification/Prelude.thy ===== *)
theory Prelude
  imports Main "HOL-Library.Word" "HOL-Library.Monad_Syntax"
begin

text \<open>
  Shared vocabulary of the development.

  \<^item> C++ \<open>int\<close> / \<open>LONG\<close> arithmetic (32-bit two's complement). The values are HOL integers; every
    operation the source performs is one of the checked operations below, which return
    \<open>None\<close> exactly where the C++ expression has no defined value (signed overflow, division
    by zero). A function built from them that returns \<open>Some\<close> therefore also shows that the
    source executes no undefined arithmetic on that input.
  \<^item> The Win32 structures \<open>RECT\<close>, \<open>POINT\<close> and \<open>SIZE\<close> as records.
  \<^item> Decimal printing (\<open>std::to_string\<close>) and the part of \<open>std::stoi\<close> and \<open>strtoll\<close> the program
    relies on.
  \<^item> Generic lemmas on lists and options that several components use.
\<close>

named_theorems checked_arith "unfolding rules of the checked 32-bit operations"
named_theorems handler_simps "unfolding rules of message handlers and small state updates"

section \<open>Machine integers\<close>

type_synonym u8 = "8 word"
type_synonym u16 = "16 word"
type_synonym u32 = "32 word"

definition INT_MAX :: int where
  "INT_MAX = 2147483647"

definition INT_MIN :: int where
  "INT_MIN = - 2147483648"

definition in_s32 :: "int \<Rightarrow> bool" where
  "in_s32 n \<longleftrightarrow> INT_MIN \<le> n \<and> n \<le> INT_MAX"

definition chk32 :: "int \<Rightarrow> int option" where
  "chk32 n = (if in_s32 n then Some n else None)"

definition add32 :: "int \<Rightarrow> int \<Rightarrow> int option" where
  "add32 a b = chk32 (a + b)"

definition sub32 :: "int \<Rightarrow> int \<Rightarrow> int option" where
  "sub32 a b = chk32 (a - b)"

definition mul32 :: "int \<Rightarrow> int \<Rightarrow> int option" where
  "mul32 a b = chk32 (a * b)"

definition neg32 :: "int \<Rightarrow> int option" where
  "neg32 a = chk32 (- a)"

text \<open>C++ division truncates towards zero.\<close>

definition trunc_div :: "int \<Rightarrow> int \<Rightarrow> int" where
  "trunc_div a b = sgn a * sgn b * (\<bar>a\<bar> div \<bar>b\<bar>)"

definition div32 :: "int \<Rightarrow> int \<Rightarrow> int option" where
  "div32 a b = (if b = 0 then None else chk32 (trunc_div a b))"

definition abs32 :: "int \<Rightarrow> int option" where
  "abs32 a = chk32 \<bar>a\<bar>"

lemmas s32_limits [simp] = INT_MAX_def INT_MIN_def

lemma chk32_eq_Some [simp]: "chk32 n = Some m \<longleftrightarrow> in_s32 n \<and> m = n"
  by (auto simp: chk32_def)

lemma chk32_in_range [simp]: "in_s32 n \<Longrightarrow> chk32 n = Some n"
  by (simp add: chk32_def)

lemma chk32_eq_None [simp]: "chk32 n = None \<longleftrightarrow> \<not> in_s32 n"
  by (simp add: chk32_def)

lemma in_s32_iff: "in_s32 n \<longleftrightarrow> - 2147483648 \<le> n \<and> n \<le> 2147483647"
  by (simp add: in_s32_def)

declare add32_def [checked_arith] sub32_def [checked_arith] mul32_def [checked_arith]
  neg32_def [checked_arith] div32_def [checked_arith] abs32_def [checked_arith]

lemma trunc_div_nonneg: "0 \<le> a \<Longrightarrow> 0 < b \<Longrightarrow> trunc_div a b = a div b"
  by (cases "a = 0") (simp_all add: trunc_div_def)

lemma div_nonneg_le:
  fixes a b :: int
  assumes "0 \<le> a" "0 < b"
  shows "a div b \<le> a"
proof -
  have "a div b \<le> a div 1" using assms by (intro zdiv_mono2) auto
  then show ?thesis by simp
qed

lemma trunc_div_half_range:
  assumes "0 < d" and "d \<le> INT_MAX"
  shows "div32 d 2 = Some (d div 2)"
proof -
  have "0 \<le> d div 2" "d div 2 \<le> d" using assms by auto
  then show ?thesis using assms by (simp add: div32_def trunc_div_nonneg in_s32_def)
qed

lemma div32_nonneg:
  assumes "0 \<le> a" "a \<le> INT_MAX" "0 < b"
  shows "div32 a b = Some (a div b)"
proof -
  have "a div b \<le> a" using assms by (intro div_nonneg_le)
  moreover have "0 \<le> a div b" using assms by (simp add: pos_imp_zdiv_nonneg_iff)
  ultimately show ?thesis using assms by (simp add: div32_def trunc_div_nonneg in_s32_def)
qed

section \<open>Win32 structures\<close>

record rect =
  left :: int
  top :: int
  right :: int
  bottom :: int

record point =
  px :: int
  py :: int

record size2 =
  cx :: int
  cy :: int

definition zero_rect :: rect where
  "zero_rect = \<lparr>left = 0, top = 0, right = 0, bottom = 0\<rparr>"

definition rect_width :: "rect \<Rightarrow> int option" where
  "rect_width r = sub32 (right r) (left r)"

definition rect_height :: "rect \<Rightarrow> int option" where
  "rect_height r = sub32 (bottom r) (top r)"

text \<open>Window handles; \<open>NULL\<close> names no window.\<close>

type_synonym hwnd = nat

definition NULL :: hwnd where "NULL = 0"

section \<open>Lists and options\<close>

lemma list_all_nth_iff: "(\<forall>x\<in>set xs. P x) \<longleftrightarrow> (\<forall>i<length xs. P (xs ! i))"
  by (metis in_set_conv_nth)

lemma bind_eq_SomeE:
  assumes "Option.bind m f = Some y"
  obtains x where "m = Some x" "f x = Some y"
  using assms by (cases m) auto

lemma find_SomeD: "find P xs = Some x \<Longrightarrow> x \<in> set xs \<and> P x"
  by (induction xs) (auto split: if_splits)

lemma map_of_update_other: "k \<noteq> k' \<Longrightarrow> (m(k \<mapsto> v)) k' = m k'"
  by simp

end
