(* ===== verification/Rounding.thy ===== *)
theory Rounding
  imports Prelude
begin

text \<open>
  \<open>MiniViewsLib/Math.cpp\<close>: \<open>RoundedQuotient\<close>, the rounding division behind every aspect-ratio
  computation of the program. The model keeps the four sign branches of the source and its
  \<open>int\<close> arithmetic; the specification is rounding to nearest with halves away from zero.
\<close>

definition RoundedQuotient :: "int \<Rightarrow> int \<Rightarrow> int option" where
  "RoundedQuotient dividend divisor =
     (if divisor > 0 then
        (if dividend > 0 then
           do { half \<leftarrow> div32 divisor 2; s \<leftarrow> add32 dividend half; div32 s divisor }
         else if dividend < 0 then
           do { nd \<leftarrow> neg32 dividend; half \<leftarrow> div32 divisor 2; s \<leftarrow> add32 nd half;
                q \<leftarrow> div32 s divisor; neg32 q }
         else Some 0)
      else if divisor < 0 then
        (if dividend > 0 then
           do { nv \<leftarrow> neg32 divisor; half \<leftarrow> div32 nv 2; s \<leftarrow> add32 dividend half;
                q \<leftarrow> div32 s nv; neg32 q }
         else if dividend < 0 then
           do { nd \<leftarrow> neg32 dividend; nv \<leftarrow> neg32 divisor; half \<leftarrow> div32 nv 2;
                s \<leftarrow> add32 nd half; div32 s nv }
         else Some 0)
      else Some 0)"

text \<open>Rounding to the nearest integer, halves away from zero.\<close>

definition round_half_away :: "int \<Rightarrow> int \<Rightarrow> int" where
  "round_half_away n d = sgn n * sgn d * ((2 * \<bar>n\<bar> + \<bar>d\<bar>) div (2 * \<bar>d\<bar>))"

section \<open>The positive branch\<close>

lemma half_up_div:
  fixes n d :: int
  assumes "0 \<le> n" "0 < d"
  shows "(n + d div 2) div d = (2 * n + d) div (2 * d)"
proof -
  have "(2 * n + d) div (2 * d) = ((2 * n + d) div 2) div d"
    using assms by (intro zdiv_zmult2_eq) simp
  moreover have "(2 * n + d) div 2 = n + d div 2" by simp
  ultimately show ?thesis by simp
qed

lemma RoundedQuotient_core:
  assumes "0 < n" "0 < d" "n \<le> INT_MAX" "d \<le> INT_MAX" "n + d div 2 \<le> INT_MAX"
  shows "do { half \<leftarrow> div32 d 2; s \<leftarrow> add32 n half; div32 s d } = Some ((2 * n + d) div (2 * d))"
proof -
  have pos: "0 \<le> d div 2" using assms by simp
  have "add32 n (d div 2) = Some (n + d div 2)"
    using assms pos by (simp add: add32_def in_s32_def)
  moreover have "div32 (n + d div 2) d = Some ((n + d div 2) div d)"
    using assms pos by (intro div32_nonneg) auto
  ultimately show ?thesis
    using assms by (simp add: trunc_div_half_range half_up_div)
qed

lemma RoundedQuotient_core_None:
  assumes "0 < n" "0 < d" "d \<le> INT_MAX" "\<not> n + d div 2 \<le> INT_MAX"
  shows "add32 n (d div 2) = None"
  using assms by (simp add: add32_def in_s32_def)

lemma rounded_core_bounds:
  fixes n d :: int
  assumes "0 < n" "0 < d"
  shows "0 \<le> (2 * n + d) div (2 * d)" and "(2 * n + d) div (2 * d) \<le> n + d div 2"
proof -
  show "0 \<le> (2 * n + d) div (2 * d)" using assms by (simp add: pos_imp_zdiv_nonneg_iff)
  have "(n + d div 2) div d \<le> n + d div 2" using assms by (intro div_nonneg_le) auto
  then show "(2 * n + d) div (2 * d) \<le> n + d div 2" using assms by (simp add: half_up_div)
qed

lemma RoundedQuotient_pos:
  assumes "0 < n" "0 < d" "n \<le> INT_MAX" "d \<le> INT_MAX"
  shows "(do { half \<leftarrow> div32 d 2; s \<leftarrow> add32 n half; div32 s d })
    = (if n + d div 2 \<le> INT_MAX then Some (round_half_away n d) else None)"
  using assms RoundedQuotient_core [of n d] RoundedQuotient_core_None [of n d]
  by (simp add: round_half_away_def trunc_div_half_range del: s32_limits)

lemma round_half_away_range:
  assumes "n \<noteq> 0" "d \<noteq> 0" "\<bar>n\<bar> + \<bar>d\<bar> div 2 \<le> INT_MAX"
  shows "\<bar>round_half_away n d\<bar> \<le> INT_MAX"
  using assms rounded_core_bounds [of "\<bar>n\<bar>" "\<bar>d\<bar>"]
  by (simp add: round_half_away_def abs_mult)

section \<open>The whole function\<close>

definition rounding_defined :: "int \<Rightarrow> int \<Rightarrow> bool" where
  "rounding_defined n d \<longleftrightarrow> n = 0 \<or> d = 0 \<or>
     (\<bar>n\<bar> \<le> INT_MAX \<and> \<bar>d\<bar> \<le> INT_MAX \<and> \<bar>n\<bar> + \<bar>d\<bar> div 2 \<le> INT_MAX)"

lemma round_half_away_zero [simp]: "round_half_away 0 d = 0" "round_half_away n 0 = 0"
  by (simp_all add: round_half_away_def)

lemma round_half_away_minus:
  "round_half_away (- n) d = - round_half_away n d"
  "round_half_away n (- d) = - round_half_away n d"
  by (simp_all add: round_half_away_def)

lemma neg32_defined: "\<bar>a\<bar> \<le> INT_MAX \<Longrightarrow> neg32 a = Some (- a)"
  by (auto simp: neg32_def in_s32_def)

lemma neg32_undefined: "in_s32 a \<Longrightarrow> \<not> \<bar>a\<bar> \<le> INT_MAX \<Longrightarrow> neg32 a = None"
  by (auto simp: neg32_def in_s32_def)

lemma RoundedQuotient_neg_result:
  assumes "0 < n" "0 < d" "n \<le> INT_MAX" "d \<le> INT_MAX"
  shows "(do { half \<leftarrow> div32 d 2; s \<leftarrow> add32 n half; q \<leftarrow> div32 s d; neg32 q })
    = (if n + d div 2 \<le> INT_MAX then Some (- round_half_away n d) else None)"
proof -
  let ?q = "do { half \<leftarrow> div32 d 2; s \<leftarrow> add32 n half; div32 s d }"
  have "neg32 (round_half_away n d) = Some (- round_half_away n d)" if "n + d div 2 \<le> INT_MAX"
    using assms that round_half_away_range [of n d] by (intro neg32_defined) simp
  then have "Option.bind ?q neg32
      = (if n + d div 2 \<le> INT_MAX then Some (- round_half_away n d) else None)"
    unfolding RoundedQuotient_pos [OF assms] by (simp del: s32_limits)
  then show ?thesis by simp
qed

lemma RoundedQuotient_value:
  assumes "in_s32 n" "in_s32 d"
  shows "RoundedQuotient n d = (if rounding_defined n d then Some (round_half_away n d) else None)"
proof (cases "n = 0 \<or> d = 0")
  case True
  then show ?thesis by (auto simp: RoundedQuotient_def rounding_defined_def)
next
  case False
  note sgns = round_half_away_minus
  show ?thesis
  proof (cases "\<bar>n\<bar> \<le> INT_MAX \<and> \<bar>d\<bar> \<le> INT_MAX")
    case True
    then have "neg32 n = Some (- n)" "neg32 d = Some (- d)" by (simp_all add: neg32_defined)
    with True False RoundedQuotient_pos [of "\<bar>n\<bar>" "\<bar>d\<bar>"] RoundedQuotient_neg_result [of "\<bar>n\<bar>" "\<bar>d\<bar>"]
    show ?thesis
      by (cases "n > 0"; cases "d > 0")
        (simp_all add: RoundedQuotient_def rounding_defined_def sgns del: s32_limits)
  next
    case undefd: False
    then have "\<not> \<bar>n\<bar> \<le> INT_MAX \<or> \<not> \<bar>d\<bar> \<le> INT_MAX" by blast
    then have "neg32 n = None \<and> n < 0 \<or> neg32 d = None \<and> d < 0"
    proof
      assume "\<not> \<bar>n\<bar> \<le> INT_MAX"
      with assms(1) show ?thesis using neg32_undefined [of n] by (auto simp: in_s32_def)
    next
      assume "\<not> \<bar>d\<bar> \<le> INT_MAX"
      with assms(2) show ?thesis using neg32_undefined [of d] by (auto simp: in_s32_def)
    qed
    with False have "RoundedQuotient n d = None"
      by (cases "neg32 n") (auto simp: RoundedQuotient_def)
    with False undefd show ?thesis by (auto simp: rounding_defined_def)
  qed
qed

text \<open>
  On 32-bit arguments \<open>RoundedQuotient\<close> is rounding to the nearest integer with
  halves away from zero in all four sign combinations, 0 for a zero dividend or divisor, and
  the only arguments on which its \<open>int\<close> arithmetic overflows are those outside
  \<open>rounding_defined\<close>.
\<close>

theorem RoundedQuotient_correct:
  assumes "in_s32 n" "in_s32 d"
  shows "RoundedQuotient n d = (if rounding_defined n d then Some (round_half_away n d) else None)"
  using assms by (rule RoundedQuotient_value)

theorem RoundedQuotient_correct_witness:
  "RoundedQuotient 7 (-2) = Some (-4) \<and> RoundedQuotient 2147483647 2 = None"
  using RoundedQuotient_correct [of 7 "-2"] RoundedQuotient_correct [of 2147483647 2]
  by (simp add: in_s32_def rounding_defined_def round_half_away_def)

section \<open>What the callers use\<close>

lemma remainder_centred:
  fixes p a b m :: int
  assumes "2 * p + m = 2 * a + b" "0 \<le> m" "m < 2 * b"
  shows "2 * \<bar>p - a\<bar> \<le> b"
proof (cases "a \<le> p")
  case True
  with assms show ?thesis by simp
next
  case False
  with assms show ?thesis by simp
qed

lemma round_half_away_nearest:
  assumes "d \<noteq> 0"
  shows "2 * \<bar>round_half_away n d * d - n\<bar> \<le> \<bar>d\<bar>"
proof -
  let ?N = "2 * \<bar>n\<bar> + \<bar>d\<bar>" and ?D = "2 * \<bar>d\<bar>"
  let ?q = "?N div ?D"
  have "?q * ?D + ?N mod ?D = ?N" by (rule div_mult_mod_eq)
  then have "2 * (?q * \<bar>d\<bar>) + ?N mod ?D = 2 * \<bar>n\<bar> + \<bar>d\<bar>" by (simp add: mult.left_commute)
  then have "2 * \<bar>?q * \<bar>d\<bar> - \<bar>n\<bar>\<bar> \<le> \<bar>d\<bar>"
    using assms pos_mod_sign [of ?D ?N] pos_mod_bound [of ?D ?N]
    by (intro remainder_centred [of _ "?N mod ?D"]) simp_all
  moreover have "round_half_away n d * d - n = sgn n * (?q * \<bar>d\<bar> - \<bar>n\<bar>)"
  proof -
    have "round_half_away n d * d - n = sgn n * (?q * (sgn d * d)) - sgn n * \<bar>n\<bar>"
      by (simp add: round_half_away_def algebra_simps) (simp add: abs_sgn mult.left_commute)
    also have "sgn d * d = \<bar>d\<bar>" by (simp add: abs_sgn mult.commute)
    finally show ?thesis by (simp add: algebra_simps)
  qed
  ultimately show ?thesis by (cases "n = 0") (simp_all add: abs_mult)
qed

lemma round_half_away_exact:
  assumes "d \<noteq> 0"
  shows "round_half_away (k * d) d = k"
proof -
  let ?e = "round_half_away (k * d) d - k"
  have "2 * \<bar>?e * d\<bar> \<le> \<bar>d\<bar>"
    using round_half_away_nearest [OF assms, of "k * d"] by (simp add: left_diff_distrib)
  then have "(2 * \<bar>?e\<bar>) * \<bar>d\<bar> \<le> 1 * \<bar>d\<bar>" by (simp add: abs_mult mult.assoc)
  moreover have "0 < \<bar>d\<bar>" using assms by simp
  ultimately have "2 * \<bar>?e\<bar> \<le> 1" using mult_le_cancel_right_pos by blast
  then have "?e = 0" by arith
  then show ?thesis by simp
qed

lemma round_half_away_mono_pos:
  assumes "0 < d" "0 \<le> n" "n \<le> m * d" "0 \<le> m"
  shows "0 \<le> round_half_away n d \<and> round_half_away n d \<le> m"
proof -
  have "(2 * n + d) div (2 * d) \<le> (2 * (m * d) + d) div (2 * d)"
    using assms by (intro zdiv_mono1) auto
  also have "\<dots> = (m * d + d div 2) div d"
    using assms by (intro half_up_div [symmetric]) auto
  also have "\<dots> = m" using assms by simp
  finally show ?thesis
    using assms by (cases "n = 0") (simp_all add: round_half_away_def pos_imp_zdiv_nonneg_iff)
qed

end
