(* ===== verification/Zerocmp.thy ===== *)
theory Zerocmp
  imports Prelude
begin

text \<open>
  \<open>MiniViewsLib/Zerocmp.cpp\<close>: \<open>isAllZero\<close> and \<open>isAllSame\<close>, which decide whether a captured
  bitmap is blank by comparing ever smaller halves of the pixel vector with \<open>memcmp\<close>. The
  loops are kept as loops over \<open>remaining\<close>; the specification is the obvious one-pass test.
\<close>

text \<open>\<open>memcmp(&data[0], &data[n], 4*n) != 0\<close> on 32-bit elements.\<close>

definition memcmp_halves_differ :: "u32 list \<Rightarrow> nat \<Rightarrow> bool" where
  "memcmp_halves_differ data n \<longleftrightarrow> take n data \<noteq> take n (drop n data)"

text \<open>The loop the two functions share, up to the value the odd last element is compared with.\<close>

function halving_loop :: "u32 \<Rightarrow> u32 list \<Rightarrow> nat \<Rightarrow> bool" where
  "halving_loop value data remaining =
     (if remaining > 1 then
        if remaining mod 2 > 0 \<and> data ! (remaining - 1) \<noteq> value then False
        else if memcmp_halves_differ data (remaining div 2) then False
        else halving_loop value data (remaining div 2)
      else True)"
  by pat_completeness auto
termination
  by (relation "measure (\<lambda>(v, d, r). r)") auto

declare halving_loop.simps [simp del]

definition isAllZero :: "u32 list \<Rightarrow> bool" where
  "isAllZero vec =
     (if vec = [] \<or> vec ! 0 \<noteq> 0 then False else halving_loop 0 vec (length vec))"

definition isAllSame :: "u32 list \<Rightarrow> bool" where
  "isAllSame vec =
     (if vec = [] then False else halving_loop (vec ! 0) vec (length vec))"

text \<open>
  One round: the first \<open>r\<close> elements are all equal to the first one exactly when the first
  half is, the two halves agree, and (for an odd \<open>r\<close>) the last element agrees.
\<close>

lemma halves_agree_iff:
  assumes "n + n \<le> length data"
  shows "\<not> memcmp_halves_differ data n \<longleftrightarrow> (\<forall>i<n. data ! i = data ! (n + i))"
  using assms by (auto simp: memcmp_halves_differ_def list_eq_iff_nth_eq)

lemma halving_round:
  assumes "1 < r" "r \<le> length data" "data ! 0 = v"
  shows "(\<forall>i<r. data ! i = v) \<longleftrightarrow>
    (r mod 2 > 0 \<longrightarrow> data ! (r - 1) = v) \<and> \<not> memcmp_halves_differ data (r div 2) \<and>
    (\<forall>i<r div 2. data ! i = v)"
proof -
  have agree: "\<not> memcmp_halves_differ data (r div 2) \<longleftrightarrow> (\<forall>i<r div 2. data ! i = data ! (r div 2 + i))"
    using assms by (intro halves_agree_iff) simp
  show ?thesis
  proof
    assume all: "\<forall>i<r. data ! i = v"
    moreover have "r div 2 + i < r" if "i < r div 2" for i using that by simp
    ultimately show "(r mod 2 > 0 \<longrightarrow> data ! (r - 1) = v) \<and> \<not> memcmp_halves_differ data (r div 2) \<and>
        (\<forall>i<r div 2. data ! i = v)"
      using assms agree by auto
  next
    assume h: "(r mod 2 > 0 \<longrightarrow> data ! (r - 1) = v) \<and> \<not> memcmp_halves_differ data (r div 2) \<and>
        (\<forall>i<r div 2. data ! i = v)"
    show "\<forall>i<r. data ! i = v"
    proof (intro allI impI)
      fix i assume "i < r"
      have "2 * (r div 2) + r mod 2 = r" by simp
      moreover have "r mod 2 < 2" by simp
      ultimately have "i < 2 * (r div 2) \<or> i = r - 1 \<and> r mod 2 > 0"
        using \<open>i < r\<close> by linarith
      then consider "i < r div 2" | "r div 2 \<le> i" "i < 2 * (r div 2)" | "i = r - 1" "r mod 2 > 0"
        by linarith
      then show "data ! i = v"
      proof cases
        case 2
        then have "i - r div 2 < r div 2" by simp
        with h agree have "data ! (i - r div 2) = data ! i" using 2 by fastforce
        with h \<open>i - r div 2 < r div 2\<close> show ?thesis by auto
      qed (use h in auto)
    qed
  qed
qed

lemma halving_loop_iff:
  assumes "r \<le> length data" "data ! 0 = v"
  shows "halving_loop v data r \<longleftrightarrow> (\<forall>i<r. data ! i = v)"
  using assms
proof (induction v data r rule: halving_loop.induct)
  case (1 v data r)
  show ?case
  proof (cases "1 < r")
    case True
    with 1 halving_round [of r data v] show ?thesis
      by (subst halving_loop.simps) auto
  next
    case False
    then have "r = 0 \<or> r = 1" by auto
    with 1 show ?thesis by (subst halving_loop.simps) auto
  qed
qed

lemma set_singleton_iff: "set xs = {v} \<longleftrightarrow> xs \<noteq> [] \<and> (\<forall>i<length xs. xs ! i = v)"
proof -
  have "set xs = {v} \<longleftrightarrow> xs \<noteq> [] \<and> (\<forall>x\<in>set xs. x = v)" by (cases xs) auto
  then show ?thesis by (simp only: list_all_nth_iff)
qed

text \<open>
  \<open>isAllZero\<close> answers true exactly for a non-empty vector whose elements are
  all zero, for vectors of every length (odd and even rounds included).
\<close>

theorem isAllZero_correct: "isAllZero vec \<longleftrightarrow> vec \<noteq> [] \<and> set vec = {0}"
proof (cases "vec = []")
  case False
  show ?thesis
  proof (cases "vec ! 0 = 0")
    case True
    with False have "isAllZero vec \<longleftrightarrow> (\<forall>i<length vec. vec ! i = 0)"
      by (simp add: isAllZero_def halving_loop_iff)
    with False show ?thesis by (simp add: set_singleton_iff)
  next
    case ne: False
    have "vec ! 0 \<in> set vec" using False by simp
    with ne have "set vec \<noteq> {0}" by auto
    with ne False show ?thesis by (simp add: isAllZero_def)
  qed
qed (simp add: isAllZero_def)

text \<open>
  Property C37: \<open>isAllSame\<close> answers true exactly when the vector is non-empty and holds one
  value only; a captured image is valid when this test is false.
\<close>

theorem isAllSame_correct: "isAllSame vec \<longleftrightarrow> (\<exists>v. set vec = {v})"
proof (cases "vec = []")
  case False
  then have "isAllSame vec \<longleftrightarrow> (\<forall>i<length vec. vec ! i = vec ! 0)"
    by (simp add: isAllSame_def halving_loop_iff)
  also have "\<dots> \<longleftrightarrow> set vec = {vec ! 0}"
    using False by (simp only: set_singleton_iff simp_thms)
  also have "\<dots> \<longleftrightarrow> (\<exists>v. set vec = {v})"
  proof -
    have "vec ! 0 \<in> set vec" using False by simp
    then have "v = vec ! 0" if "set vec = {v}" for v using that by auto
    then show ?thesis by metis
  qed
  finally show ?thesis .
qed (simp add: isAllSame_def)

end
