(* ===== verification/Decimal.thy ===== *)
theory Decimal
  imports Prelude
begin

text \<open>
  The decimal conversions of the C++ standard library that the program calls:
  \<open>std::to_string\<close> on unsigned numbers, and \<open>std::stoi\<close> (leading white space, an optional sign,
  a non-empty run of digits, everything after it ignored). Their round trip is what the version
  strings and the registry-backed edit boxes rest on.
\<close>

datatype str_exn = Invalid_argument | Out_of_range

definition isspace :: "char \<Rightarrow> bool" where
  "isspace c \<longleftrightarrow> (of_char c :: nat) = 32 \<or> 9 \<le> (of_char c :: nat) \<and> (of_char c :: nat) \<le> 13"

definition isdigit :: "char \<Rightarrow> bool" where
  "isdigit c \<longleftrightarrow> 48 \<le> (of_char c :: nat) \<and> (of_char c :: nat) \<le> 57"

definition digit_char :: "nat \<Rightarrow> char" where
  "digit_char d = char_of (48 + d)"

definition digit_value :: "char \<Rightarrow> nat" where
  "digit_value c = of_char c - 48"

fun to_string :: "nat \<Rightarrow> string" where
  "to_string n = (if n < 10 then [digit_char n] else to_string (n div 10) @ [digit_char (n mod 10)])"

declare to_string.simps [simp del]

definition digits_value :: "string \<Rightarrow> nat" where
  "digits_value s = foldl (\<lambda>acc c. 10 * acc + digit_value c) 0 s"

definition stoi_unsigned :: "string \<Rightarrow> str_exn + int" where
  "stoi_unsigned s =
     (case takeWhile isdigit s of
        [] \<Rightarrow> Inl Invalid_argument
      | ds \<Rightarrow> Inr (int (digits_value ds)))"

definition stoi :: "string \<Rightarrow> str_exn + int" where
  "stoi s =
     (let body = dropWhile isspace s;
          negative = (body \<noteq> [] \<and> hd body = CHR ''-'');
          signless = (if body \<noteq> [] \<and> (hd body = CHR ''-'' \<or> hd body = CHR ''+'') then tl body else body)
      in case stoi_unsigned signless of
           Inl e \<Rightarrow> Inl e
         | Inr v \<Rightarrow> (let r = (if negative then - v else v)
                    in if in_s32 r then Inr r else Inl Out_of_range))"

text \<open>\<open>std::string::substr(pos, n)\<close> throws when \<open>pos\<close> is past the end.\<close>

definition substr :: "string \<Rightarrow> nat \<Rightarrow> nat \<Rightarrow> str_exn + string" where
  "substr s pos n = (if length s < pos then Inl Out_of_range else Inr (take n (drop pos s)))"

section \<open>Digits\<close>

lemma of_char_digit: "d < 10 \<Longrightarrow> (of_char (digit_char d) :: nat) = 48 + d"
  by (simp add: digit_char_def)

lemma digit_char_props:
  assumes "d < 10"
  shows "isdigit (digit_char d)" "digit_value (digit_char d) = d" "\<not> isspace (digit_char d)"
    "digit_char d \<noteq> CHR ''-''" "digit_char d \<noteq> CHR ''+''"
  using assms of_char_digit [OF assms]
  by (auto simp: isdigit_def digit_value_def isspace_def)

lemma not_isdigit_colon: "\<not> isdigit (CHR '':'')" and not_isdigit_blank: "\<not> isdigit (CHR '' '')"
  by (simp_all add: isdigit_def)

lemma isspace_blank: "isspace (CHR '' '')"
  by (simp add: isspace_def)

lemma to_string_digits: "list_all isdigit (to_string n)"
proof (induction n rule: to_string.induct)
  case (1 n)
  then show ?case
    by (subst to_string.simps) (auto simp: digit_char_props)
qed

lemma to_string_nonempty: "to_string n \<noteq> []"
  by (subst to_string.simps) simp

lemma digits_value_snoc: "digits_value (s @ [c]) = 10 * digits_value s + digit_value c"
  by (simp add: digits_value_def)

lemma digits_value_zero_Cons: "digits_value (CHR ''0'' # s) = digits_value s"
  by (simp add: digits_value_def digit_value_def)

lemma digits_value_to_string: "digits_value (to_string n) = n"
proof (induction n rule: to_string.induct)
  case (1 n)
  show ?case
  proof (cases "n < 10")
    case True
    then show ?thesis
      by (subst to_string.simps) (simp add: digits_value_def digit_char_props)
  next
    case False
    with 1 show ?thesis
      by (subst to_string.simps) (simp add: digits_value_snoc digit_char_props)
  qed
qed

lemma hd_to_string: "isdigit (hd (to_string n))"
  using to_string_digits [of n] to_string_nonempty [of n] by (cases "to_string n") auto

lemma isdigit_not_space: "isdigit c \<Longrightarrow> \<not> isspace c"
  by (auto simp: isdigit_def isspace_def)

lemma isdigit_not_sign: "isdigit c \<Longrightarrow> c \<noteq> CHR ''-'' \<and> c \<noteq> CHR ''+''"
  by (auto simp: isdigit_def)

section \<open>stoi on a run of digits\<close>

lemma takeWhile_digits_append:
  assumes "list_all isdigit ds" "rest = [] \<or> \<not> isdigit (hd rest)"
  shows "takeWhile isdigit (ds @ rest) = ds"
  using assms by (induction ds) (auto simp: takeWhile_eq_Nil_iff)

lemma stoi_digits:
  assumes "list_all isdigit ds" "ds \<noteq> []" "rest = [] \<or> \<not> isdigit (hd rest)"
    "list_all isspace ws" "int (digits_value ds) \<le> INT_MAX"
  shows "stoi (ws @ ds @ rest) = Inr (int (digits_value ds))"
proof -
  obtain d ds' where ds: "ds = d # ds'" using assms(2) by (cases ds) auto
  with assms(1) have d: "isdigit d" by simp
  have "dropWhile isspace (ws @ ds @ rest) = ds @ rest"
    using assms(4) d by (induction ws) (auto simp: ds isdigit_not_space)
  moreover have "takeWhile isdigit (ds @ rest) = ds"
    using assms by (intro takeWhile_digits_append) auto
  ultimately show ?thesis
    using assms(5) isdigit_not_sign [OF d] ds
    by (simp add: stoi_def stoi_unsigned_def Let_def in_s32_def)
qed

text \<open>
  \<open>std::stoi\<close> reads back what \<open>std::to_string\<close> printed, whatever white space
  precedes it and whatever non-digit text follows.
\<close>

theorem stoi_to_string:
  assumes "int n \<le> INT_MAX" "list_all isspace ws" "rest = [] \<or> \<not> isdigit (hd rest)"
  shows "stoi (ws @ to_string n @ rest) = Inr (int n)"
  using assms stoi_digits [of "to_string n" rest ws]
  by (simp add: to_string_digits to_string_nonempty digits_value_to_string)

theorem stoi_to_string_witness: "stoi (''  '' @ to_string 2024 @ '':30'') = Inr 2024"
  by (rule stoi_to_string [where n = 2024, simplified]) (simp_all add: isspace_def isdigit_def)

end
