(* ===== verification/Version_Info.thy ===== *)
theory Version_Info
  imports Decimal
begin

text \<open>
  \<open>MiniViewsLib/Version\<close>: the version strings. \<open>__DATE__\<close> and \<open>__TIME__\<close>, which the compiler
  supplies, are arguments. A failing conversion or \<open>substr\<close> throws, here \<open>Inl\<close>. The sums are
  computed in \<open>int\<close> and converted to \<open>u16\<close> on return.
\<close>

section \<open>Definitions\<close>

definition MajorVersionNumber :: u16 where "MajorVersionNumber = 1"
definition MinorVersionNumber :: u16 where "MinorVersionNumber = 11"

definition sMonths :: "string list" where
  "sMonths = [''Jan'', ''Feb'', ''Mar'', ''Apr'', ''May'', ''Jun'', ''Jul'', ''Aug'', ''Sep'', ''Oct'', ''Nov'', ''Dec'']"

text \<open>The search loop: the first index with that name, else 0.\<close>

fun month_from :: "string \<Rightarrow> string list \<Rightarrow> u16 \<Rightarrow> u16" where
  "month_from s [] i = 0"
| "month_from s (m # ms) i = (if s = m then i else month_from s ms (i + 1))"

definition seq :: "'e + 'a \<Rightarrow> ('a \<Rightarrow> 'e + 'b) \<Rightarrow> 'e + 'b" where
  "seq x f = (case x of Inl e \<Rightarrow> Inl e | Inr a \<Rightarrow> f a)"

text \<open>\<open>(u16)std::stoi(s.substr(pos, n))\<close>\<close>

definition number_at :: "string \<Rightarrow> nat \<Rightarrow> nat \<Rightarrow> str_exn + u16" where
  "number_at s pos n = seq (substr s pos n) (\<lambda>t. seq (stoi t) (\<lambda>v. Inr (word_of_int v)))"

definition GetDateShort :: "string \<Rightarrow> str_exn + u16" where
  "GetDateShort sDate =
     seq (substr sDate 0 3) (\<lambda>sMonth.
     seq (number_at sDate 4 2) (\<lambda>day.
     seq (number_at sDate 7 4) (\<lambda>year.
       Inr (word_of_int (384 * (uint year - 2000) + 32 * uint (month_from sMonth sMonths 0) + uint day)))))"

definition GetTimeShort :: "string \<Rightarrow> str_exn + u16" where
  "GetTimeShort sTime =
     seq (number_at sTime 0 2) (\<lambda>hour.
     seq (number_at sTime 3 2) (\<lambda>minute.
     seq (number_at sTime 6 2) (\<lambda>second.
       Inr (word_of_int (3600 * uint hour + 60 * uint minute + uint second)))))"

definition GetShortVersionString :: string where
  "GetShortVersionString =
     to_string (unat MajorVersionNumber) @ ''.'' @
     (if MinorVersionNumber < 10 then ''0'' @ to_string (unat MinorVersionNumber)
      else to_string (unat MinorVersionNumber))"

definition GetFullVersionString :: "string \<Rightarrow> string \<Rightarrow> str_exn + string" where
  "GetFullVersionString sDate sTime =
     seq (GetDateShort sDate) (\<lambda>d. seq (GetTimeShort sTime) (\<lambda>t.
       Inr (to_string (unat MajorVersionNumber) @ ''.'' @
         (if MinorVersionNumber < 10 then ''0'' @ to_string (unat MinorVersionNumber)
          else to_string (unat MinorVersionNumber)) @ ''.'' @
         to_string (unat d) @ ''.'' @ to_string (unat t))))"

section \<open>The compiler's formats\<close>

text \<open>\<open>Mmm dd yyyy\<close> with a blank before a one-digit day, and \<open>hh:mm:ss\<close>.\<close>

definition date_text :: "nat \<Rightarrow> nat \<Rightarrow> nat \<Rightarrow> string" where
  "date_text month day year =
     sMonths ! month @ '' '' @ (if day < 10 then '' '' else []) @ to_string day @ '' '' @ to_string year"

definition two_digits :: "nat \<Rightarrow> string" where
  "two_digits n = [digit_char (n div 10), digit_char (n mod 10)]"

definition time_text :: "nat \<Rightarrow> nat \<Rightarrow> nat \<Rightarrow> string" where
  "time_text h m s = two_digits h @ '':'' @ two_digits m @ '':'' @ two_digits s"

lemma seq_Inr [simp]: "seq (Inr a) f = f a"
  by (simp add: seq_def)

lemma to_string_lt_10: "n < 10 \<Longrightarrow> to_string n = [digit_char n]"
  by (subst to_string.simps) simp

lemma length_to_string: "n < 10 \<Longrightarrow> length (to_string n) = 1"
  "10 \<le> n \<Longrightarrow> length (to_string n) = Suc (length (to_string (n div 10)))"
  by (simp add: to_string_lt_10) (subst to_string.simps, simp)

lemma length_year: "1000 \<le> n \<Longrightarrow> n < 10000 \<Longrightarrow> length (to_string n) = 4"
  by (simp add: length_to_string)

lemma stoi_number: "int n \<le> INT_MAX \<Longrightarrow> stoi (to_string n) = Inr (int n)"
  using stoi_digits [of "to_string n" "[]" "[]"]
  by (simp add: to_string_digits to_string_nonempty digits_value_to_string)

lemma stoi_blank_number: "int n \<le> INT_MAX \<Longrightarrow> stoi (CHR '' '' # to_string n) = Inr (int n)"
  using stoi_digits [of "to_string n" "[]" "'' ''"]
  by (simp add: to_string_digits to_string_nonempty digits_value_to_string isspace_blank)

lemma stoi_two_digits:
  assumes "n < 100"
  shows "stoi (two_digits n) = Inr (int n)"
proof -
  have "list_all isdigit (two_digits n)" "digits_value (two_digits n) = n"
    using assms by (auto simp: two_digits_def digit_char_props digits_value_def)
  with stoi_digits [of "two_digits n" "[]" "[]"] assms show ?thesis by (simp add: two_digits_def)
qed

lemma months_are_found:
  assumes "m < 12"
  shows "length (sMonths ! m) = 3" "uint (month_from (sMonths ! m) sMonths 0) = int m"
proof -
  have "list_all (\<lambda>m. length (sMonths ! m) = 3 \<and> uint (month_from (sMonths ! m) sMonths 0) = int m) [0..<12]"
    by code_simp
  with assms show "length (sMonths ! m) = 3" "uint (month_from (sMonths ! m) sMonths 0) = int m"
    by (auto simp: list_all_iff)
qed

lemma uint_small_u16: "n < 65536 \<Longrightarrow> uint (word_of_int (int n) :: u16) = int n"
  by (simp add: unsigned_of_nat take_bit_nat_eq_self)

lemma two_elements: "length xs = 2 \<Longrightarrow> \<exists>a b. xs = [a, b]"
  by (auto simp: numeral_2_eq_2 length_Suc_conv)

lemma date_numbers:
  assumes "m < 12" "1 \<le> d" "d \<le> 31" "1000 \<le> y" "y < 10000"
  shows "GetDateShort (date_text m d y) = Inr (word_of_int (384 * (int y - 2000) + 32 * int m + int d))"
proof -
  let ?day = "(if d < 10 then '' '' else []) @ to_string d"
  have day: "length ?day = 2" "stoi ?day = Inr (int d)"
    using assms(2,3) stoi_blank_number [of d] stoi_number [of d] by (auto simp: length_to_string)
  have split: "date_text m d y = sMonths ! m @ '' '' @ ?day @ '' '' @ to_string y"
    by (simp add: date_text_def)
  have year: "stoi (to_string y) = Inr (int y)" using stoi_number [of y] assms(5) by simp
  note lengths = months_are_found(1) [OF assms(1)] day(1) length_year [OF assms(4,5)]
  obtain a b c where mon: "sMonths ! m = [a, b, c]"
    using lengths(1) by (auto simp: numeral_3_eq_3 length_Suc_conv)
  obtain e f where dd: "?day = [e, f]"
    using two_elements [OF day(1)] by blast
  have "substr (date_text m d y) 0 3 = Inr (sMonths ! m)"
    using mon by (simp add: split substr_def)
  moreover have "number_at (date_text m d y) 4 2 = Inr (word_of_int (int d))"
    using mon dd day(2) by (simp add: split number_at_def substr_def)
  moreover have "number_at (date_text m d y) 7 4 = Inr (word_of_int (int y))"
    using mon dd year lengths(3) by (simp add: split number_at_def substr_def)
  moreover have "month_from (sMonths ! m) sMonths 0 = word_of_nat m"
    using months_are_found(2) [OF assms(1)] by (metis of_int_of_nat_eq word_of_int_uint)
  ultimately show ?thesis
    using assms uint_small_u16 [of d] uint_small_u16 [of y]
    by (simp add: GetDateShort_def)
qed

lemma time_number:
  assumes "h < 24" "m < 60" "s < 60"
  shows "GetTimeShort (time_text h m s) = Inr (word_of_int (3600 * int h + 60 * int m + int s))"
proof -
  have "number_at (time_text h m s) 0 2 = Inr (word_of_int (int h))"
    "number_at (time_text h m s) 3 2 = Inr (word_of_int (int m))"
    "number_at (time_text h m s) 6 2 = Inr (word_of_int (int s))"
    using stoi_two_digits [of h] stoi_two_digits [of m] stoi_two_digits [of s] assms
    by (simp_all add: time_text_def number_at_def substr_def two_digits_def)
  with assms uint_small_u16 [of h] uint_small_u16 [of m] uint_small_u16 [of s] show ?thesis
    by (simp add: GetTimeShort_def)
qed

section \<open>Properties\<close>

text \<open>
  From 2000 to 2169 the short date of a date the compiler prints is
  \<open>384 * (year - 2000) + 32 * month + day\<close> with months counted from zero, without wrap-around, so
  a later date has a larger number.
\<close>

theorem date_short_orders_dates:
  assumes "m < 12" "1 \<le> d" "d \<le> 31" "2000 \<le> y" "y < 2170"
    and "m' < 12" "1 \<le> d'" "d' \<le> 31" "2000 \<le> y'" "y' < 2170"
  shows "\<exists>n n'. GetDateShort (date_text m d y) = Inr n \<and> GetDateShort (date_text m' d' y') = Inr n' \<and>
    unat n = 384 * (y - 2000) + 32 * m + d \<and>
    (n < n' \<longleftrightarrow> y < y' \<or> y = y' \<and> (m < m' \<or> m = m' \<and> d < d'))"
proof -
  have small: "unat (word_of_int (384 * (int y - 2000) + 32 * int m + int d) :: u16) = 384 * (y - 2000) + 32 * m + d"
    if "m < 12" "d \<le> 31" "2000 \<le> y" "y < 2170" for m d y :: nat
  proof -
    have "384 * (int y - 2000) + 32 * int m + int d = int (384 * (y - 2000) + 32 * m + d)" using that by simp
    moreover have "384 * (y - 2000) + 32 * m + d < 65536" using that by simp
    ultimately show ?thesis by (simp only: of_int_of_nat_eq unat_of_nat) simp
  qed
  show ?thesis
    using assms date_numbers [of m d y] date_numbers [of m' d' y'] small [of m d y] small [of m' d' y']
    by (auto simp: word_less_nat_alt)
qed

lemma date_short_orders_dates_witness:
  "\<exists>n. GetDateShort ''Jan  5 2024'' = Inr n \<and> unat n = 9221"
proof -
  have "date_text 0 5 2024 = ''Jan  5 2024''" by code_simp
  moreover have "\<exists>n n'. GetDateShort (date_text 0 5 2024) = Inr n \<and> GetDateShort (date_text 1 4 2024) = Inr n' \<and>
    unat n = 384 * (2024 - 2000) + 32 * 0 + 5 \<and>
    (n < n' \<longleftrightarrow> (2024::nat) < 2024 \<or> (2024::nat) = 2024 \<and> ((0::nat) < 1 \<or> (0::nat) = 1 \<and> (5::nat) < 4))"
    by (rule date_short_orders_dates) simp_all
  ultimately show ?thesis by auto
qed

text \<open>
  The short time is the second of the day modulo \<open>2 ^ 16\<close>, not the second of the day as
  the header says: two builds of one day that are 65536 seconds apart get the same version.
\<close>

theorem time_short_wraps:
  assumes "h < 24" "m < 60" "s < 60"
  shows "\<exists>n. GetTimeShort (time_text h m s) = Inr n \<and> unat n = (3600 * h + 60 * m + s) mod 65536"
proof -
  have "3600 * int h + 60 * int m + int s = int (3600 * h + 60 * m + s)" by simp
  then have "unat (word_of_int (3600 * int h + 60 * int m + int s) :: u16) = (3600 * h + 60 * m + s) mod 65536"
    by (simp only: of_int_of_nat_eq unat_of_nat) simp
  with time_number [OF assms] show ?thesis by simp
qed

lemma time_short_wraps_witness: "\<exists>n. GetTimeShort ''18:12:17'' = Inr n \<and> unat n = 1"
proof -
  have "time_text 18 12 17 = ''18:12:17''" by code_simp
  with time_short_wraps [of 18 12 17] show ?thesis by simp
qed

end
