(* ===== verification/Registry.thy ===== *)
theory Registry
  imports Prelude
begin

text \<open>
  \<open>MiniViewsLib/RegistryTypes\<close> and \<open>Preferences\<close>: settings kept in the Windows registry and
  cached in objects. The registry calls are the parameter \<open>'r reg_api\<close>, \<open>'r\<close> being the state of
  the registry; a query is given the bytes of the out parameter and returns what is in them
  afterwards, whether it succeeds or not.
\<close>

section \<open>The registry calls\<close>

type_synonym hkey = nat

definition HKEY_CURRENT_USER :: hkey where "HKEY_CURRENT_USER = 0x80000001"
definition ERROR_SUCCESS :: int where "ERROR_SUCCESS = 0"
definition ERROR_FILE_NOT_FOUND :: int where "ERROR_FILE_NOT_FOUND = 2"

record 'r reg_api =
  RegOpenKey :: "hkey \<Rightarrow> string \<Rightarrow> 'r \<Rightarrow> int"
  RegCreateKey :: "hkey \<Rightarrow> string \<Rightarrow> 'r \<Rightarrow> int \<times> 'r"
  RegDeleteKey :: "hkey \<Rightarrow> string \<Rightarrow> 'r \<Rightarrow> int \<times> 'r"
  RegQueryValue :: "hkey \<Rightarrow> string \<Rightarrow> string \<Rightarrow> u32 \<Rightarrow> 'r \<Rightarrow> int \<times> u32"
  RegSetValue :: "hkey \<Rightarrow> string \<Rightarrow> string \<Rightarrow> u32 \<Rightarrow> 'r \<Rightarrow> int \<times> 'r"
  RegDeleteValue :: "hkey \<Rightarrow> string \<Rightarrow> string \<Rightarrow> 'r \<Rightarrow> int \<times> 'r"
  SetLastError :: "int \<Rightarrow> 'r \<Rightarrow> 'r"

section \<open>Keys\<close>

record reg_key =
  keyExists :: bool
  keyRoot :: hkey
  keySubKey :: string

definition new_key :: "hkey \<Rightarrow> string \<Rightarrow> reg_key" where
  "new_key key subKey = \<lparr>keyExists = False, keyRoot = key, keySubKey = subKey\<rparr>"

text \<open>\<open>KeyExists\<close> and \<open>Clear\<close> look under \<open>HKEY_CURRENT_USER\<close>, whatever the key was made for.\<close>

definition KeyExists :: "'r reg_api \<Rightarrow> reg_key \<Rightarrow> 'r \<Rightarrow> bool" where
  "KeyExists A k r =
     (if \<not> keyExists k \<and> RegOpenKey A HKEY_CURRENT_USER (keySubKey k) r = ERROR_SUCCESS then True
      else keyExists k)"

definition CreateKey :: "'r reg_api \<Rightarrow> reg_key \<Rightarrow> 'r \<Rightarrow> bool \<times> reg_key \<times> 'r" where
  "CreateKey A k r =
     (let (code, r1) = RegCreateKey A (keyRoot k) (keySubKey k) r;
          k1 = (if code = ERROR_SUCCESS then k\<lparr>keyExists := True\<rparr> else k)
      in (keyExists k1, k1, r1))"

definition gone :: "int \<Rightarrow> bool" where
  "gone code \<longleftrightarrow> code = ERROR_SUCCESS \<or> code = ERROR_FILE_NOT_FOUND"

definition key_Clear :: "'r reg_api \<Rightarrow> reg_key \<Rightarrow> 'r \<Rightarrow> bool \<times> reg_key \<times> 'r" where
  "key_Clear A k r =
     (let (code, r1) = RegDeleteKey A HKEY_CURRENT_USER (keySubKey k) r
      in (gone code, if gone code then k\<lparr>keyExists := False\<rparr> else k, r1))"

section \<open>Values\<close>

record reg_value =
  isAssigned :: bool
  valueRoot :: hkey
  valueSubKey :: string
  valueName :: string

definition new_value :: "reg_key \<Rightarrow> string \<Rightarrow> reg_value" where
  "new_value k name = \<lparr>isAssigned = False, valueRoot = keyRoot k, valueSubKey = keySubKey k, valueName = name\<rparr>"

definition new_value_at :: "hkey \<Rightarrow> string \<Rightarrow> string \<Rightarrow> reg_value" where
  "new_value_at key subKey name = \<lparr>isAssigned = False, valueRoot = key, valueSubKey = subKey, valueName = name\<rparr>"

definition value_Clear :: "'r reg_api \<Rightarrow> 'a reg_value_scheme \<Rightarrow> 'r \<Rightarrow> bool \<times> 'a reg_value_scheme \<times> 'r" where
  "value_Clear A v r =
     (let (code, r1) = RegDeleteValue A (valueRoot v) (valueSubKey v) (valueName v) r
      in (gone code, if gone code then v\<lparr>isAssigned := False\<rparr> else v, r1))"

definition GetDword :: "'r reg_api \<Rightarrow> u32 \<Rightarrow> 'a reg_value_scheme \<Rightarrow> 'r \<Rightarrow> bool \<times> u32 \<times> 'r" where
  "GetDword A out v r =
     (let code = RegOpenKey A (valueRoot v) (valueSubKey v) r in
      if code = ERROR_SUCCESS then
        (let (code1, out1) = RegQueryValue A (valueRoot v) (valueSubKey v) (valueName v) out r in
         if code1 = ERROR_SUCCESS then (True, out1, r) else (False, out1, SetLastError A code1 r))
      else (False, out, SetLastError A code r))"

definition GetBool :: "'r reg_api \<Rightarrow> bool \<Rightarrow> 'a reg_value_scheme \<Rightarrow> 'r \<Rightarrow> bool \<times> bool \<times> 'r" where
  "GetBool A out v r =
     (let (ok, stored, r1) = GetDword A 0 v r
      in if ok then (True, stored \<noteq> 0, r1) else (False, out, r1))"

definition CreateOrSetDword :: "'r reg_api \<Rightarrow> u32 \<Rightarrow> 'a reg_value_scheme \<Rightarrow> 'r \<Rightarrow> bool \<times> 'r" where
  "CreateOrSetDword A n v r =
     (let (code, r1) = RegCreateKey A (valueRoot v) (valueSubKey v) r in
      if code = ERROR_SUCCESS then
        (let (code1, r2) = RegSetValue A (valueRoot v) (valueSubKey v) (valueName v) n r1 in
         if code1 = ERROR_SUCCESS then (True, r2) else (False, SetLastError A code1 r2))
      else (False, SetLastError A code r1))"

definition CreateOrSetBool :: "'r reg_api \<Rightarrow> bool \<Rightarrow> 'a reg_value_scheme \<Rightarrow> 'r \<Rightarrow> bool \<times> 'r" where
  "CreateOrSetBool A b v r = CreateOrSetDword A (if b then 1 else 0) v r"

record reg_u32 = reg_value + cachedU32 :: u32
record reg_bool = reg_value + cachedBool :: bool

definition new_u32 :: "reg_key \<Rightarrow> string \<Rightarrow> u32 \<Rightarrow> reg_u32" where
  "new_u32 k name d = reg_value.extend (new_value k name) \<lparr>cachedU32 = d\<rparr>"

text \<open>The other constructor of \<open>Registryu32\<close> takes its default as a \<open>bool\<close>.\<close>

definition new_u32_at :: "hkey \<Rightarrow> string \<Rightarrow> string \<Rightarrow> bool \<Rightarrow> reg_u32" where
  "new_u32_at key subKey name d =
     reg_value.extend (new_value_at key subKey name) \<lparr>cachedU32 = (if d then 1 else 0)\<rparr>"

definition u32_Get :: "'r reg_api \<Rightarrow> reg_u32 \<Rightarrow> 'r \<Rightarrow> u32 \<times> reg_u32 \<times> 'r" where
  "u32_Get A v r =
     (if isAssigned v then (cachedU32 v, v, r)
      else (let (ok, n, r1) = GetDword A 0 v r;
                v1 = (if ok then v\<lparr>cachedU32 := n, isAssigned := True\<rparr> else v)
            in (cachedU32 v1, v1, r1)))"

definition u32_Set :: "'r reg_api \<Rightarrow> u32 \<Rightarrow> reg_u32 \<Rightarrow> 'r \<Rightarrow> bool \<times> reg_u32 \<times> 'r" where
  "u32_Set A n v r =
     (let v1 = v\<lparr>cachedU32 := n\<rparr>; (ok, r1) = CreateOrSetDword A n v1 r
      in (ok, v1\<lparr>isAssigned := ok\<rparr>, r1))"

definition new_bool :: "reg_key \<Rightarrow> string \<Rightarrow> bool \<Rightarrow> reg_bool" where
  "new_bool k name d = reg_value.extend (new_value k name) \<lparr>cachedBool = d\<rparr>"

definition new_bool_at :: "hkey \<Rightarrow> string \<Rightarrow> string \<Rightarrow> bool \<Rightarrow> reg_bool" where
  "new_bool_at key subKey name d = reg_value.extend (new_value_at key subKey name) \<lparr>cachedBool = d\<rparr>"

definition bool_Get :: "'r reg_api \<Rightarrow> reg_bool \<Rightarrow> 'r \<Rightarrow> bool \<times> reg_bool \<times> 'r" where
  "bool_Get A v r =
     (if isAssigned v then (cachedBool v, v, r)
      else (let (ok, b, r1) = GetBool A (cachedBool v) v r;
                v1 = (if ok then v\<lparr>cachedBool := b, isAssigned := True\<rparr> else v\<lparr>cachedBool := b\<rparr>)
            in (cachedBool v1, v1, r1)))"

definition bool_Set :: "'r reg_api \<Rightarrow> bool \<Rightarrow> reg_bool \<Rightarrow> 'r \<Rightarrow> bool \<times> reg_bool \<times> 'r" where
  "bool_Set A b v r =
     (let v1 = v\<lparr>cachedBool := b\<rparr>; (ok, r1) = CreateOrSetBool A b v1 r
      in (ok, v1\<lparr>isAssigned := ok\<rparr>, r1))"

definition bool_Toggle :: "'r reg_api \<Rightarrow> reg_bool \<Rightarrow> 'r \<Rightarrow> bool \<times> reg_bool \<times> 'r" where
  "bool_Toggle A v r =
     (let v1 = v\<lparr>cachedBool := \<not> cachedBool v\<rparr>; (ok, r1) = CreateOrSetBool A (cachedBool v1) v1 r
      in (ok, v1\<lparr>isAssigned := ok\<rparr>, r1))"

section \<open>Preferences\<close>

record preferences =
  ShowDialogOnStart :: reg_bool
  UseNotificationIcon :: reg_bool
  MinimizeToNotificationIcon :: reg_bool
  ConfirmExit :: reg_bool
  DefaultOpacity :: reg_u32
  DefaultMatchSourcePosition :: reg_bool
  DefaultMatchSourceSize :: reg_bool
  DefaultLockSizeRatio :: reg_bool
  DefaultHideWhenSourceOnTop :: reg_bool
  DefaultClickableWhenOpaque :: reg_bool
  UseCachedImageWhenFrozen :: reg_bool
  ShowFrozenIndicatorIcon :: reg_bool
  ShowFrozenContextMenuItem :: reg_bool
  MiniViewsKey :: reg_key

definition new_preferences :: "reg_key \<Rightarrow> preferences" where
  "new_preferences k = \<lparr>
     ShowDialogOnStart = new_bool k ''ShowDialogOnProgramStart'' True,
     UseNotificationIcon = new_bool k ''UseNotificationIcon'' True,
     MinimizeToNotificationIcon = new_bool k ''MinimizeToNotificationIcon'' True,
     ConfirmExit = new_bool k ''ConfirmExitByDialog'' True,
     DefaultOpacity = new_u32 k ''DefaultOpacity'' 175,
     DefaultMatchSourcePosition = new_bool k ''DefaultMatchSourcePosition'' False,
     DefaultMatchSourceSize = new_bool k ''DefaultMatchSourceSize'' False,
     DefaultLockSizeRatio = new_bool k ''DefaultLockSizeRatio'' True,
     DefaultHideWhenSourceOnTop = new_bool k ''DefaultHideWhenSourceOnTop'' True,
     DefaultClickableWhenOpaque = new_bool k ''DefaultClickableWhenOpaque'' True,
     UseCachedImageWhenFrozen = new_bool k ''UseCachedImageWhenFrozen'' True,
     ShowFrozenIndicatorIcon = new_bool k ''ShowFrozenIndicatorIcon'' True,
     ShowFrozenContextMenuItem = new_bool k ''ShowFrozenContextMenuItem'' True,
     MiniViewsKey = new_key (keyRoot k) (keySubKey k)\<rparr>"

definition IsFirstRun :: "'r reg_api \<Rightarrow> preferences \<Rightarrow> 'r \<Rightarrow> bool" where
  "IsFirstRun A p r = KeyExists A (MiniViewsKey p) r"

definition SetNotFirstRun :: "'r reg_api \<Rightarrow> preferences \<Rightarrow> 'r \<Rightarrow> bool \<times> preferences \<times> 'r" where
  "SetNotFirstRun A p r =
     (let (ok, k, r1) = CreateKey A (MiniViewsKey p) r in (ok, p\<lparr>MiniViewsKey := k\<rparr>, r1))"

text \<open>One operand of the \<open>&&\<close> chain of \<open>ClearSavedPreferences\<close>: not evaluated after a false one.\<close>

definition clear_setting ::
    "'r reg_api \<Rightarrow> (preferences \<Rightarrow> 'a reg_value_scheme) \<Rightarrow> (('a reg_value_scheme \<Rightarrow> 'a reg_value_scheme) \<Rightarrow> preferences \<Rightarrow> preferences) \<Rightarrow>
     bool \<times> preferences \<times> 'r \<Rightarrow> bool \<times> preferences \<times> 'r" where
  "clear_setting A get upd s =
     (case s of (ok, p, r) \<Rightarrow>
        if ok then (let (ok1, v, r1) = value_Clear A (get p) r in (ok1, upd (\<lambda>x. v) p, r1)) else s)"

definition clear_key :: "'r reg_api \<Rightarrow> bool \<times> preferences \<times> 'r \<Rightarrow> bool \<times> preferences \<times> 'r" where
  "clear_key A s =
     (case s of (ok, p, r) \<Rightarrow>
        if ok then (let (ok1, k, r1) = key_Clear A (MiniViewsKey p) r in (ok1, p\<lparr>MiniViewsKey := k\<rparr>, r1)) else s)"

definition ClearSavedPreferences :: "'r reg_api \<Rightarrow> preferences \<Rightarrow> 'r \<Rightarrow> bool \<times> preferences \<times> 'r" where
  "ClearSavedPreferences A p r =
     clear_key A
      (clear_setting A ShowFrozenContextMenuItem ShowFrozenContextMenuItem_update
      (clear_setting A ShowFrozenIndicatorIcon ShowFrozenIndicatorIcon_update
      (clear_setting A UseCachedImageWhenFrozen UseCachedImageWhenFrozen_update
      (clear_setting A DefaultClickableWhenOpaque DefaultClickableWhenOpaque_update
      (clear_setting A DefaultHideWhenSourceOnTop DefaultHideWhenSourceOnTop_update
      (clear_setting A DefaultLockSizeRatio DefaultLockSizeRatio_update
      (clear_setting A DefaultMatchSourceSize DefaultMatchSourceSize_update
      (clear_setting A DefaultMatchSourcePosition DefaultMatchSourcePosition_update
      (clear_setting A DefaultOpacity DefaultOpacity_update
      (clear_setting A ConfirmExit ConfirmExit_update
      (clear_setting A MinimizeToNotificationIcon MinimizeToNotificationIcon_update
      (clear_setting A UseNotificationIcon UseNotificationIcon_update
      (clear_setting A ShowDialogOnStart ShowDialogOnStart_update (True, p, r))))))))))))))"

section \<open>A registry in memory\<close>

text \<open>
  An instance for the examples: the keys and values that exist, and whether writes are refused.
\<close>

record memory =
  memKeys :: "(hkey \<times> string) list"
  memValues :: "((hkey \<times> string \<times> string) \<times> u32) list"
  readOnly :: bool

definition ERROR_ACCESS_DENIED :: int where "ERROR_ACCESS_DENIED = 5"

definition memory_api :: "memory reg_api" where
  "memory_api = \<lparr>
     RegOpenKey = (\<lambda>k s r. if (k, s) \<in> set (memKeys r) then ERROR_SUCCESS else ERROR_FILE_NOT_FOUND),
     RegCreateKey = (\<lambda>k s r. if readOnly r then (ERROR_ACCESS_DENIED, r)
        else (ERROR_SUCCESS, r\<lparr>memKeys := (k, s) # memKeys r\<rparr>)),
     RegDeleteKey = (\<lambda>k s r. if readOnly r then (ERROR_ACCESS_DENIED, r)
        else (ERROR_SUCCESS, r\<lparr>memKeys := removeAll (k, s) (memKeys r)\<rparr>)),
     RegQueryValue = (\<lambda>k s n out r. case map_of (memValues r) (k, s, n) of
        Some v \<Rightarrow> (ERROR_SUCCESS, v) | None \<Rightarrow> (ERROR_FILE_NOT_FOUND, out)),
     RegSetValue = (\<lambda>k s n v r. if readOnly r then (ERROR_ACCESS_DENIED, r)
        else (ERROR_SUCCESS, r\<lparr>memKeys := (k, s) # memKeys r, memValues := ((k, s, n), v) # memValues r\<rparr>)),
     RegDeleteValue = (\<lambda>k s n r. if readOnly r then (ERROR_ACCESS_DENIED, r)
        else (ERROR_SUCCESS, r\<lparr>memValues := filter (\<lambda>x. fst x \<noteq> (k, s, n)) (memValues r)\<rparr>)),
     SetLastError = (\<lambda>e r. r)\<rparr>"

definition mini_views_key :: reg_key where
  "mini_views_key = new_key HKEY_CURRENT_USER ''SOFTWARE/Mini Views''"

definition empty_registry :: memory where
  "empty_registry = \<lparr>memKeys = [], memValues = [], readOnly = False\<rparr>"

abbreviation opacity :: reg_u32 where "opacity \<equiv> new_u32 mini_views_key ''DefaultOpacity'' 175"

lemmas registry_evals = memory_api_def mini_views_key_def empty_registry_def new_key_def new_u32_def new_bool_def
  new_value_def reg_value.defs ERROR_SUCCESS_def ERROR_FILE_NOT_FOUND_def ERROR_ACCESS_DENIED_def

section \<open>Properties\<close>

lemma CreateOrSetDword_True:
  assumes "CreateOrSetDword A n v r = (True, r')"
  obtains r1 where "RegSetValue A (valueRoot v) (valueSubKey v) (valueName v) n r1 = (ERROR_SUCCESS, r')"
  using assms by (auto simp: CreateOrSetDword_def Let_def split: prod.splits if_splits)

text \<open>
  Property C38: a setting that was stored is what the next run of the program reads: with a registry
  that returns the value last stored, \<open>Set\<close> followed by \<open>Get\<close> of a new object for the same key
  and name gives that value, whatever the default.
\<close>

theorem stored_setting_is_read_back:
  assumes keeps: "\<And>k s m n r r'. RegSetValue A k s m n r = (ERROR_SUCCESS, r') \<Longrightarrow>
      RegOpenKey A k s r' = ERROR_SUCCESS \<and> (\<forall>out. RegQueryValue A k s m out r' = (ERROR_SUCCESS, n))"
    and "u32_Set A n (new_u32 k name d) r = (True, v', r')"
    and "bool_Set A b (new_bool k2 name2 d2) r2 = (True, v2', r2')"
  shows "fst (u32_Get A (new_u32 k name e) r') = n \<and> fst (bool_Get A (new_bool k2 name2 e2) r2') = b"
proof -
  from assms(2) have "CreateOrSetDword A n ((new_u32 k name d)\<lparr>cachedU32 := n\<rparr>) r = (True, r')"
    by (auto simp: u32_Set_def Let_def split: prod.splits)
  then obtain r1 where "RegSetValue A (keyRoot k) (keySubKey k) name n r1 = (ERROR_SUCCESS, r')"
    by (elim CreateOrSetDword_True) (auto simp: new_u32_def new_value_def reg_value.defs)
  note first = keeps [OF this]
  from assms(3) have "CreateOrSetDword A (if b then 1 else 0) ((new_bool k2 name2 d2)\<lparr>cachedBool := b\<rparr>) r2 = (True, r2')"
    by (auto simp: bool_Set_def CreateOrSetBool_def Let_def split: prod.splits)
  then obtain r3 where "RegSetValue A (keyRoot k2) (keySubKey k2) name2 (if b then 1 else 0) r3 = (ERROR_SUCCESS, r2')"
    by (elim CreateOrSetDword_True) (auto simp: new_bool_def new_value_def reg_value.defs)
  note second = keeps [OF this]
  show ?thesis
    using first second
    by (simp add: u32_Get_def bool_Get_def GetBool_def GetDword_def new_u32_def new_bool_def new_value_def
        reg_value.defs Let_def)
qed

lemma stored_setting_is_read_back_witness:
  "\<exists>v r. u32_Set memory_api 80 opacity empty_registry = (True, v, r) \<and>
     fst (u32_Get memory_api (new_u32 mini_views_key ''DefaultOpacity'' 1) r) = 80"
proof -
  have keeps: "RegOpenKey memory_api k s r' = ERROR_SUCCESS \<and> (\<forall>out. RegQueryValue memory_api k s m out r' = (ERROR_SUCCESS, n))"
    if "RegSetValue memory_api k s m n r = (ERROR_SUCCESS, r')" for k s m n r r'
    using that by (auto simp: memory_api_def ERROR_SUCCESS_def ERROR_ACCESS_DENIED_def split: if_splits)
  obtain v r where set: "u32_Set memory_api 80 opacity empty_registry = (True, v, r)"
    by (simp add: u32_Set_def CreateOrSetDword_def registry_evals)
  obtain v2 r2 where set2: "bool_Set memory_api True (new_bool mini_views_key ''ConfirmExitByDialog'' False) empty_registry = (True, v2, r2)"
    by (simp add: bool_Set_def CreateOrSetBool_def CreateOrSetDword_def registry_evals)
  have "fst (u32_Get memory_api (new_u32 mini_views_key ''DefaultOpacity'' 1) r) = 80"
    by (rule stored_setting_is_read_back [OF keeps set set2, THEN conjunct1])
  with set show ?thesis by blast
qed

text \<open>
  \<open>Set\<close> does not keep the value when the registry refuses it: the next \<open>Get\<close> returns
  the value still stored there, although the header says that \<open>Set\<close> adjusts the cached value even
  if the registry change fails.
\<close>

theorem refused_setting_is_forgotten:
  assumes "u32_Set A n v r = (False, v', r')"
    and "RegOpenKey A (valueRoot v) (valueSubKey v) r' = ERROR_SUCCESS"
    and "RegQueryValue A (valueRoot v) (valueSubKey v) (valueName v) 0 r' = (ERROR_SUCCESS, old)"
  shows "cachedU32 v' = n \<and> fst (u32_Get A v' r') = old"
proof -
  from assms(1) have "v' = v\<lparr>cachedU32 := n, isAssigned := False\<rparr>"
    by (auto simp: u32_Set_def Let_def split: prod.splits)
  with assms(2,3) show ?thesis by (simp add: u32_Get_def GetDword_def Let_def)
qed

lemma refused_setting_is_forgotten_witness:
  "fst (u32_Get memory_api (opacity\<lparr>cachedU32 := 30, isAssigned := False\<rparr>)
     (empty_registry\<lparr>memKeys := [(HKEY_CURRENT_USER, ''SOFTWARE/Mini Views'')],
        memValues := [((HKEY_CURRENT_USER, ''SOFTWARE/Mini Views'', ''DefaultOpacity''), 200)], readOnly := True\<rparr>)) = 200"
proof -
  let ?r = "empty_registry\<lparr>memKeys := [(HKEY_CURRENT_USER, ''SOFTWARE/Mini Views'')],
        memValues := [((HKEY_CURRENT_USER, ''SOFTWARE/Mini Views'', ''DefaultOpacity''), 200)], readOnly := True\<rparr>"
  have set: "u32_Set memory_api 30 opacity ?r = (False, opacity\<lparr>cachedU32 := 30, isAssigned := False\<rparr>, ?r)"
    by (simp add: u32_Set_def CreateOrSetDword_def registry_evals)
  show ?thesis
    by (rule conjunct2 [OF refused_setting_is_forgotten [OF set]]) (simp_all add: registry_evals)
qed

text \<open>
  \<open>Toggle\<close> of a setting that has not been read yet stores the negation of the default,
  whatever the registry holds.
\<close>

theorem toggle_ignores_stored_value:
  assumes "RegCreateKey A (keyRoot k) (keySubKey k) r = (ERROR_SUCCESS, r1)"
    and "RegSetValue A (keyRoot k) (keySubKey k) name (if d then 0 else 1) r1 = (ERROR_SUCCESS, r2)"
  shows "\<exists>v. bool_Toggle A (new_bool k name d) r = (True, v, r2) \<and> cachedBool v = (\<not> d)"
  using assms
  by (cases d) (simp_all add: bool_Toggle_def CreateOrSetBool_def CreateOrSetDword_def Let_def new_bool_def new_value_def
    reg_value.defs)

lemma toggle_ignores_stored_value_witness:
  "\<exists>v r. bool_Toggle memory_api (new_bool mini_views_key ''ConfirmExitByDialog'' True)
      (empty_registry\<lparr>memKeys := [(HKEY_CURRENT_USER, ''SOFTWARE/Mini Views'')],
        memValues := [((HKEY_CURRENT_USER, ''SOFTWARE/Mini Views'', ''ConfirmExitByDialog''), 0)]\<rparr>) = (True, v, r)
    \<and> \<not> cachedBool v"
proof -
  let ?r = "empty_registry\<lparr>memKeys := [(HKEY_CURRENT_USER, ''SOFTWARE/Mini Views'')],
        memValues := [((HKEY_CURRENT_USER, ''SOFTWARE/Mini Views'', ''ConfirmExitByDialog''), 0)]\<rparr>"
  obtain r1 where r1: "RegCreateKey memory_api (keyRoot mini_views_key) (keySubKey mini_views_key) ?r = (ERROR_SUCCESS, r1)"
    "readOnly r1 = False"
    by (simp add: registry_evals)
  obtain r2 where r2: "RegSetValue memory_api (keyRoot mini_views_key) (keySubKey mini_views_key) ''ConfirmExitByDialog''
      (if True then 0 else 1) r1 = (ERROR_SUCCESS, r2)"
    using r1(2) by (simp add: registry_evals)
  from toggle_ignores_stored_value [OF r1(1) r2] show ?thesis by auto
qed

definition unassigned_as :: "'a reg_value_scheme \<Rightarrow> 'a reg_value_scheme \<Rightarrow> bool" where
  "unassigned_as v v' \<longleftrightarrow> v' = v\<lparr>isAssigned := False\<rparr>"

lemma clear_setting_True:
  assumes "clear_setting A get upd s = (True, p', r')"
  obtains p r v where "s = (True, p, r)" "p' = upd (\<lambda>x. v) p" "unassigned_as (get p) v"
  using assms
  by (auto simp: clear_setting_def value_Clear_def unassigned_as_def Let_def split: prod.splits if_splits)

lemma clear_key_True:
  assumes "clear_key A s = (True, p', r')"
  obtains p r k where "s = (True, p, r)" "p' = p\<lparr>MiniViewsKey := k\<rparr>" "\<not> keyExists k"
  using assms by (auto simp: clear_key_def key_Clear_def Let_def split: prod.splits if_splits)

text \<open>
  After \<open>ClearSavedPreferences\<close> succeeds every setting is marked as not read and the
  key as not existing, but the objects keep the values cached before, so while the registry has no
  value the program goes on with the old settings instead of the defaults (which the objects no
  longer know).
\<close>

theorem clearing_keeps_cached_settings:
  assumes "ClearSavedPreferences A p r = (True, p', r')"
  shows "unassigned_as (ShowDialogOnStart p) (ShowDialogOnStart p') \<and>
    unassigned_as (UseNotificationIcon p) (UseNotificationIcon p') \<and>
    unassigned_as (MinimizeToNotificationIcon p) (MinimizeToNotificationIcon p') \<and>
    unassigned_as (ConfirmExit p) (ConfirmExit p') \<and>
    unassigned_as (DefaultOpacity p) (DefaultOpacity p') \<and>
    unassigned_as (DefaultMatchSourcePosition p) (DefaultMatchSourcePosition p') \<and>
    unassigned_as (DefaultMatchSourceSize p) (DefaultMatchSourceSize p') \<and>
    unassigned_as (DefaultLockSizeRatio p) (DefaultLockSizeRatio p') \<and>
    unassigned_as (DefaultHideWhenSourceOnTop p) (DefaultHideWhenSourceOnTop p') \<and>
    unassigned_as (DefaultClickableWhenOpaque p) (DefaultClickableWhenOpaque p') \<and>
    unassigned_as (UseCachedImageWhenFrozen p) (UseCachedImageWhenFrozen p') \<and>
    unassigned_as (ShowFrozenIndicatorIcon p) (ShowFrozenIndicatorIcon p') \<and>
    unassigned_as (ShowFrozenContextMenuItem p) (ShowFrozenContextMenuItem p') \<and>
    \<not> keyExists (MiniViewsKey p')"
  using assms unfolding ClearSavedPreferences_def
  by (elim clear_key_True clear_setting_True Pair_inject) (simp; elim clear_setting_True; simp)

lemma clearing_keeps_cached_settings_witness:
  "\<exists>p' r'. ClearSavedPreferences memory_api (new_preferences mini_views_key) empty_registry = (True, p', r') \<and>
     unassigned_as opacity (DefaultOpacity p')"
proof -
  obtain p' r' where c: "ClearSavedPreferences memory_api (new_preferences mini_views_key) empty_registry = (True, p', r')"
    by (simp add: ClearSavedPreferences_def clear_setting_def clear_key_def value_Clear_def key_Clear_def gone_def
        new_preferences_def registry_evals)
  from clearing_keeps_cached_settings [OF c] c show ?thesis by (auto simp: new_preferences_def)
qed

lemma cleared_setting_reads_cache:
  assumes "unassigned_as v v'" "RegOpenKey A (valueRoot v) (valueSubKey v) r \<noteq> ERROR_SUCCESS"
  shows "fst (u32_Get A v' r) = cachedU32 v"
  using assms by (simp add: unassigned_as_def u32_Get_def GetDword_def Let_def)

text \<open>
  \<open>IsFirstRun\<close> answers the opposite of its name: false while the program's key does
  not exist, true once \<open>SetNotFirstRun\<close> has created it.
\<close>

theorem first_run_is_inverted:
  assumes "RegOpenKey A HKEY_CURRENT_USER (keySubKey k) r \<noteq> ERROR_SUCCESS"
    and "SetNotFirstRun A (new_preferences k) r = (True, p', r')"
  shows "\<not> IsFirstRun A (new_preferences k) r \<and> IsFirstRun A p' r'"
  using assms
  by (auto simp: IsFirstRun_def SetNotFirstRun_def KeyExists_def CreateKey_def Let_def new_preferences_def new_key_def
      split: prod.splits if_splits)

lemma first_run_is_inverted_witness:
  "\<not> IsFirstRun memory_api (new_preferences mini_views_key) empty_registry"
proof -
  have "RegOpenKey memory_api HKEY_CURRENT_USER (keySubKey mini_views_key) empty_registry \<noteq> ERROR_SUCCESS"
    by (simp add: registry_evals)
  moreover obtain p' r' where "SetNotFirstRun memory_api (new_preferences mini_views_key) empty_registry = (True, p', r')"
    by (simp add: SetNotFirstRun_def CreateKey_def new_preferences_def registry_evals)
  ultimately show ?thesis by (rule first_run_is_inverted [THEN conjunct1])
qed

end
