(* ===== verification/Logger.thy ===== *)
theory Logger
  imports Prelude Decimal
begin

text \<open>
  \<open>CrossCutLib/Logger.h\<close> and \<open>Logger.cpp\<close>. Loggers are objects in a store, because aggregators
  are shared between loggers and the stream-style calls write to the aggregator's
  \<open>streamLogLevel\<close>; output streams are the texts written so far. A logger may name another
  logger as its aggregator, so every operation walks a chain: the functions take fuel and
  answer \<open>None\<close> when the chain does not end within it (the code would recurse for ever) or
  names no logger. \<open>chain_defined\<close> gives the fuel that is enough for every acyclic store.

  \<open>time\<close> and \<open>localtime\<close> are the sequence \<open>readings\<close> of the state: reading number \<open>i\<close> is
  \<open>None\<close> when \<open>time\<close> fails. The \<open>std::ostream\<close> members are the ones the program uses: \<open>put\<close>
  and \<open>operator<<\<close> append; flushing changes no text.
\<close>

section \<open>Levels and state\<close>

type_synonym LogLevel = u32

definition LogLevel_Off :: LogLevel where "LogLevel_Off = 0"
definition LogLevel_None :: LogLevel where "LogLevel_None = 0"
definition LogLevel_Fatal :: LogLevel where "LogLevel_Fatal = 100"
definition LogLevel_Error :: LogLevel where "LogLevel_Error = 200"
definition LogLevel_Warn :: LogLevel where "LogLevel_Warn = 300"
definition LogLevel_Info :: LogLevel where "LogLevel_Info = 400"
definition LogLevel_Debug :: LogLevel where "LogLevel_Debug = 500"
definition LogLevel_Trace :: LogLevel where "LogLevel_Trace = 600"
definition LogLevel_All :: LogLevel where "LogLevel_All = 4294967295"
definition LogLevel_Default :: LogLevel where "LogLevel_Default = LogLevel_Info"

lemmas log_levels = LogLevel_Off_def LogLevel_None_def LogLevel_Fatal_def LogLevel_Error_def
  LogLevel_Warn_def LogLevel_Info_def LogLevel_Debug_def LogLevel_Trace_def LogLevel_All_def
  LogLevel_Default_def

record tm =
  tm_year :: nat
  tm_mon :: nat
  tm_mday :: nat
  tm_hour :: nat
  tm_min :: nat
  tm_sec :: nat

record logger =
  logLevel :: LogLevel
  streamLogLevel :: LogLevel
  outputStream :: "nat option"
  aggregator :: "nat option"

record logs =
  loggers :: "nat \<Rightarrow> logger option"
  streams :: "nat \<Rightarrow> string"
  readings :: "nat \<Rightarrow> tm option"
  reads :: nat

text \<open>The identity of \<open>std::cout\<close>.\<close>

definition cout :: nat where "cout = 0"

definition put_text :: "nat \<Rightarrow> string \<Rightarrow> logs \<Rightarrow> logs" where
  "put_text s t st = st\<lparr>streams := (streams st)(s := streams st s @ t)\<rparr>"

definition newline :: string where "newline = [CHR 0x0A]"

section \<open>Construction and settings\<close>

text \<open>
  The constructors differ in where the stream and the aggregator come from: a missing stream
  is \<open>std::cout\<close>, a missing aggregator is null.
\<close>

definition new_logger :: "LogLevel \<Rightarrow> logger" where
  "new_logger lvl = \<lparr>logLevel = lvl, streamLogLevel = lvl, outputStream = Some cout, aggregator = None\<rparr>"

definition new_logger_stream :: "nat option \<Rightarrow> LogLevel \<Rightarrow> logger" where
  "new_logger_stream s lvl = \<lparr>logLevel = lvl, streamLogLevel = lvl, outputStream = s, aggregator = None\<rparr>"

definition new_logger_stream_aggregator :: "nat option \<Rightarrow> nat option \<Rightarrow> LogLevel \<Rightarrow> logger" where
  "new_logger_stream_aggregator s a lvl =
     \<lparr>logLevel = lvl, streamLogLevel = lvl, outputStream = s, aggregator = a\<rparr>"

definition new_logger_aggregator :: "nat option \<Rightarrow> LogLevel \<Rightarrow> logger" where
  "new_logger_aggregator a lvl =
     \<lparr>logLevel = lvl, streamLogLevel = lvl, outputStream = Some cout, aggregator = a\<rparr>"

definition getLogLevel :: "logger \<Rightarrow> LogLevel" where "getLogLevel L = logLevel L"
definition getOutputStream :: "logger \<Rightarrow> nat option" where "getOutputStream L = outputStream L"
definition getAggregator :: "logger \<Rightarrow> nat option" where "getAggregator L = aggregator L"
definition getDefaultOutputStream :: "nat option" where "getDefaultOutputStream = Some cout"

definition setLogLevel :: "LogLevel \<Rightarrow> logger \<Rightarrow> logger" where
  "setLogLevel lvl L = L\<lparr>logLevel := lvl, streamLogLevel := lvl\<rparr>"

definition setOutputStream :: "nat option \<Rightarrow> logger \<Rightarrow> logger" where
  "setOutputStream s L = L\<lparr>outputStream := s\<rparr>"

definition setAggregator :: "nat option \<Rightarrow> logger \<Rightarrow> logger" where
  "setAggregator a L = L\<lparr>aggregator := a\<rparr>"

section \<open>Prefixes\<close>

definition pad2 :: "nat \<Rightarrow> string" where
  "pad2 n = (if n < 10 then ''0'' else []) @ to_string n"

definition pad4 :: "nat \<Rightarrow> string" where
  "pad4 y = (if y < 1000 then replicate (4 - length (to_string y)) CHR ''0'' else []) @ to_string y"

text \<open>\<open>strftime\<close> with the format of the source and a buffer of 32 bytes: 0 when it does not fit.\<close>

definition strftime_timestamp :: "tm \<Rightarrow> string option" where
  "strftime_timestamp t =
     (let s = pad4 (tm_year t) @ ''-'' @ pad2 (tm_mon t) @ ''-'' @ pad2 (tm_mday t) @ ''T'' @
              pad2 (tm_hour t) @ ''-'' @ pad2 (tm_min t) @ ''-'' @ pad2 (tm_sec t) @ ''Z''
      in if length s < 32 then Some s else None)"

definition getTimestamp :: "logs \<Rightarrow> string \<times> logs" where
  "getTimestamp st =
     (let st' = st\<lparr>reads := Suc (reads st)\<rparr> in
      case readings st (reads st) of
        Some timeInfo \<Rightarrow> (case strftime_timestamp timeInfo of Some s \<Rightarrow> (s, st') | None \<Rightarrow> ([], st'))
      | None \<Rightarrow> ([], st'))"

definition level_text :: "LogLevel \<Rightarrow> string" where
  "level_text lvl =
    (if lvl = LogLevel_Fatal then '' FATAL: ''
     else if lvl = LogLevel_Error then '' ERROR: ''
     else if lvl = LogLevel_Warn then '' WARN: ''
     else if lvl = LogLevel_Info then '' INFO: ''
     else if lvl = LogLevel_Debug then '' DEBUG: ''
     else if lvl = LogLevel_Trace then '' TRACE: ''
     else '' LEVEL['' @ to_string (unat lvl) @ '']: '')"

definition getPrefix :: "LogLevel \<Rightarrow> logs \<Rightarrow> string \<times> logs" where
  "getPrefix lvl st = (let (t, st') = getTimestamp st in (t @ level_text lvl, st'))"

text \<open>\<open>*outputStream << getPrefix(level) << rest\<close>.\<close>

definition put_prefixed :: "nat \<Rightarrow> LogLevel \<Rightarrow> string \<Rightarrow> logs \<Rightarrow> logs" where
  "put_prefixed s lvl rest st = (let (p, st') = getPrefix lvl st in put_text s (p @ rest) st')"

section \<open>Message-style logging\<close>

fun log_message :: "nat \<Rightarrow> nat \<Rightarrow> LogLevel \<Rightarrow> string \<Rightarrow> logs \<Rightarrow> logs option" where
  "log_message 0 l lvl message st = None"
| "log_message (Suc fuel) l lvl message st =
     (case loggers st l of None \<Rightarrow> None | Some this \<Rightarrow>
       let st1 = (case outputStream this of
                    Some out \<Rightarrow> if lvl \<le> logLevel this then put_prefixed out lvl (message @ newline) st else st
                  | None \<Rightarrow> st)
       in case aggregator this of
            Some agg \<Rightarrow> log_message fuel agg lvl message st1
          | None \<Rightarrow> Some st1)"

fun log_message_exn :: "nat \<Rightarrow> nat \<Rightarrow> LogLevel \<Rightarrow> string \<Rightarrow> string \<Rightarrow> logs \<Rightarrow> logs option" where
  "log_message_exn 0 l lvl message what st = None"
| "log_message_exn (Suc fuel) l lvl message what st =
     (case loggers st l of None \<Rightarrow> None | Some this \<Rightarrow>
       let st1 = (case outputStream this of
                    Some out \<Rightarrow> if lvl \<le> logLevel this then put_prefixed out lvl (message @ newline @ what @ newline) st else st
                  | None \<Rightarrow> st)
       in case aggregator this of
            Some agg \<Rightarrow> log_message_exn fuel agg lvl message what st1
          | None \<Rightarrow> Some st1)"

fun fatal_message :: "nat \<Rightarrow> nat \<Rightarrow> string \<Rightarrow> logs \<Rightarrow> logs option" where
  "fatal_message 0 l message st = None"
| "fatal_message (Suc fuel) l message st =
     (case loggers st l of None \<Rightarrow> None | Some this \<Rightarrow>
       let st1 = (case outputStream this of
                    Some out \<Rightarrow> if LogLevel_Fatal \<le> logLevel this then put_prefixed out LogLevel_Fatal (message @ newline) st else st
                  | None \<Rightarrow> st)
       in case aggregator this of
            Some agg \<Rightarrow> fatal_message fuel agg message st1
          | None \<Rightarrow> Some st1)"

fun fatal_message_exn :: "nat \<Rightarrow> nat \<Rightarrow> string \<Rightarrow> string \<Rightarrow> logs \<Rightarrow> logs option" where
  "fatal_message_exn 0 l message what st = None"
| "fatal_message_exn (Suc fuel) l message what st =
     (case loggers st l of None \<Rightarrow> None | Some this \<Rightarrow>
       let st1 = (case outputStream this of
                    Some out \<Rightarrow> if LogLevel_Fatal \<le> logLevel this then put_prefixed out LogLevel_Fatal (message @ newline @ what @ newline) st else st
                  | None \<Rightarrow> st)
       in case aggregator this of
            Some agg \<Rightarrow> fatal_message_exn fuel agg message what st1
          | None \<Rightarrow> Some st1)"

fun error_message :: "nat \<Rightarrow> nat \<Rightarrow> string \<Rightarrow> logs \<Rightarrow> logs option" where
  "error_message 0 l message st = None"
| "error_message (Suc fuel) l message st =
     (case loggers st l of None \<Rightarrow> None | Some this \<Rightarrow>
       let st1 = (case outputStream this of
                    Some out \<Rightarrow> if LogLevel_Error \<le> logLevel this then put_prefixed out LogLevel_Error (message @ newline) st else st
                  | None \<Rightarrow> st)
       in case aggregator this of
            Some agg \<Rightarrow> error_message fuel agg message st1
          | None \<Rightarrow> Some st1)"

fun error_message_exn :: "nat \<Rightarrow> nat \<Rightarrow> string \<Rightarrow> string \<Rightarrow> logs \<Rightarrow> logs option" where
  "error_message_exn 0 l message what st = None"
| "error_message_exn (Suc fuel) l message what st =
     (case loggers st l of None \<Rightarrow> None | Some this \<Rightarrow>
       let st1 = (case outputStream this of
                    Some out \<Rightarrow> if LogLevel_Error \<le> logLevel this then put_prefixed out LogLevel_Error (message @ newline @ what @ newline) st else st
                  | None \<Rightarrow> st)
       in case aggregator this of
            Some agg \<Rightarrow> error_message_exn fuel agg message what st1
          | None \<Rightarrow> Some st1)"

fun warn_message :: "nat \<Rightarrow> nat \<Rightarrow> string \<Rightarrow> logs \<Rightarrow> logs option" where
  "warn_message 0 l message st = None"
| "warn_message (Suc fuel) l message st =
     (case loggers st l of None \<Rightarrow> None | Some this \<Rightarrow>
       let st1 = (case outputStream this of
                    Some out \<Rightarrow> if LogLevel_Warn \<le> logLevel this then put_prefixed out LogLevel_Warn (message @ newline) st else st
                  | None \<Rightarrow> st)
       in case aggregator this of
            Some agg \<Rightarrow> warn_message fuel agg message st1
          | None \<Rightarrow> Some st1)"

fun warn_message_exn :: "nat \<Rightarrow> nat \<Rightarrow> string \<Rightarrow> string \<Rightarrow> logs \<Rightarrow> logs option" where
  "warn_message_exn 0 l message what st = None"
| "warn_message_exn (Suc fuel) l message what st =
     (case loggers st l of None \<Rightarrow> None | Some this \<Rightarrow>
       let st1 = (case outputStream this of
                    Some out \<Rightarrow> if LogLevel_Warn \<le> logLevel this then put_prefixed out LogLevel_Warn (message @ newline @ what @ newline) st else st
                  | None \<Rightarrow> st)
       in case aggregator this of
            Some agg \<Rightarrow> warn_message_exn fuel agg message what st1
          | None \<Rightarrow> Some st1)"

fun info_message :: "nat \<Rightarrow> nat \<Rightarrow> string \<Rightarrow> logs \<Rightarrow> logs option" where
  "info_message 0 l message st = None"
| "info_message (Suc fuel) l message st =
     (case loggers st l of None \<Rightarrow> None | Some this \<Rightarrow>
       let st1 = (case outputStream this of
                    Some out \<Rightarrow> if LogLevel_Info \<le> logLevel this then put_prefixed out LogLevel_Info (message @ newline) st else st
                  | None \<Rightarrow> st)
       in case aggregator this of
            Some agg \<Rightarrow> info_message fuel agg message st1
          | None \<Rightarrow> Some st1)"

fun info_message_exn :: "nat \<Rightarrow> nat \<Rightarrow> string \<Rightarrow> string \<Rightarrow> logs \<Rightarrow> logs option" where
  "info_message_exn 0 l message what st = None"
| "info_message_exn (Suc fuel) l message what st =
     (case loggers st l of None \<Rightarrow> None | Some this \<Rightarrow>
       let st1 = (case outputStream this of
                    Some out \<Rightarrow> if LogLevel_Info \<le> logLevel this then put_prefixed out LogLevel_Info (message @ newline @ what @ newline) st else st
                  | None \<Rightarrow> st)
       in case aggregator this of
            Some agg \<Rightarrow> info_message_exn fuel agg message what st1
          | None \<Rightarrow> Some st1)"

fun debug_message :: "nat \<Rightarrow> nat \<Rightarrow> string \<Rightarrow> logs \<Rightarrow> logs option" where
  "debug_message 0 l message st = None"
| "debug_message (Suc fuel) l message st =
     (case loggers st l of None \<Rightarrow> None | Some this \<Rightarrow>
       let st1 = (case outputStream this of
                    Some out \<Rightarrow> if LogLevel_Debug \<le> logLevel this then put_prefixed out LogLevel_Debug (message @ newline) st else st
                  | None \<Rightarrow> st)
       in case aggregator this of
            Some agg \<Rightarrow> debug_message fuel agg message st1
          | None \<Rightarrow> Some st1)"

fun debug_message_exn :: "nat \<Rightarrow> nat \<Rightarrow> string \<Rightarrow> string \<Rightarrow> logs \<Rightarrow> logs option" where
  "debug_message_exn 0 l message what st = None"
| "debug_message_exn (Suc fuel) l message what st =
     (case loggers st l of None \<Rightarrow> None | Some this \<Rightarrow>
       let st1 = (case outputStream this of
                    Some out \<Rightarrow> if LogLevel_Debug \<le> logLevel this then put_prefixed out LogLevel_Debug (message @ newline @ what @ newline) st else st
                  | None \<Rightarrow> st)
       in case aggregator this of
            Some agg \<Rightarrow> debug_message_exn fuel agg message what st1
          | None \<Rightarrow> Some st1)"

fun trace_message :: "nat \<Rightarrow> nat \<Rightarrow> string \<Rightarrow> logs \<Rightarrow> logs option" where
  "trace_message 0 l message st = None"
| "trace_message (Suc fuel) l message st =
     (case loggers st l of None \<Rightarrow> None | Some this \<Rightarrow>
       let st1 = (case outputStream this of
                    Some out \<Rightarrow> if LogLevel_Trace \<le> logLevel this then put_prefixed out LogLevel_Trace (message @ newline) st else st
                  | None \<Rightarrow> st)
       in case aggregator this of
            Some agg \<Rightarrow> trace_message fuel agg message st1
          | None \<Rightarrow> Some st1)"

fun trace_message_exn :: "nat \<Rightarrow> nat \<Rightarrow> string \<Rightarrow> string \<Rightarrow> logs \<Rightarrow> logs option" where
  "trace_message_exn 0 l message what st = None"
| "trace_message_exn (Suc fuel) l message what st =
     (case loggers st l of None \<Rightarrow> None | Some this \<Rightarrow>
       let st1 = (case outputStream this of
                    Some out \<Rightarrow> if LogLevel_Trace \<le> logLevel this then put_prefixed out LogLevel_Trace (message @ newline @ what @ newline) st else st
                  | None \<Rightarrow> st)
       in case aggregator this of
            Some agg \<Rightarrow> trace_message_exn fuel agg message what st1
          | None \<Rightarrow> Some st1)"

section \<open>Stream-style logging\<close>

text \<open>
  \<open>log(level)\<close> and its named variants set the stream level, open a line on the aggregators that
  will show it (outermost first) and on the logger's own stream; the characters that follow
  arrive one by one at \<open>overflow\<close>.
\<close>

definition set_stream_level :: "nat \<Rightarrow> LogLevel \<Rightarrow> logs \<Rightarrow> logs" where
  "set_stream_level l lvl st =
     (case loggers st l of None \<Rightarrow> st
      | Some this \<Rightarrow> st\<lparr>loggers := (loggers st)(l \<mapsto> this\<lparr>streamLogLevel := lvl\<rparr>)\<rparr>)"

fun log_stream :: "nat \<Rightarrow> nat \<Rightarrow> LogLevel \<Rightarrow> logs \<Rightarrow> logs option" where
  "log_stream 0 l lvl st = None"
| "log_stream (Suc fuel) l lvl st =
     (case loggers st l of None \<Rightarrow> None | Some this \<Rightarrow>
       let st1 = set_stream_level l lvl st;
           write_own = (\<lambda>st2. case outputStream this of
                          Some out \<Rightarrow> if lvl \<le> logLevel this then put_prefixed out lvl [] st2 else st2
                        | None \<Rightarrow> st2)
       in case aggregator this of
            None \<Rightarrow> Some (write_own st1)
          | Some agg \<Rightarrow>
              (case loggers st1 agg of None \<Rightarrow> None | Some A \<Rightarrow>
                 if lvl \<le> logLevel A then map_option write_own (log_stream fuel agg lvl st1)
                 else Some (write_own st1)))"

fun fatal_stream :: "nat \<Rightarrow> nat \<Rightarrow> logs \<Rightarrow> logs option" where
  "fatal_stream 0 l st = None"
| "fatal_stream (Suc fuel) l st =
     (case loggers st l of None \<Rightarrow> None | Some this \<Rightarrow>
       let st1 = set_stream_level l LogLevel_Fatal st;
           write_own = (\<lambda>st2. case outputStream this of
                          Some out \<Rightarrow> if LogLevel_Fatal \<le> logLevel this then put_prefixed out LogLevel_Fatal [] st2 else st2
                        | None \<Rightarrow> st2)
       in case aggregator this of
            None \<Rightarrow> Some (write_own st1)
          | Some agg \<Rightarrow>
              (case loggers st1 agg of None \<Rightarrow> None | Some A \<Rightarrow>
                 if LogLevel_Fatal \<le> logLevel A then map_option write_own (fatal_stream fuel agg st1)
                 else Some (write_own st1)))"

fun error_stream :: "nat \<Rightarrow> nat \<Rightarrow> logs \<Rightarrow> logs option" where
  "error_stream 0 l st = None"
| "error_stream (Suc fuel) l st =
     (case loggers st l of None \<Rightarrow> None | Some this \<Rightarrow>
       let st1 = set_stream_level l LogLevel_Error st;
           write_own = (\<lambda>st2. case outputStream this of
                          Some out \<Rightarrow> if LogLevel_Error \<le> logLevel this then put_prefixed out LogLevel_Error [] st2 else st2
                        | None \<Rightarrow> st2)
       in case aggregator this of
            None \<Rightarrow> Some (write_own st1)
          | Some agg \<Rightarrow>
              (case loggers st1 agg of None \<Rightarrow> None | Some A \<Rightarrow>
                 if LogLevel_Error \<le> logLevel A then map_option write_own (error_stream fuel agg st1)
                 else Some (write_own st1)))"

fun warn_stream :: "nat \<Rightarrow> nat \<Rightarrow> logs \<Rightarrow> logs option" where
  "warn_stream 0 l st = None"
| "warn_stream (Suc fuel) l st =
     (case loggers st l of None \<Rightarrow> None | Some this \<Rightarrow>
       let st1 = set_stream_level l LogLevel_Warn st;
           write_own = (\<lambda>st2. case outputStream this of
                          Some out \<Rightarrow> if LogLevel_Warn \<le> logLevel this then put_prefixed out LogLevel_Warn [] st2 else st2
                        | None \<Rightarrow> st2)
       in case aggregator this of
            None \<Rightarrow> Some (write_own st1)
          | Some agg \<Rightarrow>
              (case loggers st1 agg of None \<Rightarrow> None | Some A \<Rightarrow>
                 if LogLevel_Warn \<le> logLevel A then map_option write_own (warn_stream fuel agg st1)
                 else Some (write_own st1)))"

fun info_stream :: "nat \<Rightarrow> nat \<Rightarrow> logs \<Rightarrow> logs option" where
  "info_stream 0 l st = None"
| "info_stream (Suc fuel) l st =
     (case loggers st l of None \<Rightarrow> None | Some this \<Rightarrow>
       let st1 = set_stream_level l LogLevel_Info st;
           write_own = (\<lambda>st2. case outputStream this of
                          Some out \<Rightarrow> if LogLevel_Info \<le> logLevel this then put_prefixed out LogLevel_Info [] st2 else st2
                        | None \<Rightarrow> st2)
       in case aggregator this of
            None \<Rightarrow> Some (write_own st1)
          | Some agg \<Rightarrow>
              (case loggers st1 agg of None \<Rightarrow> None | Some A \<Rightarrow>
                 if LogLevel_Info \<le> logLevel A then map_option write_own (info_stream fuel agg st1)
                 else Some (write_own st1)))"

fun debug_stream :: "nat \<Rightarrow> nat \<Rightarrow> logs \<Rightarrow> logs option" where
  "debug_stream 0 l st = None"
| "debug_stream (Suc fuel) l st =
     (case loggers st l of None \<Rightarrow> None | Some this \<Rightarrow>
       let st1 = set_stream_level l LogLevel_Debug st;
           write_own = (\<lambda>st2. case outputStream this of
                          Some out \<Rightarrow> if LogLevel_Debug \<le> logLevel this then put_prefixed out LogLevel_Debug [] st2 else st2
                        | None \<Rightarrow> st2)
       in case aggregator this of
            None \<Rightarrow> Some (write_own st1)
          | Some agg \<Rightarrow>
              (case loggers st1 agg of None \<Rightarrow> None | Some A \<Rightarrow>
                 if LogLevel_Debug \<le> logLevel A then map_option write_own (debug_stream fuel agg st1)
                 else Some (write_own st1)))"

fun trace_stream :: "nat \<Rightarrow> nat \<Rightarrow> logs \<Rightarrow> logs option" where
  "trace_stream 0 l st = None"
| "trace_stream (Suc fuel) l st =
     (case loggers st l of None \<Rightarrow> None | Some this \<Rightarrow>
       let st1 = set_stream_level l LogLevel_Trace st;
           write_own = (\<lambda>st2. case outputStream this of
                          Some out \<Rightarrow> if LogLevel_Trace \<le> logLevel this then put_prefixed out LogLevel_Trace [] st2 else st2
                        | None \<Rightarrow> st2)
       in case aggregator this of
            None \<Rightarrow> Some (write_own st1)
          | Some agg \<Rightarrow>
              (case loggers st1 agg of None \<Rightarrow> None | Some A \<Rightarrow>
                 if LogLevel_Trace \<le> logLevel A then map_option write_own (trace_stream fuel agg st1)
                 else Some (write_own st1)))"

fun sync :: "nat \<Rightarrow> nat \<Rightarrow> logs \<Rightarrow> (int \<times> logs) option" where
  "sync 0 l st = None"
| "sync (Suc fuel) l st =
     (case loggers st l of None \<Rightarrow> None | Some this \<Rightarrow>
        (case aggregator this of Some agg \<Rightarrow> sync fuel agg st | None \<Rightarrow> Some (0, st)))"

fun overflowAggregator :: "nat \<Rightarrow> nat \<Rightarrow> char \<Rightarrow> LogLevel \<Rightarrow> logs \<Rightarrow> logs option" where
  "overflowAggregator 0 l c source st = None"
| "overflowAggregator (Suc fuel) l c source st =
     (case loggers st l of None \<Rightarrow> None | Some this \<Rightarrow>
       let st1 = (case outputStream this of
                    Some out \<Rightarrow> if source \<le> logLevel this \<and> logLevel this > LogLevel_Off
                                then put_text out [c] st else st
                  | None \<Rightarrow> st)
       in case aggregator this of
            None \<Rightarrow> Some st1
          | Some agg \<Rightarrow>
              (case loggers st1 agg of None \<Rightarrow> None | Some A \<Rightarrow>
                 if source \<le> logLevel A then overflowAggregator fuel agg c source st1 else Some st1))"

definition overflow :: "nat \<Rightarrow> nat \<Rightarrow> char \<Rightarrow> logs \<Rightarrow> logs option" where
  "overflow fuel l c st =
     (if c = CHR 0x0D then Some st
      else case loggers st l of None \<Rightarrow> None | Some this \<Rightarrow>
        let st1 = (case outputStream this of
                     Some out \<Rightarrow> if streamLogLevel this \<le> logLevel this \<and> streamLogLevel this > LogLevel_Off
                                 then put_text out [c] st else st
                   | None \<Rightarrow> st)
        in case aggregator this of
             None \<Rightarrow> Some st1
           | Some agg \<Rightarrow>
               (case loggers st1 agg of None \<Rightarrow> None | Some A \<Rightarrow>
                  if streamLogLevel this \<le> logLevel A
                  then overflowAggregator fuel agg c (streamLogLevel this) st1 else Some st1))"

text \<open>\<open>logger << text\<close>: the stream has no put area, so every character goes to \<open>overflow\<close>.\<close>

fun stream_text :: "nat \<Rightarrow> nat \<Rightarrow> string \<Rightarrow> logs \<Rightarrow> logs option" where
  "stream_text fuel l [] st = Some st"
| "stream_text fuel l (c # cs) st = Option.bind (overflow fuel l c st) (stream_text fuel l cs)"
section \<open>The aggregator chain\<close>

text \<open>The loggers a call visits, from the logger itself outwards.\<close>

fun chain :: "nat \<Rightarrow> (nat \<Rightarrow> logger option) \<Rightarrow> nat \<Rightarrow> nat list option" where
  "chain 0 H l = None"
| "chain (Suc fuel) H l =
     (case H l of None \<Rightarrow> None | Some L \<Rightarrow>
        (case aggregator L of None \<Rightarrow> Some [l] | Some a \<Rightarrow> map_option (Cons l) (chain fuel H a)))"

text \<open>What one logger of the chain does with a message.\<close>

definition log_entry :: "LogLevel \<Rightarrow> string \<Rightarrow> nat \<Rightarrow> logs \<Rightarrow> logs" where
  "log_entry lvl line l st =
     (case loggers st l of None \<Rightarrow> st | Some L \<Rightarrow>
        (case outputStream L of None \<Rightarrow> st
         | Some out \<Rightarrow> if lvl \<le> logLevel L then put_prefixed out lvl line st else st))"

text \<open>An acyclic store: every aggregator exists and is nearer to the end of its chain.\<close>

definition acyclic_loggers :: "(nat \<Rightarrow> logger option) \<Rightarrow> (nat \<Rightarrow> nat) \<Rightarrow> bool" where
  "acyclic_loggers H rank \<longleftrightarrow>
     (\<forall>l L a. H l = Some L \<longrightarrow> aggregator L = Some a \<longrightarrow> H a \<noteq> None \<and> rank a < rank l)"

lemma getTimestamp_loggers [simp]: "loggers (snd (getTimestamp st)) = loggers st"
  by (simp add: getTimestamp_def Let_def split: option.split)

lemma put_text_loggers [simp]: "loggers (put_text s t st) = loggers st"
  by (simp add: put_text_def)

lemma put_prefixed_loggers [simp]: "loggers (put_prefixed s lvl t st) = loggers st"
  by (simp add: put_prefixed_def getPrefix_def split_beta Let_def)

lemma log_entry_loggers [simp]: "loggers (log_entry lvl line l st) = loggers st"
  by (simp add: log_entry_def split: option.split)

lemma chain_enough_fuel:
  assumes "acyclic_loggers H rank" "H l \<noteq> None" "rank l < fuel"
  shows "\<exists>c. chain fuel H l = Some c"
  using assms(2,3)
proof (induction fuel arbitrary: l)
  case (Suc fuel)
  then obtain L where L: "H l = Some L" by auto
  show ?case
  proof (cases "aggregator L")
    case (Some a)
    then have "H a \<noteq> None" "rank a < rank l"
      using assms(1) L by (auto simp: acyclic_loggers_def)
    with Suc.prems(2) have "rank a < fuel" by simp
    from Suc.IH [OF \<open>H a \<noteq> None\<close> this] L Some show ?thesis by auto
  qed (simp add: L)
qed simp

lemma message_walks_chain:
  assumes "chain fuel (loggers st) l = Some c"
  shows "log_message fuel l lvl message st = Some (fold (log_entry lvl (message @ newline)) c st)"
  using assms
proof (induction fuel arbitrary: l c st)
  case (Suc fuel)
  then obtain L where L: "loggers st l = Some L" by (auto split: option.splits)
  let ?st1 = "log_entry lvl (message @ newline) l st"
  show ?case
  proof (cases "aggregator L")
    case None
    with Suc.prems L show ?thesis
      by (auto simp: log_entry_def split: option.splits)
  next
    case (Some a)
    with Suc.prems L obtain c' where c': "c = l # c'" "chain fuel (loggers ?st1) a = Some c'"
      by auto
    have "log_message (Suc fuel) l lvl message st = log_message fuel a lvl message ?st1"
      using L Some by (auto simp: log_entry_def split: option.splits)
    with Suc.IH [OF c'(2)] c'(1) show ?thesis by simp
  qed
qed simp

lemma stream_calls_are_log_stream:
  "fatal_stream fuel l st = log_stream fuel l LogLevel_Fatal st"
  "error_stream fuel l st = log_stream fuel l LogLevel_Error st"
  "warn_stream fuel l st = log_stream fuel l LogLevel_Warn st"
  "info_stream fuel l st = log_stream fuel l LogLevel_Info st"
  "debug_stream fuel l st = log_stream fuel l LogLevel_Debug st"
  "trace_stream fuel l st = log_stream fuel l LogLevel_Trace st"
  by (induction fuel arbitrary: l st) (simp_all add: Let_def split: option.split)

lemma message_calls_are_log:
  "fatal_message fuel l m st = log_message fuel l LogLevel_Fatal m st"
  "error_message fuel l m st = log_message fuel l LogLevel_Error m st"
  "warn_message fuel l m st = log_message fuel l LogLevel_Warn m st"
  "info_message fuel l m st = log_message fuel l LogLevel_Info m st"
  "debug_message fuel l m st = log_message fuel l LogLevel_Debug m st"
  "trace_message fuel l m st = log_message fuel l LogLevel_Trace m st"
  "fatal_message_exn fuel l m e st = log_message_exn fuel l LogLevel_Fatal m e st"
  "error_message_exn fuel l m e st = log_message_exn fuel l LogLevel_Error m e st"
  "warn_message_exn fuel l m e st = log_message_exn fuel l LogLevel_Warn m e st"
  "info_message_exn fuel l m e st = log_message_exn fuel l LogLevel_Info m e st"
  "debug_message_exn fuel l m e st = log_message_exn fuel l LogLevel_Debug m e st"
  "trace_message_exn fuel l m e st = log_message_exn fuel l LogLevel_Trace m e st"
  by (induction fuel arbitrary: l st) (simp_all cong: option.case_cong)

section \<open>Properties\<close>

text \<open>
  One call of \<open>log(level, message)\<close> writes, for every logger of the aggregator
  chain in order, one line to its stream exactly when that logger's own level admits the
  message; a logger that filters the message still forwards it.
\<close>

theorem log_message_chain:
  assumes "chain fuel (loggers st) l = Some c"
  shows "log_message fuel l lvl message st = Some (fold (log_entry lvl (message @ newline)) c st)"
  using assms by (rule message_walks_chain)

definition example_logs :: logs where
  "example_logs = \<lparr>loggers = [1 \<mapsto> new_logger_stream_aggregator (Some 5) (Some 2) LogLevel_Warn,
      2 \<mapsto> new_logger_stream (Some 6) LogLevel_All], streams = (\<lambda>_. []), readings = (\<lambda>_. None), reads = 0\<rparr>"

lemma log_message_chain_witness:
  "\<exists>st. log_message 2 1 LogLevel_Info ''x'' example_logs = Some st \<and> streams st 5 = [] \<and>
        streams st 6 = '' INFO: x'' @ newline"
proof -
  have c: "chain 2 (loggers example_logs) 1 = Some [1, 2]"
    by (simp add: eval_nat_numeral example_logs_def new_logger_stream_aggregator_def new_logger_stream_def)
  show ?thesis
    using log_message_chain [OF c, of LogLevel_Info "''x''"]
    by (simp add: example_logs_def log_entry_def new_logger_stream_aggregator_def
        new_logger_stream_def log_levels put_prefixed_def getPrefix_def getTimestamp_def
        level_text_def put_text_def)
qed

text \<open>
  On an acyclic store a message call from any logger returns, with as much fuel as
  the logger's distance from the end of its chain.
\<close>

theorem log_message_returns:
  assumes "acyclic_loggers (loggers st) rank" "loggers st l \<noteq> None"
  shows "\<exists>st'. log_message (Suc (rank l)) l lvl message st = Some st'"
  using chain_enough_fuel [OF assms, of "Suc (rank l)"] message_walks_chain by blast

lemma log_message_returns_witness:
  "\<exists>st'. log_message (Suc (2 - 1)) 1 LogLevel_Info ''x'' example_logs = Some st'"
  by (rule log_message_returns [where rank = "\<lambda>l. 2 - l"])
    (auto simp: example_logs_def acyclic_loggers_def new_logger_stream_aggregator_def
      new_logger_stream_def split: if_splits)

text \<open>
  A logger that was made its own aggregator (\<open>setAggregator\<close> accepts this) never
  returns from a message call, whatever the recursion depth.
\<close>

theorem self_aggregation_diverges:
  "loggers st l = Some (setAggregator (Some l) L) \<Longrightarrow> log_message fuel l lvl message st = None"
proof (induction fuel arbitrary: st)
  case (Suc fuel)
  have "aggregator (setAggregator (Some l) L) = Some l" by (simp add: setAggregator_def)
  then show ?case
    using Suc by (simp add: Let_def split: option.split)
qed simp

lemma self_aggregation_diverges_witness:
  "log_message 1000 3 LogLevel_Info ''x''
     (example_logs\<lparr>loggers := [3 \<mapsto> setAggregator (Some 3) (new_logger LogLevel_Info)]\<rparr>) = None"
  by (rule self_aggregation_diverges) (simp add: example_logs_def)

text \<open>
  The six named message calls are \<open>log\<close> at their level, on every logger, store
  and depth, with and without an exception text, and so are the six stream-style calls.
\<close>

theorem named_levels_are_log:
  "fatal_message fuel l m st = log_message fuel l LogLevel_Fatal m st \<and>
   error_message fuel l m st = log_message fuel l LogLevel_Error m st \<and>
   warn_message fuel l m st = log_message fuel l LogLevel_Warn m st \<and>
   info_message fuel l m st = log_message fuel l LogLevel_Info m st \<and>
   debug_message fuel l m st = log_message fuel l LogLevel_Debug m st \<and>
   trace_message fuel l m st = log_message fuel l LogLevel_Trace m st \<and>
   fatal_message_exn fuel l m e st = log_message_exn fuel l LogLevel_Fatal m e st \<and>
   error_message_exn fuel l m e st = log_message_exn fuel l LogLevel_Error m e st \<and>
   warn_message_exn fuel l m e st = log_message_exn fuel l LogLevel_Warn m e st \<and>
   info_message_exn fuel l m e st = log_message_exn fuel l LogLevel_Info m e st \<and>
   debug_message_exn fuel l m e st = log_message_exn fuel l LogLevel_Debug m e st \<and>
   trace_message_exn fuel l m e st = log_message_exn fuel l LogLevel_Trace m e st \<and>
   fatal_stream fuel l st = log_stream fuel l LogLevel_Fatal st \<and>
   error_stream fuel l st = log_stream fuel l LogLevel_Error st \<and>
   warn_stream fuel l st = log_stream fuel l LogLevel_Warn st \<and>
   info_stream fuel l st = log_stream fuel l LogLevel_Info st \<and>
   debug_stream fuel l st = log_stream fuel l LogLevel_Debug st \<and>
   trace_stream fuel l st = log_stream fuel l LogLevel_Trace st"
  by (simp only: message_calls_are_log stream_calls_are_log_stream simp_thms)

section \<open>Stream style against message style\<close>

lemma loggers_set_stream_level:
  "loggers (set_stream_level l lvl st) l' =
     (if l' = l then map_option (\<lambda>L. L\<lparr>streamLogLevel := lvl\<rparr>) (loggers st l) else loggers st l')"
  by (simp add: set_stream_level_def split: option.split)

text \<open>Characters put one by one on a logger without aggregator add up to the text.\<close>

lemma stream_text_own:
  assumes "loggers st l = Some L" "aggregator L = None" "CHR 0x0D \<notin> set text"
    "streamLogLevel L > LogLevel_Off"
  shows "stream_text fuel l text st =
    Some (case outputStream L of None \<Rightarrow> st
          | Some out \<Rightarrow> if streamLogLevel L \<le> logLevel L then put_text out text st else st)"
  using assms
proof (induction "text" arbitrary: st)
  case Nil
  then show ?case by (simp add: put_text_def split: option.split)
next
  case (Cons c cs)
  have step: "overflow fuel l c st =
    Some (case outputStream L of None \<Rightarrow> st
          | Some out \<Rightarrow> if streamLogLevel L \<le> logLevel L then put_text out [c] st else st)"
    using Cons.prems by (auto simp: overflow_def Let_def split: option.split)
  have "loggers (case outputStream L of None \<Rightarrow> st
     | Some out \<Rightarrow> if streamLogLevel L \<le> logLevel L then put_text out [c] st else st) l = Some L"
    using Cons.prems by (simp split: option.split)
  from Cons.IH [OF this] Cons.prems step show ?case
    by (auto simp: put_text_def split: option.splits)
qed

lemma getPrefix_set_stream_level:
  "getPrefix lvl (set_stream_level l v st) =
     (fst (getPrefix lvl st), set_stream_level l v (snd (getPrefix lvl st)))"
  by (simp add: getPrefix_def getTimestamp_def set_stream_level_def Let_def split_beta
      split: option.split)

lemma put_text_set_stream_level:
  "put_text s t (set_stream_level l v st) = set_stream_level l v (put_text s t st)"
  by (simp add: put_text_def set_stream_level_def split: option.split)

lemma put_text_append: "put_text s u (put_text s t st) = put_text s (t @ u) st"
  by (simp add: put_text_def)

lemma put_prefixed_set_stream_level:
  "put_prefixed s lvl t (set_stream_level l v st) = set_stream_level l v (put_prefixed s lvl t st)"
  by (simp add: put_prefixed_def getPrefix_set_stream_level put_text_set_stream_level split_beta)

lemma put_prefixed_then_text: "put_text s u (put_prefixed s lvl t st) = put_prefixed s lvl (t @ u) st"
  by (simp add: put_prefixed_def split_beta put_text_append)

text \<open>
  On a logger without an aggregator, \<open>logger.log(level) << message << endl\<close> leaves
  the same texts as \<open>logger.log(level, message)\<close>; the only other effect is the stream level it
  sets. (Carriage returns are dropped by \<open>overflow\<close>, and level Off never reaches the stream.)
\<close>

theorem stream_log_matches_message_log:
  assumes "loggers st l = Some L" "aggregator L = None" "CHR 0x0D \<notin> set message" "lvl > LogLevel_Off"
  shows "Option.bind (log_stream (Suc n) l lvl st) (stream_text m l (message @ newline)) =
    map_option (set_stream_level l lvl) (log_message (Suc n) l lvl message st)"
proof -
  let ?L = "L\<lparr>streamLogLevel := lvl\<rparr>"
  let ?st1 = "set_stream_level l lvl st"
  let ?st2 = "case outputStream L of None \<Rightarrow> ?st1
     | Some out \<Rightarrow> if lvl \<le> logLevel L then put_prefixed out lvl [] ?st1 else ?st1"
  have "log_stream (Suc n) l lvl st = Some ?st2"
    using assms by (simp add: Let_def split: option.split)
  moreover have "loggers ?st2 l = Some ?L"
    using assms by (simp add: loggers_set_stream_level split: option.split)
  then have "stream_text m l (message @ newline) ?st2 =
      Some (case outputStream ?L of None \<Rightarrow> ?st2
            | Some out \<Rightarrow> if streamLogLevel ?L \<le> logLevel ?L then put_text out (message @ newline) ?st2 else ?st2)"
    by (rule stream_text_own) (use assms in \<open>auto simp: newline_def\<close>)
  ultimately show ?thesis
    using assms by (auto simp: put_prefixed_set_stream_level put_text_set_stream_level
        put_prefixed_then_text split: option.split)
qed

lemma stream_log_matches_message_log_witness:
  "Option.bind (log_stream (Suc 0) 2 LogLevel_Info example_logs) (stream_text 0 2 (''hi'' @ newline)) =
    map_option (set_stream_level 2 LogLevel_Info) (log_message (Suc 0) 2 LogLevel_Info ''hi'' example_logs)"
  by (rule stream_log_matches_message_log [where L = "new_logger_stream (Some 6) LogLevel_All"])
    (simp_all add: example_logs_def new_logger_stream_def log_levels)

end
