(* ===== verification/Command.thy ===== *)
theory Command
  imports Logger
begin

text \<open>
  \<open>CrossCutLib/GenericCommand\<close>, \<open>ErrorHandler\<close> and the execution half of \<open>Commander.cpp\<close>
  (\<open>DoCommand\<close>, \<open>UndoCommand\<close>, \<open>DoDo\<close>, \<open>DoUndo\<close>, the plain and the ACID loops over sub
  commands). A command is a tree; a node without sub commands runs the virtual \<open>Do\<close> and \<open>Undo\<close>
  of its class. The classes derived from \<open>GenericCommand\<close>, the registered error handlers and
  listeners and the logger belong to the client of the commander: they are the fields of
  \<open>client\<close>, acting on the client's world \<open>'w\<close>. Exceptions are values of \<open>outcome\<close>.
\<close>

section \<open>Commands and errors\<close>

definition GenericUndoCommand :: u32 where "GenericUndoCommand = 0"
definition GenericRedoCommand :: u32 where "GenericRedoCommand = 1"
definition KillCommanderCommand :: u32 where "KillCommanderCommand = 2"
definition AcidCommandParent :: u32 where "AcidCommandParent = 3"
definition FirstUnreservedCommand :: u32 where "FirstUnreservedCommand = 4"
definition UINT32_MAX :: u32 where "UINT32_MAX = 4294967295"

text \<open>
  The object is \<open>None\<close> for a plain \<open>GenericCommand\<close> and the derived object otherwise.
\<close>

datatype 'a cmd = Cmd
  (derived: "'a option")
  (commandClassId: u32)
  (undoRedoTypeId: u32)
  (isSynchronous: bool)
  (subCommandsAreAcid: bool)
  (subCommands: "'a cmd list")

definition new_command :: "'a option \<Rightarrow> bool \<Rightarrow> u32 \<Rightarrow> u32 \<Rightarrow> 'a cmd" where
  "new_command obj synchronous classId typeId = Cmd obj classId typeId synchronous False []"

definition new_compound :: "'a cmd list \<Rightarrow> bool \<Rightarrow> bool \<Rightarrow> u32 \<Rightarrow> u32 \<Rightarrow> 'a cmd" where
  "new_compound subs synchronous acid classId typeId = Cmd None classId typeId synchronous acid subs"

datatype ErrorAction = DiscardCommand | RetryCommand | RetrySubCommand | ContinueCommand

record ErrorHandlerResult =
  primaryAction :: ErrorAction
  resultLevel :: LogLevel
  logString :: string

text \<open>
  What can be thrown: a \<open>KnownError\<close> with its id, another \<open>std::exception\<close> with its text, or
  something that no handler of the commander catches (the commander itself throws a pointer,
  \<open>new AcidRollbackFailure\<close>).
\<close>

datatype exn = KnownError u32 | StdException string | Uncatchable string

datatype 'x outcome = Returned 'x | Threw exn

type_synonym ('x, 'w) result = "'x outcome \<times> 'w"

record ('a, 'l, 'h, 'w) client =
  do_of :: "'a \<Rightarrow> 'w \<Rightarrow> (unit, 'w) result"
  undo_of :: "'a \<Rightarrow> 'w \<Rightarrow> (unit, 'w) result"
  toString_of :: "'a \<Rightarrow> string"
  handle_exception :: "'h \<Rightarrow> 'a cmd \<Rightarrow> u32 \<Rightarrow> 'w \<Rightarrow> ErrorHandlerResult \<times> 'w"
  listen :: "'l \<Rightarrow> u32 \<Rightarrow> 'a cmd \<Rightarrow> 'w \<Rightarrow> 'w"
  log_to :: "LogLevel \<Rightarrow> string \<Rightarrow> 'w \<Rightarrow> 'w"

definition log_error :: "('a, 'l, 'h, 'w) client \<Rightarrow> string \<Rightarrow> 'w \<Rightarrow> 'w" where
  "log_error E = log_to E LogLevel_Error"

definition cmd_toString :: "('a, 'l, 'h, 'w) client \<Rightarrow> 'a cmd \<Rightarrow> string" where
  "cmd_toString E c =
     (case derived c of Some a \<Rightarrow> toString_of E a
      | None \<Rightarrow> ''[Override this method to print command details]'')"

definition cmd_Do :: "('a, 'l, 'h, 'w) client \<Rightarrow> 'a cmd \<Rightarrow> 'w \<Rightarrow> (unit, 'w) result" where
  "cmd_Do E c w =
     (case derived c of Some a \<Rightarrow> do_of E a w
      | None \<Rightarrow> (Returned (), log_error E ''Default Do() hit, this should be overriden!'' w))"

definition cmd_Undo :: "('a, 'l, 'h, 'w) client \<Rightarrow> 'a cmd \<Rightarrow> 'w \<Rightarrow> (unit, 'w) result" where
  "cmd_Undo E c w =
     (case derived c of Some a \<Rightarrow> undo_of E a w
      | None \<Rightarrow> (Returned (), log_error E ''Default Undo() hit, this should be overriden!'' w))"

text \<open>\<open>KnownError::GetNextErrorId\<close>: the atomic counter, returned before the increment.\<close>

definition GetNextErrorId :: "u32 \<Rightarrow> u32 \<times> u32" where
  "GetNextErrorId nextErrorId = (nextErrorId, nextErrorId + 1)"

definition initial_nextErrorId :: u32 where "initial_nextErrorId = 1"

section \<open>Error handling\<close>

type_synonym 'h handlers = "u32 \<Rightarrow> 'h option"

definition HandleError ::
    "('a, 'l, 'h, 'w) client \<Rightarrow> 'h handlers \<Rightarrow> 'a cmd \<Rightarrow> u32 \<Rightarrow> 'w \<Rightarrow> ErrorHandlerResult \<times> 'w" where
  "HandleError E hs c e w =
     (case hs e of
        Some handler \<Rightarrow> handle_exception E handler c e w
      | None \<Rightarrow> (\<lparr>primaryAction = DiscardCommand, resultLevel = LogLevel_Error,
                  logString = ''Unknown error occured in command: '' @ cmd_toString E c\<rparr>, w))"

text \<open>The handler's verdict, after its text went to the log.\<close>

definition handle_and_log ::
    "('a, 'l, 'h, 'w) client \<Rightarrow> 'h handlers \<Rightarrow> 'a cmd \<Rightarrow> u32 \<Rightarrow> 'w \<Rightarrow> ErrorAction \<times> 'w" where
  "handle_and_log E hs c e w =
     (let (r, w') = HandleError E hs c e w
      in (primaryAction r, log_to E (resultLevel r) (logString r) w'))"

text \<open>The two error lines of every \<open>catch ( std::exception & )\<close>.\<close>

definition log_unknown :: "('a, 'l, 'h, 'w) client \<Rightarrow> string \<Rightarrow> 'a cmd \<Rightarrow> string \<Rightarrow> 'w \<Rightarrow> 'w" where
  "log_unknown E what c during w =
     log_error E (''An unknown exception occured during '' @ during @ cmd_toString E c) (log_error E what w)"

function DoDo :: "('a, 'l, 'h, 'w) client \<Rightarrow> 'h handlers \<Rightarrow> 'a cmd \<Rightarrow> bool \<Rightarrow> 'w \<Rightarrow> (bool, 'w) result" where
  "DoDo E hs c retrying w =
     (case cmd_Do E c w of
        (Returned u, w1) \<Rightarrow> (Returned True, w1)
      | (Threw (KnownError e), w1) \<Rightarrow>
          (let (action, w2) = handle_and_log E hs c e w1
           in if action = RetryCommand \<and> \<not> retrying then DoDo E hs c True w2
              else (Returned False, w2))
      | (Threw (StdException what), w1) \<Rightarrow> (Returned True, log_unknown E what c ''command: '' w1)
      | (Threw (Uncatchable x), w1) \<Rightarrow> (Threw (Uncatchable x), w1))"
  by pat_completeness auto
termination
  by (relation "measure (\<lambda>(E, hs, c, retrying, w). if retrying then 0 else 1)") auto

declare DoDo.simps [simp del]

function DoUndo :: "('a, 'l, 'h, 'w) client \<Rightarrow> 'h handlers \<Rightarrow> 'a cmd \<Rightarrow> bool \<Rightarrow> 'w \<Rightarrow> (bool, 'w) result" where
  "DoUndo E hs c retrying w =
     (case cmd_Undo E c w of
        (Returned u, w1) \<Rightarrow> (Returned True, w1)
      | (Threw (KnownError e), w1) \<Rightarrow>
          (let (action, w2) = handle_and_log E hs c e w1
           in if action = RetryCommand \<and> \<not> retrying then DoUndo E hs c True w2
              else (Returned False, w2))
      | (Threw (StdException what), w1) \<Rightarrow> (Returned True, log_unknown E what c ''undo command: '' w1)
      | (Threw (Uncatchable x), w1) \<Rightarrow> (Threw (Uncatchable x), w1))"
  by pat_completeness auto
termination
  by (relation "measure (\<lambda>(E, hs, c, retrying, w). if retrying then 0 else 1)") auto

declare DoUndo.simps [simp del]

section \<open>Retries inside an ACID command\<close>

text \<open>
  One guarded attempt of the ACID loops: \<open>first\<close> is the outcome of the call in the \<open>try\<close>
  block, \<open>again\<close> the call a \<open>RetryCommand\<close> verdict makes. The \<open>catch\<close> blocks name the command
  they hand to the error handler (\<open>c\<close>, and \<open>c2\<close> after the retry) and the word of the log line.
  The result is the value of the success flag.
\<close>

definition attempt ::
    "('a, 'l, 'h, 'w) client \<Rightarrow> 'h handlers \<Rightarrow> 'a cmd \<Rightarrow> 'a cmd \<Rightarrow> string \<Rightarrow>
     (bool, 'w) result \<Rightarrow> ('w \<Rightarrow> (bool, 'w) result) \<Rightarrow> (bool, 'w) result" where
  "attempt E hs c c2 during first again =
     (case first of
        (Returned b, w1) \<Rightarrow> (Returned b, w1)
      | (Threw (KnownError e), w1) \<Rightarrow>
          (let (action, w2) = handle_and_log E hs c e w1
           in if action = RetryCommand then
                (case again w2 of
                   (Returned b, w3) \<Rightarrow> (Returned b, w3)
                 | (Threw (KnownError e'), w3) \<Rightarrow> (Returned False, snd (handle_and_log E hs c2 e' w3))
                 | (Threw (StdException what), w3) \<Rightarrow> (Returned False, log_unknown E what c during w3)
                 | (Threw (Uncatchable x), w3) \<Rightarrow> (Threw (Uncatchable x), w3))
              else (Returned False, w2))
      | (Threw (StdException what), w1) \<Rightarrow> (Returned False, log_unknown E what c ''undo command: '' w1)
      | (Threw (Uncatchable x), w1) \<Rightarrow> (Threw (Uncatchable x), w1))"

text \<open>
  The guarded attempt inside a rollback. The retry assigns its result to the outer flag, so the
  flag the rollback tests stays false after any exception.
\<close>

definition rollback_attempt ::
    "('a, 'l, 'h, 'w) client \<Rightarrow> 'h handlers \<Rightarrow> 'a cmd \<Rightarrow>
     (bool, 'w) result \<Rightarrow> ('w \<Rightarrow> (bool, 'w) result) \<Rightarrow> (bool, 'w) result" where
  "rollback_attempt E hs c first again =
     (case first of
        (Returned b, w1) \<Rightarrow> (Returned b, w1)
      | (Threw (KnownError e), w1) \<Rightarrow>
          (let (action, w2) = handle_and_log E hs c e w1
           in if action = RetryCommand then
                (case again w2 of
                   (Returned b, w3) \<Rightarrow> (Returned False, w3)
                 | (Threw (KnownError e'), w3) \<Rightarrow> (Returned False, snd (handle_and_log E hs c e' w3))
                 | (Threw (StdException what), w3) \<Rightarrow> (Returned False, log_unknown E what c ''command: '' w3)
                 | (Threw (Uncatchable x), w3) \<Rightarrow> (Threw (Uncatchable x), w3))
              else (Returned False, w2))
      | (Threw (StdException what), w1) \<Rightarrow> (Returned False, log_unknown E what c ''undo command: '' w1)
      | (Threw (Uncatchable x), w1) \<Rightarrow> (Threw (Uncatchable x), w1))"

section \<open>Doing and undoing command trees\<close>

text \<open>The size of a command tree: every call below is on fewer nodes, or on the same nodes with
  fewer sub commands to come.\<close>

fun nodes :: "'a cmd \<Rightarrow> nat" where
  "nodes (Cmd obj cl ty sy acid subs) = Suc (sum_list (map nodes subs))"

lemma nodes_pos [simp]: "0 < nodes c"
  by (cases c) simp

lemma nodes_rev [simp]: "sum_list (map nodes (rev cs)) = sum_list (map nodes cs)"
  by (induction cs) simp_all

text \<open>
  \<open>do_cmd\<close> and \<open>undo_cmd\<close> are \<open>DoCommand\<close> and \<open>UndoCommand\<close> with the flag \<open>hasAcidParent\<close>. In
  the ACID loops the sub commands already done are kept, latest first, in \<open>past\<close>: they are what
  the rollback walks through.
\<close>

function (sequential)
    do_cmd :: "('a, 'l, 'h, 'w) client \<Rightarrow> 'h handlers \<Rightarrow> 'a cmd \<Rightarrow> bool \<Rightarrow> 'w \<Rightarrow> (bool, 'w) result"
  and do_sub_items :: "('a, 'l, 'h, 'w) client \<Rightarrow> 'h handlers \<Rightarrow> 'a cmd list \<Rightarrow> 'w \<Rightarrow> (unit, 'w) result"
  and do_acid :: "('a, 'l, 'h, 'w) client \<Rightarrow> 'h handlers \<Rightarrow> 'a cmd list \<Rightarrow> 'a cmd list \<Rightarrow> 'w \<Rightarrow> (bool, 'w) result"
  and rollback_do :: "('a, 'l, 'h, 'w) client \<Rightarrow> 'h handlers \<Rightarrow> 'a cmd list \<Rightarrow> 'w \<Rightarrow> (bool, 'w) result"
  and undo_cmd :: "('a, 'l, 'h, 'w) client \<Rightarrow> 'h handlers \<Rightarrow> 'a cmd \<Rightarrow> bool \<Rightarrow> 'w \<Rightarrow> (bool, 'w) result"
  and undo_sub_items :: "('a, 'l, 'h, 'w) client \<Rightarrow> 'h handlers \<Rightarrow> 'a cmd list \<Rightarrow> 'w \<Rightarrow> (unit, 'w) result"
  and undo_acid :: "('a, 'l, 'h, 'w) client \<Rightarrow> 'h handlers \<Rightarrow> 'a cmd \<Rightarrow> 'a cmd list \<Rightarrow> 'a cmd list \<Rightarrow> 'w \<Rightarrow> (bool, 'w) result"
  and rollback_undo :: "('a, 'l, 'h, 'w) client \<Rightarrow> 'h handlers \<Rightarrow> 'a cmd list \<Rightarrow> 'w \<Rightarrow> (bool, 'w) result"
where
  "do_cmd E hs (Cmd obj cl ty sy acid subs) hasAcidParent w =
     (if hasAcidParent \<or> acid then
        (if length subs > 0 then do_acid E hs [] subs w
         else DoDo E hs (Cmd obj cl ty sy acid subs) False w)
      else if length subs > 0 then
        (case do_sub_items E hs subs w of
           (Returned u, w1) \<Rightarrow> (Returned True, w1)
         | (Threw x, w1) \<Rightarrow> (Threw x, w1))
      else
        (case DoDo E hs (Cmd obj cl ty sy acid subs) False w of
           (Returned b, w1) \<Rightarrow> (Returned True, w1)
         | (Threw x, w1) \<Rightarrow> (Threw x, w1)))"
| "do_sub_items E hs [] w = (Returned (), w)"
| "do_sub_items E hs (c # cs) w =
     (case do_cmd E hs c False w of
        (Returned b, w1) \<Rightarrow> do_sub_items E hs cs w1
      | (Threw x, w1) \<Rightarrow> (Threw x, w1))"
| "do_acid E hs past [] w = (Returned True, w)"
| "do_acid E hs past (c # cs) w =
     (case attempt E hs c c ''command: '' (do_cmd E hs c True w) (\<lambda>w2. do_cmd E hs c True w2) of
        (Returned True, w1) \<Rightarrow> do_acid E hs (c # past) cs w1
      | (Returned False, w1) \<Rightarrow> rollback_do E hs past w1
      | (Threw x, w1) \<Rightarrow> (Threw x, w1))"
| "rollback_do E hs [] w = (Returned False, w)"
| "rollback_do E hs (c # past) w =
     (case rollback_attempt E hs c (undo_cmd E hs c True w) (\<lambda>w2. do_cmd E hs c True w2) of
        (Returned True, w1) \<Rightarrow> rollback_do E hs past w1
      | (Returned False, w1) \<Rightarrow> (Threw (Uncatchable ''ACID Do rollback Failed!''), w1)
      | (Threw x, w1) \<Rightarrow> (Threw x, w1))"
| "undo_cmd E hs (Cmd obj cl ty sy acid subs) hasAcidParent w =
     (if hasAcidParent \<or> acid then
        (if length subs > 0 then undo_acid E hs (Cmd obj cl ty sy acid subs) [] (rev subs) w
         else (Returned False, w))
      else if length subs > 0 then
        (case undo_sub_items E hs subs w of
           (Returned u, w1) \<Rightarrow> (Returned True, w1)
         | (Threw x, w1) \<Rightarrow> (Threw x, w1))
      else
        (case cmd_Undo E (Cmd obj cl ty sy acid subs) w of
           (Returned u, w1) \<Rightarrow> (Returned True, w1)
         | (Threw x, w1) \<Rightarrow> (Threw x, w1)))"
| "undo_sub_items E hs [] w = (Returned (), w)"
| "undo_sub_items E hs (c # cs) w =
     (case undo_cmd E hs c False w of
        (Returned b, w1) \<Rightarrow> undo_sub_items E hs cs w1
      | (Threw x, w1) \<Rightarrow> (Threw x, w1))"
| "undo_acid E hs command past [] w = (Returned True, w)"
| "undo_acid E hs command past (c # cs) w =
     (case attempt E hs c command ''undo command: '' (undo_cmd E hs c True w) (\<lambda>w2. undo_cmd E hs c True w2) of
        (Returned True, w1) \<Rightarrow> undo_acid E hs command (c # past) cs w1
      | (Returned False, w1) \<Rightarrow> rollback_undo E hs past w1
      | (Threw x, w1) \<Rightarrow> (Threw x, w1))"
| "rollback_undo E hs [] w = (Returned False, w)"
| "rollback_undo E hs (c # past) w =
     (case rollback_attempt E hs c (do_cmd E hs c True w) (\<lambda>w2. undo_cmd E hs c True w2) of
        (Returned True, w1) \<Rightarrow> rollback_undo E hs past w1
      | (Returned False, w1) \<Rightarrow> (Threw (Uncatchable ''ACID Undo Rollback Failed!''), w1)
      | (Threw x, w1) \<Rightarrow> (Threw x, w1))"
  by pat_completeness auto

termination
  by (relation "measures
      [\<lambda>x. case x of
          Inl (Inl (Inl (E, hs, c, p, w))) \<Rightarrow> nodes c
        | Inl (Inl (Inr (E, hs, cs, w))) \<Rightarrow> sum_list (map nodes cs)
        | Inl (Inr (Inl (E, hs, past, cs, w))) \<Rightarrow> sum_list (map nodes past) + sum_list (map nodes cs)
        | Inl (Inr (Inr (E, hs, past, w))) \<Rightarrow> sum_list (map nodes past)
        | Inr (Inl (Inl (E, hs, c, p, w))) \<Rightarrow> nodes c
        | Inr (Inl (Inr (E, hs, cs, w))) \<Rightarrow> sum_list (map nodes cs)
        | Inr (Inr (Inl (E, hs, c, past, cs, w))) \<Rightarrow> sum_list (map nodes past) + sum_list (map nodes cs)
        | Inr (Inr (Inr (E, hs, past, w))) \<Rightarrow> sum_list (map nodes past),
       \<lambda>x. case x of
          Inl (Inl (Inl (E, hs, c, p, w))) \<Rightarrow> 0
        | Inl (Inl (Inr (E, hs, cs, w))) \<Rightarrow> Suc (length cs)
        | Inl (Inr (Inl (E, hs, past, cs, w))) \<Rightarrow> Suc (length cs)
        | Inl (Inr (Inr (E, hs, past, w))) \<Rightarrow> Suc (length past)
        | Inr (Inl (Inl (E, hs, c, p, w))) \<Rightarrow> 0
        | Inr (Inl (Inr (E, hs, cs, w))) \<Rightarrow> Suc (length cs)
        | Inr (Inr (Inl (E, hs, c, past, cs, w))) \<Rightarrow> Suc (length cs)
        | Inr (Inr (Inr (E, hs, past, w))) \<Rightarrow> Suc (length past)]")
    auto

section \<open>Undoing below an ACID parent\<close>

lemma undo_below_acid: "undo_cmd E hs c True w = (Returned False, w)"
proof (induction c)
  case (Cmd obj cl ty sy acid subs)
  show ?case
  proof (cases "rev subs")
    case (Cons c cs)
    then have "c \<in> set subs" by (metis in_set_conv_decomp rev_eq_Cons_iff append_Cons append_Nil)
    with Cmd Cons show ?thesis by (auto simp: attempt_def)
  qed simp
qed

lemma rollback_do_fails:
  "past \<noteq> [] \<Longrightarrow> rollback_do E hs past w = (Threw (Uncatchable ''ACID Do rollback Failed!''), w)"
  by (cases past) (simp_all add: undo_below_acid rollback_attempt_def)

lemma undo_acid_stops:
  "undo_acid E hs command [] cs w = (if cs = [] then Returned True else Returned False, w)"
  by (cases cs) (simp_all add: undo_below_acid attempt_def)

text \<open>Attempts of a list of sub commands of an ACID command that all succeed.\<close>

definition attempt_do :: "('a, 'l, 'h, 'w) client \<Rightarrow> 'h handlers \<Rightarrow> 'a cmd \<Rightarrow> 'w \<Rightarrow> (bool, 'w) result" where
  "attempt_do E hs c w = attempt E hs c c ''command: '' (do_cmd E hs c True w) (\<lambda>w2. do_cmd E hs c True w2)"

fun all_done :: "('a, 'l, 'h, 'w) client \<Rightarrow> 'h handlers \<Rightarrow> 'a cmd list \<Rightarrow> 'w \<Rightarrow> 'w option" where
  "all_done E hs [] w = Some w"
| "all_done E hs (c # cs) w =
     (case attempt_do E hs c w of (Returned True, w1) \<Rightarrow> all_done E hs cs w1 | _ \<Rightarrow> None)"

lemma do_acid_done:
  "all_done E hs xs w = Some w1 \<Longrightarrow> do_acid E hs past (xs @ ys) w = do_acid E hs (rev xs @ past) ys w1"
proof (induction xs arbitrary: past w)
  case (Cons c xs)
  then obtain w' where "attempt_do E hs c w = (Returned True, w')" "all_done E hs xs w' = Some w1"
    by (auto split: prod.splits outcome.splits bool.splits)
  with Cons.IH show ?case by (simp add: attempt_do_def)
qed simp

section \<open>What escapes from a command\<close>

text \<open>Nothing is thrown past the function except what no \<open>catch\<close> of the commander names.\<close>

definition contained :: "('x, 'w) result \<Rightarrow> bool" where
  "contained r \<longleftrightarrow> (\<forall>x. fst r = Threw x \<longrightarrow> (\<exists>s. x = Uncatchable s))"

lemma contained_simps [simp]:
  "contained (Returned b, w)" "contained (Threw (Uncatchable s), w)"
  "\<not> contained (Threw (KnownError e), w)" "\<not> contained (Threw (StdException s), w)"
  by (auto simp: contained_def)

lemma contained_cases:
  assumes "contained r"
  obtains (returned) b w where "r = (Returned b, w)" | (uncatchable) s w where "r = (Threw (Uncatchable s), w)"
  using assms by (cases r; cases "fst r") (auto simp: contained_def)

lemma DoDo_contained: "contained (DoDo E hs c retrying w)"
proof (induction E hs c retrying w rule: DoDo.induct)
  case (1 E hs c retrying w)
  show ?case
    using 1 by (subst DoDo.simps) (auto split: prod.splits outcome.splits exn.splits unit.splits)
qed

lemma attempt_contained: "contained (attempt E hs c c2 during first again)"
  by (auto simp: attempt_def Let_def split: prod.splits outcome.splits exn.splits)

lemma do_parts_contained:
  "contained (do_cmd E hs c p w)" "contained (do_sub_items E hs cs w)"
  "contained (do_acid E hs past cs w)"
proof -
  have acid: "contained (do_acid E hs past cs w)" for past cs w
  proof (induction cs arbitrary: past w)
    case (Cons c cs)
    have "contained (rollback_do E hs past w)" for w
      by (cases "past = []") (simp_all add: rollback_do_fails)
    note rollback = this
    have "contained (attempt E hs c c ''command: '' (do_cmd E hs c True w) (do_cmd E hs c True))"
      by (rule attempt_contained)
    then show ?case
      using Cons rollback by (cases rule: contained_cases) (auto split: bool.splits)
  qed simp
  then show "contained (do_acid E hs past cs w)" .
  have cmd: "contained (do_cmd E hs c p w)" for c p w
  proof (induction c arbitrary: p w)
    case (Cmd obj cl ty sy a subs)
    have "contained (do_sub_items E hs cs w)" if "set cs \<subseteq> set subs" for cs w
      using that
    proof (induction cs arbitrary: w)
      case (Cons c cs)
      then have "contained (do_cmd E hs c False w)" using Cmd by simp
      then show ?case using Cons by (cases rule: contained_cases) auto
    qed simp
    then have subs: "contained (do_sub_items E hs subs w)" by simp
    have leaf: "contained (DoDo E hs (Cmd obj cl ty sy a subs) False w)" by (rule DoDo_contained)
    from subs show ?case
      by (cases rule: contained_cases; use leaf in \<open>cases rule: contained_cases\<close>)
        (auto simp: acid DoDo_contained)
  qed
  then show "contained (do_cmd E hs c p w)" .
  show "contained (do_sub_items E hs cs w)"
  proof (induction cs arbitrary: w)
    case (Cons c cs)
    have "contained (do_cmd E hs c False w)" by (rule cmd)
    then show ?case using Cons by (cases rule: contained_cases) auto
  qed simp
qed

section \<open>Plain command trees\<close>

text \<open>The leaves of a tree, left to right, and running them one after the other.\<close>

fun leaves :: "'a cmd \<Rightarrow> 'a cmd list" where
  "leaves (Cmd obj cl ty sy acid subs) =
     (if subs = [] then [Cmd obj cl ty sy acid subs] else concat (map leaves subs))"

fun no_acid :: "'a cmd \<Rightarrow> bool" where
  "no_acid (Cmd obj cl ty sy acid subs) \<longleftrightarrow> \<not> acid \<and> list_all no_acid subs"

fun run_all :: "('c \<Rightarrow> 'w \<Rightarrow> ('x, 'w) result) \<Rightarrow> 'c list \<Rightarrow> 'w \<Rightarrow> (unit, 'w) result" where
  "run_all f [] w = (Returned (), w)"
| "run_all f (c # cs) w =
     (case f c w of (Returned b, w1) \<Rightarrow> run_all f cs w1 | (Threw x, w1) \<Rightarrow> (Threw x, w1))"

definition and_true :: "(unit, 'w) result \<Rightarrow> (bool, 'w) result" where
  "and_true r = (case r of (Returned u, w) \<Rightarrow> (Returned True, w) | (Threw x, w) \<Rightarrow> (Threw x, w))"

lemma run_all_append:
  "run_all f (xs @ ys) w =
     (case run_all f xs w of (Returned u, w1) \<Rightarrow> run_all f ys w1 | (Threw x, w1) \<Rightarrow> (Threw x, w1))"
  by (induction xs arbitrary: w) (auto split: prod.splits outcome.splits)

text \<open>A loop over sub trees that run their own leaves runs all leaves.\<close>

lemma loop_over_trees:
  assumes nil: "\<And>w. loop [] w = (Returned (), w)"
    and cons: "\<And>c cs w. loop (c # cs) w =
      (case f c w of (Returned b, w1) \<Rightarrow> loop cs w1 | (Threw x, w1) \<Rightarrow> (Threw x, w1))"
    and tree: "\<And>c w. c \<in> set cs \<Longrightarrow> f c w = and_true (run_all g (leaves c) w)"
  shows "loop cs w = run_all g (concat (map leaves cs)) w"
  using tree
proof (induction cs arbitrary: w)
  case (Cons c cs)
  obtain r w1 where run: "run_all g (leaves c) w = (r, w1)" by fastforce
  have "f c w = and_true (run_all g (leaves c) w)" using Cons.prems by simp
  moreover have "loop cs w1 = run_all g (concat (map leaves cs)) w1"
    using Cons.IH Cons.prems by simp
  ultimately show ?case
    by (cases r) (simp_all add: cons run_all_append and_true_def run)
qed (simp add: nil)

lemma plain_do_runs_leaves:
  "no_acid c \<Longrightarrow> do_cmd E hs c False w = and_true (run_all (\<lambda>l. DoDo E hs l False) (leaves c) w)"
proof (induction c arbitrary: w)
  case (Cmd obj cl ty sy acid subs)
  have "do_sub_items E hs subs w = run_all (\<lambda>l. DoDo E hs l False) (concat (map leaves subs)) w" for w
    by (rule loop_over_trees [where f = "\<lambda>c. do_cmd E hs c False"])
      (use Cmd in \<open>auto simp: list_all_iff\<close>)
  with Cmd.prems show ?case
    by (cases "subs = []"; cases "DoDo E hs (Cmd obj cl ty sy acid subs) False w";
        cases "fst (DoDo E hs (Cmd obj cl ty sy acid subs) False w)")
      (simp_all add: and_true_def)
qed

lemma plain_undo_runs_leaves:
  "no_acid c \<Longrightarrow> undo_cmd E hs c False w = and_true (run_all (cmd_Undo E) (leaves c) w)"
proof (induction c arbitrary: w)
  case (Cmd obj cl ty sy acid subs)
  have "undo_sub_items E hs subs w = run_all (cmd_Undo E) (concat (map leaves subs)) w" for w
    by (rule loop_over_trees [where f = "\<lambda>c. undo_cmd E hs c False"])
      (use Cmd in \<open>auto simp: list_all_iff\<close>)
  with Cmd.prems show ?case
    by (cases "subs = []"; cases "cmd_Undo E (Cmd obj cl ty sy acid subs) w";
        cases "fst (cmd_Undo E (Cmd obj cl ty sy acid subs) w)")
      (simp_all add: and_true_def)
qed

section \<open>The example command\<close>

text \<open>
  \<open>TestCommands\<close>: \<open>ExampleCommand\<close> declares \<open>Do()\<close> and \<open>Undo()\<close> without the logger parameter,
  so they hide and do not override the virtual functions the commander calls; as a command it
  is an object without overrides.
\<close>

definition ExampleCommandClass :: u32 where "ExampleCommandClass = FirstUnreservedCommand"
definition UndoRedoType_Example :: u32 where "UndoRedoType_Example = 0"

definition ExampleCommand :: "'a cmd" where
  "ExampleCommand = new_command None True ExampleCommandClass UndoRedoType_Example"

definition Example_Do :: "string \<Rightarrow> string \<Rightarrow> string" where
  "Example_Do addition textv = textv @ addition"

text \<open>\<open>text.substr(0, text.size()-addition.size())\<close> on 64-bit sizes.\<close>

definition Example_Undo :: "string \<Rightarrow> string \<Rightarrow> string" where
  "Example_Undo addition textv =
     take (unat (of_nat (length textv) - of_nat (length addition) :: 64 word)) textv"

text \<open>A client for the examples: commands append a letter, undo checks it and takes it back.\<close>

datatype letter = Letter char | Broken char

definition letter_client :: "(letter, unit, unit, string) client" where
  "letter_client = \<lparr>
     do_of = (\<lambda>a w. case a of Letter c \<Rightarrow> (Returned (), w @ [c]) | Broken c \<Rightarrow> (Threw (KnownError 7), w)),
     undo_of = (\<lambda>a w. case a of
        Letter c \<Rightarrow> if w \<noteq> [] \<and> last w = c then (Returned (), butlast w) else (Threw (StdException ''order''), w)
      | Broken c \<Rightarrow> (Returned (), w)),
     toString_of = (\<lambda>a. ''letter''),
     handle_exception = (\<lambda>h c e w. (\<lparr>primaryAction = RetryCommand, resultLevel = LogLevel_Warn, logString = []\<rparr>, w)),
     listen = (\<lambda>l i c w. w),
     log_to = (\<lambda>lvl s w. w)\<rparr>"

definition letter :: "char \<Rightarrow> letter cmd" where
  "letter c = new_command (Some (Letter c)) False 9 1"

definition broken :: "letter cmd" where
  "broken = new_command (Some (Broken CHR ''x'')) False 9 1"

section \<open>Properties\<close>



lemmas letter_evals = letter_client_def letter_def broken_def new_command_def new_compound_def
  cmd_Undo_def cmd_Do_def DoDo.simps and_true_def handle_and_log_def HandleError_def log_unknown_def
  log_error_def attempt_def rollback_attempt_def attempt_do_def




text \<open>
  When a sub command of an ACID command fails after others were done, nothing is
  rolled back: \<open>UndoCommand\<close> refuses every command below an ACID parent, so \<open>DoCommand\<close> throws
  the uncatchable \<open>AcidRollbackFailure*\<close> and leaves the effects of the done sub commands.
\<close>

theorem acid_failure_is_not_rolled_back:
  assumes "all_done E hs before w = Some w1" "before \<noteq> []"
    and "attempt_do E hs c w1 = (Returned False, w2)"
  shows "do_cmd E hs (Cmd obj cl ty sy True (before @ c # behind)) hasAcidParent w =
    (Threw (Uncatchable ''ACID Do rollback Failed!''), w2)"
  using do_acid_done [OF assms(1), of "[]" "c # behind"] assms(2,3)
  by (simp add: attempt_do_def rollback_do_fails)

lemma acid_failure_is_not_rolled_back_witness:
  "do_cmd letter_client (\<lambda>_. None) (Cmd None 3 1 True True ([letter CHR ''a''] @ broken # [letter CHR ''b''])) False []
     = (Threw (Uncatchable ''ACID Do rollback Failed!''), ''a'')"
  by (rule acid_failure_is_not_rolled_back [where ?w1.0 = "''a''"]) (simp_all add: letter_evals)

text \<open>
  When the first sub command of an ACID command fails, the command is refused and
  the sub commands behind it are not run.
\<close>

theorem acid_first_failure:
  assumes "attempt_do E hs c w = (Returned False, w1)"
  shows "do_cmd E hs (Cmd obj cl ty sy True (c # behind)) hasAcidParent w = (Returned False, w1)"
  using assms by (simp add: attempt_do_def)

lemma acid_first_failure_witness:
  "do_cmd letter_client (\<lambda>_. None) (Cmd None 3 1 True True (broken # [letter CHR ''b''])) False []
     = (Returned False, [])"
  by (rule acid_first_failure) (simp add: letter_evals)

text \<open>
  Undoing an ACID command undoes nothing: it reports failure and leaves the world
  as it was, for every command tree under it.
\<close>

theorem acid_undo_does_nothing: "undo_cmd E hs (Cmd obj cl ty sy True subs) hasAcidParent w = (Returned False, w)"
  using undo_below_acid [of E hs "Cmd obj cl ty sy True subs" w] by simp

text \<open>
  \<open>ExampleCommand::Undo\<close> takes back exactly what its \<open>Do\<close> appended, for texts
  whose length fits the 64-bit size type.
\<close>

theorem example_undo_inverts_do:
  assumes "length textv + length addition < 2 ^ 64"
  shows "Example_Undo addition (Example_Do addition textv) = textv"
proof -
  have "(of_nat (length textv + length addition) - of_nat (length addition) :: 64 word) = of_nat (length textv)"
    by simp
  moreover have "unat (of_nat (length textv) :: 64 word) = length textv"
    using assms by (simp add: unsigned_of_nat take_bit_nat_eq_self)
  ultimately show ?thesis by (simp add: Example_Undo_def Example_Do_def)
qed

lemma example_undo_inverts_do_witness: "Example_Undo ''cd'' (Example_Do ''cd'' ''ab'') = ''ab''"
  by (rule example_undo_inverts_do) simp

end
