(* ===== verification/Commander.thy ===== *)
theory Commander
  imports Command
begin

text \<open>
  \<open>CrossCutLib/Commander\<close>: the queue between the caller and the worker thread, the undo and redo
  buffers per type id, and the two threads as a step relation. One caller thread is modelled
  (the member \<open>synchronousLock\<close> is one \<open>unique_lock\<close>, so the class supports one waiting caller).
  A condition variable keeps its standard meaning: \<open>wait\<close> with a predicate evaluates the
  predicate, goes to sleep, may wake spuriously; a notification only reaches a thread that is
  already asleep; \<open>wait\<close> needs, and \<open>unlock\<close> throws without, an owned lock.
\<close>

section \<open>State\<close>

text \<open>
  The queue holds pointers; \<open>undoCommand\<close>, \<open>redoCommand\<close> and \<open>killCommand\<close> are private objects of
  the commander that the worker recognises by address.
\<close>

datatype 'a todo = Todo "'a cmd" | UndoItem | RedoItem | KillItem

record ('a, 'l, 'h, 'w) commander =
  todoBuffer :: "'a todo list"
  undoBuffers :: "u32 \<Rightarrow> 'a cmd list option"
  redoBuffers :: "u32 \<Rightarrow> 'a cmd list option"
  commandListeners :: "u32 \<Rightarrow> 'l list option"
  errorHandlers :: "u32 \<Rightarrow> 'h option"
  hasCommandsToExecute :: bool
  numSynchronousCommands :: u32
  undoCommandType :: u32
  redoCommandType :: u32
  world :: 'w

definition new_commander :: "'w \<Rightarrow> ('a, 'l, 'h, 'w) commander" where
  "new_commander w = \<lparr>todoBuffer = [], undoBuffers = (\<lambda>_. None), redoBuffers = (\<lambda>_. None),
     commandListeners = (\<lambda>_. None), errorHandlers = (\<lambda>_. None), hasCommandsToExecute = False,
     numSynchronousCommands = 0, undoCommandType = UINT32_MAX, redoCommandType = UINT32_MAX, world = w\<rparr>"

fun todo_synchronous :: "'a todo \<Rightarrow> bool" where
  "todo_synchronous (Todo c) = isSynchronous c"
| "todo_synchronous UndoItem = True"
| "todo_synchronous RedoItem = True"
| "todo_synchronous KillItem = True"

section \<open>Calls of the client\<close>

text \<open>What a call does between locking and unlocking \<open>commandLocker\<close>.\<close>

definition enqueue :: "bool \<Rightarrow> 'a todo \<Rightarrow> ('a, 'l, 'h, 'w) commander \<Rightarrow> ('a, 'l, 'h, 'w) commander" where
  "enqueue counted t cm = cm\<lparr>
     numSynchronousCommands := (if counted then numSynchronousCommands cm + 1 else numSynchronousCommands cm),
     todoBuffer := todoBuffer cm @ [t],
     hasCommandsToExecute := True\<rparr>"

definition Do :: "'a cmd \<Rightarrow> ('a, 'l, 'h, 'w) commander \<Rightarrow> ('a, 'l, 'h, 'w) commander" where
  "Do c cm = enqueue (isSynchronous c) (Todo c) cm"

definition Do_all :: "'a cmd list \<Rightarrow> ('a, 'l, 'h, 'w) commander \<Rightarrow> ('a, 'l, 'h, 'w) commander" where
  "Do_all cs cm =
     (fold (\<lambda>c cm. cm\<lparr>
        numSynchronousCommands := (if isSynchronous c then numSynchronousCommands cm + 1 else numSynchronousCommands cm),
        todoBuffer := todoBuffer cm @ [Todo c]\<rparr>) cs cm)\<lparr>hasCommandsToExecute := True\<rparr>"

text \<open>
  \<open>DoAcid\<close> passes \<open>async\<close> where the constructor of \<open>GenericCommand\<close> expects \<open>isSynchronous\<close>, and
  does not pass \<open>undoRedoTypeid\<close> on.
\<close>

definition DoAcid :: "'a cmd list \<Rightarrow> u32 \<Rightarrow> bool \<Rightarrow> ('a, 'l, 'h, 'w) commander \<Rightarrow> ('a, 'l, 'h, 'w) commander" where
  "DoAcid subs undoRedoTypeid async cm =
     enqueue (\<not> async) (Todo (new_compound subs async True AcidCommandParent UINT32_MAX)) cm"

definition Undo :: "u32 \<Rightarrow> ('a, 'l, 'h, 'w) commander \<Rightarrow> ('a, 'l, 'h, 'w) commander" where
  "Undo ty cm = enqueue True UndoItem (cm\<lparr>undoCommandType := ty\<rparr>)"

definition Redo :: "u32 \<Rightarrow> ('a, 'l, 'h, 'w) commander \<Rightarrow> ('a, 'l, 'h, 'w) commander" where
  "Redo ty cm = enqueue True RedoItem (cm\<lparr>redoCommandType := ty\<rparr>)"

definition End :: "('a, 'l, 'h, 'w) commander \<Rightarrow> ('a, 'l, 'h, 'w) commander" where
  "End cm = enqueue True KillItem cm"

definition RegisterCommandListener :: "u32 \<Rightarrow> 'l \<Rightarrow> ('a, 'l, 'h, 'w) commander \<Rightarrow> ('a, 'l, 'h, 'w) commander" where
  "RegisterCommandListener classId l cm =
     cm\<lparr>commandListeners := (commandListeners cm)(classId \<mapsto>
        (case commandListeners cm classId of Some ls \<Rightarrow> ls @ [l] | None \<Rightarrow> [l]))\<rparr>"

text \<open>\<open>std::map::insert\<close> keeps an existing entry.\<close>

definition RegisterErrorHandler :: "u32 \<Rightarrow> 'h \<Rightarrow> ('a, 'l, 'h, 'w) commander \<Rightarrow> ('a, 'l, 'h, 'w) commander" where
  "RegisterErrorHandler errorId handler cm =
     (case errorHandlers cm errorId of Some h \<Rightarrow> cm
      | None \<Rightarrow> cm\<lparr>errorHandlers := (errorHandlers cm)(errorId \<mapsto> handler)\<rparr>)"

definition NoOp :: "('a, 'l, 'h, 'w) commander \<Rightarrow> ('a, 'l, 'h, 'w) commander" where
  "NoOp cm = cm"

section \<open>Undo and redo buffers\<close>

definition ClipRedos :: "u32 \<Rightarrow> ('a, 'l, 'h, 'w) commander \<Rightarrow> ('a, 'l, 'h, 'w) commander" where
  "ClipRedos ty cm =
     (case redoBuffers cm ty of Some s \<Rightarrow> cm\<lparr>redoBuffers := (redoBuffers cm)(ty \<mapsto> [])\<rparr> | None \<Rightarrow> cm)"

definition AddUndo :: "u32 \<Rightarrow> 'a cmd \<Rightarrow> ('a, 'l, 'h, 'w) commander \<Rightarrow> ('a, 'l, 'h, 'w) commander" where
  "AddUndo ty c cm =
     (case undoBuffers cm ty of
        Some s \<Rightarrow> cm\<lparr>undoBuffers := (undoBuffers cm)(ty \<mapsto> c # s)\<rparr>
      | None \<Rightarrow> cm\<lparr>undoBuffers := (undoBuffers cm)(ty \<mapsto> [c])\<rparr>)"

definition AddRedo :: "u32 \<Rightarrow> 'a cmd \<Rightarrow> ('a, 'l, 'h, 'w) commander \<Rightarrow> ('a, 'l, 'h, 'w) commander" where
  "AddRedo ty c cm =
     (case redoBuffers cm ty of
        Some s \<Rightarrow> cm\<lparr>redoBuffers := (redoBuffers cm)(ty \<mapsto> c # s)\<rparr>
      | None \<Rightarrow> cm\<lparr>redoBuffers := (redoBuffers cm)(ty \<mapsto> [c])\<rparr>)"

definition NotifyCommandFinished ::
    "('a, 'l, 'h, 'w) client \<Rightarrow> 'a cmd \<Rightarrow> ('a, 'l, 'h, 'w) commander \<Rightarrow> ('a, 'l, 'h, 'w) commander" where
  "NotifyCommandFinished E c cm =
     (case commandListeners cm (commandClassId c) of
        Some ls \<Rightarrow> cm\<lparr>world := fold (\<lambda>l w. listen E l (commandClassId c) c w) ls (world cm)\<rparr>
      | None \<Rightarrow> cm)"

definition DoCommand ::
    "('a, 'l, 'h, 'w) client \<Rightarrow> 'a cmd \<Rightarrow> ('a, 'l, 'h, 'w) commander \<Rightarrow> (bool, ('a, 'l, 'h, 'w) commander) result" where
  "DoCommand E c cm =
     (case do_cmd E (errorHandlers cm) c False (world cm) of
        (Returned True, w) \<Rightarrow> (Returned True, NotifyCommandFinished E c (cm\<lparr>world := w\<rparr>))
      | (r, w) \<Rightarrow> (r, cm\<lparr>world := w\<rparr>))"

definition UndoCommand ::
    "('a, 'l, 'h, 'w) client \<Rightarrow> 'a cmd \<Rightarrow> ('a, 'l, 'h, 'w) commander \<Rightarrow> (bool, ('a, 'l, 'h, 'w) commander) result" where
  "UndoCommand E c cm =
     (case undo_cmd E (errorHandlers cm) c False (world cm) of
        (Returned True, w) \<Rightarrow> (Returned True, NotifyCommandFinished E c (cm\<lparr>world := w\<rparr>))
      | (r, w) \<Rightarrow> (r, cm\<lparr>world := w\<rparr>))"

definition TryUndo ::
    "('a, 'l, 'h, 'w) client \<Rightarrow> ('a, 'l, 'h, 'w) commander \<Rightarrow> (unit, ('a, 'l, 'h, 'w) commander) result" where
  "TryUndo E cm =
     (let ty = undoCommandType cm in
      case undoBuffers cm ty of
        Some (c # s) \<Rightarrow>
          (case UndoCommand E c (cm\<lparr>undoBuffers := (undoBuffers cm)(ty \<mapsto> s)\<rparr>) of
             (Returned True, cm1) \<Rightarrow> (Returned (), AddRedo ty c cm1)
           | (Returned False, cm1) \<Rightarrow> (Returned (), cm1)
           | (Threw x, cm1) \<Rightarrow> (Threw x, cm1))
      | _ \<Rightarrow> (Returned (), cm))"

definition TryRedo ::
    "('a, 'l, 'h, 'w) client \<Rightarrow> ('a, 'l, 'h, 'w) commander \<Rightarrow> (unit, ('a, 'l, 'h, 'w) commander) result" where
  "TryRedo E cm =
     (let ty = redoCommandType cm in
      case redoBuffers cm ty of
        Some (c # s) \<Rightarrow>
          (case DoCommand E c (cm\<lparr>redoBuffers := (redoBuffers cm)(ty \<mapsto> s)\<rparr>) of
             (Returned True, cm1) \<Rightarrow> (Returned (), AddUndo ty c cm1)
           | (Returned False, cm1) \<Rightarrow> (Returned (), cm1)
           | (Threw x, cm1) \<Rightarrow> (Threw x, cm1))
      | _ \<Rightarrow> (Returned (), cm))"

text \<open>
  The body of the worker loop for one command taken from the queue: the flag is \<open>keepRunning\<close>.
  An exception leaves before the synchronous counter is touched.
\<close>

definition execute ::
    "('a, 'l, 'h, 'w) client \<Rightarrow> 'a todo \<Rightarrow> ('a, 'l, 'h, 'w) commander \<Rightarrow> (bool, ('a, 'l, 'h, 'w) commander) result" where
  "execute E t cm =
     (let (r, cm1) =
        (case t of
           UndoItem \<Rightarrow> (case TryUndo E cm of (Returned u, cm1) \<Rightarrow> (Returned True, cm1) | (Threw x, cm1) \<Rightarrow> (Threw x, cm1))
         | RedoItem \<Rightarrow> (case TryRedo E cm of (Returned u, cm1) \<Rightarrow> (Returned True, cm1) | (Threw x, cm1) \<Rightarrow> (Threw x, cm1))
         | KillItem \<Rightarrow> (Returned False, cm)
         | Todo c \<Rightarrow>
             (case DoCommand E c cm of
                (Returned True, cm1) \<Rightarrow>
                  (Returned True, AddUndo (undoRedoTypeId c) c (ClipRedos (undoRedoTypeId c) cm1))
              | (Returned False, cm1) \<Rightarrow> (Returned True, cm1)
              | (Threw x, cm1) \<Rightarrow> (Threw x, cm1)))
      in case r of
           Returned b \<Rightarrow>
             (Returned b, if todo_synchronous t
                then cm1\<lparr>numSynchronousCommands := numSynchronousCommands cm1 - 1\<rparr> else cm1)
         | Threw x \<Rightarrow> (Threw x, cm1))"

section \<open>The buffers as stacks\<close>

definition undo_stack :: "('a, 'l, 'h, 'w) commander \<Rightarrow> u32 \<Rightarrow> 'a cmd list" where
  "undo_stack cm ty = (case undoBuffers cm ty of Some s \<Rightarrow> s | None \<Rightarrow> [])"

definition redo_stack :: "('a, 'l, 'h, 'w) commander \<Rightarrow> u32 \<Rightarrow> 'a cmd list" where
  "redo_stack cm ty = (case redoBuffers cm ty of Some s \<Rightarrow> s | None \<Rightarrow> [])"

text \<open>
  The contract both buffers share: pushing reaches one stack and no other one. What follows
  from it, that a buffer only holds commands filed under their own type id, is proved once.
\<close>

locale typed_stacks =
  fixes push :: "u32 \<Rightarrow> 'a cmd \<Rightarrow> 's \<Rightarrow> 's"
    and stack :: "'s \<Rightarrow> u32 \<Rightarrow> 'a cmd list"
  assumes stack_push: "stack (push ty c s) ty' = (if ty' = ty then c # stack s ty else stack s ty')"
begin

definition typed :: "'s \<Rightarrow> bool" where
  "typed s \<longleftrightarrow> (\<forall>ty. \<forall>c\<in>set (stack s ty). undoRedoTypeId c = ty)"

lemma typed_push: "typed s \<Longrightarrow> undoRedoTypeId c = ty \<Longrightarrow> typed (push ty c s)"
  by (auto simp: typed_def stack_push)

lemma typed_shrink:
  "typed s \<Longrightarrow> (\<And>ty. set (stack s' ty) \<subseteq> set (stack s ty)) \<Longrightarrow> typed s'"
  by (auto simp: typed_def)

lemma push_neq_nil: "stack (push ty c s) ty \<noteq> []"
  by (simp add: stack_push)

end

interpretation undos: typed_stacks AddUndo undo_stack
  by unfold_locales (auto simp: AddUndo_def undo_stack_def split: option.split)

interpretation redos: typed_stacks AddRedo redo_stack
  by unfold_locales (auto simp: AddRedo_def redo_stack_def split: option.split)

lemma redo_stack_AddUndo [simp]: "redo_stack (AddUndo ty c cm) = redo_stack cm"
  by (simp add: AddUndo_def redo_stack_def fun_eq_iff split: option.split)

lemma undo_stack_AddRedo [simp]: "undo_stack (AddRedo ty c cm) = undo_stack cm"
  by (simp add: AddRedo_def undo_stack_def fun_eq_iff split: option.split)

lemma stacks_ClipRedos [simp]:
  "undo_stack (ClipRedos ty cm) = undo_stack cm"
  "redo_stack (ClipRedos ty cm) = (redo_stack cm)(ty := [])"
  by (auto simp: ClipRedos_def undo_stack_def redo_stack_def fun_eq_iff split: option.split)

lemma stacks_NotifyCommandFinished [simp]:
  "undo_stack (NotifyCommandFinished E c cm) = undo_stack cm"
  "redo_stack (NotifyCommandFinished E c cm) = redo_stack cm"
  by (auto simp: NotifyCommandFinished_def undo_stack_def redo_stack_def split: option.split)

lemma stacks_updates [simp]:
  "undo_stack (cm\<lparr>world := w\<rparr>) = undo_stack cm" "redo_stack (cm\<lparr>world := w\<rparr>) = redo_stack cm"
  "undo_stack (cm\<lparr>numSynchronousCommands := n\<rparr>) = undo_stack cm"
  "redo_stack (cm\<lparr>numSynchronousCommands := n\<rparr>) = redo_stack cm"
  "undo_stack (cm\<lparr>undoBuffers := (undoBuffers cm)(ty \<mapsto> s)\<rparr>) = (undo_stack cm)(ty := s)"
  "redo_stack (cm\<lparr>undoBuffers := u\<rparr>) = redo_stack cm"
  "redo_stack (cm\<lparr>redoBuffers := (redoBuffers cm)(ty \<mapsto> s)\<rparr>) = (redo_stack cm)(ty := s)"
  "undo_stack (cm\<lparr>redoBuffers := u\<rparr>) = undo_stack cm"
  by (auto simp: undo_stack_def redo_stack_def fun_eq_iff)

text \<open>Neither the execution of a command nor the listeners touch the buffers.\<close>

lemma stacks_DoCommand:
  "DoCommand E c cm = (r, cm') \<Longrightarrow> undo_stack cm' = undo_stack cm \<and> redo_stack cm' = redo_stack cm"
  by (auto simp: DoCommand_def split: prod.splits outcome.splits bool.splits)

lemma stacks_UndoCommand:
  "UndoCommand E c cm = (r, cm') \<Longrightarrow> undo_stack cm' = undo_stack cm \<and> redo_stack cm' = redo_stack cm"
  by (auto simp: UndoCommand_def split: prod.splits outcome.splits bool.splits)

section \<open>The abstract history\<close>

text \<open>
  What the two buffers of one type id promise together: a line of commands with a cursor, as
  (done, latest first; undone, next first).
\<close>

type_synonym 'a history = "'a cmd list \<times> 'a cmd list"

definition history :: "('a, 'l, 'h, 'w) commander \<Rightarrow> u32 \<Rightarrow> 'a history" where
  "history cm ty = (undo_stack cm ty, redo_stack cm ty)"

fun hist_do :: "'a cmd \<Rightarrow> 'a history \<Rightarrow> 'a history" where
  "hist_do c (d, u) = (c # d, [])"

fun hist_undo :: "'a history \<Rightarrow> 'a history" where
  "hist_undo ([], u) = ([], u)"
| "hist_undo (c # d, u) = (d, c # u)"

fun hist_redo :: "'a history \<Rightarrow> 'a history" where
  "hist_redo (d, []) = (d, [])"
| "hist_redo (d, c # u) = (c # d, u)"

definition successful :: "('a, 'l, 'h, 'w) client \<Rightarrow> 'a todo \<Rightarrow> ('a, 'l, 'h, 'w) commander \<Rightarrow> bool" where
  "successful E t cm =
     (case t of
        Todo c \<Rightarrow> fst (do_cmd E (errorHandlers cm) c False (world cm)) = Returned True
      | UndoItem \<Rightarrow>
          (case undo_stack cm (undoCommandType cm) of [] \<Rightarrow> True
           | c # s \<Rightarrow> fst (undo_cmd E (errorHandlers cm) c False (world cm)) = Returned True)
      | RedoItem \<Rightarrow>
          (case redo_stack cm (redoCommandType cm) of [] \<Rightarrow> True
           | c # s \<Rightarrow> fst (do_cmd E (errorHandlers cm) c False (world cm)) = Returned True)
      | KillItem \<Rightarrow> True)"

definition abstract_step :: "'a todo \<Rightarrow> ('a, 'l, 'h, 'w) commander \<Rightarrow> u32 \<Rightarrow> 'a history \<Rightarrow> 'a history" where
  "abstract_step t cm ty h =
     (case t of
        Todo c \<Rightarrow> if undoRedoTypeId c = ty then hist_do c h else h
      | UndoItem \<Rightarrow> if undoCommandType cm = ty then hist_undo h else h
      | RedoItem \<Rightarrow> if redoCommandType cm = ty then hist_redo h else h
      | KillItem \<Rightarrow> h)"

lemma DoCommand_successful:
  assumes "fst (do_cmd E (errorHandlers cm) c False (world cm)) = Returned True"
  obtains cm' where "DoCommand E c cm = (Returned True, cm')"
  using assms by (cases "do_cmd E (errorHandlers cm) c False (world cm)") (auto simp: DoCommand_def)

lemma UndoCommand_successful:
  assumes "fst (undo_cmd E (errorHandlers cm) c False (world cm)) = Returned True"
  obtains cm' where "UndoCommand E c cm = (Returned True, cm')"
  using assms by (cases "undo_cmd E (errorHandlers cm) c False (world cm)") (auto simp: UndoCommand_def)

lemma undo_stack_cases:
  "(undo_stack cm ty = [] \<and> (undoBuffers cm ty = None \<or> undoBuffers cm ty = Some [])) \<or>
   (\<exists>c s. undo_stack cm ty = c # s \<and> undoBuffers cm ty = Some (c # s))"
  by (cases "undoBuffers cm ty"; cases "the (undoBuffers cm ty)") (auto simp: undo_stack_def)

lemma redo_stack_cases:
  "(redo_stack cm ty = [] \<and> (redoBuffers cm ty = None \<or> redoBuffers cm ty = Some [])) \<or>
   (\<exists>c s. redo_stack cm ty = c # s \<and> redoBuffers cm ty = Some (c # s))"
  by (cases "redoBuffers cm ty"; cases "the (redoBuffers cm ty)") (auto simp: redo_stack_def)

lemma TryUndo_history:
  assumes "successful E UndoItem cm"
  shows "\<exists>cm'. TryUndo E cm = (Returned (), cm') \<and>
    (\<forall>ty. history cm' ty = abstract_step UndoItem cm ty (history cm ty))"
  using undo_stack_cases [of cm "undoCommandType cm"]
proof (elim disjE exE conjE)
  fix c s
  assume s: "undo_stack cm (undoCommandType cm) = c # s" "undoBuffers cm (undoCommandType cm) = Some (c # s)"
  let ?cm = "cm\<lparr>undoBuffers := (undoBuffers cm)(undoCommandType cm \<mapsto> s)\<rparr>"
  from assms s obtain cm' where cm': "UndoCommand E c ?cm = (Returned True, cm')"
    using UndoCommand_successful [of E ?cm c] by (auto simp: successful_def)
  note stacks_UndoCommand [OF cm']
  with s cm' show ?thesis
    by (auto simp: TryUndo_def history_def abstract_step_def redos.stack_push)
qed (auto simp: TryUndo_def history_def abstract_step_def)

lemma TryRedo_history:
  assumes "successful E RedoItem cm"
  shows "\<exists>cm'. TryRedo E cm = (Returned (), cm') \<and>
    (\<forall>ty. history cm' ty = abstract_step RedoItem cm ty (history cm ty))"
  using redo_stack_cases [of cm "redoCommandType cm"]
proof (elim disjE exE conjE)
  fix c s
  assume s: "redo_stack cm (redoCommandType cm) = c # s" "redoBuffers cm (redoCommandType cm) = Some (c # s)"
  let ?cm = "cm\<lparr>redoBuffers := (redoBuffers cm)(redoCommandType cm \<mapsto> s)\<rparr>"
  from assms s obtain cm' where cm': "DoCommand E c ?cm = (Returned True, cm')"
    using DoCommand_successful [of E ?cm c] by (auto simp: successful_def)
  note stacks_DoCommand [OF cm']
  with s cm' show ?thesis
    by (auto simp: TryRedo_def history_def abstract_step_def undos.stack_push)
qed (auto simp: TryRedo_def history_def abstract_step_def)

lemma history_counter [simp]: "history (cm\<lparr>numSynchronousCommands := n\<rparr>) = history cm"
  by (simp add: history_def fun_eq_iff)

text \<open>
  Property C1: the two buffers of every type id refine a line of commands with a cursor. One
  execution of the worker is the abstract do, undo or redo on the line it names and leaves all
  other lines alone, provided the command itself reports success; the worker then goes on unless
  the item was the kill command.
\<close>

theorem execute_refines_history:
  assumes "successful E t cm"
  shows "\<exists>cm'. execute E t cm = (Returned (t \<noteq> KillItem), cm') \<and>
    (\<forall>ty. history cm' ty = abstract_step t cm ty (history cm ty))"
proof (cases t)
  case (Todo c)
  with assms obtain cm' where cm': "DoCommand E c cm = (Returned True, cm')"
    using DoCommand_successful [of E cm c] by (auto simp: successful_def)
  with Todo stacks_DoCommand [OF cm'] show ?thesis
    by (auto simp: execute_def abstract_step_def history_def undos.stack_push)
next
  case UndoItem
  with assms TryUndo_history [of E cm] show ?thesis by (auto simp: execute_def)
next
  case RedoItem
  with assms TryRedo_history [of E cm] show ?thesis by (auto simp: execute_def)
next
  case KillItem
  then show ?thesis by (auto simp: execute_def abstract_step_def)
qed

lemma execute_refines_history_witness:
  "\<exists>cm'. execute letter_client (Todo (letter CHR ''a'')) (new_commander []) = (Returned True, cm') \<and>
     history cm' 1 = ([letter CHR ''a''], [])"
proof -
  have "successful letter_client (Todo (letter CHR ''a'')) (new_commander [])"
    by (simp add: successful_def new_commander_def letter_evals)
  from execute_refines_history [OF this] obtain cm' where
    "execute letter_client (Todo (letter CHR ''a'')) (new_commander []) = (Returned True, cm')"
    "history cm' 1 = abstract_step (Todo (letter CHR ''a'')) (new_commander [] :: (letter, unit, unit, string) commander) 1
       (history (new_commander [] :: (letter, unit, unit, string) commander) 1)"
    by auto
  then show ?thesis
    by (simp add: abstract_step_def history_def undo_stack_def redo_stack_def new_commander_def
        letter_def new_command_def)
qed

text \<open>
  Redoing after an undo brings the history back: on every line, a successful
  \<open>TryUndo\<close> of a non-empty line followed by a successful \<open>TryRedo\<close> of it restores both buffers.
\<close>

theorem undo_then_redo_restores_history:
  assumes "TryUndo E cm = (Returned (), cm1)" "successful E UndoItem cm"
    and "undo_stack cm (undoCommandType cm) \<noteq> []"
    and "TryRedo E (cm1\<lparr>redoCommandType := undoCommandType cm\<rparr>) = (Returned (), cm2)"
    and "successful E RedoItem (cm1\<lparr>redoCommandType := undoCommandType cm\<rparr>)"
  shows "history cm2 ty = history cm ty"
proof -
  let ?cm1 = "cm1\<lparr>redoCommandType := undoCommandType cm\<rparr>"
  have h1: "history cm1 ty = abstract_step UndoItem cm ty (history cm ty)" for ty
    using TryUndo_history [OF assms(2)] assms(1) by auto
  have "history cm2 ty = abstract_step RedoItem ?cm1 ty (history ?cm1 ty)"
    using TryRedo_history [OF assms(5)] assms(4) by auto
  moreover have "history ?cm1 ty = history cm1 ty" by (simp add: history_def undo_stack_def redo_stack_def)
  moreover obtain c s where "undo_stack cm (undoCommandType cm) = c # s"
    using assms(3) by (cases "undo_stack cm (undoCommandType cm)") auto
  moreover have "undo_stack cm1 t = fst (abstract_step UndoItem cm t (history cm t))"
    "redo_stack cm1 t = snd (abstract_step UndoItem cm t (history cm t))" for t
    by (simp_all only: h1 [symmetric], simp_all add: history_def)
  ultimately show ?thesis by (auto simp: abstract_step_def history_def)
qed

definition example_commander :: "(letter, unit, unit, string) commander" where
  "example_commander = (AddUndo 1 (letter CHR ''a'') (new_commander ''a''))\<lparr>undoCommandType := 1\<rparr>"

lemmas commander_evals = example_commander_def AddUndo_def AddRedo_def new_commander_def
  TryUndo_def TryRedo_def UndoCommand_def DoCommand_def NotifyCommandFinished_def successful_def
  undo_stack_def redo_stack_def

lemma undo_then_redo_restores_history_witness:
  "history (snd (TryRedo letter_client ((snd (TryUndo letter_client example_commander))\<lparr>redoCommandType := 1\<rparr>))) 1
     = history example_commander 1"
  by (rule undo_then_redo_restores_history [where E = letter_client and
        ?cm1.0 = "snd (TryUndo letter_client example_commander)"])
    (simp_all add: commander_evals letter_evals)

end
