(* ===== verification/Commander_Threads.thy ===== *)
theory Commander_Threads
  imports Commander
begin

text \<open>
  \<open>Commander::Run\<close> and the blocking calls as steps of two threads on the shared commander. The
  worker's program counter follows the loop of \<open>Run\<close>; \<open>lockOwned\<close> is the ownership flag of its
  local \<open>hasCommandsLock\<close>, which is unlocked after the first sleep and never locked again.
\<close>

section \<open>The threads\<close>

text \<open>
  \<open>Waiting\<close>: about to evaluate the predicate of \<open>wait\<close>; \<open>Dozing\<close>: the predicate was false and
  the thread is about to sleep; \<open>Sleeping\<close>: reached by notifications; \<open>Woken\<close>: past \<open>wait\<close>;
  \<open>Dead\<close>: an exception left the thread, or a call was made without its precondition, and the
  process is gone. The caller's flag says that the call was \<open>End\<close>, which joins the worker.
\<close>

datatype 'a worker = Polling | Waiting | Dozing | Sleeping | Woken | Running "'a todo" | Finished | Dead

datatype caller = Idle | Checking bool | CallerDozing bool | CallerSleeping bool | Joining | Gone

record ('a, 'l, 'h, 'w) sys =
  cmdr :: "('a, 'l, 'h, 'w) commander"
  worker :: "'a worker"
  lockOwned :: bool
  caller :: caller

definition initial :: "'w \<Rightarrow> ('a, 'l, 'h, 'w) sys" where
  "initial w = \<lparr>cmdr = new_commander w, worker = Polling, lockOwned = True, caller = Idle\<rparr>"

definition notify_worker :: "'a worker \<Rightarrow> 'a worker" where
  "notify_worker p = (case p of Sleeping \<Rightarrow> Waiting | _ \<Rightarrow> p)"

definition notify_caller :: "caller \<Rightarrow> caller" where
  "notify_caller c = (case c of CallerSleeping j \<Rightarrow> Checking j | _ \<Rightarrow> c)"

definition take_command :: "('a, 'l, 'h, 'w) sys \<Rightarrow> ('a, 'l, 'h, 'w) sys" where
  "take_command s =
     (case todoBuffer (cmdr s) of
        [] \<Rightarrow> s\<lparr>worker := Polling\<rparr>
      | t # ts \<Rightarrow> s\<lparr>cmdr := (cmdr s)\<lparr>todoBuffer := ts\<rparr>, worker := Running t\<rparr>)"

definition worker_step :: "('a, 'l, 'h, 'w) client \<Rightarrow> ('a, 'l, 'h, 'w) sys \<Rightarrow> ('a, 'l, 'h, 'w) sys" where
  "worker_step E s =
     (case worker s of
        Polling \<Rightarrow>
          if todoBuffer (cmdr s) = [] then s\<lparr>cmdr := (cmdr s)\<lparr>hasCommandsToExecute := False\<rparr>, worker := Waiting\<rparr>
          else take_command s
      | Waiting \<Rightarrow>
          if hasCommandsToExecute (cmdr s)
          then if lockOwned s then s\<lparr>lockOwned := False, worker := Woken\<rparr> else s\<lparr>worker := Dead\<rparr>
          else if lockOwned s then s\<lparr>worker := Dozing\<rparr> else s\<lparr>worker := Dead\<rparr>
      | Dozing \<Rightarrow> s\<lparr>worker := Sleeping\<rparr>
      | Woken \<Rightarrow> take_command s
      | Running t \<Rightarrow>
          (case execute E t (cmdr s) of
             (Returned b, cm) \<Rightarrow> s\<lparr>cmdr := cm, worker := (if b then Polling else Finished),
                 caller := (if todo_synchronous t then notify_caller (caller s) else caller s)\<rparr>
           | (Threw x, cm) \<Rightarrow> s\<lparr>cmdr := cm, worker := Dead\<rparr>)
      | _ \<Rightarrow> s)"

text \<open>The calls of the client, and whether the call then waits.\<close>

datatype ('a, 'l, 'h) call =
    CallDo "'a cmd"
  | CallDoAll "'a cmd list"
  | CallDoAcid "'a cmd list" u32 bool
  | CallUndo u32
  | CallRedo u32
  | CallEnd
  | CallListener u32 'l
  | CallHandler u32 'h

fun call_effect :: "('a, 'l, 'h) call \<Rightarrow> ('a, 'l, 'h, 'w) commander \<Rightarrow> ('a, 'l, 'h, 'w) commander" where
  "call_effect (CallDo c) cm = Do c cm"
| "call_effect (CallDoAll cs) cm = Do_all cs cm"
| "call_effect (CallDoAcid cs ty async) cm = DoAcid cs ty async cm"
| "call_effect (CallUndo ty) cm = Undo ty cm"
| "call_effect (CallRedo ty) cm = Redo ty cm"
| "call_effect CallEnd cm = End cm"
| "call_effect (CallListener i l) cm = RegisterCommandListener i l cm"
| "call_effect (CallHandler i h) cm = RegisterErrorHandler i h cm"

fun call_blocks :: "('a, 'l, 'h) call \<Rightarrow> ('a, 'l, 'h, 'w) commander \<Rightarrow> caller" where
  "call_blocks (CallDo c) cm = (if isSynchronous c then Checking False else Idle)"
| "call_blocks (CallDoAll cs) cm = (if numSynchronousCommands cm > 0 then Checking False else Idle)"
| "call_blocks (CallDoAcid cs ty async) cm = (if \<not> async then Checking False else Idle)"
| "call_blocks (CallUndo ty) cm = (if numSynchronousCommands cm > 0 then Checking False else Idle)"
| "call_blocks (CallRedo ty) cm = (if numSynchronousCommands cm > 0 then Checking False else Idle)"
| "call_blocks CallEnd cm = (if numSynchronousCommands cm > 0 then Checking True else Joining)"
| "call_blocks (CallListener i l) cm = Idle"
| "call_blocks (CallHandler i h) cm = Idle"

fun call_notifies :: "('a, 'l, 'h) call \<Rightarrow> bool" where
  "call_notifies (CallListener i l) = False"
| "call_notifies (CallHandler i h) = False"
| "call_notifies _ = True"

definition call_step :: "('a, 'l, 'h) call \<Rightarrow> ('a, 'l, 'h, 'w) sys \<Rightarrow> ('a, 'l, 'h, 'w) sys" where
  "call_step k s =
     (let cm = call_effect k (cmdr s) in
      s\<lparr>cmdr := cm, worker := (if call_notifies k then notify_worker (worker s) else worker s),
        caller := call_blocks k cm\<rparr>)"

definition caller_check :: "bool \<Rightarrow> ('a, 'l, 'h, 'w) sys \<Rightarrow> ('a, 'l, 'h, 'w) sys" where
  "caller_check j s =
     s\<lparr>caller := (if numSynchronousCommands (cmdr s) = 0 then (if j then Joining else Idle) else CallerDozing j)\<rparr>"

datatype ('a, 'l, 'h) event = Work | Call "('a, 'l, 'h) call" | Wait | Join | Spurious

inductive sys_step ::
    "('a, 'l, 'h, 'w) client \<Rightarrow> ('a, 'l, 'h) event \<Rightarrow> ('a, 'l, 'h, 'w) sys \<Rightarrow> ('a, 'l, 'h, 'w) sys \<Rightarrow> bool"
  for E where
  work: "worker s \<notin> {Sleeping, Finished, Dead} \<Longrightarrow> sys_step E Work s (worker_step E s)"
| call: "caller s = Idle \<Longrightarrow> worker s \<noteq> Dead \<Longrightarrow> sys_step E (Call k) s (call_step k s)"
| check: "caller s = Checking j \<Longrightarrow> worker s \<noteq> Dead \<Longrightarrow> sys_step E Wait s (caller_check j s)"
| doze: "caller s = CallerDozing j \<Longrightarrow> worker s \<noteq> Dead \<Longrightarrow> sys_step E Wait s (s\<lparr>caller := CallerSleeping j\<rparr>)"
| joined: "caller s = Joining \<Longrightarrow> worker s = Finished \<Longrightarrow> sys_step E Join s (s\<lparr>caller := Gone\<rparr>)"
| wake_worker: "worker s = Sleeping \<Longrightarrow> sys_step E Spurious s (s\<lparr>worker := Waiting\<rparr>)"
| wake_caller: "caller s = CallerSleeping j \<Longrightarrow> worker s \<noteq> Dead \<Longrightarrow> sys_step E Spurious s (s\<lparr>caller := Checking j\<rparr>)"

text \<open>Runs whose events all satisfy a predicate.\<close>

inductive run ::
    "('a, 'l, 'h, 'w) client \<Rightarrow> (('a, 'l, 'h) event \<Rightarrow> bool) \<Rightarrow> ('a, 'l, 'h, 'w) sys \<Rightarrow> ('a, 'l, 'h, 'w) sys \<Rightarrow> bool"
  for E P where
  refl: "run E P s s"
| step: "run E P s s' \<Longrightarrow> sys_step E ev s' s'' \<Longrightarrow> P ev \<Longrightarrow> run E P s s''"

inductive_cases sys_stepE: "sys_step E ev s s'"

lemma run_invariant:
  assumes "run E P s s'" "I s"
    and "\<And>ev a b. sys_step E ev a b \<Longrightarrow> P ev \<Longrightarrow> I a \<Longrightarrow> I b"
  shows "I s'"
  using assms by (induction rule: run.induct) auto

section \<open>The synchronous counter\<close>

text \<open>Items taken or queued that will decrement the counter.\<close>

definition running_sync :: "'a worker \<Rightarrow> nat" where
  "running_sync p = (case p of Running t \<Rightarrow> if todo_synchronous t then 1 else 0 | _ \<Rightarrow> 0)"

definition pending :: "('a, 'l, 'h, 'w) sys \<Rightarrow> nat" where
  "pending s = length (filter todo_synchronous (todoBuffer (cmdr s))) + running_sync (worker s)"

text \<open>How far the counter is off.\<close>

definition drift :: "('a, 'l, 'h, 'w) sys \<Rightarrow> u32" where
  "drift s = numSynchronousCommands (cmdr s) - of_nat (pending s)"

definition event_drift :: "('a, 'l, 'h) event \<Rightarrow> u32" where
  "event_drift ev = (case ev of Call (CallDoAcid cs ty async) \<Rightarrow> (if async then - 1 else 1) | _ \<Rightarrow> 0)"

lemma DoCommand_frame:
  "DoCommand E c cm = (r, cm') \<Longrightarrow> todoBuffer cm' = todoBuffer cm \<and>
     numSynchronousCommands cm' = numSynchronousCommands cm"
  by (auto simp: DoCommand_def NotifyCommandFinished_def split: prod.splits outcome.splits bool.splits option.splits)

lemma UndoCommand_frame:
  "UndoCommand E c cm = (r, cm') \<Longrightarrow> todoBuffer cm' = todoBuffer cm \<and>
     numSynchronousCommands cm' = numSynchronousCommands cm"
  by (auto simp: UndoCommand_def NotifyCommandFinished_def split: prod.splits outcome.splits bool.splits option.splits)

lemma buffers_frame [simp]:
  "todoBuffer (AddUndo ty c cm) = todoBuffer cm" "todoBuffer (AddRedo ty c cm) = todoBuffer cm"
  "todoBuffer (ClipRedos ty cm) = todoBuffer cm"
  "numSynchronousCommands (AddUndo ty c cm) = numSynchronousCommands cm"
  "numSynchronousCommands (AddRedo ty c cm) = numSynchronousCommands cm"
  "numSynchronousCommands (ClipRedos ty cm) = numSynchronousCommands cm"
  by (auto simp: AddUndo_def AddRedo_def ClipRedos_def split: option.splits)

lemma TryUndo_frame:
  "TryUndo E cm = (r, cm') \<Longrightarrow> todoBuffer cm' = todoBuffer cm \<and>
     numSynchronousCommands cm' = numSynchronousCommands cm"
  by (auto simp: TryUndo_def Let_def dest!: UndoCommand_frame
      split: option.splits list.splits prod.splits outcome.splits bool.splits)

lemma TryRedo_frame:
  "TryRedo E cm = (r, cm') \<Longrightarrow> todoBuffer cm' = todoBuffer cm \<and>
     numSynchronousCommands cm' = numSynchronousCommands cm"
  by (auto simp: TryRedo_def Let_def dest!: DoCommand_frame
      split: option.splits list.splits prod.splits outcome.splits bool.splits)

lemma execute_frame:
  assumes "execute E t cm = (Returned b, cm')"
  shows "todoBuffer cm' = todoBuffer cm \<and>
    numSynchronousCommands cm' = numSynchronousCommands cm - (if todo_synchronous t then 1 else 0)"
  using assms
  by (auto simp: execute_def Let_def dest!: DoCommand_frame TryUndo_frame TryRedo_frame
      split: todo.splits prod.splits outcome.splits bool.splits if_splits)

lemma running_sync_simps [simp]:
  "running_sync Polling = 0" "running_sync Waiting = 0" "running_sync Dozing = 0"
  "running_sync Sleeping = 0" "running_sync Woken = 0" "running_sync Finished = 0"
  "running_sync Dead = 0" "running_sync (Running t) = (if todo_synchronous t then 1 else 0)"
  "running_sync (notify_worker p) = running_sync p"
  by (auto simp: running_sync_def notify_worker_def split: worker.split)

lemma Do_all_frame:
  "todoBuffer (Do_all cs cm) = todoBuffer cm @ map Todo cs \<and>
   numSynchronousCommands (Do_all cs cm) = numSynchronousCommands cm + of_nat (length (filter isSynchronous cs))"
proof -
  let ?f = "\<lambda>c cm. cm\<lparr>
    numSynchronousCommands := (if isSynchronous c then numSynchronousCommands cm + 1 else numSynchronousCommands cm),
    todoBuffer := todoBuffer cm @ [Todo c]\<rparr>"
  have "todoBuffer (fold ?f cs cm) = todoBuffer cm @ map Todo cs \<and>
    numSynchronousCommands (fold ?f cs cm) = numSynchronousCommands cm + of_nat (length (filter isSynchronous cs))" for cm
    by (induction cs arbitrary: cm) auto
  then show ?thesis by (simp add: Do_all_def)
qed

lemma todo_synchronous_Todo [simp]: "todo_synchronous \<circ> Todo = isSynchronous"
  by (simp add: fun_eq_iff)

lemma call_drift: "drift (call_step k s) = drift s + event_drift (Call k)"
proof (cases k)
  case (CallDoAll cs)
  then show ?thesis
    using Do_all_frame [of cs "cmdr s"]
    by (simp add: drift_def pending_def call_step_def Let_def event_drift_def)
qed (auto simp: drift_def pending_def call_step_def Let_def event_drift_def Do_def DoAcid_def
    Undo_def Redo_def End_def enqueue_def new_compound_def RegisterCommandListener_def
    RegisterErrorHandler_def split: option.split)

lemma take_command_drift:
  "running_sync (worker s) = 0 \<Longrightarrow> drift (take_command s) = drift s"
  by (auto simp: drift_def pending_def take_command_def split: list.split)

lemma worker_drift:
  assumes "worker (worker_step E s) \<noteq> Dead"
  shows "drift (worker_step E s) = drift s"
proof (cases "worker s")
  case (Running t)
  obtain r cm where ex: "execute E t (cmdr s) = (r, cm)" by fastforce
  with assms Running obtain b where r: "r = Returned b"
    by (cases r) (auto simp: worker_step_def)
  with Running ex execute_frame [of E t "cmdr s" b cm] show ?thesis
    by (simp add: worker_step_def drift_def pending_def)
qed (use assms in \<open>auto simp: worker_step_def take_command_drift\<close>,
    auto simp: drift_def pending_def)

lemma step_drift:
  assumes "sys_step E ev s s'" "worker s' \<noteq> Dead"
  shows "drift s' = drift s + event_drift ev"
  using assms
proof (cases rule: sys_step.cases)
  case work
  with assms(2) show ?thesis by (simp add: worker_drift event_drift_def)
next
  case (call k)
  then show ?thesis by (simp add: call_drift)
qed (auto simp: drift_def pending_def event_drift_def caller_check_def)

definition acid_call :: "('a, 'l, 'h) event \<Rightarrow> bool" where
  "acid_call ev \<longleftrightarrow> (\<exists>cs ty async. ev = Call (CallDoAcid cs ty async))"

lemma event_drift_other: "\<not> acid_call ev \<Longrightarrow> event_drift ev = 0"
  by (auto simp: event_drift_def acid_call_def split: event.splits call.splits)

lemma no_step_from_dead: "sys_step E ev s s' \<Longrightarrow> worker s \<noteq> Dead"
  by (auto elim: sys_stepE)



section \<open>A caller of \<open>DoAcid\<close>\<close>

definition caller_waits :: "caller \<Rightarrow> bool" where
  "caller_waits c \<longleftrightarrow> (\<exists>j. c = Checking j \<or> c = CallerDozing j \<or> c = CallerSleeping j)"

lemma caller_waits_simps [simp]:
  "caller_waits (Checking j)" "caller_waits (CallerDozing j)" "caller_waits (CallerSleeping j)"
  "\<not> caller_waits Idle" "\<not> caller_waits Joining" "\<not> caller_waits Gone"
  "caller_waits (notify_caller c) = caller_waits c"
  by (auto simp: caller_waits_def notify_caller_def split: caller.splits)

text \<open>The worker never adds to what is pending.\<close>

lemma worker_pending:
  assumes "worker (worker_step E s) \<noteq> Dead"
  shows "pending (worker_step E s) \<le> pending s"
proof (cases "worker s")
  case (Running t)
  obtain r cm where ex: "execute E t (cmdr s) = (r, cm)" by fastforce
  with assms Running obtain b where r: "r = Returned b"
    by (cases r) (auto simp: worker_step_def)
  with Running ex execute_frame [of E t "cmdr s" b cm] show ?thesis
    by (simp add: worker_step_def pending_def)
qed (auto simp: worker_step_def take_command_def pending_def split: list.split)

lemma worker_keeps_caller_waiting: "caller_waits (caller s) \<Longrightarrow> caller_waits (caller (worker_step E s))"
  by (auto simp: worker_step_def take_command_def split: worker.split list.split prod.split outcome.split)

definition stuck_caller :: "('a, 'l, 'h, 'w) sys \<Rightarrow> bool" where
  "stuck_caller s \<longleftrightarrow> caller_waits (caller s) \<and> drift s = 1 \<and> pending s < 2 ^ 32 - 1"

lemma stuck_counter:
  assumes "stuck_caller s"
  shows "numSynchronousCommands (cmdr s) \<noteq> 0"
proof
  assume zero: "numSynchronousCommands (cmdr s) = 0"
  have "numSynchronousCommands (cmdr s) = of_nat (pending s) + 1"
    using assms by (simp add: stuck_caller_def drift_def diff_eq_eq add.commute)
  with zero have "of_nat (pending s + 1) = (0 :: u32)" by (simp add: add.commute)
  then have "2 ^ 32 dvd pending s + 1"
    by (simp only: word_of_nat_eq_0_iff) simp
  then have "2 ^ 32 \<le> pending s + 1" by (rule dvd_imp_le) simp
  with assms show False by (simp add: stuck_caller_def)
qed

lemma stuck_step:
  assumes "sys_step E ev s s'" "worker s' \<noteq> Dead" "stuck_caller s"
  shows "stuck_caller s'"
  using assms(1)
proof (cases rule: sys_step.cases)
  case work
  then show ?thesis
    using assms worker_keeps_caller_waiting [of s E] worker_pending [of E s] worker_drift [of E s]
    by (auto simp: stuck_caller_def)
next
  case (check j)
  then show ?thesis
    using assms(3) stuck_counter [OF assms(3)]
    by (auto simp: stuck_caller_def caller_check_def drift_def pending_def)
qed (use assms(3) in \<open>auto simp: stuck_caller_def drift_def pending_def\<close>)

text \<open>
  Property C40: a synchronous \<open>DoAcid\<close> never returns. Called with the counter in step with the
  queue, whatever the worker then does, in every interleaving, the caller is still inside
  \<open>wait\<close>: the counter is one higher than what is pending and nothing takes that one away.
\<close>

theorem synchronous_DoAcid_never_returns:
  assumes "drift s = 0" "pending s < 2 ^ 32 - 2"
    and "run E (\<lambda>ev. True) (call_step (CallDoAcid cs ty False) s) s'" "worker s' \<noteq> Dead"
  shows "caller_waits (caller s') \<and> numSynchronousCommands (cmdr s') \<noteq> 0"
proof -
  let ?s0 = "call_step (CallDoAcid cs ty False) s"
  have "drift ?s0 = 1" using call_drift [of "CallDoAcid cs ty False" s] assms(1) by (simp add: event_drift_def)
  moreover have "pending ?s0 = pending s" "caller_waits (caller ?s0)"
    by (simp_all add: call_step_def DoAcid_def enqueue_def new_compound_def pending_def Let_def)
  ultimately have "stuck_caller ?s0" using assms(2) by (simp add: stuck_caller_def)
  then have "worker ?s0 = Dead \<or> stuck_caller ?s0" ..
  with assms(3) have "worker s' = Dead \<or> stuck_caller s'"
    by (rule run_invariant) (use stuck_step no_step_from_dead in blast)
  with assms(4) stuck_counter show ?thesis by (auto simp: stuck_caller_def)
qed

lemma synchronous_DoAcid_never_returns_witness:
  "caller_waits (caller (call_step (CallDoAcid [letter CHR ''a''] 1 False) (initial [] :: (letter, unit, unit, string) sys)))"
proof -
  let ?s = "initial [] :: (letter, unit, unit, string) sys"
  have "drift ?s = 0" "pending ?s < 2 ^ 32 - 2"
    by (simp_all add: initial_def new_commander_def drift_def pending_def)
  from synchronous_DoAcid_never_returns [OF this run.refl, of "[letter CHR ''a'']" 1] show ?thesis
    by (simp add: call_step_def initial_def notify_worker_def Let_def)
qed

section \<open>Sleeping\<close>

text \<open>
  The worker can sleep on its condition variable once. When it finds the queue empty
  with its lock already released by the first sleep, no interleaving executes another command:
  it stays before \<open>wait\<close> until its next own step ends the process (\<open>wait\<close> or \<open>unlock\<close> on a lock
  that is not owned).
\<close>

theorem second_sleep_is_fatal:
  assumes "worker s = Waiting" "\<not> lockOwned s" "run E (\<lambda>ev. True) s s'"
  shows "worker s' = Dead \<or> worker s' = Waiting \<and> \<not> lockOwned s' \<and> worker (worker_step E s') = Dead"
proof -
  have "worker s' = Dead \<or> worker s' = Waiting \<and> \<not> lockOwned s'"
    using assms(3)
  proof (rule run_invariant)
    show "worker s = Dead \<or> worker s = Waiting \<and> \<not> lockOwned s" using assms by simp
    show "worker b = Dead \<or> worker b = Waiting \<and> \<not> lockOwned b"
      if "sys_step E ev a b" "worker a = Dead \<or> worker a = Waiting \<and> \<not> lockOwned a" for ev a b
      using that
      by (cases rule: sys_step.cases)
        (auto simp: worker_step_def call_step_def caller_check_def Let_def notify_worker_def)
  qed
  then show ?thesis by (auto simp: worker_step_def)
qed

text \<open>The state is reached by one asynchronous command after the first sleep.\<close>

definition slept_once :: "(letter, unit, unit, string) sys" where
  "slept_once = (worker_step letter_client ^^ 3)
     (call_step (CallDo (letter CHR ''a'')) ((worker_step letter_client ^^ 3) (initial [])))"

lemmas thread_evals = worker_step_def call_step_def initial_def take_command_def notify_worker_def
  Let_def Do_def enqueue_def execute_def ClipRedos_def eval_nat_numeral

lemma slept_once_state: "worker (worker_step letter_client slept_once) = Waiting"
    "\<not> lockOwned (worker_step letter_client slept_once)"
    "world (cmdr slept_once) = ''a''"
  by (simp_all add: slept_once_def thread_evals commander_evals letter_evals)

lemma second_sleep_is_fatal_witness:
  "worker (worker_step letter_client (worker_step letter_client slept_once)) = Dead"
  using second_sleep_is_fatal [OF slept_once_state(1,2) run.refl] slept_once_state by simp

text \<open>
  The first sleep can miss its notification. There is a run in which the caller's
  synchronous command arrives between the worker's test of the predicate and its sleep; both
  threads then sleep with the command in the queue, and only a spurious wake-up can move them.
\<close>

theorem wakeup_can_be_lost:
  assumes "isSynchronous c"
  shows "\<exists>s. run E (\<lambda>ev. ev \<noteq> Spurious) (initial w) s \<and> worker s = Sleeping \<and>
    caller s = CallerSleeping False \<and> todoBuffer (cmdr s) = [Todo c] \<and>
    (\<forall>ev s'. sys_step E ev s s' \<longrightarrow> ev = Spurious)"
proof -
  let ?s0 = "initial w"
  let ?s1 = "worker_step E ?s0"
  let ?s2 = "worker_step E ?s1"
  let ?s3 = "call_step (CallDo c) ?s2"
  let ?s4 = "worker_step E ?s3"
  let ?s5 = "caller_check False ?s4"
  let ?s6 = "?s5\<lparr>caller := CallerSleeping False\<rparr>"
  note evals = initial_def new_commander_def worker_step_def call_step_def Do_def enqueue_def
    notify_worker_def caller_check_def Let_def assms
  have "run E (\<lambda>ev. ev \<noteq> Spurious) ?s0 ?s1" by (rule run.step [OF run.refl sys_step.work]) (simp_all add: evals)
  then have "run E (\<lambda>ev. ev \<noteq> Spurious) ?s0 ?s2" by (rule run.step [OF _ sys_step.work]) (simp_all add: evals)
  then have "run E (\<lambda>ev. ev \<noteq> Spurious) ?s0 ?s3" by (rule run.step [OF _ sys_step.call]) (simp_all add: evals)
  then have "run E (\<lambda>ev. ev \<noteq> Spurious) ?s0 ?s4" by (rule run.step [OF _ sys_step.work]) (simp_all add: evals)
  then have "run E (\<lambda>ev. ev \<noteq> Spurious) ?s0 ?s5" by (rule run.step [OF _ sys_step.check]) (simp_all add: evals)
  then have "run E (\<lambda>ev. ev \<noteq> Spurious) ?s0 ?s6" by (rule run.step [OF _ sys_step.doze]) (simp_all add: evals)
  moreover have "worker ?s6 = Sleeping" "todoBuffer (cmdr ?s6) = [Todo c]" by (simp_all add: evals)
  moreover have "ev = Spurious" if "sys_step E ev ?s6 s'" for ev s'
    using that by (cases rule: sys_step.cases) (simp_all add: evals)
  ultimately show ?thesis by (intro exI [of _ ?s6]) simp
qed

lemma wakeup_can_be_lost_witness:
  "\<exists>s. run letter_client (\<lambda>ev. ev \<noteq> Spurious) (initial []) s \<and> worker s = Sleeping \<and>
    caller s = CallerSleeping False \<and> todoBuffer (cmdr s) = [Todo ExampleCommand]"
  using wakeup_can_be_lost [of ExampleCommand letter_client "[]"]
  by (auto simp: ExampleCommand_def new_command_def)

section \<open>Commands stay filed under their type\<close>

definition filed :: "('a, 'l, 'h, 'w) commander \<Rightarrow> bool" where
  "filed cm \<longleftrightarrow> undos.typed cm \<and> redos.typed cm"

lemma filed_iff:
  "filed cm \<longleftrightarrow> (\<forall>ty. \<forall>c\<in>set (undo_stack cm ty) \<union> set (redo_stack cm ty). undoRedoTypeId c = ty)"
  by (auto simp: filed_def undos.typed_def redos.typed_def)

lemma filed_stacks_eq:
  "undo_stack cm' = undo_stack cm \<Longrightarrow> redo_stack cm' = redo_stack cm \<Longrightarrow> filed cm' = filed cm"
  by (simp add: filed_iff)

lemma filed_AddUndo: "filed cm \<Longrightarrow> undoRedoTypeId c = ty \<Longrightarrow> filed (AddUndo ty c cm)"
  by (simp add: filed_def undos.typed_push) (simp add: redos.typed_def)

lemma filed_AddRedo: "filed cm \<Longrightarrow> undoRedoTypeId c = ty \<Longrightarrow> filed (AddRedo ty c cm)"
  by (simp add: filed_def redos.typed_push) (simp add: undos.typed_def)

lemma filed_ClipRedos: "filed cm \<Longrightarrow> filed (ClipRedos ty cm)"
  by (auto simp: filed_iff)

lemma filed_TryUndo: "filed cm \<Longrightarrow> TryUndo E cm = (r, cm') \<Longrightarrow> filed cm'"
  using undo_stack_cases [of cm "undoCommandType cm"]
proof (elim disjE exE conjE)
  fix c s
  assume filed: "filed cm" and run: "TryUndo E cm = (r, cm')"
    and s: "undo_stack cm (undoCommandType cm) = c # s" "undoBuffers cm (undoCommandType cm) = Some (c # s)"
  let ?cm = "cm\<lparr>undoBuffers := (undoBuffers cm)(undoCommandType cm \<mapsto> s)\<rparr>"
  obtain r1 cm1 where u: "UndoCommand E c ?cm = (r1, cm1)" by fastforce
  from filed s have "undoRedoTypeId c = undoCommandType cm" by (auto simp: filed_iff)
  moreover have "filed ?cm" using filed s by (auto simp: filed_iff)
  then have "filed cm1" using filed_stacks_eq stacks_UndoCommand [OF u] by blast
  ultimately show "filed cm'"
    using run s u by (auto simp: TryUndo_def filed_AddRedo split: outcome.splits bool.splits)
qed (auto simp: TryUndo_def)

lemma filed_TryRedo: "filed cm \<Longrightarrow> TryRedo E cm = (r, cm') \<Longrightarrow> filed cm'"
  using redo_stack_cases [of cm "redoCommandType cm"]
proof (elim disjE exE conjE)
  fix c s
  assume filed: "filed cm" and run: "TryRedo E cm = (r, cm')"
    and s: "redo_stack cm (redoCommandType cm) = c # s" "redoBuffers cm (redoCommandType cm) = Some (c # s)"
  let ?cm = "cm\<lparr>redoBuffers := (redoBuffers cm)(redoCommandType cm \<mapsto> s)\<rparr>"
  obtain r1 cm1 where u: "DoCommand E c ?cm = (r1, cm1)" by fastforce
  from filed s have "undoRedoTypeId c = redoCommandType cm" by (auto simp: filed_iff)
  moreover have "filed ?cm" using filed s by (auto simp: filed_iff)
  then have "filed cm1" using filed_stacks_eq stacks_DoCommand [OF u] by blast
  ultimately show "filed cm'"
    using run s u by (auto simp: TryRedo_def filed_AddUndo split: outcome.splits bool.splits)
qed (auto simp: TryRedo_def)

lemma filed_counter [simp]: "filed (cm\<lparr>numSynchronousCommands := n\<rparr>) = filed cm"
  by (rule filed_stacks_eq) simp_all

lemma filed_execute:
  assumes "filed cm" "execute E t cm = (r, cm')"
  shows "filed cm'"
proof (cases t)
  case (Todo c)
  obtain r1 cm1 where d: "DoCommand E c cm = (r1, cm1)" by fastforce
  have "filed cm1" using filed_stacks_eq stacks_DoCommand [OF d] assms(1) by blast
  then have "filed (AddUndo (undoRedoTypeId c) c (ClipRedos (undoRedoTypeId c) cm1))"
    by (simp add: filed_AddUndo filed_ClipRedos)
  with \<open>filed cm1\<close> assms(2) Todo d show ?thesis
    by (cases r1) (auto simp: execute_def split: bool.splits if_splits)
next
  case UndoItem
  obtain r1 cm1 where d: "TryUndo E cm = (r1, cm1)" by fastforce
  with filed_TryUndo [OF assms(1) d] assms(2) UndoItem show ?thesis
    by (cases r1) (auto simp: execute_def)
next
  case RedoItem
  obtain r1 cm1 where d: "TryRedo E cm = (r1, cm1)" by fastforce
  with filed_TryRedo [OF assms(1) d] assms(2) RedoItem show ?thesis
    by (cases r1) (auto simp: execute_def)
qed (use assms in \<open>auto simp: execute_def\<close>)

lemma Do_all_buffers:
  "undoBuffers (Do_all cs cm) = undoBuffers cm \<and> redoBuffers (Do_all cs cm) = redoBuffers cm"
proof -
  let ?f = "\<lambda>c cm. cm\<lparr>
    numSynchronousCommands := (if isSynchronous c then numSynchronousCommands cm + 1 else numSynchronousCommands cm),
    todoBuffer := todoBuffer cm @ [Todo c]\<rparr>"
  have "undoBuffers (fold ?f cs cm) = undoBuffers cm \<and> redoBuffers (fold ?f cs cm) = redoBuffers cm" for cm
    by (induction cs arbitrary: cm) auto
  then show ?thesis by (simp add: Do_all_def)
qed

lemma stacks_call [simp]:
  "undo_stack (call_effect k cm) = undo_stack cm" "redo_stack (call_effect k cm) = redo_stack cm"
  by (cases k; auto simp: undo_stack_def redo_stack_def Do_def DoAcid_def Undo_def Redo_def End_def
      Do_all_buffers enqueue_def RegisterCommandListener_def RegisterErrorHandler_def split: option.split)+

lemma filed_call [simp]: "filed (call_effect k cm) = filed cm"
  by (rule filed_stacks_eq) simp_all

lemma filed_queue [simp]:
  "filed (cm\<lparr>todoBuffer := ts\<rparr>) = filed cm" "filed (cm\<lparr>hasCommandsToExecute := b\<rparr>) = filed cm"
  by (rule filed_stacks_eq; simp add: undo_stack_def redo_stack_def fun_eq_iff)+

lemma filed_new [simp]: "filed (new_commander w)"
  by (simp add: filed_iff new_commander_def undo_stack_def redo_stack_def)

lemma filed_worker: "filed (cmdr s) \<Longrightarrow> filed (cmdr (worker_step E s))"
  using filed_execute [of "cmdr s" E]
  by (auto simp: worker_step_def take_command_def split: worker.split list.split prod.split outcome.split)

lemma filed_step: "sys_step E ev s s' \<Longrightarrow> filed (cmdr s) \<Longrightarrow> filed (cmdr s')"
  by (cases rule: sys_step.cases, assumption) (auto simp: filed_worker call_step_def caller_check_def Let_def)

text \<open>
  Whatever the interleaving, a command on the undo or redo buffer of a type id has
  that type id, so an undo or redo of one type never acts on a command of another.
\<close>

theorem buffers_hold_their_type:
  assumes "run E P (initial w) s"
  shows "undoRedoTypeId ` set (undo_stack (cmdr s) ty) \<subseteq> {ty} \<and>
    undoRedoTypeId ` set (redo_stack (cmdr s) ty) \<subseteq> {ty}"
proof -
  have "filed (cmdr s)"
    using assms
    by (rule run_invariant)
      (auto simp: initial_def dest: filed_step)
  then show ?thesis by (auto simp: filed_iff)
qed

lemma buffers_hold_their_type_witness:
  "undoRedoTypeId ` set (undo_stack (cmdr (worker_step letter_client (initial []))) 1) \<subseteq> {1}"
proof -
  have "run letter_client (\<lambda>ev. True) (initial []) (worker_step letter_client (initial []))"
    by (rule run.step [OF run.refl sys_step.work]) (simp_all add: initial_def)
  from buffers_hold_their_type [OF this, of 1] show ?thesis ..
qed

section \<open>Ending\<close>

text \<open>Executing a queue of items in order, with \<open>rest\<close> behind it.\<close>

fun exec_all ::
    "('a, 'l, 'h, 'w) client \<Rightarrow> 'a todo list \<Rightarrow> 'a todo list \<Rightarrow> ('a, 'l, 'h, 'w) commander \<Rightarrow> ('a, 'l, 'h, 'w) commander option" where
  "exec_all E [] rest cm = Some (cm\<lparr>todoBuffer := rest\<rparr>)"
| "exec_all E (t # ts) rest cm =
     (case execute E t (cm\<lparr>todoBuffer := ts @ rest\<rparr>) of
        (Returned True, cm') \<Rightarrow> exec_all E ts rest cm'
      | _ \<Rightarrow> None)"

lemma exec_all_steps:
  assumes "worker s = Polling" "todoBuffer (cmdr s) = ts @ rest" "exec_all E ts rest (cmdr s) = Some cm'"
  shows "\<exists>s'. (worker_step E ^^ (2 * length ts)) s = s' \<and> worker s' = Polling \<and> cmdr s' = cm'"
  using assms
proof (induction ts arbitrary: s)
  case Nil
  then have "todoBuffer (cmdr s) = rest" by simp
  then have "(cmdr s)\<lparr>todoBuffer := rest\<rparr> = cmdr s" by (intro commander.equality) simp_all
  with Nil show ?case by simp
next
  case (Cons t ts)
  from Cons.prems(3) obtain cm1 where ex: "execute E t ((cmdr s)\<lparr>todoBuffer := ts @ rest\<rparr>) = (Returned True, cm1)"
    and more: "exec_all E ts rest cm1 = Some cm'"
    by (auto split: prod.splits outcome.splits bool.splits)
  let ?s = "worker_step E (worker_step E s)"
  have "worker ?s = Polling" "cmdr ?s = cm1"
    using Cons.prems ex by (simp_all add: worker_step_def take_command_def)
  moreover have "todoBuffer cm1 = ts @ rest" using execute_frame [OF ex] by simp
  ultimately have "\<exists>s'. (worker_step E ^^ (2 * length ts)) ?s = s' \<and> worker s' = Polling \<and> cmdr s' = cm'"
    using more Cons.IH [of ?s] by simp
  then show ?case by (simp add: funpow_swap1)
qed



end
