(* ===== verification/Updater.thy ===== *)
theory Updater
  imports Prelude
begin

text \<open>
  \<open>MiniViewsLib/Updater\<close> (and its copy in \<open>CrossCutLib\<close>): a thread that calls \<open>TimedUpdate\<close>
  until it is told to stop. The thread is its position in the loop of \<open>PushUpdates\<close>; \<open>pushed\<close>
  counts the calls. \<open>None\<close> is undefined behaviour or \<open>std::terminate\<close>.
\<close>

section \<open>Definitions\<close>

datatype loop_position = Test | Update | Sleep | Returned

record updater =
  continueUpdating :: bool
  intervalBetweenUpdates :: int
  updateThread :: "loop_position option"
  pushed :: nat

definition new_updater :: updater where
  "new_updater = \<lparr>continueUpdating = True, intervalBetweenUpdates = 60, updateThread = None, pushed = 0\<rparr>"

definition GetUpdateInterval :: "updater \<Rightarrow> int" where
  "GetUpdateInterval u = intervalBetweenUpdates u"

definition SetUpdateInterval :: "int \<Rightarrow> updater \<Rightarrow> updater" where
  "SetUpdateInterval n u = u\<lparr>intervalBetweenUpdates := n\<rparr>"

text \<open>Assigning to \<open>updateThread\<close> destroys the thread object it held, which must not be joinable.\<close>

definition StartTimedUpdates :: "int \<Rightarrow> updater \<Rightarrow> (bool \<times> updater) option" where
  "StartTimedUpdates interval u =
     (if updateThread u \<noteq> None then None
      else Some (True, u\<lparr>intervalBetweenUpdates := interval, continueUpdating := True, updateThread := Some Test\<rparr>))"

text \<open>One step of the thread.\<close>

definition PushUpdates_step :: "updater \<Rightarrow> updater" where
  "PushUpdates_step u =
     (case updateThread u of
        Some Test \<Rightarrow> u\<lparr>updateThread := Some (if continueUpdating u then Update else Returned)\<rparr>
      | Some Update \<Rightarrow> u\<lparr>updateThread := Some Sleep, pushed := pushed u + 1\<rparr>
      | Some Sleep \<Rightarrow> u\<lparr>updateThread := Some Test\<rparr>
      | _ \<Rightarrow> u)"

text \<open>\<open>join\<close> lets the thread run until it has returned; the fuel bounds its steps.\<close>

fun join :: "nat \<Rightarrow> updater \<Rightarrow> updater option" where
  "join 0 u = None"
| "join (Suc n) u = (if updateThread u = Some Returned then Some u else join n (PushUpdates_step u))"

definition StopTimedUpdates :: "nat \<Rightarrow> updater \<Rightarrow> updater option" where
  "StopTimedUpdates fuel u =
     (let u1 = u\<lparr>continueUpdating := False\<rparr> in
      if updateThread u1 = None then None
      else do { u2 \<leftarrow> join fuel u1; Some (u2\<lparr>updateThread := None\<rparr>) })"

definition destroy_updater :: "updater \<Rightarrow> updater option" where
  "destroy_updater u = (if updateThread u \<noteq> None then None else Some u)"

section \<open>Properties\<close>

text \<open>
  Wherever the thread is in its loop, \<open>StopTimedUpdates\<close> returns, after at most one more
  call of \<open>TimedUpdate\<close>, and leaves an updater that can be destroyed or started again.
\<close>

theorem stop_returns:
  assumes "updateThread u = Some p"
  shows "\<exists>u'. StopTimedUpdates 5 u = Some u' \<and> updateThread u' = None \<and>
    pushed u \<le> pushed u' \<and> pushed u' \<le> pushed u + 1 \<and> destroy_updater u' = Some u' \<and>
    (\<exists>u''. StartTimedUpdates n u' = Some (True, u''))"
  using assms
  by (cases p) (simp_all add: StopTimedUpdates_def PushUpdates_step_def destroy_updater_def StartTimedUpdates_def
      eval_nat_numeral)

lemma stop_returns_witness:
  "\<exists>u'. StopTimedUpdates 5 (new_updater\<lparr>updateThread := Some Sleep, pushed := 7\<rparr>) = Some u' \<and> pushed u' \<le> 8"
  using stop_returns [of "new_updater\<lparr>updateThread := Some Sleep, pushed := 7\<rparr>" Sleep] by auto

text \<open>
  An updater is started and stopped in turn: a second start, a stop without a start and
  the destruction of a running updater all end the program.
\<close>

theorem start_stop_discipline:
  assumes "StartTimedUpdates n u = Some (ok, u')"
  shows "StopTimedUpdates fuel u = None \<and> StartTimedUpdates m u' = None \<and>
    StartTimedUpdates m ((PushUpdates_step ^^ k) u') = None \<and> destroy_updater ((PushUpdates_step ^^ k) u') = None"
proof -
  have "updateThread (PushUpdates_step v) \<noteq> None" if "updateThread v \<noteq> None" for v
    using that by (auto simp: PushUpdates_step_def split: option.splits loop_position.splits)
  moreover have "updateThread u' \<noteq> None" "updateThread u = None"
    using assms by (auto simp: StartTimedUpdates_def split: if_splits)
  ultimately have "updateThread ((PushUpdates_step ^^ k) u') \<noteq> None" by (induction k) auto
  with \<open>updateThread u' \<noteq> None\<close> \<open>updateThread u = None\<close> show ?thesis
    by (simp add: StopTimedUpdates_def StartTimedUpdates_def destroy_updater_def)
qed

lemma start_stop_discipline_witness: "StopTimedUpdates 5 new_updater = None"
proof -
  obtain u' where "StartTimedUpdates 25 new_updater = Some (True, u')"
    by (simp add: StartTimedUpdates_def new_updater_def)
  from start_stop_discipline [OF this] show ?thesis by blast
qed

end
