(* ===== verification/Mirror.thy ===== *)
theory Mirror
  imports Prelude
begin

text \<open>
  \<open>MiniViewsLib/WinrtGraphicsCapture.cpp\<close>: the class \<open>Mirror\<close>, which shows the frames the
  Windows graphics capture delivers for a source window, clipped to a region given in GDI
  coordinates. What the graphics runtime answers is the record \<open>graphics\<close>; the object keeps the
  members that decide which part of a frame is copied, the interface pointers only as present
  or absent. \<open>Undefined\<close> is a call without its precondition: overflow, or a null interface.
  The mutex of the class serialises its operations, each of which is one function here.
\<close>

record size32 =
  Width :: int
  Height :: int

text \<open>\<open>D3D11_BOX\<close> has unsigned members; \<open>right\<close> and \<open>bottom\<close> are exclusive.\<close>

record box =
  bleft :: u32
  btop :: u32
  bfront :: u32
  bright :: u32
  bbottom :: u32
  bback :: u32

datatype capture_result = CaptureItem size32 | InvalidArgument | HresultError

text \<open>
  \<open>CreateForWindow\<close> on a window, the root ancestor of a window, whether the capture source (the
  constructor of \<open>CaptureSource\<close>) and then the casing and the swap chain can be made, and whether
  \<open>ResizeBuffers\<close> succeeds.
\<close>

record graphics =
  createForWindow :: "hwnd \<Rightarrow> capture_result"
  rootAncestor :: "hwnd \<Rightarrow> hwnd"
  sourceCreated :: bool
  pipelineCreated :: bool
  resizeBuffers :: "u32 \<times> u32 \<Rightarrow> bool"

record mirror =
  mParent :: hwnd
  mSource :: hwnd
  captureSource :: "hwnd option"
  swapChain :: "(u32 \<times> u32) option"
  msize :: size32
  pixelFormat :: u32
  bufferCount :: u32
  clipped :: bool
  clipPaused :: bool
  frameClipRegionInvalid :: bool
  frameClipRegion :: box
  gdiClipRegion :: rect
  gdiSourceSize :: size2

datatype 'x mresult = Done 'x | Raised mirror | Undefined

definition B8G8R8A8 :: u32 where "B8G8R8A8 = 87"

definition cleared_box :: box where
  "cleared_box = \<lparr>bleft = 0, btop = 0, bfront = 0, bright = 0, bbottom = 0, bback = 1\<rparr>"

definition new_mirror :: mirror where
  "new_mirror = \<lparr>mParent = NULL, mSource = NULL, captureSource = None, swapChain = None,
     msize = \<lparr>Width = 0, Height = 0\<rparr>, pixelFormat = B8G8R8A8, bufferCount = 0, clipped = False,
     clipPaused = False, frameClipRegionInvalid = True,
     frameClipRegion = \<lparr>bleft = 0, btop = 0, bfront = 0, bright = 0, bbottom = 0, bback = 0\<rparr>,
     gdiClipRegion = zero_rect, gdiSourceSize = \<lparr>cx = 0, cy = 0\<rparr>\<rparr>"

section \<open>Creating, clearing and resetting\<close>

definition clearClipNoLock :: "mirror \<Rightarrow> mirror" where
  "clearClipNoLock m = m\<lparr>clipped := False, frameClipRegionInvalid := True,
     frameClipRegion := cleared_box, gdiClipRegion := zero_rect\<rparr>"

definition resetNoLock :: "mirror \<Rightarrow> mirror" where
  "resetNoLock m = (clearClipNoLock m)\<lparr>captureSource := None, swapChain := None,
     msize := \<lparr>Width = 0, Height = 0\<rparr>, pixelFormat := B8G8R8A8, bufferCount := 0\<rparr>"

text \<open>
  The handle whose capture item was made; with \<open>InvalidArgument\<close> the root window is tried, and
  \<open>hSource\<close> becomes the root only once that succeeded.
\<close>

definition acquire_item :: "graphics \<Rightarrow> hwnd \<Rightarrow> (hwnd \<times> size32) option" where
  "acquire_item G h =
     (case createForWindow G h of
        CaptureItem sz \<Rightarrow> Some (h, sz)
      | HresultError \<Rightarrow> None
      | InvalidArgument \<Rightarrow>
          (let root = rootAncestor G h in
           if root \<noteq> NULL \<and> h \<noteq> root then
             (case createForWindow G root of CaptureItem sz \<Rightarrow> Some (root, sz) | _ \<Rightarrow> None)
           else None))"

definition createMirrorNoLock :: "graphics \<Rightarrow> hwnd \<Rightarrow> hwnd \<Rightarrow> mirror \<Rightarrow> (hwnd \<times> mirror) mresult" where
  "createMirrorNoLock G parent sourceWindow m =
     (let m1 = clearClipNoLock m;
          m2 = (if captureSource m1 \<noteq> None then resetNoLock m1 else m1);
          m3 = m2\<lparr>mSource := sourceWindow\<rparr>
      in case acquire_item G sourceWindow of
           None \<Rightarrow> Raised m3
         | Some (source, sz) \<Rightarrow>
             if \<not> sourceCreated G then Raised (m3\<lparr>mSource := source\<rparr>)
             else (let m4 = m3\<lparr>mSource := source, captureSource := Some source, msize := sz,
                         pixelFormat := B8G8R8A8, bufferCount := 2, mParent := parent\<rparr>
              in if pipelineCreated G
                 then Done (source, m4\<lparr>swapChain := Some (word_of_int (Width sz), word_of_int (Height sz))\<rparr>)
                 else Raised m4))"

definition createMirror :: "graphics \<Rightarrow> hwnd \<Rightarrow> hwnd \<Rightarrow> mirror \<Rightarrow> (hwnd \<times> mirror) mresult" where
  "createMirror G parent sourceWindow m = createMirrorNoLock G parent sourceWindow m"

definition setClipNoLock :: "graphics \<Rightarrow> rect \<Rightarrow> int \<Rightarrow> int \<Rightarrow> mirror \<Rightarrow> mirror mresult" where
  "setClipNoLock G clip sourceWidth sourceHeight m =
     (case createMirrorNoLock G (mParent m) (mSource m) m of
        Done (h, m1) \<Rightarrow> Done (m1\<lparr>gdiSourceSize := \<lparr>cx = sourceWidth, cy = sourceHeight\<rparr>,
            frameClipRegion := cleared_box, frameClipRegionInvalid := True,
            gdiClipRegion := clip, clipped := True\<rparr>)
      | Raised m1 \<Rightarrow> Raised m1
      | Undefined \<Rightarrow> Undefined)"

definition setClip :: "graphics \<Rightarrow> rect \<Rightarrow> int \<Rightarrow> int \<Rightarrow> mirror \<Rightarrow> mirror mresult" where
  "setClip G clip sourceWidth sourceHeight m = setClipNoLock G clip sourceWidth sourceHeight m"

definition clearClip :: "graphics \<Rightarrow> mirror \<Rightarrow> mirror mresult" where
  "clearClip G m =
     (case createMirrorNoLock G (mParent m) (mSource m) (clearClipNoLock m) of
        Done (h, m1) \<Rightarrow> Done m1 | Raised m1 \<Rightarrow> Raised m1 | Undefined \<Rightarrow> Undefined)"

definition reset :: "mirror \<Rightarrow> mirror" where
  "reset m = resetNoLock m"

definition sourceClosed :: "mirror \<Rightarrow> mirror" where
  "sourceClosed m = resetNoLock m"

definition handleSourceSizeChange :: "graphics \<Rightarrow> int \<Rightarrow> int \<Rightarrow> mirror \<Rightarrow> mirror mresult" where
  "handleSourceSizeChange G sourceWidth sourceHeight m =
     (if clipped m then
        setClipNoLock G (gdiClipRegion m) sourceWidth sourceHeight
          (m\<lparr>gdiSourceSize := \<lparr>cx = sourceWidth, cy = sourceHeight\<rparr>, frameClipRegionInvalid := True\<rparr>)
      else if clipPaused m then
        setClipNoLock G (gdiClipRegion m) sourceWidth sourceHeight (m\<lparr>clipPaused := False\<rparr>)
      else
        (case createMirrorNoLock G (mParent m) (mSource m) m of
           Done (h, m1) \<Rightarrow> Done m1 | Raised m1 \<Rightarrow> Raised m1 | Undefined \<Rightarrow> Undefined))"

section \<open>Frames\<close>

text \<open>Whether the region cannot be used on frames of the current size.\<close>

definition region_unusable :: "size32 \<Rightarrow> box \<Rightarrow> bool" where
  "region_unusable sz b \<longleftrightarrow>
     sint (bright b) \<ge> Width sz \<or> sint (bbottom b) \<ge> Height sz \<or>
     bleft b \<ge> bright b \<or> btop b \<ge> bbottom b"

text \<open>\<open>size * clip / source\<close> in 32-bit arithmetic, then converted to unsigned.\<close>

definition scale_clip :: "int \<Rightarrow> int \<Rightarrow> int \<Rightarrow> u32 option" where
  "scale_clip frameLength clip sourceLength =
     do { p \<leftarrow> mul32 frameLength clip; q \<leftarrow> div32 p sourceLength; Some (word_of_int q) }"

definition updateClip :: "bool \<Rightarrow> mirror \<Rightarrow> (bool \<times> mirror) mresult" where
  "updateClip sizeChanged m =
     (if sizeChanged \<or> frameClipRegionInvalid m \<or> region_unusable (msize m) (frameClipRegion m) then
        if cx (gdiSourceSize m) > 0 \<and> cy (gdiSourceSize m) > 0 then
          (case do {
              l \<leftarrow> scale_clip (Width (msize m)) (left (gdiClipRegion m)) (cx (gdiSourceSize m));
              t \<leftarrow> scale_clip (Height (msize m)) (top (gdiClipRegion m)) (cy (gdiSourceSize m));
              r \<leftarrow> scale_clip (Width (msize m)) (right (gdiClipRegion m)) (cx (gdiSourceSize m));
              b \<leftarrow> scale_clip (Height (msize m)) (bottom (gdiClipRegion m)) (cy (gdiSourceSize m));
              Some ((frameClipRegion m)\<lparr>bleft := l, btop := t, bright := r, bbottom := b\<rparr>) } of
             None \<Rightarrow> Undefined
           | Some region \<Rightarrow>
               (let invalid = region_unusable (msize m) region
                in Done (\<not> invalid, m\<lparr>frameClipRegion := region, frameClipRegionInvalid := invalid,
                     clipped := \<not> invalid, clipPaused := True\<rparr>)))
        else Done (False, m\<lparr>clipped := False\<rparr>)
      else Done (clipped m, m))"

definition resize_swap_chain :: "graphics \<Rightarrow> u32 \<times> u32 \<Rightarrow> mirror \<Rightarrow> mirror mresult" where
  "resize_swap_chain G dims m =
     (if swapChain m = None then Undefined
      else if resizeBuffers G dims then Done (m\<lparr>swapChain := Some dims\<rparr>)
      else Raised m)"

definition refreshSwapChain :: "graphics \<Rightarrow> bool \<Rightarrow> mirror \<Rightarrow> mirror mresult" where
  "refreshSwapChain G sizeChanged m =
     (case (if clipped m then updateClip sizeChanged m else Done (False, m)) of
        Undefined \<Rightarrow> Undefined
      | Raised m1 \<Rightarrow> Raised m1
      | Done (isClipped, m1) \<Rightarrow>
          if isClipped then
            resize_swap_chain G (bright (frameClipRegion m1) - bleft (frameClipRegion m1),
                                 bbottom (frameClipRegion m1) - btop (frameClipRegion m1)) m1
          else resize_swap_chain G (word_of_int (Width (msize m1)), word_of_int (Height (msize m1))) m1)"

definition updateSize :: "graphics \<Rightarrow> size32 \<Rightarrow> mirror \<Rightarrow> (bool \<times> mirror) mresult" where
  "updateSize G sz m =
     (if Width sz \<noteq> Width (msize m) \<or> Height sz \<noteq> Height (msize m) then
        (case refreshSwapChain G True (m\<lparr>msize := sz\<rparr>) of
           Done m1 \<Rightarrow> Done (True, m1) | Raised m1 \<Rightarrow> Raised m1 | Undefined \<Rightarrow> Undefined)
      else if clipped m then
        (case updateClip False m of
           Done (b, m1) \<Rightarrow> Done (False, m1) | Raised m1 \<Rightarrow> Raised m1 | Undefined \<Rightarrow> Undefined)
      else Done (False, m))"

definition updatePixelFormat :: "graphics \<Rightarrow> u32 \<Rightarrow> mirror \<Rightarrow> (bool \<times> mirror) mresult" where
  "updatePixelFormat G format m =
     (if format \<noteq> pixelFormat m then
        (case refreshSwapChain G False (m\<lparr>pixelFormat := format\<rparr>) of
           Done m1 \<Rightarrow> Done (True, m1) | Raised m1 \<Rightarrow> Raised m1 | Undefined \<Rightarrow> Undefined)
      else Done (False, m))"

text \<open>What is copied to the back buffer: the region, or (\<open>None\<close>) the whole frame.\<close>

definition copyFrame :: "mirror \<Rightarrow> box option mresult" where
  "copyFrame m =
     (if swapChain m = None then Undefined
      else if clipped m then Done (Some (frameClipRegion m)) else Done None)"

definition frameArrived :: "graphics \<Rightarrow> size32 \<Rightarrow> mirror \<Rightarrow> (box option \<times> mirror) mresult" where
  "frameArrived G contentSize m =
     (case updateSize G contentSize m of
        Undefined \<Rightarrow> Undefined
      | Raised m1 \<Rightarrow> Raised m1
      | Done (frameSizeChanged, m1) \<Rightarrow>
          (case copyFrame m1 of
             Done copied \<Rightarrow> if frameSizeChanged \<and> captureSource m1 = None then Undefined else Done (copied, m1)
           | Raised m2 \<Rightarrow> Raised m2
           | Undefined \<Rightarrow> Undefined))"

section \<open>Reachable mirrors\<close>

text \<open>
  Everything the program does with a mirror: the operations above, with clip regions that have
  no negative coordinate and frame sizes a texture can have. (Operations that raise end the
  program or leave a mirror that is created anew.)
\<close>

definition nonneg_rect :: "rect \<Rightarrow> bool" where
  "nonneg_rect r \<longleftrightarrow> 0 \<le> left r \<and> 0 \<le> top r \<and> 0 \<le> right r \<and> 0 \<le> bottom r"

definition frame_size :: "size32 \<Rightarrow> bool" where
  "frame_size sz \<longleftrightarrow> 0 \<le> Width sz \<and> Width sz \<le> INT_MAX \<and> 0 \<le> Height sz \<and> Height sz \<le> INT_MAX"

inductive mirror_run :: "graphics \<Rightarrow> mirror \<Rightarrow> bool" for G where
  start: "mirror_run G new_mirror"
| create: "mirror_run G m \<Longrightarrow> createMirror G p h m = Done (h', m') \<Longrightarrow> mirror_run G m'"
| set_clip: "mirror_run G m \<Longrightarrow> nonneg_rect clip \<Longrightarrow> setClip G clip sw sh m = Done m' \<Longrightarrow> mirror_run G m'"
| clear_clip: "mirror_run G m \<Longrightarrow> clearClip G m = Done m' \<Longrightarrow> mirror_run G m'"
| size_change: "mirror_run G m \<Longrightarrow> handleSourceSizeChange G sw sh m = Done m' \<Longrightarrow> mirror_run G m'"
| frame: "mirror_run G m \<Longrightarrow> frame_size sz \<Longrightarrow> frameArrived G sz m = Done (b, m') \<Longrightarrow> mirror_run G m'"
| format: "mirror_run G m \<Longrightarrow> updatePixelFormat G f m = Done (b, m') \<Longrightarrow> mirror_run G m'"
| closed: "mirror_run G m \<Longrightarrow> mirror_run G (sourceClosed m)"

text \<open>
  The invariant: the GDI region has no negative coordinate and the frame region has its
  exclusive corner in the signed half of the unsigned range.
\<close>

definition mirror_ok :: "mirror \<Rightarrow> bool" where
  "mirror_ok m \<longleftrightarrow> nonneg_rect (gdiClipRegion m) \<and>
     0 \<le> sint (bright (frameClipRegion m)) \<and> 0 \<le> sint (bbottom (frameClipRegion m))"

text \<open>A mirror whose sizes are those of items and frames.\<close>

definition sizes_ok :: "mirror \<Rightarrow> bool" where
  "sizes_ok m \<longleftrightarrow> 0 \<le> Width (msize m) \<and> 0 \<le> Height (msize m)"

lemma cleared_box_ok [simp]:
  "bright cleared_box = 0" "bbottom cleared_box = 0" "bleft cleared_box = 0" "btop cleared_box = 0"
  by (simp_all add: cleared_box_def)

lemma nonneg_zero_rect [simp]: "nonneg_rect zero_rect"
  by (simp add: nonneg_rect_def zero_rect_def)

lemma mirror_ok_cleared: "mirror_ok (clearClipNoLock m)" "mirror_ok (resetNoLock m)"
  by (simp_all add: mirror_ok_def clearClipNoLock_def resetNoLock_def)

lemma create_parts:
  assumes "createMirrorNoLock G p h m = Done (h', m')"
  shows "frameClipRegion m' = cleared_box \<and> gdiClipRegion m' = zero_rect \<and> \<not> clipped m' \<and>
    clipPaused m' = clipPaused m \<and> gdiSourceSize m' = gdiSourceSize m \<and> frameClipRegionInvalid m' \<and>
    swapChain m' = Some (word_of_int (Width (msize m')), word_of_int (Height (msize m'))) \<and>
    mSource m' = h' \<and> captureSource m' = Some h' \<and> mParent m' = p"
  using assms
  by (auto simp: createMirrorNoLock_def clearClipNoLock_def resetNoLock_def Let_def
      split: option.splits if_splits prod.splits)

lemma setClip_parts:
  assumes "setClipNoLock G clip sw sh m = Done m'"
  shows "clipped m' \<and> gdiClipRegion m' = clip \<and> frameClipRegion m' = cleared_box \<and>
    frameClipRegionInvalid m' \<and> gdiSourceSize m' = \<lparr>cx = sw, cy = sh\<rparr> \<and> clipPaused m' = clipPaused m"
  using assms create_parts
  by (fastforce simp: setClipNoLock_def split: mresult.splits prod.splits)

lemma scale_clip_value:
  assumes "0 \<le> n" "0 \<le> c" "0 < s" "scale_clip n c s = Some w"
  shows "sint w = n * c div s" "0 \<le> n * c div s" "n * c div s \<le> INT_MAX"
proof -
  have p: "0 \<le> n * c" using assms by simp
  have r: "in_s32 (n * c)" using assms(4) by (auto simp: scale_clip_def mul32_def chk32_def bind_eq_Some_conv split: if_splits)
  have q: "n * c div s \<le> n * c" "0 \<le> n * c div s"
    using p assms(3) div_nonneg_le by (auto simp: pos_imp_zdiv_nonneg_iff)
  then show q2: "0 \<le> n * c div s" "n * c div s \<le> INT_MAX"
    using r by (auto simp: in_s32_def)
  have "w = word_of_int (n * c div s)"
    using assms p q r by (auto simp: scale_clip_def mul32_def div32_def trunc_div_nonneg bind_eq_Some_conv)
  moreover have "- (2 ^ 31) \<le> n * c div s" "n * c div s < 2 ^ 31" using q2 by simp_all
  ultimately show "sint w = n * c div s"
    by (simp add: signed_of_int signed_take_bit_int_eq_self)
qed

text \<open>The two cases of \<open>updateClip\<close>: nothing recomputed, or the region recomputed.\<close>

lemma updateClip_cases:
  assumes "updateClip ch m = Done (b, m')"
  obtains (kept) "m' = m" "b = clipped m" "\<not> ch" "\<not> frameClipRegionInvalid m"
      "\<not> region_unusable (msize m) (frameClipRegion m)"
    | (no_source) "m' = m\<lparr>clipped := False\<rparr>" "\<not> b"
    | (scaled) region where
      "scale_clip (Width (msize m)) (left (gdiClipRegion m)) (cx (gdiSourceSize m)) = Some (bleft region)"
      "scale_clip (Height (msize m)) (top (gdiClipRegion m)) (cy (gdiSourceSize m)) = Some (btop region)"
      "scale_clip (Width (msize m)) (right (gdiClipRegion m)) (cx (gdiSourceSize m)) = Some (bright region)"
      "scale_clip (Height (msize m)) (bottom (gdiClipRegion m)) (cy (gdiSourceSize m)) = Some (bbottom region)"
      "0 < cx (gdiSourceSize m)" "0 < cy (gdiSourceSize m)"
      "b = (\<not> region_unusable (msize m) region)"
      "m' = m\<lparr>frameClipRegion := region, frameClipRegionInvalid := \<not> b, clipped := b, clipPaused := True\<rparr>"
proof (cases "ch \<or> frameClipRegionInvalid m \<or> region_unusable (msize m) (frameClipRegion m)")
  case False
  with assms show ?thesis by (intro kept) (auto simp: updateClip_def)
next
  case recompute: True
  show ?thesis
  proof (cases "cx (gdiSourceSize m) > 0 \<and> cy (gdiSourceSize m) > 0")
    case False
    with recompute assms show ?thesis by (intro no_source) (auto simp: updateClip_def)
  next
    case True
    let ?s = "do {
              l \<leftarrow> scale_clip (Width (msize m)) (left (gdiClipRegion m)) (cx (gdiSourceSize m));
              t \<leftarrow> scale_clip (Height (msize m)) (top (gdiClipRegion m)) (cy (gdiSourceSize m));
              r \<leftarrow> scale_clip (Width (msize m)) (right (gdiClipRegion m)) (cx (gdiSourceSize m));
              b \<leftarrow> scale_clip (Height (msize m)) (bottom (gdiClipRegion m)) (cy (gdiSourceSize m));
              Some ((frameClipRegion m)\<lparr>bleft := l, btop := t, bright := r, bbottom := b\<rparr>) }"
    have u: "updateClip ch m = (case ?s of None \<Rightarrow> Undefined
        | Some region \<Rightarrow> (let invalid = region_unusable (msize m) region
             in Done (\<not> invalid, m\<lparr>frameClipRegion := region, frameClipRegionInvalid := invalid,
                  clipped := \<not> invalid, clipPaused := True\<rparr>)))"
      using recompute True by (simp add: updateClip_def)
    with assms obtain region where r: "?s = Some region" by (cases ?s) auto
    from r obtain l t rr bb where parts:
      "scale_clip (Width (msize m)) (left (gdiClipRegion m)) (cx (gdiSourceSize m)) = Some l"
      "scale_clip (Height (msize m)) (top (gdiClipRegion m)) (cy (gdiSourceSize m)) = Some t"
      "scale_clip (Width (msize m)) (right (gdiClipRegion m)) (cx (gdiSourceSize m)) = Some rr"
      "scale_clip (Height (msize m)) (bottom (gdiClipRegion m)) (cy (gdiSourceSize m)) = Some bb"
      "region = (frameClipRegion m)\<lparr>bleft := l, btop := t, bright := rr, bbottom := bb\<rparr>"
      by (auto simp: bind_eq_Some_conv)
    show ?thesis
      using True parts u r assms by (intro scaled [of region]) (auto simp: Let_def)
  qed
qed

lemma updateClip_ok:
  assumes "mirror_ok m" "sizes_ok m" "updateClip ch m = Done (b, m')"
  shows "mirror_ok m' \<and> msize m' = msize m \<and> b = clipped m' \<and>
    (b \<longrightarrow> \<not> region_unusable (msize m') (frameClipRegion m'))"
  using assms(3)
proof (cases rule: updateClip_cases)
  case (scaled region)
  have "0 \<le> sint (bright region)"
    using scale_clip_value(1,2) [OF _ _ scaled(5,3)] assms(1,2)
    by (simp add: mirror_ok_def nonneg_rect_def sizes_ok_def)
  moreover have "0 \<le> sint (bbottom region)"
    using scale_clip_value(1,2) [OF _ _ scaled(6,4)] assms(1,2)
    by (simp add: mirror_ok_def nonneg_rect_def sizes_ok_def)
  ultimately show ?thesis using scaled(7,8) assms(1) by (simp add: mirror_ok_def)
qed (use assms(1) in \<open>auto simp: mirror_ok_def\<close>)

lemma resize_parts:
  "resize_swap_chain G d m = Done m' \<Longrightarrow> m' = m\<lparr>swapChain := Some d\<rparr>"
  by (auto simp: resize_swap_chain_def split: if_splits)

lemma refresh_ok:
  assumes "mirror_ok m" "sizes_ok m" "refreshSwapChain G ch m = Done m'"
  shows "mirror_ok m' \<and> msize m' = msize m \<and>
    (clipped m' \<longrightarrow> \<not> region_unusable (msize m') (frameClipRegion m'))"
proof (cases "clipped m")
  case True
  with assms(3) obtain b m1 where u: "updateClip ch m = Done (b, m1)"
    by (auto simp: refreshSwapChain_def split: mresult.splits)
  then obtain d where "m' = m1\<lparr>swapChain := Some d\<rparr>"
    using assms(3) True by (auto simp: refreshSwapChain_def dest!: resize_parts split: if_splits)
  with updateClip_ok [OF assms(1,2) u] show ?thesis by (auto simp: mirror_ok_def)
next
  case False
  with assms(3) obtain d where "m' = m\<lparr>swapChain := Some d\<rparr>"
    by (auto simp: refreshSwapChain_def dest!: resize_parts)
  with False assms(1) show ?thesis by (simp add: mirror_ok_def)
qed

lemma updateSize_ok:
  assumes "mirror_ok m" "sizes_ok m" "frame_size sz" "updateSize G sz m = Done (b, m')"
  shows "mirror_ok m' \<and> Width (msize m') = Width sz \<and> Height (msize m') = Height sz \<and>
    (clipped m' \<longrightarrow> \<not> region_unusable (msize m') (frameClipRegion m'))"
proof (cases "Width sz \<noteq> Width (msize m) \<or> Height sz \<noteq> Height (msize m)")
  case True
  with assms(4) have "refreshSwapChain G True (m\<lparr>msize := sz\<rparr>) = Done m'"
    by (auto simp: updateSize_def split: mresult.splits)
  moreover have "mirror_ok (m\<lparr>msize := sz\<rparr>)" "sizes_ok (m\<lparr>msize := sz\<rparr>)"
    using assms(1,3) by (auto simp: mirror_ok_def sizes_ok_def frame_size_def)
  ultimately show ?thesis using refresh_ok by fastforce
next
  case same: False
  show ?thesis
  proof (cases "clipped m")
    case True
    with same assms(4) obtain b' where "updateClip False m = Done (b', m')"
      by (auto simp: updateSize_def split: mresult.splits)
    from updateClip_ok [OF assms(1,2) this] same show ?thesis by auto
  qed (use same assms in \<open>auto simp: updateSize_def\<close>)
qed

lemma frameArrived_parts:
  assumes "frameArrived G sz m = Done (copied, m')"
  obtains b where "updateSize G sz m = Done (b, m')"
    "copied = (if clipped m' then Some (frameClipRegion m') else None)"
  using assms
  by (auto simp: frameArrived_def copyFrame_def split: mresult.splits prod.splits if_splits)

section \<open>Properties\<close>

text \<open>The capture items of the runtime have the sizes textures can have.\<close>

definition item_sizes_ok :: "graphics \<Rightarrow> bool" where
  "item_sizes_ok G \<longleftrightarrow> (\<forall>h sz. createForWindow G h = CaptureItem sz \<longrightarrow> frame_size sz)"

lemma create_sizes:
  assumes "createMirrorNoLock G p h m = Done (h', m')" "item_sizes_ok G"
  shows "sizes_ok m'"
  using assms
  by (auto simp: createMirrorNoLock_def acquire_item_def Let_def item_sizes_ok_def sizes_ok_def
      frame_size_def split: option.splits if_splits capture_result.splits)

lemma setClip_sizes:
  assumes "setClipNoLock G clip sw sh m = Done m'" "item_sizes_ok G"
  shows "sizes_ok m'"
  using assms create_sizes [of G "mParent m" "mSource m" m]
  by (auto simp: setClipNoLock_def sizes_ok_def split: mresult.splits)

lemma mirror_run_ok:
  assumes "mirror_run G m" "item_sizes_ok G"
  shows "mirror_ok m \<and> sizes_ok m"
  using assms(1)
proof induction
  case start
  then show ?case
    by (simp add: mirror_ok_def sizes_ok_def new_mirror_def)
next
  case (create m p h h' m')
  with create_parts [of G p h m h' m'] create_sizes [of G p h m h' m'] assms(2) show ?case
    by (simp add: createMirror_def mirror_ok_def)
next
  case (set_clip m clip sw sh m')
  then have "setClipNoLock G clip sw sh m = Done m'" by (simp add: setClip_def)
  with setClip_parts [OF this] setClip_sizes [OF this assms(2)] set_clip(2) show ?case
    by (simp add: mirror_ok_def)
next
  case (clear_clip m m')
  then obtain h where "createMirrorNoLock G (mParent m) (mSource m) (clearClipNoLock m) = Done (h, m')"
    by (auto simp: clearClip_def split: mresult.splits)
  with create_parts [OF this] create_sizes [OF this assms(2)] show ?case by (simp add: mirror_ok_def)
next
  case (size_change m sw sh m')
  have set: "mirror_ok m' \<and> sizes_ok m'" if "setClipNoLock G (gdiClipRegion m) sw sh m1 = Done m'" for m1
    using setClip_parts [OF that] setClip_sizes [OF that assms(2)] size_change.IH by (simp add: mirror_ok_def)
  have "mirror_ok m' \<and> sizes_ok m'" if "createMirrorNoLock G (mParent m) (mSource m) m = Done (h, m')" for h
    using create_parts [OF that] create_sizes [OF that assms(2)] by (simp add: mirror_ok_def)
  with set size_change(2) show ?case
    by (auto simp: handleSourceSizeChange_def split: if_splits mresult.splits)
next
  case (frame m sz b m')
  then obtain b1 where u: "updateSize G sz m = Done (b1, m')" by (auto elim: frameArrived_parts)
  from updateSize_ok [OF _ _ frame(2) u] frame show ?case by (simp add: sizes_ok_def frame_size_def)
next
  case (format m f b m')
  then consider "m' = m" | "refreshSwapChain G False (m\<lparr>pixelFormat := f\<rparr>) = Done m'"
    by (auto simp: updatePixelFormat_def split: if_splits mresult.splits)
  then show ?case
  proof cases
    case 2
    from refresh_ok [OF _ _ 2] format.IH show ?thesis by (auto simp: mirror_ok_def sizes_ok_def)
  qed (use format.IH in simp)
next
  case (closed m)
  then show ?case by (simp add: mirror_ok_def sizes_ok_def sourceClosed_def resetNoLock_def clearClipNoLock_def)
qed

text \<open>
  Property C4: whatever was done to a mirror before, the region it copies out of a frame is a
  non-empty box that lies inside that frame.
\<close>

theorem copied_region_inside_frame:
  assumes "mirror_run G m" "item_sizes_ok G" "frame_size sz"
    and "frameArrived G sz m = Done (Some b, m')"
  shows "uint (bleft b) < uint (bright b) \<and> uint (bright b) < Width sz \<and>
    uint (btop b) < uint (bbottom b) \<and> uint (bbottom b) < Height sz"
proof -
  from assms(4) obtain b1 where u: "updateSize G sz m = Done (b1, m')" and b: "b = frameClipRegion m'" "clipped m'"
    by (auto elim!: frameArrived_parts split: if_splits)
  have "mirror_ok m" "sizes_ok m" using mirror_run_ok [OF assms(1,2)] by auto
  from updateSize_ok [OF this assms(3) u] b
  have r: "0 \<le> sint (bright b)" "0 \<le> sint (bbottom b)" "\<not> region_unusable (msize m') b"
    "Width (msize m') = Width sz" "Height (msize m') = Height sz"
    by (auto simp: mirror_ok_def)
  have "uint w = sint w" if "0 \<le> sint w" for w :: u32
    using that sint_lt [of w] by (simp add: uint_sint take_bit_int_eq_self)
  with r show ?thesis by (auto simp: region_unusable_def word_less_def word_le_def not_le)
qed

definition example_graphics :: graphics where
  "example_graphics = \<lparr>createForWindow = (\<lambda>h. CaptureItem \<lparr>Width = 200, Height = 100\<rparr>),
     rootAncestor = (\<lambda>h. h), sourceCreated = True, pipelineCreated = True, resizeBuffers = (\<lambda>d. True)\<rparr>"

definition example_mirror :: mirror where
  "example_mirror = \<lparr>mParent = 7, mSource = 8, captureSource = Some 8, swapChain = Some (200, 100),
     msize = \<lparr>Width = 200, Height = 100\<rparr>, pixelFormat = B8G8R8A8, bufferCount = 2, clipped = True,
     clipPaused = False, frameClipRegionInvalid = True, frameClipRegion = cleared_box,
     gdiClipRegion = \<lparr>left = 10, top = 5, right = 60, bottom = 40\<rparr>, gdiSourceSize = \<lparr>cx = 100, cy = 50\<rparr>\<rparr>"

lemmas mirror_evals = example_graphics_def example_mirror_def frameArrived_def copyFrame_def updateSize_def
  updateClip_def scale_clip_def mul32_def div32_def chk32_def in_s32_def trunc_div_def region_unusable_def
  cleared_box_def createMirror_def createMirrorNoLock_def acquire_item_def setClip_def setClipNoLock_def
  clearClipNoLock_def resetNoLock_def new_mirror_def zero_rect_def NULL_def refreshSwapChain_def
  resize_swap_chain_def

lemma example_mirror_run: "mirror_run example_graphics example_mirror"
proof -
  have "mirror_run example_graphics (case createMirror example_graphics 7 8 new_mirror of Done (h, m) \<Rightarrow> m | _ \<Rightarrow> new_mirror)"
    by (rule mirror_run.create [OF mirror_run.start, of _ 7 8 _]) (simp add: mirror_evals)
  moreover have "nonneg_rect (gdiClipRegion example_mirror)" by (simp add: nonneg_rect_def example_mirror_def)
  ultimately show ?thesis
    by (rule mirror_run.set_clip [where sw = 100 and sh = 50]) (simp add: mirror_evals)
qed

lemma example_item_sizes: "item_sizes_ok example_graphics"
  by (simp add: item_sizes_ok_def example_graphics_def frame_size_def)

definition example_region :: box where
  "example_region = \<lparr>bleft = 20, btop = 10, bfront = 0, bright = 120, bbottom = 80, bback = 1\<rparr>"

lemma copied_region_inside_frame_witness:
  "uint (bright example_region) < Width \<lparr>Width = 200, Height = 100\<rparr>"
proof -
  have "\<exists>m'. frameArrived example_graphics \<lparr>Width = 200, Height = 100\<rparr> example_mirror = Done (Some example_region, m')"
    by (simp add: mirror_evals example_region_def)
  then obtain m' where
    "frameArrived example_graphics \<lparr>Width = 200, Height = 100\<rparr> example_mirror = Done (Some example_region, m')" ..
  from copied_region_inside_frame [OF example_mirror_run example_item_sizes _ this] show ?thesis
    by (simp add: frame_size_def)
qed

text \<open>
  Property C0: a clip region that reaches the right or the bottom edge of the source is not
  applied: although the box of a copy excludes its right and bottom coordinate, \<open>updateClip\<close>
  rejects the region and the whole frame is shown.
\<close>

theorem edge_clip_is_rejected:
  assumes "0 < cx (gdiSourceSize m)" "cx (gdiSourceSize m) \<le> right (gdiClipRegion m)"
    and "0 \<le> Width (msize m)" "updateClip True m = Done (b, m')"
  shows "b = False \<and> clipped m' = False"
  using assms(4)
proof (cases rule: updateClip_cases)
  case (scaled region)
  have "0 \<le> right (gdiClipRegion m)" using assms by simp
  then have w: "sint (bright region) = Width (msize m) * right (gdiClipRegion m) div cx (gdiSourceSize m)"
    using scale_clip_value(1) assms(1,3) scaled(3) by blast
  have "Width (msize m) * cx (gdiSourceSize m) \<le> Width (msize m) * right (gdiClipRegion m)"
    using assms by (intro mult_left_mono) auto
  then have "Width (msize m) * cx (gdiSourceSize m) div cx (gdiSourceSize m) \<le> sint (bright region)"
    unfolding w using assms(1) by (intro zdiv_mono1)
  then have "region_unusable (msize m) region" using assms(1) by (simp add: region_unusable_def)
  with scaled show ?thesis by simp
qed (use assms in auto)

lemma edge_clip_is_rejected_witness:
  "\<exists>m'. updateClip True (example_mirror\<lparr>gdiClipRegion := \<lparr>left = 10, top = 5, right = 100, bottom = 40\<rparr>\<rparr>)
     = Done (False, m') \<and> \<not> clipped m'"
proof -
  let ?m = "example_mirror\<lparr>gdiClipRegion := \<lparr>left = 10, top = 5, right = 100, bottom = 40\<rparr>\<rparr>"
  have "\<exists>b m'. updateClip True ?m = Done (b, m')" by (auto simp: mirror_evals)
  then obtain b m' where u: "updateClip True ?m = Done (b, m')" by blast
  from edge_clip_is_rejected [OF _ _ _ u] u show ?thesis by (simp add: example_mirror_def)
qed

text \<open>
  On a source whose frames have the size GDI reports, an inner clip region is copied
  exactly as it was given.
\<close>

theorem unscaled_clip_is_exact:
  assumes "0 \<le> left r" "left r < right r" "right r < w" "0 \<le> top r" "top r < bottom r" "bottom r < h"
    and "w * w \<le> INT_MAX" "h * h \<le> INT_MAX"
    and "gdiClipRegion m = r" "gdiSourceSize m = \<lparr>cx = w, cy = h\<rparr>" "msize m = \<lparr>Width = w, Height = h\<rparr>"
  shows "updateClip True m = Done (True, m\<lparr>
    frameClipRegion := (frameClipRegion m)\<lparr>bleft := word_of_int (left r), btop := word_of_int (top r),
      bright := word_of_int (right r), bbottom := word_of_int (bottom r)\<rparr>,
    frameClipRegionInvalid := False, clipped := True, clipPaused := True\<rparr>)"
proof -
  have exact: "scale_clip n c n = Some (word_of_int c)" if "0 \<le> c" "c < n" "n * n \<le> INT_MAX" for n c
  proof -
    have "n * c \<le> n * n" using that by (intro mult_left_mono) auto
    also note that(3)
    finally have "n * c \<le> INT_MAX" .
    moreover have "0 \<le> n * c" using that by simp
    moreover have "c \<le> n * n" using that by (smt (verit) mult_le_cancel_left1)
    ultimately have "in_s32 (n * c)" "in_s32 c" using that unfolding in_s32_iff s32_limits by linarith+
    moreover have "trunc_div (n * c) n = c" using that by (subst trunc_div_nonneg) auto
    ultimately show ?thesis using that by (simp add: scale_clip_def mul32_def div32_def)
  qed
  have small: "n \<le> INT_MAX" if "0 < n" "n * n \<le> INT_MAX" for n :: int
    using that by (smt (verit) mult_le_cancel_left1)
  have nums: "sint (word_of_int k :: u32) = k" "uint (word_of_int k :: u32) = k" if "0 \<le> k" "k \<le> INT_MAX" for k
    using that by (simp_all add: signed_of_int signed_take_bit_int_eq_self unsigned_of_int take_bit_int_eq_self)
  have pos: "0 < w" "0 < h" using assms(1-6) by linarith+
  have "w \<le> INT_MAX" "h \<le> INT_MAX" using small [OF pos(1) assms(7)] small [OF pos(2) assms(8)] by blast+
  with assms(3,6) have lim: "right r \<le> INT_MAX" "bottom r \<le> INT_MAX" by linarith+
  have scaled: "scale_clip w (left r) w = Some (word_of_int (left r))" "scale_clip w (right r) w = Some (word_of_int (right r))"
    "scale_clip h (top r) h = Some (word_of_int (top r))" "scale_clip h (bottom r) h = Some (word_of_int (bottom r))"
    by (rule exact; use assms(1-8) in linarith)+
  have usable: "\<not> region_unusable \<lparr>Width = w, Height = h\<rparr> ((frameClipRegion m)\<lparr>bleft := word_of_int (left r),
      btop := word_of_int (top r), bright := word_of_int (right r), bbottom := word_of_int (bottom r)\<rparr>)"
    using assms(1-6) lim by (simp add: region_unusable_def word_le_def nums not_le)
  show ?thesis
    unfolding updateClip_def assms(9-11)
    using pos usable by (simp add: scaled assms(9-11))
qed

lemma unscaled_clip_is_exact_witness:
  "\<exists>m'. updateClip True (example_mirror\<lparr>gdiSourceSize := \<lparr>cx = 200, cy = 100\<rparr>\<rparr>) = Done (True, m') \<and>
     bright (frameClipRegion m') = 60"
  by (subst unscaled_clip_is_exact [where w = 200 and h = 100 and r = "\<lparr>left = 10, top = 5, right = 60, bottom = 40\<rparr>"])
    (simp_all add: example_mirror_def)

text \<open>
  A clip region survives changes of the source size. After \<open>setClip\<close> any number of
  size changes leaves the mirror clipped to the same GDI region, measured against the last size.
\<close>

theorem clip_survives_size_changes:
  assumes "setClip G clip sw sh m = Done m1" "handleSourceSizeChange G sw' sh' m1 = Done m2"
  shows "clipped m2 \<and> gdiClipRegion m2 = clip \<and> gdiSourceSize m2 = \<lparr>cx = sw', cy = sh'\<rparr>"
proof -
  have "clipped m1" "gdiClipRegion m1 = clip"
    using setClip_parts assms(1) by (auto simp: setClip_def)
  with assms(2) setClip_parts [where m' = m2 and clip = clip] show ?thesis
    by (auto simp: handleSourceSizeChange_def)
qed

lemma clip_survives_size_changes_witness:
  "\<exists>m1 m2. setClip example_graphics (gdiClipRegion example_mirror) 100 50 example_mirror = Done m1 \<and>
     handleSourceSizeChange example_graphics 300 70 m1 = Done m2 \<and> gdiSourceSize m2 = \<lparr>cx = 300, cy = 70\<rparr>"
proof -
  let ?c = "gdiClipRegion example_mirror"
  obtain m1 where m1: "setClip example_graphics ?c 100 50 example_mirror = Done m1"
    by (simp add: mirror_evals)
  then obtain m2 where m2: "handleSourceSizeChange example_graphics 300 70 m1 = Done m2"
    by (auto simp: handleSourceSizeChange_def mirror_evals)
  from clip_survives_size_changes [OF m1 m2] m1 m2 show ?thesis by blast
qed

text \<open>
  Clearing a clip region forgets it only until the next size change. The paused flag
  a frame has set stays set, so the next size change clips the mirror again, to the empty region.
\<close>

theorem cleared_clip_comes_back_empty:
  assumes "clipPaused m" "clearClip G m = Done m1" "handleSourceSizeChange G sw sh m1 = Done m2"
  shows "\<not> clipped m1 \<and> clipped m2 \<and> gdiClipRegion m2 = zero_rect"
proof -
  obtain h where "createMirrorNoLock G (mParent m) (mSource m) (clearClipNoLock m) = Done (h, m1)"
    using assms(2) by (auto simp: clearClip_def split: mresult.splits)
  from create_parts [OF this] assms(1) have m1: "\<not> clipped m1" "clipPaused m1" "gdiClipRegion m1 = zero_rect"
    by (auto simp: clearClipNoLock_def)
  with assms(3) setClip_parts [where m' = m2 and clip = zero_rect] show ?thesis
    by (auto simp: handleSourceSizeChange_def)
qed

lemma cleared_clip_comes_back_empty_witness:
  "\<exists>m1 m2. clearClip example_graphics (example_mirror\<lparr>clipPaused := True\<rparr>) = Done m1 \<and>
     handleSourceSizeChange example_graphics 300 70 m1 = Done m2 \<and> clipped m2 \<and> gdiClipRegion m2 = zero_rect"
proof -
  let ?m = "example_mirror\<lparr>clipPaused := True\<rparr>"
  have p: "clipPaused ?m" by simp
  obtain m1 where m1: "clearClip example_graphics ?m = Done m1"
    by (simp add: clearClip_def mirror_evals)
  then obtain m2 where m2: "handleSourceSizeChange example_graphics 300 70 m1 = Done m2"
    by (auto simp: handleSourceSizeChange_def clearClip_def mirror_evals)
  from cleared_clip_comes_back_empty [OF p m1 m2] m1 m2 show ?thesis by blast
qed

end
