(* ===== verification/Win32.thy ===== *)
theory Win32
  imports Mirror
begin

text \<open>
  The part of the Windows API the program calls, as a parameter: \<open>'w\<close> is the state of the
  desktop and a value of \<open>win32\<close> gives each call its result and its effect on that state.
  Nothing is assumed about the calls here; a theorem that needs documented behaviour of one
  names it as a hypothesis. An out parameter that a failing call leaves alone is an option.
  Messages the system sends back while a call runs are part of that call's effect on \<open>'w\<close>.
\<close>

section \<open>Flags\<close>

definition SWP_NOSIZE :: u32 where "SWP_NOSIZE = 1"
definition SWP_NOMOVE :: u32 where "SWP_NOMOVE = 2"
definition SWP_NOZORDER :: u32 where "SWP_NOZORDER = 4"
definition SWP_NOACTIVATE :: u32 where "SWP_NOACTIVATE = 16"
definition SWP_FRAMECHANGED :: u32 where "SWP_FRAMECHANGED = 32"

definition SW_HIDE :: int where "SW_HIDE = 0"
definition SW_SHOWNORMAL :: int where "SW_SHOWNORMAL = 1"
definition SW_SHOW :: int where "SW_SHOW = 5"

definition GWL_STYLE :: int where "GWL_STYLE = - 16"
definition GWL_EXSTYLE :: int where "GWL_EXSTYLE = - 20"

definition WS_CHILD :: u32 where "WS_CHILD = 0x40000000"
definition WS_VISIBLE :: u32 where "WS_VISIBLE = 0x10000000"
definition WS_CLIPSIBLINGS :: u32 where "WS_CLIPSIBLINGS = 0x04000000"
definition WS_THICKFRAME :: u32 where "WS_THICKFRAME = 0x00040000"
definition WS_CAPTION :: u32 where "WS_CAPTION = 0x00C00000"
definition WS_SYSMENU :: u32 where "WS_SYSMENU = 0x00080000"
definition WS_EX_TOPMOST :: u32 where "WS_EX_TOPMOST = 8"
definition WS_EX_TRANSPARENT :: u32 where "WS_EX_TRANSPARENT = 0x20"
definition WS_EX_TOOLWINDOW :: u32 where "WS_EX_TOOLWINDOW = 0x80"
definition WS_EX_LAYERED :: u32 where "WS_EX_LAYERED = 0x00080000"

definition WS_CLIPCHILDREN :: u32 where "WS_CLIPCHILDREN = 0x02000000"

definition WM_CLOSE :: u32 where "WM_CLOSE = 0x10"

definition HWND_TOP :: hwnd where "HWND_TOP = 0"

text \<open>
  \<open>HWND_TOPMOST\<close> and \<open>HWND_BOTTOM\<close>, values that are no window: \<open>-1\<close> as a 64-bit pointer, and 1.
\<close>

definition HWND_TOPMOST :: hwnd where "HWND_TOPMOST = 2 ^ 64 - 1"
definition HWND_BOTTOM :: hwnd where "HWND_BOTTOM = 1"

definition HTCLIENT :: int where "HTCLIENT = 1"
definition HTCAPTION :: int where "HTCAPTION = 2"

definition SM_XVIRTUALSCREEN :: int where "SM_XVIRTUALSCREEN = 76"
definition SM_YVIRTUALSCREEN :: int where "SM_YVIRTUALSCREEN = 77"
definition SM_CXVIRTUALSCREEN :: int where "SM_CXVIRTUALSCREEN = 78"
definition SM_CYVIRTUALSCREEN :: int where "SM_CYVIRTUALSCREEN = 79"

section \<open>Drawing\<close>

text \<open>What is drawn on a window: the calls on its device context, in order.\<close>

datatype image_source = FromWindow hwnd | FromCache

datatype drawing =
    SetBuffer rect
  | FillRect rect u32
  | FillSysRect rect
  | DrawWrappableText string rect
  | StretchBlt image_source int int int int int int int int
  | DrawFrozenIcon int int
  | FrameRect rect u32
  | FlushBuffer

section \<open>The calls\<close>

record 'w win32 =
  GetClientRect :: "hwnd \<Rightarrow> 'w \<Rightarrow> rect option"
  GetWindowRect :: "hwnd \<Rightarrow> 'w \<Rightarrow> rect option"
  ClientToScreen :: "hwnd \<Rightarrow> point \<Rightarrow> 'w \<Rightarrow> point option"
  ScreenToClient :: "hwnd \<Rightarrow> point \<Rightarrow> 'w \<Rightarrow> point option"
  MapFromDesktop :: "hwnd \<Rightarrow> rect \<Rightarrow> 'w \<Rightarrow> rect"
  GetParent :: "hwnd \<Rightarrow> 'w \<Rightarrow> hwnd"
  GetDesktopWindow :: "'w \<Rightarrow> hwnd"
  GetTopWindow :: "'w \<Rightarrow> hwnd"
  GetNextWindow :: "hwnd \<Rightarrow> 'w \<Rightarrow> hwnd"
  GetForegroundWindow :: "'w \<Rightarrow> hwnd"
  WindowFromPhysicalPoint :: "point \<Rightarrow> 'w \<Rightarrow> hwnd"
  IsWindow :: "hwnd \<Rightarrow> 'w \<Rightarrow> bool"
  IsWindowEnabled :: "hwnd \<Rightarrow> 'w \<Rightarrow> bool"
  GetCursorPos :: "'w \<Rightarrow> point option"
  GetDpiForWindow :: "hwnd \<Rightarrow> 'w \<Rightarrow> int"
  GetSystemMetrics :: "int \<Rightarrow> 'w \<Rightarrow> int"
  GetWindowLong :: "hwnd \<Rightarrow> int \<Rightarrow> 'w \<Rightarrow> u32"
  GetWindowText :: "hwnd \<Rightarrow> 'w \<Rightarrow> string option"
  AdjustWindowRect :: "rect \<Rightarrow> u32 \<Rightarrow> 'w \<Rightarrow> rect option"
  windowPixels :: "hwnd \<Rightarrow> rect \<Rightarrow> 'w \<Rightarrow> u32 list option"
  graphicsRuntime :: "'w \<Rightarrow> graphics"
  SetWindowPos :: "hwnd \<Rightarrow> hwnd \<Rightarrow> int \<Rightarrow> int \<Rightarrow> int \<Rightarrow> int \<Rightarrow> u32 \<Rightarrow> 'w \<Rightarrow> 'w"
  ShowWindow :: "hwnd \<Rightarrow> int \<Rightarrow> 'w \<Rightarrow> 'w"
  SetWindowLong :: "hwnd \<Rightarrow> int \<Rightarrow> u32 \<Rightarrow> 'w \<Rightarrow> 'w"
  SetWindowText :: "hwnd \<Rightarrow> string \<Rightarrow> 'w \<Rightarrow> bool \<times> 'w"
  SetForegroundWindow :: "hwnd \<Rightarrow> 'w \<Rightarrow> 'w"
  SetLayeredAlpha :: "hwnd \<Rightarrow> u8 \<Rightarrow> 'w \<Rightarrow> 'w"
  EnableWindow :: "hwnd \<Rightarrow> bool \<Rightarrow> 'w \<Rightarrow> 'w"
  PostMessage :: "hwnd \<Rightarrow> u32 \<Rightarrow> 'w \<Rightarrow> 'w"
  DestroyWindow :: "hwnd \<Rightarrow> 'w \<Rightarrow> 'w"
  RegisterClassEx :: "string \<Rightarrow> 'w \<Rightarrow> bool \<times> 'w"
  CreateWindowEx :: "u32 \<Rightarrow> string \<Rightarrow> string \<Rightarrow> u32 \<Rightarrow> int \<Rightarrow> int \<Rightarrow> int \<Rightarrow> int \<Rightarrow> hwnd \<Rightarrow> 'w \<Rightarrow> hwnd \<times> 'w"
  Draw :: "hwnd \<Rightarrow> drawing list \<Rightarrow> 'w \<Rightarrow> 'w"
  MessageBox :: "string \<Rightarrow> 'w \<Rightarrow> 'w"
  TrackPopupMenu :: "hwnd \<Rightarrow> (int \<times> bool) list \<Rightarrow> 'w \<Rightarrow> int \<times> 'w"
  PostQuitMessage :: "'w \<Rightarrow> 'w"
  ClipCursor :: "rect option \<Rightarrow> 'w \<Rightarrow> 'w"
  RedrawWindow :: "hwnd \<Rightarrow> 'w \<Rightarrow> 'w"
  FindWindow :: "string \<Rightarrow> string \<Rightarrow> 'w \<Rightarrow> hwnd"
  RegisterHotKey :: "hwnd \<Rightarrow> int \<Rightarrow> int \<Rightarrow> 'w \<Rightarrow> bool \<times> 'w"
  NotifyIconShown :: "hwnd \<Rightarrow> 'w \<Rightarrow> bool"
  NotifyIconAdd :: "hwnd \<Rightarrow> 'w \<Rightarrow> bool \<times> 'w"
  NotifyIconDelete :: "hwnd \<Rightarrow> 'w \<Rightarrow> 'w"

section \<open>A small desktop\<close>

text \<open>
  An instance of the calls, for the examples: windows have a rectangle on the screen, a frame
  of fixed thickness around their client area, a parent, a visibility and a text.
\<close>

record desk_window =
  onScreen :: rect
  frameLeft :: int
  frameTop :: int
  frameRight :: int
  frameBottom :: int
  parentWindow :: hwnd
  deskStyle :: u32
  deskExStyle :: u32
  deskShown :: bool

record desk =
  deskWindows :: "hwnd \<Rightarrow> desk_window option"
  deskForeground :: hwnd
  deskCursor :: point
  deskWindowBelow :: hwnd
  deskMessages :: "(hwnd \<times> u32) list"
  deskDrawn :: "(hwnd \<times> drawing list) list"
  deskAlpha :: u8
  deskTexts :: "hwnd \<Rightarrow> string"
  deskChecked :: "hwnd \<Rightarrow> bool"
  deskDisabled :: "hwnd \<Rightarrow> bool"
  deskNumbers :: "hwnd \<Rightarrow> int"
  deskTree :: "nat \<Rightarrow> (nat \<times> string \<times> int) list"

definition client_origin :: "hwnd \<Rightarrow> desk \<Rightarrow> point" where
  "client_origin h d = (case deskWindows d h of
     Some x \<Rightarrow> \<lparr>px = left (onScreen x) + frameLeft x, py = top (onScreen x) + frameTop x\<rparr>
   | None \<Rightarrow> \<lparr>px = 0, py = 0\<rparr>)"

definition update_window :: "hwnd \<Rightarrow> (desk_window \<Rightarrow> desk_window) \<Rightarrow> desk \<Rightarrow> desk" where
  "update_window h f d = d\<lparr>deskWindows := (deskWindows d)(h := map_option f (deskWindows d h))\<rparr>"

unbundle bit_operations_syntax

definition place :: "point \<Rightarrow> int \<Rightarrow> int \<Rightarrow> int \<Rightarrow> int \<Rightarrow> u32 \<Rightarrow> desk_window \<Rightarrow> desk_window" where
  "place origin x y width height flags win =
     (let r = onScreen win;
          l = (if flags AND SWP_NOMOVE = 0 then px origin + x else left r);
          t = (if flags AND SWP_NOMOVE = 0 then py origin + y else top r);
          w = (if flags AND SWP_NOSIZE = 0 then width else right r - left r);
          h = (if flags AND SWP_NOSIZE = 0 then height else bottom r - top r)
      in win\<lparr>onScreen := \<lparr>left = l, top = t, right = l + w, bottom = t + h\<rparr>\<rparr>)"

definition desk_client :: "desk_window \<Rightarrow> rect" where
  "desk_client x = \<lparr>left = 0, top = 0,
     right = right (onScreen x) - left (onScreen x) - frameLeft x - frameRight x,
     bottom = bottom (onScreen x) - top (onScreen x) - frameTop x - frameBottom x\<rparr>"

definition desk_parent :: "hwnd \<Rightarrow> desk \<Rightarrow> hwnd" where
  "desk_parent h d = (case deskWindows d h of Some x \<Rightarrow> parentWindow x | None \<Rightarrow> NULL)"

definition desk_graphics :: graphics where
  "desk_graphics = \<lparr>createForWindow = (\<lambda>h. CaptureItem \<lparr>Width = 200, Height = 100\<rparr>),
     rootAncestor = (\<lambda>h. h), sourceCreated = True, pipelineCreated = True, resizeBuffers = (\<lambda>x. True)\<rparr>"

definition desk_win32 :: "desk win32" where
  "desk_win32 = \<lparr>
     GetClientRect = (\<lambda>h d. map_option desk_client (deskWindows d h)),
     GetWindowRect = (\<lambda>h d. map_option onScreen (deskWindows d h)),
     ClientToScreen = (\<lambda>h p d. if deskWindows d h = None then None
        else Some \<lparr>px = px p + px (client_origin h d), py = py p + py (client_origin h d)\<rparr>),
     ScreenToClient = (\<lambda>h p d. if deskWindows d h = None then None
        else Some \<lparr>px = px p - px (client_origin h d), py = py p - py (client_origin h d)\<rparr>),
     MapFromDesktop = (\<lambda>h r d. let o1 = client_origin h d in
        \<lparr>left = left r - px o1, top = top r - py o1, right = right r - px o1, bottom = bottom r - py o1\<rparr>),
     GetParent = desk_parent,
     GetDesktopWindow = (\<lambda>d. 1),
     GetTopWindow = (\<lambda>d. NULL),
     GetNextWindow = (\<lambda>h d. NULL),
     GetForegroundWindow = deskForeground,
     WindowFromPhysicalPoint = (\<lambda>p d. deskWindowBelow d),
     IsWindow = (\<lambda>h d. deskWindows d h \<noteq> None),
     IsWindowEnabled = (\<lambda>h d. \<not> deskDisabled d h),
     GetCursorPos = (\<lambda>d. Some (deskCursor d)),
     GetDpiForWindow = (\<lambda>h d. 96),
     GetSystemMetrics = (\<lambda>i d. 0),
     GetWindowLong = (\<lambda>h i d. case deskWindows d h of None \<Rightarrow> 0
        | Some x \<Rightarrow> if i = GWL_STYLE then deskStyle x else if i = GWL_EXSTYLE then deskExStyle x else 0),
     GetWindowText = (\<lambda>h d. Some (deskTexts d h)),
     AdjustWindowRect = (\<lambda>r st d. Some r),
     windowPixels = (\<lambda>h r d. None),
     graphicsRuntime = (\<lambda>d. desk_graphics),
     SetWindowPos = (\<lambda>h after x y width height flags d.
        update_window h (place (client_origin (desk_parent h d) d) x y width height flags) d),
     ShowWindow = (\<lambda>h c d. update_window h (\<lambda>x. x\<lparr>deskShown := c \<noteq> SW_HIDE\<rparr>) d),
     SetWindowLong = (\<lambda>h i v d. update_window h (\<lambda>x. if i = GWL_STYLE then x\<lparr>deskStyle := v\<rparr> else x\<lparr>deskExStyle := v\<rparr>) d),
     SetWindowText = (\<lambda>h t d. (True, d\<lparr>deskTexts := (deskTexts d)(h := t)\<rparr>)),
     SetForegroundWindow = (\<lambda>h d. d\<lparr>deskForeground := h\<rparr>),
     SetLayeredAlpha = (\<lambda>h a d. d\<lparr>deskAlpha := a\<rparr>),
     EnableWindow = (\<lambda>h b d. d\<lparr>deskDisabled := (deskDisabled d)(h := \<not> b)\<rparr>),
     PostMessage = (\<lambda>h m d. d\<lparr>deskMessages := deskMessages d @ [(h, m)]\<rparr>),
     DestroyWindow = (\<lambda>h d. d\<lparr>deskWindows := (deskWindows d)(h := None)\<rparr>),
     RegisterClassEx = (\<lambda>n d. (True, d)),
     CreateWindowEx = (\<lambda>ex cls n st x y width height p d.
        (100, d\<lparr>deskWindows := (deskWindows d)(100 \<mapsto> place (client_origin p d) x y width height 0
           \<lparr>onScreen = zero_rect, frameLeft = 0, frameTop = 0, frameRight = 0, frameBottom = 0,
            parentWindow = p, deskStyle = st, deskExStyle = ex, deskShown = True\<rparr>)\<rparr>)),
     Draw = (\<lambda>h ds d. d\<lparr>deskDrawn := deskDrawn d @ [(h, ds)]\<rparr>),
     MessageBox = (\<lambda>t d. d),
     TrackPopupMenu = (\<lambda>h m d. (0, d)),
     PostQuitMessage = (\<lambda>d. d),
     ClipCursor = (\<lambda>r d. d),
     RedrawWindow = (\<lambda>h d. d),
     FindWindow = (\<lambda>c n d. NULL),
     RegisterHotKey = (\<lambda>h i k d. (True, d)),
     NotifyIconShown = (\<lambda>h d. True),
     NotifyIconAdd = (\<lambda>h d. (True, d)),
     NotifyIconDelete = (\<lambda>h d. d)\<rparr>"

text \<open>
  A child (40) of a main window (30) whose client area starts at the screen point \<open>o1\<close>, and an
  unframed source window (50).
\<close>

definition example_desk :: "point \<Rightarrow> desk" where
  "example_desk o1 = \<lparr>
     deskWindows = [
       30 \<mapsto> \<lparr>onScreen = \<lparr>left = px o1, top = py o1, right = px o1 + 3000, bottom = py o1 + 2000\<rparr>,
            frameLeft = 0, frameTop = 0, frameRight = 0, frameBottom = 0, parentWindow = 1,
            deskStyle = 0, deskExStyle = 0, deskShown = True\<rparr>,
       40 \<mapsto> \<lparr>onScreen = \<lparr>left = 100, top = 100, right = 310, bottom = 230\<rparr>,
            frameLeft = 5, frameTop = 25, frameRight = 5, frameBottom = 5, parentWindow = 30,
            deskStyle = 0, deskExStyle = 0, deskShown = True\<rparr>,
       50 \<mapsto> \<lparr>onScreen = \<lparr>left = 400, top = 300, right = 1000, bottom = 700\<rparr>,
            frameLeft = 0, frameTop = 0, frameRight = 0, frameBottom = 0, parentWindow = NULL,
            deskStyle = 0, deskExStyle = 0, deskShown = True\<rparr>],
     deskForeground = NULL, deskCursor = \<lparr>px = 500, py = 400\<rparr>, deskWindowBelow = 50,
     deskMessages = [], deskDrawn = [], deskAlpha = 0, deskTexts = (\<lambda>h. []),
     deskChecked = (\<lambda>h. False), deskDisabled = (\<lambda>h. False), deskNumbers = (\<lambda>h. 0), deskTree = (\<lambda>i. [])\<rparr>"

end
