(* ===== verification/Windows_Item.thy ===== *)
theory Windows_Item
  imports Win32
begin

text \<open>
  \<open>WindowsLib/WindowsItem\<close> and the window part of \<open>ClassWindow\<close>: the object that holds a window
  handle, its geometry queries (checked arithmetic, as everywhere) and its updates, the
  registration of window classes, and the translation of window messages into the \<open>Notify...\<close>
  calls of \<open>ClassWindow::ForwardWndProc\<close>.
\<close>

section \<open>State\<close>

datatype window_type = NoWindow | Regular | MDIFrame | MDIChild | Dialog

record item =
  windowsItemHandle :: hwnd
  tooltipHandle :: hwnd
  windowClassName :: string
  windowType :: window_type
  allowEditNotify :: bool

definition new_item :: item where
  "new_item = \<lparr>windowsItemHandle = NULL, tooltipHandle = NULL, windowClassName = [],
     windowType = NoWindow, allowEditNotify = True\<rparr>"

definition getHandle :: "'a item_scheme \<Rightarrow> hwnd" where
  "getHandle it = windowsItemHandle it"

definition setHandle :: "hwnd \<Rightarrow> 'a item_scheme \<Rightarrow> 'a item_scheme" where
  "setHandle h it = it\<lparr>windowsItemHandle := h\<rparr>"

definition getParent :: "'w win32 \<Rightarrow> 'a item_scheme \<Rightarrow> 'w \<Rightarrow> hwnd" where
  "getParent W it w = GetParent W (getHandle it) w"

definition is_handle :: "'a item_scheme \<Rightarrow> hwnd \<Rightarrow> bool" where
  "is_handle it h \<longleftrightarrow> getHandle it = h"

definition item_DestroyThis :: "'w win32 \<Rightarrow> 'a item_scheme \<Rightarrow> 'w \<Rightarrow> 'a item_scheme \<times> 'w" where
  "item_DestroyThis W it w =
     (let w1 = (if getHandle it \<noteq> NULL then DestroyWindow W (getHandle it) w else w);
          w2 = (if tooltipHandle it \<noteq> NULL then DestroyWindow W (tooltipHandle it) w1 else w1)
      in (it\<lparr>windowsItemHandle := NULL, tooltipHandle := NULL\<rparr>, w2))"

section \<open>Window classes\<close>

text \<open>\<open>registeredClasses\<close> is the static list of the class, passed and returned.\<close>

definition WindowClassIsRegistered :: "string \<Rightarrow> string list \<Rightarrow> 'a item_scheme \<Rightarrow> bool \<times> 'a item_scheme" where
  "WindowClassIsRegistered name registered it =
     (if name \<in> set registered then (True, it\<lparr>windowClassName := name\<rparr>)
      else (False, it\<lparr>windowClassName := []\<rparr>))"

definition RegisterWindowClass ::
    "'w win32 \<Rightarrow> string \<Rightarrow> string list \<Rightarrow> 'a item_scheme \<Rightarrow> 'w \<Rightarrow> bool \<times> string list \<times> 'a item_scheme \<times> 'w" where
  "RegisterWindowClass W name registered it w =
     (if getHandle it = NULL \<and> length (windowClassName it) \<le> 0 then
        (let (known, it1) = WindowClassIsRegistered name registered it in
         if known then (True, registered, it1\<lparr>windowClassName := name\<rparr>, w)
         else (let (ok, w1) = RegisterClassEx W name w in
               if ok then (True, registered @ [name], it1\<lparr>windowClassName := name\<rparr>, w1)
               else (False, registered, it1, w1)))
      else (False, registered, it, w))"

definition CreateClassWindow ::
    "'w win32 \<Rightarrow> u32 \<Rightarrow> string \<Rightarrow> u32 \<Rightarrow> int \<Rightarrow> int \<Rightarrow> int \<Rightarrow> int \<Rightarrow> hwnd \<Rightarrow> 'a item_scheme \<Rightarrow> 'w \<Rightarrow> bool \<times> 'a item_scheme \<times> 'w" where
  "CreateClassWindow W exStyle name style x y width height parent it w =
     (if getHandle it = NULL \<and> length (windowClassName it) > 0 then
        (let (h, w1) = CreateWindowEx W exStyle (windowClassName it) name style x y width height parent w;
             it1 = it\<lparr>windowType := Regular, windowsItemHandle := h\<rparr>
         in if h \<noteq> NULL then (True, it1\<lparr>windowClassName := []\<rparr>, w1)
            else (False, it1\<lparr>windowType := NoWindow\<rparr>, w1))
      else (False, it\<lparr>windowType := NoWindow\<rparr>, w))"

definition DestroyThis :: "'w win32 \<Rightarrow> 'a item_scheme \<Rightarrow> 'w \<Rightarrow> 'a item_scheme \<times> 'w" where
  "DestroyThis W it w =
     (let (it1, w1) = item_DestroyThis W it w
      in (it1\<lparr>windowType := NoWindow, allowEditNotify := True, windowClassName := []\<rparr>, w1))"

section \<open>Geometry\<close>

definition getWindowRect :: "'w win32 \<Rightarrow> 'a item_scheme \<Rightarrow> 'w \<Rightarrow> rect option" where
  "getWindowRect W it w = GetWindowRect W (getHandle it) w"

definition getClientRect :: "'w win32 \<Rightarrow> 'a item_scheme \<Rightarrow> 'w \<Rightarrow> rect option" where
  "getClientRect W it w = GetClientRect W (getHandle it) w"

text \<open>A rectangle initialised to zero that a call may have filled in.\<close>

definition or_zero :: "rect option \<Rightarrow> rect" where
  "or_zero r = (case r of Some x \<Rightarrow> x | None \<Rightarrow> zero_rect)"

definition Width_of :: "'w win32 \<Rightarrow> 'a item_scheme \<Rightarrow> 'w \<Rightarrow> int option" where
  "Width_of W it w = rect_width (or_zero (GetWindowRect W (getHandle it) w))"

definition Height_of :: "'w win32 \<Rightarrow> 'a item_scheme \<Rightarrow> 'w \<Rightarrow> int option" where
  "Height_of W it w = rect_height (or_zero (GetWindowRect W (getHandle it) w))"

text \<open>The window rectangle in the coordinates of the parent's client area.\<close>

definition parent_rect :: "'w win32 \<Rightarrow> 'a item_scheme \<Rightarrow> 'w \<Rightarrow> rect" where
  "parent_rect W it w =
     MapFromDesktop W (GetParent W (getHandle it) w) (or_zero (GetWindowRect W (getHandle it) w)) w"

definition Left_of :: "'w win32 \<Rightarrow> 'a item_scheme \<Rightarrow> 'w \<Rightarrow> int" where
  "Left_of W it w = left (parent_rect W it w)"

definition Top_of :: "'w win32 \<Rightarrow> 'a item_scheme \<Rightarrow> 'w \<Rightarrow> int" where
  "Top_of W it w = top (parent_rect W it w)"

definition Right_of :: "'w win32 \<Rightarrow> 'a item_scheme \<Rightarrow> 'w \<Rightarrow> int" where
  "Right_of W it w = right (parent_rect W it w)"

definition Bottom_of :: "'w win32 \<Rightarrow> 'a item_scheme \<Rightarrow> 'w \<Rightarrow> int" where
  "Bottom_of W it w = bottom (parent_rect W it w)"

definition cliWidth :: "'w win32 \<Rightarrow> 'a item_scheme \<Rightarrow> 'w \<Rightarrow> int option" where
  "cliWidth W it w = (case GetClientRect W (getHandle it) w of Some r \<Rightarrow> rect_width r | None \<Rightarrow> Some 0)"

definition cliHeight :: "'w win32 \<Rightarrow> 'a item_scheme \<Rightarrow> 'w \<Rightarrow> int option" where
  "cliHeight W it w = (case GetClientRect W (getHandle it) w of Some r \<Rightarrow> rect_height r | None \<Rightarrow> Some 0)"

definition isEnabled :: "'w win32 \<Rightarrow> 'a item_scheme \<Rightarrow> 'w \<Rightarrow> bool" where
  "isEnabled W it w = IsWindowEnabled W (getHandle it) w"

section \<open>Updates\<close>

definition GetWinLong :: "'w win32 \<Rightarrow> int \<Rightarrow> 'a item_scheme \<Rightarrow> 'w \<Rightarrow> u32" where
  "GetWinLong W index it w = GetWindowLong W (getHandle it) index w"

definition SetWinLong :: "'w win32 \<Rightarrow> int \<Rightarrow> u32 \<Rightarrow> 'a item_scheme \<Rightarrow> 'w \<Rightarrow> 'w" where
  "SetWinLong W index v it w = SetWindowLong W (getHandle it) index v w"

definition RefreshFrame :: "'w win32 \<Rightarrow> 'a item_scheme \<Rightarrow> 'w \<Rightarrow> 'w" where
  "RefreshFrame W it w = SetWindowPos W (getHandle it) HWND_TOP 0 0 0 0
     (SWP_FRAMECHANGED OR SWP_NOMOVE OR SWP_NOZORDER OR SWP_NOSIZE) w"

definition MoveTo :: "'w win32 \<Rightarrow> int \<Rightarrow> int \<Rightarrow> 'a item_scheme \<Rightarrow> 'w \<Rightarrow> 'w" where
  "MoveTo W x y it w = SetWindowPos W (getHandle it) HWND_TOP x y 0 0
     (SWP_NOACTIVATE OR SWP_NOZORDER OR SWP_NOSIZE) w"

definition SetPos :: "'w win32 \<Rightarrow> int \<Rightarrow> int \<Rightarrow> int \<Rightarrow> int \<Rightarrow> 'a item_scheme \<Rightarrow> 'w \<Rightarrow> 'w" where
  "SetPos W x y width height it w = SetWindowPos W (getHandle it) HWND_TOP x y width height
     (SWP_NOACTIVATE OR SWP_NOZORDER) w"

definition SetSize :: "'w win32 \<Rightarrow> int \<Rightarrow> int \<Rightarrow> 'a item_scheme \<Rightarrow> 'w \<Rightarrow> 'w" where
  "SetSize W width height it w = SetWindowPos W (getHandle it) HWND_TOP 0 0 width height
     (SWP_NOACTIVATE OR SWP_NOZORDER OR SWP_NOMOVE) w"

definition SetWidth :: "'w win32 \<Rightarrow> int \<Rightarrow> 'a item_scheme \<Rightarrow> 'w \<Rightarrow> 'w option" where
  "SetWidth W newWidth it w = do { h \<leftarrow> Height_of W it w; Some (SetSize W newWidth h it w) }"

definition SetHeight :: "'w win32 \<Rightarrow> int \<Rightarrow> 'a item_scheme \<Rightarrow> 'w \<Rightarrow> 'w option" where
  "SetHeight W newHeight it w = do { n \<leftarrow> Width_of W it w; Some (SetSize W n newHeight it w) }"

definition ShowNormal :: "'w win32 \<Rightarrow> 'a item_scheme \<Rightarrow> 'w \<Rightarrow> 'w" where
  "ShowNormal W it w = ShowWindow W (getHandle it) SW_SHOWNORMAL w"

definition Show :: "'w win32 \<Rightarrow> 'a item_scheme \<Rightarrow> 'w \<Rightarrow> 'w" where
  "Show W it w = ShowWindow W (getHandle it) SW_SHOW w"

definition Hide :: "'w win32 \<Rightarrow> 'a item_scheme \<Rightarrow> 'w \<Rightarrow> 'w" where
  "Hide W it w = ShowWindow W (getHandle it) SW_HIDE w"

definition RedrawThis :: "'w win32 \<Rightarrow> 'a item_scheme \<Rightarrow> 'w \<Rightarrow> 'w" where
  "RedrawThis W it w = RedrawWindow W (getHandle it) w"

text \<open>The rectangle is not initialised: \<open>None\<close> when the query fails. A failing translation leaves the point.\<close>

definition to_screen :: "'w win32 \<Rightarrow> hwnd \<Rightarrow> point \<Rightarrow> 'w \<Rightarrow> point" where
  "to_screen W h p w = (case ClientToScreen W h p w of Some q \<Rightarrow> q | None \<Rightarrow> p)"

definition LockCursor :: "'w win32 \<Rightarrow> 'a item_scheme \<Rightarrow> 'w \<Rightarrow> 'w option" where
  "LockCursor W it w =
     (if getHandle it = NULL then Some (ClipCursor W None w)
      else do { r \<leftarrow> GetClientRect W (getHandle it) w;
                x \<leftarrow> sub32 (right r) 1; y \<leftarrow> sub32 (bottom r) 1;
                let a = to_screen W (getHandle it) \<lparr>px = 0, py = 0\<rparr> w;
                let b = to_screen W (getHandle it) \<lparr>px = x, py = y\<rparr> w;
                Some (ClipCursor W (Some \<lparr>left = px a, top = py a, right = px b, bottom = py b\<rparr>) w) })"

definition UnlockCursor :: "'w win32 \<Rightarrow> 'w \<Rightarrow> 'w" where
  "UnlockCursor W w = ClipCursor W None w"

definition SetWinText :: "'w win32 \<Rightarrow> string \<Rightarrow> 'a item_scheme \<Rightarrow> 'w \<Rightarrow> bool \<times> 'w" where
  "SetWinText W t it w = SetWindowText W (getHandle it) t w"

definition EnableThis :: "'w win32 \<Rightarrow> 'a item_scheme \<Rightarrow> 'w \<Rightarrow> 'w" where
  "EnableThis W it w = EnableWindow W (getHandle it) True w"

definition DisableThis :: "'w win32 \<Rightarrow> 'a item_scheme \<Rightarrow> 'w \<Rightarrow> 'w" where
  "DisableThis W it w = EnableWindow W (getHandle it) False w"

section \<open>Messages\<close>

text \<open>The notification codes \<open>ForwardWndProc\<close> looks at.\<close>

datatype command_code =
  BN_CLICKED | EN_UPDATE | EN_SETFOCUS | EN_KILLFOCUS | CBN_SELCHANGE | CBN_EDITCHANGE |
  CBN_SETFOCUS | CBN_KILLFOCUS | OtherCode

datatype message =
    WM_SHOWWINDOW bool
  | WM_NOTIFY "int option"  \<comment> \<open>the new item's value for \<open>TVN_SELCHANGED\<close>\<close>
  | WM_SELTREEITEM int
  | WM_DROPFILES string
  | WM_COMMAND command_code int hwnd
  | OtherMessage u32

datatype notification =
    NotifyTreeItemSelected int
  | NotifyButtonClicked int hwnd
  | NotifyEditUpdated int hwnd
  | NotifyEditFocused int hwnd
  | NotifyEditFocusLost int hwnd
  | NotifyComboSelChanged int hwnd
  | NotifyComboEditUpdated int hwnd
  | NotifyComboEditFocused int hwnd
  | NotifyComboEditFocusLost int hwnd
  | NotifyWindowHidden
  | NotifyWindowShown
  | HandleDroppedFile string

datatype handler = ToWndProc | ToNotify | ToCommand

text \<open>
  The notifications a message causes, in order, and the virtual handler that gives the result.
  \<open>focus\<close> is the id and handle of the focused control.
\<close>

fun ForwardWndProc :: "bool \<Rightarrow> int \<times> hwnd \<Rightarrow> message \<Rightarrow> notification list \<times> handler" where
  "ForwardWndProc allow focus (WM_SHOWWINDOW shown) =
     (if shown then [NotifyWindowShown]
      else [NotifyEditFocusLost (fst focus) (snd focus), NotifyComboEditFocusLost (fst focus) (snd focus),
            NotifyWindowHidden], ToWndProc)"
| "ForwardWndProc allow focus (WM_NOTIFY sel) =
     (case sel of Some v \<Rightarrow> [NotifyTreeItemSelected v] | None \<Rightarrow> [], ToNotify)"
| "ForwardWndProc allow focus (WM_SELTREEITEM v) = ([NotifyTreeItemSelected v], ToWndProc)"
| "ForwardWndProc allow focus (WM_DROPFILES path) = ([HandleDroppedFile path], ToWndProc)"
| "ForwardWndProc allow focus (WM_COMMAND code i h) =
     ((case code of
         BN_CLICKED \<Rightarrow> [NotifyButtonClicked i h]
       | EN_UPDATE \<Rightarrow> if allow then [NotifyEditUpdated i h] else []
       | EN_SETFOCUS \<Rightarrow> [NotifyEditFocused i h]
       | EN_KILLFOCUS \<Rightarrow> [NotifyEditFocusLost i h]
       | CBN_SELCHANGE \<Rightarrow> [NotifyComboSelChanged i h]
       | CBN_EDITCHANGE \<Rightarrow> [NotifyComboEditUpdated i h]
       | CBN_SETFOCUS \<Rightarrow> [NotifyComboEditFocused i h]
       | CBN_KILLFOCUS \<Rightarrow> [NotifyComboEditFocusLost i h]
       | OtherCode \<Rightarrow> []), ToCommand)"
| "ForwardWndProc allow focus (OtherMessage m) = ([], ToWndProc)"

text \<open>
  \<open>SendNotifyEditUpdated\<close>: a handler may itself change edit controls, which sends further
  \<open>EN_UPDATE\<close> messages before it returns. \<open>nested\<close> is what a handler call sends; the flag is off
  while one runs. The result is the sequence of \<open>NotifyEditUpdated\<close> calls; the fuel bounds the
  nesting.
\<close>

fun edit_updates :: "nat \<Rightarrow> (int \<Rightarrow> int list) \<Rightarrow> bool \<Rightarrow> int \<Rightarrow> int list" where
  "edit_updates 0 nested allow i = []"
| "edit_updates (Suc n) nested allow i =
     (if allow then i # concat (map (edit_updates n nested False) (nested i)) else [])"

section \<open>Properties\<close>

text \<open>
  A window class is registered with the system once per name. Registering a name
  that is in the list succeeds without a call to the system, and the list never holds a name
  twice, whatever objects register in whatever order.
\<close>

theorem class_registered_once:
  assumes "distinct registered" "RegisterWindowClass W name registered it w = (ok, registered', it', w')"
  shows "distinct registered' \<and> set registered \<subseteq> set registered' \<and>
    (name \<in> set registered \<longrightarrow> registered' = registered \<and> w' = w) \<and>
    (ok \<longrightarrow> name \<in> set registered' \<and> windowClassName it' = name)"
  using assms
  by (auto simp: RegisterWindowClass_def WindowClassIsRegistered_def Let_def split: if_splits prod.splits)

lemma class_registered_once_witness:
  "fst (snd (RegisterWindowClass desk_win32 ''MiniViewWin'' [''MiniViewWin''] new_item (example_desk \<lparr>px = 0, py = 0\<rparr>)))
     = [''MiniViewWin'']"
proof -
  obtain ok reg it' w' where r: "RegisterWindowClass desk_win32 ''MiniViewWin'' [''MiniViewWin''] new_item
      (example_desk \<lparr>px = 0, py = 0\<rparr>) = (ok, reg, it', w')"
    using prod_cases4 by blast
  from class_registered_once [OF _ r] have "reg = [''MiniViewWin'']" by simp
  with r show ?thesis by simp
qed

text \<open>
  Whatever edit updates a handler of an edit update triggers, the handler is called
  for the first one only, so the recursion that \<open>allowEditNotify\<close> guards against cannot happen.
\<close>

theorem edit_update_not_reentered: "edit_updates (Suc n) nested True i = [i]"
proof -
  have "edit_updates n nested False j = []" for n j by (cases n) simp_all
  then show ?thesis by (simp add: concat_eq_Nil_conv)
qed

end
