(* ===== verification/Mini_View.thy ===== *)
theory Mini_View
  imports Windows_Item Rounding Zerocmp
begin

text \<open>
  \<open>MiniViewsLib/MiniView\<close>: one mini view, a child window that shows a source window. The record
  extends the window object as the class extends \<open>ClassWindow\<close>. Every operation returns the new
  object and desktop, or \<open>None\<close> where the C++ has no defined continuation: signed overflow,
  division by zero, or an exception of the graphics mirror that nothing catches. The calls to
  \<open>IMiniViewUser\<close> that change something are the last thing an operation does, so they are
  collected in \<open>requests\<close>, in order; its queries are the record \<open>view_prefs\<close> (\<open>None\<close>: no user).
\<close>

section \<open>State\<close>

record view_prefs =
  matchSourcePosition :: bool
  matchSourceSize :: bool
  lockSizeRatio :: bool
  hideWhenOnTop :: bool
  useCachedImageWhenFrozen :: bool
  showFrozenIndicatorIcon :: bool
  showFrozenContextMenuItem :: bool

datatype request = NotifyChange | CloseMiniView | RequestClipRegion

record view = item +
  mirrorOf :: mirror
  hSource :: hwnd
  settingWindow :: bool
  editMode :: bool
  hideWhenSourceOnTop :: bool
  hiddenBySourceOnTop :: bool
  hiddenByParent :: bool
  isGdiCompatible :: bool
  isGraphicsCaptureCompatible :: bool
  isFrozen :: bool
  lockRatio :: bool
  lastUserSetCliWidth :: int
  lastUserSetCliHeight :: int
  lastCliWidthFixedTo :: int
  lastCliHeightFixedTo :: int
  isClipped :: bool
  rcClip :: rect
  internallyClipped :: bool
  rcInternalClip :: rect
  imageCached :: bool
  sourceSize :: size2
  requests :: "request list"

definition minimumDimension :: int where "minimumDimension = 33"

unbundle bit_operations_syntax

definition constantStyles :: u32 where
  "constantStyles = (WS_CHILD OR WS_VISIBLE OR WS_CLIPSIBLINGS)"

definition editModeStyles :: u32 where
  "editModeStyles = (WS_THICKFRAME OR WS_CAPTION OR WS_SYSMENU)"

text \<open>The constructor; \<open>sourceSize\<close> has no initialiser, so it starts with any value.\<close>

definition new_view :: "view_prefs \<Rightarrow> size2 \<Rightarrow> view" where
  "new_view p anySize = item.extend new_item
     \<lparr>mirrorOf = new_mirror, hSource = NULL, settingWindow = True, editMode = True,
      hideWhenSourceOnTop = hideWhenOnTop p, hiddenBySourceOnTop = True, hiddenByParent = False,
      isGdiCompatible = False, isGraphicsCaptureCompatible = False, isFrozen = False,
      lockRatio = lockSizeRatio p, lastUserSetCliWidth = 0, lastUserSetCliHeight = 0,
      lastCliWidthFixedTo = 0, lastCliHeightFixedTo = 0, isClipped = False, rcClip = zero_rect,
      internallyClipped = False, rcInternalClip = zero_rect, imageCached = False,
      sourceSize = anySize, requests = []\<rparr>"

definition request :: "request \<Rightarrow> view_prefs option \<Rightarrow> view \<Rightarrow> view" where
  "request r user mv = (if user = None then mv else mv\<lparr>requests := requests mv @ [r]\<rparr>)"

definition GetSourceWindow :: "view \<Rightarrow> hwnd" where "GetSourceWindow mv = hSource mv"
definition IsClipped :: "view \<Rightarrow> bool" where "IsClipped mv = isClipped mv"
definition GetClipRect :: "view \<Rightarrow> rect" where "GetClipRect mv = rcClip mv"
definition SizeRatioLocked :: "view \<Rightarrow> bool" where "SizeRatioLocked mv = lockRatio mv"
definition HidesWhenSourceOnTop :: "view \<Rightarrow> bool" where "HidesWhenSourceOnTop mv = hideWhenSourceOnTop mv"
definition SetSourceHandle :: "hwnd \<Rightarrow> view \<Rightarrow> view" where "SetSourceHandle h mv = mv\<lparr>hSource := h\<rparr>"

section \<open>Geometry of the window and its source\<close>

definition source_rect :: "'w win32 \<Rightarrow> view \<Rightarrow> 'w \<Rightarrow> rect" where
  "source_rect W mv w = or_zero (GetClientRect W (hSource mv) w)"

definition GetClientScreenTopLeft :: "'w win32 \<Rightarrow> view \<Rightarrow> 'w \<Rightarrow> (int \<times> int) option" where
  "GetClientScreenTopLeft W mv w =
     (case getClientRect W mv w of None \<Rightarrow> None
      | Some r \<Rightarrow> (case ClientToScreen W (getHandle mv) \<lparr>px = left r, py = top r\<rparr> w of
          None \<Rightarrow> None | Some p \<Rightarrow> Some (px p, py p)))"

text \<open>
  The functions with a success flag return \<open>Some None\<close> for false; the outer \<open>None\<close> is overflow.
\<close>

definition ClientRectToWindowSize :: "'w win32 \<Rightarrow> rect \<Rightarrow> view \<Rightarrow> 'w \<Rightarrow> (int \<times> int) option option" where
  "ClientRectToWindowSize W cliRect mv w =
     (case AdjustWindowRect W cliRect (GetWinLong W GWL_STYLE mv w) w of
        None \<Rightarrow> Some None
      | Some r \<Rightarrow> do { a \<leftarrow> rect_width r; b \<leftarrow> rect_height r; Some (Some (a, b)) })"

definition GetBorderSize :: "'w win32 \<Rightarrow> view \<Rightarrow> 'w \<Rightarrow> (int \<times> int) option option" where
  "GetBorderSize W mv w =
     (case (getWindowRect W mv w, getClientRect W mv w) of
        (Some win, Some cli) \<Rightarrow>
          do { ww \<leftarrow> rect_width win; cw \<leftarrow> rect_width cli; a \<leftarrow> sub32 ww cw;
               wh \<leftarrow> rect_height win; ch \<leftarrow> rect_height cli; b \<leftarrow> sub32 wh ch;
               Some (Some (a, b)) }
      | _ \<Rightarrow> Some None)"

definition border_or_zero :: "'w win32 \<Rightarrow> view \<Rightarrow> 'w \<Rightarrow> (int \<times> int) option" where
  "border_or_zero W mv w =
     do { b \<leftarrow> GetBorderSize W mv w; Some (case b of Some x \<Rightarrow> x | None \<Rightarrow> (0, 0)) }"

definition GetTopLeftBorderSize :: "'w win32 \<Rightarrow> view \<Rightarrow> 'w \<Rightarrow> (int \<times> int) option option" where
  "GetTopLeftBorderSize W mv w =
     (case (getWindowRect W mv w, getClientRect W mv w) of
        (Some win, Some cli) \<Rightarrow>
          (case (ClientToScreen W (getParent W mv w) \<lparr>px = left win, py = top win\<rparr> w,
                 ClientToScreen W (getHandle mv) \<lparr>px = left cli, py = top cli\<rparr> w) of
             (Some p, Some c) \<Rightarrow>
               do { a \<leftarrow> sub32 (px c) (px p); b \<leftarrow> sub32 (py c) (py p); Some (Some (a, b)) }
           | _ \<Rightarrow> Some None)
      | _ \<Rightarrow> Some None)"

text \<open>Width and height of what is shown: the clip region, or the source's client area.\<close>

definition shown_size :: "'w win32 \<Rightarrow> view \<Rightarrow> 'w \<Rightarrow> (int \<times> int) option" where
  "shown_size W mv w =
     (let r = (if isClipped mv then rcClip mv else source_rect W mv w)
      in do { a \<leftarrow> rect_width r; b \<leftarrow> rect_height r; Some (a, b) })"

definition IsPerfectSize :: "'w win32 \<Rightarrow> view \<Rightarrow> 'w \<Rightarrow> bool option" where
  "IsPerfectSize W mv w =
     do { (a, b) \<leftarrow> shown_size W mv w; cw \<leftarrow> cliWidth W mv w; ch \<leftarrow> cliHeight W mv w;
          Some (cw = a \<and> ch = b) }"

section \<open>Keeping the ratio\<close>

text \<open>The size with the source's ratio that \<open>FixRatio\<close> fits into the guide size.\<close>

definition fitted_size :: "int \<Rightarrow> int \<Rightarrow> int \<Rightarrow> int \<Rightarrow> (int \<times> int) option" where
  "fitted_size gw gh sw sh =
     (if sw \<le> gw \<and> sh \<le> gh then
        do { a \<leftarrow> mul32 sw gh; b \<leftarrow> mul32 sh gw;
             if a > b \<and> sw > 0 then
               do { p \<leftarrow> mul32 gw sh; ch \<leftarrow> RoundedQuotient p sw; Some (gw, ch) }
             else if b > a \<and> sh > 0 then
               do { p \<leftarrow> mul32 gh sw; cw \<leftarrow> RoundedQuotient p sh; Some (cw, gh) }
             else Some (gw, gh) }
      else if sw > gw \<and> sh \<le> gh \<and> sw > 0 then
        do { p \<leftarrow> mul32 gw sh; ch \<leftarrow> RoundedQuotient p sw; Some (gw, ch) }
      else if sw \<le> gw \<and> sh > gh \<and> sh > 0 then
        do { p \<leftarrow> mul32 gh sw; cw \<leftarrow> RoundedQuotient p sh; Some (cw, gh) }
      else if sw > gw \<and> sh > gh then
        do { a \<leftarrow> mul32 gw sh; b \<leftarrow> mul32 gh sw;
             if a > b \<and> sh > 0 then
               do { p \<leftarrow> mul32 gh sw; cw \<leftarrow> RoundedQuotient p sh; Some (cw, gh) }
             else if b > a \<and> sw > 0 then
               do { p \<leftarrow> mul32 gw sh; ch \<leftarrow> RoundedQuotient p sw; Some (gw, ch) }
             else Some (gw, gh) }
      else Some (gw, gh))"

text \<open>The centred rectangle of that size inside the guide.\<close>

definition internal_clip :: "int \<Rightarrow> int \<Rightarrow> int \<Rightarrow> int \<Rightarrow> rect option" where
  "internal_clip gw gh cw ch =
     do { dw \<leftarrow> sub32 gw cw; aw \<leftarrow> abs32 dw; l \<leftarrow> RoundedQuotient aw 2;
          dh \<leftarrow> sub32 gh ch; ah \<leftarrow> abs32 dh; t \<leftarrow> RoundedQuotient ah 2;
          r \<leftarrow> add32 l cw; b \<leftarrow> add32 t ch;
          Some \<lparr>left = l, top = t, right = r, bottom = b\<rparr> }"

definition FixRatio :: "'w win32 \<Rightarrow> view \<Rightarrow> 'w \<Rightarrow> view option" where
  "FixRatio W mv w =
     (if lockRatio mv \<and> \<not> settingWindow mv then
        do { border \<leftarrow> border_or_zero W mv w;
             (sw, sh) \<leftarrow> shown_size W mv w;
             if sw \<noteq> lastCliWidthFixedTo mv \<or> sh \<noteq> lastCliHeightFixedTo mv then
               do { let gw = lastUserSetCliWidth mv; let gh = lastUserSetCliHeight mv;
                    (cw, ch) \<leftarrow> fitted_size gw gh sw sh;
                    mv1 \<leftarrow> (if cw \<noteq> gw \<or> ch \<noteq> gh then
                             do { r \<leftarrow> internal_clip gw gh cw ch;
                                  Some (mv\<lparr>internallyClipped := True, rcInternalClip := r\<rparr>) }
                           else Some (mv\<lparr>internallyClipped := False\<rparr>));
                    Some (mv1\<lparr>lastCliWidthFixedTo := sw, lastCliHeightFixedTo := sh\<rparr>) }
             else Some mv }
      else Some mv)"

definition ClearFixRatioCache :: "view \<Rightarrow> view" where
  "ClearFixRatioCache mv = mv\<lparr>internallyClipped := False, lastCliWidthFixedTo := 0, lastCliHeightFixedTo := 0\<rparr>"

section \<open>Painting\<close>

definition white :: u32 where "white = 0xFFFFFF"
definition black :: u32 where "black = 0"

definition PaintInstructions :: "'w win32 \<Rightarrow> view \<Rightarrow> 'w \<Rightarrow> 'w" where
  "PaintInstructions W mv w =
     (let r = or_zero (getClientRect W mv w)
      in Draw W (getHandle mv) [SetBuffer r, FillRect r white,
           DrawWrappableText ''Drop me onto a window!'' r, FlushBuffer] w)"

definition BlackoutMiniView :: "'w win32 \<Rightarrow> view \<Rightarrow> 'w \<Rightarrow> 'w" where
  "BlackoutMiniView W mv w =
     (let r = or_zero (getClientRect W mv w)
      in Draw W (getHandle mv) [SetBuffer r, FillRect r black, FlushBuffer] w)"

definition scale_dpi :: "int \<Rightarrow> int \<Rightarrow> int \<Rightarrow> int option" where
  "scale_dpi n sourceDpi destDpi = do { p \<leftarrow> mul32 n sourceDpi; div32 p destDpi }"

definition getDpiScaledClip :: "rect \<Rightarrow> int \<Rightarrow> int \<Rightarrow> rect option" where
  "getDpiScaledClip r sourceDpi destDpi =
     do { l \<leftarrow> scale_dpi (left r) sourceDpi destDpi; t \<leftarrow> scale_dpi (top r) sourceDpi destDpi;
          rr \<leftarrow> scale_dpi (right r) sourceDpi destDpi; b \<leftarrow> scale_dpi (bottom r) sourceDpi destDpi;
          Some \<lparr>left = l, top = t, right = rr, bottom = b\<rparr> }"

definition asks :: "view_prefs option \<Rightarrow> (view_prefs \<Rightarrow> bool) \<Rightarrow> bool" where
  "asks user q = (case user of None \<Rightarrow> True | Some p \<Rightarrow> q p)"

text \<open>The source rectangle of the copy: the clip region, or the source's client area, in its DPI.\<close>

definition paint_source :: "'w win32 \<Rightarrow> view \<Rightarrow> 'w \<Rightarrow> (int \<times> int \<times> int \<times> int) option" where
  "paint_source W mv w =
     (let sourceDpi = GetDpiForWindow W (hSource mv) w; destDpi = GetDpiForWindow W (getHandle mv) w in
      if isClipped mv then
        do { r \<leftarrow> getDpiScaledClip (rcClip mv) sourceDpi destDpi;
             cw \<leftarrow> rect_width r; ch \<leftarrow> rect_height r; Some (left r, top r, cw, ch) }
      else
        do { let r = source_rect W mv w;
             a \<leftarrow> rect_width r; sw \<leftarrow> scale_dpi a sourceDpi destDpi;
             b \<leftarrow> rect_height r; sh \<leftarrow> scale_dpi b sourceDpi destDpi; Some (0, 0, sw, sh) })"

definition paint_dest :: "'w win32 \<Rightarrow> view \<Rightarrow> 'w \<Rightarrow> (int \<times> int \<times> int \<times> int) option" where
  "paint_dest W mv w =
     (let rcCli = or_zero (getClientRect W mv w); r = rcInternalClip mv in
      do { paintWidth \<leftarrow> rect_width rcCli; paintHeight \<leftarrow> rect_height rcCli;
           if internallyClipped mv then
             do { wd \<leftarrow> rect_width r; hd \<leftarrow> rect_height r; Some (left r, top r, wd, hd) }
           else Some (0, 0, paintWidth, paintHeight) })"

definition PaintMiniView :: "'w win32 \<Rightarrow> view_prefs option \<Rightarrow> view \<Rightarrow> 'w \<Rightarrow> 'w option" where
  "PaintMiniView W user mv w =
     (if \<not> isGdiCompatible mv then Some w
      else do {
        let rcCli = or_zero (getClientRect W mv w);
        (xd, yd, wd, hd) \<leftarrow> paint_dest W mv w;
        (xs, ys, ws, hs) \<leftarrow> paint_source W mv w;
        let from = (if isFrozen mv \<and> asks user useCachedImageWhenFrozen \<and> imageCached mv
                    then FromCache else FromWindow (hSource mv));
        iconX \<leftarrow> (if isFrozen mv \<and> asks user showFrozenIndicatorIcon
                 then map_option Some (sub32 wd 32) else Some None);
        Some (Draw W (getHandle mv)
          ((if internallyClipped mv \<or> isFrozen mv then [SetBuffer rcCli] else []) @
           (if internallyClipped mv then [FillSysRect rcCli] else []) @
           [StretchBlt from xd yd wd hd xs ys ws hs] @
           (case iconX of Some x \<Rightarrow> [DrawFrozenIcon x 0] | None \<Rightarrow> []) @
           [FlushBuffer]) w) })"

definition EraseBackground :: "'w win32 \<Rightarrow> view_prefs option \<Rightarrow> view \<Rightarrow> 'w \<Rightarrow> (int \<times> 'w) option" where
  "EraseBackground W user mv w =
     (if settingWindow mv then Some (1, PaintInstructions W mv w)
      else if isGdiCompatible mv then do { w1 \<leftarrow> PaintMiniView W user mv w; Some (1, w1) }
      else Some (1, BlackoutMiniView W mv w))"

section \<open>Clip region and source\<close>

definition mirror_setClip :: "'w win32 \<Rightarrow> view \<Rightarrow> 'w \<Rightarrow> view option" where
  "mirror_setClip W mv w =
     (let r = source_rect W mv w in
      do { wSrc \<leftarrow> rect_width r; hSrc \<leftarrow> rect_height r;
           if isGraphicsCaptureCompatible mv then
             (case setClip (graphicsRuntime W w) (rcClip mv) wSrc hSrc (mirrorOf mv) of
                Done m \<Rightarrow> Some (mv\<lparr>mirrorOf := m\<rparr>) | _ \<Rightarrow> None)
           else Some mv })"

definition MatchSource :: "'w win32 \<Rightarrow> bool \<Rightarrow> bool \<Rightarrow> view \<Rightarrow> 'w \<Rightarrow> (view \<times> 'w) option" where
  "MatchSource W matchPos matchSize mv w =
     (let src = source_rect W mv w;
          p0 = \<lparr>px = left src, py = top src\<rparr>;
          tl = (case ClientToScreen W (hSource mv) p0 w of Some p \<Rightarrow> p | None \<Rightarrow> p0)
      in do {
        border \<leftarrow> GetBorderSize W mv w;
        topLeft \<leftarrow> (if border = None then Some None else GetTopLeftBorderSize W mv w);
        (case (border, topLeft) of
           (Some (bw, bh), Some (tw, th)) \<Rightarrow>
             do {
               l0 \<leftarrow> sub32 (px tl) tw; t0 \<leftarrow> sub32 (py tl) th;
               l \<leftarrow> (if isClipped mv then add32 l0 (left (rcClip mv)) else Some l0);
               t \<leftarrow> (if isClipped mv then add32 t0 (top (rcClip mv)) else Some t0);
               (sw, sh) \<leftarrow> shown_size W mv w;
               width \<leftarrow> add32 sw bw; height \<leftarrow> add32 sh bh;
               let w1 = (if matchPos \<and> matchSize then SetPos W l t width height mv w
                         else if matchPos then MoveTo W l t mv w
                         else if matchSize then SetSize W width height mv w
                         else w);
               mv1 \<leftarrow> (if matchSize then
                        do { cw \<leftarrow> cliWidth W mv w1; ch \<leftarrow> cliHeight W mv w1;
                             Some (mv\<lparr>internallyClipped := False, lastUserSetCliWidth := cw, lastUserSetCliHeight := ch\<rparr>) }
                      else Some mv);
               if isClipped mv1 \<and> isGraphicsCaptureCompatible mv1 then
                 do { wSrc \<leftarrow> rect_width src; hSrc \<leftarrow> rect_height src;
                      (case createMirror (graphicsRuntime W w1) (getHandle mv1) (hSource mv1) (mirrorOf mv1) of
                         Done (h, m) \<Rightarrow>
                           (case setClip (graphicsRuntime W w1) (rcClip mv1) wSrc hSrc m of
                              Done m2 \<Rightarrow> Some (mv1\<lparr>mirrorOf := m2\<rparr>, w1) | _ \<Rightarrow> None)
                       | _ \<Rightarrow> None) }
               else Some (mv1, w1) }
         | _ \<Rightarrow> Some (mv, w)) })"

definition SetClip :: "'w win32 \<Rightarrow> view_prefs option \<Rightarrow> bool \<Rightarrow> rect \<Rightarrow> view \<Rightarrow> 'w \<Rightarrow> (view \<times> 'w) option" where
  "SetClip W user clip r mv w =
     (let w1 = BlackoutMiniView W mv w; mv1 = mv\<lparr>isClipped := clip\<rparr> in
      if clip then
        do { let mv2 = mv1\<lparr>rcClip := r\<rparr>;
             (mv3, w2) \<leftarrow> (case user of
                None \<Rightarrow> Some (mv2, w1)
              | Some p \<Rightarrow> if matchSourcePosition p \<or> matchSourceSize p
                         then MatchSource W (matchSourcePosition p) (matchSourceSize p) mv2 w1
                         else Some (mv2, w1));
             mv4 \<leftarrow> FixRatio W mv3 w2;
             mv5 \<leftarrow> mirror_setClip W mv4 w2;
             Some (mv5, w2) }
      else Some (mv1, w1))"

text \<open>Back to the size the user set, before a clip region is chosen or dropped.\<close>

definition restore_user_size :: "'w win32 \<Rightarrow> view \<Rightarrow> 'w \<Rightarrow> 'w option" where
  "restore_user_size W mv w =
     do { (bw, bh) \<leftarrow> border_or_zero W mv w;
          width \<leftarrow> add32 (lastUserSetCliWidth mv) bw; w1 \<leftarrow> SetWidth W width mv w;
          height \<leftarrow> add32 (lastUserSetCliHeight mv) bh; SetHeight W height mv w1 }"

definition SetClipRegion :: "'w win32 \<Rightarrow> view_prefs option \<Rightarrow> view \<Rightarrow> 'w \<Rightarrow> (view \<times> 'w) option" where
  "SetClipRegion W user mv w =
     do { w1 \<leftarrow> restore_user_size W mv (BlackoutMiniView W mv w);
          Some (request RequestClipRegion user mv, w1) }"

definition ClearClipRegion :: "'w win32 \<Rightarrow> view \<Rightarrow> 'w \<Rightarrow> (view \<times> 'w) option" where
  "ClearClipRegion W mv w =
     do { let w1 = BlackoutMiniView W mv w;
          mv1 \<leftarrow> (if isGraphicsCaptureCompatible mv then
                   (case clearClip (graphicsRuntime W w1) (mirrorOf mv) of
                      Done m \<Rightarrow> Some (mv\<lparr>mirrorOf := m\<rparr>) | _ \<Rightarrow> None)
                 else Some mv);
          w2 \<leftarrow> restore_user_size W mv1 w1;
          let mv2 = mv1\<lparr>isClipped := False,
                rcClip := (case GetClientRect W (hSource mv1) w2 of Some r \<Rightarrow> r | None \<Rightarrow> rcClip mv1)\<rparr>;
          mv3 \<leftarrow> FixRatio W mv2 w2;
          Some (mv3, w2) }"

definition clamp_to :: "int \<Rightarrow> int \<Rightarrow> int \<Rightarrow> int" where
  "clamp_to lo hi n = (if n < lo then lo else if n > hi then hi else n)"

definition AdjustClipTop :: "'w win32 \<Rightarrow> int \<Rightarrow> view \<Rightarrow> 'w \<Rightarrow> view" where
  "AdjustClipTop W newTop mv w =
     (let mv1 = ClearFixRatioCache mv in
      case GetClientRect W (hSource mv) w of None \<Rightarrow> mv1
      | Some s \<Rightarrow> mv1\<lparr>rcClip := (rcClip mv1)\<lparr>top := clamp_to (top s) (bottom s) newTop\<rparr>\<rparr>)"

definition AdjustClipLeft :: "'w win32 \<Rightarrow> int \<Rightarrow> view \<Rightarrow> 'w \<Rightarrow> view" where
  "AdjustClipLeft W newLeft mv w =
     (let mv1 = ClearFixRatioCache mv in
      case GetClientRect W (hSource mv) w of None \<Rightarrow> mv1
      | Some s \<Rightarrow> mv1\<lparr>rcClip := (rcClip mv1)\<lparr>left := clamp_to (left s) (right s) newLeft\<rparr>\<rparr>)"

definition AdjustClipRight :: "'w win32 \<Rightarrow> int \<Rightarrow> view \<Rightarrow> 'w \<Rightarrow> view" where
  "AdjustClipRight W newRight mv w =
     (let mv1 = ClearFixRatioCache mv in
      case GetClientRect W (hSource mv) w of None \<Rightarrow> mv1
      | Some s \<Rightarrow> mv1\<lparr>rcClip := (rcClip mv1)\<lparr>right := clamp_to (left s) (right s) newRight\<rparr>\<rparr>)"

definition AdjustClipBottom :: "'w win32 \<Rightarrow> int \<Rightarrow> view \<Rightarrow> 'w \<Rightarrow> view" where
  "AdjustClipBottom W newBottom mv w =
     (let mv1 = ClearFixRatioCache mv in
      case GetClientRect W (hSource mv) w of None \<Rightarrow> mv1
      | Some s \<Rightarrow> mv1\<lparr>rcClip := (rcClip mv1)\<lparr>bottom := clamp_to (top s) (bottom s) newBottom\<rparr>\<rparr>)"

definition AdjustWindowLeft :: "'w win32 \<Rightarrow> int \<Rightarrow> view \<Rightarrow> 'w \<Rightarrow> 'w" where
  "AdjustWindowLeft W newLeft mv w = MoveTo W newLeft (Top_of W mv w) mv w"

definition AdjustWindowTop :: "'w win32 \<Rightarrow> int \<Rightarrow> view \<Rightarrow> 'w \<Rightarrow> 'w" where
  "AdjustWindowTop W newTop mv w = MoveTo W (Left_of W mv w) newTop mv w"

definition AdjustCliWidth :: "'w win32 \<Rightarrow> int \<Rightarrow> view \<Rightarrow> 'w \<Rightarrow> (view \<times> 'w) option" where
  "AdjustCliWidth W newCliWidth mv w =
     do { (bw, bh) \<leftarrow> border_or_zero W mv w;
          ch \<leftarrow> cliHeight W mv w;
          (mv1, newCliHeight) \<leftarrow>
            (if lockRatio mv then
               do { (sw, sh) \<leftarrow> shown_size W mv w; p \<leftarrow> mul32 newCliWidth sh; n \<leftarrow> RoundedQuotient p sw;
                    Some (mv\<lparr>lastCliWidthFixedTo := sw, lastCliHeightFixedTo := sh\<rparr>, n) }
             else Some (mv, ch));
          let mv2 = mv1\<lparr>lastUserSetCliWidth := newCliWidth, lastUserSetCliHeight := newCliHeight\<rparr>;
          width \<leftarrow> add32 newCliWidth bw; height \<leftarrow> add32 newCliHeight bh;
          Some (mv2, SetSize W width height mv2 w) }"

definition AdjustCliHeight :: "'w win32 \<Rightarrow> int \<Rightarrow> view \<Rightarrow> 'w \<Rightarrow> (view \<times> 'w) option" where
  "AdjustCliHeight W newCliHeight mv w =
     do { (bw, bh) \<leftarrow> border_or_zero W mv w;
          cw \<leftarrow> cliWidth W mv w;
          (mv1, newCliWidth) \<leftarrow>
            (if lockRatio mv then
               do { (sw, sh) \<leftarrow> shown_size W mv w; p \<leftarrow> mul32 newCliHeight sw; n \<leftarrow> RoundedQuotient p sh;
                    Some (mv\<lparr>lastCliWidthFixedTo := sw, lastCliHeightFixedTo := sh\<rparr>, n) }
             else Some (mv, cw));
          let mv2 = mv1\<lparr>lastUserSetCliWidth := newCliWidth, lastUserSetCliHeight := newCliHeight\<rparr>;
          width \<leftarrow> add32 newCliWidth bw; height \<leftarrow> add32 newCliHeight bh;
          Some (mv2, SetSize W width height mv2 w) }"

section \<open>Visibility\<close>

text \<open>
  The walk of \<open>IsSourceOnTop\<close> from the source up its parents; it ends when the parents do.
\<close>

partial_function (option) climb :: "'w win32 \<Rightarrow> 'w \<Rightarrow> hwnd \<Rightarrow> hwnd \<Rightarrow> bool option" where
  "climb W w hForeground hContainer =
     (let p = GetParent W hContainer w in
      if p = hForeground then Some True
      else if p \<noteq> NULL then climb W w hForeground p
      else Some False)"

declare climb.simps [code]

definition IsSourceOnTop :: "'w win32 \<Rightarrow> view \<Rightarrow> 'w \<Rightarrow> bool option" where
  "IsSourceOnTop W mv w =
     (let fg = GetForegroundWindow W w in
      if hSource mv = fg then Some True
      else if hSource mv \<noteq> NULL \<and> fg \<noteq> NULL then climb W w fg (hSource mv)
      else Some False)"

definition CheckHideBySourceOnTop :: "'w win32 \<Rightarrow> view \<Rightarrow> 'w \<Rightarrow> (view \<times> 'w) option" where
  "CheckHideBySourceOnTop W mv w =
     (if hideWhenSourceOnTop mv then
        do { onTop \<leftarrow> IsSourceOnTop W mv w;
             if hiddenBySourceOnTop mv \<noteq> onTop then
               do { let mv1 = mv\<lparr>hiddenBySourceOnTop := \<not> hiddenBySourceOnTop mv\<rparr>;
                    Some (mv1,
                      if hiddenBySourceOnTop mv1 \<and> \<not> editMode mv1 then Hide W mv1 w
                      else if \<not> hiddenBySourceOnTop mv1 \<and> \<not> hiddenByParent mv1 then Show W mv1 w
                      else w) }
             else Some (mv, w) }
      else Some (mv, w))"

definition ShowByParentRequest :: "'w win32 \<Rightarrow> view \<Rightarrow> 'w \<Rightarrow> view \<times> 'w" where
  "ShowByParentRequest W mv w =
     (mv\<lparr>hiddenByParent := False\<rparr>,
      if hiddenByParent mv \<and> \<not> hiddenBySourceOnTop mv then Show W mv w else w)"

definition HideByParentRequest :: "'w win32 \<Rightarrow> view \<Rightarrow> 'w \<Rightarrow> view \<times> 'w" where
  "HideByParentRequest W mv w =
     (mv\<lparr>hiddenByParent := True\<rparr>, if \<not> hiddenByParent mv then Hide W mv w else w)"

definition ToggleHideWhenSourceOnTop :: "'w win32 \<Rightarrow> view \<Rightarrow> 'w \<Rightarrow> (view \<times> 'w) option" where
  "ToggleHideWhenSourceOnTop W mv w =
     (let (mv1, w1) = (if hideWhenSourceOnTop mv \<and> hiddenBySourceOnTop mv
                       then (mv\<lparr>hiddenBySourceOnTop := False\<rparr>, Show W mv w) else (mv, w))
      in CheckHideBySourceOnTop W (mv1\<lparr>hideWhenSourceOnTop := \<not> hideWhenSourceOnTop mv1\<rparr>) w1)"

definition ToggleLockRatio :: "'w win32 \<Rightarrow> view \<Rightarrow> 'w \<Rightarrow> view option" where
  "ToggleLockRatio W mv w = FixRatio W (mv\<lparr>lockRatio := \<not> lockRatio mv\<rparr>) w"

definition SetEditMode :: "'w win32 \<Rightarrow> bool \<Rightarrow> view \<Rightarrow> 'w \<Rightarrow> (view \<times> 'w) option" where
  "SetEditMode W newStatus mv w =
     (let mv1 = mv\<lparr>editMode := newStatus\<rparr>;
          cliRect = or_zero (getClientRect W mv1 w);
          (oldLeft, oldTop) = (case GetClientScreenTopLeft W mv1 w of Some p \<Rightarrow> p | None \<Rightarrow> (0, 0));
          w1 = (if newStatus
                then Show W mv1 (SetWinLong W GWL_STYLE (GetWinLong W GWL_STYLE mv1 w OR editModeStyles) mv1 w)
                else SetWinLong W GWL_STYLE (GetWinLong W GWL_STYLE mv1 w AND NOT editModeStyles) mv1 w);
          w2 = RefreshFrame W mv1 w1;
          (newLeft, newTop) = (case GetClientScreenTopLeft W mv1 w2 of Some p \<Rightarrow> p | None \<Rightarrow> (0, 0))
      in do {
        size \<leftarrow> ClientRectToWindowSize W cliRect mv1 w2;
        let (newWidth, newHeight) = (case size of Some x \<Rightarrow> x | None \<Rightarrow> (0, 0));
        dx \<leftarrow> sub32 oldLeft newLeft; x \<leftarrow> add32 (Left_of W mv1 w2) dx;
        dy \<leftarrow> sub32 oldTop newTop; y \<leftarrow> add32 (Top_of W mv1 w2) dy;
        Some (mv1, SetPos W x y newWidth newHeight mv1 w2) })"

section \<open>Sizing\<close>

datatype sizing_edge =
  WMSZ_LEFT | WMSZ_RIGHT | WMSZ_TOP | WMSZ_TOPLEFT | WMSZ_TOPRIGHT | WMSZ_BOTTOM |
  WMSZ_BOTTOMLEFT | WMSZ_BOTTOMRIGHT

text \<open>The rectangle \<open>DoSizing\<close> leaves when the ratio is locked.\<close>

definition ratio_rect ::
    "sizing_edge \<Rightarrow> int \<Rightarrow> int \<Rightarrow> int \<Rightarrow> int \<Rightarrow> int \<Rightarrow> int \<Rightarrow> rect \<Rightarrow> rect option" where
  "ratio_rect edge bw bh mw mh sw sh r =
     do { toHeight \<leftarrow> (if edge = WMSZ_BOTTOM \<or> edge = WMSZ_TOP then Some True
                     else do { a \<leftarrow> mul32 mw sh; b \<leftarrow> mul32 sw mh;
                               Some (a > b \<and> edge \<noteq> WMSZ_LEFT \<and> edge \<noteq> WMSZ_RIGHT) });
          if toHeight then
            do { p \<leftarrow> mul32 mh sw; q \<leftarrow> RoundedQuotient p sh;
                 if edge = WMSZ_BOTTOMLEFT \<or> edge = WMSZ_TOPLEFT then
                   do { a \<leftarrow> sub32 (right r) q; l \<leftarrow> sub32 a bw; Some (r\<lparr>left := l\<rparr>) }
                 else
                   do { a \<leftarrow> add32 (left r) q; x \<leftarrow> add32 a bw; Some (r\<lparr>right := x\<rparr>) } }
          else
            do { p \<leftarrow> mul32 mw sh; q \<leftarrow> RoundedQuotient p sw;
                 if edge = WMSZ_TOPRIGHT \<or> edge = WMSZ_TOPLEFT then
                   do { a \<leftarrow> sub32 (bottom r) q; t \<leftarrow> sub32 a bh; Some (r\<lparr>top := t\<rparr>) }
                 else
                   do { a \<leftarrow> add32 (top r) q; x \<leftarrow> add32 a bh; Some (r\<lparr>bottom := x\<rparr>) } } }"

definition DoSizing ::
    "'w win32 \<Rightarrow> view_prefs option \<Rightarrow> sizing_edge \<Rightarrow> rect \<Rightarrow> view \<Rightarrow> 'w \<Rightarrow> (rect \<times> view \<times> 'w) option" where
  "DoSizing W user edge r mv w =
     do { let mv1 = ClearFixRatioCache mv;
          (bw, bh) \<leftarrow> border_or_zero W mv1 w;
          (r1, mv2, w1) \<leftarrow>
            (if settingWindow mv1 then Some (r, mv1, PaintInstructions W mv1 w)
             else if lockRatio mv1 then
               do { rw \<leftarrow> rect_width r; mw \<leftarrow> sub32 rw bw; rh \<leftarrow> rect_height r; mh \<leftarrow> sub32 rh bh;
                    (sw, sh) \<leftarrow> shown_size W mv1 w;
                    r1 \<leftarrow> ratio_rect edge bw bh mw mh sw sh r;
                    let mv2 = mv1\<lparr>lastCliWidthFixedTo := sw, lastCliHeightFixedTo := sh\<rparr>;
                    w1 \<leftarrow> PaintMiniView W user mv2 w;
                    Some (r1, mv2, w1) }
             else Some (r, mv1, w));
          rw \<leftarrow> rect_width r1; uw \<leftarrow> sub32 rw bw; rh \<leftarrow> rect_height r1; uh \<leftarrow> sub32 rh bh;
          Some (r1, mv2\<lparr>lastUserSetCliWidth := uw, lastUserSetCliHeight := uh\<rparr>, w1) }"

definition SizeFinished :: "'w win32 \<Rightarrow> view_prefs option \<Rightarrow> view \<Rightarrow> 'w \<Rightarrow> (view \<times> 'w) option" where
  "SizeFinished W user mv w =
     do { mv1 \<leftarrow> (if isClipped mv \<and> isGraphicsCaptureCompatible mv then mirror_setClip W mv w else Some mv);
          Some (request NotifyChange user mv1, w) }"

definition WindowMoved :: "view_prefs option \<Rightarrow> view \<Rightarrow> view" where
  "WindowMoved user mv = request NotifyChange user mv"

record minmaxinfo =
  ptMaxTrackSize :: "int \<times> int"
  ptMinTrackSize :: "int \<times> int"

definition SetMinMaxSize :: "'w win32 \<Rightarrow> view \<Rightarrow> 'w \<Rightarrow> minmaxinfo option" where
  "SetMinMaxSize W mv w =
     do { let r = source_rect W mv w;
          vw \<leftarrow> rect_width r; vh \<leftarrow> rect_height r;
          least \<leftarrow> (if vw > vh then
                      do { x \<leftarrow> (if vh = 0 then Some 0 else do { p \<leftarrow> mul32 minimumDimension vw; div32 p vh });
                           Some (x, minimumDimension) }
                    else
                      do { y \<leftarrow> (if vw = 0 then Some 0 else do { p \<leftarrow> mul32 minimumDimension vh; div32 p vw });
                           Some (minimumDimension, y) });
          Some \<lparr>ptMaxTrackSize = (2147483647, 2147483647), ptMinTrackSize = least\<rparr> }"

section \<open>The source image\<close>

text \<open>
  \<open>WinGdiImage(hSource).isValid()\<close>: the image has pixels, all of them could be read, and they are
  not all the same.
\<close>

definition gdi_image_valid :: "'w win32 \<Rightarrow> hwnd \<Rightarrow> 'w \<Rightarrow> bool option" where
  "gdi_image_valid W h w =
     (if h = NULL then Some False
      else do { let r = or_zero (GetClientRect W h w);
                sw \<leftarrow> rect_width r; sh \<leftarrow> rect_height r;
                if sw > 0 \<and> sh > 0 then
                  (case windowPixels W h r w of None \<Rightarrow> Some False | Some ps \<Rightarrow> Some (\<not> isAllSame ps))
                else Some False })"

definition ValidateImage :: "'w win32 \<Rightarrow> view \<Rightarrow> 'w \<Rightarrow> view option" where
  "ValidateImage W mv w =
     (if isFrozen mv then
        (if isGdiCompatible mv then
           do { valid \<leftarrow> gdi_image_valid W (hSource mv) w;
                Some (if valid then mv\<lparr>isFrozen := False\<rparr> else mv) }
         else Some mv)
      else if isGdiCompatible mv then
        do { valid \<leftarrow> gdi_image_valid W (hSource mv) w;
             Some (if valid then mv\<lparr>imageCached := True\<rparr> else mv\<lparr>isFrozen := True\<rparr>) }
      else Some mv)"

definition PostCloseMessage :: "'w win32 \<Rightarrow> view \<Rightarrow> 'w \<Rightarrow> 'w" where
  "PostCloseMessage W mv w = PostMessage W (getHandle mv) WM_CLOSE w"

text \<open>\<open>rcSource\<close> is not initialised here: if the call fails its value is indeterminate.\<close>

definition ValidateProperties :: "'w win32 \<Rightarrow> view \<Rightarrow> 'w \<Rightarrow> (view \<times> 'w) option" where
  "ValidateProperties W mv w =
     (if \<not> IsWindow W (hSource mv) w then Some (mv, PostCloseMessage W mv w)
      else do {
        (mv1, w1) \<leftarrow> CheckHideBySourceOnTop W mv w;
        rcSource \<leftarrow> GetClientRect W (hSource mv1) w1;
        sw \<leftarrow> rect_width rcSource; sh \<leftarrow> rect_height rcSource;
        if cx (sourceSize mv1) \<noteq> sw \<or> cy (sourceSize mv1) \<noteq> sh then
          do { mv2 \<leftarrow> FixRatio W (mv1\<lparr>sourceSize := \<lparr>cx = sw, cy = sh\<rparr>\<rparr>) w1;
               if isGraphicsCaptureCompatible mv2 then
                 (case handleSourceSizeChange (graphicsRuntime W w1) sw sh (mirrorOf mv2) of
                    Done m \<Rightarrow> Some (mv2\<lparr>mirrorOf := m\<rparr>, w1) | _ \<Rightarrow> None)
               else Some (mv2, w1) }
        else Some (mv1, w1) })"

definition RunHalfSecondActions :: "'w win32 \<Rightarrow> view \<Rightarrow> 'w \<Rightarrow> (view \<times> 'w) option" where
  "RunHalfSecondActions W mv w =
     do { (mv1, w1) \<leftarrow> ValidateProperties W mv w;
          mv2 \<leftarrow> (if settingWindow mv1 then Some mv1 else ValidateImage W mv1 w1);
          Some (mv2, w1) }"

definition RunFrame :: "'w win32 \<Rightarrow> view_prefs option \<Rightarrow> view \<Rightarrow> 'w \<Rightarrow> 'w option" where
  "RunFrame W user mv w = (if settingWindow mv then Some w else PaintMiniView W user mv w)"

definition ends_with :: "string \<Rightarrow> string \<Rightarrow> bool" where
  "ends_with s t \<longleftrightarrow> length t \<le> length s \<and> drop (length s - length t) s = t"

text \<open>\<open>getWindowText\<close> gives nothing for an empty title.\<close>

definition window_title :: "'w win32 \<Rightarrow> hwnd \<Rightarrow> 'w \<Rightarrow> string option" where
  "window_title W h w = (case GetWindowText W h w of Some t \<Rightarrow> if t = [] then None else Some t | None \<Rightarrow> None)"

definition PreferGraphicsCapture :: "'w win32 \<Rightarrow> hwnd \<Rightarrow> 'w \<Rightarrow> bool" where
  "PreferGraphicsCapture W h w =
     (case window_title W h w of Some t \<Rightarrow> ends_with t ''Mozilla Firefox'' | None \<Rightarrow> False)"

definition ExitSizeMove :: "'w win32 \<Rightarrow> view_prefs option \<Rightarrow> view \<Rightarrow> 'w \<Rightarrow> (view \<times> 'w) option" where
  "ExitSizeMove W user mv w =
     (if \<not> settingWindow mv then SizeFinished W user mv w
      else case GetCursorPos W w of None \<Rightarrow> Some (mv, w)
      | Some pt \<Rightarrow>
          do { let w1 = Hide W mv w;
               let target = WindowFromPhysicalPoint W pt w1;
               valid \<leftarrow> gdi_image_valid W target w1;
               (mv1, source) \<leftarrow>
                 (if \<not> PreferGraphicsCapture W target w1 \<and> valid
                  then Some (mv\<lparr>isGdiCompatible := True, isGraphicsCaptureCompatible := False\<rparr>, target)
                  else (case createMirror (graphicsRuntime W w1) (getHandle mv) target (mirrorOf mv) of
                          Done (h, m) \<Rightarrow> Some (mv\<lparr>mirrorOf := m, isGraphicsCaptureCompatible := True, isFrozen := False\<rparr>, h)
                        | _ \<Rightarrow> None));
               let mv2 = SetSourceHandle source mv1;
               let mv3 = mv2\<lparr>rcClip := (case GetClientRect W source w1 of Some r \<Rightarrow> r | None \<Rightarrow> rcClip mv2)\<rparr>;
               sw \<leftarrow> rect_width (rcClip mv3); sh \<leftarrow> rect_height (rcClip mv3);
               cw \<leftarrow> cliWidth W mv3 w1; ch \<leftarrow> cliHeight W mv3 w1;
               let mv4 = mv3\<lparr>sourceSize := \<lparr>cx = sw, cy = sh\<rparr>, lastUserSetCliWidth := cw,
                     lastUserSetCliHeight := ch, settingWindow := False\<rparr>;
               let w2 = snd (SetWinText W (case window_title W source w1 of
                     Some t \<Rightarrow> ''Mini View - ['' @ t @ '']'' | None \<Rightarrow> ''Mini View (Unknown)'') mv4 w1);
               let w3 = Show W mv4 w2;
               (case user of None \<Rightarrow> Some (mv4, w3)
                | Some p \<Rightarrow>
                    do { (mv5, w4) \<leftarrow> (if matchSourcePosition p \<or> matchSourceSize p
                             then MatchSource W (matchSourcePosition p) (matchSourceSize p) mv4 w3
                             else Some (mv4, w3));
                         Some (request NotifyChange user mv5, w4) }) })"

section \<open>Commands and messages\<close>

definition ID_FIRST :: int where "ID_FIRST = 41001"
definition Id_ClearClipRegion :: int where "Id_ClearClipRegion = ID_FIRST"
definition Id_SetClipRegion :: int where "Id_SetClipRegion = ID_FIRST + 1"
definition Id_Frozen :: int where "Id_Frozen = ID_FIRST + 2"
definition Id_LockRatio :: int where "Id_LockRatio = ID_FIRST + 3"
definition Id_MatchSource :: int where "Id_MatchSource = ID_FIRST + 4"
definition Id_HideWhenSourceOnTop :: int where "Id_HideWhenSourceOnTop = ID_FIRST + 5"
definition Id_Hide :: int where "Id_Hide = ID_FIRST + 6"
definition Id_Close :: int where "Id_Close = ID_FIRST + 7"
definition Id_Properties :: int where "Id_Properties = ID_FIRST + 8"

text \<open>The commands the menu offers, each with whether it is enabled.\<close>

definition menu_items :: "view_prefs option \<Rightarrow> view \<Rightarrow> (int \<times> bool) list" where
  "menu_items user mv =
     (if settingWindow mv then []
      else (if isFrozen mv \<and> asks user showFrozenContextMenuItem then [(Id_Frozen, True)] else []) @
        [(Id_LockRatio, True), (Id_HideWhenSourceOnTop, True), (Id_MatchSource, True),
         (Id_ClearClipRegion, isClipped mv), (Id_SetClipRegion, True)]) @ [(Id_Close, True)]"

definition FrozenInfo :: "'w win32 \<Rightarrow> 'w \<Rightarrow> 'w" where
  "FrozenInfo W w = MessageBox W ''Your source window has stopped rendering itself!'' w"

definition HideCommand :: "'w win32 \<Rightarrow> 'w \<Rightarrow> 'w" where
  "HideCommand W w = MessageBox W ''Unimplemented: Hide MiniView'' w"

definition OpenProperties :: "'w win32 \<Rightarrow> 'w \<Rightarrow> 'w" where
  "OpenProperties W w = MessageBox W ''Unimplemented: Open MiniView Properties'' w"

text \<open>The switch on the command the menu returned, with \<open>performedCommand\<close>.\<close>

definition menu_command ::
    "'w win32 \<Rightarrow> view_prefs option \<Rightarrow> int \<Rightarrow> view \<Rightarrow> 'w \<Rightarrow> (bool \<times> view \<times> 'w) option" where
  "menu_command W user result mv w =
     (if result = Id_Frozen then Some (True, mv, FrozenInfo W w)
      else if result = Id_ClearClipRegion then map_option (Pair True) (ClearClipRegion W mv w)
      else if result = Id_SetClipRegion then map_option (Pair True) (SetClipRegion W user mv w)
      else if result = Id_MatchSource then map_option (Pair True) (MatchSource W True True mv w)
      else if result = Id_LockRatio then map_option (\<lambda>mv1. (True, mv1, w)) (ToggleLockRatio W mv w)
      else if result = Id_HideWhenSourceOnTop then map_option (Pair True) (ToggleHideWhenSourceOnTop W mv w)
      else if result = Id_Hide then Some (True, mv, HideCommand W w)
      else if result = Id_Close then Some (True, mv, PostCloseMessage W mv w)
      else if result = Id_Properties then Some (True, mv, OpenProperties W w)
      else Some (False, mv, w))"

definition RunContextMenu :: "'w win32 \<Rightarrow> view_prefs option \<Rightarrow> view \<Rightarrow> 'w \<Rightarrow> (view \<times> 'w) option" where
  "RunContextMenu W user mv w =
     (let w1 = SetForegroundWindow W (getHandle mv) w;
          (result, w2) = TrackPopupMenu W (getHandle mv) (menu_items user mv) w1
      in do { (performed, mv1, w3) \<leftarrow> menu_command W user result mv w2;
              Some (if performed then request NotifyChange user mv1 else mv1, w3) })"

definition ProcessCloseMessage :: "'w win32 \<Rightarrow> view_prefs option \<Rightarrow> view \<Rightarrow> 'w \<Rightarrow> view \<times> 'w" where
  "ProcessCloseMessage W user mv w =
     (if user \<noteq> None then (request CloseMiniView user mv, w) else DestroyThis W mv w)"

definition NonClientHitTest :: "int \<Rightarrow> view \<Rightarrow> int" where
  "NonClientHitTest defaultHit mv =
     (if defaultHit = HTCLIENT \<and> editMode mv then HTCAPTION else defaultHit)"

definition CreateThis ::
    "'w win32 \<Rightarrow> hwnd \<Rightarrow> hwnd \<Rightarrow> int \<Rightarrow> int \<Rightarrow> string list \<Rightarrow> view \<Rightarrow> 'w \<Rightarrow> (bool \<times> string list \<times> view \<times> 'w) option" where
  "CreateThis W hParent sourceHandle xc yc registered mv w =
     (let mv1 = mv\<lparr>hSource := sourceHandle\<rparr>;
          (classOk, registered1, mv2, w1) = RegisterWindowClass W ''MiniViewWin'' registered mv1 w
      in if \<not> classOk then Some (False, registered1, mv2, w1)
         else do {
           let mv3 = mv2\<lparr>rcClip := (case GetClientRect W sourceHandle w1 of Some r \<Rightarrow> r | None \<Rightarrow> rcClip mv2)\<rparr>;
           sw \<leftarrow> rect_width (rcClip mv3); initWidth \<leftarrow> div32 sw 6;
           sh \<leftarrow> rect_height (rcClip mv3); initHeight \<leftarrow> div32 sh 6;
           hw \<leftarrow> div32 initWidth 2; x \<leftarrow> sub32 xc hw; hh \<leftarrow> div32 initHeight 2; y \<leftarrow> sub32 yc hh;
           let (created, mv4, w2) = CreateClassWindow W 0 ''Mini View'' constantStyles x y initWidth initHeight hParent mv3 w1;
           if created then
             do { (mv5, w3) \<leftarrow> SetEditMode W True mv4 w2;
                  let w4 = SetWinLong W GWL_EXSTYLE
                        (GetWinLong W (sint (word_of_int GWL_EXSTYLE AND NOT WS_EX_TRANSPARENT)) mv5 w3) mv5 w3;
                  let w5 = SetWindowPos W (getHandle mv5) HWND_TOP 0 0 0 0 (SWP_NOSIZE OR SWP_NOMOVE) w4;
                  Some (True, registered1, mv5, PaintInstructions W mv5 w5) }
           else Some (False, registered1, mv4, w2) })"

datatype view_message =
    WM_EXITSIZEMOVE
  | WM_CLOSE_MSG
  | WM_ERASEBKGND
  | WM_SIZING sizing_edge rect
  | WM_MOVE
  | WM_NCRBUTTONUP
  | WM_GETMINMAXINFO
  | WM_NCHITTEST int
  | ViewDefault int  \<comment> \<open>any other message, with the default procedure's result\<close>

datatype reply = Result int | SizedRect rect | MinMax minmaxinfo

definition WndProc ::
    "'w win32 \<Rightarrow> view_prefs option \<Rightarrow> view_message \<Rightarrow> view \<Rightarrow> 'w \<Rightarrow> (reply \<times> view \<times> 'w) option" where
  "WndProc W user msg mv w =
     (case msg of
        WM_EXITSIZEMOVE \<Rightarrow> map_option (Pair (Result 0)) (ExitSizeMove W user mv w)
      | WM_CLOSE_MSG \<Rightarrow> Some (Result 0, ProcessCloseMessage W user mv w)
      | WM_ERASEBKGND \<Rightarrow> map_option (\<lambda>(r, w1). (Result r, mv, w1)) (EraseBackground W user mv w)
      | WM_SIZING edge r \<Rightarrow> map_option (\<lambda>(r1, mv1, w1). (SizedRect r1, mv1, w1)) (DoSizing W user edge r mv w)
      | WM_MOVE \<Rightarrow> Some (Result 0, WindowMoved user mv, w)
      | WM_NCRBUTTONUP \<Rightarrow> map_option (Pair (Result 0)) (RunContextMenu W user mv w)
      | WM_GETMINMAXINFO \<Rightarrow> map_option (\<lambda>i. (MinMax i, mv, w)) (SetMinMaxSize W mv w)
      | WM_NCHITTEST hit \<Rightarrow> Some (Result (NonClientHitTest hit mv), mv, w)
      | ViewDefault r \<Rightarrow> Some (Result r, mv, w))"

end
