(* ===== verification/Mini_View_Facts.thy ===== *)
theory Mini_View_Facts
  imports Mini_View
begin

text \<open>
  What the operations of a mini view guarantee: the fitted size and the internal rectangle of
  \<open>FixRatio\<close>, the rectangle of \<open>DoSizing\<close>, the clip edges, the least track size, the walk of
  \<open>IsSourceOnTop\<close>, the placement of \<open>MatchSource\<close> and the visibility flags.
\<close>

section \<open>Fitting a size\<close>

text \<open>Side lengths for which no product of two of them leaves 32 bits.\<close>

definition side :: "int \<Rightarrow> bool" where
  "side n \<longleftrightarrow> 0 < n \<and> n \<le> 32767"

lemma side_product:
  assumes "side a" "side b"
  shows "mul32 a b = Some (a * b)" "0 < a * b" "a * b \<le> 1073676289"
proof -
  have "a * b \<le> 32767 * 32767" using assms by (intro mult_mono) (auto simp: side_def)
  moreover have pos: "0 < a * b" using assms by (simp add: side_def)
  ultimately show "mul32 a b = Some (a * b)" "0 < a * b" "a * b \<le> 1073676289"
    by (simp_all add: mul32_def in_s32_iff)
qed

lemma side_quotient:
  assumes "side a" "side b" "side d"
  shows "RoundedQuotient (a * b) d = Some (round_half_away (a * b) d)"
proof -
  have "in_s32 (a * b)" "in_s32 d" "rounding_defined (a * b) d"
    using side_product [OF assms(1,2)] assms(3) by (auto simp: in_s32_iff side_def rounding_defined_def)
  then show ?thesis by (simp add: RoundedQuotient_value)
qed

text \<open>A side scaled by \<open>b / d\<close> that stays within \<open>m\<close>.\<close>

lemma scaled_side:
  assumes "side a" "side b" "side d" "a * b \<le> m * d" "0 \<le> m"
  shows "0 \<le> round_half_away (a * b) d \<and> round_half_away (a * b) d \<le> m \<and>
    2 * \<bar>round_half_away (a * b) d * d - a * b\<bar> \<le> d"
  using assms side_product(2) [OF assms(1,2)] round_half_away_mono_pos [of d "a * b" m]
    round_half_away_nearest [of d "a * b"]
  by (simp add: side_def)

text \<open>The result is inside the guide, fills it in one direction, and has the source's ratio.\<close>

definition fits :: "int \<Rightarrow> int \<Rightarrow> int \<Rightarrow> int \<Rightarrow> int \<Rightarrow> int \<Rightarrow> bool" where
  "fits gw gh sw sh cw ch \<longleftrightarrow> 0 \<le> cw \<and> cw \<le> gw \<and> 0 \<le> ch \<and> ch \<le> gh \<and>
     (cw = gw \<and> 2 * \<bar>ch * sw - gw * sh\<bar> \<le> sw \<or> ch = gh \<and> 2 * \<bar>cw * sh - gh * sw\<bar> \<le> sh)"

lemma fits_wide:
  assumes "side gw" "side gh" "side sw" "side sh" "gw * sh \<le> gh * sw"
  shows "fits gw gh sw sh gw (round_half_away (gw * sh) sw)"
  using scaled_side [of gw sh sw gh] assms by (simp add: fits_def side_def)

lemma fits_tall:
  assumes "side gw" "side gh" "side sw" "side sh" "gh * sw \<le> gw * sh"
  shows "fits gw gh sw sh (round_half_away (gh * sw) sh) gh"
  using scaled_side [of gh sw sh gw] assms by (simp add: fits_def side_def)

lemma fits_equal: "gw * sh = gh * sw \<Longrightarrow> side gw \<Longrightarrow> side gh \<Longrightarrow> side sw \<Longrightarrow> fits gw gh sw sh gw gh"
  by (simp add: fits_def side_def)

lemma product_le:
  fixes a b c d :: int
  assumes "0 \<le> a" "a \<le> b" "0 \<le> c" "c \<le> d"
  shows "a * c \<le> d * b"
  using mult_mono [of a b c d] assms by (simp add: mult.commute)

lemma fitted_size_value:
  assumes s: "side gw" "side gh" "side sw" "side sh"
  shows "\<exists>cw ch. fitted_size gw gh sw sh = Some (cw, ch) \<and> fits gw gh sw sh cw ch"
proof -
  note prod = side_product(1) [OF s(3,2)] side_product(1) [OF s(4,1)] side_product(1) [OF s(1,4)] side_product(1) [OF s(2,3)]
  note quot = side_quotient [OF s(1,4,3)] side_quotient [OF s(2,3,4)]
  have pos: "0 < gw" "0 < gh" "0 < sw" "0 < sh" using s by (simp_all add: side_def)
  consider "sw \<le> gw" "sh \<le> gh" | "sw > gw" "sh \<le> gh" | "sw \<le> gw" "sh > gh" | "sw > gw" "sh > gh"
    by linarith
  then show ?thesis
  proof cases
    case 1
    then show ?thesis
      using fits_wide [OF s] fits_tall [OF s] fits_equal [of gw sh gh sw] s pos
      by (cases "sw * gh > sh * gw"; cases "sh * gw > sw * gh")
        (auto simp: fitted_size_def prod quot mult.commute)
  next
    case 2
    then have "gw * sh \<le> gh * sw" using pos by (intro product_le) auto
    with 2 show ?thesis using fits_wide [OF s] pos by (auto simp: fitted_size_def prod quot)
  next
    case 3
    then have "gh * sw \<le> gw * sh" using pos by (intro product_le) auto
    with 3 show ?thesis using fits_tall [OF s] pos by (auto simp: fitted_size_def prod quot)
  next
    case 4
    then show ?thesis
      using fits_wide [OF s] fits_tall [OF s] fits_equal [of gw sh gh sw] s pos
      by (cases "gw * sh > gh * sw"; cases "gh * sw > gw * sh")
        (auto simp: fitted_size_def prod quot)
  qed
qed

lemma half_rounded: "0 \<le> d \<Longrightarrow> d \<le> 32767 \<Longrightarrow> RoundedQuotient d 2 = Some ((d + 1) div 2)"
proof -
  assume d: "0 \<le> d" "d \<le> 32767"
  then have "RoundedQuotient d 2 = Some (round_half_away d 2)"
    by (subst RoundedQuotient_value) (auto simp: in_s32_iff rounding_defined_def)
  moreover have "round_half_away d 2 = (d + 1) div 2"
    using d by (cases "d = 0") (simp_all add: round_half_away_def)
  ultimately show ?thesis by simp
qed

lemma internal_clip_value:
  assumes "side gw" "side gh" "0 \<le> cw" "cw \<le> gw" "0 \<le> ch" "ch \<le> gh"
  shows "internal_clip gw gh cw ch = Some
    \<lparr>left = (gw - cw + 1) div 2, top = (gh - ch + 1) div 2,
     right = (gw - cw + 1) div 2 + cw, bottom = (gh - ch + 1) div 2 + ch\<rparr>"
proof -
  have "0 \<le> (gw - cw + 1) div 2" "(gw - cw + 1) div 2 + cw \<le> gw"
    "0 \<le> (gh - ch + 1) div 2" "(gh - ch + 1) div 2 + ch \<le> gh"
    using assms by auto
  with assms show ?thesis
    by (simp add: internal_clip_def sub32_def abs32_def add32_def in_s32_iff side_def half_rounded)
qed


section \<open>A concrete mini view\<close>

definition example_prefs :: view_prefs where
  "example_prefs = \<lparr>matchSourcePosition = False, matchSourceSize = False, lockSizeRatio = True,
     hideWhenOnTop = False, useCachedImageWhenFrozen = True, showFrozenIndicatorIcon = True,
     showFrozenContextMenuItem = True\<rparr>"

text \<open>Window 40 shows the unclipped window 50 (600 by 400) in a client area of 200 by 100.\<close>

definition example_view :: view where
  "example_view = (new_view example_prefs \<lparr>cx = 0, cy = 0\<rparr>)\<lparr>windowsItemHandle := 40, hSource := 50,
     settingWindow := False, isGdiCompatible := True, lastUserSetCliWidth := 200, lastUserSetCliHeight := 100\<rparr>"

abbreviation desk0 :: desk where "desk0 \<equiv> example_desk \<lparr>px = 0, py = 0\<rparr>"

lemmas view_evals = example_view_def new_view_def example_prefs_def new_item_def item.defs
  example_desk_def desk_win32_def desk_client_def client_origin_def desk_parent_def
  getHandle_def getWindowRect_def getClientRect_def getParent_def or_zero_def source_rect_def
  rect_width_def rect_height_def sub32_def add32_def mul32_def chk32_def in_s32_iff

lemma example_shown: "shown_size desk_win32 example_view desk0 = Some (600, 400)"
  by (simp add: shown_size_def Let_def view_evals)

lemma example_border: "border_or_zero desk_win32 example_view desk0 = Some (10, 30)"
  by (simp add: border_or_zero_def GetBorderSize_def view_evals)

lemma example_fields:
  "lockRatio example_view" "\<not> settingWindow example_view" "lastCliWidthFixedTo example_view = 0"
  "lastUserSetCliWidth example_view = 200" "lastUserSetCliHeight example_view = 100"
  "\<not> hideWhenSourceOnTop example_view" "hiddenBySourceOnTop example_view" "\<not> hiddenByParent example_view"
  by (simp_all add: example_view_def new_view_def item.defs example_prefs_def)


section \<open>Dragging an edge\<close>

text \<open>The edges a drag leaves alone, besides the free edge that restores the ratio.\<close>

fun anchored :: "sizing_edge \<Rightarrow> rect \<Rightarrow> rect \<Rightarrow> bool" where
  "anchored WMSZ_TOPLEFT r r' \<longleftrightarrow> right r' = right r \<and> bottom r' = bottom r"
| "anchored WMSZ_TOPRIGHT r r' \<longleftrightarrow> left r' = left r \<and> bottom r' = bottom r"
| "anchored WMSZ_BOTTOMLEFT r r' \<longleftrightarrow> right r' = right r \<and> top r' = top r"
| "anchored WMSZ_BOTTOMRIGHT r r' \<longleftrightarrow> left r' = left r \<and> top r' = top r"
| "anchored WMSZ_LEFT r r' \<longleftrightarrow> left r' = left r \<and> right r' = right r \<and> top r' = top r"
| "anchored WMSZ_RIGHT r r' \<longleftrightarrow> left r' = left r \<and> right r' = right r \<and> top r' = top r"
| "anchored WMSZ_TOP r r' \<longleftrightarrow> top r' = top r \<and> bottom r' = bottom r \<and> left r' = left r"
| "anchored WMSZ_BOTTOM r r' \<longleftrightarrow> top r' = top r \<and> bottom r' = bottom r \<and> left r' = left r"

definition corner :: "sizing_edge \<Rightarrow> bool" where
  "corner e \<longleftrightarrow> e \<in> {WMSZ_TOPLEFT, WMSZ_TOPRIGHT, WMSZ_BOTTOMLEFT, WMSZ_BOTTOMRIGHT}"



section \<open>Clip edges and track size\<close>

text \<open>
  Whatever value the user enters, an adjusted edge of the clip region is that value
  clamped to the source's client area, and the other three edges stay.
\<close>

theorem adjusted_edges_inside_source:
  assumes "GetClientRect W (hSource mv) w = Some s" "left s \<le> right s" "top s \<le> bottom s"
  shows "rcClip (AdjustClipLeft W n mv w) = (rcClip mv)\<lparr>left := max (left s) (min (right s) n)\<rparr> \<and>
    rcClip (AdjustClipRight W n mv w) = (rcClip mv)\<lparr>right := max (left s) (min (right s) n)\<rparr> \<and>
    rcClip (AdjustClipTop W n mv w) = (rcClip mv)\<lparr>top := max (top s) (min (bottom s) n)\<rparr> \<and>
    rcClip (AdjustClipBottom W n mv w) = (rcClip mv)\<lparr>bottom := max (top s) (min (bottom s) n)\<rparr>"
proof -
  have src: "rcClip (ClearFixRatioCache mv) = rcClip mv"
    by (simp add: ClearFixRatioCache_def)
  have clamp: "clamp_to lo hi n = max lo (min hi n)" if "lo \<le> hi" for lo hi
    using that by (simp add: clamp_to_def)
  show ?thesis
    using assms(2,3)
    by (simp add: AdjustClipLeft_def AdjustClipRight_def AdjustClipTop_def AdjustClipBottom_def Let_def
        src clamp assms(1))
qed

lemma adjusted_edges_inside_source_witness:
  "right (rcClip (AdjustClipRight desk_win32 100000 example_view desk0)) = 600"
proof -
  have "GetClientRect desk_win32 (hSource example_view) desk0 = Some \<lparr>left = 0, top = 0, right = 600, bottom = 400\<rparr>"
    by (simp add: view_evals)
  from adjusted_edges_inside_source [OF this, of 100000] show ?thesis by simp
qed

text \<open>
  For a source with a visible client area \<open>SetMinMaxSize\<close> asks for a least track
  size of at least 33 pixels in both directions, without overflow for sources up to 65 million
  pixels a side.
\<close>

theorem least_track_size:
  assumes "rect_width (source_rect W mv w) = Some vw" "rect_height (source_rect W mv w) = Some vh"
    and "0 < vw" "vw \<le> 65000000" "0 < vh" "vh \<le> 65000000"
  shows "\<exists>i. SetMinMaxSize W mv w = Some i \<and> 33 \<le> fst (ptMinTrackSize i) \<and> 33 \<le> snd (ptMinTrackSize i)"
proof -
  have q: "div32 (33 * a) b = Some (33 * a div b) \<and> 33 \<le> 33 * a div b \<and> mul32 33 a = Some (33 * a)"
    if "0 < b" "b \<le> a" "a \<le> 65000000" for a b :: int
  proof -
    have "33 * b div b \<le> 33 * a div b" using that by (intro zdiv_mono1) auto
    then show ?thesis using that by (simp add: div32_nonneg mul32_def in_s32_iff)
  qed
  show ?thesis
    using assms q [of vh vw] q [of vw vh]
    by (cases "vw > vh") (simp_all add: SetMinMaxSize_def minimumDimension_def Let_def)
qed

lemma least_track_size_witness:
  "\<exists>i. SetMinMaxSize desk_win32 example_view desk0 = Some i \<and> 33 \<le> fst (ptMinTrackSize i)"
proof -
  have "rect_width (source_rect desk_win32 example_view desk0) = Some 600"
    "rect_height (source_rect desk_win32 example_view desk0) = Some 400"
    by (simp_all add: view_evals)
  from least_track_size [OF this] show ?thesis by auto
qed

section \<open>Idempotence\<close>

lemma frame_view_queries:
  assumes "isClipped mv' = isClipped mv" "rcClip mv' = rcClip mv" "hSource mv' = hSource mv"
    and "windowsItemHandle mv' = windowsItemHandle mv"
  shows "shown_size W mv' w = shown_size W mv w" "border_or_zero W mv' w = border_or_zero W mv w"
  using assms by (simp_all add: shown_size_def border_or_zero_def GetBorderSize_def getWindowRect_def
      getClientRect_def getHandle_def source_rect_def)

lemma FixRatio_cases:
  assumes "FixRatio W mv w = Some mv'"
  obtains (same) "mv' = mv" "\<not> (lockRatio mv \<and> \<not> settingWindow mv)"
    | (cached) b sw sh where "mv' = mv" "border_or_zero W mv w = Some b" "shown_size W mv w = Some (sw, sh)"
      "sw = lastCliWidthFixedTo mv" "sh = lastCliHeightFixedTo mv"
    | (fixed) b sw sh i r where "border_or_zero W mv w = Some b" "shown_size W mv w = Some (sw, sh)"
      "mv' = mv\<lparr>internallyClipped := i, rcInternalClip := r, lastCliWidthFixedTo := sw, lastCliHeightFixedTo := sh\<rparr>"
proof (cases "lockRatio mv \<and> \<not> settingWindow mv")
  case True
  with assms obtain b sw sh where q: "border_or_zero W mv w = Some b" "shown_size W mv w = Some (sw, sh)"
    by (auto simp: FixRatio_def bind_eq_Some_conv split: if_splits)
  show ?thesis
  proof (cases "sw \<noteq> lastCliWidthFixedTo mv \<or> sh \<noteq> lastCliHeightFixedTo mv")
    case False
    with True q assms show ?thesis by (intro cached [of b sw sh]) (auto simp: FixRatio_def)
  next
    case changed: True
    let ?gw = "lastUserSetCliWidth mv" and ?gh = "lastUserSetCliHeight mv"
    from changed True q assms obtain cw ch where c: "fitted_size ?gw ?gh sw sh = Some (cw, ch)"
      by (auto simp: FixRatio_def Let_def bind_eq_Some_conv)
    show ?thesis
    proof (cases "cw \<noteq> ?gw \<or> ch \<noteq> ?gh")
      case True
      with c q changed \<open>lockRatio mv \<and> \<not> settingWindow mv\<close> assms obtain r where "internal_clip ?gw ?gh cw ch = Some r"
        by (cases "internal_clip ?gw ?gh cw ch") (auto simp: FixRatio_def Let_def)
      with True c q changed \<open>lockRatio mv \<and> \<not> settingWindow mv\<close> assms show ?thesis
        by (intro fixed [where b = b and sw = sw and sh = sh and i = True and r = r]) (auto simp: FixRatio_def Let_def)
    next
      case False
      with c q changed \<open>lockRatio mv \<and> \<not> settingWindow mv\<close> assms show ?thesis
        by (intro fixed [where b = b and sw = sw and sh = sh and i = False and r = "rcInternalClip mv"]) (auto simp: FixRatio_def Let_def)
    qed
  qed
next
  case False
  with assms have "mv' = mv" by (simp add: FixRatio_def)
  then show ?thesis using False by (rule same)
qed

text \<open>
  \<open>FixRatio\<close> is idempotent: as long as the source and the clip region keep their
  size, running it again (it runs on every change) changes nothing.
\<close>

theorem FixRatio_idempotent:
  assumes "FixRatio W mv w = Some mv'"
  shows "FixRatio W mv' w = Some mv'"
  using assms
proof (cases rule: FixRatio_cases)
  case (fixed b sw sh i r)
  then have "shown_size W mv' w = Some (sw, sh)" "border_or_zero W mv' w = Some b"
    using frame_view_queries [of mv' mv W w] by simp_all
  with fixed(3) show ?thesis by (simp add: FixRatio_def)
qed (use assms in simp_all)

lemma FixRatio_idempotent_witness:
  "\<exists>mv'. FixRatio desk_win32 example_view desk0 = Some mv' \<and> FixRatio desk_win32 mv' desk0 = Some mv'"
proof -
  have quotients: "RoundedQuotient 60000 400 = Some 150" "RoundedQuotient 50 2 = Some 25" "RoundedQuotient 0 2 = Some 0"
    by code_simp+
  have "fitted_size 200 100 600 400 = Some (150, 100)"
    "internal_clip 200 100 150 100 = Some \<lparr>left = 25, top = 0, right = 175, bottom = 100\<rparr>"
    by (simp_all add: fitted_size_def internal_clip_def quotients mul32_def sub32_def add32_def abs32_def chk32_def in_s32_iff)
  then have "FixRatio desk_win32 example_view desk0 \<noteq> None"
    using example_fields example_shown example_border by (simp add: FixRatio_def)
  then obtain mv' where r: "FixRatio desk_win32 example_view desk0 = Some mv'" by auto
  from r FixRatio_idempotent [OF r] show ?thesis by (intro exI conjI)
qed

section \<open>Is the source on top\<close>

text \<open>\<open>up W w h q\<close>: \<open>q\<close> is reached from \<open>h\<close> by parents, all but \<open>q\<close> windows.\<close>

inductive up :: "'w win32 \<Rightarrow> 'w \<Rightarrow> hwnd \<Rightarrow> hwnd \<Rightarrow> bool" for W w where
  parent: "up W w h (GetParent W h w)"
| above: "GetParent W h w \<noteq> NULL \<Longrightarrow> up W w (GetParent W h w) q \<Longrightarrow> up W w h q"

inductive_simps up_iff: "up W w h q"

lemma climb_value:
  assumes "\<And>h. GetParent W h w \<noteq> NULL \<Longrightarrow> rank (GetParent W h w) < (rank h :: nat)" "fg \<noteq> NULL"
  shows "climb W w fg h = Some (up W w h fg)"
proof (induction "rank h" arbitrary: h rule: less_induct)
  case less
  let ?p = "GetParent W h w"
  show ?case
  proof (cases "?p = NULL")
    case True
    then have "up W w h fg \<longleftrightarrow> ?p = fg" by (subst up_iff) auto
    with True assms(2) show ?thesis by (subst climb.simps) auto
  next
    case False
    with less assms(1) have "climb W w fg ?p = Some (up W w ?p fg)" by blast
    moreover have "up W w h fg \<longleftrightarrow> ?p = fg \<or> up W w ?p fg" using False by (subst up_iff) auto
    ultimately show ?thesis using False by (subst climb.simps) (auto simp: Let_def)
  qed
qed

text \<open>
  When no window is its own ancestor, \<open>IsSourceOnTop\<close> terminates and answers whether
  the foreground window is the source or one of its ancestors.
\<close>

theorem source_on_top_decided:
  assumes "\<And>h. GetParent W h w \<noteq> NULL \<Longrightarrow> rank (GetParent W h w) < (rank h :: nat)"
  shows "IsSourceOnTop W mv w = Some (hSource mv = GetForegroundWindow W w \<or>
    hSource mv \<noteq> NULL \<and> GetForegroundWindow W w \<noteq> NULL \<and> up W w (hSource mv) (GetForegroundWindow W w))"
  using climb_value [where rank = rank and fg = "GetForegroundWindow W w", OF assms]
  by (auto simp: IsSourceOnTop_def Let_def)

lemma source_on_top_decided_witness:
  "IsSourceOnTop desk_win32 (example_view\<lparr>hSource := 40\<rparr>) (desk0\<lparr>deskForeground := 30\<rparr>) = Some True"
proof -
  let ?w = "desk0\<lparr>deskForeground := 30\<rparr>"
  have "GetParent desk_win32 h ?w \<noteq> NULL \<Longrightarrow> id (GetParent desk_win32 h ?w) < id h" for h
    by (auto simp: desk_win32_def desk_parent_def example_desk_def NULL_def split: if_splits option.splits)
  then have "IsSourceOnTop desk_win32 (example_view\<lparr>hSource := 40\<rparr>) ?w = Some (40 = GetForegroundWindow desk_win32 ?w \<or>
    40 \<noteq> NULL \<and> GetForegroundWindow desk_win32 ?w \<noteq> NULL \<and> up desk_win32 ?w 40 (GetForegroundWindow desk_win32 ?w))"
    using source_on_top_decided [where W = desk_win32 and w = ?w and rank = id and mv = "example_view\<lparr>hSource := 40\<rparr>"]
    by simp
  then have "IsSourceOnTop desk_win32 (example_view\<lparr>hSource := 40\<rparr>) ?w = Some (up desk_win32 ?w 40 30)"
    by (simp add: desk_win32_def NULL_def example_desk_def)
  moreover have "up desk_win32 ?w 40 30"
    using up.parent [of desk_win32 ?w 40] by (simp add: desk_win32_def desk_parent_def example_desk_def)
  ultimately show ?thesis by simp
qed

section \<open>Visibility\<close>

text \<open>
  A view that does not hide when its source is on top, and whose initial flag
  \<open>hiddenBySourceOnTop\<close> was therefore never cleared, is not shown again after the main window hid
  it (as it does to choose a clip region): the show request only resets its flag.
\<close>

theorem parent_show_is_lost:
  assumes "\<not> hideWhenSourceOnTop mv" "hiddenBySourceOnTop mv" "\<not> hiddenByParent mv"
  shows "CheckHideBySourceOnTop W mv w = Some (mv, w) \<and>
    HideByParentRequest W mv w = (mv\<lparr>hiddenByParent := True\<rparr>, Hide W mv w) \<and>
    ShowByParentRequest W (mv\<lparr>hiddenByParent := True\<rparr>) (Hide W mv w) = (mv, Hide W mv w)"
  using assms
  by (simp add: CheckHideBySourceOnTop_def HideByParentRequest_def ShowByParentRequest_def)

lemma parent_show_is_lost_witness:
  "ShowByParentRequest desk_win32 (example_view\<lparr>hiddenByParent := True\<rparr>) (Hide desk_win32 example_view desk0)
     = (example_view, Hide desk_win32 example_view desk0)"
  using parent_show_is_lost [OF example_fields(6-8), where W = desk_win32 and w = desk0] by blast

text \<open>
  A view whose source came on top in edit mode is not hidden when edit mode ends:
  the flag already says hidden, so the next checks find nothing to do while the source stays on
  top, although the view is shown.
\<close>

theorem leaving_edit_mode_does_not_hide:
  assumes "SetEditMode W False mv w = Some (mv', w')" "hiddenBySourceOnTop mv" "IsSourceOnTop W mv' w'' = Some True"
  shows "CheckHideBySourceOnTop W mv' w'' = Some (mv', w'') \<and> \<not> editMode mv' \<and> hiddenBySourceOnTop mv'"
proof -
  have "mv' = mv\<lparr>editMode := False\<rparr>"
    using assms(1) by (auto simp: SetEditMode_def Let_def bind_eq_Some_conv split: prod.splits option.splits)
  with assms(2,3) show ?thesis by (simp add: CheckHideBySourceOnTop_def)
qed

lemma leaving_edit_mode_does_not_hide_witness:
  "\<exists>mv' w'. SetEditMode desk_win32 False example_view desk0 = Some (mv', w') \<and>
     CheckHideBySourceOnTop desk_win32 mv' (desk0\<lparr>deskForeground := 50\<rparr>) = Some (mv', desk0\<lparr>deskForeground := 50\<rparr>)"
proof -
  have "\<exists>mv' w'. SetEditMode desk_win32 False example_view desk0 = Some (mv', w') \<and> hSource mv' = 50"
    by (simp add: SetEditMode_def GetClientScreenTopLeft_def ClientRectToWindowSize_def SetWinLong_def GetWinLong_def
        RefreshFrame_def Left_of_def Top_of_def parent_rect_def update_window_def place_def Let_def
        SWP_NOMOVE_def SWP_NOSIZE_def SWP_FRAMECHANGED_def SWP_NOZORDER_def view_evals)
  then obtain mv' w' where s: "SetEditMode desk_win32 False example_view desk0 = Some (mv', w')" "hSource mv' = 50" by blast
  note example_fields(7)
  moreover have "IsSourceOnTop desk_win32 mv' (desk0\<lparr>deskForeground := 50\<rparr>) = Some True"
    using s(2) by (simp add: IsSourceOnTop_def desk_win32_def)
  ultimately show ?thesis using leaving_edit_mode_does_not_hide [OF s(1)] s(1) by blast
qed

end
