(* ===== verification/View_Frame.thy ===== *)
theory View_Frame
  imports Mini_View
begin

text \<open>
  What no operation of a mini view touches: its window handle and its edit mode, except through
  \<open>SetEditMode\<close> and \<open>DestroyThis\<close>. The owner of the views relies on it. The proofs follow the
  operations with the rules of \<open>post\<close>, a postcondition of a partial result.
\<close>

section \<open>Postconditions\<close>

definition post :: "('a \<Rightarrow> bool) \<Rightarrow> 'a option \<Rightarrow> bool" where
  "post P m \<longleftrightarrow> (\<forall>x. m = Some x \<longrightarrow> P x)"

lemma postD: "post P m \<Longrightarrow> m = Some x \<Longrightarrow> P x"
  by (simp add: post_def)

lemma post_Some: "P x \<Longrightarrow> post P (Some x)"
  by (simp add: post_def)

lemma post_None: "post P None"
  by (simp add: post_def)

lemma post_bind: "post (\<lambda>x. post P (f x)) m \<Longrightarrow> post P (Option.bind m f)"
  by (auto simp: post_def bind_eq_Some_conv)

lemma post_if: "(b \<Longrightarrow> post P m) \<Longrightarrow> (\<not> b \<Longrightarrow> post P n) \<Longrightarrow> post P (if b then m else n)"
  by simp

lemma post_Let: "(\<And>x. x = e \<Longrightarrow> post P (f x)) \<Longrightarrow> post P (Let e f)"
  by simp

lemma post_prod: "(\<And>a b. p = (a, b) \<Longrightarrow> post P (g a b)) \<Longrightarrow> post P (case p of (a, b) \<Rightarrow> g a b)"
  by (cases p) simp

lemma post_option: "(z = None \<Longrightarrow> post P m) \<Longrightarrow> (\<And>x. z = Some x \<Longrightarrow> post P (h x)) \<Longrightarrow>
    post P (case z of None \<Rightarrow> m | Some x \<Rightarrow> h x)"
  by (cases z) simp_all

lemma post_map: "post (\<lambda>x. P (k x)) m \<Longrightarrow> post P (map_option k m)"
  by (auto simp: post_def)

lemma post_any: "(\<And>x. P x) \<Longrightarrow> post P m"
  by (simp add: post_def)

lemma post_mono: "post Q m \<Longrightarrow> (\<And>x. Q x \<Longrightarrow> P x) \<Longrightarrow> post P m"
  by (simp add: post_def)

lemma post_mresult:
  "(\<And>x. z = Done x \<Longrightarrow> post P (f x)) \<Longrightarrow> (\<And>m. z = Raised m \<Longrightarrow> post P (g m)) \<Longrightarrow> (z = Undefined \<Longrightarrow> post P u) \<Longrightarrow>
    post P (case z of Done x \<Rightarrow> f x | Raised m \<Rightarrow> g m | Undefined \<Rightarrow> u)"
  by (cases z) auto

lemmas posts = post_Some post_None post_bind post_if post_Let post_prod post_option post_mresult post_map

section \<open>The frame\<close>

definition framed :: "'a view_scheme \<Rightarrow> 'a view_scheme \<Rightarrow> bool" where
  "framed mv mv' \<longleftrightarrow> editMode mv' = editMode mv \<and> windowsItemHandle mv' = windowsItemHandle mv"

lemma framed_refl [simp]: "framed mv mv"
  by (simp add: framed_def)

lemma framed_trans: "framed a b \<Longrightarrow> framed b c \<Longrightarrow> framed a c"
  by (simp add: framed_def)

abbreviation keeps :: "view \<Rightarrow> (view \<times> 'w) option \<Rightarrow> bool" where
  "keeps mv m \<equiv> post (\<lambda>x. framed mv (fst x)) m"

lemma FixRatio_frame: "post (framed mv) (FixRatio W mv w)"
  unfolding FixRatio_def by (rule posts | rule post_any | simp add: framed_def)+

lemma mirror_setClip_frame: "post (framed mv) (mirror_setClip W mv w)"
  unfolding mirror_setClip_def by (rule posts | rule post_any | simp add: framed_def)+

lemma MatchSource_frame: "keeps mv (MatchSource W p s mv w)"
  unfolding MatchSource_def by (rule posts | rule post_any | simp add: framed_def)+

lemma ToggleLockRatio_frame: "post (framed mv) (ToggleLockRatio W mv w)"
  unfolding ToggleLockRatio_def by (rule post_mono [OF FixRatio_frame]) (simp add: framed_def)

lemma SetClip_frame: "keeps mv (SetClip W user c r mv w)"
  unfolding SetClip_def
  by (rule posts | rule post_mono [OF MatchSource_frame] post_mono [OF FixRatio_frame] post_mono [OF mirror_setClip_frame]
      | (auto simp: framed_def; fail))+

lemma request_frame: "framed mv (request r user mv)"
  by (simp add: request_def framed_def)

lemma SetClipRegion_frame: "keeps mv (SetClipRegion W user mv w)"
  unfolding SetClipRegion_def by (rule posts | rule post_any | simp add: request_frame)+

lemma ClearClipRegion_frame: "keeps mv (ClearClipRegion W mv w)"
  unfolding ClearClipRegion_def
  by (rule posts | rule post_mono [OF FixRatio_frame] | rule post_any | simp add: framed_def)+

lemma AdjustCliWidth_frame: "keeps mv (AdjustCliWidth W n mv w)"
  unfolding AdjustCliWidth_def by (rule posts | rule post_any | (auto simp: framed_def; fail))+

lemma AdjustCliHeight_frame: "keeps mv (AdjustCliHeight W n mv w)"
  unfolding AdjustCliHeight_def by (rule posts | rule post_any | (auto simp: framed_def; fail))+

lemma CheckHideBySourceOnTop_frame: "keeps mv (CheckHideBySourceOnTop W mv w)"
  unfolding CheckHideBySourceOnTop_def by (rule posts | rule post_any | (auto simp: framed_def; fail))+

lemma ToggleHideWhenSourceOnTop_frame: "keeps mv (ToggleHideWhenSourceOnTop W mv w)"
  unfolding ToggleHideWhenSourceOnTop_def
  by (rule posts | rule post_mono [OF CheckHideBySourceOnTop_frame] | (auto simp: framed_def split: if_splits; fail))+

lemma SizeFinished_frame: "keeps mv (SizeFinished W user mv w)"
  unfolding SizeFinished_def
  by (rule posts | rule post_mono [OF mirror_setClip_frame]
      | (auto simp: framed_def request_def; fail))+

lemma DoSizing_frame: "post (\<lambda>x. framed mv (fst (snd x))) (DoSizing W user edge r mv w)"
  unfolding DoSizing_def
  by (rule posts | rule post_any | (auto simp: framed_def ClearFixRatioCache_def; fail))+

lemma ValidateImage_frame: "post (framed mv) (ValidateImage W mv w)"
  unfolding ValidateImage_def by (rule posts | rule post_any | (auto simp: framed_def; fail))+

lemma ValidateProperties_frame: "keeps mv (ValidateProperties W mv w)"
  unfolding ValidateProperties_def
  by (rule posts | rule post_mono [OF CheckHideBySourceOnTop_frame] post_mono [OF FixRatio_frame] post_any
      | (auto simp: framed_def; fail))+

lemma RunHalfSecondActions_frame: "keeps mv (RunHalfSecondActions W mv w)"
  unfolding RunHalfSecondActions_def
  by (rule posts | rule post_mono [OF ValidateProperties_frame] post_mono [OF ValidateImage_frame]
      | (auto simp: framed_def; fail))+

lemma ExitSizeMove_frame: "keeps mv (ExitSizeMove W user mv w)"
  unfolding ExitSizeMove_def
  by (rule posts | rule post_mono [OF SizeFinished_frame] post_mono [OF MatchSource_frame] post_any
      | (auto simp: framed_def request_def SetSourceHandle_def split: if_splits; fail))+

lemma menu_command_frame: "post (\<lambda>x. framed mv (fst (snd x))) (menu_command W user result mv w)"
  unfolding menu_command_def
  by (rule posts | rule post_mono [OF ClearClipRegion_frame] post_mono [OF SetClipRegion_frame]
        post_mono [OF MatchSource_frame] post_mono [OF ToggleLockRatio_frame] post_mono [OF ToggleHideWhenSourceOnTop_frame]
      | (simp; fail))+

lemma RunContextMenu_frame: "keeps mv (RunContextMenu W user mv w)"
  unfolding RunContextMenu_def
  by (rule posts | rule post_mono [OF menu_command_frame] | (auto simp: framed_def request_def split: if_splits; fail))+

text \<open>No message a view receives from its window changes its handle or its edit mode.\<close>

lemma WndProc_frame: "post (\<lambda>x. framed mv (fst (snd x))) (WndProc W (Some p) msg mv w)"
  unfolding WndProc_def
  by (cases msg)
    (simp_all add: post_Some ProcessCloseMessage_def request_frame WindowMoved_def,
     (rule posts post_mono [OF ExitSizeMove_frame] post_mono [OF DoSizing_frame] post_mono [OF RunContextMenu_frame]
        | rule post_any | (auto; fail))+)

section \<open>The clip region\<close>

text \<open>Moving, fitting and mirroring leave the clip region and the visibility flags alone.\<close>

definition same_clip :: "view \<Rightarrow> view \<Rightarrow> bool" where
  "same_clip mv mv' \<longleftrightarrow> rcClip mv' = rcClip mv \<and> isClipped mv' = isClipped mv \<and> hiddenByParent mv' = hiddenByParent mv"

lemma same_clip_refl [simp]: "same_clip mv mv"
  by (simp add: same_clip_def)

lemma FixRatio_clip: "post (same_clip mv) (FixRatio W mv w)"
  unfolding FixRatio_def by (rule posts | rule post_any | (simp add: same_clip_def; fail))+

lemma mirror_setClip_clip: "post (same_clip mv) (mirror_setClip W mv w)"
  unfolding mirror_setClip_def by (rule posts | rule post_any | (simp add: same_clip_def; fail))+

lemma MatchSource_clip: "post (\<lambda>x. same_clip mv (fst x)) (MatchSource W p s mv w)"
  unfolding MatchSource_def by (rule posts | rule post_any | (auto simp: same_clip_def split: if_splits; fail))+

lemma SetClip_clips:
  "post (\<lambda>x. rcClip (fst x) = r \<and> isClipped (fst x) \<and> hiddenByParent (fst x) = hiddenByParent mv) (SetClip W user True r mv w)"
  unfolding SetClip_def
  by (rule posts | rule post_mono [OF MatchSource_clip] post_mono [OF FixRatio_clip] post_mono [OF mirror_setClip_clip]
      | (auto simp: same_clip_def; fail))+

end
