(* ===== verification/Clip_Sel.thy ===== *)
theory Clip_Sel
  imports Windows_Item
begin

text \<open>
  \<open>MiniViewsLib/ClipSel\<close>: the window laid over a source window on which the user drags the clip
  region. The view it selects for is a pointer, here the view's position in the program's list;
  what \<open>LButtonUp\<close> hands to \<open>MiniViews::EndSetClipRegion\<close> is its result.
\<close>

section \<open>Definitions\<close>

record clip_sel = item +
  startX :: int
  startY :: int
  viewToClip :: "nat option"
  selection :: rect

definition new_clip_sel :: clip_sel where
  "new_clip_sel = item.extend new_item \<lparr>startX = 0, startY = 0, viewToClip = None, selection = zero_rect\<rparr>"

unbundle bit_operations_syntax

definition clip_styles :: u32 where
  "clip_styles = (WS_CHILD OR WS_VISIBLE OR WS_CLIPCHILDREN OR WS_CLIPSIBLINGS)"

definition clip_CreateThis ::
    "'w win32 \<Rightarrow> hwnd \<Rightarrow> nat \<Rightarrow> hwnd \<Rightarrow> string list \<Rightarrow> clip_sel \<Rightarrow> 'w \<Rightarrow> (bool \<times> string list \<times> clip_sel \<times> 'w) option" where
  "clip_CreateThis W hParent i source registered c w =
     (let c1 = c\<lparr>viewToClip := Some i\<rparr>;
          rcSourceCli = or_zero (GetClientRect W source w);
          cliTopLeft = to_screen W source \<lparr>px = left rcSourceCli, py = top rcSourceCli\<rparr> w;
          (classOk, registered1, c2, w1) = RegisterWindowClass W ''ClipSelWindow'' registered c1 w
      in if \<not> classOk then Some (False, registered1, c2, w1)
         else do {
           width \<leftarrow> rect_width rcSourceCli; height \<leftarrow> rect_height rcSourceCli;
           let (created, c3, w2) = CreateClassWindow W 0 ''Select Clip'' clip_styles (px cliTopLeft) (py cliTopLeft)
             width height hParent c2 w1;
           if created then
             do { w3 \<leftarrow> LockCursor W c3 (SetForegroundWindow W (getHandle c3) w2);
                  Some (True, registered1, c3, w3) }
           else Some (False, registered1, c3, w2) })"

definition clip_DestroyThis :: "'w win32 \<Rightarrow> clip_sel \<Rightarrow> 'w \<Rightarrow> clip_sel \<times> 'w" where
  "clip_DestroyThis W c w =
     (let (c1, w1) = DestroyThis W c w
      in (c1\<lparr>startX := 0, startY := 0, selection := zero_rect, viewToClip := None\<rparr>, w1))"

definition LButtonDown :: "int \<Rightarrow> int \<Rightarrow> clip_sel \<Rightarrow> clip_sel" where
  "LButtonDown xc yc c = c\<lparr>startX := xc, startY := yc, selection := (selection c)\<lparr>left := xc, top := yc\<rparr>\<rparr>"

definition dragged :: "int \<Rightarrow> int \<Rightarrow> clip_sel \<Rightarrow> rect" where
  "dragged xc yc c = \<lparr>left = min (startX c) xc, top = min (startY c) yc,
     right = max (startX c) xc, bottom = max (startY c) yc\<rparr>"

definition MouseMove :: "'w win32 \<Rightarrow> bool \<Rightarrow> int \<Rightarrow> int \<Rightarrow> clip_sel \<Rightarrow> 'w \<Rightarrow> clip_sel \<times> 'w" where
  "MouseMove W leftButton xc yc c w =
     (if leftButton then (c\<lparr>selection := dragged xc yc c\<rparr>, RedrawThis W c w) else (c, w))"

text \<open>\<open>LButtonUp\<close> up to its call of \<open>EndSetClipRegion\<close>, with that call's arguments, and the rest of it.\<close>

definition LButtonUp :: "'w win32 \<Rightarrow> int \<Rightarrow> int \<Rightarrow> clip_sel \<Rightarrow> 'w \<Rightarrow> (nat option \<times> rect) \<times> clip_sel \<times> 'w" where
  "LButtonUp W xc yc c w =
     (let c1 = c\<lparr>selection := dragged xc yc c\<rparr>
      in ((viewToClip c1, selection c1), c1, UnlockCursor W w))"

definition LButtonUp_rest :: "clip_sel \<Rightarrow> clip_sel" where
  "LButtonUp_rest c = c\<lparr>selection := zero_rect\<rparr>"

definition clip_Paint :: "'w win32 \<Rightarrow> clip_sel \<Rightarrow> 'w \<Rightarrow> 'w" where
  "clip_Paint W c w =
     (let rcCli = or_zero (getClientRect W c w)
      in Draw W (getHandle c) [SetBuffer rcCli, FillRect rcCli 0xFFFFFF, FrameRect (selection c) 0xFFC8BE, FlushBuffer] w)"

text \<open>Mouse input over the window, up to the release of the button.\<close>

datatype mouse = Down int int | Move bool int int

fun mouse_input :: "'w win32 \<Rightarrow> mouse list \<Rightarrow> clip_sel \<Rightarrow> 'w \<Rightarrow> clip_sel \<times> 'w" where
  "mouse_input W [] c w = (c, w)"
| "mouse_input W (Down x y # es) c w = mouse_input W es (LButtonDown x y c) w"
| "mouse_input W (Move b x y # es) c w =
     (let (c1, w1) = MouseMove W b x y c w in mouse_input W es c1 w1)"

section \<open>Properties\<close>

lemma mouse_input_append:
  "mouse_input W (es @ fs) c w = (let (c1, w1) = mouse_input W es c w in mouse_input W fs c1 w1)"
proof (induction es arbitrary: c w)
  case (Cons e es)
  then show ?case by (cases e) (simp_all add: Let_def split_beta)
qed simp

definition is_move :: "mouse \<Rightarrow> bool" where
  "is_move e = (case e of Move b x y \<Rightarrow> True | Down x y \<Rightarrow> False)"

lemma move_keeps_start:
  "startX (fst (MouseMove W b x y c w)) = startX c" "startY (fst (MouseMove W b x y c w)) = startY c"
  "viewToClip (fst (MouseMove W b x y c w)) = viewToClip c" "getHandle (fst (MouseMove W b x y c w)) = getHandle c"
  by (simp_all add: MouseMove_def getHandle_def)

lemma moves_keep_start:
  assumes "list_all is_move es" "mouse_input W es c w = (c', w')"
  shows "startX c' = startX c \<and> startY c' = startY c \<and> viewToClip c' = viewToClip c \<and> getHandle c' = getHandle c"
  using assms
proof (induction es arbitrary: c w)
  case (Cons e es)
  then obtain b x y where e: "e = Move b x y" by (cases e) (simp_all add: is_move_def)
  with Cons.prems(2) have "mouse_input W es (fst (MouseMove W b x y c w)) (snd (MouseMove W b x y c w)) = (c', w')"
    by (simp add: split_beta)
  from Cons.IH [OF _ this] Cons.prems(1) show ?case by (simp add: move_keeps_start)
qed simp

text \<open>
  The region handed over is the rectangle between the last press and the release,
  with its edges in order whichever way the mouse was dragged and whatever happened before or
  between.
\<close>

theorem selection_is_dragged_rectangle:
  assumes "list_all is_move es" "mouse_input W (ds @ Down a b # es) c w = (c', w')"
  shows "\<exists>c'' w''. LButtonUp W x y c' w' =
      ((viewToClip c', \<lparr>left = min a x, top = min b y, right = max a x, bottom = max b y\<rparr>), c'', w'') \<and>
    left (selection c'') \<le> right (selection c'') \<and> top (selection c'') \<le> bottom (selection c'')"
proof -
  obtain c1 w1 where "mouse_input W ds c w = (c1, w1)" by fastforce
  with assms(2) have "mouse_input W es (LButtonDown a b c1) w1 = (c', w')"
    by (simp add: mouse_input_append)
  from moves_keep_start [OF assms(1) this] show ?thesis
    by (simp add: LButtonUp_def dragged_def LButtonDown_def Let_def min_le_iff_disj)
qed

lemma selection_is_dragged_rectangle_witness:
  "\<exists>c w. mouse_input desk_win32 [Move True 3 3, Down 80 60, Move True 10 20] new_clip_sel (example_desk \<lparr>px = 0, py = 0\<rparr>) = (c, w)
     \<and> snd (fst (LButtonUp desk_win32 5 70 c w)) = \<lparr>left = 5, top = 60, right = 80, bottom = 70\<rparr>"
proof -
  obtain c w where i: "mouse_input desk_win32 ([Move True 3 3] @ Down 80 60 # [Move True 10 20]) new_clip_sel
    (example_desk \<lparr>px = 0, py = 0\<rparr>) = (c, w)" by fastforce
  have "list_all is_move [Move True 10 20]" by (simp add: is_move_def)
  from selection_is_dragged_rectangle [OF this i, of 5 70] i show ?thesis by auto
qed

end
