(* ===== verification/Mini_Views.thy ===== *)
theory Mini_Views
  imports Mini_View_Facts View_Frame Clip_Sel Updater Version_Info
begin

text \<open>
  \<open>MiniViewsLib/MiniViews\<close>: the program itself, the owner of the mini views. The shared pointers
  in \<open>currMiniViews\<close> are pairs of an address and the view there, so that a reference to a view that
  has been erased is seen to dangle (\<open>None\<close>). The static list of registered classes is part of the
  state, and the calls to the dialog, which only display, are recorded in \<open>dialogCalls\<close>.
\<close>

section \<open>State\<close>

text \<open>What \<open>Get\<close> of the preferences returns.\<close>

record settings =
  viewPrefs :: view_prefs
  useNotificationIcon :: bool
  showDialogOnStart :: bool
  defaultOpacity :: u32

datatype dialog_call = RefreshViewsTab bool bool | RefreshGeneralTab | CreateDialog | ToggleDialogShown

record app = item +
  appEditMode :: bool
  transparencyAlpha :: u8
  frameNumber :: int
  hasFrameToRun :: bool
  currMiniViews :: "(nat \<times> view) list"
  nextAddress :: nat
  clipSel :: clip_sel
  frameUpdater :: updater
  registeredClasses :: "string list"
  dialogCalls :: "dialog_call list"

definition msPerFrame :: int where "msPerFrame = 25"
definition framesPerCycle :: int where "framesPerCycle = trunc_div 500 msPerFrame"
definition mainClassName :: string where "mainClassName = ''wcMiniViews''"
definition mainWindowName :: string where "mainWindowName = ''Mini Views '' @ GetShortVersionString"

definition new_app :: "settings \<Rightarrow> app" where
  "new_app S = item.extend new_item
     \<lparr>appEditMode = True, transparencyAlpha = ucast (defaultOpacity S), frameNumber = 0,
      hasFrameToRun = False, currMiniViews = [], nextAddress = 0, clipSel = new_clip_sel,
      frameUpdater = new_updater, registeredClasses = [], dialogCalls = []\<rparr>"

definition dialog :: "dialog_call \<Rightarrow> app \<Rightarrow> app" where
  "dialog c a = a\<lparr>dialogCalls := dialogCalls a @ [c]\<rparr>"

definition view_at :: "nat \<Rightarrow> app \<Rightarrow> view option" where
  "view_at i a = map_of (currMiniViews a) i"

definition put_view :: "nat \<Rightarrow> view \<Rightarrow> app \<Rightarrow> app" where
  "put_view i mv a = a\<lparr>currMiniViews := map (\<lambda>(j, u). if j = i then (j, mv) else (j, u)) (currMiniViews a)\<rparr>"

text \<open>A range-based loop over the views.\<close>

fun for_views ::
    "(view \<Rightarrow> 'w \<Rightarrow> (view \<times> 'w) option) \<Rightarrow> (nat \<times> view) list \<Rightarrow> 'w \<Rightarrow> ((nat \<times> view) list \<times> 'w) option" where
  "for_views f [] w = Some ([], w)"
| "for_views f ((i, mv) # vs) w =
     do { (mv1, w1) \<leftarrow> f mv w; (vs1, w2) \<leftarrow> for_views f vs w1; Some ((i, mv1) # vs1, w2) }"

definition all_views :: "(view \<Rightarrow> 'w \<Rightarrow> (view \<times> 'w) option) \<Rightarrow> app \<Rightarrow> 'w \<Rightarrow> (app \<times> 'w) option" where
  "all_views f a w = do { (vs, w1) \<leftarrow> for_views f (currMiniViews a) w; Some (a\<lparr>currMiniViews := vs\<rparr>, w1) }"

section \<open>Position\<close>

unbundle bit_operations_syntax

text \<open>
  The loop of \<open>FixPosition\<close> down the z order: true when only topmost windows are above the main
  window.
\<close>

partial_function (option) z_order :: "'w win32 \<Rightarrow> hwnd \<Rightarrow> 'w \<Rightarrow> hwnd \<Rightarrow> bool option" where
  "z_order W h w topWindow =
     (if topWindow = h \<or> topWindow = NULL then Some True
      else (let correct = (GetWindowLong W topWindow GWL_EXSTYLE w AND WS_EX_TOPMOST = WS_EX_TOPMOST);
                below = GetNextWindow W topWindow w
            in if \<not> correct then Some False
               else if below = NULL then Some True
               else z_order W h w below))"

declare z_order.simps [code]

definition FixPosition :: "'w win32 \<Rightarrow> 'a item_scheme \<Rightarrow> 'w \<Rightarrow> 'w option" where
  "FixPosition W it w =
     (let virtualLeft = GetSystemMetrics W SM_XVIRTUALSCREEN w;
          virtualTop = GetSystemMetrics W SM_YVIRTUALSCREEN w;
          virtualWidth = GetSystemMetrics W SM_CXVIRTUALSCREEN w;
          virtualHeight = GetSystemMetrics W SM_CYVIRTUALSCREEN w
      in do {
        correct \<leftarrow> z_order W (getHandle it) w (GetTopWindow W w);
        fix \<leftarrow> (if \<not> correct then Some True
                else case getWindowRect W it w of
                  None \<Rightarrow> Some False
                | Some r \<Rightarrow>
                    if left r \<noteq> virtualLeft \<or> top r \<noteq> virtualTop then Some True
                    else do { a \<leftarrow> rect_width r;
                              if a \<noteq> virtualWidth then Some True
                              else do { b \<leftarrow> rect_height r; Some (b \<noteq> virtualHeight) } });
        Some (if fix then SetWindowPos W (getHandle it) HWND_TOPMOST virtualLeft virtualTop virtualWidth virtualHeight
                SWP_NOACTIVATE w else w) })"

definition Rest :: "'w win32 \<Rightarrow> 'a item_scheme \<Rightarrow> 'w \<Rightarrow> 'w" where
  "Rest W it w = SetWindowPos W (getHandle it) HWND_BOTTOM 0 0 0 0 (SWP_NOACTIVATE OR SWP_NOMOVE OR SWP_NOSIZE) w"

definition Wake :: "'w win32 \<Rightarrow> 'a item_scheme \<Rightarrow> 'w \<Rightarrow> 'w option" where
  "Wake W it w = FixPosition W it w"

section \<open>Frames\<close>

definition CreateNotificationIcon :: "'w win32 \<Rightarrow> 'a item_scheme \<Rightarrow> 'w \<Rightarrow> bool \<times> 'w" where
  "CreateNotificationIcon W it w =
     (if NotifyIconShown W (getHandle it) w then (True, w) else NotifyIconAdd W (getHandle it) w)"

definition RemoveNotificationIcon :: "'w win32 \<Rightarrow> 'a item_scheme \<Rightarrow> 'w \<Rightarrow> 'w" where
  "RemoveNotificationIcon W it w = NotifyIconDelete W (getHandle it) w"

definition app_RunHalfSecondActions :: "'w win32 \<Rightarrow> settings \<Rightarrow> app \<Rightarrow> 'w \<Rightarrow> (app \<times> 'w) option" where
  "app_RunHalfSecondActions W S a w =
     do { w1 \<leftarrow> FixPosition W a w;
          let w2 = (if useNotificationIcon S then snd (CreateNotificationIcon W a w1) else w1);
          all_views (RunHalfSecondActions W) a w2 }"

definition app_RunFrame :: "'w win32 \<Rightarrow> settings \<Rightarrow> app \<Rightarrow> 'w \<Rightarrow> (app \<times> 'w) option" where
  "app_RunFrame W S a w =
     do { next \<leftarrow> add32 (frameNumber a) 1;
          let a1 = a\<lparr>frameNumber := (if next \<ge> framesPerCycle then 0 else next)\<rparr>;
          (a2, w1) \<leftarrow> (if frameNumber a1 = 0 then app_RunHalfSecondActions W S a1 w else Some (a1, w));
          (a3, w2) \<leftarrow> all_views (\<lambda>mv w. map_option (Pair mv) (RunFrame W (Some (viewPrefs S)) mv w)) a2 w1;
          Some (a3\<lparr>hasFrameToRun := False\<rparr>, w2) }"

definition TimedUpdate :: "app \<Rightarrow> app" where
  "TimedUpdate a = a\<lparr>hasFrameToRun := True\<rparr>"

section \<open>Views\<close>

definition app_ToggleEditMode :: "'w win32 \<Rightarrow> app \<Rightarrow> 'w \<Rightarrow> (app \<times> 'w) option" where
  "app_ToggleEditMode W a w =
     (let a1 = a\<lparr>appEditMode := \<not> appEditMode a\<rparr>;
          ex = GetWinLong W GWL_EXSTYLE a1 w;
          w1 = (if appEditMode a1 then SetWinLong W GWL_EXSTYLE (ex AND NOT WS_EX_TRANSPARENT) a1 w
                else SetWinLong W GWL_EXSTYLE (ex OR WS_EX_TRANSPARENT) a1 w)
      in do { (a2, w2) \<leftarrow> all_views (SetEditMode W (appEditMode a1)) a1 w1;
              Some (dialog RefreshGeneralTab a2, w2) })"

text \<open>
  \<open>unset\<close> is what the new view's uninitialised \<open>sourceSize\<close> holds. Where the cursor cannot be
  had in client coordinates the views are staggered.
\<close>

definition app_AddMiniView :: "'w win32 \<Rightarrow> settings \<Rightarrow> size2 \<Rightarrow> app \<Rightarrow> 'w \<Rightarrow> (app \<times> 'w) option" where
  "app_AddMiniView W S unset a w =
     do { w1 \<leftarrow> Wake W a w;
          (a1, w2) \<leftarrow> (if \<not> appEditMode a then app_ToggleEditMode W a w1 else Some (a, w1));
          let w3 = SetWinLong W GWL_EXSTYLE (GetWinLong W GWL_EXSTYLE a1 w2 AND NOT WS_EX_TRANSPARENT) a1 w2;
          let mv = new_view (viewPrefs S) unset;
          n \<leftarrow> mul32 4 (int (length (currMiniViews a1)));
          x0 \<leftarrow> add32 50 n; y0 \<leftarrow> add32 70 n;
          let (xc, yc) = (case GetCursorPos W w3 of None \<Rightarrow> (x0, y0)
             | Some pt \<Rightarrow> (case ScreenToClient W (getHandle a1) pt w3 of None \<Rightarrow> (x0, y0) | Some c \<Rightarrow> (px c, py c)));
          (created, registered, mv1, w4) \<leftarrow>
             CreateThis W (getHandle a1) (GetDesktopWindow W w3) xc yc (registeredClasses a1) mv w3;
          let a2 = a1\<lparr>registeredClasses := registered\<rparr>;
          let a3 = (if created then a2\<lparr>currMiniViews := currMiniViews a2 @ [(nextAddress a2, mv1)],
                                      nextAddress := nextAddress a2 + 1\<rparr> else a2);
          Some (dialog (RefreshViewsTab True True) a3, w4) }"

fun destroy_views :: "'w win32 \<Rightarrow> (nat \<times> view) list \<Rightarrow> 'w \<Rightarrow> 'w" where
  "destroy_views W [] w = w"
| "destroy_views W ((i, mv) # vs) w = destroy_views W vs (snd (DestroyThis W mv w))"

definition ClearMiniViews :: "'w win32 \<Rightarrow> app \<Rightarrow> 'w \<Rightarrow> app \<times> 'w" where
  "ClearMiniViews W a w = (a\<lparr>currMiniViews := []\<rparr>, destroy_views W (currMiniViews a) w)"

text \<open>The element with the view's handle is erased, if there is one.\<close>

definition app_CloseMiniView :: "'w win32 \<Rightarrow> nat \<Rightarrow> app \<Rightarrow> 'w \<Rightarrow> (app \<times> 'w) option" where
  "app_CloseMiniView W i a w =
     do { mv \<leftarrow> view_at i a;
          let toDelete = find (\<lambda>(j, u). getHandle u = getHandle mv) (currMiniViews a);
          let (mv1, w1) = DestroyThis W mv w;
          let a1 = put_view i mv1 a;
          let a2 = (case toDelete of None \<Rightarrow> a1
                    | Some (j, u) \<Rightarrow> a1\<lparr>currMiniViews := filter (\<lambda>(k, v). k \<noteq> j) (currMiniViews a1)\<rparr>);
          let w2 = (if currMiniViews a2 = [] then Rest W a2 w1 else w1);
          Some (dialog (RefreshViewsTab True True) a2, w2) }"

definition app_SetClipRegion :: "'w win32 \<Rightarrow> nat \<Rightarrow> app \<Rightarrow> 'w \<Rightarrow> (app \<times> 'w) option" where
  "app_SetClipRegion W i a w =
     do { (a1, w1) \<leftarrow> (if \<not> appEditMode a then app_ToggleEditMode W a w else Some (a, w));
          mv \<leftarrow> view_at i a1;
          let w2 = SetForegroundWindow W (GetSourceWindow mv) w1;
          let w3 = SetLayeredAlpha W (getHandle a1) 175 w2;
          (a2, w4) \<leftarrow> all_views (\<lambda>mv w. Some (HideByParentRequest W mv w)) a1 w3;
          (ok, registered, c, w5) \<leftarrow>
             clip_CreateThis W (getHandle a2) i (GetSourceWindow mv) (registeredClasses a2) (clipSel a2) w4;
          Some (a2\<lparr>registeredClasses := registered, clipSel := c\<rparr>, w5) }"

definition EndSetClipRegion :: "'w win32 \<Rightarrow> settings \<Rightarrow> nat \<Rightarrow> rect \<Rightarrow> app \<Rightarrow> 'w \<Rightarrow> (app \<times> 'w) option" where
  "EndSetClipRegion W S i r a w =
     do { let (c, w1) = clip_DestroyThis W (clipSel a) w;
          (a1, w2) \<leftarrow> all_views (\<lambda>mv w. Some (ShowByParentRequest W mv w)) (a\<lparr>clipSel := c\<rparr>) w1;
          let w3 = SetLayeredAlpha W (getHandle a1) (transparencyAlpha a1) w2;
          mv \<leftarrow> view_at i a1;
          (mv1, w4) \<leftarrow> SetClip W (Some (viewPrefs S)) True r mv w3;
          Some (put_view i mv1 a1, w4) }"

text \<open>\<open>ClipSel::LButtonUp\<close> with its call into the program; the pointer must be to a living view.\<close>

definition clip_LButtonUp :: "'w win32 \<Rightarrow> settings \<Rightarrow> int \<Rightarrow> int \<Rightarrow> app \<Rightarrow> 'w \<Rightarrow> (app \<times> 'w) option" where
  "clip_LButtonUp W S xc yc a w =
     (let ((target, r), c, w1) = LButtonUp W xc yc (clipSel a) w
      in do { i \<leftarrow> target;
              (a1, w2) \<leftarrow> EndSetClipRegion W S i r (a\<lparr>clipSel := c\<rparr>) w1;
              Some (a1\<lparr>clipSel := LButtonUp_rest (clipSel a1)\<rparr>, w2) })"

section \<open>Requests of a view\<close>

definition handle_request :: "'w win32 \<Rightarrow> nat \<Rightarrow> request \<Rightarrow> app \<Rightarrow> 'w \<Rightarrow> (app \<times> 'w) option" where
  "handle_request W i r a w =
     (case r of
        NotifyChange \<Rightarrow> Some (dialog (RefreshViewsTab False True) a, w)
      | CloseMiniView \<Rightarrow> app_CloseMiniView W i a w
      | RequestClipRegion \<Rightarrow> app_SetClipRegion W i a w)"

fun handle_requests :: "'w win32 \<Rightarrow> nat \<Rightarrow> request list \<Rightarrow> app \<Rightarrow> 'w \<Rightarrow> (app \<times> 'w) option" where
  "handle_requests W i [] a w = Some (a, w)"
| "handle_requests W i (r # rs) a w = do { (a1, w1) \<leftarrow> handle_request W i r a w; handle_requests W i rs a1 w1 }"

text \<open>A message for the window of view \<open>i\<close>: the view's window procedure, then what it asked of the program.\<close>

definition view_message ::
    "'w win32 \<Rightarrow> settings \<Rightarrow> nat \<Rightarrow> view_message \<Rightarrow> app \<Rightarrow> 'w \<Rightarrow> (reply \<times> app \<times> 'w) option" where
  "view_message W S i msg a w =
     do { mv \<leftarrow> view_at i a;
          (r, mv1, w1) \<leftarrow> WndProc W (Some (viewPrefs S)) msg (mv\<lparr>requests := []\<rparr>) w;
          (a1, w2) \<leftarrow> handle_requests W i (requests mv1) (put_view i (mv1\<lparr>requests := []\<rparr>) a) w1;
          Some (r, a1, w2) }"

section \<open>Opacity\<close>

definition GetOpacityLevel :: "app \<Rightarrow> u8" where "GetOpacityLevel a = transparencyAlpha a"

definition SetOpacityLevel :: "'w win32 \<Rightarrow> u8 \<Rightarrow> app \<Rightarrow> 'w \<Rightarrow> app \<times> 'w" where
  "SetOpacityLevel W newOpacityLevel a w =
     (let a1 = a\<lparr>transparencyAlpha := newOpacityLevel\<rparr>
      in (dialog RefreshGeneralTab a1, SetLayeredAlpha W (getHandle a1) (transparencyAlpha a1) w))"

definition isTransparencyMinimum :: "app \<Rightarrow> bool" where "isTransparencyMinimum a \<longleftrightarrow> transparencyAlpha a = 0"
definition isTransparencyMax :: "app \<Rightarrow> bool" where "isTransparencyMax a \<longleftrightarrow> transparencyAlpha a = 255"

text \<open>The tests promote to \<open>int\<close>; the new level is converted back to \<open>u8\<close>.\<close>

definition IncrementAlpha :: "'w win32 \<Rightarrow> app \<Rightarrow> 'w \<Rightarrow> app \<times> 'w" where
  "IncrementAlpha W a w =
     (if uint (transparencyAlpha a) + 10 > 255 then SetOpacityLevel W 255 a w
      else SetOpacityLevel W (word_of_int (uint (GetOpacityLevel a) + 10)) a w)"

definition DecrementAlpha :: "'w win32 \<Rightarrow> app \<Rightarrow> 'w \<Rightarrow> app \<times> 'w" where
  "DecrementAlpha W a w =
     (if uint (transparencyAlpha a) - 10 < 0 then SetOpacityLevel W 0 a w
      else SetOpacityLevel W (word_of_int (uint (GetOpacityLevel a) - 10)) a w)"

section \<open>Commands and messages\<close>

definition Cmd_ToggleEditMode :: int where "Cmd_ToggleEditMode = ID_FIRST"
definition Cmd_AddMiniView :: int where "Cmd_AddMiniView = ID_FIRST + 1"
definition Cmd_ClearMiniViews :: int where "Cmd_ClearMiniViews = ID_FIRST + 2"
definition Cmd_IncreaseOpacity :: int where "Cmd_IncreaseOpacity = ID_FIRST + 3"
definition Cmd_DecreaseOpacity :: int where "Cmd_DecreaseOpacity = ID_FIRST + 4"
definition Cmd_ExitApplication :: int where "Cmd_ExitApplication = ID_FIRST + 5"

definition notification_menu :: "app \<Rightarrow> (int \<times> bool) list" where
  "notification_menu a =
     [(Cmd_ToggleEditMode, True), (Cmd_AddMiniView, True), (Cmd_ClearMiniViews, length (currMiniViews a) > 0),
      (Cmd_IncreaseOpacity, \<not> isTransparencyMax a), (Cmd_DecreaseOpacity, \<not> isTransparencyMinimum a),
      (Cmd_ExitApplication, True)]"

definition RunNotificationContextMenu :: "'w win32 \<Rightarrow> settings \<Rightarrow> size2 \<Rightarrow> app \<Rightarrow> 'w \<Rightarrow> (app \<times> 'w) option" where
  "RunNotificationContextMenu W S unset a w =
     (let w1 = SetForegroundWindow W (getHandle a) w;
          (result, w2) = TrackPopupMenu W (getHandle a) (notification_menu a) w1;
          w3 = PostMessage W (getHandle a) 0 w2
      in if result = Cmd_ToggleEditMode then app_ToggleEditMode W a w3
         else if result = Cmd_AddMiniView then app_AddMiniView W S unset a w3
         else if result = Cmd_IncreaseOpacity then Some (IncrementAlpha W a w3)
         else if result = Cmd_DecreaseOpacity then Some (DecrementAlpha W a w3)
         else if result = Cmd_ExitApplication then Some (a, PostQuitMessage W w3)
         else if result = Cmd_ClearMiniViews then Some (ClearMiniViews W a w3)
         else Some (a, w3))"

datatype hotkey = HotkeyToggleEditMode | HotkeyAddMiniView | HotkeyIncreaseOpacity | HotkeyDecreaseOpacity

definition HotkeyPressed :: "'w win32 \<Rightarrow> settings \<Rightarrow> size2 \<Rightarrow> hotkey option \<Rightarrow> app \<Rightarrow> 'w \<Rightarrow> (app \<times> 'w) option" where
  "HotkeyPressed W S unset k a w =
     (case k of
        Some HotkeyToggleEditMode \<Rightarrow> app_ToggleEditMode W a w
      | Some HotkeyAddMiniView \<Rightarrow> app_AddMiniView W S unset a w
      | Some HotkeyIncreaseOpacity \<Rightarrow> Some (IncrementAlpha W a w)
      | Some HotkeyDecreaseOpacity \<Rightarrow> Some (DecrementAlpha W a w)
      | None \<Rightarrow> Some (a, w))"

datatype icon_event = IconRightUp | IconDoubleClick | IconOther

definition IconNotify :: "'w win32 \<Rightarrow> settings \<Rightarrow> size2 \<Rightarrow> icon_event \<Rightarrow> app \<Rightarrow> 'w \<Rightarrow> (app \<times> 'w) option" where
  "IconNotify W S unset e a w =
     (case e of
        IconRightUp \<Rightarrow> RunNotificationContextMenu W S unset a w
      | IconDoubleClick \<Rightarrow> Some (dialog ToggleDialogShown a, w)
      | IconOther \<Rightarrow> Some (a, w))"

text \<open>\<open>def\<close> is the result of the default procedure, to which hotkeys and icon messages go as well.\<close>

datatype app_message = AppSize | AppActivate | AppHotkey "hotkey option" | AppOpenDialog | AppIconNotify icon_event | AppDefault

definition app_WndProc ::
    "'w win32 \<Rightarrow> settings \<Rightarrow> size2 \<Rightarrow> int \<Rightarrow> app_message \<Rightarrow> app \<Rightarrow> 'w \<Rightarrow> (int \<times> app \<times> 'w) option" where
  "app_WndProc W S unset def msg a w =
     (case msg of
        AppSize \<Rightarrow> map_option (\<lambda>w1. (0, a, w1)) (FixPosition W a w)
      | AppActivate \<Rightarrow> Some (0, a, w)
      | AppHotkey k \<Rightarrow> map_option (Pair def) (HotkeyPressed W S unset k a w)
      | AppOpenDialog \<Rightarrow> Some (0, dialog CreateDialog a, w)
      | AppIconNotify e \<Rightarrow> map_option (Pair def) (IconNotify W S unset e a w)
      | AppDefault \<Rightarrow> Some (def, a, w))"

section \<open>Running\<close>

definition Msg_OpenDialog :: u32 where "Msg_OpenDialog = 0x8015"
definition CW_USEDEFAULT :: int where "CW_USEDEFAULT = - 2147483648"

definition CriticalError :: "'w win32 \<Rightarrow> int \<Rightarrow> string \<Rightarrow> 'w \<Rightarrow> int \<times> 'w" where
  "CriticalError W returnValue errorMessage w = (returnValue, MessageBox W errorMessage w)"

definition EnsureOnlyInstance :: "'w win32 \<Rightarrow> 'w \<Rightarrow> bool \<times> 'w" where
  "EnsureOnlyInstance W w =
     (let other = FindWindow W mainClassName mainWindowName w
      in (other = NULL, if other \<noteq> NULL then PostMessage W other Msg_OpenDialog w else w))"

definition app_CreateThis :: "'w win32 \<Rightarrow> app \<Rightarrow> 'w \<Rightarrow> (bool \<times> app \<times> 'w) option" where
  "app_CreateThis W a w =
     (let (classOk, registered, a1, w1) = RegisterWindowClass W mainClassName (registeredClasses a) a w;
          a2 = a1\<lparr>registeredClasses := registered\<rparr>
      in if \<not> classOk then Some (False, a2, w1)
         else (let (created, a3, w2) = CreateClassWindow W (WS_EX_TOPMOST OR WS_EX_TOOLWINDOW) mainWindowName 0
                     CW_USEDEFAULT CW_USEDEFAULT CW_USEDEFAULT CW_USEDEFAULT (GetDesktopWindow W w1) a2 w1
               in if \<not> created then Some (False, a3, w2)
                  else do {
                    (started, u) \<leftarrow> StartTimedUpdates msPerFrame (frameUpdater a3);
                    let a4 = a3\<lparr>frameUpdater := u\<rparr>;
                    let w3 = (if started then w2
                              else PostQuitMessage W (MessageBox W ''Could not open graphic updater thread.'' w2));
                    let w4 = SetWinLong W GWL_STYLE 0 a4 w3;
                    let w5 = SetWinLong W GWL_EXSTYLE (WS_EX_TOPMOST OR WS_EX_LAYERED OR WS_EX_TOOLWINDOW) a4 w4;
                    let w6 = SetWindowPos W (getHandle a4) HWND_TOPMOST 0 0 0 0
                               (SWP_NOACTIVATE OR SWP_NOMOVE OR SWP_NOSIZE) w5;
                    let w7 = SetLayeredAlpha W (getHandle a4) (transparencyAlpha a4) w6;
                    Some (True, a4, Rest W a4 (ShowNormal W a4 w7)) }))"

text \<open>The hotkeys with their keys; the first failure ends the \<open>||\<close> chain.\<close>

definition hotkeys :: "(int \<times> int) list" where
  "hotkeys = [(1, 69), (2, 65), (3, 0xBB), (4, 0xBD)]"

fun register_hotkeys :: "'w win32 \<Rightarrow> hwnd \<Rightarrow> (int \<times> int) list \<Rightarrow> 'w \<Rightarrow> bool \<times> 'w" where
  "register_hotkeys W h [] w = (True, w)"
| "register_hotkeys W h ((i, k) # ks) w =
     (let (ok, w1) = RegisterHotKey W h i k w in if ok then register_hotkeys W h ks w1 else (False, w1))"

definition RegisterHotkeys :: "'w win32 \<Rightarrow> app \<Rightarrow> 'w \<Rightarrow> bool \<times> 'w" where
  "RegisterHotkeys W a w = register_hotkeys W (getHandle a) hotkeys w"

text \<open>\<open>Run\<close> up to its message loop: the exit code it returns early, or the program at the start of the loop.\<close>

definition Run_start :: "'w win32 \<Rightarrow> settings \<Rightarrow> int \<Rightarrow> app \<Rightarrow> 'w \<Rightarrow> (int \<times> 'w + app \<times> 'w) option" where
  "Run_start W S showCommand a w =
     (let (only, w1) = EnsureOnlyInstance W w in
      if \<not> only then Some (Inl (1, w1))
      else do {
        (created, a1, w2) \<leftarrow> app_CreateThis W a w1;
        if \<not> created then Some (Inl (CriticalError W 2 ''Window creation failed.'' w2))
        else do {
          let (iconOk, w3) = (if useNotificationIcon S then CreateNotificationIcon W a1 w2 else (True, w2));
          let w4 = (if iconOk then w3 else MessageBox W ''Failed to create notification icon.'' w3);
          let (keysOk, w5) = RegisterHotkeys W a1 w4;
          let w6 = (if keysOk then w5 else MessageBox W ''One or more hotkeys failed to register.'' w5);
          let w7 = ShowWindow W (getHandle a1) showCommand w6;
          let a2 = (if showDialogOnStart S \<or> \<not> useNotificationIcon S then dialog CreateDialog a1 else a1);
          Some (Inr (a2, w7)) } })"

text \<open>
  What happens in the loop: the messages it dispatches to the windows, a tick of the updater
  thread between two of its steps, and the frame at the end of a turn.
\<close>

datatype event =
    ForApp int app_message
  | ForView nat view_message
  | ForClip mouse
  | ClipRelease int int
  | Tick
  | EndOfTurn

definition handle_event :: "'w win32 \<Rightarrow> settings \<Rightarrow> size2 \<Rightarrow> event \<Rightarrow> app \<Rightarrow> 'w \<Rightarrow> (app \<times> 'w) option" where
  "handle_event W S unset e a w =
     (case e of
        ForApp def msg \<Rightarrow> map_option snd (app_WndProc W S unset def msg a w)
      | ForView i msg \<Rightarrow> map_option snd (view_message W S i msg a w)
      | ForClip m \<Rightarrow> (let (c, w1) = mouse_input W [m] (clipSel a) w in Some (a\<lparr>clipSel := c\<rparr>, w1))
      | ClipRelease xc yc \<Rightarrow> clip_LButtonUp W S xc yc a w
      | Tick \<Rightarrow> Some (TimedUpdate a, w)
      | EndOfTurn \<Rightarrow> if hasFrameToRun a then app_RunFrame W S a w else Some (a, w))"

fun handle_events :: "'w win32 \<Rightarrow> settings \<Rightarrow> size2 \<Rightarrow> event list \<Rightarrow> app \<Rightarrow> 'w \<Rightarrow> (app \<times> 'w) option" where
  "handle_events W S unset [] a w = Some (a, w)"
| "handle_events W S unset (e # es) a w =
     do { (a1, w1) \<leftarrow> handle_event W S unset e a w; handle_events W S unset es a1 w1 }"

text \<open>\<open>Run\<close> after the loop, up to the preferences: 5 steps are enough for the updater thread to end.\<close>

definition Run_finish :: "'w win32 \<Rightarrow> app \<Rightarrow> 'w \<Rightarrow> (app \<times> 'w) option" where
  "Run_finish W a w =
     (let (a1, w1) = ClearMiniViews W a w
      in do { u \<leftarrow> StopTimedUpdates 5 (frameUpdater a1);
              let a2 = a1\<lparr>frameUpdater := u\<rparr>;
              Some (a2, RemoveNotificationIcon W a2 w1) })"

end
