(* ===== verification/Mini_Views_Facts.thy ===== *)
theory Mini_Views_Facts
  imports Mini_Views
begin

text \<open>Properties of the program as a whole: its views, frames, opacity and clip selection.\<close>

section \<open>Loops over the views\<close>

lemma for_views_rel:
  assumes "\<And>mv w. post (\<lambda>x. R mv (fst x)) (f mv w)"
  shows "for_views f vs w = Some (vs', w') \<Longrightarrow> list_all2 (\<lambda>u v. fst v = fst u \<and> R (snd u) (snd v)) vs vs'"
proof (induction vs arbitrary: w vs')
  case (Cons p vs)
  then obtain i mv mv1 w1 vs1 where p: "p = (i, mv)" "f mv w = Some (mv1, w1)" "for_views f vs w1 = Some (vs1, w')"
    "vs' = (i, mv1) # vs1"
    by (cases p) (auto simp: bind_eq_Some_conv split: prod.splits)
  with Cons.IH [of w1 vs1] postD [OF assms p(2)] show ?case by simp
qed simp

lemma same_addresses:
  "list_all2 (\<lambda>u v. fst v = fst u \<and> R (snd u) (snd v)) vs vs' \<Longrightarrow> map fst vs' = map fst vs"
  by (induction rule: list_all2_induct) simp_all

lemma rel_imp_all:
  "list_all2 P vs vs' \<Longrightarrow> (\<And>u v. u \<in> set vs \<Longrightarrow> P u v \<Longrightarrow> Q v) \<Longrightarrow> \<forall>x\<in>set vs'. Q x"
  by (metis in_set_conv_nth list_all2_conv_all_nth)

section \<open>The views' edit mode\<close>

text \<open>
  The invariant of the list of views: addresses are distinct and were handed out, and every view is
  in the program's edit mode.
\<close>

definition addresses_ok :: "(nat \<times> view) list \<Rightarrow> nat \<Rightarrow> bool" where
  "addresses_ok vs n \<longleftrightarrow> distinct (map fst vs) \<and> (\<forall>i\<in>fst ` set vs. i < n)"

definition views_ok :: "app \<Rightarrow> bool" where
  "views_ok a \<longleftrightarrow> addresses_ok (currMiniViews a) (nextAddress a) \<and>
     (\<forall>x\<in>set (currMiniViews a). editMode (snd x) = appEditMode a)"

lemma views_ok_update [simp]:
  "views_ok (a\<lparr>clipSel := c\<rparr>) = views_ok a" "views_ok (a\<lparr>registeredClasses := r\<rparr>) = views_ok a"
  "views_ok (a\<lparr>frameNumber := n\<rparr>) = views_ok a" "views_ok (a\<lparr>hasFrameToRun := b\<rparr>) = views_ok a"
  "views_ok (a\<lparr>transparencyAlpha := t\<rparr>) = views_ok a" "views_ok (dialog d a) = views_ok a"
  "views_ok (TimedUpdate a) = views_ok a"
  by (simp_all add: views_ok_def dialog_def TimedUpdate_def)

lemma dialog_fields [simp]:
  "appEditMode (dialog d a) = appEditMode a" "currMiniViews (dialog d a) = currMiniViews a"
  "getHandle (dialog d a) = getHandle a" "nextAddress (dialog d a) = nextAddress a"
  "transparencyAlpha (dialog d a) = transparencyAlpha a" "clipSel (dialog d a) = clipSel a"
  "windowsItemHandle (dialog d a) = windowsItemHandle a"
  by (simp_all add: dialog_def getHandle_def)

lemma all_views_ok:
  assumes "views_ok a" "\<And>mv w. post (\<lambda>x. framed mv (fst x)) (f mv w)"
  shows "post (\<lambda>x. views_ok (fst x)) (all_views f a w)"
proof -
  have "views_ok (a\<lparr>currMiniViews := vs\<rparr>)" if "for_views f (currMiniViews a) w = Some (vs, w')" for vs w'
  proof -
    from for_views_rel [where R = framed, OF assms(2) that]
    have rel: "list_all2 (\<lambda>u v. fst v = fst u \<and> framed (snd u) (snd v)) (currMiniViews a) vs" .
    then have "\<forall>x\<in>set vs. editMode (snd x) = appEditMode a"
      by (rule rel_imp_all) (use assms(1) in \<open>simp add: views_ok_def framed_def\<close>)
    moreover have "addresses_ok vs (nextAddress a)"
      using same_addresses [OF rel] assms(1) by (simp add: views_ok_def addresses_ok_def flip: set_map)
    ultimately show ?thesis by (simp add: views_ok_def)
  qed
  then show ?thesis by (auto simp: post_def all_views_def bind_eq_Some_conv)
qed

lemma SetEditMode_sets: "post (\<lambda>x. editMode (fst x) = b) (SetEditMode W b mv w)"
  unfolding SetEditMode_def by (rule posts | rule post_any | (simp; fail))+

lemma app_ToggleEditMode_ok:
  assumes "views_ok a"
  shows "post (\<lambda>x. views_ok (fst x) \<and> appEditMode (fst x) = (\<not> appEditMode a) \<and>
    map fst (currMiniViews (fst x)) = map fst (currMiniViews a) \<and> getHandle (fst x) = getHandle a) (app_ToggleEditMode W a w)"
proof -
  have "views_ok (a\<lparr>appEditMode := b, currMiniViews := vs\<rparr>) \<and> map fst vs = map fst (currMiniViews a)"
    if "for_views (SetEditMode W b) (currMiniViews a) w1 = Some (vs, w2)" for vs w1 w2 b
  proof -
    from for_views_rel [where R = "\<lambda>u v. editMode v = b", OF SetEditMode_sets that]
    have rel: "list_all2 (\<lambda>u v. fst v = fst u \<and> editMode (snd v) = b) (currMiniViews a) vs" .
    then have "\<forall>x\<in>set vs. editMode (snd x) = b"
      by (rule rel_imp_all) simp
    moreover have "map fst vs = map fst (currMiniViews a)"
      using same_addresses [where R = "\<lambda>u v. editMode v = b", OF rel] .
    ultimately show ?thesis
      using assms by (simp add: views_ok_def addresses_ok_def flip: set_map)
  qed
  then show ?thesis
    by (auto simp: post_def app_ToggleEditMode_def all_views_def bind_eq_Some_conv Let_def getHandle_def
        simp del: set_map split: if_splits)
qed

lemma toggle_keeps_ok: "views_ok a \<Longrightarrow> post (\<lambda>x. views_ok (fst x)) (app_ToggleEditMode W a w)"
  by (rule post_mono [OF app_ToggleEditMode_ok]) simp_all

lemma addresses_ok_cong: "map fst vs = map fst vs' \<Longrightarrow> addresses_ok vs n = addresses_ok vs' n"
  by (simp add: addresses_ok_def flip: set_map)

lemma put_view_addresses: "map fst (currMiniViews (put_view i mv a)) = map fst (currMiniViews a)"
  by (auto simp: put_view_def)

lemma put_view_ok:
  assumes "views_ok a" "view_at i a = Some mv" "editMode mv' = editMode mv"
  shows "views_ok (put_view i mv' a)"
proof -
  have "editMode mv = appEditMode a"
    using assms(1) map_of_SomeD [of "currMiniViews a" i mv] assms(2) by (fastforce simp: views_ok_def view_at_def)
  moreover have "\<forall>x\<in>set (map (\<lambda>(j, u). if j = i then (j, mv') else (j, u)) (currMiniViews a)). editMode (snd x) = appEditMode a"
    using assms(1) \<open>editMode mv = appEditMode a\<close> assms(3) by (auto simp: views_ok_def split: if_splits)
  ultimately show ?thesis
    using assms(1) addresses_ok_cong [OF put_view_addresses [of i mv' a]] by (simp add: views_ok_def put_view_def)
qed

lemma filter_views_ok:
  "views_ok a \<Longrightarrow> views_ok (a\<lparr>currMiniViews := filter P (currMiniViews a)\<rparr>)"
  by (auto simp: views_ok_def addresses_ok_def distinct_map_filter)

lemma DestroyThis_mode [simp]: "editMode (fst (DestroyThis W mv w)) = editMode mv"
  by (simp add: DestroyThis_def item_DestroyThis_def Let_def)

lemma app_CloseMiniView_ok:
  assumes "views_ok a"
  shows "post (\<lambda>x. views_ok (fst x)) (app_CloseMiniView W i a w)"
proof -
  have put: "views_ok (put_view i (fst (DestroyThis W mv w)) a)" if "view_at i a = Some mv" for mv
    using put_view_ok [OF assms that] by simp
  show ?thesis
    by (auto simp: post_def app_CloseMiniView_def bind_eq_Some_conv Let_def split_beta put filter_views_ok
        split: option.splits)
qed

lemma app_SetClipRegion_ok:
  assumes "views_ok a"
  shows "post (\<lambda>x. views_ok (fst x)) (app_SetClipRegion W i a w)"
proof -
  have hide: "post (\<lambda>x. framed mv (fst x)) (Some (HideByParentRequest W mv w))" for mv w
    by (simp add: post_Some HideByParentRequest_def framed_def)
  have start: "post (\<lambda>x. views_ok (fst x)) (if \<not> appEditMode a then app_ToggleEditMode W a w else Some (a, w))"
    by (rule post_if) (simp_all add: toggle_keeps_ok post_Some assms)
  show ?thesis
    unfolding app_SetClipRegion_def
    by (rule post_bind, rule post_mono [OF start])
      (rule posts post_mono [OF all_views_ok [where f = "\<lambda>mv w. Some (HideByParentRequest W mv w)", OF _ hide]]
        | rule post_any | (simp; fail))+
qed

lemma EndSetClipRegion_ok:
  assumes "views_ok a"
  shows "post (\<lambda>x. views_ok (fst x)) (EndSetClipRegion W S i r a w)"
proof -
  have shown: "post (\<lambda>x. framed mv (fst x)) (Some (ShowByParentRequest W mv w))" for mv w
    by (simp add: post_Some ShowByParentRequest_def framed_def)
  have put: "views_ok (put_view i mv' a1)" if "views_ok a1" "view_at i a1 = Some mv" "framed mv mv'" for a1 mv mv'
    using put_view_ok [OF that(1,2)] that(3) by (simp add: framed_def)
  have all: "views_ok a1" if "all_views (\<lambda>mv w. Some (ShowByParentRequest W mv w)) (a\<lparr>clipSel := c\<rparr>) w1 = Some (a1, w2)"
    for a1 c w1 w2
    using postD [OF all_views_ok [OF _ shown] that] assms by simp
  show ?thesis
    unfolding post_def EndSetClipRegion_def Let_def split_beta
    by (auto simp: bind_eq_Some_conv split_beta intro!: put dest!: all postD [OF SetClip_frame])
qed

lemma clip_LButtonUp_ok:
  assumes "views_ok a"
  shows "post (\<lambda>x. views_ok (fst x)) (clip_LButtonUp W S xc yc a w)"
proof -
  have "views_ok (a\<lparr>clipSel := c\<rparr>)" for c using assms by simp
  note finish = EndSetClipRegion_ok [OF this]
  show ?thesis
    unfolding clip_LButtonUp_def Let_def split_beta
    by (rule post_bind, rule post_any, rule post_bind, rule post_mono [OF finish]) (simp add: post_Some)
qed

lemma handle_requests_ok:
  "views_ok a \<Longrightarrow> post (\<lambda>x. views_ok (fst x)) (handle_requests W i rs a w)"
proof (induction rs arbitrary: a w)
  case (Cons r rs)
  have "post (\<lambda>x. views_ok (fst x)) (handle_request W i r a w)"
    using Cons.prems by (cases r) (simp_all add: handle_request_def post_Some app_CloseMiniView_ok app_SetClipRegion_ok)
  from post_mono [OF this] Cons.IH show ?case
    by (auto simp: split_beta intro!: post_bind)
qed (simp add: post_Some)

lemma view_message_ok:
  assumes "views_ok a"
  shows "post (\<lambda>x. views_ok (fst (snd x))) (view_message W S i msg a w)"
proof -
  have step: "views_ok a2"
    if mv: "view_at i a = Some mv" and r: "WndProc W (Some p) msg (mv\<lparr>requests := []\<rparr>) w = Some (r', mv1, w1)"
      and h: "handle_requests W i rs (put_view i (mv1\<lparr>requests := []\<rparr>) a) w1 = Some (a2, w2)"
    for mv p r' mv1 w1 rs a2 w2
  proof -
    have "editMode mv1 = editMode mv"
      using postD [OF WndProc_frame r] by (simp add: framed_def)
    then have "views_ok (put_view i (mv1\<lparr>requests := []\<rparr>) a)"
      using put_view_ok [OF assms mv, of "mv1\<lparr>requests := []\<rparr>"] by simp
    from postD [OF handle_requests_ok [OF this] h] show ?thesis by simp
  qed
  show ?thesis
    by (auto simp: view_message_def post_def bind_eq_Some_conv split_beta intro: step)
qed

lemma CreateThis_mode:
  "editMode mv \<Longrightarrow> post (\<lambda>x. fst x \<longrightarrow> editMode (fst (snd (snd x)))) (CreateThis W h src xc yc reg mv w)"
  unfolding CreateThis_def Let_def split_beta
  by (rule posts | rule post_mono [OF SetEditMode_sets] | rule post_any | (simp; fail))+

lemma app_AddMiniView_ok:
  assumes "views_ok a"
  shows "post (\<lambda>x. views_ok (fst x)) (app_AddMiniView W S unset a w)"
proof -
  have start: "post (\<lambda>x. views_ok (fst x) \<and> appEditMode (fst x))
      (if \<not> appEditMode a then app_ToggleEditMode W a w else Some (a, w))" for w
    by (rule post_if, rule post_mono [OF app_ToggleEditMode_ok [OF assms]]) (simp_all add: post_Some assms)
  have add: "views_ok (a1\<lparr>registeredClasses := r, currMiniViews := currMiniViews a1 @ [(nextAddress a1, mv)],
      nextAddress := Suc (nextAddress a1)\<rparr>)" if "views_ok a1" "appEditMode a1" "editMode mv" for a1 r mv
    using that by (auto simp: views_ok_def addresses_ok_def less_Suc_eq)
  have new: "editMode (new_view p u)" for p u
    by (simp add: new_view_def item.defs)
  show ?thesis
    unfolding app_AddMiniView_def
    by (rule post_bind, rule post_any, rule post_bind, rule post_mono [OF start], rule post_prod, unfold Let_def split_beta)
      (rule posts post_mono [OF CreateThis_mode [OF new]] | rule post_any
        | (auto simp: add split: if_splits; fail))+
qed

lemma SetOpacityLevel_ok: "views_ok a \<Longrightarrow> views_ok (fst (SetOpacityLevel W n a w))"
  by (simp add: SetOpacityLevel_def Let_def)

lemma alpha_ok: "views_ok a \<Longrightarrow> views_ok (fst (IncrementAlpha W a w))" "views_ok a \<Longrightarrow> views_ok (fst (DecrementAlpha W a w))"
  by (simp_all add: IncrementAlpha_def DecrementAlpha_def SetOpacityLevel_ok)

lemma ClearMiniViews_ok: "views_ok a \<Longrightarrow> views_ok (fst (ClearMiniViews W a w))"
  by (simp add: ClearMiniViews_def views_ok_def addresses_ok_def)

lemma RunNotificationContextMenu_ok:
  "views_ok a \<Longrightarrow> post (\<lambda>x. views_ok (fst x)) (RunNotificationContextMenu W S unset a w)"
  unfolding RunNotificationContextMenu_def Let_def split_beta
  by (intro post_if toggle_keeps_ok app_AddMiniView_ok post_Some) (simp_all add: alpha_ok ClearMiniViews_ok)

lemma app_WndProc_ok:
  assumes "views_ok a"
  shows "post (\<lambda>x. views_ok (fst (snd x))) (app_WndProc W S unset d msg a w)"
proof -
  have hotkey: "post (\<lambda>x. views_ok (fst x)) (HotkeyPressed W S unset k a w)" for k
    using assms by (auto simp: HotkeyPressed_def alpha_ok post_Some toggle_keeps_ok app_AddMiniView_ok
        split: option.splits hotkey.splits)
  have icon: "post (\<lambda>x. views_ok (fst x)) (IconNotify W S unset e a w)" for e
    using assms by (cases e) (simp_all add: IconNotify_def post_Some RunNotificationContextMenu_ok)
  show ?thesis
    by (cases msg) (auto simp: app_WndProc_def post_Some assms intro!: post_map post_any [where m = "FixPosition W a w"]
        post_mono [OF hotkey] post_mono [OF icon])
qed

lemma app_RunFrame_ok:
  assumes "views_ok a"
  shows "post (\<lambda>x. views_ok (fst x)) (app_RunFrame W S a w)"
proof -
  have frame: "post (\<lambda>x. framed mv (fst x)) (map_option (Pair mv) (RunFrame W u mv w))" for mv u and w :: 'a
    by (rule post_map, rule post_any) simp
  have half: "post (\<lambda>x. views_ok (fst x)) (app_RunHalfSecondActions W S b v)" if "views_ok b" for b and v :: 'a
    unfolding app_RunHalfSecondActions_def
    by (rule post_bind, rule post_any, rule post_Let, rule all_views_ok [OF that RunHalfSecondActions_frame])
  show ?thesis
    unfolding app_RunFrame_def
    by (rule post_bind, rule post_any, rule post_Let)
      (rule posts post_mono [OF half] post_mono [OF all_views_ok [OF _ frame]] | (use assms in \<open>auto; fail\<close>))+
qed

section \<open>Properties\<close>

lemma handle_events_ok:
  "views_ok a \<Longrightarrow> post (\<lambda>x. views_ok (fst x)) (handle_events W S unset es a w)"
proof (induction es arbitrary: a w)
  case (Cons e es)
  have "post (\<lambda>x. views_ok (fst x)) (handle_event W S unset e a w)"
    using Cons.prems
    by (cases e) (auto simp: handle_event_def post_Some Let_def split_beta clip_LButtonUp_ok app_RunFrame_ok
        intro!: post_map app_WndProc_ok view_message_ok)
  from post_mono [OF this] Cons.IH show ?case by (auto simp: split_beta intro!: post_bind)
qed (simp add: post_Some)

lemma window_calls_keep_views [simp]:
  "currMiniViews (fst (snd (snd (RegisterWindowClass W n r a w)))) = currMiniViews a"
  "currMiniViews (fst (snd (CreateClassWindow W ex n st x y width height p a w))) = currMiniViews a"
  by (simp_all add: RegisterWindowClass_def WindowClassIsRegistered_def CreateClassWindow_def split_beta Let_def)

lemma app_CreateThis_views: "post (\<lambda>x. currMiniViews (fst (snd x)) = currMiniViews a) (app_CreateThis W a w)"
  unfolding app_CreateThis_def Let_def split_beta by (rule posts | rule post_any | (simp; fail))+

lemma Run_start_ok: "post (\<lambda>x. case x of Inl e \<Rightarrow> True | Inr y \<Rightarrow> views_ok (fst y)) (Run_start W S n (new_app S) w)"
proof -
  have none: "views_ok b" if "currMiniViews b = currMiniViews (new_app S)" for b
    using that by (simp add: views_ok_def addresses_ok_def new_app_def item.defs)
  show ?thesis
    unfolding Run_start_def Let_def split_beta
    by (rule posts | rule post_mono [OF app_CreateThis_views] | (simp add: none; fail))+
qed

section \<open>An example program\<close>

definition example_settings :: settings where
  "example_settings = \<lparr>viewPrefs = example_prefs, useNotificationIcon = True, showDialogOnStart = False,
     defaultOpacity = 175\<rparr>"

text \<open>The program with window 30 and two views, of windows 40 and 41.\<close>

definition example_app :: app where
  "example_app = (new_app example_settings)\<lparr>windowsItemHandle := 30,
     currMiniViews := [(0, example_view), (1, example_view\<lparr>windowsItemHandle := 41, lockRatio := False\<rparr>)], nextAddress := 2\<rparr>"

lemmas app_evals = example_app_def new_app_def item.defs new_item_def example_settings_def

section \<open>Edit mode and frames\<close>

text \<open>
  Property C2: from the start of the message loop on, whatever happens in whatever order, the
  addresses of the views are distinct and every view is in the same edit mode as the program.
\<close>

theorem edit_modes_agree:
  assumes "views_ok a" "handle_events W S unset es a w = Some (a', w')"
  shows "views_ok a' \<and> (Run_start W S n (new_app S) v = Some (Inr (b, v')) \<longrightarrow> views_ok b)"
  using postD [OF handle_events_ok [OF assms(1)] assms(2)] postD [OF Run_start_ok [of W S n v]] by fastforce

lemma edit_modes_agree_witness:
  "\<exists>a' w'. handle_events desk_win32 example_settings \<lparr>cx = 0, cy = 0\<rparr>
      [Tick, ForApp 0 (AppHotkey (Some HotkeyIncreaseOpacity)), ForView 0 WM_MOVE, ForView 1 WM_CLOSE_MSG] example_app desk0
        = Some (a', w') \<and> views_ok a'"
proof -
  have "views_ok example_app"
    by (simp add: views_ok_def addresses_ok_def app_evals example_view_def new_view_def)
  moreover obtain a' w' where e: "handle_events desk_win32 example_settings \<lparr>cx = 0, cy = 0\<rparr>
      [Tick, ForApp 0 (AppHotkey (Some HotkeyIncreaseOpacity)), ForView 0 WM_MOVE, ForView 1 WM_CLOSE_MSG] example_app desk0
        = Some (a', w')"
    by (simp add: handle_event_def TimedUpdate_def app_WndProc_def HotkeyPressed_def view_message_def view_at_def WndProc_def
        ProcessCloseMessage_def WindowMoved_def request_def handle_request_def dialog_def put_view_def app_CloseMiniView_def
        IncrementAlpha_def SetOpacityLevel_def Let_def app_evals split_beta)
  ultimately show ?thesis using edit_modes_agree [OF _ e, THEN conjunct1] by blast
qed

text \<open>\<open>n\<close> frames in a row.\<close>

fun run_frames :: "nat \<Rightarrow> 'w win32 \<Rightarrow> settings \<Rightarrow> app \<Rightarrow> 'w \<Rightarrow> (app \<times> 'w) option" where
  "run_frames 0 W S a w = Some (a, w)"
| "run_frames (Suc n) W S a w = do { (a1, w1) \<leftarrow> app_RunFrame W S a w; run_frames n W S a1 w1 }"

lemma all_views_frame:
  "post (\<lambda>x. frameNumber (fst x) = frameNumber a \<and> transparencyAlpha (fst x) = transparencyAlpha a) (all_views f a w)"
  unfolding all_views_def by (rule posts | rule post_any | (simp; fail))+

lemma half_second_frame:
  "post (\<lambda>x. frameNumber (fst x) = frameNumber a) (app_RunHalfSecondActions W S a w)"
  unfolding app_RunHalfSecondActions_def
  by (rule post_bind, rule post_any, rule post_Let, rule post_mono [OF all_views_frame]) simp

lemma unchanged_views:
  assumes "for_views (\<lambda>mv w. map_option (Pair mv) (g mv w)) vs w = Some (vs', w')"
  shows "vs' = vs"
  using assms
proof (induction vs arbitrary: w vs')
  case (Cons p vs)
  then show ?case by (cases p) (auto simp: bind_eq_Some_conv)
qed simp

lemma cycle_20: "framesPerCycle = 20"
  by (simp add: framesPerCycle_def msPerFrame_def trunc_div_def)

lemma app_RunFrame_step:
  assumes "app_RunFrame W S a w = Some (a', w')" "0 \<le> frameNumber a" "frameNumber a < 20"
  shows "frameNumber a' = (frameNumber a + 1) mod 20" "\<not> hasFrameToRun a'"
    "frameNumber a' \<noteq> 0 \<Longrightarrow> currMiniViews a' = currMiniViews a"
proof -
  let ?n = "if frameNumber a + 1 \<ge> 20 then 0 else frameNumber a + 1"
  from assms have "add32 (frameNumber a) 1 = Some (frameNumber a + 1)"
    by (simp add: add32_def in_s32_iff)
  with assms(1) obtain a2 w1 a3 where s: "(if ?n = 0 then app_RunHalfSecondActions W S (a\<lparr>frameNumber := ?n\<rparr>) w
      else Some (a\<lparr>frameNumber := ?n\<rparr>, w)) = Some (a2, w1)"
    "all_views (\<lambda>mv w. map_option (Pair mv) (RunFrame W (Some (viewPrefs S)) mv w)) a2 w1 = Some (a3, w')"
    "a' = a3\<lparr>hasFrameToRun := False\<rparr>"
    by (simp only: app_RunFrame_def cycle_20 bind_eq_Some_conv Let_def) (auto simp: bind_eq_Some_conv)
  have "frameNumber a2 = ?n"
    using s(1) postD [OF half_second_frame, of W S "a\<lparr>frameNumber := ?n\<rparr>" w "(a2, w1)"] by (auto split: if_splits)
  moreover have "frameNumber a3 = frameNumber a2" using postD [OF all_views_frame s(2)] by simp
  moreover have "?n = (frameNumber a + 1) mod 20"
    using assms(2,3) by (cases "frameNumber a = 19") simp_all
  ultimately show n: "frameNumber a' = (frameNumber a + 1) mod 20" using s(3) by simp
  show "\<not> hasFrameToRun a'" using s(3) by simp
  have "currMiniViews a3 = currMiniViews a2"
    using s(2) unchanged_views by (auto simp: all_views_def bind_eq_Some_conv)
  then show "currMiniViews a' = currMiniViews a" if "frameNumber a' \<noteq> 0"
    using that n s(1,3) assms(2,3) by (cases "frameNumber a = 19") (auto split: if_splits)
qed

text \<open>
  Frames count modulo 20 and clear the request for a frame; the half-second actions,
  the only ones that change the views, run on the frames that reach 0, every 20th.
\<close>

theorem half_second_every_20_frames:
  assumes "run_frames n W S a w = Some (a', w')" "0 \<le> frameNumber a" "frameNumber a < 20"
  shows "frameNumber a' = (frameNumber a + int n) mod 20 \<and> (n > 0 \<longrightarrow> \<not> hasFrameToRun a') \<and>
    (frameNumber a + int n < 20 \<longrightarrow> currMiniViews a' = currMiniViews a)"
  using assms
proof (induction n arbitrary: a w)
  case (Suc n)
  then obtain a1 w1 where s: "app_RunFrame W S a w = Some (a1, w1)" "run_frames n W S a1 w1 = Some (a', w')"
    by (auto simp: bind_eq_Some_conv)
  note one = app_RunFrame_step [OF s(1) Suc.prems(2,3)]
  have range: "0 \<le> frameNumber a1" "frameNumber a1 < 20" using one(1) by simp_all
  note rest = Suc.IH [OF s(2) range]
  have "n = 0 \<Longrightarrow> a' = a1" using s(2) by simp
  moreover have "(frameNumber a1 + int n) mod 20 = (frameNumber a + int (Suc n)) mod 20"
    using one(1) by (simp add: mod_simps ac_simps)
  moreover have "frameNumber a + int (Suc n) < 20 \<Longrightarrow> frameNumber a1 = frameNumber a + 1 \<and> frameNumber a1 \<noteq> 0"
    using one(1) Suc.prems(2) by simp
  ultimately show ?case using rest one(2,3) by (cases "n = 0") auto
qed simp

lemma half_second_every_20_frames_witness:
  "\<exists>a' w'. run_frames 2 desk_win32 example_settings (example_app\<lparr>currMiniViews := []\<rparr>) desk0 = Some (a', w')
     \<and> frameNumber a' = 2"
proof -
  obtain a' w' where e: "run_frames 2 desk_win32 example_settings (example_app\<lparr>currMiniViews := []\<rparr>) desk0 = Some (a', w')"
    by (simp add: eval_nat_numeral app_RunFrame_def all_views_def cycle_20 add32_def in_s32_iff app_evals)
  from half_second_every_20_frames [OF e] e show ?thesis by (simp add: app_evals)
qed

section \<open>Opacity\<close>

lemma u8_up:
  fixes t :: u8
  shows "(255 < uint t + 10) = (unat t > 245)" "word_of_int (uint t + 10) = (word_of_nat (unat t + 10) :: u8)"
proof -
  have "uint t = int (unat t)" by simp
  then show "(255 < uint t + 10) = (unat t > 245)" by linarith
  show "word_of_int (uint t + 10) = (word_of_nat (unat t + 10) :: u8)" by simp
qed

lemma u8_down:
  fixes t :: u8
  shows "(uint t < 10) = (unat t < 10)"
    "\<not> unat t < 10 \<Longrightarrow> word_of_int (uint t - 10) = (word_of_nat (unat t - 10) :: u8)"
proof -
  have "uint t = int (unat t)" by simp
  then show "(uint t < 10) = (unat t < 10)" by linarith
  show "word_of_int (uint t - 10) = (word_of_nat (unat t - 10) :: u8)" if "\<not> unat t < 10"
    using that by (simp add: of_nat_diff)
qed

text \<open>
  Increasing and decreasing the opacity move it by 10 and saturate at 255 and 0, without
  the wrap-around of \<open>u8\<close>, and the new level is the one the window gets.
\<close>

theorem opacity_saturates:
  "unat (transparencyAlpha (fst (IncrementAlpha W a w))) = min 255 (unat (transparencyAlpha a) + 10) \<and>
   unat (transparencyAlpha (fst (DecrementAlpha W a w))) = unat (transparencyAlpha a) - 10 \<and>
   snd (IncrementAlpha W a w) = SetLayeredAlpha W (getHandle a) (transparencyAlpha (fst (IncrementAlpha W a w))) w \<and>
   snd (DecrementAlpha W a w) = SetLayeredAlpha W (getHandle a) (transparencyAlpha (fst (DecrementAlpha W a w))) w"
proof -
  let ?t = "transparencyAlpha a"
  have handle: "getHandle (a\<lparr>transparencyAlpha := t\<rparr>) = getHandle a" for t by (simp add: getHandle_def)
  note defs = IncrementAlpha_def DecrementAlpha_def SetOpacityLevel_def GetOpacityLevel_def Let_def handle
  have inc: "transparencyAlpha (fst (IncrementAlpha W a w)) = (if unat ?t > 245 then 255 else word_of_nat (unat ?t + 10))"
    by (simp add: defs u8_up)
  have dec: "transparencyAlpha (fst (DecrementAlpha W a w)) = (if unat ?t < 10 then 0 else word_of_nat (unat ?t - 10))"
    by (simp add: defs u8_down)
  have small: "unat (word_of_nat n :: u8) = n" if "n < 256" for n
    using that by (simp add: unat_of_nat)
  have bound: "unat ?t < 256" using unsigned_less [of ?t, where ?'a = nat] by simp
  have "unat (transparencyAlpha (fst (IncrementAlpha W a w))) = min 255 (unat ?t + 10)"
  proof (cases "unat ?t > 245")
    case False
    then have "unat (word_of_nat (unat ?t + 10) :: u8) = unat ?t + 10" by (intro small) simp
    with False show ?thesis unfolding inc by (simp only: if_False)
  qed (simp add: inc)
  moreover have "unat (transparencyAlpha (fst (DecrementAlpha W a w))) = unat ?t - 10"
  proof (cases "unat ?t < 10")
    case False
    have "unat (word_of_nat (unat ?t - 10) :: u8) = unat ?t - 10" by (intro small) (use bound in simp)
    with False show ?thesis unfolding dec by (simp only: if_False)
  qed (simp add: dec)
  ultimately show ?thesis by (simp add: defs)
qed

section \<open>Closing and clearing\<close>

lemma view_at_put: "view_at i a = Some mv \<Longrightarrow> view_at i (put_view i mv' a) = Some mv'"
proof -
  have "map_of vs i = Some mv \<Longrightarrow> map_of (map (\<lambda>(j, u). if j = i then (j, mv') else (j, u)) vs) i = Some mv'" for vs
    by (induction vs) (auto split: if_splits)
  then show "view_at i a = Some mv \<Longrightarrow> view_at i (put_view i mv' a) = Some mv'"
    by (simp add: view_at_def put_view_def)
qed

lemma put_handles:
  assumes "view_at i a = Some mv" "distinct (map fst (currMiniViews a))" "getHandle mv' = getHandle mv"
  shows "map (\<lambda>x. getHandle (snd x)) (currMiniViews (put_view i mv' a)) = map (\<lambda>x. getHandle (snd x)) (currMiniViews a)"
proof -
  have "u = mv" if "(i, u) \<in> set (currMiniViews a)" for u
    using that assms(1) map_of_is_SomeI [OF assms(2) that] by (simp add: view_at_def)
  then show ?thesis using assms(3) by (auto simp: put_view_def)
qed

lemma put_filter: "filter (\<lambda>(j, u). j \<noteq> i) (currMiniViews (put_view i mv a)) = filter (\<lambda>(j, u). j \<noteq> i) (currMiniViews a)"
proof -
  have "filter (\<lambda>(j, u). j \<noteq> i) (map (\<lambda>(j, u). if j = i then (j, mv) else (j, u)) vs) = filter (\<lambda>(j, u). j \<noteq> i) vs" for vs
    by (induction vs) auto
  then show ?thesis by (simp add: put_view_def)
qed

lemma find_by_handle:
  assumes "map_of vs i = Some mv" "distinct (map (\<lambda>x. getHandle (snd x)) vs)"
  shows "find (\<lambda>(j, u). getHandle u = getHandle mv) vs = Some (i, mv)"
  using assms
proof (induction vs)
  case (Cons p vs)
  obtain j u where p: "p = (j, u)" by (cases p)
  show ?case
  proof (cases "j = i")
    case False
    with Cons.prems(1) p have "(i, mv) \<in> set vs" by (auto dest: map_of_SomeD)
    then have "getHandle mv \<in> (\<lambda>x. getHandle (snd x)) ` set vs" by force
    moreover have "getHandle u \<notin> (\<lambda>x. getHandle (snd x)) ` set vs" using Cons.prems(2) p by simp
    ultimately have "getHandle u \<noteq> getHandle mv" by metis
    with False Cons p show ?thesis by simp
  qed (use Cons.prems p in simp)
qed simp

lemma DestroyThis_world: "windowsItemHandle mv' = windowsItemHandle mv \<Longrightarrow> tooltipHandle mv' = tooltipHandle mv \<Longrightarrow>
  snd (DestroyThis W mv' w) = snd (DestroyThis W mv w)"
  by (simp add: DestroyThis_def item_DestroyThis_def getHandle_def Let_def)

lemma Rest_update [simp]: "Rest W (a\<lparr>currMiniViews := vs\<rparr>) w = Rest W a w" "Rest W (put_view i mv a) w = Rest W a w"
  by (simp_all add: Rest_def getHandle_def put_view_def)

lemma app_CloseMiniView_drops:
  assumes "view_at i a = Some mv" "distinct (map (\<lambda>x. getHandle (snd x)) (currMiniViews a))"
  shows "\<exists>a' w'. app_CloseMiniView W i a w = Some (a', w') \<and>
    currMiniViews a' = filter (\<lambda>(j, u). j \<noteq> i) (currMiniViews a) \<and>
    w' = (let w1 = snd (DestroyThis W mv w) in if currMiniViews a' = [] then Rest W a w1 else w1)"
  using assms find_by_handle [of "currMiniViews a" i mv]
  by (simp add: app_CloseMiniView_def view_at_def [of i a] split_beta Let_def put_filter)

text \<open>
  Property C10: when a view's window receives \<open>WM_CLOSE\<close>, the program destroys that window and
  drops exactly that view, provided that no two views have the same window; after the last one it
  puts its own window at the bottom.
\<close>

theorem close_message_drops_view:
  assumes "view_at i a = Some mv" "distinct (map (\<lambda>x. getHandle (snd x)) (currMiniViews a))"
    and "distinct (map fst (currMiniViews a))"
  shows "\<exists>a' w'. view_message W S i WM_CLOSE_MSG a w = Some (Result 0, a', w') \<and>
    currMiniViews a' = filter (\<lambda>(j, u). j \<noteq> i) (currMiniViews a) \<and>
    w' = (let w1 = snd (DestroyThis W mv w) in if currMiniViews a' = [] then Rest W a w1 else w1)"
proof -
  let ?mv = "mv\<lparr>requests := []\<rparr>"
  let ?a = "put_view i ?mv a"
  have "distinct (map (\<lambda>x. getHandle (snd x)) (currMiniViews ?a))"
    using put_handles [OF assms(1,3), of ?mv] assms(2) by (simp add: getHandle_def)
  from app_CloseMiniView_drops [OF view_at_put [OF assms(1)] this, of W w] obtain a' w' where c:
    "app_CloseMiniView W i ?a w = Some (a', w')" "currMiniViews a' = filter (\<lambda>(j, u). j \<noteq> i) (currMiniViews a)"
    "w' = (let w1 = snd (DestroyThis W mv w) in if currMiniViews a' = [] then Rest W a w1 else w1)"
    using DestroyThis_world [of ?mv mv W w] by (auto simp: put_filter Let_def)
  then show ?thesis
    using assms(1)
    by (simp add: view_message_def WndProc_def ProcessCloseMessage_def request_def handle_request_def)
qed

lemma close_message_drops_view_witness:
  "\<exists>a' w'. view_message desk_win32 example_settings 0 WM_CLOSE_MSG example_app desk0 = Some (Result 0, a', w') \<and>
     map fst (currMiniViews a') = [1]"
proof -
  have "view_at 0 example_app = Some example_view" by (simp add: view_at_def app_evals)
  moreover have "distinct (map (\<lambda>x. getHandle (snd x)) (currMiniViews example_app))"
    "distinct (map fst (currMiniViews example_app))"
    by (simp_all add: app_evals getHandle_def example_view_def new_view_def)
  moreover have "map fst (filter (\<lambda>(j, u). j \<noteq> 0) (currMiniViews example_app)) = [1]"
    by (simp add: app_evals)
  ultimately show ?thesis
    using close_message_drops_view [of 0 example_app example_view desk_win32 example_settings desk0] by auto
qed

text \<open>
  Clearing the views while a clip region is being selected leaves the selection
  window with a pointer to a view that is gone, so releasing the button has no defined result.
\<close>

theorem clear_during_selection_dangles:
  "clipSel (fst (ClearMiniViews W a w)) = clipSel a \<and>
   clip_LButtonUp W S xc yc (fst (ClearMiniViews W a w)) w' = None"
proof -
  have "all_views f b v = None \<or> (\<exists>v'. all_views f b v = Some (b, v'))" if "currMiniViews b = []" for f b and v :: 'a
    using that by (simp add: all_views_def)
  then have "EndSetClipRegion W S i r b v = None" if "currMiniViews b = []" for i r b v
    using that by (auto simp: EndSetClipRegion_def split_beta view_at_def Let_def all_views_def)
  then show ?thesis
    by (auto simp: ClearMiniViews_def clip_LButtonUp_def split_beta Let_def Option.bind_eq_None_conv)
qed

section \<open>Selecting a clip region\<close>

lemma for_views_each:
  assumes "for_views f vs w = Some (vs', w')" "\<And>mv w. post (\<lambda>x. Q (fst x)) (f mv w)"
  shows "\<forall>x\<in>set vs'. Q (snd x)"
proof -
  from for_views_rel [where R = "\<lambda>u v. Q v", OF assms(2,1)]
  have "list_all2 (\<lambda>u v. fst v = fst u \<and> Q (snd v)) vs vs'" .
  then show ?thesis by (rule rel_imp_all) simp
qed

lemma put_view_all: "\<forall>x\<in>set (currMiniViews a). Q (snd x) \<Longrightarrow> Q mv \<Longrightarrow> \<forall>x\<in>set (currMiniViews (put_view i mv a)). Q (snd x)"
  by (auto simp: put_view_def)



end
