(* ===== verification/Control.thy ===== *)
theory Control
  imports Windows_Item
begin

text \<open>
  \<open>WindowsLib/WindowControl\<close> and \<open>WindowsLib/ListViewControl\<close>: the object around a system control
  and the list view built on it. The messages a control answers are system code, fields of the
  record \<open>controls\<close>, one for each message the program sends (\<open>LVM_HITTEST\<close> is \<open>LvmHitTest\<close>, ...), with
  the results the program looks at and the effect on the desktop \<open>'w\<close>.
\<close>

section \<open>The calls\<close>

text \<open>The fields of \<open>LV_COLUMN\<close> and \<open>LVITEM\<close> the program fills in.\<close>

record lv_column =
  fmt :: int
  columnWidth :: int
  iSubItem :: int
  pszText :: string
  iOrder :: int

datatype lv_item =
    NewRow int int int           \<comment> \<open>\<open>iItem\<close>, \<open>cColumns\<close>, \<open>lParam\<close>\<close>
  | NewRowColumns int            \<comment> \<open>\<open>cColumns\<close> only\<close>
  | SubItemText int int string   \<comment> \<open>\<open>iItem\<close>, \<open>iSubItem\<close>, text\<close>
  | SubItemData int int u32      \<comment> \<open>\<open>iItem\<close>, \<open>iSubItem\<close>, \<open>lParam\<close>\<close>

datatype item_rect_code = LVIR_BOUNDS | LVIR_LABEL

datatype item_state = LVIS_FOCUSED | LVIS_SELECTED

record 'w controls =
  desktop :: "'w win32"
  CreateChild :: "u32 \<Rightarrow> string \<Rightarrow> string \<Rightarrow> u32 \<Rightarrow> int \<Rightarrow> int \<Rightarrow> int \<Rightarrow> int \<Rightarrow> hwnd \<Rightarrow> nat \<Rightarrow> 'w \<Rightarrow> hwnd \<times> 'w"
  DestroyChild :: "hwnd \<Rightarrow> 'w \<Rightarrow> bool \<times> 'w"
  GetDlgItem :: "hwnd \<Rightarrow> u32 \<Rightarrow> 'w \<Rightarrow> hwnd"
  GetWndProc :: "hwnd \<Rightarrow> 'w \<Rightarrow> nat"
  SetWndProc :: "hwnd \<Rightarrow> nat \<Rightarrow> 'w \<Rightarrow> bool \<times> 'w"
  SetUserData :: "hwnd \<Rightarrow> 'w \<Rightarrow> 'w"
  UserDataIsThis :: "hwnd \<Rightarrow> 'w \<Rightarrow> bool"
  CallWindowProc :: "nat \<Rightarrow> hwnd \<Rightarrow> u32 \<Rightarrow> int \<Rightarrow> int \<Rightarrow> 'w \<Rightarrow> int \<times> 'w"
  GetFocus :: "'w \<Rightarrow> hwnd"
  SetFocus :: "hwnd \<Rightarrow> 'w \<Rightarrow> bool \<times> 'w"
  GetKeyState :: "int \<Rightarrow> 'w \<Rightarrow> bool"
  SetCapture :: "hwnd \<Rightarrow> 'w \<Rightarrow> 'w"
  ReleaseCapture :: "'w \<Rightarrow> 'w"
  TrackMouseEvent :: "hwnd \<Rightarrow> nat \<Rightarrow> 'w \<Rightarrow> 'w"
  GetWindowTextLength :: "hwnd \<Rightarrow> 'w \<Rightarrow> nat"
  SetDefaultFont :: "hwnd \<Rightarrow> bool \<Rightarrow> 'w \<Rightarrow> 'w"
  EmGetSel :: "hwnd \<Rightarrow> 'w \<Rightarrow> nat \<times> nat"
  EmSetSel :: "hwnd \<Rightarrow> int \<Rightarrow> int \<Rightarrow> 'w \<Rightarrow> 'w"
  EmReplaceSel :: "hwnd \<Rightarrow> string \<Rightarrow> 'w \<Rightarrow> 'w"
  EmSetCaretIndex :: "hwnd \<Rightarrow> int \<Rightarrow> 'w \<Rightarrow> 'w"
  EmCharFromPos :: "hwnd \<Rightarrow> int \<Rightarrow> int \<Rightarrow> 'w \<Rightarrow> u16"
  EmLimitText :: "hwnd \<Rightarrow> u32 \<Rightarrow> 'w \<Rightarrow> 'w"
  CreateUpDown :: "hwnd \<Rightarrow> 'w \<Rightarrow> hwnd \<times> 'w"
  UdmSetBuddy :: "hwnd \<Rightarrow> hwnd \<Rightarrow> int \<Rightarrow> int \<Rightarrow> 'w \<Rightarrow> 'w"
  TextExtent :: "hwnd \<Rightarrow> string \<Rightarrow> 'w \<Rightarrow> int option"
  LvmInsertColumn :: "hwnd \<Rightarrow> int \<Rightarrow> lv_column \<Rightarrow> 'w \<Rightarrow> int \<times> 'w"
  LvmSetColumnWidth :: "hwnd \<Rightarrow> int \<Rightarrow> int \<Rightarrow> 'w \<Rightarrow> bool \<times> 'w"
  LvmInsertItem :: "hwnd \<Rightarrow> lv_item \<Rightarrow> 'w \<Rightarrow> 'w"
  LvmSetItem :: "hwnd \<Rightarrow> lv_item \<Rightarrow> 'w \<Rightarrow> 'w"
  LvmDeleteItem :: "hwnd \<Rightarrow> int \<Rightarrow> 'w \<Rightarrow> 'w"
  LvmDeleteAllItems :: "hwnd \<Rightarrow> 'w \<Rightarrow> bool \<times> 'w"
  LvmSetItemState :: "hwnd \<Rightarrow> int \<Rightarrow> item_state \<Rightarrow> 'w \<Rightarrow> bool \<times> 'w"
  LvmGetItemState :: "hwnd \<Rightarrow> int \<Rightarrow> item_state \<Rightarrow> 'w \<Rightarrow> bool"
  LvmFullRowSelect :: "hwnd \<Rightarrow> 'w \<Rightarrow> 'w"
  LvmEnsureVisible :: "hwnd \<Rightarrow> int \<Rightarrow> bool \<Rightarrow> 'w \<Rightarrow> bool \<times> 'w"
  LvmGetHeader :: "hwnd \<Rightarrow> 'w \<Rightarrow> hwnd"
  HdmGetItemCount :: "hwnd \<Rightarrow> 'w \<Rightarrow> int"
  LvmFindItem :: "hwnd \<Rightarrow> int \<Rightarrow> 'w \<Rightarrow> int"
  LvmGetColumnWidth :: "hwnd \<Rightarrow> int \<Rightarrow> 'w \<Rightarrow> int"
  LvmHitTest :: "hwnd \<Rightarrow> int \<Rightarrow> int \<Rightarrow> 'w \<Rightarrow> int \<times> int"
  LvmSubItemHitTest :: "hwnd \<Rightarrow> int \<Rightarrow> int \<Rightarrow> 'w \<Rightarrow> int \<times> int"
  LvmGetItemRect :: "hwnd \<Rightarrow> int \<Rightarrow> 'w \<Rightarrow> rect option"
  LvmGetSubItemRect :: "hwnd \<Rightarrow> int \<Rightarrow> int \<Rightarrow> item_rect_code \<Rightarrow> 'w \<Rightarrow> rect option"

text \<open>
  \<open>SetFocus\<close> also tells whether the window it was called for had no focus before, so that the
  system sends it \<open>WM_SETFOCUS\<close>. \<open>LvmHitTest\<close> and \<open>LvmSubItemHitTest\<close> give the result of the message
  and the \<open>iItem\<close> (\<open>iSubItem\<close>) it filled in.
\<close>

section \<open>Window controls\<close>

record control = item +
  defaultProc :: nat

definition new_control :: control where
  "new_control = \<lparr>windowsItemHandle = NULL, tooltipHandle = NULL, windowClassName = [],
     windowType = NoWindow, allowEditNotify = True, defaultProc = 0\<rparr>"

definition ctl_FindThis :: "('w, 'z) controls_scheme \<Rightarrow> hwnd \<Rightarrow> u32 \<Rightarrow> 'a control_scheme \<Rightarrow> 'w \<Rightarrow> bool \<times> 'a control_scheme" where
  "ctl_FindThis A parent i c w =
     (let c1 = setHandle (GetDlgItem A parent i w) c in (getHandle c1 \<noteq> NULL, c1))"

definition ctl_FindHandle :: "hwnd \<Rightarrow> 'a control_scheme \<Rightarrow> bool \<times> 'a control_scheme" where
  "ctl_FindHandle h c = (let c1 = setHandle h c in (getHandle c1 \<noteq> NULL, c1))"

definition ctl_DestroyThis :: "('w, 'z) controls_scheme \<Rightarrow> 'a control_scheme \<Rightarrow> 'w \<Rightarrow> bool \<times> 'a control_scheme \<times> 'w" where
  "ctl_DestroyThis A c w =
     (if getHandle c \<noteq> NULL then
        (let (ok, w1) = DestroyChild A (getHandle c) w in
         if ok then (True, (setHandle NULL c)\<lparr>defaultProc := 0\<rparr>, w1) else (False, c, w1))
      else (False, c, w))"

text \<open>The address of \<open>ForwardControlProc\<close>, which replaces the procedure of the control.\<close>

definition ForwardControlProc :: nat where "ForwardControlProc = 1"

definition RedirectProc :: "('w, 'z) controls_scheme \<Rightarrow> 'a control_scheme \<Rightarrow> 'w \<Rightarrow> bool \<times> 'a control_scheme \<times> 'w" where
  "RedirectProc A c w =
     (if getHandle c \<noteq> NULL then
        (let w1 = SetUserData A (getHandle c) w;
             c1 = c\<lparr>defaultProc := GetWndProc A (getHandle c) w1\<rparr>
         in if defaultProc c1 \<noteq> 0 \<and> UserDataIsThis A (getHandle c1) w1 then
              (let (ok, w2) = SetWndProc A (getHandle c1) ForwardControlProc w1 in (ok, c1, w2))
            else (False, c1, w1))
      else (False, c, w))"

definition ResetProc :: "('w, 'z) controls_scheme \<Rightarrow> 'a control_scheme \<Rightarrow> 'w \<Rightarrow> bool \<times> 'w" where
  "ResetProc A c w = (if getHandle c \<noteq> NULL then SetWndProc A (getHandle c) (defaultProc c) w else (False, w))"

definition CreateControl ::
    "('w, 'z) controls_scheme \<Rightarrow> u32 \<Rightarrow> string \<Rightarrow> string \<Rightarrow> u32 \<Rightarrow> int \<Rightarrow> int \<Rightarrow> int \<Rightarrow> int \<Rightarrow> hwnd \<Rightarrow> nat \<Rightarrow> bool \<Rightarrow>
     'a control_scheme \<Rightarrow> 'w \<Rightarrow> bool \<times> 'a control_scheme \<times> 'w" where
  "CreateControl A exStyle cls name style x y width height parent i redirect c w =
     (let (h, w1) = CreateChild A exStyle cls name style x y width height parent i w;
          c1 = setHandle h c
      in if getHandle c1 \<noteq> NULL \<and> redirect then
           (let (ok, c2, w2) = RedirectProc A c1 w1 in
            if ok then (getHandle c2 \<noteq> NULL, c2, w2)
            else (let (_, c3, w3) = ctl_DestroyThis A c2 w2 in (getHandle c3 \<noteq> NULL, c3, w3)))
         else (getHandle c1 \<noteq> NULL, c1, w1))"

definition ctl_default :: "('w, 'z) controls_scheme \<Rightarrow> u32 \<Rightarrow> int \<Rightarrow> int \<Rightarrow> 'a control_scheme \<Rightarrow> 'w \<Rightarrow> int \<times> 'w" where
  "ctl_default A msg wParam lParam c w = CallWindowProc A (defaultProc c) (getHandle c) msg wParam lParam w"

definition GetWinTextLen :: "('w, 'z) controls_scheme \<Rightarrow> 'a item_scheme \<Rightarrow> 'w \<Rightarrow> nat" where
  "GetWinTextLen A it w = GetWindowTextLength A (getHandle it) w"

definition GetWinText :: "('w, 'z) controls_scheme \<Rightarrow> 'a item_scheme \<Rightarrow> 'w \<Rightarrow> string option" where
  "GetWinText A it w =
     (let n = GetWindowTextLength A (getHandle it) w in
      if n > 0 then map_option (take n) (GetWindowText (desktop A) (getHandle it) w) else Some [])"

definition FocusThis :: "('w, 'z) controls_scheme \<Rightarrow> 'a item_scheme \<Rightarrow> 'w \<Rightarrow> bool \<times> 'w" where
  "FocusThis A it w = SetFocus A (getHandle it) w"

definition TrackMouse :: "('w, 'z) controls_scheme \<Rightarrow> nat \<Rightarrow> 'a item_scheme \<Rightarrow> 'w \<Rightarrow> 'w" where
  "TrackMouse A hoverTime it w = TrackMouseEvent A (getHandle it) hoverTime w"

definition setDefaultFont :: "('w, 'z) controls_scheme \<Rightarrow> bool \<Rightarrow> 'a item_scheme \<Rightarrow> 'w \<Rightarrow> 'w" where
  "setDefaultFont A redraw it w = SetDefaultFont A (getHandle it) redraw w"

section \<open>Controls on the small desktop\<close>

text \<open>
  An instance of the calls for the examples: every control is a list view with three columns of
  width 50 and four rows of height 20.
\<close>

definition desk_cell :: "int \<Rightarrow> int \<Rightarrow> rect" where
  "desk_cell row col = \<lparr>left = 50 * col, top = 20 * row, right = 50 * col + 50, bottom = 20 * row + 20\<rparr>"

definition desk_controls :: "desk controls" where
  "desk_controls = \<lparr>
     desktop = desk_win32,
     CreateChild = (\<lambda>ex cls name st x y width height p i d.
        (200, d\<lparr>deskWindows := (deskWindows d)(200 \<mapsto> place (client_origin p d) x y width height 0
           \<lparr>onScreen = zero_rect, frameLeft = 0, frameTop = 0, frameRight = 0, frameBottom = 0,
            parentWindow = p, deskStyle = st, deskExStyle = ex, deskShown = True\<rparr>),
          deskTexts := (deskTexts d)(200 := name)\<rparr>)),
     DestroyChild = (\<lambda>h d. (True, d\<lparr>deskWindows := (deskWindows d)(h := None)\<rparr>)),
     GetDlgItem = (\<lambda>p i d. NULL),
     GetWndProc = (\<lambda>h d. 7),
     SetWndProc = (\<lambda>h p d. (True, d)),
     SetUserData = (\<lambda>h d. d),
     UserDataIsThis = (\<lambda>h d. True),
     CallWindowProc = (\<lambda>p h m x y d. (0, d)),
     GetFocus = deskForeground,
     SetFocus = (\<lambda>h d. (deskForeground d \<noteq> h, d\<lparr>deskForeground := h\<rparr>)),
     GetKeyState = (\<lambda>k d. False),
     SetCapture = (\<lambda>h d. d),
     ReleaseCapture = (\<lambda>d. d),
     TrackMouseEvent = (\<lambda>h n d. d),
     GetWindowTextLength = (\<lambda>h d. length (deskTexts d h)),
     SetDefaultFont = (\<lambda>h b d. d),
     EmGetSel = (\<lambda>h d. (0, 0)),
     EmSetSel = (\<lambda>h i j d. d),
     EmReplaceSel = (\<lambda>h t d. d\<lparr>deskTexts := (deskTexts d)(h := deskTexts d h @ t)\<rparr>),
     EmSetCaretIndex = (\<lambda>h i d. d),
     EmCharFromPos = (\<lambda>h x y d. 0),
     EmLimitText = (\<lambda>h n d. d),
     CreateUpDown = (\<lambda>p d. (NULL, d)),
     UdmSetBuddy = (\<lambda>b h lo hi d. d),
     TextExtent = (\<lambda>h t d. Some (8 * int (length t))),
     LvmInsertColumn = (\<lambda>h i c d. (i, d)),
     LvmSetColumnWidth = (\<lambda>h i n d. (True, d)),
     LvmInsertItem = (\<lambda>h i d. d),
     LvmSetItem = (\<lambda>h i d. d),
     LvmDeleteItem = (\<lambda>h i d. d),
     LvmDeleteAllItems = (\<lambda>h d. (True, d)),
     LvmSetItemState = (\<lambda>h i s d. (True, d)),
     LvmGetItemState = (\<lambda>h i s d. i = 1),
     LvmFullRowSelect = (\<lambda>h d. d),
     LvmEnsureVisible = (\<lambda>h i b d. (True, d)),
     LvmGetHeader = (\<lambda>h d. NULL),
     HdmGetItemCount = (\<lambda>h d. 3),
     LvmFindItem = (\<lambda>h i d. i),
     LvmGetColumnWidth = (\<lambda>h i d. 50),
     LvmHitTest = (\<lambda>h x y d. if 0 \<le> x \<and> x < 150 \<and> 0 \<le> y \<and> y < 80 then (y div 20, y div 20) else (- 1, - 1)),
     LvmSubItemHitTest = (\<lambda>h x y d. if 0 \<le> x \<and> x < 150 \<and> 0 \<le> y \<and> y < 80 then (y div 20, x div 50) else (- 1, - 1)),
     LvmGetItemRect = (\<lambda>h row d. Some ((desk_cell row 0)\<lparr>right := 150\<rparr>)),
     LvmGetSubItemRect = (\<lambda>h row col code d. Some (if col = 0 \<and> code = LVIR_BOUNDS
        then (desk_cell row 0)\<lparr>right := 150\<rparr> else desk_cell row col))\<rparr>"

end
