(* ===== verification/List_View.thy ===== *)
theory List_View
  imports Control
begin

text \<open>
  \<open>WindowsLib/ListViewControl\<close>: rows, columns and hit tests of a list view. The control itself is
  the system's; the class turns calls into messages and reads their results.
\<close>

unbundle bit_operations_syntax

definition LVS_REPORT :: u32 where "LVS_REPORT = 0x1"
definition LVS_SHOWSELALWAYS :: u32 where "LVS_SHOWSELALWAYS = 0x8"
definition LVS_EDITLABELS :: u32 where "LVS_EDITLABELS = 0x200"
definition LVS_OWNERDRAWFIXED :: u32 where "LVS_OWNERDRAWFIXED = 0x400"
definition LVS_OWNERDATA :: u32 where "LVS_OWNERDATA = 0x1000"
definition WS_EX_CLIENTEDGE :: u32 where "WS_EX_CLIENTEDGE = 0x200"

definition WC_LISTVIEW :: string where "WC_LISTVIEW = ''SysListView32''"

definition lv_CreateThis ::
    "('w, 'z) controls_scheme \<Rightarrow> hwnd \<Rightarrow> int \<Rightarrow> int \<Rightarrow> int \<Rightarrow> int \<Rightarrow> bool \<Rightarrow> bool \<Rightarrow> nat \<Rightarrow>
     'a control_scheme \<Rightarrow> 'w \<Rightarrow> bool \<times> 'a control_scheme \<times> 'w" where
  "lv_CreateThis A parent x y width height editable ownerDrawn i c w =
     (let s0 = WS_CHILD OR LVS_REPORT OR LVS_SHOWSELALWAYS;
          s1 = (if editable then s0 OR LVS_EDITLABELS else s0);
          s2 = (if ownerDrawn then s1 OR LVS_OWNERDRAWFIXED OR LVS_OWNERDATA else s1)
      in CreateControl A WS_EX_CLIENTEDGE WC_LISTVIEW [] s2 x y width height parent i False c w)"

section \<open>Rows and columns\<close>

definition lv_AddColumn ::
    "('w, 'z) controls_scheme \<Rightarrow> int \<Rightarrow> string \<Rightarrow> int \<Rightarrow> int \<Rightarrow> 'a control_scheme \<Rightarrow> 'w \<Rightarrow> (bool \<times> 'w) option" where
  "lv_AddColumn A insertAt title width alignment c w =
     do { sub \<leftarrow> add32 insertAt 1;
          let (r, w1) = LvmInsertColumn A (getHandle c) insertAt
                \<lparr>fmt = alignment, columnWidth = width, iSubItem = sub, pszText = title, iOrder = insertAt\<rparr> w;
          Some (r \<noteq> - 1, w1) }"

definition lv_SetColumnWidth :: "('w, 'z) controls_scheme \<Rightarrow> int \<Rightarrow> int \<Rightarrow> 'a control_scheme \<Rightarrow> 'w \<Rightarrow> bool \<times> 'w" where
  "lv_SetColumnWidth A column width c w = LvmSetColumnWidth A (getHandle c) column width w"

definition lv_AddRow :: "('w, 'z) controls_scheme \<Rightarrow> int \<Rightarrow> int \<Rightarrow> 'a control_scheme \<Rightarrow> 'w \<Rightarrow> 'w" where
  "lv_AddRow A columns lParam c w =
     LvmInsertItem A (getHandle c) (NewRow (signed_take_bit 31 lParam) columns lParam) w"

definition lv_GetNumColumns :: "('w, 'z) controls_scheme \<Rightarrow> 'a control_scheme \<Rightarrow> 'w \<Rightarrow> int" where
  "lv_GetNumColumns A c w = HdmGetItemCount A (LvmGetHeader A (getHandle c) w) w"

definition lv_AddEmptyRow :: "('w, 'z) controls_scheme \<Rightarrow> 'a control_scheme \<Rightarrow> 'w \<Rightarrow> 'w" where
  "lv_AddEmptyRow A c w = LvmInsertItem A (getHandle c) (NewRowColumns (lv_GetNumColumns A c w)) w"

definition lv_RemoveRow :: "('w, 'z) controls_scheme \<Rightarrow> int \<Rightarrow> 'a control_scheme \<Rightarrow> 'w \<Rightarrow> 'w" where
  "lv_RemoveRow A row c w = LvmDeleteItem A (getHandle c) row w"

definition lv_SetItemText :: "('w, 'z) controls_scheme \<Rightarrow> int \<Rightarrow> int \<Rightarrow> string \<Rightarrow> 'a control_scheme \<Rightarrow> 'w \<Rightarrow> 'w" where
  "lv_SetItemText A row column txt c w = LvmSetItem A (getHandle c) (SubItemText row column txt) w"

definition lv_SetItemData :: "('w, 'z) controls_scheme \<Rightarrow> int \<Rightarrow> int \<Rightarrow> u32 \<Rightarrow> 'a control_scheme \<Rightarrow> 'w \<Rightarrow> 'w" where
  "lv_SetItemData A row column d c w = LvmSetItem A (getHandle c) (SubItemData row column d) w"

definition lv_EnableFullRowSelect :: "('w, 'z) controls_scheme \<Rightarrow> 'a control_scheme \<Rightarrow> 'w \<Rightarrow> 'w" where
  "lv_EnableFullRowSelect A c w = (if getHandle c \<noteq> NULL then LvmFullRowSelect A (getHandle c) w else w)"

definition lv_EnsureVisible :: "('w, 'z) controls_scheme \<Rightarrow> int \<Rightarrow> bool \<Rightarrow> 'a control_scheme \<Rightarrow> 'w \<Rightarrow> bool \<times> 'w" where
  "lv_EnsureVisible A index entirely c w = LvmEnsureVisible A (getHandle c) index entirely w"

definition lv_DeleteAllItems :: "('w, 'z) controls_scheme \<Rightarrow> 'a control_scheme \<Rightarrow> 'w \<Rightarrow> bool \<times> 'w" where
  "lv_DeleteAllItems A c w = LvmDeleteAllItems A (getHandle c) w"

definition lv_FocusItem :: "('w, 'z) controls_scheme \<Rightarrow> int \<Rightarrow> 'a control_scheme \<Rightarrow> 'w \<Rightarrow> bool \<times> 'w" where
  "lv_FocusItem A index c w = LvmSetItemState A (getHandle c) index LVIS_FOCUSED w"

definition lv_SelectRow :: "('w, 'z) controls_scheme \<Rightarrow> int \<Rightarrow> 'a control_scheme \<Rightarrow> 'w \<Rightarrow> bool \<times> 'w" where
  "lv_SelectRow A index c w = LvmSetItemState A (getHandle c) index LVIS_SELECTED w"

definition lv_RedrawHeader :: "('w, 'z) controls_scheme \<Rightarrow> 'a control_scheme \<Rightarrow> 'w \<Rightarrow> 'w" where
  "lv_RedrawHeader A c w = RedrawWindow (desktop A) (LvmGetHeader A (getHandle c) w) w"

definition lv_GetItemRow :: "('w, 'z) controls_scheme \<Rightarrow> int \<Rightarrow> 'a control_scheme \<Rightarrow> 'w \<Rightarrow> int" where
  "lv_GetItemRow A lParam c w = LvmFindItem A (getHandle c) lParam w"

definition lv_GetColumnWidth :: "('w, 'z) controls_scheme \<Rightarrow> int \<Rightarrow> 'a control_scheme \<Rightarrow> 'w \<Rightarrow> int" where
  "lv_GetColumnWidth A column c w = LvmGetColumnWidth A (getHandle c) column w"

section \<open>Positions\<close>

text \<open>Row and column of the item at a point; \<open>None\<close> is the result false, which leaves both alone.\<close>

definition lv_GetItemAt :: "('w, 'z) controls_scheme \<Rightarrow> int \<Rightarrow> int \<Rightarrow> 'a control_scheme \<Rightarrow> 'w \<Rightarrow> (int \<times> int) option" where
  "lv_GetItemAt A x y c w =
     (case LvmHitTest A (getHandle c) x y w of (r, row) \<Rightarrow>
        if r \<noteq> - 1 then
          (case LvmSubItemHitTest A (getHandle c) x y w of (r', col) \<Rightarrow>
             if r' \<noteq> - 1 then Some (row, col) else None)
        else None)"

definition lv_GetRowAt :: "('w, 'z) controls_scheme \<Rightarrow> int \<Rightarrow> 'a control_scheme \<Rightarrow> 'w \<Rightarrow> int option" where
  "lv_GetRowAt A y c w =
     (let x = (case LvmGetItemRect A (getHandle c) 0 w of Some r \<Rightarrow> left r | None \<Rightarrow> 0)
      in case LvmHitTest A (getHandle c) x y w of (r, row) \<Rightarrow> if r \<noteq> - 1 then Some row else None)"

definition lv_GetColumnAt :: "('w, 'z) controls_scheme \<Rightarrow> int \<Rightarrow> 'a control_scheme \<Rightarrow> 'w \<Rightarrow> int option" where
  "lv_GetColumnAt A x c w =
     (let y = (case LvmGetItemRect A (getHandle c) 0 w of Some r \<Rightarrow> top r | None \<Rightarrow> 0)
      in case LvmSubItemHitTest A (getHandle c) x y w of (r, col) \<Rightarrow> if r \<noteq> - 1 then Some col else None)"

text \<open>
  The bounds the system reports for column 0 are those of the whole row; the class takes the right
  edge of the label instead.
\<close>

definition lv_GetItemRect :: "('w, 'z) controls_scheme \<Rightarrow> int \<Rightarrow> int \<Rightarrow> 'a control_scheme \<Rightarrow> 'w \<Rightarrow> rect option" where
  "lv_GetItemRect A x y c w =
     (if x = 0 then
        (case LvmGetSubItemRect A (getHandle c) y x LVIR_LABEL w of
           Some label \<Rightarrow>
             (case LvmGetSubItemRect A (getHandle c) y x LVIR_BOUNDS w of
                Some r \<Rightarrow> Some (r\<lparr>right := right label\<rparr>) | None \<Rightarrow> None)
         | None \<Rightarrow> None)
      else LvmGetSubItemRect A (getHandle c) y x LVIR_BOUNDS w)"

end
