(* ===== verification/Radix.thy ===== *)
theory Radix
  imports Decimal
begin

text \<open>
  Numbers in a base from 2 to 36, as the C library prints and reads them: \<open>_itoa_s\<close>, \<open>strtoul\<close> in
  base 16 and \<open>strtoll\<close> in base 0 (the base is taken from the prefix).
\<close>

section \<open>Digits\<close>

definition digit_of :: "char \<Rightarrow> nat option" where
  "digit_of c = (let n = of_char c :: nat in
     if 48 \<le> n \<and> n \<le> 57 then Some (n - 48)
     else if 97 \<le> n \<and> n \<le> 122 then Some (n - 87)
     else if 65 \<le> n \<and> n \<le> 90 then Some (n - 55)
     else None)"

definition is_digit :: "nat \<Rightarrow> char \<Rightarrow> bool" where
  "is_digit b c = (case digit_of c of Some d \<Rightarrow> d < b | None \<Rightarrow> False)"

definition digit_val :: "char \<Rightarrow> nat" where
  "digit_val c = (case digit_of c of Some d \<Rightarrow> d | None \<Rightarrow> 0)"

text \<open>Lower case digits, as \<open>_itoa_s\<close> prints them.\<close>

definition to_digit :: "nat \<Rightarrow> char" where
  "to_digit d = (if d < 10 then char_of (48 + d) else char_of (87 + d))"

function radix_digits :: "nat \<Rightarrow> nat \<Rightarrow> string" where
  "radix_digits b n = (if b < 2 \<or> n < b then [to_digit n] else radix_digits b (n div b) @ [to_digit (n mod b)])"
  by pat_completeness auto

termination by (relation "measure snd") (auto intro: div_less_dividend)

declare radix_digits.simps [simp del]

definition radix_value :: "nat \<Rightarrow> string \<Rightarrow> nat" where
  "radix_value b s = foldl (\<lambda>acc c. b * acc + digit_val c) 0 s"

section \<open>Reading\<close>

text \<open>The characters of a C string.\<close>

definition c_str :: "string \<Rightarrow> string" where
  "c_str s = takeWhile (\<lambda>c. (of_char c :: nat) \<noteq> 0) s"

text \<open>White space and a sign: whether the number is negative, and the text after the sign.\<close>

definition strto_sign :: "string \<Rightarrow> bool \<times> string" where
  "strto_sign s = (let body = dropWhile isspace s in
     case body of
       c # rest \<Rightarrow> if c = CHR ''-'' then (True, rest) else if c = CHR ''+'' then (False, rest) else (False, body)
     | [] \<Rightarrow> (False, []))"

text \<open>A hexadecimal prefix counts only before a hexadecimal digit.\<close>

definition hex_prefix :: "string \<Rightarrow> bool" where
  "hex_prefix s = (case s of
     a # b # c # rest \<Rightarrow> a = CHR ''0'' \<and> (b = CHR ''x'' \<or> b = CHR ''X'') \<and> is_digit 16 c
   | _ \<Rightarrow> False)"

definition ULONG_MAX :: nat where "ULONG_MAX = 4294967295"
definition LLONG_MAX :: int where "LLONG_MAX = 9223372036854775807"
definition LLONG_MIN :: int where "LLONG_MIN = - 9223372036854775808"

text \<open>\<open>strtoul(s, nullptr, 16)\<close>, with \<open>unsigned long\<close> of 32 bits.\<close>

definition strtoul16 :: "string \<Rightarrow> u32" where
  "strtoul16 s = (let (negative, t) = strto_sign (c_str s);
       u = (if hex_prefix t then drop 2 t else t);
       v = radix_value 16 (takeWhile (is_digit 16) u)
     in if v > ULONG_MAX then of_nat ULONG_MAX else if negative then - of_nat v else of_nat v)"

text \<open>
  \<open>strtoll(s, &end, 0)\<close>: the value, whether it was in range (\<open>errno\<close> stays 0) and the text from
  \<open>end\<close> on. Without any digit \<open>end\<close> is the start of the string.
\<close>

definition strtoll0 :: "string \<Rightarrow> int \<times> bool \<times> string" where
  "strtoll0 s = (let (negative, t) = strto_sign (c_str s);
       b = (if hex_prefix t then 16 else if t \<noteq> [] \<and> hd t = CHR ''0'' then 8 else 10);
       u = (if hex_prefix t then drop 2 t else t);
       ds = takeWhile (is_digit b) u;
       v = (if negative then - int (radix_value b ds) else int (radix_value b ds))
     in if ds = [] then (0, True, s)
        else if v > LLONG_MAX then (LLONG_MAX, False, drop (length ds) u)
        else if v < LLONG_MIN then (LLONG_MIN, False, drop (length ds) u)
        else (v, True, drop (length ds) u))"

text \<open>\<open>std::to_string\<close> on signed numbers.\<close>

definition to_string_int :: "int \<Rightarrow> string" where
  "to_string_int n = (if n < 0 then CHR ''-'' # to_string (nat (- n)) else to_string (nat n))"

section \<open>Printing and reading\<close>

lemma digit_of_to_digit: "d < 36 \<Longrightarrow> digit_of (to_digit d) = Some d"
  by (auto simp: digit_of_def to_digit_def Let_def)

lemma is_digit_to_digit: "d < b \<Longrightarrow> b \<le> 36 \<Longrightarrow> is_digit b (to_digit d)"
  by (simp add: is_digit_def digit_of_to_digit)

lemma digit_val_to_digit: "d < 36 \<Longrightarrow> digit_val (to_digit d) = d"
  by (simp add: digit_val_def digit_of_to_digit)

lemma digit_val_less: "is_digit b c \<Longrightarrow> digit_val c < b"
  by (simp add: is_digit_def digit_val_def split: option.splits)

lemma radix_value_Nil [simp]: "radix_value b [] = 0"
  by (simp add: radix_value_def)

lemma radix_value_snoc: "radix_value b (s @ [c]) = b * radix_value b s + digit_val c"
  by (simp add: radix_value_def)

lemma radix_value_append: "radix_value b (s @ t) = radix_value b s * b ^ length t + radix_value b t"
proof (induction t rule: rev_induct)
  case (snoc c t)
  show ?case
    by (simp add: radix_value_snoc snoc.IH algebra_simps flip: append_assoc)
qed simp

lemma radix_value_Cons: "radix_value b (c # s) = digit_val c * b ^ length s + radix_value b s"
proof -
  have "radix_value b [c] = digit_val c" by (simp add: radix_value_def)
  then show ?thesis using radix_value_append [of b "[c]" s] by simp
qed

lemma radix_value_less: "list_all (is_digit b) s \<Longrightarrow> radix_value b s < b ^ length s"
proof (induction s rule: rev_induct)
  case (snoc c s)
  then have "radix_value b s < b ^ length s" "digit_val c < b" by (simp_all add: digit_val_less)
  then have "b * radix_value b s + digit_val c < b * (radix_value b s + 1)" by simp
  also have "\<dots> \<le> b * b ^ length s" using \<open>radix_value b s < b ^ length s\<close> by (intro mult_le_mono2) simp
  finally show ?case by (simp add: radix_value_snoc)
qed simp

lemma radix_value_zeros: "radix_value b (replicate n (CHR ''0'') @ s) = radix_value b s"
  by (induction n) (simp_all add: radix_value_Cons digit_val_def digit_of_def)

lemma radix_value_digits: "2 \<le> b \<Longrightarrow> b \<le> 36 \<Longrightarrow> radix_value b (radix_digits b n) = n"
proof (induction b n rule: radix_digits.induct)
  case (1 b n)
  show ?case
  proof (cases "n < b")
    case True
    with 1 show ?thesis by (simp add: radix_digits.simps [of b n] radix_value_Cons digit_val_to_digit)
  next
    case False
    with 1 have "radix_value b (radix_digits b (n div b)) = n div b" by simp
    moreover have "n mod b < b" using 1(2) by simp
    then have "n mod b < 36" using 1(3) by linarith
    ultimately show ?thesis using False 1(2)
      by (simp add: radix_digits.simps [of b n] radix_value_snoc digit_val_to_digit)
  qed
qed

lemma radix_digits_valid: "2 \<le> b \<Longrightarrow> b \<le> 36 \<Longrightarrow> list_all (is_digit b) (radix_digits b n)"
proof (induction b n rule: radix_digits.induct)
  case (1 b n)
  moreover have "n mod b < b" using 1(2) by simp
  ultimately show ?case
    by (cases "n < b") (simp_all add: radix_digits.simps [of b n] is_digit_to_digit)
qed

lemma radix_digits_nonempty: "radix_digits b n \<noteq> []"
  by (simp add: radix_digits.simps [of b n])

lemma radix_digits_length: "2 \<le> b \<Longrightarrow> n < b ^ k \<Longrightarrow> 0 < k \<Longrightarrow> length (radix_digits b n) \<le> k"
proof (induction k arbitrary: n)
  case (Suc k)
  show ?case
  proof (cases "n < b")
    case False
    with Suc.prems have "n div b < b ^ k"
      by (metis less_mult_imp_div_less mult.commute power_Suc)
    moreover from this False Suc.prems have "0 < k" by (cases k) (auto simp: div_eq_0_iff)
    ultimately have "length (radix_digits b (n div b)) \<le> k" using Suc by blast
    with False Suc.prems show ?thesis by (simp add: radix_digits.simps [of b n])
  qed (simp add: radix_digits.simps [of b n])
qed simp

section \<open>What the readers return\<close>

lemma is_digit_code:
  "is_digit b c \<Longrightarrow> (of_char c :: nat) \<noteq> 0 \<and> \<not> isspace c \<and> c \<noteq> CHR ''-'' \<and> c \<noteq> CHR ''+''"
  by (auto simp: is_digit_def digit_of_def Let_def isspace_def split: if_splits)

lemma is_digit_mono: "is_digit b c \<Longrightarrow> b \<le> b' \<Longrightarrow> is_digit b' c"
  by (auto simp: is_digit_def split: option.splits)

lemma c_str_digits: "list_all (is_digit b) s \<Longrightarrow> c_str s = s"
  by (auto simp: c_str_def list_all_iff takeWhile_eq_all_conv dest: is_digit_code)

lemma strto_sign_digits: "list_all (is_digit b) s \<Longrightarrow> strto_sign s = (False, s)"
  by (cases s) (auto simp: strto_sign_def dest: is_digit_code)

lemma not_digit_x: "b \<le> 16 \<Longrightarrow> \<not> is_digit b (CHR ''x'') \<and> \<not> is_digit b (CHR ''X'')"
  by (simp add: is_digit_def digit_of_def)

lemma hex_prefix_digits: "list_all (is_digit b) s \<Longrightarrow> b \<le> 16 \<Longrightarrow> \<not> hex_prefix s"
  using not_digit_x [of b] by (auto simp: hex_prefix_def split: list.splits)

lemma takeWhile_digits: "list_all (is_digit b) s \<Longrightarrow> takeWhile (is_digit b) s = s"
  by (simp add: list_all_iff)

text \<open>Up to eight hexadecimal digits are read as the number they denote.\<close>

lemma strtoul16_digits:
  assumes "list_all (is_digit 16) s" "length s \<le> 8"
  shows "strtoul16 s = of_nat (radix_value 16 s)"
proof -
  have "radix_value 16 s < 16 ^ length s" using assms(1) by (rule radix_value_less)
  also have "\<dots> \<le> 16 ^ 8" using assms(2) by (intro power_increasing) simp_all
  finally have "radix_value 16 s \<le> ULONG_MAX" by (simp add: ULONG_MAX_def)
  with assms show ?thesis
    by (simp add: strtoul16_def c_str_digits strto_sign_digits hex_prefix_digits takeWhile_digits)
qed

lemma isdigit_is_digit: "isdigit c \<longleftrightarrow> is_digit 10 c"
  by (auto simp: isdigit_def is_digit_def digit_of_def Let_def)

lemma digit_value_val: "is_digit 10 c \<Longrightarrow> digit_value c = digit_val c"
  by (auto simp: is_digit_def digit_value_def digit_val_def digit_of_def Let_def split: if_splits)

lemma digits_value_radix: "list_all (is_digit 10) s \<Longrightarrow> digits_value s = radix_value 10 s"
  by (induction s rule: rev_induct) (simp_all add: digits_value_snoc radix_value_snoc digit_value_val digits_value_def)

lemma to_string_is_digit: "list_all (is_digit 10) (to_string n)"
  using to_string_digits [of n] by (simp add: isdigit_is_digit [abs_def])

lemma radix_to_string: "radix_value 10 (to_string n) = n"
  using digits_value_radix [OF to_string_is_digit] by (simp add: digits_value_to_string)

lemma hd_to_string_zero: "hd (to_string n) = CHR ''0'' \<longleftrightarrow> n = 0"
proof (induction n rule: to_string.induct)
  case (1 n)
  show ?case
  proof (cases "n < 10")
    case True
    have "digit_char n = CHR ''0'' \<longleftrightarrow> (of_char (digit_char n) :: nat) = of_char (CHR ''0'')"
      by (simp only: of_char_eq_iff)
    then have "digit_char n = CHR ''0'' \<longleftrightarrow> n = 0" using of_char_digit [OF True] by simp
    with True show ?thesis by (simp add: to_string.simps [of n])
  next
    case False
    with 1 show ?thesis by (simp add: to_string.simps [of n] to_string_nonempty)
  qed
qed

lemma strto_sign_to_string_int:
  "strto_sign (c_str (to_string_int n)) = (n < 0, to_string (nat \<bar>n\<bar>))"
proof -
  let ?t = "to_string (nat \<bar>n\<bar>)"
  have d: "list_all (is_digit 10) ?t" by (rule to_string_is_digit)
  show ?thesis
  proof (cases "n < 0")
    case True
    then have "to_string_int n = CHR ''-'' # ?t" by (simp add: to_string_int_def)
    moreover have "c_str (CHR ''-'' # ?t) = CHR ''-'' # ?t" using c_str_digits [OF d] by (simp add: c_str_def)
    ultimately show ?thesis using True by (simp add: strto_sign_def isspace_def)
  next
    case False
    then have "to_string_int n = ?t" by (simp add: to_string_int_def)
    moreover have "strto_sign (c_str ?t) = (False, ?t)"
      by (simp only: c_str_digits [OF d] strto_sign_digits [OF d])
    ultimately show ?thesis using False by (simp only: simp_thms)
  qed
qed

lemma strtoll0_in_range:
  assumes "strto_sign (c_str s) = (negative, t)" "\<not> hex_prefix t" "t \<noteq> []"
    and "takeWhile (is_digit b) t = t \<and> radix_value b t = v" "b = (if hd t = CHR ''0'' then 8 else 10)"
    and "n = (if negative then - int v else int v)" "LLONG_MIN \<le> n" "n \<le> LLONG_MAX"
  shows "strtoll0 s = (n, True, [])"
proof -
  have "(if hex_prefix t then 16 else if t \<noteq> [] \<and> hd t = CHR ''0'' then 8 else 10) = b"
    using assms(2,3,5) by simp
  then show ?thesis
    unfolding strtoll0_def assms(1) Let_def prod.case using assms by (simp only: if_False) auto
qed

lemma strtoll0_to_string_int:
  assumes "LLONG_MIN \<le> n" "n \<le> LLONG_MAX"
  shows "strtoll0 (to_string_int n) = (n, True, [])"
proof -
  let ?t = "to_string (nat \<bar>n\<bar>)"
  have d: "list_all (is_digit 10) ?t" by (rule to_string_is_digit)
  define b where "b = (if hd ?t = CHR ''0'' then 8 else 10 :: nat)"
  have "takeWhile (is_digit b) ?t = ?t \<and> radix_value b ?t = nat \<bar>n\<bar>"
  proof (cases "n = 0")
    case True
    then show ?thesis
      by (simp add: b_def to_string.simps [of 0] digit_char_def is_digit_def digit_of_def radix_value_Cons digit_val_def)
  next
    case False
    then have "b = 10" by (simp add: b_def hd_to_string_zero)
    with takeWhile_digits [OF d] show ?thesis by (simp add: radix_to_string)
  qed
  moreover have "\<not> hex_prefix ?t" using hex_prefix_digits [OF d] by simp
  ultimately show ?thesis using assms
    by (intro strtoll0_in_range [OF strto_sign_to_string_int]) (auto simp: b_def to_string_nonempty)
qed

end
