(* ===== verification/Edit_Control.thy ===== *)
theory Edit_Control
  imports List_View Radix
begin

text \<open>
  \<open>WindowsLib/EditControl\<close>: the edit box. Its text is kept by the system; the class reads and writes
  numbers in it, decimal, binary and as a string of hexadecimal bytes, and filters key messages.
  The conversions are functions on the text. A result \<open>None\<close> of one marks an access outside an
  array of the source.
\<close>

unbundle bit_operations_syntax

section \<open>State\<close>

record edit = control +
  isMultiLine :: bool
  forwardArrowKeys :: bool
  stopFowardingOnClick :: bool
  autoExpand :: bool
  hBuddy :: hwnd

definition new_edit :: edit where
  "new_edit = \<lparr>windowsItemHandle = NULL, tooltipHandle = NULL, windowClassName = [],
     windowType = NoWindow, allowEditNotify = True, defaultProc = 0, isMultiLine = False,
     forwardArrowKeys = False, stopFowardingOnClick = False, autoExpand = False, hBuddy = NULL\<rparr>"

definition ES_MULTILINE :: u32 where "ES_MULTILINE = 0x4"
definition ES_AUTOVSCROLL :: u32 where "ES_AUTOVSCROLL = 0x40"
definition ES_AUTOHSCROLL :: u32 where "ES_AUTOHSCROLL = 0x80"
definition ES_WANTRETURN :: u32 where "ES_WANTRETURN = 0x1000"
definition WS_VSCROLL :: u32 where "WS_VSCROLL = 0x00200000"

definition WC_EDIT :: string where "WC_EDIT = ''Edit''"

definition edit_FindThis :: "('w, 'z) controls_scheme \<Rightarrow> hwnd \<Rightarrow> u32 \<Rightarrow> edit \<Rightarrow> 'w \<Rightarrow> bool \<times> edit \<times> 'w" where
  "edit_FindThis A parent i e w =
     (let (found, e1) = ctl_FindThis A parent i e w in
      if found then RedirectProc A e1 w else (False, e1, w))"

definition edit_style :: "bool \<Rightarrow> u32" where
  "edit_style multiLine = WS_VISIBLE OR WS_CHILD OR
     (if multiLine then ES_MULTILINE OR ES_AUTOVSCROLL OR ES_AUTOHSCROLL OR ES_WANTRETURN OR WS_VSCROLL
      else ES_AUTOHSCROLL)"

definition edit_CreateThis ::
    "('w, 'z) controls_scheme \<Rightarrow> hwnd \<Rightarrow> int \<Rightarrow> int \<Rightarrow> int \<Rightarrow> int \<Rightarrow> bool \<Rightarrow> nat \<Rightarrow> edit \<Rightarrow> 'w \<Rightarrow> bool \<times> edit \<times> 'w" where
  "edit_CreateThis A parent x y width height multiLine i e w =
     CreateControl A WS_EX_CLIENTEDGE WC_EDIT [] (edit_style multiLine) x y width height parent i True
       (e\<lparr>isMultiLine := multiLine\<rparr>) w"

definition edit_CreateEdged ::
    "('w, 'z) controls_scheme \<Rightarrow> hwnd \<Rightarrow> int \<Rightarrow> int \<Rightarrow> int \<Rightarrow> int \<Rightarrow> bool \<Rightarrow> bool \<Rightarrow> nat \<Rightarrow> edit \<Rightarrow> 'w \<Rightarrow> bool \<times> edit \<times> 'w" where
  "edit_CreateEdged A parent x y width height multiLine clientEdge i e w =
     CreateControl A (if clientEdge then WS_EX_CLIENTEDGE else 0) WC_EDIT [] (edit_style multiLine) x y width height
       parent i True (e\<lparr>isMultiLine := multiLine\<rparr>) w"

definition SetForwardArrowKeys :: "bool \<Rightarrow> edit \<Rightarrow> edit" where
  "SetForwardArrowKeys b e = e\<lparr>forwardArrowKeys := b\<rparr>"

definition SetStopForwardOnClick :: "bool \<Rightarrow> edit \<Rightarrow> edit" where
  "SetStopForwardOnClick b e = e\<lparr>stopFowardingOnClick := b\<rparr>"

text \<open>A focused control keeps its selection.\<close>

definition SetText :: "('w, 'z) controls_scheme \<Rightarrow> string \<Rightarrow> edit \<Rightarrow> 'w \<Rightarrow> bool \<times> 'w" where
  "SetText A t e w =
     (if getHandle e = GetFocus A w then
        (let (selStart, selEnd) = EmGetSel A (getHandle e) w;
             (ok, w1) = SetWinText (desktop A) t e w
         in (ok, if ok then EmSetSel A (getHandle e) (int selStart) (int selEnd) w1 else w1))
      else SetWinText (desktop A) t e w)"

definition SetCaret :: "('w, 'z) controls_scheme \<Rightarrow> int \<Rightarrow> edit \<Rightarrow> 'w \<Rightarrow> 'w" where
  "SetCaret A pos e w = EmSetCaretIndex A (getHandle e) pos w"

definition CreateNumberBuddy :: "('w, 'z) controls_scheme \<Rightarrow> int \<Rightarrow> int \<Rightarrow> edit \<Rightarrow> 'w \<Rightarrow> bool \<times> edit \<times> 'w" where
  "CreateNumberBuddy A lo hi e w =
     (let (b, w1) = CreateUpDown A (getParent (desktop A) e w) w; e1 = e\<lparr>hBuddy := b\<rparr>
      in (b \<noteq> NULL, e1, if b \<noteq> NULL then UdmSetBuddy A b (getHandle e1) lo hi w1 else w1))"

definition edit_EnableThis :: "('w, 'z) controls_scheme \<Rightarrow> edit \<Rightarrow> 'w \<Rightarrow> 'w" where
  "edit_EnableThis A e w =
     (let w1 = EnableThis (desktop A) e w in if hBuddy e \<noteq> NULL then EnableWindow (desktop A) (hBuddy e) True w1 else w1)"

definition edit_DisableThis :: "('w, 'z) controls_scheme \<Rightarrow> edit \<Rightarrow> 'w \<Rightarrow> 'w" where
  "edit_DisableThis A e w =
     DisableThis (desktop A) e (if hBuddy e \<noteq> NULL then EnableWindow (desktop A) (hBuddy e) False w else w)"

definition SetTextLimit :: "('w, 'z) controls_scheme \<Rightarrow> u32 \<Rightarrow> edit \<Rightarrow> 'w \<Rightarrow> 'w" where
  "SetTextLimit A n e w = EmLimitText A (getHandle e) n w"

definition MaximizeTextLimit :: "('w, 'z) controls_scheme \<Rightarrow> edit \<Rightarrow> 'w \<Rightarrow> 'w" where
  "MaximizeTextLimit A e w = EmLimitText A (getHandle e) 0x7FFFFFFE w"

definition GetTextLength :: "('w, 'z) controls_scheme \<Rightarrow> edit \<Rightarrow> 'w \<Rightarrow> nat" where
  "GetTextLength A e w = GetWinTextLen A e w"

definition ExpandToText :: "('w, 'z) controls_scheme \<Rightarrow> edit \<Rightarrow> 'w \<Rightarrow> 'w option" where
  "ExpandToText A e w =
     (case GetWinText A e w of
        None \<Rightarrow> Some w
      | Some txt \<Rightarrow>
          if length txt \<le> 0 then Some w
          else (case TextExtent A (getHandle e) txt w of
            None \<Rightarrow> Some w
          | Some extent \<Rightarrow>
              (case GetClientRect (desktop A) (getHandle e) w of
                 None \<Rightarrow> Some w
               | Some r \<Rightarrow> do {
                   width \<leftarrow> rect_width r;
                   if extent > width then do {
                     edge \<leftarrow> add32 (left r) extent;
                     case AdjustWindowRect (desktop A) (r\<lparr>right := edge\<rparr>) (GetWindowLong (desktop A) (getHandle e) GWL_STYLE w) w of
                       None \<Rightarrow> Some w
                     | Some r1 \<Rightarrow> do { n \<leftarrow> rect_width r1; SetWidth (desktop A) n e w }
                   } else Some w })))"

section \<open>Numbers\<close>

definition SetEditNum :: "('w, 'z) controls_scheme \<Rightarrow> int \<Rightarrow> edit \<Rightarrow> 'w \<Rightarrow> bool \<times> 'w" where
  "SetEditNum A num e w = SetText A (to_string_int num) e w"

text \<open>The conversion of \<open>temp\<close> to the number type, here the word type \<open>'n\<close>, keeps the low bits.\<close>

definition edit_num :: "string \<Rightarrow> ('n::len) word option" where
  "edit_num txt =
     (if length txt > 0 then
        (case strtoll0 txt of (temp, in_range, rest) \<Rightarrow>
           if temp \<noteq> 0 then Some (word_of_int temp)
           else if in_range \<and> rest = [] then Some 0 else None)
      else None)"

definition GetEditNum :: "('w, 'z) controls_scheme \<Rightarrow> edit \<Rightarrow> 'w \<Rightarrow> ('n::len) word option" where
  "GetEditNum A e w = (case GetWinText A e w of Some txt \<Rightarrow> edit_num txt | None \<Rightarrow> None)"

section \<open>Binary numbers\<close>

definition binary_text :: "nat \<Rightarrow> u32 \<Rightarrow> string" where
  "binary_text numBits temp =
     (let t = radix_digits 2 (unat temp) in
      if length t > 0 \<and> length t < numBits \<and> numBits < 36 then replicate (numBits - length t) (CHR ''0'') @ t else t)"

definition SetEditBinaryNum :: "('w, 'z) controls_scheme \<Rightarrow> ('n::len) word \<Rightarrow> edit \<Rightarrow> 'w \<Rightarrow> bool \<times> 'w" where
  "SetEditBinaryNum A num e w = SetText A (binary_text LENGTH('n) (ucast num)) e w"

text \<open>
  The loop runs from the last character to the first. \<open>k\<close> indexes the table of bit values, which
  has an entry for each bit of the type.
\<close>

fun binary_loop :: "string \<Rightarrow> nat \<Rightarrow> ('n::len) word \<Rightarrow> 'n word option option" where
  "binary_loop [] k temp = Some (Some temp)"
| "binary_loop (c # cs) k temp =
     (if c = CHR ''1'' then
        (if k < LENGTH('n) then binary_loop cs (Suc k) (temp OR push_bit k 1) else None)
      else if c \<noteq> CHR ''0'' then Some None
      else binary_loop cs (Suc k) temp)"

definition binary_num :: "string \<Rightarrow> ('n::len) word option option" where
  "binary_num txt = (if length txt > 0 then binary_loop (rev txt) 0 0 else Some None)"

definition GetEditBinaryNum16 :: "('w, 'z) controls_scheme \<Rightarrow> edit \<Rightarrow> 'w \<Rightarrow> u16 option option" where
  "GetEditBinaryNum16 A e w = (case GetWinText A e w of Some txt \<Rightarrow> binary_num txt | None \<Rightarrow> Some None)"

definition GetEditBinaryNum32 :: "('w, 'z) controls_scheme \<Rightarrow> edit \<Rightarrow> 'w \<Rightarrow> u32 option option" where
  "GetEditBinaryNum32 A e w = (case GetWinText A e w of Some txt \<Rightarrow> binary_num txt | None \<Rightarrow> Some None)"

section \<open>Hexadecimal bytes\<close>

text \<open>\<open>memset\<close> and the assignments to \<open>dest\<close>; writing past the buffer is \<open>None\<close>.\<close>

definition put :: "nat \<Rightarrow> u8 list \<Rightarrow> u8 list \<Rightarrow> u8 list option" where
  "put i bs d = (if i + length bs \<le> length d then Some (take i d @ bs @ drop (i + length bs) d) else None)"

text \<open>The low \<open>k\<close> bytes of a number, the high one first.\<close>

definition chunk_bytes :: "nat \<Rightarrow> u32 \<Rightarrow> u8 list" where
  "chunk_bytes k r = map (\<lambda>i. ucast (drop_bit (8 * i) r)) (rev [0..<k])"

fun hex_chunks :: "string \<Rightarrow> nat list \<Rightarrow> u8 list \<Rightarrow> u8 list option" where
  "hex_chunks txt [] dest = Some dest"
| "hex_chunks txt (chunk # chunks) dest =
     (let strChunk = take 8 (drop (chunk * 8) txt) in
      do { d \<leftarrow> put (chunk * 4) (chunk_bytes 4 (strtoul16 strChunk)) dest; hex_chunks txt chunks d })"

definition hex_remainder :: "string \<Rightarrow> nat \<Rightarrow> nat \<Rightarrow> u8 list \<Rightarrow> u8 list option" where
  "hex_remainder txt strLength numChunks dest =
     (let strRemainder = strLength mod 8;
          given = take strRemainder (drop (numChunks * 8) txt);
          strChunk = (if strLength mod 2 = 0 then given else given @ ''0'');
          result = strtoul16 strChunk;
          destRemainderStart = numChunks * 4
      in do {
        d \<leftarrow> (if strRemainder = 7 then put destRemainderStart (chunk_bytes 4 result) dest else Some dest);
        if strRemainder = 5 \<or> strRemainder = 6 then put destRemainderStart (chunk_bytes 3 result) d
        else if strRemainder = 3 \<or> strRemainder = 4 then put destRemainderStart (chunk_bytes 2 result) d
        else if strRemainder = 1 \<or> strRemainder = 2 then put destRemainderStart (chunk_bytes 1 result) d
        else Some d })"

definition hex_bytes :: "string \<Rightarrow> nat \<Rightarrow> u8 list option" where
  "hex_bytes txt destLength =
     (let strLength = (if length txt > destLength * 2 then destLength * 2 else length txt);
          numChunks = strLength div 8
      in do { d \<leftarrow> hex_chunks txt [0..<numChunks] (replicate destLength 0);
              if strLength mod 8 > 0 then hex_remainder txt strLength numChunks d else Some d })"

definition GetHexByteString ::
    "('w, 'z) controls_scheme \<Rightarrow> u8 list \<Rightarrow> edit \<Rightarrow> 'w \<Rightarrow> (bool \<times> u8 list) option" where
  "GetHexByteString A dest e w =
     (case GetWinText A e w of
        Some txt \<Rightarrow>
          if length txt > 0 then map_option (\<lambda>d. (True, d)) (hex_bytes txt (length dest))
          else if GetWinTextLen A e w = 0 then Some (True, replicate (length dest) 0) else Some (False, dest)
      | None \<Rightarrow> if GetWinTextLen A e w = 0 then Some (True, replicate (length dest) 0) else Some (False, dest))"

definition hex_char :: "u8 \<Rightarrow> char" where
  "hex_char n = (if n < 10 then char_of (48 + unat n) else char_of (55 + unat n))"

definition hex_text :: "u8 list \<Rightarrow> string" where
  "hex_text bytes = concat (map (\<lambda>b. [hex_char (drop_bit 4 (b AND 0xF0)), hex_char (b AND 0x0F)]) bytes)"

definition SetHexByteString :: "('w, 'z) controls_scheme \<Rightarrow> u8 list \<Rightarrow> edit \<Rightarrow> 'w \<Rightarrow> bool \<times> 'w" where
  "SetHexByteString A bytes e w = (let (_, w1) = SetText A (hex_text bytes) e w in (True, w1))"

section \<open>Keys\<close>

definition WM_KEYDOWN :: u32 where "WM_KEYDOWN = 0x100"
definition WM_CHAR :: u32 where "WM_CHAR = 0x102"
definition WM_LBUTTONDOWN :: u32 where "WM_LBUTTONDOWN = 0x201"

definition VK_TAB :: int where "VK_TAB = 0x09"
definition VK_CONTROL :: int where "VK_CONTROL = 0x11"
definition VK_LEFT :: int where "VK_LEFT = 0x25"
definition VK_UP :: int where "VK_UP = 0x26"
definition VK_RIGHT :: int where "VK_RIGHT = 0x27"
definition VK_DOWN :: int where "VK_DOWN = 0x28"
definition VK_A :: int where "VK_A = 65"

definition arrow_key :: "int \<Rightarrow> bool" where
  "arrow_key k \<longleftrightarrow> k = VK_LEFT \<or> k = VK_UP \<or> k = VK_RIGHT \<or> k = VK_DOWN"

text \<open>
  The message is answered with 0, sent to the parent as \<open>WM_KEYDOWN\<close> and answered with 0, or given
  to the control's own procedure.
\<close>

datatype edit_answer = Answered | KeyToParent int int | DefaultProc int

definition edit_ControlProc ::
    "('w, 'z) controls_scheme \<Rightarrow> u32 \<Rightarrow> int \<Rightarrow> int \<Rightarrow> edit \<Rightarrow> 'w \<Rightarrow> (edit_answer \<times> edit \<times> 'w) option" where
  "edit_ControlProc A msg wParam lParam e w =
     (let pass = (\<lambda>e1 w1. case ctl_default A msg wParam lParam e1 w1 of (r, w2) \<Rightarrow> (DefaultProc r, e1, w2)) in
      if msg = WM_LBUTTONDOWN \<and> stopFowardingOnClick e \<and> forwardArrowKeys e then
        Some (pass (e\<lparr>forwardArrowKeys := False\<rparr>) w)
      else if msg = WM_KEYDOWN then
        (if wParam = VK_TAB then
           (let (selStart, selEnd) = EmGetSel A (getHandle e) w;
                w1 = EmSetSel A (getHandle e) (int selStart) (int selEnd) w
            in Some (Answered, e, EmReplaceSel A (getHandle e) [char_of (9 :: nat)] w1))
         else if arrow_key wParam \<and> forwardArrowKeys e then Some (KeyToParent wParam lParam, e, w)
         else do {
           let w1 = (if wParam = VK_A \<and> GetKeyState A VK_CONTROL w then EmSetSel A (getHandle e) 0 (- 1) w else w);
           w2 \<leftarrow> (if autoExpand e then ExpandToText A e w1 else Some w1);
           Some (pass e w2) })
      else if msg = WM_CHAR then
        (if GetKeyState A VK_A w \<and> GetKeyState A VK_CONTROL w then Some (Answered, e, w)
         else if forwardArrowKeys e \<and> arrow_key wParam then Some (Answered, e, w)
         else Some (pass e w))
      else Some (pass e w))"

end
