(* ===== verification/Edit_Control_Facts.thy ===== *)
theory Edit_Control_Facts
  imports Edit_Control
begin

text \<open>
  Properties of the edit box: the three text formats are read back as they were written, first on
  the text and then through the control, and the texts the readers treat in a surprising way.
\<close>

unbundle bit_operations_syntax

section \<open>Binary numbers\<close>

lemma push_bit_shift: "push_bit (Suc k) x = push_bit k (2 * x :: ('n::len) word)"
  by (simp only: push_bit_Suc mult.commute [of 2])

lemma push_bit_step: "push_bit k 1 OR push_bit (Suc k) x = push_bit k (2 * x + (1 :: ('n::len) word))"
proof -
  have "push_bit k 1 OR push_bit (Suc k) x = push_bit k (1 OR 2 * x)" by (simp only: push_bit_shift push_bit_or)
  also have "1 OR 2 * x = 2 * x + 1" by (simp add: one_or_eq)
  finally show ?thesis .
qed

lemma bit_value: "is_digit 2 c \<longleftrightarrow> c = CHR ''0'' \<or> c = CHR ''1''"
proof
  assume "is_digit 2 c"
  then have "(of_char c :: nat) = 48 \<or> (of_char c :: nat) = 49"
    by (auto simp: is_digit_def digit_of_def Let_def split: if_splits)
  then have "of_char c = (of_char (CHR ''0'') :: nat) \<or> of_char c = (of_char (CHR ''1'') :: nat)" by simp
  then show "c = CHR ''0'' \<or> c = CHR ''1''" by (simp only: of_char_eq_iff)
qed (auto simp: is_digit_def digit_of_def)

lemma binary_loop_correct:
  fixes temp :: "('n::len) word"
  assumes "list_all (is_digit 2) cs" "k + length cs \<le> LENGTH('n)"
  shows "binary_loop cs k temp = Some (Some (temp OR push_bit k (of_nat (radix_value 2 (rev cs)))))"
  using assms
proof (induction cs arbitrary: k temp)
  case (Cons c cs)
  let ?v = "of_nat (radix_value 2 (rev cs)) :: 'n word"
  from Cons.prems have IH: "binary_loop cs (Suc k) t = Some (Some (t OR push_bit (Suc k) ?v))" for t
    by (simp add: Cons.IH)
  from Cons.prems(1) have "c = CHR ''0'' \<or> c = CHR ''1''" by (simp add: bit_value)
  then show ?case
  proof
    assume c: "c = CHR ''0''"
    have "binary_loop (c # cs) k temp = Some (Some (temp OR push_bit k (2 * ?v)))"
      using c IH by (simp only: push_bit_shift) simp
    with c show ?thesis by (simp add: radix_value_snoc digit_val_def digit_of_def)
  next
    assume c: "c = CHR ''1''"
    have "binary_loop (c # cs) k temp = binary_loop cs (Suc k) (temp OR push_bit k 1)"
      using c Cons.prems(2) by simp
    also have "\<dots> = Some (Some (temp OR push_bit k (2 * ?v + 1)))" by (simp only: IH or.assoc push_bit_step)
    finally show ?thesis using c
      by (simp add: radix_value_snoc digit_val_def digit_of_def add.commute del: binary_loop.simps)
  qed
qed simp

lemma binary_num_correct:
  assumes "list_all (is_digit 2) txt" "txt \<noteq> []" "length txt \<le> LENGTH('n::len)"
  shows "binary_num txt = Some (Some (of_nat (radix_value 2 txt) :: 'n word))"
  using assms by (simp add: binary_num_def binary_loop_correct)

lemma binary_text_digits: "list_all (is_digit 2) (binary_text n temp)"
  using radix_digits_valid [of 2 "unat temp"]
  by (simp add: binary_text_def Let_def list_all_iff is_digit_def digit_of_def)

lemma binary_text_value: "radix_value 2 (binary_text n temp) = unat temp"
  by (simp add: binary_text_def Let_def radix_value_zeros radix_value_digits)

lemma binary_text_length:
  assumes "unat temp < 2 ^ n" "0 < n" "n < 36"
  shows "length (binary_text n temp) = n"
proof -
  have "length (radix_digits 2 (unat temp)) \<le> n" using assms by (intro radix_digits_length) simp_all
  moreover have "0 < length (radix_digits 2 (unat temp))" by (simp add: radix_digits_nonempty)
  ultimately show ?thesis using assms(3) by (auto simp: binary_text_def Let_def)
qed

lemma binary_round:
  fixes num :: "('n::len) word"
  assumes "LENGTH('n) \<le> 32"
  shows "binary_num (binary_text LENGTH('n) (ucast num)) = Some (Some num)"
proof -
  have u: "unat (ucast num :: u32) = unat num" 
  proof -
    have "unat num < 2 ^ LENGTH('n)" by (simp add: unsigned_less)
    also have "(2 :: nat) ^ LENGTH('n) \<le> 2 ^ 32" using assms by (intro power_increasing) simp_all
    finally show ?thesis by (simp add: unsigned_ucast_eq take_bit_nat_eq_self)
  qed
  have l: "length (binary_text LENGTH('n) (ucast num)) = LENGTH('n)"
    using assms by (intro binary_text_length) (simp_all add: u unsigned_less)
  then have "binary_text LENGTH('n) (ucast num) \<noteq> []" by (metis len_gt_0 length_0_conv less_nat_zero_code)
  then show ?thesis using l by (simp add: binary_num_correct binary_text_digits binary_text_value u)
qed

section \<open>Hexadecimal bytes\<close>

text \<open>The reference: two digits to a byte, an odd last digit is the high half of its byte.\<close>

fun byte_pairs :: "string \<Rightarrow> u8 list" where
  "byte_pairs [] = []"
| "byte_pairs [c] = [of_nat (16 * digit_val c)]"
| "byte_pairs (c # d # s) = of_nat (16 * digit_val c + digit_val d) # byte_pairs s"

lemma byte_pairs_append: "even (length s) \<Longrightarrow> byte_pairs (s @ t) = byte_pairs s @ byte_pairs t"
  by (induction s rule: byte_pairs.induct) simp_all

lemma byte_pairs_length: "length (byte_pairs s) = (length s + 1) div 2"
  by (induction s rule: byte_pairs.induct) simp_all

lemma byte_pairs_pad: "odd (length s) \<Longrightarrow> byte_pairs (s @ ''0'') = byte_pairs s"
  by (induction s rule: byte_pairs.induct) (simp_all add: digit_val_def digit_of_def)

lemma div_power_low:
  fixes a b :: nat
  assumes "i < k"
  shows "(a * 256 ^ k + b) div 256 ^ i mod 256 = b div 256 ^ i mod 256"
proof -
  obtain j where k: "k = Suc (i + j)" using assms less_imp_Suc_add by blast
  have "a * 256 ^ k + b = b + 256 ^ i * (256 * (a * 256 ^ j))" by (simp add: k power_add algebra_simps)
  then have "(a * 256 ^ k + b) div 256 ^ i = 256 * (a * 256 ^ j) + b div 256 ^ i"
    by (simp only: div_mult_self2 [OF power_not_zero] zero_neq_numeral not_False_eq_True)
  then show ?thesis by simp
qed

lemma of_nat_u8_eqI: "a mod 256 = b mod 256 \<Longrightarrow> (of_nat a :: u8) = of_nat b"
  by (simp add: of_nat_eq_iff take_bit_eq_mod word_of_nat_eq_iff)

lemma bytes_of_pairs:
  "list_all (is_digit 16) t \<Longrightarrow> length t = 2 * k \<Longrightarrow>
   map (\<lambda>i. of_nat (radix_value 16 t div 256 ^ i) :: u8) (rev [0..<k]) = byte_pairs t"
proof (induction k arbitrary: t)
  case (Suc k)
  then obtain c d s where t: "t = c # d # s" by (cases t rule: byte_pairs.cases) auto
  with Suc.prems have s: "list_all (is_digit 16) s" "length s = 2 * k" "is_digit 16 c" "is_digit 16 d" by auto
  let ?a = "16 * digit_val c + digit_val d" and ?v = "radix_value 16 s"
  have p: "(16 :: nat) ^ length s = 256 ^ k" using s(2) by (simp add: power_mult)
  have v: "radix_value 16 t = ?a * 256 ^ k + ?v" using p by (simp add: t radix_value_Cons algebra_simps)
  have "?v < 256 ^ k" using radix_value_less [OF s(1)] by (simp add: p)
  then have hi: "radix_value 16 t div 256 ^ k = ?a" by (simp add: v)
  have "map (\<lambda>i. of_nat (radix_value 16 t div 256 ^ i) :: u8) (rev [0..<k]) =
      map (\<lambda>i. of_nat (?v div 256 ^ i)) (rev [0..<k])"
    by (intro map_cong refl of_nat_u8_eqI) (simp add: v div_power_low)
  with Suc.IH [OF s(1,2)] hi show ?case by (simp add: t)
qed simp

lemma ucast_drop_bit_of_nat:
  assumes "v < 2 ^ 32"
  shows "(ucast (drop_bit n (of_nat v :: u32)) :: u8) = of_nat (v div 2 ^ n)"
proof -
  have u: "unat (of_nat v :: u32) = v" using assms by (simp add: unsigned_of_nat take_bit_nat_eq_self)
  have "unat (drop_bit n (of_nat v :: u32)) = v div 2 ^ n"
    unfolding unsigned_drop_bit_eq u using assms by (simp add: take_bit_nat_eq_self drop_bit_eq_div)
  then show ?thesis by (metis of_nat_unat)
qed

lemma chunk_bytes_pairs:
  assumes "list_all (is_digit 16) t" "length t = 2 * k" "k \<le> 4"
  shows "chunk_bytes k (strtoul16 t) = byte_pairs t"
proof -
  have "radix_value 16 t < 16 ^ length t" using assms(1) by (rule radix_value_less)
  also have "\<dots> \<le> 16 ^ 8" using assms by (intro power_increasing) simp_all
  finally have v: "radix_value 16 t < 2 ^ 32" by simp
  have "chunk_bytes k (strtoul16 t) = map (\<lambda>i. of_nat (radix_value 16 t div 2 ^ (8 * i)) :: u8) (rev [0..<k])"
    using assms by (simp add: chunk_bytes_def strtoul16_digits ucast_drop_bit_of_nat [OF v])
  also have "\<dots> = byte_pairs t" using bytes_of_pairs [OF assms(1,2)] by (simp add: power_mult)
  finally show ?thesis .
qed

lemma put_zeros:
  assumes "length bs \<le> n"
  shows "put (length as) bs (as @ replicate n 0) = Some ((as @ bs) @ replicate (n - length bs) 0)"
  using assms by (simp add: put_def)

lemma hex_chunks_snoc:
  "hex_chunks txt (xs @ [m]) dest =
   do { d \<leftarrow> hex_chunks txt xs dest; put (m * 4) (chunk_bytes 4 (strtoul16 (take 8 (drop (m * 8) txt)))) d }"
proof (induction xs arbitrary: dest)
  case Nil
  have "hex_chunks txt [] = Some" by (rule ext) simp
  then show ?case by (simp add: Let_def)
next
  case (Cons x xs)
  then show ?case
    by (cases "put (x * 4) (chunk_bytes 4 (strtoul16 (take 8 (drop (x * 8) txt)))) dest") (simp_all add: Let_def)
qed

lemma hex_chunks_pairs:
  assumes "list_all (is_digit 16) txt" "8 * m \<le> length txt" "4 * m \<le> n"
  shows "hex_chunks txt [0..<m] (replicate n 0) = Some (byte_pairs (take (8 * m) txt) @ replicate (n - 4 * m) 0)"
  using assms(2,3)
proof (induction m)
  case (Suc m)
  let ?as = "byte_pairs (take (8 * m) txt)" and ?c = "take 8 (drop (8 * m) txt)"
  have l: "length ?as = 4 * m" using Suc.prems by (simp add: byte_pairs_length min_absorb2)
  have "list_all (is_digit 16) ?c"
    using assms(1) by (auto simp: list_all_iff dest: in_set_takeD in_set_dropD)
  moreover have lc: "length ?c = 8" using Suc.prems by simp
  ultimately have c: "chunk_bytes 4 (strtoul16 ?c) = byte_pairs ?c" by (simp add: chunk_bytes_pairs)
  have lb: "length (byte_pairs ?c) = 4" using lc by (simp add: byte_pairs_length)
  have "put (length ?as) (byte_pairs ?c) (?as @ replicate (n - 4 * m) 0)
      = Some ((?as @ byte_pairs ?c) @ replicate (n - 4 * m - length (byte_pairs ?c)) 0)"
    using Suc.prems by (intro put_zeros) (simp only: lb, simp)
  moreover have "?as @ byte_pairs ?c = byte_pairs (take (8 * Suc m) txt)"
  proof -
    have "take (8 * Suc m) txt = take (8 * m) txt @ ?c" using take_add [of "8 * m" 8 "txt"] by (simp add: add.commute)
    moreover have "even (length (take (8 * m) txt))" using Suc.prems by (simp add: min_absorb2)
    ultimately show ?thesis by (simp only: byte_pairs_append)
  qed
  ultimately have "put (4 * m) (byte_pairs ?c) (?as @ replicate (n - 4 * m) 0)
      = Some (byte_pairs (take (8 * Suc m) txt) @ replicate (n - 4 * Suc m) 0)"
    by (simp add: l lb)
  with Suc c show ?case by (simp add: hex_chunks_snoc mult.commute [of m])
qed simp

text \<open>The remainder of one to seven digits is padded to full bytes.\<close>

lemma hex_remainder_pairs:
  assumes "list_all (is_digit 16) s" "0 < length s" "length s < 8"
    and "s = take (len mod 8) (drop (m * 8) txt)" "length s = len mod 8"
    and "length as = m * 4" "(length s + 1) div 2 \<le> n"
  shows "hex_remainder txt len m (as @ replicate n 0) =
    Some (as @ byte_pairs s @ replicate (n - (length s + 1) div 2) 0)"
proof -
  let ?k = "(length s + 1) div 2"
  define t where "t = (if len mod 2 = 0 then s else s @ ''0'')"
  have par: "even (length s) \<longleftrightarrow> len mod 2 = 0"
    unfolding assms(5) by (simp add: even_iff_mod_2_eq_zero mod_mod_cancel)
  have "list_all (is_digit 16) t" using assms(1) by (simp add: t_def is_digit_def digit_of_def)
  moreover have l: "length t = 2 * ?k"
    using par by (cases "even (length s)") (auto simp: t_def elim!: evenE oddE)
  moreover have "?k \<le> 4" using assms(3) by simp
  ultimately have "chunk_bytes ?k (strtoul16 t) = byte_pairs t" by (simp add: chunk_bytes_pairs)
  moreover have "byte_pairs t = byte_pairs s" using par by (simp add: t_def byte_pairs_pad)
  ultimately have c: "chunk_bytes ?k (strtoul16 t) = byte_pairs s" by simp
  have p: "put (m * 4) (chunk_bytes ?k (strtoul16 t)) (as @ replicate n 0) =
      Some (as @ byte_pairs s @ replicate (n - ?k) 0)"
    unfolding c using put_zeros [of "byte_pairs s" n as] assms(6,7) by (simp add: byte_pairs_length)
  have "length s \<in> {1, 2, 3, 4, 5, 6, 7}" using assms(2,3) by (simp only: insert_iff empty_iff) arith
  then have "hex_remainder txt len m (as @ replicate n 0) =
      put (m * 4) (chunk_bytes ?k (strtoul16 t)) (as @ replicate n 0)"
    unfolding hex_remainder_def Let_def assms(4)[symmetric] t_def[symmetric]
    by (elim insertE emptyE) (simp_all add: assms(5)[symmetric])
  with p show ?thesis by simp
qed

lemma hex_bytes_pairs:
  assumes "list_all (is_digit 16) txt"
  shows "hex_bytes txt n = Some (take n (byte_pairs txt @ replicate n 0))"
proof -
  define len where "len = (if length txt > n * 2 then n * 2 else length txt)"
  define m where "m = len div 8"
  define s where "s = take (len mod 8) (drop (m * 8) txt)"
  let ?as = "byte_pairs (take (8 * m) txt)"
  have len: "len \<le> 2 * n" "len \<le> length txt" "len = 8 * m + len mod 8" by (auto simp: len_def m_def)
  then have m: "8 * m \<le> length txt" "4 * m \<le> n" by linarith+
  have las: "length ?as = 4 * m" using m by (simp add: byte_pairs_length min_absorb2)
  have ls: "length s = len mod 8" using len m by (simp add: s_def)
  have hs: "list_all (is_digit 16) s" using assms by (auto simp: s_def list_all_iff dest: in_set_takeD in_set_dropD)
  have "take len txt = take (8 * m) txt @ s" 
    using take_add [of "8 * m" "len mod 8" "txt"] len(3) by (simp add: s_def mult.commute [of m])
  moreover have "even (length (take (8 * m) txt))" using m by (simp add: min_absorb2)
  ultimately have split: "byte_pairs (take len txt) = ?as @ byte_pairs s" by (simp only: byte_pairs_append)
  have fit: "(len mod 8 + 1) div 2 \<le> n - 4 * m" using len by linarith
  have "hex_bytes txt n = Some (byte_pairs (take len txt) @ replicate (n - 4 * m - (len mod 8 + 1) div 2) 0)"
  proof (cases "len mod 8 = 0")
    case True
    then have "s = []" by (simp add: s_def)
    with True hex_chunks_pairs [OF assms m] split show ?thesis
      unfolding hex_bytes_def Let_def len_def[symmetric] m_def[symmetric] by simp
  next
    case False
    have "hex_remainder txt len m (?as @ replicate (n - 4 * m) 0) =
        Some (?as @ byte_pairs s @ replicate (n - 4 * m - (length s + 1) div 2) 0)"
      by (rule hex_remainder_pairs [OF hs _ _ s_def ls]) (use False las fit ls in simp_all)
    with hex_chunks_pairs [OF assms m] split False ls show ?thesis
      unfolding hex_bytes_def Let_def len_def[symmetric] m_def[symmetric] by simp
  qed
  also have "n - 4 * m - (len mod 8 + 1) div 2 = n - (len + 1) div 2" using len by linarith
  also have "byte_pairs (take len txt) @ replicate (n - (len + 1) div 2) 0 = take n (byte_pairs txt @ replicate n 0)"
  proof (cases "length txt > n * 2")
    case True
    then have l: "len = 2 * n" by (simp add: len_def)
    have "byte_pairs txt = byte_pairs (take len txt) @ byte_pairs (drop len txt)"
      using byte_pairs_append [of "take len txt" "drop len txt"] len(2) l by (simp add: min_absorb2)
    with l len(2) show ?thesis by (simp add: byte_pairs_length min_absorb2)
  next
    case False
    then show ?thesis by (simp add: len_def byte_pairs_length)
  qed
  finally show ?thesis .
qed

text \<open>
  Property C21: on hexadecimal digits \<open>GetHexByteString\<close>'s reader, which takes eight digits at a time and
  has a case for each length of the rest, equals the reading of two digits to a byte, cut to the
  buffer and filled with zeros. It never writes past the buffer.
\<close>

theorem hex_bytes_reference:
  assumes "list_all (is_digit 16) txt"
  shows "hex_bytes txt n = Some (take n (byte_pairs txt @ replicate n 0))"
  using assms by (rule hex_bytes_pairs)

lemma hex_bytes_reference_witness:
  "list_all (is_digit 16) ''12AbC'' \<and> hex_bytes ''12AbC'' 4 = Some [0x12, 0xAB, 0xC0, 0]"
proof -
  have d: "list_all (is_digit 16) ''12AbC''" by (simp add: is_digit_def digit_of_def)
  from hex_bytes_reference [OF d, of 4] d show ?thesis by (simp add: digit_val_def digit_of_def numeral_eq_Suc)
qed

lemma digit_of_hex_char:
  assumes "n < 16"
  shows "digit_of (hex_char n) = Some (unat n)"
proof -
  have n: "unat n < 16" using assms by (simp add: word_less_nat_alt)
  show ?thesis
  proof (cases "unat n < 10")
    case True
    then have "n < 10" by (simp add: word_less_nat_alt)
    with True show ?thesis by (simp add: hex_char_def digit_of_def)
  next
    case False
    then have "\<not> n < 10" by (simp add: word_less_nat_alt)
    with False n show ?thesis by (simp add: hex_char_def digit_of_def)
  qed
qed

lemma low_half: "(b :: u8) AND 0x0F = take_bit 4 b"
  by (simp add: take_bit_eq_mask mask_eq_exp_minus_1)

lemma high_half: "drop_bit 4 ((b :: u8) AND 0xF0) = drop_bit 4 b"
proof -
  have "drop_bit 4 (b AND 0xF0) = drop_bit 4 b AND drop_bit 4 0xF0" by (rule drop_bit_and)
  also have "drop_bit 4 (0xF0 :: u8) = 0x0F" by simp
  also have "drop_bit 4 b AND 0x0F = take_bit 4 (drop_bit 4 b)" by (rule low_half)
  also have "\<dots> = drop_bit 4 (take_bit 8 b)" by (simp add: take_bit_drop_bit)
  also have "\<dots> = drop_bit 4 b" by (simp add: take_bit_word_eq_self)
  finally show ?thesis .
qed

lemma halves:
  fixes b :: u8
  shows "unat (take_bit 4 b) = unat b mod 16" "unat (drop_bit 4 b) = unat b div 16"
    "take_bit 4 b < 16" "drop_bit 4 b < 16"
proof -
  show m: "unat (take_bit 4 b) = unat b mod 16" by (simp only: unsigned_take_bit_eq) (simp add: take_bit_eq_mod)
  have "unat b < 256" using unsigned_less [of b, where ?'a = nat] by simp
  then show d: "unat (drop_bit 4 b) = unat b div 16"
    unfolding unsigned_drop_bit_eq by (simp add: take_bit_nat_eq_self drop_bit_eq_div)
  show "take_bit 4 b < 16" by (simp add: word_less_nat_alt m)
  from \<open>unat b < 256\<close> show "drop_bit 4 b < 16" by (simp add: word_less_nat_alt d)
qed

lemma hex_text_digits: "list_all (is_digit 16) (hex_text bytes)"
proof -
  have "is_digit 16 (hex_char n)" if "n < 16" for n
    using that by (simp add: is_digit_def digit_of_hex_char word_less_nat_alt)
  then show ?thesis
    by (auto simp only: hex_text_def list_all_iff high_half low_half set_concat set_map halves
        UN_iff image_iff list.set insert_iff empty_iff)
qed

lemma byte_pairs_hex_text: "byte_pairs (hex_text bytes) = bytes"
proof (induction bytes)
  case (Cons b bytes)
  have "16 * digit_val (hex_char (drop_bit 4 b)) + digit_val (hex_char (take_bit 4 b)) = unat b"
    by (simp add: digit_val_def digit_of_hex_char halves)
  then have "(of_nat (16 * digit_val (hex_char (drop_bit 4 b)) + digit_val (hex_char (take_bit 4 b))) :: u8) = b"
    by simp
  moreover have "hex_text (b # bytes) = hex_char (drop_bit 4 b) # hex_char (take_bit 4 b) # hex_text bytes"
    by (simp only: hex_text_def high_half low_half) simp
  ultimately show ?case by (simp only: byte_pairs.simps Cons.IH)
qed (simp add: hex_text_def)

lemma hex_round: "length bytes \<le> n \<Longrightarrow> hex_bytes (hex_text bytes) n = Some (bytes @ replicate (n - length bytes) 0)"
  by (simp add: hex_bytes_pairs [OF hex_text_digits] byte_pairs_hex_text min_absorb2)

section \<open>Reading after writing\<close>

text \<open>
  What the class relies on: a text the system accepted is the text it reports, and moving the
  selection does not change it.
\<close>

definition keeps_text :: "('w, 'z) controls_scheme \<Rightarrow> hwnd \<Rightarrow> bool" where
  "keeps_text A h \<longleftrightarrow>
     (\<forall>t w w1. SetWindowText (desktop A) h t w = (True, w1) \<longrightarrow>
        GetWindowText (desktop A) h w1 = Some t \<and> GetWindowTextLength A h w1 = length t) \<and>
     (\<forall>i j w. GetWindowText (desktop A) h (EmSetSel A h i j w) = GetWindowText (desktop A) h w \<and>
        GetWindowTextLength A h (EmSetSel A h i j w) = GetWindowTextLength A h w)"

lemma text_after_SetText:
  assumes "keeps_text A (getHandle e)" "SetText A t e w = (True, w1)"
  shows "GetWinText A e w1 = Some t"
  using assms
  by (auto simp: SetText_def keeps_text_def GetWinText_def SetWinText_def Let_def split: if_splits prod.splits)

lemma length_after_SetText:
  assumes "keeps_text A (getHandle e)" "SetText A t e w = (True, w1)"
  shows "GetWinTextLen A e w1 = length t"
  using assms
  by (auto simp: SetText_def keeps_text_def GetWinTextLen_def SetWinText_def Let_def split: if_splits prod.splits)

text \<open>A format: \<open>parse\<close> gives back from a printed value what \<open>result\<close> says.\<close>

locale text_format =
  fixes print :: "'a \<Rightarrow> string" and parse :: "string \<Rightarrow> 'r" and valid :: "'a \<Rightarrow> bool" and result :: "'a \<Rightarrow> 'r"
  assumes parse_print: "valid a \<Longrightarrow> parse (print a) = result a"
begin

lemma read_after_write:
  assumes "keeps_text A (getHandle e)" "SetText A (print a) e w = (True, w1)" "valid a"
  shows "map_option parse (GetWinText A e w1) = Some (result a)"
  using text_after_SetText [OF assms(1,2)] parse_print [OF assms(3)] by simp

end

lemma number_round:
  assumes "LLONG_MIN \<le> n \<and> n \<le> LLONG_MAX"
  shows "edit_num (to_string_int n) = Some (word_of_int n)"
proof -
  have "to_string_int n \<noteq> []" by (simp add: to_string_int_def to_string_nonempty)
  then show ?thesis using assms by (simp add: edit_num_def strtoll0_to_string_int)
qed

interpretation decimal: text_format to_string_int edit_num "\<lambda>n. LLONG_MIN \<le> n \<and> n \<le> LLONG_MAX" "\<lambda>n. Some (word_of_int n)"
  by unfold_locales (rule number_round)

interpretation binary: text_format "\<lambda>num. binary_text LENGTH('n::len) (ucast num)" binary_num
    "\<lambda>num :: 'n word. LENGTH('n) \<le> 32" "\<lambda>num. Some (Some num)"
  by unfold_locales (rule binary_round)

interpretation hex: text_format hex_text "\<lambda>t. hex_bytes t n" "\<lambda>bytes. length bytes \<le> n"
    "\<lambda>bytes. Some (bytes @ replicate (n - length bytes) 0)" for n
  by unfold_locales (rule hex_round)

text \<open>
  Property C27: a number written into an edit box with \<open>SetEditNum<int>\<close>, as the views tab does with every
  position and clip edge, is the number \<open>GetEditNum\<close> reads back.
\<close>

theorem edit_number_round_trip:
  assumes "keeps_text A (getHandle e)" "in_s32 n" "SetEditNum A n e w = (True, w1)"
  shows "\<exists>v :: u32. GetEditNum A e w1 = Some v \<and> sint v = n"
proof -
  have r: "LLONG_MIN \<le> n \<and> n \<le> LLONG_MAX" using assms(2) by (simp add: in_s32_def LLONG_MAX_def LLONG_MIN_def)
  obtain t where t: "GetWinText A e w1 = Some t" and p: "edit_num t = Some (word_of_int n :: u32)"
    using decimal.read_after_write [OF assms(1) assms(3) [unfolded SetEditNum_def] r] by blast
  have "signed_take_bit 31 n = n" using assms(2) by (intro signed_take_bit_int_eq_self) (simp_all add: in_s32_def)
  then have "sint (word_of_int n :: u32) = n" by (simp add: signed_of_int)
  with t p show ?thesis by (simp add: GetEditNum_def)
qed

lemma desk_keeps_text: "keeps_text desk_controls h"
  by (simp add: keeps_text_def desk_controls_def desk_win32_def)

lemma edit_number_round_trip_witness:
  "\<exists>w1. SetEditNum desk_controls (- 205) (setHandle 40 new_edit) (example_desk \<lparr>px = 0, py = 0\<rparr>) = (True, w1) \<and>
     (\<exists>v :: u32. GetEditNum desk_controls (setHandle 40 new_edit) w1 = Some v \<and> sint v = - 205)"
proof -
  obtain w1 where s: "SetEditNum desk_controls (- 205) (setHandle 40 new_edit) (example_desk \<lparr>px = 0, py = 0\<rparr>) = (True, w1)"
    by (simp add: SetEditNum_def SetText_def SetWinText_def getHandle_def setHandle_def new_edit_def desk_controls_def
        desk_win32_def example_desk_def NULL_def)
  from edit_number_round_trip [OF desk_keeps_text _ s] s show ?thesis by (simp add: in_s32_def)
qed

text \<open>
  Property: a 16 bit number written in binary is read back; the text has exactly 16 digits.
\<close>

theorem edit_binary_round_trip:
  fixes num :: u16
  assumes "keeps_text A (getHandle e)" "SetEditBinaryNum A num e w = (True, w1)"
  shows "GetEditBinaryNum16 A e w1 = Some (Some num) \<and> map_option length (GetWinText A e w1) = Some 16"
proof -
  have s: "SetText A (binary_text LENGTH(16) (ucast num)) e w = (True, w1)"
    using assms(2) by (simp add: SetEditBinaryNum_def)
  have u: "unat (ucast num :: u32) = unat num"
    using unsigned_less [of num, where ?'a = nat] by (simp add: unsigned_ucast_eq take_bit_nat_eq_self)
  have "length (binary_text 16 (ucast num)) = 16"
    using unsigned_less [of num, where ?'a = nat] by (intro binary_text_length) (simp_all add: u)
  with binary.read_after_write [OF assms(1) s] text_after_SetText [OF assms(1) s] show ?thesis
    by (simp add: GetEditBinaryNum16_def)
qed

lemma edit_binary_round_trip_witness:
  "\<exists>w1. SetEditBinaryNum desk_controls (0xA5 :: u16) (setHandle 40 new_edit) (example_desk \<lparr>px = 0, py = 0\<rparr>) = (True, w1) \<and>
     GetEditBinaryNum16 desk_controls (setHandle 40 new_edit) w1 = Some (Some 0xA5)"
proof -
  obtain w1 where s: "SetEditBinaryNum desk_controls (0xA5 :: u16) (setHandle 40 new_edit) (example_desk \<lparr>px = 0, py = 0\<rparr>) = (True, w1)"
    by (simp add: SetEditBinaryNum_def SetText_def SetWinText_def getHandle_def setHandle_def new_edit_def desk_controls_def
        desk_win32_def example_desk_def NULL_def)
  from edit_binary_round_trip [OF desk_keeps_text s] s show ?thesis by simp
qed

text \<open>
  Bytes written as hexadecimal text are read back into a buffer at least as long, the rest
  of which becomes zero.
\<close>

theorem edit_bytes_round_trip:
  assumes "keeps_text A (getHandle e)" "SetText A (hex_text bytes) e w = (True, w1)"
    and "length bytes \<le> length dest"
  shows "SetHexByteString A bytes e w = (True, w1) \<and>
    GetHexByteString A dest e w1 = Some (True, bytes @ replicate (length dest - length bytes) 0)"
proof -
  have t: "GetWinText A e w1 = Some (hex_text bytes)" by (rule text_after_SetText [OF assms(1,2)])
  have h: "hex_bytes (hex_text bytes) (length dest) = Some (bytes @ replicate (length dest - length bytes) 0)"
    using hex.read_after_write [OF assms] t by simp
  show ?thesis
  proof (cases "bytes = []")
    case True
    then have "hex_text bytes = []" by (simp add: hex_text_def)
    with length_after_SetText [OF assms(1,2)] have "GetWinTextLen A e w1 = 0" by simp
    with t True assms(2) show ?thesis by (simp add: GetHexByteString_def SetHexByteString_def hex_text_def)
  next
    case False
    then have "0 < length (hex_text bytes)" by (cases bytes) (simp_all add: hex_text_def)
    with t h assms(2) show ?thesis by (simp add: GetHexByteString_def SetHexByteString_def)
  qed
qed

lemma edit_bytes_round_trip_witness:
  "\<exists>w1. SetHexByteString desk_controls [0x0F, 0xC0, 0x07] (setHandle 40 new_edit) (example_desk \<lparr>px = 0, py = 0\<rparr>) = (True, w1) \<and>
     GetHexByteString desk_controls [1, 2, 3, 4] (setHandle 40 new_edit) w1 = Some (True, [0x0F, 0xC0, 0x07, 0])"
proof -
  obtain w1 where s: "SetText desk_controls (hex_text [0x0F, 0xC0, 0x07]) (setHandle 40 new_edit) (example_desk \<lparr>px = 0, py = 0\<rparr>) = (True, w1)"
    by (simp add: SetText_def SetWinText_def getHandle_def setHandle_def new_edit_def desk_controls_def
        desk_win32_def example_desk_def NULL_def)
  from edit_bytes_round_trip [OF desk_keeps_text s, of "[1, 2, 3, 4]"] show ?thesis by simp
qed

section \<open>Texts read in a surprising way\<close>

text \<open>
  Property: a binary text with a 1 to the left of the last \<open>LENGTH('n)\<close> digits makes
  \<open>GetEditBinaryNum\<close> read past the end of its table of bit values; nothing limits the length.
\<close>

theorem long_binary_reads_past_table:
  assumes "list_all (is_digit 2) t" "LENGTH('n::len) \<le> length t"
  shows "(binary_num (s @ CHR ''1'' # t) :: 'n word option option) = None"
proof -
  have step: "(binary_loop (cs @ ds) k temp :: 'n word option option) = None"
    if "list_all (is_digit 2) cs" "\<And>temp. (binary_loop ds (k + length cs) temp :: 'n word option option) = None"
    for cs ds k temp
    using that
  proof (induction cs arbitrary: k temp)
    case (Cons c cs)
    then have "(binary_loop (cs @ ds) (Suc k) x :: 'n word option option) = None" for x by simp
    moreover have "c = CHR ''0'' \<or> c = CHR ''1''" using Cons.prems(1) by (simp add: bit_value)
    ultimately show ?case by auto
  qed simp
  have "(binary_loop (CHR ''1'' # rev s) (length t) temp :: 'n word option option) = None" for temp
    using assms(2) by simp
  with step [of "rev t" "CHR ''1'' # rev s" 0] assms(1) show ?thesis by (simp add: binary_num_def)
qed

lemma long_binary_reads_past_table_witness: "(binary_num (''1'' @ replicate 16 (CHR ''0'')) :: u16 option option) = None"
proof -
  have "list_all (is_digit 2) (replicate 16 (CHR ''0''))" by (simp add: list_all_iff is_digit_def digit_of_def)
  from long_binary_reads_past_table [OF this, where s = "[]" and ?'n = 16] show ?thesis by simp
qed

text \<open>
  Property: \<open>GetEditNum\<close> looks at the end of the number only when the number is 0, so any text after
  a positive number is accepted (and the same text after 0 is not).
\<close>

theorem trailing_text_is_accepted:
  assumes "0 < n" "int n \<le> LLONG_MAX" "\<not> is_digit 10 c" "(of_char c :: nat) \<noteq> 0"
    and "c \<noteq> CHR ''x''" "c \<noteq> CHR ''X''"
  shows "edit_num (to_string n @ c # rest) = Some (of_nat n :: ('n::len) word) \<and>
    edit_num (''0'' @ c # rest) = (None :: 'n word option)"
proof -
  let ?s = "to_string n @ c # rest"
  have d: "list_all (is_digit 10) (to_string n)" by (rule to_string_is_digit)
  have cs: "c_str ?s = to_string n @ c_str (c # rest)" using c_str_digits [OF d]
    by (simp add: c_str_def takeWhile_eq_all_conv takeWhile_append2)
  have h: "is_digit 10 (hd (to_string n))" using d by (cases "to_string n") (simp_all add: to_string_nonempty)
  obtain a b where ab: "to_string n = a # b" by (cases "to_string n") (simp_all add: to_string_nonempty)
  with h have sg: "strto_sign (c_str ?s) = (False, to_string n @ c_str (c # rest))"
    using is_digit_code [of 10 a] by (simp add: strto_sign_def ab cs [unfolded ab append_Cons])
  have nz: "hd (to_string n) \<noteq> CHR ''0''" using assms(1) by (simp add: hd_to_string_zero)
  then have np: "\<not> hex_prefix (to_string n @ c_str (c # rest))" by (auto simp: ab hex_prefix_def split: list.splits)
  have tk: "takeWhile (is_digit 10) (to_string n @ c_str (c # rest)) = to_string n"
    using d assms(3,4) by (subst takeWhile_append2) (auto simp: list_all_iff c_str_def)
  have "fst (strtoll0 ?s) = int n"
    unfolding strtoll0_def sg Let_def prod.case using np nz assms(2)
    by (simp add: ab [symmetric] to_string_nonempty tk radix_to_string LLONG_MIN_def)
  then have "edit_num ?s = Some (of_nat n :: 'n word)"
    using assms(1) by (cases "strtoll0 ?s") (simp add: edit_num_def)
  moreover have "edit_num (''0'' @ c # rest) = (None :: 'n word option)"
  proof -
    have "c_str (''0'' @ c # rest) = CHR ''0'' # c # c_str rest" using assms(4) by (simp add: c_str_def)
    moreover have "strto_sign (CHR ''0'' # c # c_str rest) = (False, CHR ''0'' # c # c_str rest)"
      by (simp add: strto_sign_def isspace_def)
    moreover have "\<not> hex_prefix (CHR ''0'' # c # c_str rest)"
      using assms(5,6) by (simp add: hex_prefix_def split: list.splits)
    moreover have "takeWhile (is_digit 8) (CHR ''0'' # c # c_str rest) = ''0''"
      using assms(3) is_digit_mono [of 8 c 10] by (auto simp: is_digit_def digit_of_def)
    ultimately have "strtoll0 (''0'' @ c # rest) = (0, True, c # c_str rest)"
      by (simp add: strtoll0_def Let_def radix_value_Cons digit_val_def digit_of_def LLONG_MAX_def LLONG_MIN_def)
    then show ?thesis by (simp add: edit_num_def)
  qed
  ultimately show ?thesis by simp
qed

lemma trailing_text_is_accepted_witness:
  "edit_num (to_string 12 @ ''px'') = Some (12 :: u32) \<and> edit_num (''0'' @ ''px'') = (None :: u32 option)"
proof -
  have "\<not> is_digit 10 (CHR ''p'')" by (simp add: is_digit_def digit_of_def)
  from trailing_text_is_accepted [of 12 _ "''x''", OF _ _ this] show ?thesis by (simp add: LLONG_MAX_def)
qed

text \<open>
  Property: while arrow keys are forwarded, the characters whose codes equal those of the arrow keys,
  percent, ampersand, apostrophe and the opening parenthesis, cannot be typed.
\<close>

theorem forwarded_arrows_swallow_characters:
  assumes "c \<in> set [CHR ''%'', CHR ''&'', CHR 0x27, CHR ''('']" "forwardArrowKeys e"
  shows "edit_ControlProc A WM_CHAR (of_char c) lParam e w = Some (Answered, e, w)"
  using assms by (auto simp: edit_ControlProc_def WM_CHAR_def WM_KEYDOWN_def WM_LBUTTONDOWN_def arrow_key_def
      VK_LEFT_def VK_UP_def VK_RIGHT_def VK_DOWN_def Let_def)

lemma forwarded_arrows_swallow_characters_witness:
  "edit_ControlProc desk_controls WM_CHAR 37 0 (SetForwardArrowKeys True new_edit) (example_desk \<lparr>px = 0, py = 0\<rparr>) =
     Some (Answered, SetForwardArrowKeys True new_edit, example_desk \<lparr>px = 0, py = 0\<rparr>)"
proof -
  have f: "forwardArrowKeys (SetForwardArrowKeys True new_edit)" by (simp add: SetForwardArrowKeys_def)
  from forwarded_arrows_swallow_characters [of "CHR ''%''", OF _ f] show ?thesis by simp
qed

end
