(* ===== verification/Grid_Item.thy ===== *)
theory Grid_Item
  imports Edit_Control
begin

text \<open>
  \<open>WindowsLib/GridItem\<close>: one cell of a grid, and the two-dimensional array of cells with the loops
  the grid runs over it. An access outside the array is \<open>None\<close>.
\<close>

section \<open>Items\<close>

record grid_item =
  itemText :: string
  itemDisabled :: bool
  itemSelected :: bool
  itemData :: u32

definition new_grid_item :: grid_item where
  "new_grid_item = \<lparr>itemText = [], itemDisabled = False, itemSelected = False, itemData = 0\<rparr>"

definition item_SetText :: "string \<Rightarrow> grid_item \<Rightarrow> grid_item" where
  "item_SetText t c = c\<lparr>itemText := t\<rparr>"

definition item_SetNumber :: "int \<Rightarrow> grid_item \<Rightarrow> grid_item" where
  "item_SetNumber n c = c\<lparr>itemText := to_string_int n\<rparr>"

definition item_SetData :: "u32 \<Rightarrow> grid_item \<Rightarrow> grid_item" where
  "item_SetData d c = c\<lparr>itemData := d\<rparr>"

definition item_SetSelected :: "bool \<Rightarrow> grid_item \<Rightarrow> grid_item" where
  "item_SetSelected b c = c\<lparr>itemSelected := b\<rparr>"

definition item_SetDisabled :: "bool \<Rightarrow> grid_item \<Rightarrow> grid_item" where
  "item_SetDisabled b c = c\<lparr>itemDisabled := b\<rparr>"

definition item_Clear :: "grid_item \<Rightarrow> grid_item" where
  "item_Clear c = c\<lparr>itemSelected := False, itemData := 0, itemText := []\<rparr>"

definition item_getText :: "grid_item \<Rightarrow> string option" where
  "item_getText c = Some (itemText c)"

definition item_getTextLength :: "grid_item \<Rightarrow> nat" where
  "item_getTextLength c = length (itemText c)"

definition item_getTextNum :: "grid_item \<Rightarrow> str_exn + int" where
  "item_getTextNum c = stoi (itemText c)"

section \<open>Loops\<close>

text \<open>A \<open>for\<close> loop whose body may fail, over one range and over the rows and columns of a rectangle.\<close>

primrec for_each :: "'a list \<Rightarrow> ('a \<Rightarrow> 's \<Rightarrow> 's option) \<Rightarrow> 's \<Rightarrow> 's option" where
  "for_each [] f s = Some s"
| "for_each (x # xs) f s = do { s1 \<leftarrow> f x s; for_each xs f s1 }"

definition for_cells :: "int list \<Rightarrow> int list \<Rightarrow> (int \<Rightarrow> int \<Rightarrow> 's \<Rightarrow> 's option) \<Rightarrow> 's \<Rightarrow> 's option" where
  "for_cells ys xs f = for_each ys (\<lambda>y. for_each xs (\<lambda>x. f x y))"

text \<open>A search that leaves its loop at the first hit.\<close>

primrec find_first :: "('a \<Rightarrow> bool option) \<Rightarrow> 'a list \<Rightarrow> 'a option option" where
  "find_first P [] = Some None"
| "find_first P (x # xs) = do { b \<leftarrow> P x; if b then Some (Some x) else find_first P xs }"

definition cells_of :: "int list \<Rightarrow> int list \<Rightarrow> (int \<times> int) list" where
  "cells_of ys xs = concat (map (\<lambda>y. map (\<lambda>x. (x, y)) xs) ys)"

section \<open>The array\<close>

text \<open>\<open>GridControlItem**\<close>: the rows; the null pointer has none.\<close>

type_synonym cells = "grid_item list list"

definition has_cell :: "int \<Rightarrow> int \<Rightarrow> cells \<Rightarrow> bool" where
  "has_cell x y cs \<longleftrightarrow> 0 \<le> x \<and> 0 \<le> y \<and> nat y < length cs \<and> nat x < length (cs ! nat y)"

definition get_cell :: "int \<Rightarrow> int \<Rightarrow> cells \<Rightarrow> grid_item option" where
  "get_cell x y cs = (if has_cell x y cs then Some (cs ! nat y ! nat x) else None)"

definition upd_cell :: "int \<Rightarrow> int \<Rightarrow> (grid_item \<Rightarrow> grid_item) \<Rightarrow> cells \<Rightarrow> cells option" where
  "upd_cell x y f cs =
     (if has_cell x y cs then Some (cs[nat y := (cs ! nat y)[nat x := f (cs ! nat y ! nat x)]]) else None)"

text \<open>The laws of an array with cells of its own, and what loops of updates do by them.\<close>

locale cell_array =
  fixes has :: "int \<Rightarrow> int \<Rightarrow> 's \<Rightarrow> bool"
    and get :: "int \<Rightarrow> int \<Rightarrow> 's \<Rightarrow> 'c option"
    and upd :: "int \<Rightarrow> int \<Rightarrow> ('c \<Rightarrow> 'c) \<Rightarrow> 's \<Rightarrow> 's option"
  assumes get_has: "get x y s \<noteq> None \<longleftrightarrow> has x y s"
    and upd_has: "has x y s \<Longrightarrow> \<exists>s'. upd x y f s = Some s'"
    and has_upd: "upd x y f s = Some s' \<Longrightarrow> has a b s' = has a b s"
    and get_upd: "upd x y f s = Some s' \<Longrightarrow> get a b s' = (if a = x \<and> b = y then map_option f (get a b s) else get a b s)"
begin

lemma for_row:
  assumes "\<forall>x\<in>set xs. has x y s" "distinct xs"
  shows "\<exists>s'. for_each xs (\<lambda>x. upd x y (f x y)) s = Some s' \<and> (\<forall>a b. has a b s' = has a b s) \<and>
    (\<forall>a b. get a b s' = (if a \<in> set xs \<and> b = y then map_option (f a b) (get a b s) else get a b s))"
  using assms
proof (induction xs arbitrary: s)
  case (Cons x xs)
  from Cons.prems obtain s1 where u: "upd x y (f x y) s = Some s1" using upd_has by fastforce
  then have h: "has a b s1 = has a b s" for a b by (rule has_upd)
  with Cons.prems have "\<forall>x\<in>set xs. has x y s1" "distinct xs" by simp_all
  from Cons.IH [OF this] obtain s' where
    "for_each xs (\<lambda>x. upd x y (f x y)) s1 = Some s'" "\<forall>a b. has a b s' = has a b s1"
    "\<forall>a b. get a b s' = (if a \<in> set xs \<and> b = y then map_option (f a b) (get a b s1) else get a b s1)"
    by blast
  with u h get_upd [OF u] Cons.prems(2) show ?case by auto
qed simp

lemma for_cells_updates:
  assumes "\<forall>y\<in>set ys. \<forall>x\<in>set xs. has x y s" "distinct ys" "distinct xs"
  shows "\<exists>s'. for_cells ys xs (\<lambda>x y. upd x y (f x y)) s = Some s' \<and> (\<forall>a b. has a b s' = has a b s) \<and>
    (\<forall>a b. get a b s' = (if a \<in> set xs \<and> b \<in> set ys then map_option (f a b) (get a b s) else get a b s))"
  using assms(1,2)
proof (induction ys arbitrary: s)
  case Nil
  then show ?case by (simp add: for_cells_def)
next
  case (Cons y ys)
  have "\<forall>x\<in>set xs. has x y s" using Cons.prems(1) by simp
  from for_row [OF this assms(3), of f] obtain s1 where
    r: "for_each xs (\<lambda>x. upd x y (f x y)) s = Some s1" and h: "\<forall>a b. has a b s1 = has a b s" and
    g: "\<forall>a b. get a b s1 = (if a \<in> set xs \<and> b = y then map_option (f a b) (get a b s) else get a b s)"
    by blast
  from Cons.prems h have "\<forall>y\<in>set ys. \<forall>x\<in>set xs. has x y s1" "distinct ys" by simp_all
  from Cons.IH [OF this] obtain s' where
    "for_cells ys xs (\<lambda>x y. upd x y (f x y)) s1 = Some s'" "\<forall>a b. has a b s' = has a b s1"
    "\<forall>a b. get a b s' = (if a \<in> set xs \<and> b \<in> set ys then map_option (f a b) (get a b s1) else get a b s1)"
    by blast
  with r h g Cons.prems(2) show ?case by (auto simp: for_cells_def)
qed

end

interpretation cells: cell_array has_cell get_cell upd_cell
proof
  show "get_cell x y s \<noteq> None \<longleftrightarrow> has_cell x y s" for x y s by (simp add: get_cell_def)
  show "has_cell x y s \<Longrightarrow> \<exists>s'. upd_cell x y f s = Some s'" for x y f s by (simp add: upd_cell_def)
  show h: "upd_cell x y f s = Some s' \<Longrightarrow> has_cell a b s' = has_cell a b s" for x y f s s' a b
    by (auto simp: upd_cell_def has_cell_def nth_list_update split: if_splits)
  show "upd_cell x y f s = Some s' \<Longrightarrow>
      get_cell a b s' = (if a = x \<and> b = y then map_option f (get_cell a b s) else get_cell a b s)" for x y f s s' a b
    using h [of x y f s s' a b]
    by (auto simp: upd_cell_def get_cell_def has_cell_def nth_list_update split: if_splits)
qed

end
