(* ===== verification/Grid_View.thy ===== *)
theory Grid_View
  imports Grid_Item
begin

text \<open>
  \<open>WindowsLib/GridView\<close>: a list view whose cells are selected and edited one by one. The state is
  the array of items with its dimensions, the focused cell (\<open>-1\<close> for none), the edit box that lies
  over the focused cell while it is edited, and the flags of the mouse and of \<open>EndEditing\<close>. The
  results of an operation are the grid and the desktop; \<open>None\<close> is an access outside the array or
  signed overflow. Virtual members and the parent's handlers of the grid's messages are fields of
  \<open>grid_env\<close>; the handlers are taken not to call back into the grid.
\<close>

unbundle bit_operations_syntax

section \<open>Parameters\<close>

datatype gv_key = GVLeft | GVUp | GVRight | GVDown | GVReturn | GVTab

text \<open>Messages to the parent; a cell is packed into two 16 bit halves.\<close>

datatype grid_message =
    GridEditEnd u16 u16
  | GridSelChanged u16 u16
  | GridItemDeleting u16 u16
  | GridDeleteFinished
  | GridEditStart u16 u16
  | GetGridItemWidth u16 u16
  | GetGridItemCaretPos u16 u16 int int
  | PreDrawItems
  | DrawGridViewItem int bool bool rect
  | DrawTouchups
  | PostDrawItems

record 'w grid_env =
  ctl :: "'w controls"
  Allocate :: "int \<Rightarrow> int \<Rightarrow> bool"
  ItemChanging :: "hwnd \<Rightarrow> u16 \<Rightarrow> u16 \<Rightarrow> string \<Rightarrow> 'w \<Rightarrow> int \<times> string \<times> 'w"
  SendParent :: "hwnd \<Rightarrow> grid_message \<Rightarrow> 'w \<Rightarrow> int \<times> 'w"
  MeasureItem :: "hwnd \<Rightarrow> 'w \<Rightarrow> int option"
  allowKeyNavDuringEdit :: "gv_key \<Rightarrow> 'w \<Rightarrow> bool"
  allowSel :: "int \<Rightarrow> int \<Rightarrow> 'w \<Rightarrow> bool"
  allowSelArea :: "int \<Rightarrow> int \<Rightarrow> int \<Rightarrow> int \<Rightarrow> 'w \<Rightarrow> bool"
  adjustSelArea :: "int \<Rightarrow> int \<Rightarrow> int \<Rightarrow> int \<Rightarrow> 'w \<Rightarrow> int \<times> int \<times> int \<times> int"
  CellClicked :: "int \<Rightarrow> int \<Rightarrow> 'w \<Rightarrow> 'w"
  EditTextChanged :: "string \<Rightarrow> 'w \<Rightarrow> 'w"

text \<open>The virtual members as the class itself defines them.\<close>

definition base_grid ::
    "'w controls \<Rightarrow> (int \<Rightarrow> int \<Rightarrow> bool) \<Rightarrow> (hwnd \<Rightarrow> u16 \<Rightarrow> u16 \<Rightarrow> string \<Rightarrow> 'w \<Rightarrow> int \<times> string \<times> 'w) \<Rightarrow>
     (hwnd \<Rightarrow> grid_message \<Rightarrow> 'w \<Rightarrow> int \<times> 'w) \<Rightarrow> (hwnd \<Rightarrow> 'w \<Rightarrow> int option) \<Rightarrow> 'w grid_env" where
  "base_grid C alloc changing send measuring = \<lparr>ctl = C, Allocate = alloc, ItemChanging = changing, SendParent = send,
     MeasureItem = measuring,
     allowKeyNavDuringEdit = (\<lambda>k w. True), allowSel = (\<lambda>x y w. True), allowSelArea = (\<lambda>a b c d w. True),
     adjustSelArea = (\<lambda>a b c d w. (a, b, c, d)), CellClicked = (\<lambda>x y w. w), EditTextChanged = (\<lambda>t w. w)\<rparr>"

section \<open>State\<close>

record grid = control +
  gridItems :: cells
  numRows :: int
  numColumns :: int
  focusedX :: int
  focusedY :: int
  lButtonDown :: bool
  editing :: bool
  caretPos :: nat
  editBox :: edit
  ending :: bool
  nullItem :: grid_item  \<comment> \<open>static: shared by all grids\<close>

definition new_grid :: grid where
  "new_grid = \<lparr>windowsItemHandle = NULL, tooltipHandle = NULL, windowClassName = [],
     windowType = NoWindow, allowEditNotify = True, defaultProc = 0,
     gridItems = [], numRows = 0, numColumns = 0, focusedX = - 1, focusedY = - 1, lButtonDown = False,
     editing = False, caretPos = 0, editBox = new_edit, ending = False, nullItem = new_grid_item\<rparr>"

definition in_grid :: "int \<Rightarrow> int \<Rightarrow> grid \<Rightarrow> bool" where
  "in_grid x y g \<longleftrightarrow> 0 \<le> y \<and> y < numRows g \<and> 0 \<le> x \<and> x < numColumns g"

definition row_range :: "grid \<Rightarrow> int list" where "row_range g = [0..numRows g - 1]"
definition column_range :: "grid \<Rightarrow> int list" where "column_range g = [0..numColumns g - 1]"

text \<open>\<open>gridItems[y][x].SetX(...)\<close>, and the reads and writes through \<open>item(x, y)\<close>.\<close>

definition grid_cell :: "int \<Rightarrow> int \<Rightarrow> (grid_item \<Rightarrow> grid_item) \<Rightarrow> grid \<Rightarrow> grid option" where
  "grid_cell x y f g = map_option (\<lambda>cs. g\<lparr>gridItems := cs\<rparr>) (upd_cell x y f (gridItems g))"

definition grid_item_at :: "int \<Rightarrow> int \<Rightarrow> grid \<Rightarrow> grid_item option" where
  "grid_item_at x y g = (if in_grid x y g then get_cell x y (gridItems g) else Some (nullItem g))"

definition grid_item_upd :: "int \<Rightarrow> int \<Rightarrow> (grid_item \<Rightarrow> grid_item) \<Rightarrow> grid \<Rightarrow> grid option" where
  "grid_item_upd x y f g =
     (if in_grid x y g then grid_cell x y f g else Some (g\<lparr>nullItem := f (nullItem g)\<rparr>))"

definition isFocused :: "int \<Rightarrow> int \<Rightarrow> grid \<Rightarrow> bool" where
  "isFocused x y g \<longleftrightarrow> x = focusedX g \<and> y = focusedY g"

definition isEditing :: "grid \<Rightarrow> bool" where
  "isEditing g = editing g"

definition isEditingCell :: "int \<Rightarrow> int \<Rightarrow> grid \<Rightarrow> bool" where
  "isEditingCell x y g \<longleftrightarrow> editing g \<and> x = focusedX g \<and> y = focusedY g"

definition GetFocusedItem :: "grid \<Rightarrow> bool \<times> int \<times> int" where
  "GetFocusedItem g = (focusedX g \<noteq> - 1 \<and> focusedY g \<noteq> - 1, focusedX g, focusedY g)"

definition lo16 :: "int \<Rightarrow> u16" where "lo16 n = word_of_int n"

definition notify :: "'w grid_env \<Rightarrow> (u16 \<Rightarrow> u16 \<Rightarrow> grid_message) \<Rightarrow> int \<Rightarrow> int \<Rightarrow> grid \<Rightarrow> 'w \<Rightarrow> int \<times> 'w" where
  "notify E m x y g w = SendParent E (getParent (desktop (ctl E)) g w) (m (lo16 x) (lo16 y)) w"

definition redraw :: "'w grid_env \<Rightarrow> grid \<Rightarrow> 'w \<Rightarrow> 'w" where
  "redraw E g w = RedrawThis (desktop (ctl E)) g w"

section \<open>Dimensions\<close>

definition copy_cell :: "cells \<Rightarrow> int \<Rightarrow> int \<Rightarrow> cells \<Rightarrow> cells option" where
  "copy_cell old x y new = do { c \<leftarrow> get_cell x y old; upd_cell x y (\<lambda>_. c) new }"

text \<open>Deleting the rows fails when there are fewer than \<open>numRows\<close>, as with the null pointer.\<close>

definition resize :: "'w grid_env \<Rightarrow> int \<Rightarrow> int \<Rightarrow> grid \<Rightarrow> (bool \<times> grid) option" where
  "resize E newNumRows newNumColumns g =
     (if newNumRows > 0 \<and> newNumColumns > 0 then
        (if \<not> Allocate E newNumRows newNumColumns then Some (False, g)
         else do {
           let fresh = replicate (nat newNumRows) (replicate (nat newNumColumns) new_grid_item);
           newGridItems \<leftarrow> for_cells [0..min newNumRows (numRows g) - 1] [0..min newNumColumns (numColumns g) - 1]
                 (copy_cell (gridItems g)) fresh;
           if numRows g > int (length (gridItems g)) then None
           else Some (True, g\<lparr>gridItems := newGridItems, numRows := newNumRows, numColumns := newNumColumns\<rparr>) })
      else if newNumRows = 0 \<or> newNumColumns = 0 then
        (if numRows g > 0 \<and> numColumns g > 0 \<and> numRows g > int (length (gridItems g)) then None
         else Some (True, g\<lparr>gridItems := [], numRows := newNumRows, numColumns := newNumColumns\<rparr>))
      else Some (False, g))"

definition gv_CreateThis ::
    "'w grid_env \<Rightarrow> hwnd \<Rightarrow> int \<Rightarrow> int \<Rightarrow> int \<Rightarrow> int \<Rightarrow> nat \<Rightarrow> grid \<Rightarrow> 'w \<Rightarrow> bool \<times> grid \<times> 'w" where
  "gv_CreateThis E parent x y width height i g w =
     (let style = WS_CHILD OR WS_CLIPCHILDREN OR LVS_REPORT OR LVS_SHOWSELALWAYS OR LVS_OWNERDRAWFIXED OR LVS_OWNERDATA;
          (ok, g1, w1) = CreateControl (ctl E) WS_EX_CLIENTEDGE WC_LISTVIEW [] style x y width height parent i False g w
      in if ok then RedirectProc (ctl E) g1 w1 else (False, g1, w1))"

definition AddColumn :: "'w grid_env \<Rightarrow> int \<Rightarrow> string \<Rightarrow> int \<Rightarrow> int \<Rightarrow> grid \<Rightarrow> 'w \<Rightarrow> (bool \<times> grid \<times> 'w) option" where
  "AddColumn E insertAt title width alignment g w =
     do { n \<leftarrow> add32 (numColumns g) 1;
          (ok, g1) \<leftarrow> resize E (numRows g) n g;
          if ok then do { (ok1, w1) \<leftarrow> lv_AddColumn (ctl E) insertAt title width alignment g1 w; Some (ok1, g1, w1) }
          else Some (False, g1, w) }"

definition AddRow :: "'w grid_env \<Rightarrow> int \<Rightarrow> int \<Rightarrow> grid \<Rightarrow> 'w \<Rightarrow> (grid \<times> 'w) option" where
  "AddRow E numColumnsInRow lParam g w =
     do { n \<leftarrow> add32 (numRows g) 1;
          (ok, g1) \<leftarrow> resize E n (max (numColumns g) numColumnsInRow) g;
          Some (g1, if ok then lv_AddRow (ctl E) numColumnsInRow lParam g1 w else w) }"

definition shift_cell :: "int \<Rightarrow> int \<Rightarrow> cells \<Rightarrow> cells option" where
  "shift_cell x y cs = do { c \<leftarrow> get_cell x (y + 1) cs; upd_cell x y (\<lambda>_. c) cs }"

definition RemoveRow :: "'w grid_env \<Rightarrow> int \<Rightarrow> grid \<Rightarrow> 'w \<Rightarrow> (grid \<times> 'w) option" where
  "RemoveRow E rowNum g w =
     do { cs \<leftarrow> for_cells [rowNum..numRows g - 2] (column_range g) shift_cell (gridItems g);
          n \<leftarrow> sub32 (numRows g) 1;
          (ok, g1) \<leftarrow> resize E n (numColumns g) (g\<lparr>gridItems := cs\<rparr>);
          Some (g1, if ok then lv_RemoveRow (ctl E) rowNum g1 w else w) }"

definition gv_DeleteAllItems :: "'w grid_env \<Rightarrow> grid \<Rightarrow> 'w \<Rightarrow> (bool \<times> grid \<times> 'w) option" where
  "gv_DeleteAllItems E g w =
     (let (ok, w1) = lv_DeleteAllItems (ctl E) g w in
      if ok then do { (ok1, g1) \<leftarrow> resize E 0 (numColumns g) g; Some (ok1, g1, w1) }
      else Some (False, g, w1))"

section \<open>Editing ends\<close>

text \<open>\<open>ending\<close> makes a call that is made while another runs do nothing.\<close>

definition EndEditing :: "'w grid_env \<Rightarrow> grid \<Rightarrow> 'w \<Rightarrow> (grid \<times> 'w) option" where
  "EndEditing E g w =
     (if \<not> ending g then
        (let g1 = g\<lparr>ending := True\<rparr>; str = GetWinText (ctl E) (editBox g1) w in
         if editing g1 then
           (let (destroyed, box, w1) = ctl_DestroyThis (ctl E) (editBox g1) w; g2 = g1\<lparr>editBox := box\<rparr> in
            if destroyed then
              (let g3 = g2\<lparr>editing := False\<rparr> in
               do { (g4, w2) \<leftarrow> (case str of
                      None \<Rightarrow> Some (g3, w1)
                    | Some s \<Rightarrow>
                        (let (r, s1, w1') = ItemChanging E (getParent (desktop (ctl E)) g3 w1)
                               (lo16 (focusedX g3)) (lo16 (focusedY g3)) s w1
                         in if r = 1 then
                              map_option (\<lambda>g'. (g', w1')) (grid_item_upd (focusedX g3) (focusedY g3) (item_SetText s1) g3)
                            else Some (g3, w1')));
                    let w3 = redraw E g4 w2;
                    let (_, w4) = notify E GridEditEnd (focusedX g4) (focusedY g4) g4 w3;
                    Some (g4\<lparr>ending := False\<rparr>, w4) })
            else Some (g2\<lparr>ending := False\<rparr>, w1))
         else Some (g1\<lparr>ending := False\<rparr>, w))
      else Some (g, w))"

text \<open>\<open>FocusThis\<close>, with the \<open>WM_SETFOCUS\<close> the grid gets when another window, as its edit box, had the focus.\<close>

definition FocusGrid :: "'w grid_env \<Rightarrow> grid \<Rightarrow> 'w \<Rightarrow> (grid \<times> 'w) option" where
  "FocusGrid E g w = (let (gained, w1) = FocusThis (ctl E) g w in if gained then EndEditing E g w1 else Some (g, w1))"

section \<open>Selection\<close>

definition DeselectAll :: "'w grid_env \<Rightarrow> grid \<Rightarrow> 'w \<Rightarrow> (grid \<times> 'w) option" where
  "DeselectAll E g w =
     do { (g1, w1) \<leftarrow> EndEditing E g w;
          g2 \<leftarrow> for_cells (row_range g1) (column_range g1) (\<lambda>x y. grid_cell x y (item_SetSelected False)) g1;
          Some (g2, w1) }"

definition ClearItems :: "'w grid_env \<Rightarrow> grid \<Rightarrow> 'w \<Rightarrow> (grid \<times> 'w) option" where
  "ClearItems E g w =
     do { g1 \<leftarrow> for_cells (row_range g) (column_range g) (\<lambda>x y. grid_item_upd x y item_Clear) g;
          Some (g1, redraw E g1 w) }"

definition marked :: "int \<Rightarrow> int \<Rightarrow> grid \<Rightarrow> bool option" where
  "marked x y g = map_option (\<lambda>c. itemSelected c \<or> isFocused x y g) (grid_item_at x y g)"

definition delete_cell :: "'w grid_env \<Rightarrow> int \<Rightarrow> int \<Rightarrow> bool \<times> grid \<times> 'w \<Rightarrow> (bool \<times> grid \<times> 'w) option" where
  "delete_cell E x y s =
     (case s of (hasDeleted, g, w) \<Rightarrow> do {
        m \<leftarrow> marked x y g;
        if m then
          (let (r, w1) = notify E GridItemDeleting x y g w in
           if r = 1 then do { g1 \<leftarrow> grid_item_upd x y (item_SetText []) g; Some (True, g1, EditTextChanged E [] w1) }
           else Some (True, g, w1))
        else Some s })"

definition DeleteSelection :: "'w grid_env \<Rightarrow> grid \<Rightarrow> 'w \<Rightarrow> (grid \<times> 'w) option" where
  "DeleteSelection E g w =
     do { (hasDeleted, g1, w1) \<leftarrow> for_cells (row_range g) (column_range g) (delete_cell E) (False, g, w);
          Some (g1, if hasDeleted then snd (SendParent E (getParent (desktop (ctl E)) g1 w1) GridDeleteFinished w1) else w1) }"

definition SelectRow :: "'w grid_env \<Rightarrow> int \<Rightarrow> grid \<Rightarrow> 'w \<Rightarrow> grid option" where
  "SelectRow E index g w =
     do { g1 \<leftarrow> for_cells (row_range g) (column_range g) (\<lambda>x y. grid_cell x y (item_SetSelected False)) g;
          for_each (column_range g1)
            (\<lambda>x g. if allowSel E x index w then grid_cell x index (item_SetSelected True) g else Some g) g1 }"

definition select_if_allowed :: "'w grid_env \<Rightarrow> 'w \<Rightarrow> int \<Rightarrow> int \<Rightarrow> grid \<Rightarrow> grid option" where
  "select_if_allowed E w x y g = (if allowSel E x y w then grid_cell x y (item_SetSelected True) g else Some g)"

definition SelectSquareTo :: "'w grid_env \<Rightarrow> int \<Rightarrow> int \<Rightarrow> grid \<Rightarrow> 'w \<Rightarrow> grid option" where
  "SelectSquareTo E x y g w =
     (if in_grid x y g then
        (if in_grid (focusedX g) (focusedY g) g then
           for_cells [min (focusedY g) y..max (focusedY g) y] [min (focusedX g) x..max (focusedX g) x]
             (select_if_allowed E w) g
         else for_cells [0..y] [0..x] (select_if_allowed E w) g)
      else Some g)"

definition SelectSquare :: "'w grid_env \<Rightarrow> int \<Rightarrow> int \<Rightarrow> int \<Rightarrow> int \<Rightarrow> grid \<Rightarrow> 'w \<Rightarrow> grid option" where
  "SelectSquare E xStart yStart xEnd yEnd g w =
     (if in_grid xStart yStart g \<and> in_grid xEnd yEnd g then
        (let (xs, xe) = (if xStart > xEnd then (xEnd, xStart) else (xStart, xEnd));
             (ys, ye) = (if yStart > yEnd then (yEnd, yStart) else (yStart, yEnd))
         in if allowSelArea E xs xe ys ye w then
              (case adjustSelArea E xs xe ys ye w of (xs1, xe1, ys1, ye1) \<Rightarrow>
                 for_cells [ys1..ye1] [xs1..xe1] (\<lambda>x y. grid_cell x y (item_SetSelected True)) g)
            else Some g)
      else Some g)"

definition gv_FocusItem :: "'w grid_env \<Rightarrow> int \<Rightarrow> int \<Rightarrow> grid \<Rightarrow> 'w \<Rightarrow> (grid \<times> 'w) option" where
  "gv_FocusItem E x y g w =
     do { (g1, w1) \<leftarrow> EndEditing E g w;
          if in_grid x y g1 \<and> allowSel E x y w1 \<and> (x \<noteq> focusedX g1 \<or> y \<noteq> focusedY g1) then do {
            g2 \<leftarrow> grid_item_upd x y (item_SetSelected True) (g1\<lparr>focusedX := x, focusedY := y\<rparr>);
            Some (g2, snd (notify E GridSelChanged x y g2 w1)) }
          else Some (g1, w1) }"

text \<open>The first marked cell of a range in the order of the loops.\<close>

definition find_marked :: "int list \<Rightarrow> int list \<Rightarrow> grid \<Rightarrow> (int \<times> int) option option" where
  "find_marked ys xs g = find_first (\<lambda>(x, y). marked x y g) (cells_of ys xs)"

definition GetSelTopLeft :: "grid \<Rightarrow> (bool \<times> int \<times> int) option" where
  "GetSelTopLeft g =
     map_option (\<lambda>r. case r of Some (x, y) \<Rightarrow> (True, x, y) | None \<Rightarrow> (False, - 1, - 1))
       (find_marked (row_range g) (column_range g) g)"

definition isSelectionRectangular :: "grid \<Rightarrow> bool option" where
  "isSelectionRectangular g =
     do { topLeft \<leftarrow> find_marked (row_range g) (column_range g) g;
          case topLeft of
            None \<Rightarrow> Some False
          | Some (topLeftX, topLeftY) \<Rightarrow> do {
              bottomRight \<leftarrow> find_marked (rev (row_range g)) (rev (column_range g)) g;
              let (bottomRightX, bottomRightY) = (case bottomRight of Some p \<Rightarrow> p | None \<Rightarrow> (- 1, - 1));
              if bottomRightX < topLeftX then Some False
              else if bottomRightX \<noteq> - 1 \<and> bottomRightY \<noteq> - 1 then do {
                outside \<leftarrow> find_first (\<lambda>(x, y). map_option (\<lambda>m. m \<and>
                    (x < topLeftX \<or> x > bottomRightX \<or> y < topLeftY \<or> y > bottomRightY)) (marked x y g))
                  (cells_of (row_range g) (column_range g));
                if outside \<noteq> None then Some False
                else do {
                  hole \<leftarrow> find_first (\<lambda>(x, y). map_option Not (marked x y g))
                    (cells_of [topLeftY..bottomRightY - 1] [topLeftX..bottomRightX - 1]);
                  Some (hole = None) } }
              else Some False } }"

section \<open>Positions\<close>

definition GetFocusedItemRect :: "'w grid_env \<Rightarrow> grid \<Rightarrow> 'w \<Rightarrow> rect option" where
  "GetFocusedItemRect E g w = lv_GetItemRect (ctl E) (focusedX g) (focusedY g) g w"

definition GetItemTopLeft :: "'w grid_env \<Rightarrow> int \<Rightarrow> int \<Rightarrow> grid \<Rightarrow> 'w \<Rightarrow> point" where
  "GetItemTopLeft E x y g w =
     (case lv_GetItemRect (ctl E) x y g w of Some r \<Rightarrow> \<lparr>px = left r, py = top r\<rparr> | None \<Rightarrow> \<lparr>px = 0, py = 0\<rparr>)"

definition GetFocusedBottomRightScreenPt :: "'w grid_env \<Rightarrow> grid \<Rightarrow> 'w \<Rightarrow> point" where
  "GetFocusedBottomRightScreenPt E g w =
     (case GetFocusedItemRect E g w of
        Some r \<Rightarrow> (case ClientToScreen (desktop (ctl E)) (getHandle g) \<lparr>px = right r, py = bottom r\<rparr> w of
          Some p \<Rightarrow> p | None \<Rightarrow> \<lparr>px = - 1, py = - 1\<rparr>)
      | None \<Rightarrow> \<lparr>px = - 1, py = - 1\<rparr>)"

definition GetEditItemRect :: "'w grid_env \<Rightarrow> grid \<Rightarrow> 'w \<Rightarrow> rect option" where
  "GetEditItemRect E g w = (if editing g then lv_GetItemRect (ctl E) (focusedX g) (focusedY g) g w else None)"

definition GetEditText :: "'w grid_env \<Rightarrow> grid \<Rightarrow> 'w \<Rightarrow> string option" where
  "GetEditText E g w = GetWinText (ctl E) (editBox g) w"

text \<open>Whether a point is left of, above, right of or below the items.\<close>

definition contentHitTest :: "'w grid_env \<Rightarrow> int \<Rightarrow> int \<Rightarrow> grid \<Rightarrow> 'w \<Rightarrow> (bool \<times> bool \<times> bool \<times> bool) option" where
  "contentHitTest E x y g w =
     (if numRows g > 0 \<and> numColumns g > 0 then
        (case LvmGetItemRect (ctl E) (getHandle g) 0 w of
           None \<Rightarrow> None
         | Some topBounds \<Rightarrow>
             (case LvmGetItemRect (ctl E) (getHandle g) (numRows g - 1) w of
                None \<Rightarrow> None
              | Some bottomBounds \<Rightarrow>
                  Some (x < left topBounds, y < top topBounds, x > right bottomBounds, y > bottom bottomBounds)))
      else None)"

text \<open>
  The cell of the border a point outside the items belongs to, in the order of the cases of
  \<open>LButtonDown\<close> and \<open>DragSelectTo\<close>.
\<close>

definition border_cell :: "'w grid_env \<Rightarrow> int \<Rightarrow> int \<Rightarrow> bool \<times> bool \<times> bool \<times> bool \<Rightarrow> grid \<Rightarrow> 'w \<Rightarrow> (int \<times> int) option" where
  "border_cell E x y outside g w =
     (case outside of (outsideLeft, outsideTop, outsideRight, outsideBottom) \<Rightarrow>
        if outsideLeft \<and> outsideTop then Some (0, 0)
        else if outsideLeft \<and> outsideBottom then Some (0, numRows g - 1)
        else if outsideRight \<and> outsideTop then Some (numColumns g - 1, 0)
        else if outsideRight \<and> outsideBottom then Some (numColumns g - 1, numRows g - 1)
        else if outsideLeft then map_option (\<lambda>row. (0, row)) (lv_GetRowAt (ctl E) y g w)
        else if outsideTop then map_option (\<lambda>col. (col, 0)) (lv_GetColumnAt (ctl E) x g w)
        else if outsideRight then map_option (\<lambda>row. (numColumns g - 1, row)) (lv_GetRowAt (ctl E) y g w)
        else if outsideBottom then map_option (\<lambda>col. (col, numRows g - 1)) (lv_GetColumnAt (ctl E) x g w)
        else None)"

definition is_outside :: "bool \<times> bool \<times> bool \<times> bool \<Rightarrow> bool" where
  "is_outside h = (case h of (l, t, r, b) \<Rightarrow> l \<or> t \<or> r \<or> b)"

section \<open>Column widths\<close>

definition wider :: "'w grid_env \<Rightarrow> int \<Rightarrow> grid \<Rightarrow> int \<Rightarrow> int \<times> 'w \<Rightarrow> (int \<times> 'w) option" where
  "wider E x g y s =
     (case s of (newWidth, w) \<Rightarrow> do {
        c \<leftarrow> grid_item_at x y g;
        if item_getText c \<noteq> None \<and> lv_GetItemRect (ctl E) (focusedX g) (focusedY g) g w \<noteq> None then
          (let (r, w1) = notify E GetGridItemWidth x y g w; itemWidth = signed_take_bit 31 r
           in Some (if itemWidth > newWidth then itemWidth else newWidth, w1))
        else Some (newWidth, w) })"

definition AutoSizeColumn :: "'w grid_env \<Rightarrow> int \<Rightarrow> int \<Rightarrow> int \<Rightarrow> grid \<Rightarrow> 'w \<Rightarrow> 'w option" where
  "AutoSizeColumn E x minWidth maxWidth g w =
     do { (newWidth, w1) \<leftarrow> for_each (row_range g) (wider E x g) (0, w);
          if newWidth > 0 then
            (let n1 = (if minWidth > 0 \<and> newWidth < minWidth then minWidth else newWidth);
                 n2 = (if n1 > maxWidth then maxWidth else n1)
             in if minWidth = 0 \<and> n2 = lv_GetColumnWidth (ctl E) x g w1 then
                  (case MeasureItem E (getParent (desktop (ctl E)) g w1) w1 of
                     Some n \<Rightarrow> Some (snd (lv_SetColumnWidth (ctl E) x n g w1))
                   | None \<Rightarrow> Some w1)
                else Some (snd (lv_SetColumnWidth (ctl E) x n2 g w1)))
          else Some w1 }"

definition AutoSizeColumns :: "'w grid_env \<Rightarrow> int \<Rightarrow> int \<Rightarrow> grid \<Rightarrow> 'w \<Rightarrow> 'w option" where
  "AutoSizeColumns E minWidth maxWidth g w =
     for_each (column_range g) (\<lambda>i. AutoSizeColumn E i minWidth maxWidth g) w"

section \<open>Editing\<close>

definition gv_SetCaretPos :: "'w grid_env \<Rightarrow> nat \<Rightarrow> grid \<Rightarrow> 'w \<Rightarrow> grid \<times> 'w" where
  "gv_SetCaretPos E n g w =
     (let g1 = g\<lparr>caretPos := n\<rparr>;
          w1 = EmSetSel (ctl E) (getHandle (editBox g1)) (int n) (int n) w
      in (g1, snd (FocusThis (ctl E) (editBox g1) w1)))"

definition SetEditText :: "'w grid_env \<Rightarrow> string \<Rightarrow> grid \<Rightarrow> 'w \<Rightarrow> grid \<times> 'w" where
  "SetEditText E t g w =
     (if editing g then gv_SetCaretPos E (length t) g (snd (SetText (ctl E) t (editBox g) w)) else (g, w))"

text \<open>The conversion of an \<open>int\<close> to \<open>size_t\<close>.\<close>

definition size_of_int :: "int \<Rightarrow> nat" where
  "size_of_int n = unat (word_of_int n :: 64 word)"

definition in_rect :: "int \<Rightarrow> int \<Rightarrow> rect \<Rightarrow> bool" where
  "in_rect x y r \<longleftrightarrow> left r \<le> x \<and> x \<le> right r \<and> top r \<le> y \<and> y \<le> bottom r"

definition UpdateCaretPos :: "'w grid_env \<Rightarrow> int \<Rightarrow> int \<Rightarrow> grid \<Rightarrow> 'w \<Rightarrow> (grid \<times> 'w) option" where
  "UpdateCaretPos E xClick yClick g w =
     (let hit = lv_GetItemAt (ctl E) xClick yClick g w;
          (y, x) = (case hit of Some p \<Rightarrow> p | None \<Rightarrow> (- 1, - 1));
          inside = (case hit of None \<Rightarrow> None
            | Some _ \<Rightarrow> (case lv_GetItemRect (ctl E) x y g w of
                Some r \<Rightarrow> if in_rect xClick yClick r then Some r else None | None \<Rightarrow> None))
      in case inside of
           Some r \<Rightarrow> do {
             a \<leftarrow> sub32 xClick (left r); b \<leftarrow> sub32 yClick (top r);
             let (result, w1) = notify E (\<lambda>i j. GetGridItemCaretPos i j a b) x y g w;
             Some (if result \<noteq> - 1 then gv_SetCaretPos E (size_of_int (signed_take_bit 31 result)) g w1
                   else gv_SetCaretPos E (unat (EmCharFromPos (ctl E) (getHandle (editBox g)) a b w1)) g w1) }
         | None \<Rightarrow> do { c \<leftarrow> grid_item_at x y g; Some (gv_SetCaretPos E (item_getTextLength c) g w) })"

text \<open>What the edit box shows first: the item's text after a click, the character that was typed.\<close>

definition initial_text :: "'w grid_env \<Rightarrow> int \<Rightarrow> int \<Rightarrow> string \<Rightarrow> grid \<Rightarrow> 'w \<Rightarrow> (bool \<times> grid \<times> 'w) option" where
  "initial_text E xClick yClick initChar g w =
     (let set = (\<lambda>t g w. snd (SetText (ctl E) t (editBox g) w)) in
      case (if initChar = [] then lv_GetItemAt (ctl E) xClick yClick g w else None) of
        Some (y, x) \<Rightarrow> do {
          c \<leftarrow> grid_item_at x y g;
          let w1 = (case item_getText c of Some t \<Rightarrow> set t g w | None \<Rightarrow> w);
          (g1, w2) \<leftarrow> (if xClick \<ge> 0 \<and> yClick \<ge> 0 then UpdateCaretPos E xClick yClick g w1 else Some (g, w1));
          Some (False, g1, w2) }
      | None \<Rightarrow>
          if initChar = [char_of (8 :: nat)] then (let (g1, w1) = gv_SetCaretPos E 0 g (set [] g w) in Some (False, g1, w1))
          else if initChar \<noteq> [] then
            (let g1 = g\<lparr>editBox := SetForwardArrowKeys True (editBox g)\<rparr>;
                 (g2, w2) = gv_SetCaretPos E 1 g1 (set initChar g1 w)
             in Some (True, g2, w2))
          else Some (False, g, w))"

definition StartEditing :: "'w grid_env \<Rightarrow> int \<Rightarrow> int \<Rightarrow> string \<Rightarrow> grid \<Rightarrow> 'w \<Rightarrow> (grid \<times> 'w) option" where
  "StartEditing E xClick yClick initChar g w =
     (if editing g then Some (g, w)
      else (case lv_GetItemRect (ctl E) (focusedX g) (focusedY g) g w of
        None \<Rightarrow> Some (g, w)
      | Some r \<Rightarrow> do {
          x \<leftarrow> add32 (left r) 1;
          wd \<leftarrow> rect_width r; width \<leftarrow> sub32 wd 2;
          ht \<leftarrow> rect_height r; height \<leftarrow> sub32 ht 1;
          let (created, box, w1) = edit_CreateEdged (ctl E) (getHandle g) x (top r) width height False False 0 (editBox g) w;
          let g1 = g\<lparr>editBox := box\<rparr>;
          if created then do {
            let w2 = setDefaultFont (ctl E) False (editBox g1) w1;
            (startedByInput, g3, w3) \<leftarrow> initial_text E xClick yClick initChar (g1\<lparr>editing := True\<rparr>) w2;
            w4 \<leftarrow> ExpandToText (ctl E) (editBox g3) w3;
            let w5 = redraw E g3 w4;
            let (_, w6) = notify E GridEditStart (focusedX g3) (focusedY g3) g3 w5;
            Some (g3, if startedByInput then EditTextChanged E initChar w6 else w6) }
          else Some (g1, w1) }))"

definition gv_Char :: "'w grid_env \<Rightarrow> string \<Rightarrow> grid \<Rightarrow> 'w \<Rightarrow> (grid \<times> 'w) option" where
  "gv_Char E c g w = (if \<not> GetKeyState (ctl E) VK_CONTROL w then StartEditing E (- 1) (- 1) c g w else Some (g, w))"

section \<open>Keys\<close>

definition focus_first :: "'w grid_env \<Rightarrow> (int \<times> int) list \<Rightarrow> grid \<Rightarrow> 'w \<Rightarrow> (grid \<times> 'w) option" where
  "focus_first E cs g w =
     (case find (\<lambda>(x, y). allowSel E x y w) cs of Some (x, y) \<Rightarrow> gv_FocusItem E x y g w | None \<Rightarrow> Some (g, w))"

definition key_nav :: "'w grid_env \<Rightarrow> gv_key \<Rightarrow> (grid \<Rightarrow> (int \<times> int) list) \<Rightarrow> grid \<Rightarrow> 'w \<Rightarrow> (grid \<times> 'w) option" where
  "key_nav E key candidates g w =
     (if \<not> editing g \<or> allowKeyNavDuringEdit E key w then
        do { (g1, w1) \<leftarrow> DeselectAll E g w; focus_first E (candidates g1) g1 w1 }
      else Some (g, w))"

definition cells_left :: "grid \<Rightarrow> (int \<times> int) list" where
  "cells_left g = map (\<lambda>x. (x, focusedY g)) (rev [0..focusedX g - 1])"

definition cells_above :: "grid \<Rightarrow> (int \<times> int) list" where
  "cells_above g = map (\<lambda>y. (focusedX g, y)) (rev [0..focusedY g - 1])"

definition cells_right :: "grid \<Rightarrow> (int \<times> int) list" where
  "cells_right g = map (\<lambda>x. (x, focusedY g)) [focusedX g + 1..numColumns g - 1]"

definition cells_below :: "grid \<Rightarrow> (int \<times> int) list" where
  "cells_below g = map (\<lambda>y. (focusedX g, y)) [focusedY g + 1..numRows g - 1]"

definition rows_below :: "grid \<Rightarrow> (int \<times> int) list" where
  "rows_below g = cells_of [focusedY g + 1..numRows g - 1] (column_range g)"

definition LeftArrowKey :: "'w grid_env \<Rightarrow> grid \<Rightarrow> 'w \<Rightarrow> (grid \<times> 'w) option" where
  "LeftArrowKey E g w = key_nav E GVLeft cells_left g w"

definition UpArrowKey :: "'w grid_env \<Rightarrow> grid \<Rightarrow> 'w \<Rightarrow> (grid \<times> 'w) option" where
  "UpArrowKey E g w = key_nav E GVUp cells_above g w"

definition RightArrowKey :: "'w grid_env \<Rightarrow> grid \<Rightarrow> 'w \<Rightarrow> (grid \<times> 'w) option" where
  "RightArrowKey E g w = key_nav E GVRight cells_right g w"

definition DownArrowKey :: "'w grid_env \<Rightarrow> grid \<Rightarrow> 'w \<Rightarrow> (grid \<times> 'w) option" where
  "DownArrowKey E g w = key_nav E GVDown cells_below g w"

definition TabKey :: "'w grid_env \<Rightarrow> grid \<Rightarrow> 'w \<Rightarrow> (grid \<times> 'w) option" where
  "TabKey E g w = key_nav E GVTab (\<lambda>g. cells_right g @ rows_below g) g w"

definition EnterKey :: "'w grid_env \<Rightarrow> grid \<Rightarrow> 'w \<Rightarrow> (grid \<times> 'w) option" where
  "EnterKey E g w = key_nav E GVReturn rows_below g w"

definition VK_RETURN :: int where "VK_RETURN = 0x0D"
definition VK_SHIFT :: int where "VK_SHIFT = 0x10"
definition VK_DELETE :: int where "VK_DELETE = 0x2E"

definition gv_KeyDown :: "'w grid_env \<Rightarrow> int \<Rightarrow> grid \<Rightarrow> 'w \<Rightarrow> (grid \<times> 'w) option" where
  "gv_KeyDown E key g w =
     (let handler =
        (if key = VK_LEFT then Some LeftArrowKey else if key = VK_UP then Some UpArrowKey
         else if key = VK_RIGHT then Some RightArrowKey else if key = VK_DOWN then Some DownArrowKey
         else if key = VK_TAB then Some TabKey else if key = VK_RETURN then Some EnterKey
         else if key = VK_DELETE then Some DeleteSelection else None)
      in case handler of
           None \<Rightarrow> Some (g, w)
         | Some f \<Rightarrow> do { (g1, w1) \<leftarrow> f E g w; Some (g1, redraw E g1 w1) })"

section \<open>Mouse\<close>

definition DragSelectTo :: "'w grid_env \<Rightarrow> int \<Rightarrow> int \<Rightarrow> grid \<Rightarrow> 'w \<Rightarrow> (grid \<times> 'w) option" where
  "DragSelectTo E x y g w =
     (let deselect = (\<lambda>g w. if \<not> GetKeyState (ctl E) VK_CONTROL w then DeselectAll E g w else Some (g, w)) in
      case contentHitTest E x y g w of
        Some h \<Rightarrow>
          if is_outside h then do {
            (g1, w1) \<leftarrow> deselect g w;
            g2 \<leftarrow> (case border_cell E x y h g1 w1 of
               Some (a, b) \<Rightarrow> SelectSquare E (focusedX g1) (focusedY g1) a b g1 w1 | None \<Rightarrow> Some g1);
            Some (g2, redraw E g2 w1) }
          else (case lv_GetItemAt (ctl E) x y g w of
            Some (row, col) \<Rightarrow> do {
              (g1, w1) \<leftarrow> deselect g w;
              g2 \<leftarrow> SelectSquare E (focusedX g1) (focusedY g1) col row g1 w1;
              Some (g2, redraw E g2 w1) }
          | None \<Rightarrow> Some (g, w))
      | None \<Rightarrow> (case lv_GetItemAt (ctl E) x y g w of
            Some (row, col) \<Rightarrow> do {
              (g1, w1) \<leftarrow> deselect g w;
              g2 \<leftarrow> SelectSquare E (focusedX g1) (focusedY g1) col row g1 w1;
              Some (g2, redraw E g2 w1) }
          | None \<Rightarrow> Some (g, w)))"

definition click_cell :: "'w grid_env \<Rightarrow> int \<Rightarrow> int \<Rightarrow> grid \<Rightarrow> 'w \<Rightarrow> (grid \<times> 'w) option" where
  "click_cell E x y g w =
     (let shift = GetKeyState (ctl E) VK_SHIFT w; control = GetKeyState (ctl E) VK_CONTROL w in
      if shift \<and> control then map_option (\<lambda>g1. (g1, w)) (SelectSquareTo E x y g w)
      else if shift then
        do { (g1, w1) \<leftarrow> DeselectAll E g w; map_option (\<lambda>g2. (g2, w1)) (SelectSquareTo E x y g1 w1) }
      else if control then do {
        c \<leftarrow> grid_item_at x y g;
        if itemSelected c then
          (if \<not> isFocused x y g then map_option (\<lambda>g1. (g1, w)) (grid_item_upd x y (item_SetSelected False) g)
           else Some (g, w))
        else gv_FocusItem E x y g w }
      else do { (g1, w1) \<leftarrow> DeselectAll E g w; gv_FocusItem E x y g1 w1 })"

definition click_outside :: "'w grid_env \<Rightarrow> int \<Rightarrow> int \<Rightarrow> grid \<Rightarrow> 'w \<Rightarrow> (grid \<times> 'w) option" where
  "click_outside E xClick yClick g w =
     do { (g1, w1) \<leftarrow> DeselectAll E (g\<lparr>focusedX := - 1, focusedY := - 1\<rparr>) w;
          case contentHitTest E xClick yClick g1 w1 of
            None \<Rightarrow> Some (g1, w1)
          | Some h \<Rightarrow>
              if is_outside h then
                (case border_cell E xClick yClick h g1 w1 of
                   Some (x, y) \<Rightarrow> gv_FocusItem E x y g1 w1 | None \<Rightarrow> Some (g1, w1))
              else Some (g1, w1) }"

definition start_drag :: "'w grid_env \<Rightarrow> grid \<Rightarrow> 'w \<Rightarrow> grid \<times> 'w" where
  "start_drag E g w =
     (let w1 = SetCapture (ctl E) (getHandle g) w; g1 = g\<lparr>lButtonDown := True\<rparr> in (g1, TrackMouse (ctl E) 10 g1 w1))"

definition gv_LButtonDown :: "'w grid_env \<Rightarrow> int \<Rightarrow> int \<Rightarrow> grid \<Rightarrow> 'w \<Rightarrow> (grid \<times> 'w) option" where
  "gv_LButtonDown E xClick yClick g w =
     do { (g1, w1) \<leftarrow> FocusGrid E g w;
          case lv_GetItemAt (ctl E) xClick yClick g1 w1 of
            Some (y, x) \<Rightarrow>
              (let w2 = CellClicked E x y w1 in
               if allowSel E x y w2 then do {
                 (g3, w3) \<leftarrow> click_cell E x y g1 w2;
                 Some (start_drag E g3 (redraw E g3 w3)) }
               else Some (g1, w2))
          | None \<Rightarrow> do {
              (g3, w3) \<leftarrow> click_outside E xClick yClick g1 w1;
              Some (start_drag E g3 (redraw E g3 w3)) } }"

definition gv_LButtonDblClk :: "'w grid_env \<Rightarrow> int \<Rightarrow> int \<Rightarrow> grid \<Rightarrow> 'w \<Rightarrow> (grid \<times> 'w) option" where
  "gv_LButtonDblClk E xClick yClick g w =
     (case lv_GetItemAt (ctl E) xClick yClick g w of
        Some (y, x) \<Rightarrow> if x = focusedX g \<and> y = focusedY g then StartEditing E xClick yClick [] g w else Some (g, w)
      | None \<Rightarrow> Some (g, w))"

definition gv_MouseMove :: "'w grid_env \<Rightarrow> int \<Rightarrow> int \<Rightarrow> bool \<Rightarrow> grid \<Rightarrow> 'w \<Rightarrow> (grid \<times> 'w) option" where
  "gv_MouseMove E xMove yMove leftButton g w =
     (if lButtonDown g \<and> focusedX g \<noteq> - 1 \<and> focusedY g \<noteq> - 1 \<and> leftButton \<and> \<not> editing g then
        (case lv_GetItemAt (ctl E) xMove yMove g w of
           Some (dragMoveY, dragMoveX) \<Rightarrow> do {
             (g1, w1) \<leftarrow> (if \<not> GetKeyState (ctl E) VK_CONTROL w then DeselectAll E g w else Some (g, w));
             g2 \<leftarrow> SelectSquare E (focusedX g1) (focusedY g1) dragMoveX dragMoveY g1 w1;
             Some (g2, redraw E g2 w1) }
         | None \<Rightarrow> Some (g, w))
      else Some (g, w))"

definition gv_MouseHover :: "'w grid_env \<Rightarrow> int \<Rightarrow> int \<Rightarrow> grid \<Rightarrow> 'w \<Rightarrow> (grid \<times> 'w) option" where
  "gv_MouseHover E xHover yHover g w =
     (if \<not> editing g \<and> lButtonDown g \<and> focusedX g \<noteq> - 1 \<and> focusedY g \<noteq> - 1 then
        do { (g1, w1) \<leftarrow> DragSelectTo E xHover yHover g w; Some (g1, TrackMouse (ctl E) 10 g1 w1) }
      else Some (g, w))"

definition gv_LButtonUp :: "'w grid_env \<Rightarrow> int \<Rightarrow> int \<Rightarrow> grid \<Rightarrow> 'w \<Rightarrow> (grid \<times> 'w) option" where
  "gv_LButtonUp E xRelease yRelease g w =
     (if lButtonDown g \<and> \<not> editing g \<and> focusedX g \<noteq> - 1 \<and> focusedY g \<noteq> - 1 then
        DragSelectTo E xRelease yRelease (g\<lparr>lButtonDown := False\<rparr>) (ReleaseCapture (ctl E) w)
      else Some (g, w))"

section \<open>Drawing\<close>

text \<open>\<open>itemState\<close> of the structure, which the loop passes on from row to row, as two flags.\<close>

definition draw_row :: "'w grid_env \<Rightarrow> grid \<Rightarrow> int \<Rightarrow> (bool \<times> bool) \<times> 'w \<Rightarrow> ((bool \<times> bool) \<times> 'w) option" where
  "draw_row E g y s =
     (case s of ((focused, selected), w) \<Rightarrow>
        (let f = focused \<or> LvmGetItemState (ctl E) (getHandle g) y LVIS_FOCUSED w;
             d = selected \<or> LvmGetItemState (ctl E) (getHandle g) y LVIS_SELECTED w
         in case LvmGetItemRect (ctl E) (getHandle g) y w of
              Some r \<Rightarrow> Some ((f, d), snd (SendParent E (getParent (desktop (ctl E)) g w) (DrawGridViewItem y f d r) w))
            | None \<Rightarrow> Some ((f, d), w)))"

definition DrawItems :: "'w grid_env \<Rightarrow> grid \<Rightarrow> 'w \<Rightarrow> 'w option" where
  "DrawItems E g w =
     (case getClientRect (desktop (ctl E)) g w of
        None \<Rightarrow> Some w
      | Some rcCli \<Rightarrow> do {
          width \<leftarrow> rect_width rcCli; height \<leftarrow> rect_height rcCli;
          let parent = getParent (desktop (ctl E)) g w;
          let w1 = Draw (desktop (ctl E)) (getHandle g) [SetBuffer rcCli, FillSysRect rcCli] w;
          (_, w2) \<leftarrow> for_each (row_range g) (draw_row E g) ((False, False), w1);
          let w3 = snd (SendParent E parent DrawTouchups w2);
          Some (Draw (desktop (ctl E)) (getHandle g) [FlushBuffer] w3) })"

definition gv_Paint :: "'w grid_env \<Rightarrow> grid \<Rightarrow> 'w \<Rightarrow> 'w option" where
  "gv_Paint E g w =
     do { let w1 = snd (SendParent E (getParent (desktop (ctl E)) g w) PreDrawItems w);
          w2 \<leftarrow> DrawItems E g w1;
          Some (snd (SendParent E (getParent (desktop (ctl E)) g w2) PostDrawItems w2)) }"

section \<open>Messages\<close>

datatype grid_event =
    EvSetFocus | EvKeyDown int | EvChar string | EvLButtonDown int int | EvMouseMove int int bool
  | EvMouseHover int int | EvLButtonUp int int | EvLButtonDblClk int int | EvPaint
  | EvDividerDblClick int | EvOther u32 int int

fun gv_ControlProc :: "'w grid_env \<Rightarrow> grid_event \<Rightarrow> grid \<Rightarrow> 'w \<Rightarrow> (grid \<times> 'w) option" where
  "gv_ControlProc E EvSetFocus g w = EndEditing E g w"
| "gv_ControlProc E (EvKeyDown k) g w = gv_KeyDown E k g w"
| "gv_ControlProc E (EvChar c) g w = gv_Char E c g w"
| "gv_ControlProc E (EvLButtonDown x y) g w = gv_LButtonDown E x y g w"
| "gv_ControlProc E (EvMouseMove x y b) g w = gv_MouseMove E x y b g w"
| "gv_ControlProc E (EvMouseHover x y) g w = gv_MouseHover E x y g w"
| "gv_ControlProc E (EvLButtonUp x y) g w = gv_LButtonUp E x y g w"
| "gv_ControlProc E (EvLButtonDblClk x y) g w = gv_LButtonDblClk E x y g w"
| "gv_ControlProc E EvPaint g w = map_option (\<lambda>w1. (g, w1)) (gv_Paint E g w)"
| "gv_ControlProc E (EvDividerDblClick i) g w = map_option (\<lambda>w1. (g, w1)) (AutoSizeColumn E i 0 100 g w)"
| "gv_ControlProc E (EvOther m a b) g w = Some (g, snd (ctl_default (ctl E) m a b g w))"

end
