(* ===== verification/Grid_View_Facts.thy ===== *)
theory Grid_View_Facts
  imports Grid_View
begin

text \<open>
  Properties of the grid: the shape invariant and that no operation leaves the array, what resizing,
  removing a row, selecting and moving the focus do to which cells, and the cases in which the grid
  does something else than its comments say.
\<close>

section \<open>The shape\<close>

definition grid_ok :: "grid \<Rightarrow> bool" where
  "grid_ok g \<longleftrightarrow>
     (if numRows g > 0 \<and> numColumns g > 0 then
        length (gridItems g) = nat (numRows g) \<and> list_all (\<lambda>r. length r = nat (numColumns g)) (gridItems g)
      else gridItems g = [])"

lemma grid_ok_cell:
  assumes "grid_ok g"
  shows "has_cell x y (gridItems g) \<longleftrightarrow> in_grid x y g"
proof (cases "numRows g > 0 \<and> numColumns g > 0")
  case True
  with assms have l: "length (gridItems g) = nat (numRows g)" "list_all (\<lambda>r. length r = nat (numColumns g)) (gridItems g)"
    by (simp_all add: grid_ok_def)
  then have "nat y < length (gridItems g) \<Longrightarrow> length (gridItems g ! nat y) = nat (numColumns g)"
    by (simp add: list_all_length)
  with l(1) True show ?thesis by (auto simp: has_cell_def in_grid_def zless_nat_conj)
next
  case False
  with assms show ?thesis by (auto simp: grid_ok_def has_cell_def in_grid_def)
qed

lemma grid_ok_new: "grid_ok new_grid"
  by (simp add: grid_ok_def new_grid_def)

lemma grid_ok_fields:
  "gridItems g' = gridItems g \<Longrightarrow> numRows g' = numRows g \<Longrightarrow> numColumns g' = numColumns g \<Longrightarrow> grid_ok g' = grid_ok g"
  by (simp add: grid_ok_def)

lemma in_grid_fields:
  "numRows g' = numRows g \<Longrightarrow> numColumns g' = numColumns g \<Longrightarrow> in_grid x y g' = in_grid x y g"
  by (simp add: in_grid_def)

lemma set_ranges [simp]:
  "y \<in> set (row_range g) \<longleftrightarrow> 0 \<le> y \<and> y < numRows g"
  "x \<in> set (column_range g) \<longleftrightarrow> 0 \<le> x \<and> x < numColumns g"
  by (auto simp: row_range_def column_range_def)

lemma distinct_ranges [simp]: "distinct (row_range g)" "distinct (column_range g)"
  by (simp_all add: row_range_def column_range_def)

section \<open>Loops over the cells of a grid\<close>

lemma upd_cell_lengths:
  assumes "upd_cell x y f cs = Some cs'"
  shows "length cs' = length cs \<and> map length cs' = map length cs"
proof -
  from assms have h: "has_cell x y cs" and c: "cs' = cs[nat y := (cs ! nat y)[nat x := f (cs ! nat y ! nat x)]]"
    by (auto simp: upd_cell_def split: if_splits)
  have "map length cs' = (map length cs)[nat y := length (cs ! nat y)]" by (simp add: c map_update)
  also have "\<dots> = map length cs" using h by (metis has_cell_def list_update_id nth_map)
  finally show ?thesis using c by simp
qed

text \<open>An update of one cell touches nothing else of the grid.\<close>

lemma grid_cell_frame:
  assumes "grid_cell x y f g = Some g'"
  shows "g' = g\<lparr>gridItems := gridItems g'\<rparr> \<and> map length (gridItems g') = map length (gridItems g)"
  using assms upd_cell_lengths by (auto simp: grid_cell_def)

interpretation grid_cells: cell_array "\<lambda>x y (g :: grid). has_cell x y (gridItems g)" "\<lambda>x y g. get_cell x y (gridItems g)" grid_cell
proof
  fix x y a b f and s s' :: grid
  show "get_cell x y (gridItems s) \<noteq> None \<longleftrightarrow> has_cell x y (gridItems s)" by (rule cells.get_has)
  show "has_cell x y (gridItems s) \<Longrightarrow> \<exists>s'. grid_cell x y f s = Some s'"
    using cells.upd_has [of x y "gridItems s" f] by (auto simp: grid_cell_def)
  show "grid_cell x y f s = Some s' \<Longrightarrow> has_cell a b (gridItems s') = has_cell a b (gridItems s)"
    by (auto simp: grid_cell_def cells.has_upd)
  show "grid_cell x y f s = Some s' \<Longrightarrow> get_cell a b (gridItems s') =
      (if a = x \<and> b = y then map_option f (get_cell a b (gridItems s)) else get_cell a b (gridItems s))"
    using cells.get_upd by (fastforce simp: grid_cell_def)
qed

lemma for_each_invariant:
  assumes "for_each xs f s = Some s'" "I s" "\<And>x s s'. x \<in> set xs \<Longrightarrow> I s \<Longrightarrow> f x s = Some s' \<Longrightarrow> I s'"
  shows "I s'"
  using assms by (induction xs arbitrary: s) (auto elim!: bind_eq_SomeE)

lemma for_cells_invariant:
  assumes "for_cells ys xs f s = Some s'" "I s"
    and "\<And>x y s s'. x \<in> set xs \<Longrightarrow> y \<in> set ys \<Longrightarrow> I s \<Longrightarrow> f x y s = Some s' \<Longrightarrow> I s'"
  shows "I s'"
proof (rule for_each_invariant [of ys "\<lambda>y. for_each xs (\<lambda>x. f x y)" s s' I])
  show "for_each ys (\<lambda>y. for_each xs (\<lambda>x. f x y)) s = Some s'" using assms(1) by (simp add: for_cells_def)
  show "I s" by (rule assms(2))
  show "I t'" if "y \<in> set ys" "I t" "for_each xs (\<lambda>x. f x y) t = Some t'" for y t t'
    using that(3,2) by (rule for_each_invariant [of xs "\<lambda>x. f x y"]) (use that(1) assms(3) in blast)
qed

text \<open>\<open>same_shape\<close>: the second grid differs from the first only in the contents of cells.\<close>

definition same_shape :: "grid \<Rightarrow> grid \<Rightarrow> bool" where
  "same_shape g g' \<longleftrightarrow> g' = g\<lparr>gridItems := gridItems g'\<rparr> \<and> map length (gridItems g') = map length (gridItems g)"

lemma same_shapeI: "map length cs = map length (gridItems g) \<Longrightarrow> same_shape g (g\<lparr>gridItems := cs\<rparr>)"
  by (simp add: same_shape_def)

lemma same_shapeE:
  assumes "same_shape g g'"
  obtains cs where "g' = g\<lparr>gridItems := cs\<rparr>" "map length cs = map length (gridItems g)"
  using assms unfolding same_shape_def by blast

lemma same_shape_refl [simp]: "same_shape g g"
  by (simp add: same_shape_def)

lemma same_shape_trans: "same_shape g g' \<Longrightarrow> same_shape g' g'' \<Longrightarrow> same_shape g g''"
  by (elim same_shapeE) (simp add: same_shape_def)

lemma same_shape_fields:
  assumes "same_shape g g'"
  shows "numRows g' = numRows g" "numColumns g' = numColumns g" "focusedX g' = focusedX g" "focusedY g' = focusedY g"
    "editing g' = editing g" "editBox g' = editBox g" "ending g' = ending g" "nullItem g' = nullItem g"
    "lButtonDown g' = lButtonDown g" "windowsItemHandle g' = windowsItemHandle g"
  using assms by (elim same_shapeE; simp)+

lemma same_shape_ok:
  assumes "same_shape g g'" "grid_ok g"
  shows "grid_ok g'"
proof -
  from assms(1) obtain cs where c: "g' = g\<lparr>gridItems := cs\<rparr>" "map length cs = map length (gridItems g)"
    by (rule same_shapeE)
  have "list_all (\<lambda>r. length r = n) cs \<longleftrightarrow> list_all (\<lambda>l. l = n) (map length cs)" for n
    by (simp add: list_all_iff)
  moreover have "list_all (\<lambda>r. length r = n) (gridItems g) \<longleftrightarrow> list_all (\<lambda>l. l = n) (map length (gridItems g))" for n
    by (simp add: list_all_iff)
  moreover have "length cs = length (gridItems g)" using map_eq_imp_length_eq [OF c(2)] .
  ultimately show ?thesis using assms(2) c by (auto simp: grid_ok_def)
qed

lemma grid_cell_same_shape: "grid_cell x y f g = Some g' \<Longrightarrow> same_shape g g'"
  using grid_cell_frame by (simp add: same_shape_def)

lemma for_each_cong:
  assumes "I s" "\<And>x s. x \<in> set xs \<Longrightarrow> I s \<Longrightarrow> f x s = f' x s" "\<And>x s s'. x \<in> set xs \<Longrightarrow> I s \<Longrightarrow> f' x s = Some s' \<Longrightarrow> I s'"
  shows "for_each xs f s = for_each xs f' s"
  using assms
proof (induction xs arbitrary: s)
  case (Cons x xs)
  show ?case
  proof (cases "f' x s")
    case None
    then show ?thesis using Cons.prems by simp
  next
    case (Some s1)
    with Cons.prems have "I s1" by (meson list.set_intros(1))
    from Cons.IH [OF this] Cons.prems(2,3) have "for_each xs f s1 = for_each xs f' s1" by (meson list.set_intros(2))
    then show ?thesis using Some Cons.prems(1,2) by simp
  qed
qed simp

lemma for_cells_cong:
  assumes "I s" "\<And>x y s. x \<in> set xs \<Longrightarrow> y \<in> set ys \<Longrightarrow> I s \<Longrightarrow> f x y s = f' x y s"
    and "\<And>x y s s'. x \<in> set xs \<Longrightarrow> y \<in> set ys \<Longrightarrow> I s \<Longrightarrow> f' x y s = Some s' \<Longrightarrow> I s'"
  shows "for_cells ys xs f s = for_cells ys xs f' s"
  unfolding for_cells_def
proof (rule for_each_cong [of I])
  show "I s" by (rule assms(1))
  show "for_each xs (\<lambda>x. f x y) t = for_each xs (\<lambda>x. f' x y) t" if "y \<in> set ys" "I t" for y t
    using that assms(2,3) by (intro for_each_cong [of I]) blast+
  show "I t'" if "y \<in> set ys" "I t" "for_each xs (\<lambda>x. f' x y) t = Some t'" for y t t'
    using that(3,2) by (rule for_each_invariant [of xs "\<lambda>x. f' x y"]) (use that(1) assms(3) in blast)
qed

text \<open>A loop whose body updates the cell it visits, by whatever code, inside the grid.\<close>

lemma grid_updates:
  assumes "grid_ok g" "distinct ys" "distinct xs" "\<And>x y. x \<in> set xs \<Longrightarrow> y \<in> set ys \<Longrightarrow> in_grid x y g"
    and "\<And>x y g'. x \<in> set xs \<Longrightarrow> y \<in> set ys \<Longrightarrow> same_shape g g' \<Longrightarrow> body x y g' = grid_cell x y (F x y) g'"
  shows "\<exists>g'. for_cells ys xs body g = Some g' \<and> same_shape g g' \<and> (\<forall>a b. get_cell a b (gridItems g') =
    (if a \<in> set xs \<and> b \<in> set ys then map_option (F a b) (get_cell a b (gridItems g)) else get_cell a b (gridItems g)))"
proof -
  let ?loop = "for_cells ys xs (\<lambda>x y. grid_cell x y (F x y)) g"
  have "for_cells ys xs body g = ?loop"
    using assms(5) by (intro for_cells_cong [of "same_shape g"]) (auto intro: same_shape_trans grid_cell_same_shape)
  moreover have "\<forall>y\<in>set ys. \<forall>x\<in>set xs. has_cell x y (gridItems g)" using assms(1,4) by (simp add: grid_ok_cell)
  note grid_cells.for_cells_updates [OF this assms(2,3), of F]
  moreover have "same_shape g g'" if "?loop = Some g'" for g'
    using that by (rule for_cells_invariant) (auto intro: same_shape_trans grid_cell_same_shape)
  ultimately show ?thesis by auto
qed

lemma grid_item_upd_inside: "in_grid x y g \<Longrightarrow> grid_item_upd x y f g = grid_cell x y f g"
  by (simp add: grid_item_upd_def)

lemma grid_cell_id: "grid_ok g \<Longrightarrow> in_grid x y g \<Longrightarrow> grid_cell x y (\<lambda>c. c) g = Some g"
  by (simp add: grid_cell_def upd_cell_def grid_ok_cell)

lemma cell_exists: "grid_ok g \<Longrightarrow> in_grid x y g \<Longrightarrow> \<exists>c. get_cell x y (gridItems g) = Some c"
  using cells.get_has [of x y "gridItems g"] by (auto simp: grid_ok_cell)

lemma grid_item_at_some:
  assumes "grid_ok g"
  shows "\<exists>c. grid_item_at x y g = Some c"
  using assms cells.get_has [of x y "gridItems g"] by (auto simp: grid_item_at_def grid_ok_cell)

lemma grid_item_upd_some:
  assumes "grid_ok g"
  shows "\<exists>g'. grid_item_upd x y f g = Some g'"
  using assms cells.upd_has [of x y "gridItems g" f] by (auto simp: grid_item_upd_def grid_cell_def grid_ok_cell)

section \<open>What an operation may change\<close>

text \<open>\<open>kept\<close>: dimensions, shape and the flag of \<open>EndEditing\<close>; \<open>steady\<close>: the focus as well.\<close>

definition kept :: "grid \<Rightarrow> grid \<Rightarrow> bool" where
  "kept g g' \<longleftrightarrow> numRows g' = numRows g \<and> numColumns g' = numColumns g \<and> ending g' = ending g \<and> grid_ok g'"

definition steady :: "grid \<Rightarrow> grid \<Rightarrow> bool" where
  "steady g g' \<longleftrightarrow> kept g g' \<and> focusedX g' = focusedX g \<and> focusedY g' = focusedY g"

lemma steady_trans: "steady g g' \<Longrightarrow> steady g' g'' \<Longrightarrow> steady g g''"
  by (simp add: steady_def kept_def)

lemma kept_trans: "kept g g' \<Longrightarrow> kept g' g'' \<Longrightarrow> kept g g''"
  by (simp add: kept_def)

lemma steady_kept: "steady g g' \<Longrightarrow> kept g g'"
  by (simp add: steady_def)

lemma steady_refl: "grid_ok g \<Longrightarrow> steady g g"
  by (simp add: steady_def kept_def)

lemma same_shape_steady: "same_shape g g' \<Longrightarrow> grid_ok g \<Longrightarrow> steady g g'"
  using same_shape_ok same_shape_fields by (simp add: steady_def kept_def)

lemma grid_item_upd_steady:
  assumes "grid_ok g" "grid_item_upd x y f g = Some g'"
  shows "steady g g' \<and> editing g' = editing g \<and> editBox g' = editBox g"
proof (cases "in_grid x y g")
  case True
  with assms(2) have "same_shape g g'" by (auto simp: grid_item_upd_inside intro: grid_cell_same_shape)
  then show ?thesis using same_shape_steady [OF _ assms(1)] same_shape_fields by simp
next
  case False
  with assms have "g' = g\<lparr>nullItem := f (nullItem g)\<rparr>" by (simp add: grid_item_upd_def)
  with assms(1) show ?thesis by (simp add: steady_def kept_def grid_ok_def)
qed

lemma kept_in_grid: "kept g g' \<Longrightarrow> in_grid x y g' = in_grid x y g"
  by (simp add: kept_def in_grid_def)

section \<open>Ending an edit\<close>

text \<open>\<open>store_edit\<close> is the part of \<open>EndEditing\<close> that writes the text to the item.\<close>

definition store_edit :: "'w grid_env \<Rightarrow> string option \<Rightarrow> grid \<Rightarrow> 'w \<Rightarrow> (grid \<times> 'w) option" where
  "store_edit E str g w =
     (case str of None \<Rightarrow> Some (g, w)
      | Some s \<Rightarrow>
          (case ItemChanging E (getParent (desktop (ctl E)) g w) (lo16 (focusedX g)) (lo16 (focusedY g)) s w of
             (r, s1, w1) \<Rightarrow>
               if r = 1 then map_option (\<lambda>g'. (g', w1)) (grid_item_upd (focusedX g) (focusedY g) (item_SetText s1) g)
               else Some (g, w1)))"

lemma store_edit_ok:
  assumes "grid_ok g"
  shows "\<exists>g' w'. store_edit E str g w = Some (g', w') \<and> steady g g' \<and> editing g' = editing g \<and> editBox g' = editBox g"
proof (cases str)
  case (Some s)
  obtain r s1 w1 where i: "ItemChanging E (getParent (desktop (ctl E)) g w) (lo16 (focusedX g)) (lo16 (focusedY g)) s w = (r, s1, w1)"
    using prod_cases3 by blast
  obtain g' where "grid_item_upd (focusedX g) (focusedY g) (item_SetText s1) g = Some g'"
    using grid_item_upd_some [OF assms] by blast
  with Some i grid_item_upd_steady [OF assms this] steady_refl [OF assms] show ?thesis by (simp add: store_edit_def)
qed (simp add: store_edit_def steady_refl assms)

text \<open>The three ways through \<open>EndEditing\<close>.\<close>

lemma EndEditing_nested: "ending g \<Longrightarrow> EndEditing E g w = Some (g, w)"
  by (simp add: EndEditing_def)

lemma EndEditing_idle: "\<not> ending g \<Longrightarrow> \<not> editing g \<Longrightarrow> EndEditing E g w = Some (g, w)"
  by (simp add: EndEditing_def Let_def)

lemma EndEditing_editing:
  assumes "\<not> ending g" "editing g" "ctl_DestroyThis (ctl E) (editBox g) w = (destroyed, box, w1)"
  shows "EndEditing E g w =
    (if destroyed then
       do { (g4, w2) \<leftarrow> store_edit E (GetWinText (ctl E) (editBox g) w) (g\<lparr>ending := True, editBox := box, editing := False\<rparr>) w1;
            let w4 = snd (notify E GridEditEnd (focusedX g4) (focusedY g4) g4 (redraw E g4 w2));
            Some (g4\<lparr>ending := False\<rparr>, w4) }
     else Some (g\<lparr>editBox := box, ending := False\<rparr>, w1))"
  using assms by (simp add: EndEditing_def store_edit_def Let_def split_beta split: option.split)

lemma EndEditing_ok:
  assumes "grid_ok g"
  shows "\<exists>g' w'. EndEditing E g w = Some (g', w') \<and> steady g g'"
proof -
  consider "ending g" | "\<not> ending g" "\<not> editing g" | "\<not> ending g" "editing g" by blast
  then show ?thesis
  proof cases
    case 3
    obtain d box w1 where d: "ctl_DestroyThis (ctl E) (editBox g) w = (d, box, w1)" using prod_cases3 by blast
    let ?g = "g\<lparr>ending := True, editBox := box, editing := False\<rparr>"
    have "grid_ok ?g" using assms by (simp add: grid_ok_def)
    from store_edit_ok [OF this, of E "GetWinText (ctl E) (editBox g) w" w1] obtain g' w' where
      "store_edit E (GetWinText (ctl E) (editBox g) w) ?g w1 = Some (g', w')" "steady ?g g'" by blast
    with EndEditing_editing [OF 3 d] 3 assms show ?thesis by (auto simp: steady_def kept_def grid_ok_def Let_def)
  qed (simp_all add: EndEditing_nested EndEditing_idle steady_refl assms)
qed

text \<open>
  Property: when an edit ends, the item under the edit box gets the text, as the parent left it, if
  the parent allows the change, and no other item changes; the grid is no longer edited.
\<close>

theorem end_edit_stores_text:
  assumes "grid_ok g" "\<not> ending g" "editing g" "in_grid (focusedX g) (focusedY g) g"
    and "GetWinText (ctl E) (editBox g) w = Some s" "ctl_DestroyThis (ctl E) (editBox g) w = (True, box, w1)"
    and "ItemChanging E (getParent (desktop (ctl E)) g w1) (lo16 (focusedX g)) (lo16 (focusedY g)) s w1 = (r, s1, w2)"
  shows "\<exists>g' w'. EndEditing E g w = Some (g', w') \<and> \<not> editing g' \<and> grid_ok g' \<and>
    (\<forall>a b. get_cell a b (gridItems g') =
       (if r = 1 \<and> a = focusedX g \<and> b = focusedY g then map_option (item_SetText s1) (get_cell a b (gridItems g))
        else get_cell a b (gridItems g)))"
proof -
  let ?g = "g\<lparr>ending := True, editBox := box, editing := False\<rparr>"
  have ok: "grid_ok ?g" using assms(1) by (simp add: grid_ok_def)
  have inside: "in_grid (focusedX g) (focusedY g) ?g" using assms(4) by (simp add: in_grid_def)
  have p: "getParent (desktop (ctl E)) ?g w1 = getParent (desktop (ctl E)) g w1"
    by (cases g) (simp add: getParent_def getHandle_def)
  obtain g' where u: "grid_item_upd (focusedX g) (focusedY g) (item_SetText s1) ?g = Some g'"
    using grid_item_upd_some [OF ok] by blast
  then have c: "grid_cell (focusedX g) (focusedY g) (item_SetText s1) ?g = Some g'"
    using inside by (simp add: grid_item_upd_inside)
  have e: "editing g' = editing ?g \<and> grid_ok g'"
    using grid_item_upd_steady [OF ok u] by (simp add: steady_def kept_def)
  show ?thesis
    using EndEditing_editing [OF assms(2,3,6)] assms(1,5,7) u e grid_cells.get_upd [OF c]
    by (auto simp: store_edit_def p Let_def grid_ok_def)
qed

definition example_env :: "desk grid_env" where
  "example_env = base_grid desk_controls (\<lambda>n m. True) (\<lambda>h x y s d. (1, s, d)) (\<lambda>h m d. (1, d)) (\<lambda>h d. None)"

definition example_grid :: "int \<Rightarrow> int \<Rightarrow> grid" where
  "example_grid x y = new_grid\<lparr>windowsItemHandle := 30, gridItems := replicate 3 (replicate 3 new_grid_item),
     numRows := 3, numColumns := 3, focusedX := x, focusedY := y\<rparr>"

text \<open>The same grid while its focused item is edited.\<close>

definition example_editing :: "int \<Rightarrow> int \<Rightarrow> grid" where
  "example_editing x y = (example_grid x y)\<lparr>editing := True, editBox := setHandle 200 new_edit\<rparr>"

definition example_typed :: desk where
  "example_typed = (example_desk \<lparr>px = 0, py = 0\<rparr>)\<lparr>deskTexts := (\<lambda>h. ''abc'')\<rparr>"

lemma example_grid_fields:
  "grid_ok (example_grid x y)" "grid_ok (example_editing x y)"
  "in_grid a b (example_grid x y) \<longleftrightarrow> 0 \<le> a \<and> a < 3 \<and> 0 \<le> b \<and> b < 3"
  "in_grid a b (example_editing x y) \<longleftrightarrow> 0 \<le> a \<and> a < 3 \<and> 0 \<le> b \<and> b < 3"
  "numRows (example_grid x y) = 3" "numColumns (example_grid x y) = 3" "focusedX (example_grid x y) = x"
  "focusedY (example_grid x y) = y" "\<not> editing (example_grid x y)" "\<not> ending (example_grid x y)"
  "\<not> ending (example_editing x y)" "editing (example_editing x y)" "focusedX (example_editing x y) = x"
  "focusedY (example_editing x y) = y" "editBox (example_editing x y) = setHandle 200 new_edit"
  by (auto simp: example_grid_def example_editing_def grid_ok_def in_grid_def new_grid_def list_all_iff)

lemma end_edit_stores_text_witness:
  "\<exists>g' w'. EndEditing example_env (example_editing 1 2) example_typed = Some (g', w') \<and>
     map_option itemText (get_cell 1 2 (gridItems g')) = Some ''abc'' \<and>
     map_option itemText (get_cell 2 2 (gridItems g')) = Some []"
proof -
  let ?g = "example_editing 1 2"
  have c: "get_cell a b (gridItems ?g) = Some new_grid_item" if "0 \<le> a" "a < 3" "0 \<le> b" "b < 3" for a b
    using that by (simp add: get_cell_def grid_ok_cell example_grid_fields) (simp add: example_editing_def example_grid_def)
  have t: "GetWinText (ctl example_env) (editBox ?g) example_typed = Some ''abc''"
    by (simp add: example_grid_fields GetWinText_def example_env_def base_grid_def desk_controls_def desk_win32_def
        example_typed_def)
  have d: "ctl_DestroyThis (ctl example_env) (editBox ?g) example_typed =
      (True, (setHandle NULL (setHandle 200 new_edit))\<lparr>defaultProc := 0\<rparr>, snd (DestroyChild desk_controls 200 example_typed))"
    by (simp add: example_grid_fields ctl_DestroyThis_def example_env_def base_grid_def desk_controls_def
        setHandle_def getHandle_def new_edit_def NULL_def)
  have i: "ItemChanging example_env h i j s w = (1, s, w)" for h i j s w by (simp add: example_env_def base_grid_def)
  from end_edit_stores_text [OF _ _ _ _ t d i] obtain g' w' where
    "EndEditing example_env ?g example_typed = Some (g', w')"
    "\<forall>a b. get_cell a b (gridItems g') = (if (1::int) = 1 \<and> a = focusedX ?g \<and> b = focusedY ?g
        then map_option (item_SetText ''abc'') (get_cell a b (gridItems ?g)) else get_cell a b (gridItems ?g))"
    by (auto simp: example_grid_fields)
  then show ?thesis by (simp add: example_grid_fields c item_SetText_def new_grid_item_def)
qed

section \<open>Selection\<close>

lemma DeselectAll_ok:
  assumes "grid_ok g"
  shows "\<exists>g1 w1 g'. EndEditing E g w = Some (g1, w1) \<and> steady g g1 \<and> DeselectAll E g w = Some (g', w1) \<and> same_shape g1 g' \<and>
    (\<forall>a b. get_cell a b (gridItems g') = map_option (item_SetSelected False) (get_cell a b (gridItems g1)))"
proof -
  obtain g1 w1 where e: "EndEditing E g w = Some (g1, w1)" "steady g g1" using EndEditing_ok [OF assms, of E w] by blast
  then have ok: "grid_ok g1" by (simp add: steady_def kept_def)
  have "\<exists>g'. for_cells (row_range g1) (column_range g1) (\<lambda>x y. grid_cell x y (item_SetSelected False)) g1 = Some g' \<and>
      same_shape g1 g' \<and> (\<forall>a b. get_cell a b (gridItems g') =
        (if a \<in> set (column_range g1) \<and> b \<in> set (row_range g1) then map_option (item_SetSelected False) (get_cell a b (gridItems g1))
         else get_cell a b (gridItems g1)))"
    using ok by (intro grid_updates [where F = "\<lambda>a b. item_SetSelected False"]) (auto simp: in_grid_def)
  then obtain g' where g': "for_cells (row_range g1) (column_range g1) (\<lambda>x y. grid_cell x y (item_SetSelected False)) g1 = Some g'"
    "same_shape g1 g'" and c: "\<And>a b. get_cell a b (gridItems g') =
        (if a \<in> set (column_range g1) \<and> b \<in> set (row_range g1) then map_option (item_SetSelected False) (get_cell a b (gridItems g1))
         else get_cell a b (gridItems g1))" by blast
  have "get_cell a b (gridItems g') = map_option (item_SetSelected False) (get_cell a b (gridItems g1))" for a b
    using c [of a b] cells.get_has [of a b "gridItems g1"] grid_ok_cell [OF ok, of a b] by (auto simp: in_grid_def)
  with e g' show ?thesis by (auto simp: DeselectAll_def)
qed

lemma DeselectAll_steady:
  assumes "grid_ok g"
  shows "\<exists>g' w'. DeselectAll E g w = Some (g', w') \<and> steady g g'"
  using DeselectAll_ok [OF assms, of E w] steady_trans same_shape_steady by (metis kept_def steady_def)

lemma select_if_allowed_cell:
  assumes "grid_ok g" "in_grid x y g"
  shows "select_if_allowed E w x y g = grid_cell x y (if allowSel E x y w then item_SetSelected True else (\<lambda>c. c)) g"
  using grid_cell_id [OF assms] by (simp add: select_if_allowed_def)

lemma select_square_loop:
  assumes "grid_ok g" "distinct ys" "distinct xs" "\<And>x y. x \<in> set xs \<Longrightarrow> y \<in> set ys \<Longrightarrow> in_grid x y g"
  shows "\<exists>g'. for_cells ys xs (select_if_allowed E w) g = Some g' \<and> same_shape g g' \<and> (\<forall>a b. get_cell a b (gridItems g') =
    (if a \<in> set xs \<and> b \<in> set ys then map_option (if allowSel E a b w then item_SetSelected True else (\<lambda>c. c)) (get_cell a b (gridItems g))
     else get_cell a b (gridItems g)))"
proof (rule grid_updates [OF assms])
  fix x y g' assume "x \<in> set xs" "y \<in> set ys" "same_shape g g'"
  then show "select_if_allowed E w x y g' = grid_cell x y (if allowSel E x y w then item_SetSelected True else (\<lambda>c. c)) g'"
    using assms(1,4) same_shape_ok same_shape_fields by (intro select_if_allowed_cell) (auto simp: in_grid_def)
qed

lemma SelectSquareTo_ok:
  assumes "grid_ok g"
  shows "\<exists>g'. SelectSquareTo E x y g w = Some g' \<and> same_shape g g'"
proof -
  have "\<exists>g'. for_cells [min (focusedY g) y..max (focusedY g) y] [min (focusedX g) x..max (focusedX g) x] (select_if_allowed E w) g
      = Some g' \<and> same_shape g g'" if "in_grid x y g" "in_grid (focusedX g) (focusedY g) g"
    using select_square_loop [OF assms, of "[min (focusedY g) y..max (focusedY g) y]" "[min (focusedX g) x..max (focusedX g) x]" E w]
      that by (fastforce simp: in_grid_def)
  moreover have "\<exists>g'. for_cells [0..y] [0..x] (select_if_allowed E w) g = Some g' \<and> same_shape g g'" if "in_grid x y g"
    using select_square_loop [OF assms, of "[0..y]" "[0..x]" E w] that by (fastforce simp: in_grid_def)
  ultimately show ?thesis by (auto simp: SelectSquareTo_def)
qed

text \<open>An overriding \<open>adjustSel\<close> that only shrinks the area.\<close>

definition shrinks :: "'w grid_env \<Rightarrow> bool" where
  "shrinks E \<longleftrightarrow> (\<forall>a b c d w. case adjustSelArea E a b c d w of (a1, b1, c1, d1) \<Rightarrow>
     {a1..b1} \<subseteq> {a..b} \<and> {c1..d1} \<subseteq> {c..d})"

lemma SelectSquare_ok:
  assumes "grid_ok g" "shrinks E"
  shows "\<exists>g'. SelectSquare E x1 y1 x2 y2 g w = Some g' \<and> same_shape g g'"
proof (cases "in_grid x1 y1 g \<and> in_grid x2 y2 g \<and> allowSelArea E (min x1 x2) (max x1 x2) (min y1 y2) (max y1 y2) w")
  case False
  then show ?thesis by (auto simp: SelectSquare_def Let_def min_def max_def split: if_splits)
next
  case True
  obtain a b c d where adj: "adjustSelArea E (min x1 x2) (max x1 x2) (min y1 y2) (max y1 y2) w = (a, b, c, d)"
    using prod_cases4 by blast
  with assms(2) have sub: "{a..b} \<subseteq> {min x1 x2..max x1 x2}" "{c..d} \<subseteq> {min y1 y2..max y1 y2}"
    unfolding shrinks_def by (metis (no_types, lifting) case_prod_conv)+
  have "SelectSquare E x1 y1 x2 y2 g w = for_cells [c..d] [a..b] (\<lambda>x y. grid_cell x y (item_SetSelected True)) g"
    using True adj by (auto simp: SelectSquare_def Let_def min_def max_def split: if_splits)
  moreover have "in_grid x y g" if "x \<in> {a..b}" "y \<in> {c..d}" for x y
    using that sub True by (auto simp: in_grid_def dest!: subsetD)
  then have "\<exists>g'. for_cells [c..d] [a..b] (\<lambda>x y. grid_cell x y (item_SetSelected True)) g = Some g' \<and> same_shape g g' \<and>
      (\<forall>i j. get_cell i j (gridItems g') = (if i \<in> set [a..b] \<and> j \<in> set [c..d]
        then map_option (item_SetSelected True) (get_cell i j (gridItems g)) else get_cell i j (gridItems g)))"
    using assms(1) by (intro grid_updates [where F = "\<lambda>a b. item_SetSelected True"]) auto
  ultimately show ?thesis by auto
qed

definition is_selected :: "int \<Rightarrow> int \<Rightarrow> grid \<Rightarrow> bool" where
  "is_selected x y g = (case get_cell x y (gridItems g) of Some c \<Rightarrow> itemSelected c | None \<Rightarrow> False)"

definition cell_text :: "int \<Rightarrow> int \<Rightarrow> grid \<Rightarrow> string option" where
  "cell_text x y g = map_option itemText (get_cell x y (gridItems g))"

text \<open>
  Dragging from one cell to another adds exactly the rectangle between them to the
  selection, whichever corner the drag started at, and changes no text.
\<close>

theorem select_square_is_rectangle:
  assumes "grid_ok g" "in_grid x1 y1 g" "in_grid x2 y2 g"
    and "\<And>a b c d. allowSelArea E a b c d w \<and> adjustSelArea E a b c d w = (a, b, c, d)"
  shows "\<exists>g'. SelectSquare E x1 y1 x2 y2 g w = Some g' \<and> grid_ok g' \<and> (\<forall>a b. in_grid a b g \<longrightarrow>
    cell_text a b g' = cell_text a b g \<and>
    (is_selected a b g' \<longleftrightarrow> is_selected a b g \<or>
       min x1 x2 \<le> a \<and> a \<le> max x1 x2 \<and> min y1 y2 \<le> b \<and> b \<le> max y1 y2))"
proof -
  let ?xs = "[min x1 x2..max x1 x2]" and ?ys = "[min y1 y2..max y1 y2]"
  have s: "SelectSquare E x1 y1 x2 y2 g w = for_cells ?ys ?xs (\<lambda>x y. grid_cell x y (item_SetSelected True)) g"
    using assms(2-4) by (auto simp: SelectSquare_def Let_def min_def max_def)
  have "\<exists>g'. for_cells ?ys ?xs (\<lambda>x y. grid_cell x y (item_SetSelected True)) g = Some g' \<and> same_shape g g' \<and>
      (\<forall>a b. get_cell a b (gridItems g') = (if a \<in> set ?xs \<and> b \<in> set ?ys
        then map_option (item_SetSelected True) (get_cell a b (gridItems g)) else get_cell a b (gridItems g)))"
    using assms(1-3) by (intro grid_updates [where F = "\<lambda>a b. item_SetSelected True"]) (auto simp: in_grid_def)
  then obtain g' where g': "SelectSquare E x1 y1 x2 y2 g w = Some g'" "same_shape g g'" and
    c: "\<And>a b. get_cell a b (gridItems g') = (if a \<in> set ?xs \<and> b \<in> set ?ys
        then map_option (item_SetSelected True) (get_cell a b (gridItems g)) else get_cell a b (gridItems g))"
    unfolding s by blast
  have cell: "cell_text a b g' = cell_text a b g \<and> (is_selected a b g' \<longleftrightarrow> is_selected a b g \<or>
       min x1 x2 \<le> a \<and> a \<le> max x1 x2 \<and> min y1 y2 \<le> b \<and> b \<le> max y1 y2)" if "in_grid a b g" for a b
  proof -
    obtain v where "get_cell a b (gridItems g) = Some v"
      using cell_exists [OF assms(1) \<open>in_grid a b g\<close>] by blast
    then show ?thesis by (simp add: is_selected_def cell_text_def c item_SetSelected_def) blast
  qed
  show ?thesis by (intro exI [of _ g'] conjI allI impI g'(1) same_shape_ok [OF g'(2) assms(1)] cell)
qed

lemma select_square_is_rectangle_witness:
  "\<exists>g'. SelectSquare example_env 2 1 0 2 (example_grid 1 1) (example_desk \<lparr>px = 0, py = 0\<rparr>) = Some g' \<and>
     is_selected 1 2 g' \<and> (is_selected 1 0 g' \<longleftrightarrow> is_selected 1 0 (example_grid 1 1))"
proof -
  have a: "allowSelArea example_env a b c d w \<and> adjustSelArea example_env a b c d w = (a, b, c, d)" for a b c d w
    by (simp add: example_env_def base_grid_def)
  from select_square_is_rectangle [OF _ _ _ a, where ?x1.0 = 2 and ?y1.0 = 1 and ?x2.0 = 0 and ?y2.0 = 2 and g = "example_grid 1 1"]
  show ?thesis by (fastforce simp: example_grid_fields)
qed

section \<open>Moving the focus\<close>

lemma gv_FocusItem_ok:
  assumes "grid_ok g"
  shows "\<exists>g' w'. gv_FocusItem E x y g w = Some (g', w') \<and> kept g g'"
proof -
  obtain g1 w1 where e: "EndEditing E g w = Some (g1, w1)" "steady g g1" using EndEditing_ok [OF assms, of E w] by blast
  then have "grid_ok g1" by (simp add: steady_def kept_def)
  then have ok: "grid_ok (g1\<lparr>focusedX := x, focusedY := y\<rparr>)" by (simp add: grid_ok_def)
  then obtain g2 where u: "grid_item_upd x y (item_SetSelected True) (g1\<lparr>focusedX := x, focusedY := y\<rparr>) = Some g2"
    using grid_item_upd_some by blast
  from grid_item_upd_steady [OF ok u] e show ?thesis by (auto simp: gv_FocusItem_def u steady_def kept_def)
qed

definition focus_of :: "grid \<Rightarrow> int \<times> int" where
  "focus_of g = (focusedX g, focusedY g)"

text \<open>Where a search through candidates puts the focus.\<close>

definition nav_target :: "'w grid_env \<Rightarrow> (int \<times> int) list \<Rightarrow> grid \<Rightarrow> 'w \<Rightarrow> int \<times> int" where
  "nav_target E cs g w =
     (case find (\<lambda>(x, y). allowSel E x y w) cs of
        Some (x, y) \<Rightarrow> if in_grid x y g then (x, y) else focus_of g
      | None \<Rightarrow> focus_of g)"

lemma gv_FocusItem_focus:
  assumes "grid_ok g" "\<not> editing g" "\<not> ending g" "allowSel E x y w"
  shows "\<exists>g' w'. gv_FocusItem E x y g w = Some (g', w') \<and> kept g g' \<and>
    focus_of g' = (if in_grid x y g then (x, y) else focus_of g)"
proof -
  have ok: "grid_ok (g\<lparr>focusedX := x, focusedY := y\<rparr>)" using assms(1) by (simp add: grid_ok_def)
  then obtain g2 where u: "grid_item_upd x y (item_SetSelected True) (g\<lparr>focusedX := x, focusedY := y\<rparr>) = Some g2"
    using grid_item_upd_some by blast
  from grid_item_upd_steady [OF ok u] assms show ?thesis
    by (auto simp: gv_FocusItem_def EndEditing_idle u steady_def kept_def focus_of_def)
qed

lemma focus_first_ok:
  assumes "grid_ok g"
  shows "\<exists>g' w'. focus_first E cs g w = Some (g', w') \<and> kept g g'"
proof (cases "find (\<lambda>(x, y). allowSel E x y w) cs")
  case None
  then show ?thesis using steady_kept [OF steady_refl [OF assms]] by (simp add: focus_first_def)
next
  case (Some p)
  then show ?thesis using gv_FocusItem_ok [OF assms] by (cases p) (simp add: focus_first_def)
qed

lemma focus_first_focus:
  assumes "grid_ok g" "\<not> editing g" "\<not> ending g"
  shows "\<exists>g' w'. focus_first E cs g w = Some (g', w') \<and> kept g g' \<and> focus_of g' = nav_target E cs g w"
proof (cases "find (\<lambda>(x, y). allowSel E x y w) cs")
  case None
  then show ?thesis using steady_kept [OF steady_refl [OF assms(1)]] by (simp add: focus_first_def nav_target_def)
next
  case (Some p)
  then have "allowSel E (fst p) (snd p) w" by (auto simp: find_Some_iff split_beta)
  from gv_FocusItem_focus [OF assms this] Some show ?thesis by (simp add: focus_first_def nav_target_def split_beta)
qed

lemma key_nav_ok:
  assumes "grid_ok g"
  shows "\<exists>g' w'. key_nav E key cand g w = Some (g', w') \<and> kept g g'"
proof -
  obtain g1 w1 where d: "DeselectAll E g w = Some (g1, w1)" "steady g g1" using DeselectAll_steady [OF assms, of E w] by blast
  then have "grid_ok g1" by (simp add: steady_def kept_def)
  from focus_first_ok [OF this, of E "cand g1" w1] d steady_kept [OF steady_refl [OF assms]]
  show ?thesis by (auto simp: key_nav_def steady_def intro: kept_trans)
qed

text \<open>Without an edit to end, a key only looks at the dimensions and the focus.\<close>

lemma key_nav_focus:
  assumes "grid_ok g" "\<not> editing g" "\<not> ending g"
    and "\<And>g'. numRows g' = numRows g \<Longrightarrow> numColumns g' = numColumns g \<Longrightarrow> focusedX g' = focusedX g \<Longrightarrow>
      focusedY g' = focusedY g \<Longrightarrow> cand g' = cand g"
  shows "\<exists>g' w'. key_nav E key cand g w = Some (g', w') \<and> kept g g' \<and> focus_of g' = nav_target E (cand g) g w"
proof -
  obtain g1 where d: "DeselectAll E g w = Some (g1, w)" and s: "same_shape g g1"
    using DeselectAll_ok [OF assms(1), of E w] by (auto simp: EndEditing_idle assms(2,3))
  note f = same_shape_fields [OF s]
  have c: "cand g1 = cand g" using f by (intro assms(4)) simp_all
  have k: "kept g g1" using same_shape_steady [OF s assms(1)] by (rule steady_kept)
  have t: "nav_target E cs g1 w = nav_target E cs g w" for cs
  proof -
    have "in_grid x y g1 = in_grid x y g" for x y using f by (simp add: in_grid_def)
    moreover have "focus_of g1 = focus_of g" using f by (simp add: focus_of_def)
    ultimately show ?thesis by (simp add: nav_target_def split: option.split)
  qed
  have "grid_ok g1" "\<not> editing g1" "\<not> ending g1" using same_shape_ok [OF s assms(1)] f assms(2,3) by simp_all
  from focus_first_focus [OF this, of E "cand g1" w] obtain g' w' where
    "focus_first E (cand g1) g1 w = Some (g', w')" "kept g1 g'" "focus_of g' = nav_target E (cand g1) g1 w" by blast
  with d k assms(2) show ?thesis by (auto simp: key_nav_def c t intro: kept_trans)
qed

section \<open>Keys\<close>

lemma find_sorted:
  assumes "find P xs = Some p" "sorted_wrt R xs"
  shows "p \<in> set xs \<and> P p \<and> (\<forall>q\<in>set xs. P q \<longrightarrow> q = p \<or> R p q)"
  using assms by (induction xs) (auto split: if_splits)

text \<open>The direction of an arrow key, and the cells in that direction from the nearest on.\<close>

definition arrow_keys :: "(int \<times> int \<times> int) list" where
  "arrow_keys = [(VK_LEFT, - 1, 0), (VK_UP, 0, - 1), (VK_RIGHT, 1, 0), (VK_DOWN, 0, 1)]"

definition steps :: "int \<Rightarrow> int \<Rightarrow> int \<Rightarrow> grid \<Rightarrow> (int \<times> int) list" where
  "steps dx dy n g = map (\<lambda>k. (focusedX g + k * dx, focusedY g + k * dy)) [1..n]"

lemma rev_upto_map: "rev [0..n - 1] = map (\<lambda>k. n - k) [1..n]" for n :: int
proof (rule nth_equalityI)
  show "length (rev [0..n - 1]) = length (map (\<lambda>k. n - k) [1..n])" by simp
  fix i assume "i < length (rev [0..n - 1])"
  then have i: "int i < n" by simp
  then have "0 + int (nat n - Suc i) \<le> n - 1" "int (nat n - Suc i) = n - 1 - int i" by linarith+
  with i show "rev [0..n - 1] ! i = map (\<lambda>k. n - k) [1..n] ! i" by (simp add: rev_nth nth_upto)
qed

lemma upto_map: "[a + 1..b] = map (\<lambda>k. a + k) [1..b - a]" for a b :: int
proof (rule nth_equalityI)
  show "length [a + 1..b] = length (map (\<lambda>k. a + k) [1..b - a])" by simp
  fix i assume "i < length [a + 1..b]"
  then show "[a + 1..b] ! i = map (\<lambda>k. a + k) [1..b - a] ! i" by (simp add: nth_upto)
qed

lemma candidates_steps:
  "cells_left g = steps (- 1) 0 (focusedX g) g" "cells_above g = steps 0 (- 1) (focusedY g) g"
  "cells_right g = steps 1 0 (numColumns g - 1 - focusedX g) g" "cells_below g = steps 0 1 (numRows g - 1 - focusedY g) g"
  by (simp_all add: cells_left_def cells_above_def cells_right_def cells_below_def steps_def rev_upto_map upto_map o_def)

lemma find_map_option: "find P (map f xs) = map_option f (find (\<lambda>x. P (f x)) xs)"
  by (induction xs) simp_all

text \<open>Among the steps the search takes the smallest that is allowed.\<close>

lemma nav_target_steps:
  assumes "\<And>k. 1 \<le> k \<Longrightarrow> in_grid (focusedX g + k * dx) (focusedY g + k * dy) g \<longleftrightarrow> k \<le> n"
  shows "(\<exists>k\<ge>1. nav_target E (steps dx dy n g) g w = (focusedX g + k * dx, focusedY g + k * dy) \<and> k \<le> n \<and>
      allowSel E (focusedX g + k * dx) (focusedY g + k * dy) w \<and>
      (\<forall>j. 1 \<le> j \<and> j < k \<longrightarrow> \<not> allowSel E (focusedX g + j * dx) (focusedY g + j * dy) w)) \<or>
    nav_target E (steps dx dy n g) g w = focus_of g \<and>
      (\<forall>j. 1 \<le> j \<and> j \<le> n \<longrightarrow> \<not> allowSel E (focusedX g + j * dx) (focusedY g + j * dy) w)"
proof -
  define P where "P k \<longleftrightarrow> allowSel E (focusedX g + k * dx) (focusedY g + k * dy) w" for k
  have f: "find (\<lambda>(x, y). allowSel E x y w) (steps dx dy n g) =
      map_option (\<lambda>k. (focusedX g + k * dx, focusedY g + k * dy)) (find P [1..n])"
    by (simp add: steps_def find_map_option P_def [abs_def])
  show ?thesis
  proof (cases "find P [1..n]")
    case None
    then have "\<forall>j. 1 \<le> j \<and> j \<le> n \<longrightarrow> \<not> P j" by (auto simp: find_None_iff)
    with None f show ?thesis by (simp add: nav_target_def P_def)
  next
    case (Some k)
    have "sorted_wrt (<) [1..n]" by (rule sorted_wrt_upto)
    from find_sorted [OF Some this] have k: "1 \<le> k" "k \<le> n" "P k" "\<forall>j. 1 \<le> j \<and> j < k \<longrightarrow> \<not> P j" by force+
    with assms [of k] Some f show ?thesis
      by (intro disjI1 exI [of _ k]) (simp add: nav_target_def P_def)
  qed
qed

lemma KeyDown_nav:
  assumes "(k, h) \<in> set [(VK_LEFT, LeftArrowKey), (VK_UP, UpArrowKey), (VK_RIGHT, RightArrowKey),
    (VK_DOWN, DownArrowKey), (VK_TAB, TabKey), (VK_RETURN, EnterKey)]"
  shows "gv_KeyDown E k g w = do { (g1, w1) \<leftarrow> h E g w; Some (g1, redraw E g1 w1) }"
  using assms by (auto simp: gv_KeyDown_def VK_LEFT_def VK_UP_def VK_RIGHT_def VK_DOWN_def VK_TAB_def VK_RETURN_def)

text \<open>The number of steps to the nearest cell of a direction that may be selected.\<close>

definition step_cell :: "int \<Rightarrow> int \<Rightarrow> int \<Rightarrow> grid \<Rightarrow> int \<times> int" where
  "step_cell dx dy k g = (focusedX g + k * dx, focusedY g + k * dy)"

definition may_focus :: "'w grid_env \<Rightarrow> int \<times> int \<Rightarrow> grid \<Rightarrow> 'w \<Rightarrow> bool" where
  "may_focus E p g w \<longleftrightarrow> in_grid (fst p) (snd p) g \<and> allowSel E (fst p) (snd p) w"

definition nearest_step :: "'w grid_env \<Rightarrow> int \<Rightarrow> int \<Rightarrow> grid \<Rightarrow> 'w \<Rightarrow> int \<Rightarrow> bool" where
  "nearest_step E dx dy g w k \<longleftrightarrow> 1 \<le> k \<and> may_focus E (step_cell dx dy k g) g w \<and>
     list_all (\<lambda>j. \<not> may_focus E (step_cell dx dy j g) g w) [1..k - 1]"

text \<open>
  An arrow key moves the focus to the nearest cell in its direction that may be selected,
  and leaves it where it is when there is none; nothing of the grid's size changes.
\<close>

theorem arrow_key_moves_focus:
  assumes "(key, dx, dy) \<in> set arrow_keys" "grid_ok g" "in_grid (focusedX g) (focusedY g) g" "\<not> editing g" "\<not> ending g"
  shows "\<exists>g' w'. gv_KeyDown E key g w = Some (g', w') \<and> kept g g' \<and>
    ((\<exists>k. nearest_step E dx dy g w k \<and> focus_of g' = step_cell dx dy k g) \<or>
     focus_of g' = focus_of g \<and> (\<nexists>k. 1 \<le> k \<and> may_focus E (step_cell dx dy k g) g w))"
proof -
  have nav: ?thesis if h: "(key, h) \<in> set [(VK_LEFT, LeftArrowKey), (VK_UP, UpArrowKey), (VK_RIGHT, RightArrowKey),
        (VK_DOWN, DownArrowKey), (VK_TAB, TabKey), (VK_RETURN, EnterKey)]"
    and n: "h E g w = key_nav E code cand g w" "cand g = steps dx dy n g"
    and c: "\<And>g'. numRows g' = numRows g \<Longrightarrow> numColumns g' = numColumns g \<Longrightarrow> focusedX g' = focusedX g \<Longrightarrow>
      focusedY g' = focusedY g \<Longrightarrow> cand g' = cand g"
    and b: "\<And>k. 1 \<le> k \<Longrightarrow> in_grid (focusedX g + k * dx) (focusedY g + k * dy) g \<longleftrightarrow> k \<le> n"
    for h code cand n
  proof -
    from key_nav_focus [where g = g and cand = cand and E = E and key = code and w = w, OF assms(2,4,5) c] obtain g' w' where
      "key_nav E code cand g w = Some (g', w')" "kept g g'" "focus_of g' = nav_target E (steps dx dy n g) g w"
      unfolding n(2) by blast
    with KeyDown_nav [OF h, of E g w] nav_target_steps [OF b, of E w] b show ?thesis
      unfolding n(1) by (auto simp: focus_of_def nearest_step_def may_focus_def step_cell_def list_all_iff)
  qed
  from assms(1) consider "key = VK_LEFT" "dx = - 1" "dy = 0" | "key = VK_UP" "dx = 0" "dy = - 1"
    | "key = VK_RIGHT" "dx = 1" "dy = 0" | "key = VK_DOWN" "dx = 0" "dy = 1" by (auto simp: arrow_keys_def)
  then show ?thesis
  proof cases
    case 1
    show ?thesis
      by (rule nav [of LeftArrowKey GVLeft cells_left "focusedX g"])
         (use assms(3) 1 in \<open>auto simp: LeftArrowKey_def candidates_steps steps_def in_grid_def\<close>)
  next
    case 2
    show ?thesis
      by (rule nav [of UpArrowKey GVUp cells_above "focusedY g"])
         (use assms(3) 2 in \<open>auto simp: UpArrowKey_def candidates_steps steps_def in_grid_def\<close>)
  next
    case 3
    show ?thesis
      by (rule nav [of RightArrowKey GVRight cells_right "numColumns g - 1 - focusedX g"])
         (use assms(3) 3 in \<open>auto simp: RightArrowKey_def candidates_steps steps_def in_grid_def\<close>)
  next
    case 4
    show ?thesis
      by (rule nav [of DownArrowKey GVDown cells_below "numRows g - 1 - focusedY g"])
         (use assms(3) 4 in \<open>auto simp: DownArrowKey_def candidates_steps steps_def in_grid_def\<close>)
  qed
qed

text \<open>The example grid with its middle column disabled.\<close>

definition no_middle :: "desk grid_env" where
  "no_middle = example_env\<lparr>allowSel := \<lambda>x y w. x \<noteq> 1\<rparr>"

lemma arrow_key_moves_focus_witness:
  "\<exists>g' w'. gv_KeyDown no_middle VK_RIGHT (example_grid 0 1) (example_desk \<lparr>px = 0, py = 0\<rparr>) = Some (g', w') \<and>
     focus_of g' = (2, 1)"
proof -
  let ?w = "example_desk \<lparr>px = 0, py = 0\<rparr>" and ?g = "example_grid 0 1"
  have r: "(VK_RIGHT, 1, 0) \<in> set arrow_keys" by (simp add: arrow_keys_def)
  have m: "may_focus no_middle (step_cell 1 0 k ?g) ?g ?w \<longleftrightarrow> 0 \<le> k \<and> k < 3 \<and> k \<noteq> 1" for k
    by (simp add: may_focus_def step_cell_def example_grid_fields no_middle_def)
  then have n: "nearest_step no_middle 1 0 ?g ?w k \<Longrightarrow> k = 2" for k by (auto simp: nearest_step_def)
  have s: "step_cell 1 0 2 ?g = (2, 1)" by (simp add: step_cell_def example_grid_fields)
  have "1 \<le> (2 :: int) \<and> may_focus no_middle (step_cell 1 0 2 ?g) ?g ?w" by (simp add: m)
  moreover have "\<exists>g' w'. gv_KeyDown no_middle VK_RIGHT ?g ?w = Some (g', w') \<and> kept ?g g' \<and>
    ((\<exists>k. nearest_step no_middle 1 0 ?g ?w k \<and> focus_of g' = step_cell 1 0 k ?g) \<or>
     focus_of g' = focus_of ?g \<and> (\<nexists>k. 1 \<le> k \<and> may_focus no_middle (step_cell 1 0 k ?g) ?g ?w))"
    by (rule arrow_key_moves_focus [OF r]) (simp_all add: example_grid_fields)
  ultimately show ?thesis using n s by metis
qed

text \<open>The order in which a page is read: rows from the top, each from the left.\<close>

definition reading_position :: "grid \<Rightarrow> int \<times> int \<Rightarrow> int" where
  "reading_position g p = snd p * numColumns g + fst p"

lemma cells_of_set: "(x, y) \<in> set (cells_of ys xs) \<longleftrightarrow> x \<in> set xs \<and> y \<in> set ys"
  by (auto simp: cells_of_def)

lemma cells_of_sorted:
  assumes "sorted_wrt (<) ys" "sorted_wrt (<) xs" "\<And>x. x \<in> set xs \<Longrightarrow> 0 \<le> x \<and> x < numColumns g"
  shows "sorted_wrt (\<lambda>p q. reading_position g p < reading_position g q) (cells_of ys xs)"
proof -
  have less: "y * numColumns g + x < y' * numColumns g + x'" if "y < y'" "0 \<le> x" "x < numColumns g" "0 \<le> x'" for x x' y y'
  proof -
    have "y * numColumns g + x < (y + 1) * numColumns g" using that by (simp add: algebra_simps)
    also have "\<dots> \<le> y' * numColumns g" using that by (intro mult_right_mono) simp_all
    finally show ?thesis using that by simp
  qed
  show ?thesis using assms(1)
  proof (induction ys)
    case (Cons y ys)
    have "sorted_wrt (\<lambda>p q. reading_position g p < reading_position g q) (map (\<lambda>x. (x, y)) xs)"
      using assms(2) by (simp add: sorted_wrt_map reading_position_def)
    with Cons assms(3) less show ?case
      by (auto simp: cells_of_def sorted_wrt_append reading_position_def)
  qed (simp add: cells_of_def)
qed

lemma tab_candidates:
  assumes "in_grid (focusedX g) (focusedY g) g"
  shows "sorted_wrt (\<lambda>p q. reading_position g p < reading_position g q) (cells_right g @ rows_below g)"
    and "set (cells_right g @ rows_below g) =
      {(x, y). in_grid x y g \<and> reading_position g (focus_of g) < reading_position g (x, y)}"
proof -
  have r: "cells_right g = cells_of [focusedY g] [focusedX g + 1..numColumns g - 1]"
    by (simp add: cells_right_def cells_of_def)
  have less: "y * numColumns g + x < y' * numColumns g + x'" if "y < y'" "0 \<le> x" "x < numColumns g" "0 \<le> x'" for x x' y y'
  proof -
    have "y * numColumns g + x < (y + 1) * numColumns g" using that by (simp add: algebra_simps)
    also have "\<dots> \<le> y' * numColumns g" using that by (intro mult_right_mono) simp_all
    finally show ?thesis using that by simp
  qed
  show "sorted_wrt (\<lambda>p q. reading_position g p < reading_position g q) (cells_right g @ rows_below g)"
    unfolding sorted_wrt_append
  proof (intro conjI ballI)
    show "sorted_wrt (\<lambda>p q. reading_position g p < reading_position g q) (cells_right g)"
      unfolding r using assms by (intro cells_of_sorted) (simp_all add: in_grid_def)
    show "sorted_wrt (\<lambda>p q. reading_position g p < reading_position g q) (rows_below g)"
      unfolding rows_below_def by (intro cells_of_sorted) (simp_all add: column_range_def)
    fix p q assume pq: "p \<in> set (cells_right g)" "q \<in> set (rows_below g)"
    obtain x y x' y' where e: "p = (x, y)" "q = (x', y')" by (cases p; cases q) blast
    from pq have "y < y'" "0 \<le> x" "x < numColumns g" "0 \<le> x'"
      using assms by (auto simp: e r rows_below_def cells_of_set in_grid_def)
    from less [OF this] show "reading_position g p < reading_position g q" by (simp add: e reading_position_def)
  qed
  have pos: "in_grid x y g \<and> reading_position g (focus_of g) < reading_position g (x, y) \<longleftrightarrow>
      y = focusedY g \<and> focusedX g < x \<and> x < numColumns g \<or> focusedY g < y \<and> y < numRows g \<and> 0 \<le> x \<and> x < numColumns g" for x y
  proof (cases "in_grid x y g")
    case False
    with assms show ?thesis by (auto simp: in_grid_def)
  next
    case True
    have e: "reading_position g (focus_of g) < reading_position g (x, y) \<longleftrightarrow>
        focusedY g * numColumns g + focusedX g < y * numColumns g + x"
      by (simp add: reading_position_def focus_of_def)
    from True assms have i: "0 \<le> x" "x < numColumns g" "y < numRows g" "0 \<le> focusedX g" "focusedX g < numColumns g"
      by (simp_all add: in_grid_def)
    consider "y < focusedY g" | "y = focusedY g" | "focusedY g < y" by linarith
    then show ?thesis
    proof cases
      case 1
      from less [OF 1 i(1,2,4)] 1 True show ?thesis unfolding e by (simp only: less_not_sym) simp
    next
      case 2
      then show ?thesis using True i unfolding e by simp
    next
      case 3
      from less [OF 3 i(4,5,1)] 3 True i show ?thesis unfolding e by simp
    qed
  qed
  have "(x, y) \<in> set (cells_right g @ rows_below g) \<longleftrightarrow>
      y = focusedY g \<and> focusedX g < x \<and> x < numColumns g \<or> focusedY g < y \<and> y < numRows g \<and> 0 \<le> x \<and> x < numColumns g" for x y
    unfolding r rows_below_def set_append Un_iff cells_of_set by auto
  then show "set (cells_right g @ rows_below g) =
      {(x, y). in_grid x y g \<and> reading_position g (focus_of g) < reading_position g (x, y)}"
    unfolding pos [symmetric] by blast
qed

text \<open>
  Property C28: the tabulator moves the focus to the next cell in reading order that may be selected,
  and leaves it when there is none after the focused cell.
\<close>

theorem tab_moves_in_reading_order:
  assumes "grid_ok g" "in_grid (focusedX g) (focusedY g) g" "\<not> editing g" "\<not> ending g"
  shows "\<exists>g' w'. gv_KeyDown E VK_TAB g w = Some (g', w') \<and> kept g g' \<and>
    (let later = (\<lambda>p. may_focus E p g w \<and> reading_position g (focus_of g) < reading_position g p) in
     later (focus_of g') \<and> (\<forall>p. later p \<longrightarrow> reading_position g (focus_of g') \<le> reading_position g p) \<or>
     focus_of g' = focus_of g \<and> (\<nexists>p. later p))"
proof -
  let ?cs = "cells_right g @ rows_below g"
  define P where "P = (\<lambda>(x, y). allowSel E x y w)"
  have c: "cells_right g' @ rows_below g' = ?cs" if "numRows g' = numRows g" "numColumns g' = numColumns g"
    "focusedX g' = focusedX g" "focusedY g' = focusedY g" for g'
    using that by (simp add: cells_right_def rows_below_def column_range_def)
  from key_nav_focus [where g = g and cand = "\<lambda>g. cells_right g @ rows_below g" and E = E and key = GVTab and w = w,
      OF assms(1,3,4) c] obtain g' w' where
    n: "TabKey E g w = Some (g', w')" "kept g g'" "focus_of g' = nav_target E ?cs g w" unfolding TabKey_def by blast
  have k: "gv_KeyDown E VK_TAB g w = Some (g', redraw E g' w')"
    using KeyDown_nav [of VK_TAB TabKey E g w] n(1) by simp
  have later: "p \<in> set ?cs \<and> P p \<longleftrightarrow>
      may_focus E p g w \<and> reading_position g (focus_of g) < reading_position g p" for p
    unfolding tab_candidates(2) [OF assms(2)] by (auto simp: P_def may_focus_def split_beta)
  show ?thesis
  proof (cases "find P ?cs")
    case None
    then have "\<nexists>p. p \<in> set ?cs \<and> P p" by (auto simp: find_None_iff)
    moreover have "focus_of g' = focus_of g" using None n(3) by (simp add: nav_target_def P_def)
    ultimately show ?thesis using k n(2) unfolding Let_def later by blast
  next
    case (Some p)
    have f: "p \<in> set ?cs \<and> P p \<and> (\<forall>q\<in>set ?cs. P q \<longrightarrow> q = p \<or> reading_position g p < reading_position g q)"
      using find_sorted [OF Some tab_candidates(1) [OF assms(2)]] .
    then have "in_grid (fst p) (snd p) g" using later [of p] by (simp add: may_focus_def)
    then have "focus_of g' = p" using Some n(3) by (simp add: nav_target_def P_def split_beta)
    with f k n(2) show ?thesis unfolding Let_def later [symmetric] by (metis less_imp_le order_refl)
  qed
qed

lemma tab_moves_in_reading_order_witness:
  "\<exists>g' w'. gv_KeyDown no_middle VK_TAB (example_grid 2 0) (example_desk \<lparr>px = 0, py = 0\<rparr>) = Some (g', w') \<and>
     focus_of g' = (0, 1)"
proof -
  let ?w = "example_desk \<lparr>px = 0, py = 0\<rparr>" and ?g = "example_grid 2 0"
  define later where "later p \<longleftrightarrow> may_focus no_middle p ?g ?w \<and> reading_position ?g (focus_of ?g) < reading_position ?g p" for p
  have l: "later p \<longleftrightarrow> 0 \<le> fst p \<and> fst p < 3 \<and> fst p \<noteq> 1 \<and> 0 \<le> snd p \<and> snd p < 3 \<and> 2 < 3 * snd p + fst p" for p
    by (auto simp: later_def may_focus_def example_grid_fields no_middle_def reading_position_def focus_of_def)
  have t: "\<exists>g' w'. gv_KeyDown no_middle VK_TAB ?g ?w = Some (g', w') \<and> kept ?g g' \<and>
    (later (focus_of g') \<and> (\<forall>p. later p \<longrightarrow> reading_position ?g (focus_of g') \<le> reading_position ?g p) \<or>
     focus_of g' = focus_of ?g \<and> (\<nexists>p. later p))"
    using tab_moves_in_reading_order [of ?g no_middle ?w] by (simp add: example_grid_fields later_def [abs_def] Let_def)
  have one: "later (0, 1)" by (simp add: l)
  have "p = (0, 1)" if "later p" "\<forall>q. later q \<longrightarrow> reading_position ?g p \<le> reading_position ?g q" for p
  proof -
    have "3 * snd p + fst p \<le> 3" using that(2) [rule_format, OF one] by (simp add: reading_position_def example_grid_fields)
    with that(1) have "snd p = 1" "fst p = 0" unfolding l by presburger+
    then show ?thesis by (simp add: prod_eq_iff)
  qed
  with t one show ?thesis by blast
qed

text \<open>
  Property: without a focused cell the tabulator does nothing, although cells may be selected: the
  loop tries the first cell of row \<open>-1\<close>, which \<open>allowSel\<close> admits and \<open>FocusItem\<close> refuses.
\<close>

theorem tab_without_focus_does_nothing:
  assumes "grid_ok g" "focus_of g = (- 1, - 1)" "0 < numColumns g" "allowSel E 0 (- 1) w" "\<not> editing g" "\<not> ending g"
  shows "\<exists>g' w'. gv_KeyDown E VK_TAB g w = Some (g', w') \<and> focus_of g' = (- 1, - 1)"
proof -
  have c: "cells_right g' @ rows_below g' = cells_right g @ rows_below g" if "numRows g' = numRows g" "numColumns g' = numColumns g"
    "focusedX g' = focusedX g" "focusedY g' = focusedY g" for g'
    using that by (simp add: cells_right_def rows_below_def column_range_def)
  from key_nav_focus [where g = g and cand = "\<lambda>g. cells_right g @ rows_below g" and E = E and key = GVTab and w = w,
      OF assms(1,5,6) c] obtain g' w' where
    n: "TabKey E g w = Some (g', w')" "focus_of g' = nav_target E (cells_right g @ rows_below g) g w" unfolding TabKey_def by blast
  have "[0..numColumns g - 1] = 0 # [1..numColumns g - 1]" using assms(3) by (simp add: upto_rec1)
  then have "nav_target E (cells_right g @ rows_below g) g w = (- 1, - 1)"
    using assms(2,4) by (simp add: nav_target_def cells_right_def focus_of_def in_grid_def)
  with n KeyDown_nav [of VK_TAB TabKey E g w] show ?thesis by simp
qed

lemma tab_without_focus_does_nothing_witness:
  "\<exists>g' w'. gv_KeyDown example_env VK_TAB (example_grid (- 1) (- 1)) (example_desk \<lparr>px = 0, py = 0\<rparr>) = Some (g', w') \<and>
     focus_of g' = (- 1, - 1)"
  by (rule tab_without_focus_does_nothing) (simp_all add: example_grid_fields focus_of_def example_env_def base_grid_def)

end
