(* ===== verification/Grid_Shape.thy ===== *)
theory Grid_Shape
  imports Grid_View_Facts
begin

text \<open>
  The array of a grid under its dimension changes, the sequences of operations that never leave it
  and the ones that do.
\<close>

section \<open>Resizing\<close>

definition cells_shape :: "int \<Rightarrow> int \<Rightarrow> cells \<Rightarrow> bool" where
  "cells_shape n m cs \<longleftrightarrow> length cs = nat n \<and> list_all (\<lambda>r. length r = nat m) cs"

lemma cells_shape_has:
  assumes "cells_shape n m cs" "0 < n" "0 < m"
  shows "has_cell x y cs \<longleftrightarrow> 0 \<le> x \<and> x < m \<and> 0 \<le> y \<and> y < n"
proof -
  have "nat y < length cs \<Longrightarrow> length (cs ! nat y) = nat m"
    using assms(1) by (simp add: cells_shape_def list_all_length)
  with assms show ?thesis by (auto simp: cells_shape_def has_cell_def zless_nat_conj)
qed

lemma upd_cell_shape: "upd_cell x y f cs = Some cs' \<Longrightarrow> cells_shape n m cs \<Longrightarrow> cells_shape n m cs'"
proof -
  assume u: "upd_cell x y f cs = Some cs'" and s: "cells_shape n m cs"
  have "list_all (\<lambda>r. length r = nat m) ds \<longleftrightarrow> list_all (\<lambda>l. l = nat m) (map length ds)" for ds :: cells
    by (simp add: list_all_iff)
  with upd_cell_lengths [OF u] s show "cells_shape n m cs'" by (simp add: cells_shape_def)
qed

text \<open>A loop that sets each cell it visits to a value of its own.\<close>

lemma cells_assign:
  assumes "cells_shape n m cs" "0 < n" "0 < m" "distinct ys" "distinct xs"
    and "\<And>x y. x \<in> set xs \<Longrightarrow> y \<in> set ys \<Longrightarrow> 0 \<le> x \<and> x < m \<and> 0 \<le> y \<and> y < n"
    and "\<And>x y cs'. x \<in> set xs \<Longrightarrow> y \<in> set ys \<Longrightarrow> cells_shape n m cs' \<Longrightarrow> body x y cs' = upd_cell x y (\<lambda>_. v x y) cs'"
  shows "\<exists>cs'. for_cells ys xs body cs = Some cs' \<and> cells_shape n m cs' \<and> (\<forall>a b. get_cell a b cs' =
    (if a \<in> set xs \<and> b \<in> set ys then Some (v a b) else get_cell a b cs))"
proof -
  let ?loop = "for_cells ys xs (\<lambda>x y. upd_cell x y (\<lambda>_. v x y)) cs"
  have h: "has_cell x y cs" if "x \<in> set xs" "y \<in> set ys" for x y
    using assms(6) [OF that] by (simp add: cells_shape_has [OF assms(1-3)])
  have "for_cells ys xs body cs = ?loop"
    using assms(1,7) by (intro for_cells_cong [of "cells_shape n m"]) (auto intro: upd_cell_shape)
  moreover have "\<forall>y\<in>set ys. \<forall>x\<in>set xs. has_cell x y cs" using h by blast
  from cells.for_cells_updates [OF this assms(4,5), of "\<lambda>x y _. v x y"] obtain cs' where
    l: "?loop = Some cs'" and g: "\<forall>a b. get_cell a b cs' =
      (if a \<in> set xs \<and> b \<in> set ys then map_option (\<lambda>_. v a b) (get_cell a b cs) else get_cell a b cs)" by blast
  moreover have "cells_shape n m cs'" using l assms(1)
    by (rule for_cells_invariant) (auto intro: upd_cell_shape)
  moreover have "get_cell a b cs' = (if a \<in> set xs \<and> b \<in> set ys then Some (v a b) else get_cell a b cs)" for a b
    using g h [of a b] cells.get_has [of a b cs] by auto
  ultimately show ?thesis by auto
qed

lemma cells_shape_fresh: "cells_shape n m (replicate (nat n) (replicate (nat m) c))"
  by (simp add: cells_shape_def list_all_iff)

text \<open>A grid with rows has columns.\<close>

definition has_columns :: "grid \<Rightarrow> bool" where
  "has_columns g \<longleftrightarrow> (0 < numRows g \<longrightarrow> 0 < numColumns g)"

lemma grid_ok_shape: "0 < numRows g \<Longrightarrow> 0 < numColumns g \<Longrightarrow> grid_ok g \<longleftrightarrow> cells_shape (numRows g) (numColumns g) (gridItems g)"
  by (simp add: grid_ok_def cells_shape_def)

lemma resize_grow:
  assumes "grid_ok g" "has_columns g" "0 < n" "0 < m" "Allocate E n m"
  shows "\<exists>cs. resize E n m g = Some (True, g\<lparr>gridItems := cs, numRows := n, numColumns := m\<rparr>) \<and> cells_shape n m cs \<and>
    (\<forall>a b. 0 \<le> a \<and> a < m \<and> 0 \<le> b \<and> b < n \<longrightarrow>
      get_cell a b cs = (if in_grid a b g then get_cell a b (gridItems g) else Some new_grid_item))"
proof -
  let ?ys = "[0..min n (numRows g) - 1]" and ?xs = "[0..min m (numColumns g) - 1]"
  let ?fresh = "replicate (nat n) (replicate (nat m) new_grid_item)"
  define v where "v a b = the (get_cell a b (gridItems g))" for a b
  have old: "get_cell a b (gridItems g) = Some (v a b)" if "in_grid a b g" for a b
    using cell_exists [OF assms(1) that] by (auto simp: v_def)
  have "copy_cell (gridItems g) x y cs' = upd_cell x y (\<lambda>_. v x y) cs'" if "x \<in> set ?xs" "y \<in> set ?ys" for x y cs'
    using old [of x y] that by (simp add: copy_cell_def in_grid_def)
  then have "\<exists>cs'. for_cells ?ys ?xs (copy_cell (gridItems g)) ?fresh = Some cs' \<and> cells_shape n m cs' \<and> (\<forall>a b. get_cell a b cs' =
      (if a \<in> set ?xs \<and> b \<in> set ?ys then Some (v a b) else get_cell a b ?fresh))"
    using assms(3,4) by (intro cells_assign cells_shape_fresh) auto
  then obtain cs' where l: "for_cells ?ys ?xs (copy_cell (gridItems g)) ?fresh = Some cs'" and s: "cells_shape n m cs'"
    and c: "\<And>a b. get_cell a b cs' = (if a \<in> set ?xs \<and> b \<in> set ?ys then Some (v a b) else get_cell a b ?fresh)" by blast
  let ?g = "g\<lparr>gridItems := cs', numRows := n, numColumns := m\<rparr>"
  have "\<not> numRows g > int (length (gridItems g))"
    using assms(1,2) by (auto simp: grid_ok_def has_columns_def split: if_splits)
  then have r: "resize E n m g = Some (True, ?g)" using assms(3-5) l by (simp add: resize_def Let_def)
  have "get_cell a b cs' = (if in_grid a b g then get_cell a b (gridItems g) else Some new_grid_item)"
    if "0 \<le> a \<and> a < m \<and> 0 \<le> b \<and> b < n" for a b
    using c [of a b] that old [of a b] by (auto simp: in_grid_def get_cell_def has_cell_def nth_replicate zless_nat_conj)
  with r s show ?thesis by blast
qed

lemma resize_to_nothing:
  assumes "grid_ok g" "n = 0 \<or> m = 0"
  shows "resize E n m g = Some (True, g\<lparr>gridItems := [], numRows := n, numColumns := m\<rparr>)"
proof -
  have "\<not> (numRows g > 0 \<and> numColumns g > 0 \<and> numRows g > int (length (gridItems g)))"
    using assms(1) by (auto simp: grid_ok_def)
  with assms(2) show ?thesis by (auto simp: resize_def)
qed

text \<open>Every way through \<open>resize\<close> on a grid with columns.\<close>

definition resized :: "int \<Rightarrow> int \<Rightarrow> bool \<Rightarrow> grid \<Rightarrow> grid \<Rightarrow> bool" where
  "resized n m ok g g' \<longleftrightarrow> grid_ok g' \<and> focus_of g' = focus_of g \<and> ending g' = ending g \<and>
     (if ok then numRows g' = n \<and> numColumns g' = m else g' = g)"

lemma resize_ok:
  assumes "grid_ok g" "has_columns g"
  shows "\<exists>ok g'. resize E n m g = Some (ok, g') \<and> resized n m ok g g'"
proof -
  consider "0 < n \<and> 0 < m \<and> Allocate E n m" | "0 < n \<and> 0 < m \<and> \<not> Allocate E n m" | "n = 0 \<or> m = 0"
    | "\<not> (0 < n \<and> 0 < m)" "\<not> (n = 0 \<or> m = 0)" by blast
  then show ?thesis
  proof cases
    case 1
    then obtain cs where "resize E n m g = Some (True, g\<lparr>gridItems := cs, numRows := n, numColumns := m\<rparr>)" "cells_shape n m cs"
      using resize_grow [OF assms, of n m E] by blast
    moreover from this(2) 1 have "grid_ok (g\<lparr>gridItems := cs, numRows := n, numColumns := m\<rparr>)" by (simp add: grid_ok_shape)
    ultimately show ?thesis by (auto simp: resized_def focus_of_def)
  next
    case 2
    then show ?thesis using assms(1) by (intro exI [of _ False]) (simp add: resize_def resized_def)
  next
    case 3
    then have "grid_ok (g\<lparr>gridItems := [], numRows := n, numColumns := m\<rparr>)" by (auto simp: grid_ok_def)
    with resize_to_nothing [OF assms(1) 3] show ?thesis
      by (intro exI [of _ True] exI [of _ "g\<lparr>gridItems := [], numRows := n, numColumns := m\<rparr>"])
         (simp add: resized_def focus_of_def)
  next
    case 4
    then have "resize E n m g = Some (False, g)" unfolding resize_def by (simp only: if_False)
    then show ?thesis using assms(1) by (intro exI [of _ False]) (simp add: resized_def)
  qed
qed

text \<open>
  Resizing keeps every item that fits the new dimensions and fills the rest with new ones.
\<close>

theorem resize_keeps_items:
  assumes "grid_ok g" "has_columns g" "0 < n" "0 < m" "Allocate E n m"
  shows "\<exists>g'. resize E n m g = Some (True, g') \<and> numRows g' = n \<and> numColumns g' = m \<and>
    (\<forall>a b. in_grid a b g' \<longrightarrow>
       get_cell a b (gridItems g') = (if in_grid a b g then get_cell a b (gridItems g) else Some new_grid_item))"
proof -
  obtain cs where r: "resize E n m g = Some (True, g\<lparr>gridItems := cs, numRows := n, numColumns := m\<rparr>)"
    and c: "\<forall>a b. 0 \<le> a \<and> a < m \<and> 0 \<le> b \<and> b < n \<longrightarrow>
      get_cell a b cs = (if in_grid a b g then get_cell a b (gridItems g) else Some new_grid_item)"
    using resize_grow [OF assms] by blast
  show ?thesis by (intro exI conjI, rule r) (use c in \<open>auto simp: in_grid_def\<close>)
qed

lemma resize_keeps_items_witness:
  "\<exists>g'. resize example_env 2 5 (example_grid 0 0) = Some (True, g') \<and> numRows g' = 2 \<and> numColumns g' = 5"
proof -
  have a: "Allocate example_env 2 5" by (simp add: example_env_def base_grid_def)
  have "has_columns (example_grid 0 0)" by (simp add: has_columns_def example_grid_fields)
  from resize_keeps_items [OF _ this _ _ a] show ?thesis using example_grid_fields(1) by fastforce
qed

text \<open>
  Property: adding a column to a grid that has rows but no columns deletes rows that were never
  allocated: \<open>resize\<close> keeps the null pointer for the array of such a grid and then indexes it.
\<close>

theorem column_after_rows_fails:
  assumes "0 < numRows g" "numColumns g = 0" "gridItems g = []" "Allocate E (numRows g) 1"
  shows "AddColumn E insertAt title width alignment g w = None"
proof -
  have "for_cells [0..min (numRows g) (numRows g) - 1] [0..min 1 (numColumns g) - 1] (copy_cell (gridItems g)) s = Some s" for s
  proof -
    have "for_each ys (\<lambda>y. for_each [] (\<lambda>x. copy_cell (gridItems g) x y)) s = Some s" for ys by (induction ys) simp_all
    then show ?thesis using assms(2) by (simp add: for_cells_def)
  qed
  with assms show ?thesis by (simp add: AddColumn_def add32_def in_s32_def resize_def Let_def)
qed

lemma column_after_rows_fails_witness:
  "\<exists>g w. AddRow example_env 0 7 new_grid (example_desk \<lparr>px = 0, py = 0\<rparr>) = Some (g, w) \<and>
     AddColumn example_env 0 ''Name'' 80 0 g w = None"
proof -
  obtain g w where a: "AddRow example_env 0 7 new_grid (example_desk \<lparr>px = 0, py = 0\<rparr>) = Some (g, w)"
    and g: "g = new_grid\<lparr>gridItems := [], numRows := 1, numColumns := 0\<rparr>"
    by (simp add: AddRow_def new_grid_def add32_def in_s32_def resize_def)
  have "AddColumn example_env 0 ''Name'' 80 0 g w = None"
    by (rule column_after_rows_fails) (simp_all add: g example_env_def base_grid_def)
  with a show ?thesis by blast
qed

section \<open>Removing rows\<close>

lemma shift_row:
  assumes "cells_shape n m cs" "0 < n" "0 < m" "0 \<le> y" "y + 1 < n"
  shows "\<exists>cs'. for_each [0..m - 1] (\<lambda>x. shift_cell x y) cs = Some cs' \<and> cells_shape n m cs' \<and>
    (\<forall>a b. get_cell a b cs' = (if b = y then get_cell a (y + 1) cs else get_cell a b cs))"
proof -
  define v where "v a = the (get_cell a (y + 1) cs)" for a
  have below: "get_cell x (y + 1) cs = Some (v x)" if "x \<in> set [0..m - 1]" for x
    using that assms cells.get_has [of x "y + 1" cs] cells_shape_has [OF assms(1-3), of x "y + 1"] by (auto simp: v_def)
  define I where "I cs' \<longleftrightarrow> (\<forall>a. get_cell a (y + 1) cs' = get_cell a (y + 1) cs)" for cs'
  have e: "shift_cell x y cs' = upd_cell x y (\<lambda>_. v x) cs'" if "x \<in> set [0..m - 1]" "I cs'" for x cs'
    using that below by (simp add: shift_cell_def I_def)
  have k: "I cs''" if "I cs'" "upd_cell x y (\<lambda>_. v x) cs' = Some cs''" for x cs' cs''
    using that cells.get_upd [OF that(2)] by (simp add: I_def)
  have "for_each [0..m - 1] (\<lambda>x. shift_cell x y) cs = for_each [0..m - 1] (\<lambda>x. upd_cell x y (\<lambda>_. v x)) cs"
  proof (rule for_each_cong [of I])
    show "I cs" by (simp add: I_def)
  qed (use e k in blast)+
  moreover have h: "\<forall>x\<in>set [0..m - 1]. has_cell x y cs" using assms by (auto simp: cells_shape_has)
  from cells.for_row [OF this, of "\<lambda>x _ _. v x"] obtain cs' where l: "for_each [0..m - 1] (\<lambda>x. upd_cell x y (\<lambda>_. v x)) cs = Some cs'"
    and g: "\<forall>a b. get_cell a b cs' = (if a \<in> set [0..m - 1] \<and> b = y then map_option (\<lambda>_. v a) (get_cell a b cs) else get_cell a b cs)"
    by auto
  moreover have "cells_shape n m cs'" using l assms(1) by (rule for_each_invariant) (auto intro: upd_cell_shape)
  moreover have "get_cell a b cs' = (if b = y then get_cell a (y + 1) cs else get_cell a b cs)" for a b
  proof (cases "a \<in> set [0..m - 1]")
    case True
    then show ?thesis using g below h cells.get_has [of a y cs] by auto
  next
    case False
    then have "\<not> has_cell a y cs" "\<not> has_cell a (y + 1) cs" using assms by (auto simp: cells_shape_has)
    with False show ?thesis using g by (simp add: get_cell_def)
  qed
  ultimately show ?thesis by auto
qed

lemma shift_rows:
  assumes "cells_shape n m cs" "0 < n" "0 < m" "0 \<le> r"
  shows "\<exists>cs'. for_cells [r..n - 2] [0..m - 1] shift_cell cs = Some cs' \<and> cells_shape n m cs' \<and>
    (\<forall>a b. get_cell a b cs' = (if r \<le> b \<and> b \<le> n - 2 then get_cell a (b + 1) cs else get_cell a b cs))"
  using assms(1,4)
proof (induction "nat (n - 1 - r)" arbitrary: r cs)
  case 0
  then have "[r..n - 2] = []" by simp
  with 0 show ?case by (auto simp: for_cells_def)
next
  case (Suc k)
  then have r: "r \<le> n - 2" "[r..n - 2] = r # [r + 1..n - 2]" by (simp_all add: upto_rec1)
  obtain cs1 where s: "for_each [0..m - 1] (\<lambda>x. shift_cell x r) cs = Some cs1" "cells_shape n m cs1"
    and g: "\<forall>a b. get_cell a b cs1 = (if b = r then get_cell a (r + 1) cs else get_cell a b cs)"
    using shift_row [OF Suc.prems(1) assms(2,3) Suc.prems(2)] r(1) by auto
  have "k = nat (n - 1 - (r + 1))" "0 \<le> r + 1" using Suc.hyps(2) Suc.prems(2) by simp_all
  from Suc.hyps(1) [OF this(1) s(2) this(2)] obtain cs' where
    l: "for_cells [r + 1..n - 2] [0..m - 1] shift_cell cs1 = Some cs'" "cells_shape n m cs'"
    and c: "\<forall>a b. get_cell a b cs' = (if r + 1 \<le> b \<and> b \<le> n - 2 then get_cell a (b + 1) cs1 else get_cell a b cs1)" by blast
  have "for_cells [r..n - 2] [0..m - 1] shift_cell cs = Some cs'"
    using s(1) l(1) by (simp add: for_cells_def r(2))
  moreover have "get_cell a b cs' = (if r \<le> b \<and> b \<le> n - 2 then get_cell a (b + 1) cs else get_cell a b cs)" for a b
    using c g r(1) by (cases "b = r"; cases "r + 1 \<le> b \<and> b \<le> n - 2") auto
  ultimately show ?case using l(2) by blast
qed

lemma RemoveRow_shift:
  assumes "grid_ok g" "has_columns g" "0 \<le> r"
  shows "\<exists>cs. for_cells [r..numRows g - 2] (column_range g) shift_cell (gridItems g) = Some cs \<and> grid_ok (g\<lparr>gridItems := cs\<rparr>) \<and>
    (\<forall>a b. get_cell a b cs = (if r \<le> b \<and> b \<le> numRows g - 2 then get_cell a (b + 1) (gridItems g) else get_cell a b (gridItems g)))"
proof (cases "0 < numRows g")
  case True
  then have m: "0 < numColumns g" using assms(2) by (simp add: has_columns_def)
  with True assms(1) have "cells_shape (numRows g) (numColumns g) (gridItems g)" by (simp add: grid_ok_shape)
  from shift_rows [OF this True m assms(3)] show ?thesis using True m by (auto simp: grid_ok_shape column_range_def)
next
  case False
  with assms show ?thesis by (auto simp: for_cells_def grid_ok_def)
qed

text \<open>
  Property: \<open>RemoveRow\<close> moves the rows below up by one and drops the last; an index past the end also
  drops the last row.
\<close>

theorem remove_row_shifts_up:
  assumes "grid_ok g" "0 < numColumns g" "1 < numRows g" "numRows g \<le> INT_MAX" "0 \<le> r"
    and "Allocate E (numRows g - 1) (numColumns g)"
  shows "\<exists>g' w'. RemoveRow E r g w = Some (g', w') \<and> numRows g' = numRows g - 1 \<and> numColumns g' = numColumns g \<and>
    (\<forall>a b. in_grid a b g' \<longrightarrow>
       get_cell a b (gridItems g') = get_cell a (if b < r then b else b + 1) (gridItems g))"
proof -
  have h: "has_columns g" using assms(2) by (simp add: has_columns_def)
  obtain cs where l: "for_cells [r..numRows g - 2] (column_range g) shift_cell (gridItems g) = Some cs"
    and ok: "grid_ok (g\<lparr>gridItems := cs\<rparr>)"
    and c: "\<forall>a b. get_cell a b cs = (if r \<le> b \<and> b \<le> numRows g - 2 then get_cell a (b + 1) (gridItems g) else get_cell a b (gridItems g))"
    using RemoveRow_shift [OF assms(1) h assms(5)] by blast
  let ?g = "g\<lparr>gridItems := cs\<rparr>"
  have "has_columns ?g" using h by (simp add: has_columns_def)
  moreover have "0 < numRows g - 1" using assms(3) by simp
  ultimately obtain cs' where r: "resize E (numRows g - 1) (numColumns g) ?g =
      Some (True, ?g\<lparr>gridItems := cs', numRows := numRows g - 1, numColumns := numColumns g\<rparr>)"
    and g: "\<forall>a b. 0 \<le> a \<and> a < numColumns g \<and> 0 \<le> b \<and> b < numRows g - 1 \<longrightarrow>
      get_cell a b cs' = (if in_grid a b ?g then get_cell a b cs else Some new_grid_item)"
    using resize_grow [OF ok _ _ assms(2,6)] by auto
  have s: "sub32 (numRows g) 1 = Some (numRows g - 1)" using assms(3,4) by (simp add: sub32_def in_s32_def)
  let ?g' = "?g\<lparr>gridItems := cs', numRows := numRows g - 1, numColumns := numColumns g\<rparr>"
  have "get_cell a b cs' = get_cell a (if b < r then b else b + 1) (gridItems g)" if "in_grid a b ?g'" for a b
    using that g [rule_format, of a b] c [rule_format, of a b] by (auto simp: in_grid_def)
  with l s r show ?thesis by (simp add: RemoveRow_def)
qed

lemma remove_row_shifts_up_witness:
  "\<exists>g' w'. RemoveRow example_env 1 (example_grid 0 0) (example_desk \<lparr>px = 0, py = 0\<rparr>) = Some (g', w') \<and> numRows g' = 2"
proof -
  have a: "Allocate example_env (numRows (example_grid 0 0) - 1) (numColumns (example_grid 0 0))"
    by (simp add: example_env_def base_grid_def)
  from remove_row_shifts_up [OF _ _ _ _ _ a, of 1 "example_desk \<lparr>px = 0, py = 0\<rparr>"] show ?thesis
    by (simp add: example_grid_fields) blast
qed

section \<open>Operations that stay in the array\<close>

lemma ClearItems_ok:
  assumes "grid_ok g"
  shows "\<exists>g' w'. ClearItems E g w = Some (g', w') \<and> kept g g'"
proof -
  have "\<exists>g'. for_cells (row_range g) (column_range g) (\<lambda>x y. grid_item_upd x y item_Clear) g = Some g' \<and> same_shape g g' \<and>
      (\<forall>a b. get_cell a b (gridItems g') = (if a \<in> set (column_range g) \<and> b \<in> set (row_range g)
        then map_option item_Clear (get_cell a b (gridItems g)) else get_cell a b (gridItems g)))"
    using assms same_shape_fields
    by (intro grid_updates [where F = "\<lambda>a b. item_Clear"]) (simp_all add: in_grid_def grid_item_upd_def)
  then obtain g' where "for_cells (row_range g) (column_range g) (\<lambda>x y. grid_item_upd x y item_Clear) g = Some g'" "same_shape g g'"
    by blast
  then show ?thesis using same_shape_steady [OF _ assms] by (auto simp: ClearItems_def steady_def)
qed

lemma for_cells_total:
  assumes "I s" "\<And>x y s. x \<in> set xs \<Longrightarrow> y \<in> set ys \<Longrightarrow> I s \<Longrightarrow> \<exists>s'. f x y s = Some s' \<and> I s'"
  shows "\<exists>s'. for_cells ys xs f s = Some s' \<and> I s'"
proof -
  have each: "\<exists>s'. for_each zs h s = Some s' \<and> I s'" if "I s" "\<And>z s. z \<in> set zs \<Longrightarrow> I s \<Longrightarrow> \<exists>s'. h z s = Some s' \<and> I s'"
    for zs :: "int list" and h s
    using that
  proof (induction zs arbitrary: s)
    case (Cons z zs)
    then obtain s1 where "h z s = Some s1" "I s1" by (meson list.set_intros(1))
    with Cons.IH [of s1] Cons.prems(2) show ?case by (auto intro: list.set_intros(2))
  qed simp
  have row: "\<exists>s'. for_each xs (\<lambda>x. f x y) s = Some s' \<and> I s'" if "y \<in> set ys" "I s" for y s
    using that(2) by (rule each) (use assms(2) that(1) in blast)
  show ?thesis unfolding for_cells_def by (rule each [OF assms(1) row])
qed

lemma DeleteSelection_ok:
  assumes "grid_ok g"
  shows "\<exists>g' w'. DeleteSelection E g w = Some (g', w') \<and> kept g g'"
proof -
  have "\<exists>s'. for_cells (row_range g) (column_range g) (delete_cell E) (False, g, w) = Some s' \<and> steady g (fst (snd s'))"
  proof (rule for_cells_total)
    show "steady g (fst (snd (False, g, w)))" using assms by (simp add: steady_refl)
    fix x y and s :: "bool \<times> grid \<times> 'a"
    assume i: "steady g (fst (snd s))"
    obtain b h v where s: "s = (b, h, v)" by (cases s) auto
    then have ok: "grid_ok h" "steady g h" using i by (simp_all add: steady_def kept_def)
    obtain c where c: "grid_item_at x y h = Some c" using grid_item_at_some [OF ok(1)] by blast
    obtain h' where h': "grid_item_upd x y (item_SetText []) h = Some h'" using grid_item_upd_some [OF ok(1)] by blast
    then have "steady g h'" using grid_item_upd_steady [OF ok(1)] steady_trans [OF ok(2)] by blast
    with ok(2) show "\<exists>s'. delete_cell E x y s = Some s' \<and> steady g (fst (snd s'))"
      by (auto simp: delete_cell_def s c h' marked_def split_beta)
  qed
  then show ?thesis by (auto simp: DeleteSelection_def steady_def)
qed

lemma DeselectAll_kept:
  assumes "grid_ok g"
  shows "\<exists>g' w'. DeselectAll E g w = Some (g', w') \<and> kept g g'"
  using DeselectAll_steady [OF assms, of E w] by (auto simp: steady_def)

lemma kept_ok: "kept g g' \<Longrightarrow> grid_ok g'"
  by (simp add: kept_def)

lemma kept_refl: "grid_ok g \<Longrightarrow> kept g g"
  by (simp add: kept_def)

lemma same_shape_kept: "same_shape g g' \<Longrightarrow> grid_ok g \<Longrightarrow> kept g g'"
  using same_shape_steady by (simp add: steady_def)

text \<open>Deselecting when the control key is up, then selecting from the focus to a cell.\<close>

lemma deselect_select_ok:
  assumes "grid_ok g" "shrinks E"
  shows "\<exists>g1 w1. (if \<not> c then DeselectAll E g w else Some (g, w)) = Some (g1, w1) \<and> kept g g1 \<and>
    (\<forall>a b. \<exists>g2. SelectSquare E (focusedX g1) (focusedY g1) a b g1 w1 = Some g2 \<and> kept g g2)"
proof -
  obtain g1 w1 where d: "(if \<not> c then DeselectAll E g w else Some (g, w)) = Some (g1, w1)" and k: "kept g g1"
    using DeselectAll_kept [OF assms(1), of E w] kept_refl [OF assms(1)] by (cases c) auto
  have "\<exists>g2. SelectSquare E (focusedX g1) (focusedY g1) a b g1 w1 = Some g2 \<and> kept g g2" for a b
    using SelectSquare_ok [OF kept_ok [OF k] assms(2)] same_shape_kept [OF _ kept_ok [OF k]] kept_trans [OF k] by blast
  with d k show ?thesis by blast
qed

lemma DragSelectTo_ok:
  assumes "grid_ok g" "shrinks E"
  shows "\<exists>g' w'. DragSelectTo E x y g w = Some (g', w') \<and> kept g g'"
proof -
  obtain g1 w1 where d: "(if \<not> GetKeyState (ctl E) VK_CONTROL w then DeselectAll E g w else Some (g, w)) = Some (g1, w1)"
    and k: "kept g g1" and s: "\<And>a b. \<exists>g2. SelectSquare E (focusedX g1) (focusedY g1) a b g1 w1 = Some g2 \<and> kept g g2"
    using deselect_select_ok [OF assms, of "GetKeyState (ctl E) VK_CONTROL w" w] by blast
  have item: "\<exists>g' w'. (case lv_GetItemAt (ctl E) x y g w of
      Some (row, col) \<Rightarrow> do { (g1, w1) \<leftarrow> (if \<not> GetKeyState (ctl E) VK_CONTROL w then DeselectAll E g w else Some (g, w));
        g2 \<leftarrow> SelectSquare E (focusedX g1) (focusedY g1) col row g1 w1; Some (g2, redraw E g2 w1) }
    | None \<Rightarrow> Some (g, w)) = Some (g', w') \<and> kept g g'"
  proof (cases "lv_GetItemAt (ctl E) x y g w")
    case None
    then show ?thesis using kept_refl [OF assms(1)] by simp
  next
    case (Some p)
    obtain g2 where "SelectSquare E (focusedX g1) (focusedY g1) (snd p) (fst p) g1 w1 = Some g2 \<and> kept g g2" using s by blast
    then show ?thesis unfolding d using Some by (simp add: split_beta)
  qed
  show ?thesis
  proof (cases "contentHitTest E x y g w")
    case None
    then show ?thesis using item by (simp add: DragSelectTo_def Let_def)
  next
    case (Some h)
    show ?thesis
    proof (cases "is_outside h")
      case False
      then show ?thesis using item Some by (simp add: DragSelectTo_def Let_def)
    next
      case True
      have "\<exists>g2. (case border_cell E x y h g1 w1 of Some (a, b) \<Rightarrow> SelectSquare E (focusedX g1) (focusedY g1) a b g1 w1
          | None \<Rightarrow> Some g1) = Some g2 \<and> kept g g2"
        using s k by (cases "border_cell E x y h g1 w1") (simp_all add: split_beta)
      then obtain g2 where "(case border_cell E x y h g1 w1 of Some (a, b) \<Rightarrow> SelectSquare E (focusedX g1) (focusedY g1) a b g1 w1
          | None \<Rightarrow> Some g1) = Some g2" "kept g g2" by blast
      then show ?thesis using True Some d by (simp add: DragSelectTo_def Let_def)
    qed
  qed
qed

lemma gv_MouseMove_ok:
  assumes "grid_ok g" "shrinks E"
  shows "\<exists>g' w'. gv_MouseMove E x y b g w = Some (g', w') \<and> kept g g'"
proof (cases "lButtonDown g \<and> focusedX g \<noteq> - 1 \<and> focusedY g \<noteq> - 1 \<and> b \<and> \<not> editing g \<and> lv_GetItemAt (ctl E) x y g w \<noteq> None")
  case False
  then show ?thesis using kept_refl [OF assms(1)] by (auto simp: gv_MouseMove_def split: option.split)
next
  case True
  then obtain p where p: "lv_GetItemAt (ctl E) x y g w = Some p" by blast
  obtain g1 w1 where d: "(if \<not> GetKeyState (ctl E) VK_CONTROL w then DeselectAll E g w else Some (g, w)) = Some (g1, w1)"
    and s: "\<And>a b. \<exists>g2. SelectSquare E (focusedX g1) (focusedY g1) a b g1 w1 = Some g2 \<and> kept g g2"
    using deselect_select_ok [OF assms, of "GetKeyState (ctl E) VK_CONTROL w" w] by blast
  obtain g2 where "SelectSquare E (focusedX g1) (focusedY g1) (snd p) (fst p) g1 w1 = Some g2 \<and> kept g g2" using s by blast
  then show ?thesis using True p d by (simp add: gv_MouseMove_def split_beta)
qed

lemma gv_MouseHover_ok:
  assumes "grid_ok g" "shrinks E"
  shows "\<exists>g' w'. gv_MouseHover E x y g w = Some (g', w') \<and> kept g g'"
  using DragSelectTo_ok [OF assms, of x y w] kept_refl [OF assms(1)] by (auto simp: gv_MouseHover_def)

lemma gv_LButtonUp_ok:
  assumes "grid_ok g" "shrinks E"
  shows "\<exists>g' w'. gv_LButtonUp E x y g w = Some (g', w') \<and> kept g g'"
proof -
  have ok: "grid_ok (g\<lparr>lButtonDown := False\<rparr>)" using assms(1) by (simp add: grid_ok_def)
  have "kept g g'" if "kept (g\<lparr>lButtonDown := False\<rparr>) g'" for g' using that by (simp add: kept_def)
  then show ?thesis
    using DragSelectTo_ok [OF ok assms(2), of x y "ReleaseCapture (ctl E) w"] kept_refl [OF assms(1)]
    by (fastforce simp: gv_LButtonUp_def)
qed

lemma click_cell_ok:
  assumes "grid_ok g"
  shows "\<exists>g' w'. click_cell E x y g w = Some (g', w') \<and> kept g g'"
proof -
  obtain g1 w1 where d: "DeselectAll E g w = Some (g1, w1)" "kept g g1" using DeselectAll_kept [OF assms, of E w] by blast
  obtain g2 w2 where f: "gv_FocusItem E x y g w = Some (g2, w2)" "kept g g2" using gv_FocusItem_ok [OF assms, of E x y w] by blast
  obtain g3 w3 where f1: "gv_FocusItem E x y g1 w1 = Some (g3, w3)" "kept g1 g3"
    using gv_FocusItem_ok [OF kept_ok [OF d(2)], of E x y w1] by blast
  obtain g4 where q: "SelectSquareTo E x y g w = Some g4" "same_shape g g4" using SelectSquareTo_ok [OF assms, of E x y w] by blast
  obtain g5 where q1: "SelectSquareTo E x y g1 w1 = Some g5" "same_shape g1 g5"
    using SelectSquareTo_ok [OF kept_ok [OF d(2)], of E x y w1] by blast
  obtain c where c: "grid_item_at x y g = Some c" using grid_item_at_some [OF assms] by blast
  obtain g6 where u: "grid_item_upd x y (item_SetSelected False) g = Some g6" using grid_item_upd_some [OF assms] by blast
  have "kept g g6" using grid_item_upd_steady [OF assms u] by (simp add: steady_def)
  moreover have "kept g g3" "kept g g5" using kept_trans [OF d(2)] f1(2) same_shape_kept [OF q1(2) kept_ok [OF d(2)]] by blast+
  moreover have "kept g g4" using same_shape_kept [OF q(2) assms] .
  ultimately show ?thesis using d f f1 q q1 c u kept_refl [OF assms] by (simp add: click_cell_def Let_def)
qed

lemma click_outside_ok:
  assumes "grid_ok g"
  shows "\<exists>g' w'. click_outside E x y g w = Some (g', w') \<and> kept g g'"
proof -
  have ok: "grid_ok (g\<lparr>focusedX := - 1, focusedY := - 1\<rparr>)" using assms by (simp add: grid_ok_def)
  obtain g1 w1 where d: "DeselectAll E (g\<lparr>focusedX := - 1, focusedY := - 1\<rparr>) w = Some (g1, w1)"
    and "kept (g\<lparr>focusedX := - 1, focusedY := - 1\<rparr>) g1" using DeselectAll_kept [OF ok, of E w] by blast
  then have k: "kept g g1" by (simp add: kept_def)
  have f: "\<exists>g2 w2. gv_FocusItem E a b g1 w1 = Some (g2, w2) \<and> kept g g2" for a b
    using gv_FocusItem_ok [OF kept_ok [OF k], of E a b w1] kept_trans [OF k] by blast
  then have "\<exists>g2 w2. (case p of Some (a, b) \<Rightarrow> gv_FocusItem E a b g1 w1 | None \<Rightarrow> Some (g1, w1)) = Some (g2, w2) \<and> kept g g2" for p
    using k by (cases p) (simp_all add: split_beta)
  then show ?thesis using k d by (simp add: click_outside_def split: option.split)
qed

lemma gv_LButtonDown_ok:
  assumes "grid_ok g"
  shows "\<exists>g' w'. gv_LButtonDown E x y g w = Some (g', w') \<and> kept g g'"
proof -
  have "\<exists>g1 w1. FocusGrid E g w = Some (g1, w1) \<and> kept g g1"
    using EndEditing_ok [OF assms, of E "snd (FocusThis (ctl E) g w)"] kept_refl [OF assms]
    by (auto simp: FocusGrid_def split_beta steady_def)
  then obtain g1 w1 where f: "FocusGrid E g w = Some (g1, w1)" "kept g g1" by blast
  have drag: "kept g (fst (start_drag E h v))" if "kept g h" for h v
  proof -
    have "grid_ok (h\<lparr>lButtonDown := True\<rparr>)" using kept_ok [OF that] by (simp add: grid_ok_def)
    then show ?thesis using that by (simp add: start_drag_def Let_def kept_def)
  qed
  show ?thesis
  proof (cases "lv_GetItemAt (ctl E) x y g1 w1")
    case None
    obtain g3 w3 where c: "click_outside E x y g1 w1 = Some (g3, w3)" "kept g1 g3"
      using click_outside_ok [OF kept_ok [OF f(2)], of E x y w1] by blast
    have "gv_LButtonDown E x y g w = Some (start_drag E g3 (redraw E g3 w3))"
      using None f(1) c(1) by (simp add: gv_LButtonDown_def)
    with drag [OF kept_trans [OF f(2) c(2)]] show ?thesis by (metis prod.collapse)
  next
    case (Some p)
    obtain g3 w3 where c: "click_cell E (snd p) (fst p) g1 (CellClicked E (snd p) (fst p) w1) = Some (g3, w3)" "kept g1 g3"
      using click_cell_ok [OF kept_ok [OF f(2)], of E "snd p" "fst p" "CellClicked E (snd p) (fst p) w1"] by blast
    show ?thesis
    proof (cases "allowSel E (snd p) (fst p) (CellClicked E (snd p) (fst p) w1)")
      case True
      then have "gv_LButtonDown E x y g w = Some (start_drag E g3 (redraw E g3 w3))"
        using Some f(1) c(1) by (simp add: gv_LButtonDown_def split_beta Let_def)
      with drag [OF kept_trans [OF f(2) c(2)]] show ?thesis by (metis prod.collapse)
    next
      case False
      then show ?thesis using Some f by (simp add: gv_LButtonDown_def split_beta Let_def)
    qed
  qed
qed

section \<open>Sequences of operations\<close>

text \<open>The operations of the grid whose results do not depend on arithmetic on the system's rectangles.\<close>

datatype grid_op =
    OpAddColumn int string int int
  | OpAddRow int int
  | OpRemoveRow int
  | OpDeleteAllItems
  | OpDeselectAll
  | OpClearItems
  | OpDeleteSelection
  | OpSelectSquare int int int int
  | OpSelectSquareTo int int
  | OpFocusItem int int
  | OpEndEditing
  | OpKeyDown int
  | OpLButtonDown int int
  | OpMouseMove int int bool
  | OpMouseHover int int
  | OpLButtonUp int int

fun grid_step :: "'w grid_env \<Rightarrow> grid_op \<Rightarrow> grid \<Rightarrow> 'w \<Rightarrow> (grid \<times> 'w) option" where
  "grid_step E (OpAddColumn i t n al) g w = map_option (\<lambda>(_, g1, w1). (g1, w1)) (AddColumn E i t n al g w)"
| "grid_step E (OpAddRow n p) g w = AddRow E n p g w"
| "grid_step E (OpRemoveRow r) g w = RemoveRow E r g w"
| "grid_step E OpDeleteAllItems g w = map_option (\<lambda>(_, g1, w1). (g1, w1)) (gv_DeleteAllItems E g w)"
| "grid_step E OpDeselectAll g w = DeselectAll E g w"
| "grid_step E OpClearItems g w = ClearItems E g w"
| "grid_step E OpDeleteSelection g w = DeleteSelection E g w"
| "grid_step E (OpSelectSquare a b c d) g w = map_option (\<lambda>g1. (g1, w)) (SelectSquare E a b c d g w)"
| "grid_step E (OpSelectSquareTo a b) g w = map_option (\<lambda>g1. (g1, w)) (SelectSquareTo E a b g w)"
| "grid_step E (OpFocusItem a b) g w = gv_FocusItem E a b g w"
| "grid_step E OpEndEditing g w = EndEditing E g w"
| "grid_step E (OpKeyDown k) g w = gv_KeyDown E k g w"
| "grid_step E (OpLButtonDown a b) g w = gv_LButtonDown E a b g w"
| "grid_step E (OpMouseMove a b l) g w = gv_MouseMove E a b l g w"
| "grid_step E (OpMouseHover a b) g w = gv_MouseHover E a b g w"
| "grid_step E (OpLButtonUp a b) g w = gv_LButtonUp E a b g w"

fun grid_run :: "'w grid_env \<Rightarrow> grid_op list \<Rightarrow> grid \<Rightarrow> 'w \<Rightarrow> (grid \<times> 'w) option" where
  "grid_run E [] g w = Some (g, w)"
| "grid_run E (x # xs) g w = do { (g1, w1) \<leftarrow> grid_step E x g w; grid_run E xs g1 w1 }"

text \<open>What the caller has to keep to: rows are added with a column, a removed row is not negative.\<close>

definition op_valid :: "grid_op \<Rightarrow> bool" where
  "op_valid x = (case x of
     OpAddColumn i t n al \<Rightarrow> 0 \<le> i \<and> i < 1000000
   | OpAddRow n p \<Rightarrow> 1 \<le> n \<and> n \<le> 1000000
   | OpRemoveRow r \<Rightarrow> 0 \<le> r
   | _ \<Rightarrow> True)"

definition grid_bounded :: "int \<Rightarrow> grid \<Rightarrow> bool" where
  "grid_bounded k g \<longleftrightarrow> grid_ok g \<and> has_columns g \<and> - k \<le> numRows g \<and> numRows g \<le> k \<and>
     0 \<le> numColumns g \<and> numColumns g \<le> 1000000 + k"

lemma kept_bounded: "grid_bounded k g \<Longrightarrow> kept g g' \<Longrightarrow> grid_bounded (k + 1) g'"
  by (simp add: grid_bounded_def kept_def has_columns_def)

lemma gv_KeyDown_ok:
  assumes "grid_ok g"
  shows "\<exists>g' w'. gv_KeyDown E k g w = Some (g', w') \<and> kept g g'"
proof -
  have n: "\<exists>g' w'. h E g w = Some (g', w') \<and> kept g g'"
    if "h \<in> {LeftArrowKey, UpArrowKey, RightArrowKey, DownArrowKey, TabKey, EnterKey, DeleteSelection}" for h
    using that key_nav_ok [OF assms] DeleteSelection_ok [OF assms]
    by (auto simp: LeftArrowKey_def UpArrowKey_def RightArrowKey_def DownArrowKey_def TabKey_def EnterKey_def)
  have r: "\<exists>g' w'. do { (g1, w1) \<leftarrow> h E g w; Some (g1, redraw E g1 w1) } = Some (g', w') \<and> kept g g'"
    if "h \<in> {LeftArrowKey, UpArrowKey, RightArrowKey, DownArrowKey, TabKey, EnterKey, DeleteSelection}" for h
    using n [OF that] by auto
  show ?thesis unfolding gv_KeyDown_def Let_def using r kept_refl [OF assms] by auto
qed

lemma resized_bounded:
  assumes "grid_bounded k g" "resized n m ok g g'" "0 < n \<longrightarrow> 0 < m" "- (k + 1) \<le> n" "n \<le> k + 1" "0 \<le> m" "m \<le> 1000000 + (k + 1)"
  shows "grid_bounded (k + 1) g'"
  using assms by (cases ok) (auto simp: resized_def grid_bounded_def has_columns_def)

lemma AddColumn_ok:
  assumes "grid_bounded k g" "0 \<le> k" "k \<le> 1000000" "0 \<le> i" "i < 1000000"
  shows "\<exists>ok g' w'. AddColumn E i t n al g w = Some (ok, g', w') \<and> grid_bounded (k + 1) g'"
proof -
  from assms(1) have g: "grid_ok g" "has_columns g" "0 \<le> numColumns g" "numColumns g \<le> 1000000 + k"
    "- k \<le> numRows g" "numRows g \<le> k" by (simp_all add: grid_bounded_def)
  obtain ok g1 where r: "resize E (numRows g) (numColumns g + 1) g = Some (ok, g1)"
    "resized (numRows g) (numColumns g + 1) ok g g1" using resize_ok [OF g(1,2)] by blast
  have b: "grid_bounded (k + 1) g1" using resized_bounded [OF assms(1) r(2)] g assms(2) by simp
  have "add32 (numColumns g) 1 = Some (numColumns g + 1)" "add32 i 1 = Some (i + 1)"
    using g assms by (simp_all add: add32_def in_s32_def)
  then show ?thesis using r(1) b by (cases ok) (auto simp: AddColumn_def lv_AddColumn_def split_beta Let_def)
qed

lemma AddRow_ok:
  assumes "grid_bounded k g" "0 \<le> k" "k \<le> 1000000" "1 \<le> n" "n \<le> 1000000"
  shows "\<exists>g' w'. AddRow E n p g w = Some (g', w') \<and> grid_bounded (k + 1) g'"
proof -
  from assms(1) have g: "grid_ok g" "has_columns g" "0 \<le> numColumns g" "numColumns g \<le> 1000000 + k"
    "- k \<le> numRows g" "numRows g \<le> k" by (simp_all add: grid_bounded_def)
  obtain ok g1 where r: "resize E (numRows g + 1) (max (numColumns g) n) g = Some (ok, g1)"
    "resized (numRows g + 1) (max (numColumns g) n) ok g g1" using resize_ok [OF g(1,2)] by blast
  have "grid_bounded (k + 1) g1" by (rule resized_bounded [OF assms(1) r(2)]) (use g assms in auto)
  moreover have "add32 (numRows g) 1 = Some (numRows g + 1)" using g assms by (simp add: add32_def in_s32_def)
  ultimately show ?thesis using r(1) by (simp add: AddRow_def)
qed

lemma RemoveRow_ok:
  assumes "grid_bounded k g" "0 \<le> k" "k \<le> 1000000" "0 \<le> r"
  shows "\<exists>g' w'. RemoveRow E r g w = Some (g', w') \<and> grid_bounded (k + 1) g'"
proof -
  from assms(1) have g: "grid_ok g" "has_columns g" "0 \<le> numColumns g" "numColumns g \<le> 1000000 + k"
    "- k \<le> numRows g" "numRows g \<le> k" by (simp_all add: grid_bounded_def)
  obtain cs where l: "for_cells [r..numRows g - 2] (column_range g) shift_cell (gridItems g) = Some cs"
    and ok: "grid_ok (g\<lparr>gridItems := cs\<rparr>)" using RemoveRow_shift [OF g(1,2) assms(4)] by blast
  let ?g = "g\<lparr>gridItems := cs\<rparr>"
  have h: "has_columns ?g" "grid_bounded k ?g" using g ok by (simp_all add: has_columns_def grid_bounded_def)
  obtain b g1 where z: "resize E (numRows g - 1) (numColumns g) ?g = Some (b, g1)"
    "resized (numRows g - 1) (numColumns g) b ?g g1" using resize_ok [OF ok h(1)] by blast
  have "grid_bounded (k + 1) g1"
    by (rule resized_bounded [OF h(2) z(2)]) (use g assms(2) in \<open>auto simp: has_columns_def\<close>)
  moreover have "sub32 (numRows g) 1 = Some (numRows g - 1)" using g assms by (simp add: sub32_def in_s32_def)
  ultimately show ?thesis using l z(1) by (simp add: RemoveRow_def)
qed

lemma DeleteAllItems_ok:
  assumes "grid_bounded k g" "0 \<le> k"
  shows "\<exists>ok g' w'. gv_DeleteAllItems E g w = Some (ok, g', w') \<and> grid_bounded (k + 1) g'"
proof -
  from assms(1) have g: "grid_ok g" "0 \<le> numColumns g" "numColumns g \<le> 1000000 + k" by (simp_all add: grid_bounded_def)
  have "grid_bounded (k + 1) (g\<lparr>gridItems := [], numRows := 0, numColumns := numColumns g\<rparr>)"
    using g assms(2) by (simp add: grid_bounded_def grid_ok_def has_columns_def)
  moreover have "grid_bounded (k + 1) g" using assms by (simp add: grid_bounded_def)
  ultimately show ?thesis
    by (cases "lv_DeleteAllItems (ctl E) g w") (auto simp: gv_DeleteAllItems_def resize_to_nothing [OF g(1)])
qed

lemma grid_step_ok:
  assumes "grid_bounded k g" "0 \<le> k" "k \<le> 1000000" "op_valid x" "shrinks E"
  shows "\<exists>g' w'. grid_step E x g w = Some (g', w') \<and> grid_bounded (k + 1) g'"
proof -
  have ok: "grid_ok g" using assms(1) by (simp add: grid_bounded_def)
  have k: "\<exists>g' w'. f = Some (g', w') \<and> grid_bounded (k + 1) g'" if "\<exists>g' w'. f = Some (g', w') \<and> kept g g'"
    for f :: "(grid \<times> 'a) option" using that kept_bounded [OF assms(1)] by blast
  have s: "\<exists>g'. f = Some g' \<and> grid_bounded (k + 1) g'"
    if "\<exists>g'. f = Some g' \<and> same_shape g g'" for f
    using that same_shape_kept [OF _ ok] kept_bounded [OF assms(1)] by auto
  show ?thesis
  proof (cases x)
    case (OpAddColumn i t n al)
    with assms(4) AddColumn_ok [OF assms(1-3), of i E t n al w] show ?thesis by (auto simp: op_valid_def)
  next
    case (OpAddRow n p)
    with assms(4) AddRow_ok [OF assms(1-3), of n E p w] show ?thesis by (simp add: op_valid_def)
  next
    case (OpRemoveRow r)
    with assms(4) RemoveRow_ok [OF assms(1-3), of r E w] show ?thesis by (simp add: op_valid_def)
  next
    case OpDeleteAllItems
    with DeleteAllItems_ok [OF assms(1,2), of E w] show ?thesis by auto
  next
    case OpEndEditing
    have "\<exists>g' w'. EndEditing E g w = Some (g', w') \<and> kept g g'" using EndEditing_ok [OF ok, of E w] steady_kept by blast
    with OpEndEditing k show ?thesis by simp
  next
    case (OpSelectSquare a b c d)
    then show ?thesis using s [OF SelectSquare_ok [OF ok assms(5), of a b c d w]] by auto
  next
    case (OpSelectSquareTo a b)
    then show ?thesis using s [OF SelectSquareTo_ok [OF ok, of E a b w]] by auto
  qed (simp_all only: grid_step.simps; rule k; rule DeselectAll_kept ClearItems_ok DeleteSelection_ok gv_FocusItem_ok gv_KeyDown_ok
      gv_LButtonDown_ok gv_MouseMove_ok gv_MouseHover_ok gv_LButtonUp_ok; rule ok assms(5))+
qed

lemma grid_run_ok:
  assumes "grid_bounded k g" "0 \<le> k" "k + int (length xs) \<le> 1000000" "list_all op_valid xs" "shrinks E"
  shows "\<exists>g' w'. grid_run E xs g w = Some (g', w') \<and> grid_bounded (k + int (length xs)) g'"
  using assms(1-4)
proof (induction xs arbitrary: k g w)
  case (Cons x xs)
  then obtain g1 w1 where s: "grid_step E x g w = Some (g1, w1)" "grid_bounded (k + 1) g1"
    using grid_step_ok [OF Cons.prems(1), of x E w] assms(5) by auto
  from Cons.IH [OF s(2), of w1] Cons.prems s(1) show ?case by (simp add: algebra_simps)
qed simp



end
