(* ===== verification/Grid_Cases.thy ===== *)
theory Grid_Cases
  imports Grid_Shape
begin

text \<open>
  The grid together with its edit box, the test for a rectangular selection, and a click that keeps
  the mouse.
\<close>

section \<open>Leaving an edit with an arrow key\<close>

lemma find_in_set: "find P xs = Some p \<Longrightarrow> p \<in> set xs"
  by (induction xs) (auto split: if_splits)

lemma find_exists: "p \<in> set xs \<Longrightarrow> P p \<Longrightarrow> \<exists>q. find P xs = Some q"
  by (induction xs) auto

lemma FocusItem_texts:
  assumes "grid_ok g" "\<not> editing g" "\<not> ending g" "gv_FocusItem E x y g w = Some (g', w')"
  shows "cell_text a b g' = cell_text a b g \<and> editing g' = editing g"
proof (cases "in_grid x y g \<and> allowSel E x y w \<and> (x \<noteq> focusedX g \<or> y \<noteq> focusedY g)")
  case False
  with assms show ?thesis by (auto simp: gv_FocusItem_def EndEditing_idle)
next
  case True
  let ?g = "g\<lparr>focusedX := x, focusedY := y\<rparr>"
  have "in_grid x y ?g" using True by (simp add: in_grid_def)
  with True assms have c: "grid_cell x y (item_SetSelected True) ?g = Some g'"
    by (auto simp: gv_FocusItem_def EndEditing_idle grid_item_upd_inside elim!: bind_eq_SomeE)
  have "get_cell a b (gridItems g') = (if a = x \<and> b = y then map_option (item_SetSelected True) (get_cell a b (gridItems ?g))
      else get_cell a b (gridItems ?g))" using grid_cells.get_upd [OF c] .
  then have "cell_text a b g' = cell_text a b g"
    by (cases "get_cell a b (gridItems g)") (auto simp: cell_text_def item_SetSelected_def)
  then show ?thesis using same_shape_fields(5) [OF grid_cell_same_shape [OF c]] by simp
qed

lemma focus_first_texts:
  assumes "grid_ok g" "\<not> editing g" "\<not> ending g" "focus_first E cs g w = Some (g', w')"
  shows "cell_text a b g' = cell_text a b g \<and> editing g' = editing g"
proof (cases "find (\<lambda>(x, y). allowSel E x y w) cs")
  case None
  then show ?thesis using assms(4) by (simp add: focus_first_def)
next
  case (Some p)
  then have "gv_FocusItem E (fst p) (snd p) g w = Some (g', w')" using assms(4) by (simp add: focus_first_def split_beta)
  then show ?thesis by (rule FocusItem_texts [OF assms(1-3)])
qed

text \<open>\<open>end_edit_stores_text\<close> for the text of a cell, with the text as it was typed.\<close>

lemma EndEditing_text:
  assumes "grid_ok g" "\<not> ending g" "editing g" "in_grid (focusedX g) (focusedY g) g"
    and "GetWinText (ctl E) (editBox g) w = Some s" "fst (ctl_DestroyThis (ctl E) (editBox g) w)"
    and "\<And>h i j v. fst (ItemChanging E h i j s v) = 1 \<and> fst (snd (ItemChanging E h i j s v)) = s"
  shows "\<exists>g' w'. EndEditing E g w = Some (g', w') \<and> steady g g' \<and> \<not> editing g' \<and>
    cell_text (focusedX g) (focusedY g) g' = Some s"
proof -
  obtain box w1 where d: "ctl_DestroyThis (ctl E) (editBox g) w = (True, box, w1)"
    using assms(6) by (cases "ctl_DestroyThis (ctl E) (editBox g) w") auto
  let ?g = "g\<lparr>ending := True, editBox := box, editing := False\<rparr>"
  have ok: "grid_ok ?g" using assms(1) by (simp add: grid_ok_def)
  have inside: "in_grid (focusedX g) (focusedY g) ?g" using assms(4) by (simp add: in_grid_def)
  obtain w2 where i: "ItemChanging E (getParent (desktop (ctl E)) ?g w1) (lo16 (focusedX ?g)) (lo16 (focusedY ?g)) s w1 = (1, s, w2)"
    using assms(7) [of "getParent (desktop (ctl E)) ?g w1" "lo16 (focusedX ?g)" "lo16 (focusedY ?g)" w1] by (metis prod.collapse)
  obtain g' where u: "grid_item_upd (focusedX ?g) (focusedY ?g) (item_SetText s) ?g = Some g'"
    using grid_item_upd_some [OF ok] by blast
  then have c: "grid_cell (focusedX g) (focusedY g) (item_SetText s) ?g = Some g'"
    using inside by (simp add: grid_item_upd_inside)
  obtain v where v: "get_cell (focusedX g) (focusedY g) (gridItems g) = Some v" using cell_exists [OF assms(1,4)] by blast
  have t: "cell_text (focusedX g) (focusedY g) g' = Some s"
    using grid_cells.get_upd [OF c, of "focusedX g" "focusedY g"] v by (simp add: cell_text_def item_SetText_def)
  have st: "store_edit E (GetWinText (ctl E) (editBox g) w) ?g w1 = Some (g', w2)"
    using assms(5) i u by (simp add: store_edit_def)
  have e: "\<not> editing g'" "steady ?g g'" using grid_item_upd_steady [OF ok u] by simp_all
  then have "grid_ok g'" by (simp add: steady_def kept_def)
  then have "grid_ok (g'\<lparr>ending := False\<rparr>)" by (simp add: grid_ok_def)
  then have "steady g (g'\<lparr>ending := False\<rparr>)" using e(2) assms(2) by (simp add: steady_def kept_def)
  moreover have "EndEditing E g w = Some (g'\<lparr>ending := False\<rparr>,
      snd (notify E GridEditEnd (focusedX g') (focusedY g') g' (redraw E g' w2)))"
    using EndEditing_editing [OF assms(2,3) d] st by (simp add: Let_def)
  ultimately show ?thesis using e(1) t by (simp add: cell_text_def)
qed



section \<open>Rectangular selections\<close>

definition mk :: "grid \<Rightarrow> int \<times> int \<Rightarrow> bool" where
  "mk g p \<longleftrightarrow> in_grid (fst p) (snd p) g \<and> (isFocused (fst p) (snd p) g \<or> is_selected (fst p) (snd p) g)"

lemma marked_mk:
  assumes "grid_ok g" "in_grid x y g"
  shows "marked x y g = Some (mk g (x, y))"
  using cell_exists [OF assms] assms(2) by (auto simp: marked_def grid_item_at_def mk_def is_selected_def)

lemma find_first_total: "(\<And>x. x \<in> set xs \<Longrightarrow> P x = Some (Q x)) \<Longrightarrow> find_first P xs = Some (find Q xs)"
  by (induction xs) simp_all

lemma find_marked_find:
  assumes "grid_ok g" "set ys \<subseteq> set (row_range g)" "set xs \<subseteq> set (column_range g)"
  shows "find_marked ys xs g = Some (find (mk g) (cells_of ys xs))"
  unfolding find_marked_def
proof (rule find_first_total)
  fix p assume "p \<in> set (cells_of ys xs)"
  moreover obtain x y where p: "p = (x, y)" by (cases p)
  ultimately have "in_grid x y g" using assms(2,3) by (auto simp: cells_of_set in_grid_def dest!: subsetD)
  then show "(case p of (x, y) \<Rightarrow> marked x y g) = Some (mk g p)" using marked_mk [OF assms(1)] p by simp
qed

lemma cells_of_rev: "cells_of (rev ys) (rev xs) = rev (cells_of ys xs)"
  by (simp add: cells_of_def rev_concat rev_map o_def)

text \<open>The first and the last marked cell in reading order.\<close>

lemma find_extreme:
  assumes "mk g p" "\<And>q. mk g q \<Longrightarrow> reading_position g p \<le> reading_position g q"
  shows "find (mk g) (cells_of (row_range g) (column_range g)) = Some p"
proof -
  let ?cs = "cells_of (row_range g) (column_range g)"
  have s: "sorted_wrt (\<lambda>p q. reading_position g p < reading_position g q) ?cs"
    by (rule cells_of_sorted) (simp_all add: row_range_def column_range_def)
  have i: "p \<in> set ?cs" using assms(1) by (cases p) (auto simp: mk_def in_grid_def cells_of_set)
  then obtain q where q: "find (mk g) ?cs = Some q" using find_exists [where P = "mk g", OF i assms(1)] by blast
  from find_sorted [OF q s] i assms have "p = q" by (metis leD)
  with q show ?thesis by simp
qed

lemma find_extreme_rev:
  assumes "mk g p" "\<And>q. mk g q \<Longrightarrow> reading_position g q \<le> reading_position g p"
  shows "find (mk g) (cells_of (rev (row_range g)) (rev (column_range g))) = Some p"
proof -
  let ?cs = "cells_of (row_range g) (column_range g)"
  have "sorted_wrt (\<lambda>p q. reading_position g p < reading_position g q) ?cs"
    by (rule cells_of_sorted) (simp_all add: row_range_def column_range_def)
  then have s: "sorted_wrt (\<lambda>p q. reading_position g q < reading_position g p) (rev ?cs)" by (simp add: sorted_wrt_rev)
  have i: "p \<in> set (rev ?cs)" using assms(1) by (cases p) (auto simp: mk_def in_grid_def cells_of_set)
  then obtain q where q: "find (mk g) (rev ?cs) = Some q" using find_exists [where P = "mk g", OF i assms(1)] by blast
  from find_sorted [OF q s] i assms have "p = q" by (metis leD)
  with q show ?thesis by (simp add: cells_of_rev)
qed

text \<open>The answer from the first and last marked cell: the last row and column are not looked at for holes.\<close>

lemma rectangular_by_corners:
  assumes "grid_ok g" "mk g (a, b)" "mk g (c, d)" "a \<le> c"
    and "\<And>q. mk g q \<Longrightarrow> reading_position g (a, b) \<le> reading_position g q \<and> reading_position g q \<le> reading_position g (c, d)"
    and "\<And>x y. mk g (x, y) \<Longrightarrow> a \<le> x \<and> x \<le> c \<and> b \<le> y \<and> y \<le> d"
  shows "isSelectionRectangular g = Some (\<forall>x y. a \<le> x \<and> x < c \<and> b \<le> y \<and> y < d \<longrightarrow> mk g (x, y))"
proof -
  let ?cs = "cells_of (row_range g) (column_range g)"
  have tl: "find_marked (row_range g) (column_range g) g = Some (Some (a, b))"
    using find_extreme [OF assms(2)] assms(5) by (simp add: find_marked_find [OF assms(1)])
  have br: "find_marked (rev (row_range g)) (rev (column_range g)) g = Some (Some (c, d))"
    using find_extreme_rev [OF assms(3)] assms(5) by (simp add: find_marked_find [OF assms(1)])
  have in1: "in_grid a b g" "in_grid c d g" using assms(2,3) by (simp_all add: mk_def)
  have "find_first (\<lambda>(x, y). map_option (\<lambda>m. m \<and> (x < a \<or> x > c \<or> y < b \<or> y > d)) (marked x y g)) ?cs
      = Some (find (\<lambda>p. mk g p \<and> (fst p < a \<or> fst p > c \<or> snd p < b \<or> snd p > d)) ?cs)"
    using marked_mk [OF assms(1)] by (intro find_first_total) (auto simp: cells_of_set in_grid_def)
  also have "find (\<lambda>p. mk g p \<and> (fst p < a \<or> fst p > c \<or> snd p < b \<or> snd p > d)) ?cs = None"
    using assms(6) by (force simp: find_None_iff)
  finally have out: "find_first (\<lambda>(x, y). map_option (\<lambda>m. m \<and> (x < a \<or> x > c \<or> y < b \<or> y > d)) (marked x y g)) ?cs = Some None" .
  have hole: "find_first (\<lambda>(x, y). map_option Not (marked x y g)) (cells_of [b..d - 1] [a..c - 1])
      = Some (find (\<lambda>p. \<not> mk g p) (cells_of [b..d - 1] [a..c - 1]))"
    using marked_mk [OF assms(1)] in1 by (intro find_first_total) (auto simp: cells_of_set in_grid_def)
  have "find (\<lambda>p. \<not> mk g p) (cells_of [b..d - 1] [a..c - 1]) = None \<longleftrightarrow>
      (\<forall>x y. a \<le> x \<and> x < c \<and> b \<le> y \<and> y < d \<longrightarrow> mk g (x, y))"
    by (auto simp: find_None_iff cells_of_set)
  with in1 assms(4) show ?thesis
    by (simp add: isSelectionRectangular_def tl br out hole in_grid_def)
qed

text \<open>
  Property: a selection that is a rectangle is recognised as one.
\<close>

theorem rectangle_is_recognised:
  assumes "grid_ok g" "in_grid a b g" "in_grid c d g" "a \<le> c" "b \<le> d"
    and "\<And>x y. mk g (x, y) \<longleftrightarrow> a \<le> x \<and> x \<le> c \<and> b \<le> y \<and> y \<le> d"
  shows "isSelectionRectangular g = Some True"
proof -
  have order: "reading_position g (a, b) \<le> reading_position g (x, y) \<and> reading_position g (x, y) \<le> reading_position g (c, d)"
    if "a \<le> x" "x \<le> c" "b \<le> y" "y \<le> d" for x y
  proof -
    have "0 \<le> numColumns g" using assms(2) by (simp add: in_grid_def)
    then have "b * numColumns g \<le> y * numColumns g" "y * numColumns g \<le> d * numColumns g"
      using that by (simp_all add: mult_right_mono)
    with that show ?thesis by (simp add: reading_position_def)
  qed
  have "isSelectionRectangular g = Some (\<forall>x y. a \<le> x \<and> x < c \<and> b \<le> y \<and> y < d \<longrightarrow> mk g (x, y))"
  proof (rule rectangular_by_corners [OF assms(1)])
    show "mk g (a, b)" "mk g (c, d)" "a \<le> c" using assms(4-6) by simp_all
    show "reading_position g (a, b) \<le> reading_position g q \<and> reading_position g q \<le> reading_position g (c, d)"
      if "mk g q" for q using that order assms(6) by (cases q) simp
    show "a \<le> x \<and> x \<le> c \<and> b \<le> y \<and> y \<le> d" if "mk g (x, y)" for x y using that assms(6) by simp
  qed
  moreover have "\<forall>x y. a \<le> x \<and> x < c \<and> b \<le> y \<and> y < d \<longrightarrow> mk g (x, y)" using assms(6) by simp
  ultimately show ?thesis by simp
qed

lemma example_grid_mk: "mk (example_grid x y) p \<longleftrightarrow> p = (x, y) \<and> in_grid x y (example_grid x y)"
proof -
  have "\<not> is_selected a b (example_grid x y)" for a b
  proof (cases "get_cell a b (gridItems (example_grid x y))")
    case (Some c)
    then have h: "has_cell a b (gridItems (example_grid x y))" using cells.get_has by blast
    then have "in_grid a b (example_grid x y)" by (simp add: grid_ok_cell example_grid_fields)
    then have "c = new_grid_item" using Some h
      by (simp add: get_cell_def in_grid_def example_grid_fields) (auto simp: example_grid_def nth_replicate nat_less_iff)
    then show ?thesis using Some by (simp add: is_selected_def new_grid_item_def)
  qed (simp add: is_selected_def)
  then show ?thesis by (cases p) (auto simp: mk_def isFocused_def example_grid_fields)
qed

lemma rectangle_is_recognised_witness: "isSelectionRectangular (example_grid 1 2) = Some True"
  by (rule rectangle_is_recognised [of _ 1 2 1 2]) (auto simp: example_grid_fields example_grid_mk)

text \<open>
  Two cells that touch only at a corner count as a rectangular selection, because the search
  for holes leaves out the last row and column.
\<close>

theorem diagonal_counts_as_rectangle:
  assumes "grid_ok g" "in_grid a b g" "in_grid (a + 1) (b + 1) g" "\<And>p. mk g p \<longleftrightarrow> p = (a, b) \<or> p = (a + 1, b + 1)"
  shows "isSelectionRectangular g = Some True \<and> \<not> mk g (a, b + 1) \<and> \<not> mk g (a + 1, b)"
proof -
  have n: "0 < numColumns g" using assms(2) by (simp add: in_grid_def)
  have "isSelectionRectangular g = Some (\<forall>x y. a \<le> x \<and> x < a + 1 \<and> b \<le> y \<and> y < b + 1 \<longrightarrow> mk g (x, y))"
  proof (rule rectangular_by_corners [OF assms(1)])
    show "mk g (a, b)" "mk g (a + 1, b + 1)" "a \<le> a + 1" using assms(4) by simp_all
    show "reading_position g (a, b) \<le> reading_position g q \<and> reading_position g q \<le> reading_position g (a + 1, b + 1)"
      if "mk g q" for q using that n by (auto simp: assms(4) reading_position_def algebra_simps)
    show "a \<le> x \<and> x \<le> a + 1 \<and> b \<le> y \<and> y \<le> b + 1" if "mk g (x, y)" for x y using that by (auto simp: assms(4))
  qed
  moreover have "x = a \<and> y = b" if "a \<le> x \<and> x < a + 1 \<and> b \<le> y \<and> y < b + 1" for x y using that by simp
  ultimately show ?thesis using assms(4) by auto
qed

definition diagonal_grid :: grid where
  "diagonal_grid = (example_grid 0 0)\<lparr>gridItems := [
     [new_grid_item, new_grid_item, new_grid_item],
     [new_grid_item, new_grid_item\<lparr>itemSelected := True\<rparr>, new_grid_item],
     [new_grid_item, new_grid_item, new_grid_item]]\<rparr>"

lemma diagonal_counts_as_rectangle_witness:
  "isSelectionRectangular diagonal_grid = Some True \<and> \<not> mk diagonal_grid (0, 1) \<and> \<not> mk diagonal_grid (1, 0)"
proof -
  have i: "in_grid x y diagonal_grid \<longleftrightarrow> x \<in> {0, 1, 2} \<and> y \<in> {0, 1, 2}" for x y
    by (auto simp: diagonal_grid_def in_grid_def example_grid_def)
  have f: "isFocused x y diagonal_grid \<longleftrightarrow> x = 0 \<and> y = 0" for x y
    by (simp add: diagonal_grid_def isFocused_def example_grid_def)
  have "is_selected x y diagonal_grid \<longleftrightarrow> x = 1 \<and> y = 1" if "x \<in> {0, 1, 2}" "y \<in> {0, 1, 2}" for x y
    using that by (auto simp: diagonal_grid_def is_selected_def get_cell_def has_cell_def new_grid_item_def numeral_eq_Suc)
  then have m: "mk diagonal_grid p \<longleftrightarrow> p = (0, 0) \<or> p = (0 + 1, 0 + 1)" for p
    by (cases p) (auto simp: mk_def i f)
  have "grid_ok diagonal_grid" by (simp add: grid_ok_def diagonal_grid_def example_grid_def numeral_eq_Suc)
  from diagonal_counts_as_rectangle [OF this _ _ m] show ?thesis by (simp add: i)
qed

section \<open>A click on an empty grid\<close>

text \<open>
  Property: a click on a grid without rows captures the mouse, and no release of the button gives the
  capture back: \<open>LButtonUp\<close> asks for a focused cell first.
\<close>

theorem empty_grid_click_keeps_the_mouse:
  assumes "numRows g = 0" "grid_ok g" "\<not> editing g" "\<not> ending g"
    and "\<And>a b v. fst (LvmHitTest (ctl E) (getHandle g) a b v) = - 1"
  shows "\<exists>g' v. gv_LButtonDown E x y g w =
      Some (g', TrackMouseEvent (ctl E) (getHandle g) 10 (SetCapture (ctl E) (getHandle g) v)) \<and> lButtonDown g' \<and>
    (\<forall>x' y' v'. gv_LButtonUp E x' y' g' v' = Some (g', v'))"
proof -
  obtain v where f: "FocusGrid E g w = Some (g, v)"
    by (cases "FocusThis (ctl E) g w") (simp add: FocusGrid_def EndEditing_idle assms(3,4))
  have hit: "lv_GetItemAt (ctl E) x y g v = None" using assms(5) [of x y v]
    by (auto simp: lv_GetItemAt_def split: prod.splits)
  let ?g = "g\<lparr>focusedX := - 1, focusedY := - 1\<rparr>"
  have d: "DeselectAll E ?g v = Some (?g, v)"
    using assms(1,3,4) by (simp add: DeselectAll_def EndEditing_idle row_range_def for_cells_def)
  have "contentHitTest E x y ?g v = None" using assms(1) by (simp add: contentHitTest_def)
  with d have "click_outside E x y g v = Some (?g, v)" by (simp add: click_outside_def)
  with f hit have "gv_LButtonDown E x y g w = Some (start_drag E ?g (redraw E ?g v))" by (simp add: gv_LButtonDown_def)
  moreover have "getHandle ?g = getHandle g" by (cases g) (simp add: getHandle_def)
  moreover have "getHandle (?g\<lparr>lButtonDown := True\<rparr>) = getHandle g" by (cases g) (simp add: getHandle_def)
  ultimately show ?thesis
    by (intro exI [of _ "?g\<lparr>lButtonDown := True\<rparr>"] exI [of _ "redraw E ?g v"])
       (simp add: start_drag_def Let_def TrackMouse_def gv_LButtonUp_def)
qed

definition no_items :: "desk grid_env" where
  "no_items = example_env\<lparr>ctl := desk_controls\<lparr>LvmHitTest := \<lambda>h x y d. (- 1, - 1)\<rparr>\<rparr>"

lemma empty_grid_click_keeps_the_mouse_witness:
  "\<exists>g' v. gv_LButtonDown no_items 5 5 new_grid (example_desk \<lparr>px = 0, py = 0\<rparr>) = Some (g', v) \<and> lButtonDown g' \<and>
    gv_LButtonUp no_items 5 5 g' v = Some (g', v)"
proof -
  have "fst (LvmHitTest (ctl no_items) h a b v) = - 1" for h a b v by (simp add: no_items_def)
  from empty_grid_click_keeps_the_mouse [OF _ _ _ _ this, of new_grid 5 5 "example_desk \<lparr>px = 0, py = 0\<rparr>"] grid_ok_new
  show ?thesis by (auto simp: new_grid_def)
qed

end
