(* ===== verification/Resources.thy ===== *)
theory Resources
  imports Prelude
begin

text \<open>
  \<open>WindowsLib/ResourceManager\<close>: brushes, pens, fonts, bitmaps and icons that live as long as the
  program and are created once for each description. The six static tables are the record
  \<open>resources\<close>, the calls that create the objects are fields of \<open>gdi\<close>. The locale \<open>object_cache\<close>
  states what a table with its \<open>get\<close> function does, and is interpreted on all six.
\<close>

section \<open>The calls\<close>

type_synonym handle = nat

text \<open>
  Calls of the graphics device interface the program makes, on a state \<open>'w\<close> of the system. A call
  that fails returns \<open>NULL\<close>.
\<close>

record 'w gdi =
  CreateSolidBrush :: "u32 \<Rightarrow> 'w \<Rightarrow> handle \<times> 'w"
  CreatePen :: "int \<Rightarrow> int \<Rightarrow> u32 \<Rightarrow> 'w \<Rightarrow> handle \<times> 'w"
  CreateFont :: "int \<Rightarrow> int \<Rightarrow> string \<Rightarrow> 'w \<Rightarrow> handle \<times> 'w"
  LoadBitmap :: "u16 \<Rightarrow> 'w \<Rightarrow> handle \<times> 'w"
  LoadImageBitmap :: "u16 \<Rightarrow> int \<Rightarrow> int \<Rightarrow> u32 \<Rightarrow> 'w \<Rightarrow> handle \<times> 'w"
  LoadImageIcon :: "u16 \<Rightarrow> int \<Rightarrow> int \<Rightarrow> u32 \<Rightarrow> 'w \<Rightarrow> handle \<times> 'w"
  GetDC :: "hwnd \<Rightarrow> 'w \<Rightarrow> handle \<times> 'w"
  ReleaseDC :: "hwnd \<Rightarrow> handle \<Rightarrow> 'w \<Rightarrow> 'w"
  CreateCompatibleDC :: "handle \<Rightarrow> 'w \<Rightarrow> handle \<times> 'w"
  DeleteDC :: "handle \<Rightarrow> 'w \<Rightarrow> 'w"
  CreateCompatibleBitmap :: "handle \<Rightarrow> int \<Rightarrow> int \<Rightarrow> 'w \<Rightarrow> handle \<times> 'w"
  DeleteObject :: "handle \<Rightarrow> 'w \<Rightarrow> 'w"
  SelectObject :: "handle \<Rightarrow> handle \<Rightarrow> 'w \<Rightarrow> handle \<times> 'w"
  BitBlt :: "handle \<Rightarrow> int \<Rightarrow> int \<Rightarrow> int \<Rightarrow> int \<Rightarrow> handle \<Rightarrow> int \<Rightarrow> int \<Rightarrow> 'w \<Rightarrow> bool \<times> 'w"
  ValidateRect :: "hwnd \<Rightarrow> rect option \<Rightarrow> 'w \<Rightarrow> bool \<times> 'w"
  DcClientRect :: "hwnd \<Rightarrow> 'w \<Rightarrow> rect option"
  FillRectWith :: "handle \<Rightarrow> rect \<Rightarrow> handle \<Rightarrow> 'w \<Rightarrow> bool \<times> 'w"
  FrameRectWith :: "handle \<Rightarrow> rect \<Rightarrow> handle \<Rightarrow> 'w \<Rightarrow> bool \<times> 'w"
  GetTabbedTextExtent :: "handle \<Rightarrow> string \<Rightarrow> 'w \<Rightarrow> u32"
  TextExtentPoint :: "handle \<Rightarrow> string \<Rightarrow> 'w \<Rightarrow> size2 option"
  ExtTextOut :: "handle \<Rightarrow> int \<Rightarrow> int \<Rightarrow> string \<Rightarrow> 'w \<Rightarrow> 'w"

section \<open>The tables\<close>

record font_info =
  fontWidth :: int
  fontHeight :: int
  fontName :: string

record pen_info =
  penStyle :: int
  penWidth :: int
  penColor :: u32

text \<open>\<open>BitmapInfo\<close> and \<open>IconInfo\<close> have the same members.\<close>

record image_info =
  resourceId :: u16
  imageWidth :: int
  imageHeight :: int
  fuLoad :: u32

record resources =
  solidBrushes :: "u32 \<rightharpoonup> handle"
  pens :: "pen_info \<rightharpoonup> handle"
  fonts :: "font_info \<rightharpoonup> handle"
  bitmaps :: "image_info \<rightharpoonup> handle"
  simpleBitmaps :: "u16 \<rightharpoonup> handle"
  icons :: "image_info \<rightharpoonup> handle"

definition no_resources :: resources where
  "no_resources = \<lparr>solidBrushes = Map.empty, pens = Map.empty, fonts = Map.empty, bitmaps = Map.empty,
     simpleBitmaps = Map.empty, icons = Map.empty\<rparr>"

text \<open>
  The constructors of \<open>PaintFont\<close>, \<open>Pen\<close>, ... make the object; a failed call leaves \<open>NULL\<close> in it,
  and the table keeps it. After a failed \<open>find\<close> the insertion takes place, so its flag is true.
\<close>

definition getSolidBrush :: "('w, 'z) gdi_scheme \<Rightarrow> u32 \<Rightarrow> resources \<Rightarrow> 'w \<Rightarrow> handle \<times> resources \<times> 'w" where
  "getSolidBrush A color R w =
     (case solidBrushes R color of Some h \<Rightarrow> (h, R, w)
      | None \<Rightarrow> let (h, w1) = CreateSolidBrush A color w
                in (h, R\<lparr>solidBrushes := (solidBrushes R)(color \<mapsto> h)\<rparr>, w1))"

definition getPen :: "('w, 'z) gdi_scheme \<Rightarrow> pen_info \<Rightarrow> resources \<Rightarrow> 'w \<Rightarrow> handle \<times> resources \<times> 'w" where
  "getPen A i R w =
     (case pens R i of Some h \<Rightarrow> (h, R, w)
      | None \<Rightarrow> let (h, w1) = CreatePen A (penStyle i) (penWidth i) (penColor i) w
                in (h, R\<lparr>pens := (pens R)(i \<mapsto> h)\<rparr>, w1))"

definition getFont :: "('w, 'z) gdi_scheme \<Rightarrow> font_info \<Rightarrow> resources \<Rightarrow> 'w \<Rightarrow> handle \<times> resources \<times> 'w" where
  "getFont A i R w =
     (case fonts R i of Some h \<Rightarrow> (h, R, w)
      | None \<Rightarrow> let (h, w1) = CreateFont A (fontHeight i) (fontWidth i) (fontName i) w
                in (h, R\<lparr>fonts := (fonts R)(i \<mapsto> h)\<rparr>, w1))"

definition default_font :: font_info where
  "default_font = \<lparr>fontWidth = 5, fontHeight = 14, fontName = ''Microsoft Sans Serif''\<rparr>"

definition getDefaultFont :: "('w, 'z) gdi_scheme \<Rightarrow> resources \<Rightarrow> 'w \<Rightarrow> handle \<times> resources \<times> 'w" where
  "getDefaultFont A R w = getFont A default_font R w"

definition getSimpleBitmap :: "('w, 'z) gdi_scheme \<Rightarrow> u16 \<Rightarrow> resources \<Rightarrow> 'w \<Rightarrow> handle \<times> resources \<times> 'w" where
  "getSimpleBitmap A i R w =
     (case simpleBitmaps R i of Some h \<Rightarrow> (h, R, w)
      | None \<Rightarrow> let (h, w1) = LoadBitmap A i w
                in (h, R\<lparr>simpleBitmaps := (simpleBitmaps R)(i \<mapsto> h)\<rparr>, w1))"

definition getBitmap :: "('w, 'z) gdi_scheme \<Rightarrow> image_info \<Rightarrow> resources \<Rightarrow> 'w \<Rightarrow> handle \<times> resources \<times> 'w" where
  "getBitmap A i R w =
     (case bitmaps R i of Some h \<Rightarrow> (h, R, w)
      | None \<Rightarrow> let (h, w1) = LoadImageBitmap A (resourceId i) (imageWidth i) (imageHeight i) (fuLoad i) w
                in (h, R\<lparr>bitmaps := (bitmaps R)(i \<mapsto> h)\<rparr>, w1))"

definition getIcon :: "('w, 'z) gdi_scheme \<Rightarrow> image_info \<Rightarrow> resources \<Rightarrow> 'w \<Rightarrow> handle \<times> resources \<times> 'w" where
  "getIcon A i R w =
     (case icons R i of Some h \<Rightarrow> (h, R, w)
      | None \<Rightarrow> let (h, w1) = LoadImageIcon A (resourceId i) (imageWidth i) (imageHeight i) (fuLoad i) w
                in (h, R\<lparr>icons := (icons R)(i \<mapsto> h)\<rparr>, w1))"

section \<open>Each object is created once\<close>

text \<open>A run of requests, and the creations it should make.\<close>

primrec request_all :: "('k \<Rightarrow> 'c \<Rightarrow> 'w \<Rightarrow> handle \<times> 'c \<times> 'w) \<Rightarrow> 'k list \<Rightarrow> 'c \<Rightarrow> 'w \<Rightarrow> handle list \<times> 'c \<times> 'w" where
  "request_all get [] c w = ([], c, w)"
| "request_all get (k # ks) c w =
     (let (h, c1, w1) = get k c w; (hs, c2, w2) = request_all get ks c1 w1 in (h # hs, c2, w2))"

primrec create_all :: "('k \<Rightarrow> 'w \<Rightarrow> handle \<times> 'w) \<Rightarrow> 'k list \<Rightarrow> 'w \<Rightarrow> (handle list \<times> 'w)" where
  "create_all create [] w = ([], w)"
| "create_all create (k # ks) w =
     (let (h, w1) = create k w; (hs, w2) = create_all create ks w1 in (h # hs, w2))"

text \<open>The first occurrences of the keys that a set does not hold.\<close>

primrec new_keys :: "'k set \<Rightarrow> 'k list \<Rightarrow> 'k list" where
  "new_keys S [] = []"
| "new_keys S (k # ks) = (if k \<in> S then new_keys S ks else k # new_keys (insert k S) ks)"

lemma set_new_keys: "set (new_keys S ks) = set ks - S"
  by (induction ks arbitrary: S) auto

lemma distinct_new_keys: "distinct (new_keys S ks)"
  by (induction ks arbitrary: S) (auto simp: set_new_keys)

lemma length_create_all: "create_all create ks w = (hs, w') \<Longrightarrow> length hs = length ks"
  by (induction ks arbitrary: w hs) (auto split: prod.splits)

locale object_cache =
  fixes table :: "'c \<Rightarrow> 'k \<rightharpoonup> handle"
    and get :: "'k \<Rightarrow> 'c \<Rightarrow> 'w \<Rightarrow> handle \<times> 'c \<times> 'w"
    and create :: "'k \<Rightarrow> 'w \<Rightarrow> handle \<times> 'w"
  assumes hit: "table c k = Some h \<Longrightarrow> get k c w = (h, c, w)"
    and miss: "table c k = None \<Longrightarrow> create k w = (h, w1) \<Longrightarrow>
      \<exists>c1. get k c w = (h, c1, w1) \<and> table c1 = (table c)(k \<mapsto> h)"
begin

lemma get_stores:
  assumes "get k c w = (h, c1, w1)"
  shows "table c1 k = Some h" "table c \<subseteq>\<^sub>m table c1"
proof -
  have "table c1 k = Some h \<and> table c \<subseteq>\<^sub>m table c1"
  proof (cases "table c k")
    case None
    obtain h' w' where "create k w = (h', w')" by fastforce
    from miss [OF None this] assms None show ?thesis by (auto simp: map_le_def dom_def)
  next
    case (Some h')
    with hit [OF Some, of w] assms show ?thesis by (auto simp: map_le_def)
  qed
  then show "table c1 k = Some h" "table c \<subseteq>\<^sub>m table c1" by simp_all
qed

lemma requests:
  assumes "request_all get ks c w = (hs, c', w')"
  shows "\<exists>made. create_all create (new_keys (dom (table c)) ks) w = (made, w') \<and>
      table c' = table c ++ map_of (zip (new_keys (dom (table c)) ks) made) \<and>
      map Some hs = map (table c') ks"
  using assms
proof (induction ks arbitrary: c w hs)
  case (Cons k ks)
  obtain h c1 w1 where g: "get k c w = (h, c1, w1)" by (metis prod_cases3)
  obtain hs1 where r: "request_all get ks c1 w1 = (hs1, c', w')" and hs: "hs = h # hs1"
    using Cons.prems g by (auto split: prod.splits)
  from Cons.IH [OF r] obtain made where m: "create_all create (new_keys (dom (table c1)) ks) w1 = (made, w')"
    "table c' = table c1 ++ map_of (zip (new_keys (dom (table c1)) ks) made)" "map Some hs1 = map (table c') ks" by blast
  have l: "length made = length (new_keys (dom (table c1)) ks)" by (rule length_create_all [OF m(1)])
  have kept: "table c' k = Some h"
  proof -
    have "map_of (zip (new_keys (dom (table c1)) ks) made) k = None"
      using l get_stores(1) [OF g] by (simp add: map_of_zip_is_None set_new_keys domI)
    then show ?thesis using m(2) get_stores(1) [OF g] by (simp add: map_add_def)
  qed
  show ?case
  proof (cases "table c k")
    case None
    obtain h' w'' where cr: "create k w = (h', w'')" by fastforce
    from miss [OF None this] g have t: "table c1 = (table c)(k \<mapsto> h)" "create k w = (h, w1)" using cr by auto
    have nk: "new_keys (dom (table c)) (k # ks) = k # new_keys (dom (table c1)) ks" using None t(1) by auto
    let ?M = "map_of (zip (new_keys (dom (table c1)) ks) made)"
    have "k \<notin> dom ?M" using l by (simp add: dom_map_of_zip set_new_keys t(1))
    then have "(table c)(k \<mapsto> h) ++ ?M = (table c ++ ?M)(k \<mapsto> h)" by (rule map_add_upd_left)
    then have "table c ++ map_of (zip (k # new_keys (dom (table c1)) ks) (h # made)) = table c'"
      using m(2) by (simp only: t(1) zip_Cons_Cons map_of.simps fst_conv snd_conv map_add_upd)
    with nk t(2) m kept hs show ?thesis by (auto simp: split: prod.splits)
  next
    case (Some h')
    with hit [OF Some, of w] g have "c1 = c" "w1 = w" "h' = h" by auto
    with Some m kept hs show ?thesis by (auto simp: domI)
  qed
qed simp

end

lemmas cached_defs = getSolidBrush_def getPen_def getFont_def getSimpleBitmap_def getBitmap_def getIcon_def

interpretation brushes: object_cache solidBrushes "getSolidBrush A" "CreateSolidBrush A" for A
  by unfold_locales (auto simp: cached_defs)

interpretation pens: object_cache pens "getPen A" "\<lambda>i. CreatePen A (penStyle i) (penWidth i) (penColor i)" for A
  by unfold_locales (auto simp: cached_defs)

interpretation fonts: object_cache fonts "getFont A" "\<lambda>i. CreateFont A (fontHeight i) (fontWidth i) (fontName i)" for A
  by unfold_locales (auto simp: cached_defs)

interpretation simple_bitmaps: object_cache simpleBitmaps "getSimpleBitmap A" "LoadBitmap A" for A
  by unfold_locales (auto simp: cached_defs)

interpretation bitmaps: object_cache bitmaps "getBitmap A"
  "\<lambda>i. LoadImageBitmap A (resourceId i) (imageWidth i) (imageHeight i) (fuLoad i)" for A
  by unfold_locales (auto simp: cached_defs)

interpretation icons: object_cache icons "getIcon A"
  "\<lambda>i. LoadImageIcon A (resourceId i) (imageWidth i) (imageHeight i) (fuLoad i)" for A
  by unfold_locales (auto simp: cached_defs)

text \<open>
  Property C33: however often and in whatever order fonts are asked for, each description is handed to
  \<open>CreateFont\<close> at most once, at its first request, and every request for it gets the object made
  then, also when that is the \<open>NULL\<close> of a failed creation.
\<close>

theorem each_font_is_created_once:
  assumes "request_all (getFont A) ks R w = (hs, R', w')"
  shows "\<exists>made. create_all (\<lambda>i. CreateFont A (fontHeight i) (fontWidth i) (fontName i)) (new_keys (dom (fonts R)) ks) w = (made, w') \<and>
    fonts R' = fonts R ++ map_of (zip (new_keys (dom (fonts R)) ks) made) \<and> map Some hs = map (fonts R') ks"
  by (rule fonts.requests [OF assms])

text \<open>A failed creation is remembered like any other, so it is never tried again.\<close>

lemma failed_font_is_not_retried:
  assumes "fonts R i = None" "CreateFont A (fontHeight i) (fontWidth i) (fontName i) w = (NULL, w1)"
  shows "\<exists>R1. getFont A i R w = (NULL, R1, w1) \<and> (\<forall>w2. getFont A i R1 w2 = (NULL, R1, w2))"
  using assms by (simp add: getFont_def)

end
