(* ===== verification/Device_Context.thy ===== *)
theory Device_Context
  imports Resources
begin

text \<open>
  \<open>WindowsLib/DeviceContext\<close>: a device context, of a window or given, optionally drawn through a
  bitmap in memory (the buffer). The class owns the context it got for a window, the memory context
  and its bitmap, and puts back the object that was selected first. Calls that only hand their
  arguments to the system have no definition here.
\<close>

section \<open>State\<close>

record device_context =
  dcWnd :: hwnd
  hDC :: handle
  parentDC :: handle
  memBitmap :: handle
  drawArea :: rect
  originalObject :: handle
  originalParentObject :: handle

text \<open>\<open>HGDI_ERROR\<close> is \<open>-1\<close> as a pointer.\<close>

definition HGDI_ERROR :: handle where "HGDI_ERROR = 2 ^ 64 - 1"

definition selected :: "handle \<Rightarrow> bool" where
  "selected result \<longleftrightarrow> result \<noteq> NULL \<and> result \<noteq> HGDI_ERROR"

definition empty_dc :: device_context where
  "empty_dc = \<lparr>dcWnd = NULL, hDC = NULL, parentDC = NULL, memBitmap = NULL, drawArea = zero_rect,
     originalObject = NULL, originalParentObject = NULL\<rparr>"

section \<open>The buffer\<close>

definition put_back :: "('w, 'z) gdi_scheme \<Rightarrow> device_context \<Rightarrow> 'w \<Rightarrow> device_context \<times> 'w" where
  "put_back A dc w =
     (if originalObject dc \<noteq> NULL then (dc\<lparr>originalObject := NULL\<rparr>, snd (SelectObject A (hDC dc) (originalObject dc) w))
      else (dc, w))"

definition unbuffer :: "('w, 'z) gdi_scheme \<Rightarrow> device_context \<Rightarrow> 'w \<Rightarrow> device_context \<times> 'w" where
  "unbuffer A dc w =
     (let (dc1, w1) = put_back A dc w;
          (dc2, w2) = (if memBitmap dc1 \<noteq> NULL then (dc1\<lparr>memBitmap := NULL\<rparr>, DeleteObject A (memBitmap dc1) w1) else (dc1, w1))
      in if hDC dc2 \<noteq> NULL \<and> parentDC dc2 \<noteq> NULL then
           (dc2\<lparr>hDC := parentDC dc2, originalObject := originalParentObject dc2, parentDC := NULL,
                originalParentObject := NULL, memBitmap := NULL, drawArea := zero_rect\<rparr>,
            DeleteDC A (hDC dc2) w2)
         else (dc2, w2))"

text \<open>
  The attempt to set up a memory context on \<open>parentDC\<close>; when it fails its parts are deleted and the
  unbuffered state is restored.
\<close>

definition buffer :: "('w, 'z) gdi_scheme \<Rightarrow> rect \<Rightarrow> device_context \<Rightarrow> 'w \<Rightarrow> (bool \<times> device_context \<times> 'w) option" where
  "buffer A area dc w =
     (if hDC dc = NULL then Some (False, dc, w)
      else do {
        let parent = hDC dc;
        let failed = dc\<lparr>parentDC := NULL, originalParentObject := NULL, memBitmap := NULL, drawArea := zero_rect\<rparr>;
        let (memDC, w1) = CreateCompatibleDC A parent w;
        if memDC = NULL then Some (False, failed, w1)
        else do {
          width \<leftarrow> rect_width area; height \<leftarrow> rect_height area;
          let (bitmap, w2) = CreateCompatibleBitmap A parent width height w1;
          if bitmap = NULL then Some (False, failed, DeleteDC A memDC w2)
          else (let (result, w3) = SelectObject A memDC bitmap w2 in
                if selected result then
                  Some (True, dc\<lparr>hDC := memDC, parentDC := parent, memBitmap := bitmap, drawArea := area,
                                 originalObject := result, originalParentObject := originalObject dc\<rparr>, w3)
                else Some (False, failed, DeleteDC A memDC (DeleteObject A bitmap w3))) } })"

definition matchesDimensions :: "rect \<Rightarrow> device_context \<Rightarrow> bool" where
  "matchesDimensions area dc \<longleftrightarrow> left (drawArea dc) = left area \<and> top (drawArea dc) = top area \<and>
     right (drawArea dc) = right area \<and> bottom (drawArea dc) = bottom area"

definition dc_release :: "('w, 'z) gdi_scheme \<Rightarrow> device_context \<Rightarrow> 'w \<Rightarrow> device_context \<times> 'w" where
  "dc_release A dc w =
     (let (dc1, w1) = put_back A dc w;
          w2 = (if originalParentObject dc1 \<noteq> NULL then snd (SelectObject A (parentDC dc1) (originalParentObject dc1) w1) else w1);
          w3 = (if memBitmap dc1 \<noteq> NULL then DeleteObject A (memBitmap dc1) w2 else w2);
          w4 = (if hDC dc1 \<noteq> NULL then
                  (if parentDC dc1 \<noteq> NULL then
                     (let w' = DeleteDC A (hDC dc1) w3 in
                      if dcWnd dc1 \<noteq> NULL then ReleaseDC A (dcWnd dc1) (parentDC dc1) w' else w')
                   else if dcWnd dc1 \<noteq> NULL then ReleaseDC A (dcWnd dc1) (hDC dc1) w3 else w3)
                else w3)
      in (empty_dc, w4))"

text \<open>A given context \<open>NULL\<close> stands for the existing one.\<close>

definition setBuffer ::
    "('w, 'z) gdi_scheme \<Rightarrow> rect \<Rightarrow> handle \<Rightarrow> device_context \<Rightarrow> 'w \<Rightarrow> (bool \<times> device_context \<times> 'w) option" where
  "setBuffer A area given dc w =
     (if given = NULL then
        (if parentDC dc \<noteq> NULL \<and> matchesDimensions area dc then Some (True, dc, w)
         else (let (dc1, w1) = unbuffer A dc w in buffer A area dc1 w1))
      else if hDC dc = NULL then buffer A area (dc\<lparr>hDC := given\<rparr>) w
      else if given = parentDC dc \<and> matchesDimensions area dc then Some (True, dc, w)
      else if parentDC dc \<noteq> NULL then
        (let (dc1, w1) = (if given \<noteq> parentDC dc
               then (let (dc1, w1) = dc_release A dc w in (dc1\<lparr>hDC := given\<rparr>, w1)) else unbuffer A dc w)
         in buffer A area dc1 w1)
      else if given = hDC dc then buffer A area dc w
      else (let (dc1, w1) = dc_release A dc w in buffer A area (dc1\<lparr>hDC := given\<rparr>) w1))"

definition setBufferSize ::
    "('w, 'z) gdi_scheme \<Rightarrow> int \<Rightarrow> int \<Rightarrow> handle \<Rightarrow> device_context \<Rightarrow> 'w \<Rightarrow> (bool \<times> device_context \<times> 'w) option" where
  "setBufferSize A width height given dc w =
     setBuffer A \<lparr>left = 0, top = 0, right = width, bottom = height\<rparr> given dc w"

section \<open>Constructors\<close>

text \<open>
  The assignment to \<open>hWnd\<close> after a failed \<open>GetDC\<close> is to the parameter, so the member keeps the window.
\<close>

definition dc_of_handle :: "handle \<Rightarrow> device_context" where
  "dc_of_handle h = empty_dc\<lparr>hDC := h\<rparr>"

definition dc_of_window :: "('w, 'z) gdi_scheme \<Rightarrow> hwnd \<Rightarrow> 'w \<Rightarrow> device_context \<times> 'w" where
  "dc_of_window A window w =
     (let (h, w1) = GetDC A window w; dc = empty_dc\<lparr>dcWnd := window, hDC := h\<rparr>
      in if h = NULL then (dc, w1)
         else (case DcClientRect A window w1 of None \<Rightarrow> (dc, w1) | Some r \<Rightarrow> (dc\<lparr>drawArea := r\<rparr>, w1)))"

definition dc_of_window_area ::
    "('w, 'z) gdi_scheme \<Rightarrow> hwnd \<Rightarrow> rect \<Rightarrow> 'w \<Rightarrow> (device_context \<times> 'w) option" where
  "dc_of_window_area A window area w =
     (let (h, w1) = GetDC A window w; dc = empty_dc\<lparr>dcWnd := window, hDC := h\<rparr>
      in if h = NULL then Some (dc, w1) else map_option snd (setBuffer A area NULL dc w1))"

definition dc_of_window_size ::
    "('w, 'z) gdi_scheme \<Rightarrow> hwnd \<Rightarrow> int \<Rightarrow> int \<Rightarrow> 'w \<Rightarrow> (device_context \<times> 'w) option" where
  "dc_of_window_size A window width height w =
     (let (h, w1) = GetDC A window w; dc = empty_dc\<lparr>dcWnd := window, hDC := h\<rparr>
      in if h = NULL then Some (dc, w1) else map_option snd (setBufferSize A width height NULL dc w1))"

definition dc_valid :: "device_context \<Rightarrow> bool" where
  "dc_valid dc \<longleftrightarrow> hDC dc \<noteq> NULL"

definition getWidth :: "device_context \<Rightarrow> int option" where
  "getWidth dc = rect_width (drawArea dc)"

definition getHeight :: "device_context \<Rightarrow> int option" where
  "getHeight dc = rect_height (drawArea dc)"

definition getDcHandle :: "device_context \<Rightarrow> handle" where
  "getDcHandle dc = hDC dc"

section \<open>Selecting objects\<close>

definition selectObject :: "('w, 'z) gdi_scheme \<Rightarrow> handle \<Rightarrow> device_context \<Rightarrow> 'w \<Rightarrow> bool \<times> device_context \<times> 'w" where
  "selectObject A obj dc w =
     (if hDC dc \<noteq> NULL then
        (let (result, w1) = SelectObject A (hDC dc) obj w in
         if originalObject dc = NULL then
           (if selected result then (True, dc\<lparr>originalObject := result\<rparr>, w1) else (False, dc, w1))
         else (selected result, dc, w1))
      else (False, dc, w))"

definition select_resource ::
    "('w, 'z) gdi_scheme \<Rightarrow> handle \<times> resources \<times> 'w \<Rightarrow> device_context \<Rightarrow> bool \<times> device_context \<times> resources \<times> 'w" where
  "select_resource A found dc =
     (let (h, R, w) = found in
      if h \<noteq> NULL then (let (ok, dc1, w1) = selectObject A h dc w in (ok, dc1, R, w1)) else (False, dc, R, w))"

definition dc_setFont :: "('w, 'z) gdi_scheme \<Rightarrow> font_info \<Rightarrow> device_context \<Rightarrow> resources \<Rightarrow> 'w \<Rightarrow> bool \<times> device_context \<times> resources \<times> 'w" where
  "dc_setFont A i dc R w = select_resource A (getFont A i R w) dc"

definition dc_setDefaultFont :: "('w, 'z) gdi_scheme \<Rightarrow> device_context \<Rightarrow> resources \<Rightarrow> 'w \<Rightarrow> bool \<times> device_context \<times> resources \<times> 'w" where
  "dc_setDefaultFont A dc R w = select_resource A (getDefaultFont A R w) dc"

definition dc_setPen :: "('w, 'z) gdi_scheme \<Rightarrow> pen_info \<Rightarrow> device_context \<Rightarrow> resources \<Rightarrow> 'w \<Rightarrow> bool \<times> device_context \<times> resources \<times> 'w" where
  "dc_setPen A i dc R w = select_resource A (getPen A i R w) dc"

definition dc_fillRect ::
    "('w, 'z) gdi_scheme \<Rightarrow> rect \<Rightarrow> u32 \<Rightarrow> device_context \<Rightarrow> resources \<Rightarrow> 'w \<Rightarrow> bool \<times> resources \<times> 'w" where
  "dc_fillRect A r color dc R w =
     (let (brush, R1, w1) = getSolidBrush A color R w in
      if brush \<noteq> NULL then (let (ok, w2) = FillRectWith A (hDC dc) r brush w1 in (ok, R1, w2)) else (False, R1, w1))"

definition dc_frameRect ::
    "('w, 'z) gdi_scheme \<Rightarrow> rect \<Rightarrow> u32 \<Rightarrow> device_context \<Rightarrow> resources \<Rightarrow> 'w \<Rightarrow> bool \<times> resources \<times> 'w" where
  "dc_frameRect A r color dc R w =
     (let (brush, R1, w1) = getSolidBrush A color R w in
      if brush \<noteq> NULL then (let (ok, w2) = FrameRectWith A (hDC dc) r brush w1 in (ok, R1, w2)) else (False, R1, w1))"

section \<open>Copying the buffer\<close>

definition flushBuffer :: "('w, 'z) gdi_scheme \<Rightarrow> device_context \<Rightarrow> 'w \<Rightarrow> (bool \<times> 'w) option" where
  "flushBuffer A dc w =
     (if parentDC dc \<noteq> NULL then do {
        width \<leftarrow> getWidth dc; height \<leftarrow> getHeight dc;
        let (ok, w1) = BitBlt A (parentDC dc) (left (drawArea dc)) (top (drawArea dc)) width height (hDC dc) 0 0 w;
        if ok then Some (True, if dcWnd dc \<noteq> NULL then snd (ValidateRect A (dcWnd dc) (Some (drawArea dc)) w1) else w1)
        else Some (False, w1) }
      else Some (False, w))"

definition flushBufferTo ::
    "('w, 'z) gdi_scheme \<Rightarrow> device_context \<Rightarrow> device_context \<Rightarrow> 'w \<Rightarrow> (bool \<times> 'w) option" where
  "flushBufferTo A target dc w =
     do { width \<leftarrow> getWidth dc; height \<leftarrow> getHeight dc;
          let (ok, w1) = BitBlt A (hDC target) (left (drawArea dc)) (top (drawArea dc)) width height (hDC dc) 0 0 w;
          if ok then Some (True, if dcWnd target \<noteq> NULL \<and> parentDC target = NULL
              then snd (ValidateRect A (dcWnd target) (Some (drawArea dc)) w1) else w1)
          else Some (False, w1) }"

definition copySelfToBuffer :: "('w, 'z) gdi_scheme \<Rightarrow> device_context \<Rightarrow> 'w \<Rightarrow> (bool \<times> 'w) option" where
  "copySelfToBuffer A dc w =
     do { width \<leftarrow> rect_width (drawArea dc); height \<leftarrow> rect_height (drawArea dc);
          Some (BitBlt A (hDC dc) (left (drawArea dc)) (top (drawArea dc)) width height (parentDC dc)
                  (left (drawArea dc)) (top (drawArea dc)) w) }"

definition validateRect :: "('w, 'z) gdi_scheme \<Rightarrow> device_context \<Rightarrow> 'w \<Rightarrow> bool \<times> 'w" where
  "validateRect A dc w =
     (if dcWnd dc \<noteq> NULL then
        (if right (drawArea dc) > left (drawArea dc) \<and> bottom (drawArea dc) > top (drawArea dc)
         then ValidateRect A (dcWnd dc) (Some (drawArea dc)) w else ValidateRect A (dcWnd dc) None w)
      else (False, w))"

end
