(* ===== verification/Device_Context_Facts.thy ===== *)
theory Device_Context_Facts
  imports Device_Context
begin

text \<open>
  What a device context owns and gives back. The system's books are observers of its state: the
  memory contexts and bitmaps that exist, the window contexts that are lent out, and the bitmap
  selected into each memory context. \<open>documented\<close> states what the documentation of the calls says
  about the books, and is shown to hold of a small instance.
\<close>

section \<open>The books of the system\<close>

record 'w books =
  memDCs :: "'w \<Rightarrow> handle set"
  memBitmaps :: "'w \<Rightarrow> handle set"
  lent :: "'w \<Rightarrow> (hwnd \<times> handle) set"
  bitmapIn :: "'w \<Rightarrow> handle \<Rightarrow> handle"
  isBitmap :: "'w \<Rightarrow> handle \<Rightarrow> bool"
  stockBitmap :: handle

text \<open>Nothing changed but, perhaps, what is drawn and which pens and fonts are selected.\<close>

definition same_books :: "'w books \<Rightarrow> 'w \<Rightarrow> 'w \<Rightarrow> bool" where
  "same_books L w w1 \<longleftrightarrow> memDCs L w1 = memDCs L w \<and> memBitmaps L w1 = memBitmaps L w \<and> lent L w1 = lent L w \<and>
     bitmapIn L w1 = bitmapIn L w \<and> isBitmap L w1 = isBitmap L w"

definition books_of :: "'w books \<Rightarrow> 'w \<Rightarrow> handle set \<times> handle set \<times> (hwnd \<times> handle) set" where
  "books_of L w = (memDCs L w, memBitmaps L w, lent L w)"

text \<open>
  \<open>CreateCompatibleDC\<close> makes a context with the stock bitmap selected; \<open>SelectObject\<close> returns the
  object of the same kind that was selected, and selecting the stock bitmap succeeds in a memory
  context; \<open>DeleteObject\<close> deletes a bitmap unless it is selected into a context; contexts are ended by
  \<open>DeleteDC\<close> and \<open>ReleaseDC\<close>.
\<close>

definition documented :: "('w, 'z) gdi_scheme \<Rightarrow> 'w books \<Rightarrow> bool" where
  "documented A L \<longleftrightarrow>
     (\<forall>w. stockBitmap L \<notin> memBitmaps L w \<and> isBitmap L w (stockBitmap L) \<and> (\<forall>b\<in>memBitmaps L w. isBitmap L w b)) \<and>
     selected (stockBitmap L) \<and>
     (\<forall>h w. case GetDC A h w of (d, w1) \<Rightarrow> if d = NULL then same_books L w w1
        else (h, d) \<notin> lent L w \<and> memDCs L w1 = memDCs L w \<and> memBitmaps L w1 = memBitmaps L w \<and>
             lent L w1 = insert (h, d) (lent L w) \<and> bitmapIn L w1 = bitmapIn L w \<and> d \<notin> memDCs L w) \<and>
     (\<forall>h d w. case ReleaseDC A h d w of w1 \<Rightarrow> memDCs L w1 = memDCs L w \<and> memBitmaps L w1 = memBitmaps L w \<and>
             lent L w1 = lent L w - {(h, d)} \<and> bitmapIn L w1 = bitmapIn L w) \<and>
     (\<forall>p w. case CreateCompatibleDC A p w of (d, w1) \<Rightarrow> if d = NULL then same_books L w w1
        else d \<notin> memDCs L w \<and> d \<noteq> p \<and> memDCs L w1 = insert d (memDCs L w) \<and> memBitmaps L w1 = memBitmaps L w \<and>
             lent L w1 = lent L w \<and> bitmapIn L w1 = (bitmapIn L w)(d := stockBitmap L)) \<and>
     (\<forall>d w. case DeleteDC A d w of w1 \<Rightarrow> memDCs L w1 = memDCs L w - {d} \<and> memBitmaps L w1 = memBitmaps L w \<and>
             lent L w1 = lent L w \<and> bitmapIn L w1 = bitmapIn L w) \<and>
     (\<forall>p x y w. case CreateCompatibleBitmap A p x y w of (b, w1) \<Rightarrow> if b = NULL then same_books L w w1
        else b \<notin> memBitmaps L w \<and> (\<forall>d. bitmapIn L w d \<noteq> b) \<and> memDCs L w1 = memDCs L w \<and>
             memBitmaps L w1 = insert b (memBitmaps L w) \<and> lent L w1 = lent L w \<and> bitmapIn L w1 = bitmapIn L w) \<and>
     (\<forall>b w. case DeleteObject A b w of w1 \<Rightarrow> memDCs L w1 = memDCs L w \<and> lent L w1 = lent L w \<and>
             bitmapIn L w1 = bitmapIn L w \<and>
             memBitmaps L w1 = (if \<exists>d\<in>memDCs L w. bitmapIn L w d = b then memBitmaps L w else memBitmaps L w - {b})) \<and>
     (\<forall>d x w. case SelectObject A d x w of (r, w1) \<Rightarrow>
        memDCs L w1 = memDCs L w \<and> memBitmaps L w1 = memBitmaps L w \<and> lent L w1 = lent L w \<and>
        (if selected r then
           (if isBitmap L w x then r = bitmapIn L w d \<and> bitmapIn L w1 = (bitmapIn L w)(d := x)
            else \<not> isBitmap L w r \<and> bitmapIn L w1 = bitmapIn L w)
         else bitmapIn L w1 = bitmapIn L w)) \<and>
     (\<forall>d w. d \<in> memDCs L w \<longrightarrow> selected (fst (SelectObject A d (stockBitmap L) w))) \<and>
     (\<forall>p x y a b d i j w. same_books L w (snd (BitBlt A p x y a b d i j w))) \<and>
     (\<forall>h r w. same_books L w (snd (ValidateRect A h r w)))"

lemma doc_stock: "documented A L \<Longrightarrow> stockBitmap L \<notin> memBitmaps L w \<and> isBitmap L w (stockBitmap L) \<and> selected (stockBitmap L)"
  and doc_bitmaps: "documented A L \<Longrightarrow> b \<in> memBitmaps L w \<Longrightarrow> isBitmap L w b"
  and doc_GetDC: "documented A L \<Longrightarrow> GetDC A h w = (d, w1) \<Longrightarrow> d \<noteq> NULL \<Longrightarrow>
     (h, d) \<notin> lent L w \<and> memDCs L w1 = memDCs L w \<and> memBitmaps L w1 = memBitmaps L w \<and>
             lent L w1 = insert (h, d) (lent L w) \<and> bitmapIn L w1 = bitmapIn L w \<and> d \<notin> memDCs L w"
  and doc_ReleaseDC: "documented A L \<Longrightarrow> memDCs L (ReleaseDC A h d w) = memDCs L w \<and>
     memBitmaps L (ReleaseDC A h d w) = memBitmaps L w \<and> lent L (ReleaseDC A h d w) = lent L w - {(h, d)} \<and>
     bitmapIn L (ReleaseDC A h d w) = bitmapIn L w"
  and doc_CreateDC: "documented A L \<Longrightarrow> CreateCompatibleDC A p w = (d, w1) \<Longrightarrow> d \<noteq> NULL \<Longrightarrow>
     d \<notin> memDCs L w \<and> d \<noteq> p \<and> memDCs L w1 = insert d (memDCs L w) \<and> memBitmaps L w1 = memBitmaps L w \<and>
             lent L w1 = lent L w \<and> bitmapIn L w1 = (bitmapIn L w)(d := stockBitmap L)"
  and doc_CreateDC_failed: "documented A L \<Longrightarrow> CreateCompatibleDC A p w = (NULL, w1) \<Longrightarrow> same_books L w w1"
  and doc_DeleteDC: "documented A L \<Longrightarrow> memDCs L (DeleteDC A d w) = memDCs L w - {d} \<and>
     memBitmaps L (DeleteDC A d w) = memBitmaps L w \<and> lent L (DeleteDC A d w) = lent L w \<and>
     bitmapIn L (DeleteDC A d w) = bitmapIn L w"
  and doc_CreateBitmap: "documented A L \<Longrightarrow> CreateCompatibleBitmap A p i j w = (b, w1) \<Longrightarrow> b \<noteq> NULL \<Longrightarrow>
     b \<notin> memBitmaps L w \<and> (\<forall>d. bitmapIn L w d \<noteq> b) \<and> memDCs L w1 = memDCs L w \<and>
             memBitmaps L w1 = insert b (memBitmaps L w) \<and> lent L w1 = lent L w \<and> bitmapIn L w1 = bitmapIn L w"
  and doc_CreateBitmap_failed: "documented A L \<Longrightarrow> CreateCompatibleBitmap A p i j w = (NULL, w1) \<Longrightarrow> same_books L w w1"
  and doc_DeleteObject: "documented A L \<Longrightarrow> memDCs L (DeleteObject A b w) = memDCs L w \<and> lent L (DeleteObject A b w) = lent L w \<and>
     bitmapIn L (DeleteObject A b w) = bitmapIn L w \<and>
     memBitmaps L (DeleteObject A b w) = (if \<exists>d\<in>memDCs L w. bitmapIn L w d = b then memBitmaps L w else memBitmaps L w - {b})"
  and doc_SelectObject: "documented A L \<Longrightarrow> SelectObject A d x w = (r, w1) \<Longrightarrow>
     memDCs L w1 = memDCs L w \<and> memBitmaps L w1 = memBitmaps L w \<and> lent L w1 = lent L w \<and>
        (if selected r then
           (if isBitmap L w x then r = bitmapIn L w d \<and> bitmapIn L w1 = (bitmapIn L w)(d := x)
            else \<not> isBitmap L w r \<and> bitmapIn L w1 = bitmapIn L w)
         else bitmapIn L w1 = bitmapIn L w)"
  and doc_select_stock: "documented A L \<Longrightarrow> d \<in> memDCs L w \<Longrightarrow> selected (fst (SelectObject A d (stockBitmap L) w))"
  and doc_BitBlt: "documented A L \<Longrightarrow> same_books L w (snd (BitBlt A p i j n m d i2 j2 w))"
  and doc_ValidateRect: "documented A L \<Longrightarrow> same_books L w (snd (ValidateRect A h area w))"
  unfolding documented_def by (auto split: prod.splits)

section \<open>The invariant\<close>

text \<open>
  \<open>D\<close>, \<open>B\<close> and \<open>W\<close> are the entries of the books that belong to others; the context to draw on is not
  a memory context of anybody else.
\<close>

definition lent_handle :: "device_context \<Rightarrow> handle" where
  "lent_handle dc = (if parentDC dc \<noteq> NULL then parentDC dc else hDC dc)"

definition dc_inv :: "'w books \<Rightarrow> handle set \<times> handle set \<times> (hwnd \<times> handle) set \<Rightarrow> device_context \<Rightarrow> 'w \<Rightarrow> bool" where
  "dc_inv L others dc w \<longleftrightarrow> (case others of (D, B, W) \<Rightarrow>
     (hDC dc = NULL \<longrightarrow> dcWnd dc = NULL \<and> parentDC dc = NULL \<and> originalObject dc = NULL) \<and>
     (parentDC dc = NULL \<longrightarrow> memBitmap dc = NULL \<and> originalParentObject dc = NULL \<and> (hDC dc \<noteq> NULL \<longrightarrow> hDC dc \<notin> D) \<and>
        memDCs L w = D \<and> memBitmaps L w = B) \<and>
     (parentDC dc \<noteq> NULL \<longrightarrow> memBitmap dc \<noteq> NULL \<and> parentDC dc \<notin> D \<and> hDC dc \<notin> D \<and> hDC dc \<noteq> parentDC dc \<and>
        originalObject dc = stockBitmap L \<and> memDCs L w = insert (hDC dc) D \<and>
        memBitmap dc \<notin> B \<and> memBitmaps L w = insert (memBitmap dc) B \<and> (\<forall>d\<in>D. bitmapIn L w d \<noteq> memBitmap dc)) \<and>
     (if dcWnd dc = NULL then lent L w = W
      else (dcWnd dc, lent_handle dc) \<notin> W \<and> lent L w = insert (dcWnd dc, lent_handle dc) W))"

lemma inv_empty: "dc_inv L others empty_dc w \<longleftrightarrow> books_of L w = others"
  by (cases others) (auto simp: dc_inv_def empty_dc_def books_of_def)

text \<open>The three parts of a context in a state that satisfies the invariant.\<close>

lemma inv_unbuffered:
  assumes "dc_inv L (D, B, W) dc w" "parentDC dc = NULL"
  shows "memBitmap dc = NULL" "originalParentObject dc = NULL" "memDCs L w = D" "memBitmaps L w = B"
    "hDC dc \<noteq> NULL \<Longrightarrow> hDC dc \<notin> D"
  using assms by (auto simp: dc_inv_def)

lemma inv_buffered:
  assumes "dc_inv L (D, B, W) dc w" "parentDC dc \<noteq> NULL"
  shows "memBitmap dc \<noteq> NULL" "parentDC dc \<notin> D" "hDC dc \<notin> D" "hDC dc \<noteq> parentDC dc" "hDC dc \<noteq> NULL"
    "originalObject dc = stockBitmap L" "memDCs L w = insert (hDC dc) D" "memBitmap dc \<notin> B"
    "memBitmaps L w = insert (memBitmap dc) B" "\<forall>d\<in>D. bitmapIn L w d \<noteq> memBitmap dc"
  using assms by (auto simp: dc_inv_def empty_dc_def)

lemma inv_same_books:
  assumes "dc_inv L others dc w" "same_books L w w1"
  shows "dc_inv L others dc w1"
  using assms by (cases others) (simp add: dc_inv_def same_books_def)

text \<open>Selecting into one's own context disturbs nobody.\<close>

lemma inv_select:
  assumes "documented A L" "dc_inv L (D, B, W) dc w" "SelectObject A d x w = (r, w1)" "d \<notin> D"
  shows "dc_inv L (D, B, W) dc w1"
proof -
  have "memDCs L w1 = memDCs L w" "memBitmaps L w1 = memBitmaps L w" "lent L w1 = lent L w"
    "\<forall>e\<in>D. bitmapIn L w1 e = bitmapIn L w e"
    using doc_SelectObject [OF assms(1,3)] assms(4) by (auto split: if_splits)
  then show ?thesis using assms(2) by (simp add: dc_inv_def)
qed

lemma select_elsewhere:
  assumes "documented A L"
  shows "books_of L (snd (SelectObject A d x w)) = books_of L w"
    "e \<noteq> d \<Longrightarrow> bitmapIn L (snd (SelectObject A d x w)) e = bitmapIn L w e"
  using doc_SelectObject [OF assms, of d x w] by (cases "SelectObject A d x w"; auto simp: books_of_def split: if_splits)+

lemma inv_selectObject:
  assumes "documented A L" "dc_inv L others dc w" "selectObject A x dc w = (ok, dc1, w1)"
  shows "dc_inv L others dc1 w1"
proof -
  obtain D B W where o: "others = (D, B, W)" by (cases others)
  show ?thesis
  proof (cases "hDC dc = NULL")
    case True
    with assms(2,3) show ?thesis by (simp add: selectObject_def)
  next
    case False
    obtain r w2 where s: "SelectObject A (hDC dc) x w = (r, w2)" by fastforce
    have "hDC dc \<notin> D"
      using inv_unbuffered(5) [OF assms(2) [unfolded o]] inv_buffered(3) [OF assms(2) [unfolded o]] False by blast
    from inv_select [OF assms(1) assms(2) [unfolded o] s this] have i: "dc_inv L (D, B, W) dc w2" .
    have "originalObject dc \<noteq> NULL" if "parentDC dc \<noteq> NULL"
      using inv_buffered(6) [OF i that] doc_stock [OF assms(1)] by (simp add: selected_def)
    with assms(3) s False i o show ?thesis
      by (auto simp: selectObject_def dc_inv_def empty_dc_def lent_handle_def split: if_splits)
  qed
qed

section \<open>Setting up and removing the buffer\<close>

lemma put_back_selects:
  assumes "put_back A dc w = (dc1, w1)" "originalObject dc \<noteq> NULL"
  obtains r where "SelectObject A (hDC dc) (originalObject dc) w = (r, w1)" "dc1 = dc\<lparr>originalObject := NULL\<rparr>"
  using assms by (cases "SelectObject A (hDC dc) (originalObject dc) w") (auto simp: put_back_def)

lemma put_back_frees:
  assumes "documented A L" "dc_inv L (D, B, W) dc w" "parentDC dc \<noteq> NULL" "put_back A dc w = (dc1, w1)"
  shows "dc1 = dc\<lparr>originalObject := NULL\<rparr>" "books_of L w1 = (insert (hDC dc) D, insert (memBitmap dc) B, lent L w)"
    "\<forall>d\<in>insert (hDC dc) D. bitmapIn L w1 d \<noteq> memBitmap dc"
proof -
  note b = inv_buffered [OF assms(2,3)]
  have st: "stockBitmap L \<notin> memBitmaps L w" "isBitmap L w (stockBitmap L)" "stockBitmap L \<noteq> NULL"
    using doc_stock [OF assms(1)] by (simp_all add: selected_def)
  obtain r where s: "SelectObject A (hDC dc) (stockBitmap L) w = (r, w1)" and dc1: "dc1 = dc\<lparr>originalObject := NULL\<rparr>"
    using put_back_selects [OF assms(4)] b(6) st(3) by metis
  have "selected r" using doc_select_stock [OF assms(1), of "hDC dc" w] s b(7) by simp
  with doc_SelectObject [OF assms(1) s] st have "memDCs L w1 = memDCs L w" "memBitmaps L w1 = memBitmaps L w"
    "lent L w1 = lent L w" "bitmapIn L w1 = (bitmapIn L w)(hDC dc := stockBitmap L)" by simp_all
  with b st show "books_of L w1 = (insert (hDC dc) D, insert (memBitmap dc) B, lent L w)"
    "\<forall>d\<in>insert (hDC dc) D. bitmapIn L w1 d \<noteq> memBitmap dc" by (auto simp: books_of_def)
  show "dc1 = dc\<lparr>originalObject := NULL\<rparr>" by (rule dc1)
qed

lemma delete_buffer:
  assumes "documented A L" "books_of L w = (insert m D, insert b B, W)" "m \<notin> D" "b \<notin> B"
    "\<forall>d\<in>insert m D. bitmapIn L w d \<noteq> b"
  shows "books_of L (DeleteDC A m (DeleteObject A b w)) = (D, B, W)"
proof -
  have "\<not> (\<exists>d\<in>memDCs L w. bitmapIn L w d = b)" using assms(2,5) by (auto simp: books_of_def)
  with doc_DeleteObject [OF assms(1), of b w] doc_DeleteDC [OF assms(1), of m "DeleteObject A b w"] assms(2-4)
  show ?thesis by (simp add: books_of_def)
qed

lemma inv_unbuffer:
  assumes "documented A L" "dc_inv L others dc w" "unbuffer A dc w = (dc1, w1)"
  shows "dc_inv L others dc1 w1" "parentDC dc1 = NULL" "hDC dc1 = lent_handle dc"
proof -
  obtain D B W where o: "others = (D, B, W)" by (cases others)
  obtain dc2 w2 where p: "put_back A dc w = (dc2, w2)" by fastforce
  have "dc_inv L others dc1 w1 \<and> parentDC dc1 = NULL \<and> hDC dc1 = lent_handle dc"
  proof (cases "parentDC dc = NULL")
    case True
    note u = inv_unbuffered [OF assms(2) [unfolded o] True]
    have r: "dc1 = dc2" "w1 = w2" "parentDC dc2 = NULL" "hDC dc2 = hDC dc"
      using assms(3) p True u(1) by (auto simp: unbuffer_def put_back_def split: if_splits)
    have "dc_inv L (D, B, W) dc2 w2"
    proof (cases "originalObject dc = NULL")
      case True
      with p assms(2) o show ?thesis by (simp add: put_back_def)
    next
      case False
      then have h: "hDC dc \<notin> D" using u(5) assms(2) o by (auto simp: dc_inv_def)
      obtain x where s: "SelectObject A (hDC dc) (originalObject dc) w = (x, w2)" "dc2 = dc\<lparr>originalObject := NULL\<rparr>"
        using put_back_selects [OF p False] by metis
      from inv_select [OF assms(1) assms(2) [unfolded o] s(1) h] s(2) True show ?thesis
        by (auto simp: dc_inv_def lent_handle_def split: if_splits)
    qed
    with r True o show ?thesis by (simp add: lent_handle_def)
  next
    case False
    note b = inv_buffered [OF assms(2) [unfolded o] False]
    note f = put_back_frees [OF assms(1) assms(2) [unfolded o] False p]
    have r: "w1 = DeleteDC A (hDC dc) (DeleteObject A (memBitmap dc) w2)"
      "dc1 = dc\<lparr>hDC := parentDC dc, originalObject := originalParentObject dc, parentDC := NULL,
                originalParentObject := NULL, memBitmap := NULL, drawArea := zero_rect\<rparr>"
      using assms(3) p f(1) False b(1,5) by (auto simp: unbuffer_def)
    have "books_of L w1 = (D, B, lent L w)"
      unfolding r(1) using delete_buffer [OF assms(1) f(2) b(3,8) f(3)] .
    with r(2) False b(2) assms(2) o show ?thesis
      by (auto simp: dc_inv_def books_of_def lent_handle_def split: if_splits)
  qed
  then show "dc_inv L others dc1 w1" "parentDC dc1 = NULL" "hDC dc1 = lent_handle dc" by simp_all
qed

text \<open>How the attempt ends: without a memory context, without a bitmap, without selecting it, or well.\<close>

abbreviation unbuffered :: "device_context \<Rightarrow> device_context" where
  "unbuffered dc \<equiv> dc\<lparr>parentDC := NULL, originalParentObject := NULL, memBitmap := NULL, drawArea := zero_rect\<rparr>"

lemma buffer_outcome:
  assumes "buffer A area dc w = Some (ok, dc1, w1)" "hDC dc \<noteq> NULL" "CreateCompatibleDC A (hDC dc) w = (m, w2)" "m \<noteq> NULL"
  obtains
    (no_bitmap) i j w3 where "CreateCompatibleBitmap A (hDC dc) i j w2 = (NULL, w3)" "dc1 = unbuffered dc" "w1 = DeleteDC A m w3"
  | (not_selected) i j b w3 r w4 where "CreateCompatibleBitmap A (hDC dc) i j w2 = (b, w3)" "b \<noteq> NULL"
      "SelectObject A m b w3 = (r, w4)" "\<not> selected r" "dc1 = unbuffered dc" "w1 = DeleteDC A m (DeleteObject A b w4)"
  | (buffered) i j b w3 r where "CreateCompatibleBitmap A (hDC dc) i j w2 = (b, w3)" "b \<noteq> NULL"
      "SelectObject A m b w3 = (r, w1)" "selected r"
      "dc1 = dc\<lparr>hDC := m, parentDC := hDC dc, memBitmap := b, drawArea := area,
             originalObject := r, originalParentObject := originalObject dc\<rparr>"
proof -
  have e: "do { width \<leftarrow> rect_width area; height \<leftarrow> rect_height area;
          let (bitmap, w2) = CreateCompatibleBitmap A (hDC dc) width height w2;
          if bitmap = NULL then Some (False, unbuffered dc, DeleteDC A m w2)
          else (let (result, w3) = SelectObject A m bitmap w2 in
                if selected result then
                  Some (True, dc\<lparr>hDC := m, parentDC := hDC dc, memBitmap := bitmap, drawArea := area,
                                 originalObject := result, originalParentObject := originalObject dc\<rparr>, w3)
                else Some (False, unbuffered dc, DeleteDC A m (DeleteObject A bitmap w3))) } = Some (ok, dc1, w1)"
    using assms by (simp add: buffer_def Let_def)
  obtain i j where r: "rect_width area = Some i" "rect_height area = Some j"
    using e by (cases "rect_width area"; cases "rect_height area") simp_all
  obtain b w3 where b: "CreateCompatibleBitmap A (hDC dc) i j w2 = (b, w3)" by fastforce
  obtain r w4 where s: "SelectObject A m b w3 = (r, w4)" by fastforce
  show thesis
    using e r b s by (cases "b = NULL"; cases "selected r") (auto intro: that)
qed

lemma inv_unbuffered_again:
  assumes "dc_inv L (D, B, W) dc w" "parentDC dc = NULL" "books_of L w' = (D, B, lent L w)"
  shows "dc_inv L (D, B, W) (unbuffered dc) w'"
  using assms inv_unbuffered [OF assms(1,2)] by (auto simp: dc_inv_def books_of_def lent_handle_def)

lemma inv_buffer_created:
  assumes "documented A L" "dc_inv L (D, B, W) dc w" "parentDC dc = NULL" "hDC dc \<noteq> NULL"
    "CreateCompatibleDC A (hDC dc) w = (m, w2)" "m \<noteq> NULL" "buffer A area dc w = Some (ok, dc1, w1)"
  shows "dc_inv L (D, B, W) dc1 w1"
proof -
  note u = inv_unbuffered [OF assms(2,3)]
  note d = doc_CreateDC [OF assms(1,5,6)]
  note again = inv_unbuffered_again [OF assms(2,3)]
  from assms(7,4,5,6) show ?thesis
  proof (cases rule: buffer_outcome)
    case (no_bitmap i j w3)
    from doc_CreateBitmap_failed [OF assms(1) no_bitmap(1)] doc_DeleteDC [OF assms(1), of m w3] d u
    have "books_of L (DeleteDC A m w3) = (D, B, lent L w)" by (simp add: same_books_def books_of_def)
    with again no_bitmap(2,3) show ?thesis by simp
  next
    case (not_selected i j b w3 r w4)
    note cb = doc_CreateBitmap [OF assms(1) not_selected(1,2)]
    note sel = doc_SelectObject [OF assms(1) not_selected(3)]
    have "books_of L w4 = (insert m D, insert b B, lent L w)" using sel cb d u by (simp add: books_of_def)
    moreover have "bitmapIn L w4 = bitmapIn L w3" "\<forall>x. bitmapIn L w2 x \<noteq> b" "bitmapIn L w3 = bitmapIn L w2"
      using sel cb not_selected(4) by simp_all
    ultimately have "books_of L (DeleteDC A m (DeleteObject A b w4)) = (D, B, lent L w)"
      using d cb u by (intro delete_buffer [OF assms(1)]) simp_all
    with again not_selected(5,6) show ?thesis by simp
  next
    case (buffered i j b w3 r)
    note cb = doc_CreateBitmap [OF assms(1) buffered(1,2)]
    note sel = doc_SelectObject [OF assms(1) buffered(3)]
    have "isBitmap L w3 b" using doc_bitmaps [OF assms(1), of b w3] cb by simp
    with sel buffered(4) cb d have r: "r = stockBitmap L" "bitmapIn L w1 = (bitmapIn L w2)(m := b)" by simp_all
    have "\<forall>x\<in>D. bitmapIn L w1 x \<noteq> b" using r(2) cb d u(3) by (metis fun_upd_other)
    moreover have "memDCs L w1 = insert m D" "memBitmaps L w1 = insert b B" "lent L w1 = lent L w" "m \<notin> D" "b \<notin> B"
      using sel cb d u by simp_all
    ultimately show ?thesis using r(1) d u buffered(2,5) assms(2,3,4,6)
      by (auto simp: dc_inv_def lent_handle_def split: if_splits)
  qed
qed

lemma inv_buffer:
  assumes "documented A L" "dc_inv L others dc w" "parentDC dc = NULL" "buffer A area dc w = Some (ok, dc1, w1)"
  shows "dc_inv L others dc1 w1"
proof (cases "hDC dc = NULL")
  case True
  with assms(2,4) show ?thesis by (simp add: buffer_def)
next
  case False
  obtain D B W where o: "others = (D, B, W)" by (cases others)
  obtain m w2 where c: "CreateCompatibleDC A (hDC dc) w = (m, w2)" by fastforce
  show ?thesis
  proof (cases "m = NULL")
    case True
    with doc_CreateDC_failed [OF assms(1) c [unfolded True]] inv_unbuffered [OF assms(2) [unfolded o] assms(3)]
    have "books_of L w2 = (D, B, lent L w)" by (simp add: same_books_def books_of_def)
    moreover have "dc1 = unbuffered dc" "w1 = w2" using assms(4) False c True by (simp_all add: buffer_def)
    ultimately show ?thesis using inv_unbuffered_again [OF assms(2) [unfolded o] assms(3)] o by simp
  next
    case m: False
    from inv_buffer_created [OF assms(1) assms(2) [unfolded o] assms(3) False c m assms(4)] o show ?thesis by simp
  qed
qed

section \<open>Giving everything back\<close>

lemma return_window_dc:
  assumes "documented A L" "books_of L w = (D, B, lent L w0)" "dc_inv L (D, B, W) dc w0" "dcWnd dc \<noteq> NULL"
  shows "books_of L (ReleaseDC A (dcWnd dc) (lent_handle dc) w) = (D, B, W)"
  using assms(2-4) doc_ReleaseDC [OF assms(1), of "dcWnd dc" "lent_handle dc" w] by (auto simp: books_of_def dc_inv_def)

lemma release_returns:
  assumes "documented A L" "dc_inv L (D, B, W) dc w" "dc_release A dc w = (dc1, w1)"
  shows "dc1 = empty_dc" "books_of L w1 = (D, B, W)"
proof -
  show "dc1 = empty_dc" using assms(3) by (simp add: dc_release_def Let_def split: prod.splits)
  obtain dc2 w2 where p: "put_back A dc w = (dc2, w2)" by fastforce
  have kept: "parentDC dc2 = parentDC dc" "memBitmap dc2 = memBitmap dc" "hDC dc2 = hDC dc" "dcWnd dc2 = dcWnd dc"
    "originalParentObject dc2 = originalParentObject dc"
    using p by (auto simp: put_back_def split: if_splits)
  have none: "lent L w = W" if "dcWnd dc = NULL" using assms(2) that by (simp add: dc_inv_def)
  show "books_of L w1 = (D, B, W)"
  proof (cases "parentDC dc = NULL")
    case True
    note u = inv_unbuffered [OF assms(2) True]
    have b2: "books_of L w2 = (D, B, lent L w)"
    proof (cases "originalObject dc = NULL")
      case False
      from put_back_selects [OF p False] obtain r where "SelectObject A (hDC dc) (originalObject dc) w = (r, w2)" by metis
      with doc_SelectObject [OF assms(1) this] u show ?thesis by (simp add: books_of_def)
    qed (use p u in \<open>simp add: put_back_def books_of_def\<close>)
    have "w1 = (if dcWnd dc \<noteq> NULL then ReleaseDC A (dcWnd dc) (lent_handle dc) w2 else w2)"
      using assms(2,3) p True u(1,2) kept by (auto simp: dc_release_def dc_inv_def lent_handle_def)
    with return_window_dc [OF assms(1) b2 assms(2)] none b2 show ?thesis by simp
  next
    case False
    note b = inv_buffered [OF assms(2) False]
    note f = put_back_frees [OF assms(1,2) False p]
    obtain w3 where w3: "w3 = (if originalParentObject dc \<noteq> NULL
        then snd (SelectObject A (parentDC dc) (originalParentObject dc) w2) else w2)" by simp
    have sel: "books_of L w3 = books_of L w2 \<and> (\<forall>x. x \<noteq> parentDC dc \<longrightarrow> bitmapIn L w3 x = bitmapIn L w2 x)"
      unfolding w3 using select_elsewhere [OF assms(1)] by simp
    then have "\<forall>d\<in>insert (hDC dc) D. bitmapIn L w3 d \<noteq> memBitmap dc" using f(3) b(2,4) by (metis insert_iff)
    with delete_buffer [OF assms(1) _ b(3,8), of w3 "lent L w"] sel f(2)
    have bk: "books_of L (DeleteDC A (hDC dc) (DeleteObject A (memBitmap dc) w3)) = (D, B, lent L w)" by simp
    have "w1 = (let w' = DeleteDC A (hDC dc) (DeleteObject A (memBitmap dc) w3) in
                if dcWnd dc \<noteq> NULL then ReleaseDC A (dcWnd dc) (lent_handle dc) w' else w')"
      using assms(3) p False b(1,5) kept by (auto simp: dc_release_def w3 lent_handle_def Let_def)
    with return_window_dc [OF assms(1) bk assms(2)] none bk show ?thesis by (simp add: Let_def)
  qed
qed

lemma inv_setBuffer:
  assumes "documented A L" "dc_inv L (D, B, W) dc w" "setBuffer A area given dc w = Some (ok, dc1, w1)" "given \<notin> D"
    "parentDC dc \<noteq> NULL \<Longrightarrow> given \<noteq> hDC dc"
  shows "dc_inv L (D, B, W) dc1 w1"
proof -
  have given: "dc_inv L (D, B, W) (empty_dc\<lparr>hDC := given\<rparr>) w'" if "books_of L w' = (D, B, W)" for w'
    using that assms(4) by (auto simp: dc_inv_def empty_dc_def books_of_def)
  obtain dcu wu where u: "unbuffer A dc w = (dcu, wu)" by fastforce
  note iu = inv_unbuffer [OF assms(1,2) u]
  obtain dcr wr where r: "dc_release A dc w = (dcr, wr)" by fastforce
  note ir = release_returns [OF assms(1,2) r]
  have start: "dc_inv L (D, B, W) (dc\<lparr>hDC := given\<rparr>) w" "parentDC dc = NULL" if "hDC dc = NULL"
    using assms(2,4) that by (auto simp: dc_inv_def)
  show ?thesis
    using assms(3) u r ir inv_buffer [OF assms(1) iu(1,2)] inv_buffer [OF assms(1) given [OF ir(2)]]
      inv_buffer [OF assms(1) start(1)] start(2) inv_buffer [OF assms(1,2)] assms(2)
    by (auto simp: setBuffer_def empty_dc_def split: if_splits)
qed

section \<open>Any use of a context\<close>

text \<open>
  The operations that change the context or the books. A context given to \<open>setBuffer\<close> is none of the
  memory contexts.
\<close>

datatype dc_op = SelectIn handle | SetBufferTo rect handle | FlushTo device_context | Flush | CopyIn | Validate | ReleaseIt

fun dc_step :: "('w, 'z) gdi_scheme \<Rightarrow> dc_op \<Rightarrow> device_context \<times> 'w \<Rightarrow> (device_context \<times> 'w) option" where
  "dc_step A (SelectIn x) (dc, w) = Some (snd (selectObject A x dc w))"
| "dc_step A (SetBufferTo area given) (dc, w) = map_option snd (setBuffer A area given dc w)"
| "dc_step A (FlushTo target) (dc, w) = map_option (\<lambda>r. (dc, snd r)) (flushBufferTo A target dc w)"
| "dc_step A Flush (dc, w) = map_option (\<lambda>r. (dc, snd r)) (flushBuffer A dc w)"
| "dc_step A CopyIn (dc, w) = map_option (\<lambda>r. (dc, snd r)) (copySelfToBuffer A dc w)"
| "dc_step A Validate (dc, w) = Some (dc, snd (validateRect A dc w))"
| "dc_step A ReleaseIt (dc, w) = Some (dc_release A dc w)"

fun dc_args :: "'w books \<Rightarrow> dc_op \<Rightarrow> 'w \<Rightarrow> bool" where
  "dc_args L (SetBufferTo area given) w \<longleftrightarrow> given \<notin> memDCs L w"
| "dc_args L _ w \<longleftrightarrow> True"

inductive dc_reaches :: "('w, 'z) gdi_scheme \<Rightarrow> 'w books \<Rightarrow> device_context \<times> 'w \<Rightarrow> device_context \<times> 'w \<Rightarrow> bool"
  for A L s where
  start: "dc_reaches A L s s"
| step: "dc_reaches A L s (dc, w) \<Longrightarrow> dc_args L op w \<Longrightarrow> dc_step A op (dc, w) = Some s' \<Longrightarrow> dc_reaches A L s s'"

lemma same_books_trans: "same_books L w w1 \<Longrightarrow> same_books L w1 w2 \<Longrightarrow> same_books L w w2"
  by (simp add: same_books_def)

lemma same_books_refl: "same_books L w w"
  by (simp add: same_books_def)

lemma copies_keep_books:
  assumes "documented A L"
  shows "flushBuffer A dc w = Some r \<Longrightarrow> same_books L w (snd r)"
    and "flushBufferTo A target dc w = Some r \<Longrightarrow> same_books L w (snd r)"
    and "copySelfToBuffer A dc w = Some r \<Longrightarrow> same_books L w (snd r)"
    and "same_books L w (snd (validateRect A dc w))"
proof -
  have b: "BitBlt A p i j n m d i2 j2 w = (ok, w1) \<Longrightarrow> same_books L w w1" for p i j n m d i2 j2 w ok w1
    using doc_BitBlt [OF assms, where w = w and p = p and i = i and j = j and n = n and m = m and d = d and ?i2.0 = i2 and ?j2.0 = j2]
    by simp
  note v = doc_ValidateRect [OF assms]
  have bv: "BitBlt A p i j n m d i2 j2 w = (ok, w1) \<Longrightarrow> same_books L w (snd (ValidateRect A h area w1))"
    for p i j n m d i2 j2 w ok w1 h area
    by (rule same_books_trans [OF b v])
  let ?copy = "\<lambda>h. BitBlt A h (left (drawArea dc)) (top (drawArea dc)) (the (getWidth dc)) (the (getHeight dc)) (hDC dc) 0 0 w"
  show "flushBuffer A dc w = Some r \<Longrightarrow> same_books L w (snd r)"
    by (cases "getWidth dc"; cases "getHeight dc"; cases "?copy (parentDC dc)")
      (auto simp: flushBuffer_def same_books_refl doc_BitBlt [OF assms]
        split: if_splits intro: bv b)
  show "flushBufferTo A target dc w = Some r \<Longrightarrow> same_books L w (snd r)"
    by (cases "getWidth dc"; cases "getHeight dc"; cases "?copy (hDC target)")
      (auto simp: flushBufferTo_def same_books_refl doc_BitBlt [OF assms]
        split: if_splits intro: bv b)
  show "copySelfToBuffer A dc w = Some r \<Longrightarrow> same_books L w (snd r)"
    by (cases r) (auto simp: copySelfToBuffer_def bind_eq_Some_conv dest!: b)
  show "same_books L w (snd (validateRect A dc w))"
    by (simp add: validateRect_def v same_books_refl)
qed

lemma inv_step:
  assumes "documented A L" "dc_inv L (D, B, W) dc w" "dc_args L op w" "dc_step A op (dc, w) = Some (dc1, w1)"
  shows "dc_inv L (D, B, W) dc1 w1"
proof (cases op)
  case (SelectIn x)
  with assms(4) inv_selectObject [OF assms(1,2), of x] show ?thesis by (auto intro: prod_cases3 simp: prod_eq_iff)
next
  case (SetBufferTo area given)
  then have g: "given \<notin> memDCs L w" using assms(3) by simp
  have "given \<notin> D" "parentDC dc \<noteq> NULL \<Longrightarrow> given \<noteq> hDC dc"
    using g inv_unbuffered(3) [OF assms(2)] inv_buffered(7) [OF assms(2)] by (cases "parentDC dc = NULL"; auto)+
  with inv_setBuffer [OF assms(1,2)] assms(4) SetBufferTo show ?thesis by auto
next
  case ReleaseIt
  with assms(4) release_returns [OF assms(1,2)] show ?thesis by (auto simp: inv_empty)
qed (use assms(4) inv_same_books [OF assms(2)] copies_keep_books [OF assms(1)] in \<open>auto\<close>)


section \<open>A small system\<close>

text \<open>
  An instance of the calls, for the examples: handles are numbers counted up, the stock bitmap is 5
  and whatever is not a bitmap replaces object 3.
\<close>

record ledger =
  nextHandle :: nat
  dcList :: "handle list"
  bitmapList :: "handle list"
  loans :: "(hwnd \<times> handle) list"
  selections :: "(handle \<times> handle) list"
  drawnTexts :: "(int \<times> int \<times> string) list"

definition ledger_bitmap :: "ledger \<Rightarrow> handle \<Rightarrow> bool" where
  "ledger_bitmap w b \<longleftrightarrow> b = 5 \<or> b \<in> set (bitmapList w) \<and> 10 \<le> b \<and> b < HGDI_ERROR"

definition last_selected :: "(handle \<times> handle) list \<Rightarrow> handle \<Rightarrow> handle" where
  "last_selected ss d = (case map_of ss d of Some b \<Rightarrow> if selected b then b else 5 | None \<Rightarrow> 5)"

definition ledger_in :: "ledger \<Rightarrow> handle \<Rightarrow> handle" where
  "ledger_in w = last_selected (selections w)"

definition fresh_handle :: "ledger \<Rightarrow> bool" where
  "fresh_handle w \<longleftrightarrow> 10 \<le> nextHandle w \<and> nextHandle w < HGDI_ERROR \<and> nextHandle w \<notin> set (dcList w) \<and>
     nextHandle w \<notin> set (bitmapList w) \<and> nextHandle w \<notin> snd ` set (loans w) \<and> nextHandle w \<notin> snd ` set (selections w)"

definition take_handle :: "(handle \<Rightarrow> ledger \<Rightarrow> ledger) \<Rightarrow> bool \<Rightarrow> ledger \<Rightarrow> handle \<times> ledger" where
  "take_handle f possible w =
     (if possible \<and> fresh_handle w then (nextHandle w, f (nextHandle w) (w\<lparr>nextHandle := nextHandle w + 1\<rparr>)) else (NULL, w))"

definition ledger_gdi :: "ledger gdi" where
  "ledger_gdi = \<lparr>
     CreateSolidBrush = (\<lambda>c. take_handle (\<lambda>h w. w) True),
     CreatePen = (\<lambda>s n c. take_handle (\<lambda>h w. w) True),
     CreateFont = (\<lambda>y x n. take_handle (\<lambda>h w. w) True),
     LoadBitmap = (\<lambda>i. take_handle (\<lambda>h w. w) True),
     LoadImageBitmap = (\<lambda>i x y f. take_handle (\<lambda>h w. w) True),
     LoadImageIcon = (\<lambda>i x y f. take_handle (\<lambda>h w. w) True),
     GetDC = (\<lambda>h. take_handle (\<lambda>d w. w\<lparr>loans := (h, d) # loans w\<rparr>) True),
     ReleaseDC = (\<lambda>h d w. w\<lparr>loans := filter (\<lambda>x. x \<noteq> (h, d)) (loans w)\<rparr>),
     CreateCompatibleDC = (\<lambda>p w. take_handle (\<lambda>d w. w\<lparr>dcList := d # dcList w, selections := (d, 5) # selections w\<rparr>) (p \<noteq> nextHandle w) w),
     DeleteDC = (\<lambda>d w. w\<lparr>dcList := filter (\<lambda>x. x \<noteq> d) (dcList w)\<rparr>),
     CreateCompatibleBitmap = (\<lambda>p x y. take_handle (\<lambda>b w. w\<lparr>bitmapList := b # bitmapList w\<rparr>) (x > 0 \<and> y > 0)),
     DeleteObject = (\<lambda>b w. if \<exists>d\<in>set (dcList w) - {NULL}. ledger_in w d = b then w
        else w\<lparr>bitmapList := filter (\<lambda>x. x \<noteq> b) (bitmapList w)\<rparr>),
     SelectObject = (\<lambda>d x w. if ledger_bitmap w x then (ledger_in w d, w\<lparr>selections := (d, x) # selections w\<rparr>) else (3, w)),
     BitBlt = (\<lambda>p i j n m d i2 j2 w. (True, w)),
     ValidateRect = (\<lambda>h area w. (True, w)),
     DcClientRect = (\<lambda>h w. Some \<lparr>left = 0, top = 0, right = 100, bottom = 50\<rparr>),
     FillRectWith = (\<lambda>d area b w. (True, w)),
     FrameRectWith = (\<lambda>d area b w. (True, w)),
     GetTabbedTextExtent = (\<lambda>d t w. of_nat (8 * length t)),
     TextExtentPoint = (\<lambda>d t w. Some \<lparr>cx = 8 * int (length t), cy = 10\<rparr>),
     ExtTextOut = (\<lambda>d x y t w. w\<lparr>drawnTexts := drawnTexts w @ [(x, y, t)]\<rparr>)\<rparr>"

definition ledger_books :: "ledger books" where
  "ledger_books = \<lparr>memDCs = (\<lambda>w. set (dcList w) - {NULL}), memBitmaps = (\<lambda>w. {b \<in> set (bitmapList w). 10 \<le> b \<and> b < HGDI_ERROR}),
     lent = (\<lambda>w. set (loans w)), bitmapIn = ledger_in, isBitmap = ledger_bitmap, stockBitmap = 5\<rparr>"

lemma last_selected_Cons: "selected x \<Longrightarrow> last_selected ((d, x) # ss) = (last_selected ss)(d := x)"
  by (auto simp: last_selected_def fun_eq_iff)

lemma last_selected_fresh: "n \<notin> snd ` set ss \<Longrightarrow> n \<noteq> 5 \<Longrightarrow> last_selected ss d \<noteq> n"
  by (auto simp: last_selected_def image_iff split: option.splits dest!: map_of_SomeD)

lemma last_selected_selected: "selected (last_selected ss d)"
  by (auto simp: last_selected_def selected_def NULL_def HGDI_ERROR_def split: option.splits)

lemma ledger_selected: "ledger_bitmap w x \<Longrightarrow> selected x" "selected 5" "selected 3"
  by (auto simp: ledger_bitmap_def selected_def NULL_def HGDI_ERROR_def)

lemma fresh_handleD:
  assumes "fresh_handle w"
  shows "nextHandle w \<noteq> 0" "nextHandle w \<notin> set (dcList w)" "nextHandle w \<notin> set (bitmapList w)"
    "(h, nextHandle w) \<notin> set (loans w)" "10 \<le> nextHandle w" "nextHandle w < HGDI_ERROR"
    "last_selected (selections w) d \<noteq> nextHandle w"
  using assms last_selected_fresh [of "nextHandle w" "selections w" d] by (force simp: fresh_handle_def)+

lemma ledger_documented: "documented ledger_gdi ledger_books"
  unfolding documented_def
  by (intro conjI)
    (auto simp: ledger_gdi_def ledger_books_def take_handle_def same_books_def ledger_bitmap_def ledger_selected NULL_def
      ledger_in_def last_selected_Cons last_selected_selected fresh_handleD HGDI_ERROR_def
      fresh_handleD(6) [unfolded HGDI_ERROR_def, simplified] split: if_splits prod.splits)

definition first_ledger :: ledger where
  "first_ledger = \<lparr>nextHandle = 10, dcList = [], bitmapList = [], loans = [], selections = [], drawnTexts = []\<rparr>"

definition example_ops :: "dc_op list" where
  "example_ops = [SelectIn 7, SetBufferTo \<lparr>left = 0, top = 0, right = 100, bottom = 50\<rparr> NULL, Flush,
     SetBufferTo \<lparr>left = 0, top = 0, right = 60, bottom = 50\<rparr> NULL]"

primrec run_ops :: "('w, 'z) gdi_scheme \<Rightarrow> dc_op list \<Rightarrow> device_context \<times> 'w \<Rightarrow> (device_context \<times> 'w) option" where
  "run_ops A [] s = Some s"
| "run_ops A (op # ops) s = Option.bind (dc_step A op s) (run_ops A ops)"

lemma run_ops_reaches:
  "dc_reaches A L s0 s \<Longrightarrow> \<forall>op\<in>set ops. \<forall>w. dc_args L op w \<Longrightarrow> run_ops A ops s = Some s' \<Longrightarrow> dc_reaches A L s0 s'"
proof (induction ops arbitrary: s)
  case (Cons op ops)
  then obtain s1 where s1: "dc_step A op s = Some s1" "run_ops A ops s1 = Some s'" by (auto simp: bind_eq_Some_conv)
  obtain dc w where s: "s = (dc, w)" by (cases s)
  have "dc_reaches A L s0 s1" using Cons.prems(1,2) s1(1) unfolding s by (auto intro: dc_reaches.step)
  from Cons.IH [OF this _ s1(2)] Cons.prems(2) show ?case by simp
qed simp

definition used_dc :: "device_context \<times> ledger" where
  "used_dc = (\<lparr>dcWnd = 30, hDC = 13, parentDC = 10, memBitmap = 14,
        drawArea = \<lparr>left = 0, top = 0, right = 60, bottom = 50\<rparr>, originalObject = 5, originalParentObject = 0\<rparr>,
     \<lparr>nextHandle = 15, dcList = [13], bitmapList = [14], loans = [(30, 10)],
      selections = [(13, 14), (13, 5), (11, 5), (11, 12), (11, 5)], drawnTexts = []\<rparr>)"

lemmas ledger_eval = first_ledger_def ledger_gdi_def take_handle_def fresh_handle_def ledger_bitmap_def ledger_in_def
  last_selected_def selected_def NULL_def HGDI_ERROR_def empty_dc_def zero_rect_def

lemma example_run: "run_ops ledger_gdi example_ops (dc_of_window ledger_gdi 30 first_ledger) = Some used_dc"
  by (simp add: example_ops_def used_dc_def dc_of_window_def ledger_eval selectObject_def setBuffer_def
      unbuffer_def put_back_def buffer_def flushBuffer_def getWidth_def getHeight_def matchesDimensions_def
      rect_width_def rect_height_def checked_arith in_s32_def)


text \<open>Two fonts asked for three times on the ledger: the first and the third request get the same object.\<close>

lemma each_font_is_created_once_witness:
  "\<exists>R' w'. request_all (getFont ledger_gdi) [default_font, default_font\<lparr>fontWidth := 8\<rparr>, default_font] no_resources first_ledger =
       ([10, 11, 10], R', w') \<and> nextHandle w' = 12 \<and> fonts R' default_font = Some 10"
proof -
  let ?ks = "[default_font, default_font\<lparr>fontWidth := 8\<rparr>, default_font]"
  obtain hs R' w' where r: "request_all (getFont ledger_gdi) ?ks no_resources first_ledger = (hs, R', w')" by (metis prod_cases3)
  from each_font_is_created_once [OF r] obtain made where m:
    "create_all (\<lambda>i. CreateFont ledger_gdi (fontHeight i) (fontWidth i) (fontName i)) (new_keys (dom (fonts no_resources)) ?ks) first_ledger = (made, w')"
    "fonts R' = fonts no_resources ++ map_of (zip (new_keys (dom (fonts no_resources)) ?ks) made)" "map Some hs = map (fonts R') ?ks" by blast
  have "made = [10, 11]" "nextHandle w' = 12" using m(1) by (auto simp: no_resources_def default_font_def ledger_eval)
  moreover have "hs = [10, 11, 10]" "fonts R' default_font = Some 10"
    using m(2,3) calculation(1) by (auto simp: no_resources_def default_font_def)
  ultimately show ?thesis using r by blast
qed

text \<open>
  After a failed \<open>GetDC\<close> the member \<open>hWnd\<close> keeps the window, so a context given later, which the object
  does not own, is released as if it came from that window.
\<close>

lemma failed_window_dc_releases_another:
  assumes "GetDC A window w = (NULL, w1)" "window \<noteq> NULL" "given \<noteq> NULL" "dc_of_window A window w = (dc, w2)"
  shows "dc_release A (dc\<lparr>hDC := given\<rparr>) w3 = (empty_dc, ReleaseDC A window given w3)"
  using assms by (auto simp: dc_of_window_def dc_release_def put_back_def empty_dc_def NULL_def)

end
