(* ===== verification/Text_Layout.thy ===== *)
theory Text_Layout
  imports Device_Context_Facts
begin

text \<open>
  The text operations of \<open>WindowsLib/DeviceContext\<close>: measuring, with and without a cache of measured
  lines, and \<open>drawWrappableText\<close>, which breaks a text into lines by a binary search for the longest
  prefix that fits. Texts are lists of characters of the user interface's encoding. A loop that may
  not end is a partial function: \<open>None\<close> is no return, or signed overflow.
\<close>

section \<open>Measuring\<close>

definition LOWORD :: "u32 \<Rightarrow> int" where "LOWORD n = uint (ucast n :: u16)"
definition HIWORD :: "u32 \<Rightarrow> int" where "HIWORD n = uint (ucast (drop_bit 16 n) :: u16)"

definition getTextExtent :: "('w, 'z) gdi_scheme \<Rightarrow> string \<Rightarrow> device_context \<Rightarrow> 'w \<Rightarrow> size2 option" where
  "getTextExtent A txt dc w = (if hDC dc \<noteq> NULL then TextExtentPoint A (hDC dc) txt w else None)"

text \<open>The results are the return value and what the parameters \<open>width\<close> and \<open>height\<close> hold afterwards.\<close>

definition getTabTextExtent ::
    "('w, 'z) gdi_scheme \<Rightarrow> string \<Rightarrow> int \<times> int \<Rightarrow> device_context \<Rightarrow> 'w \<Rightarrow> bool \<times> int \<times> int" where
  "getTabTextExtent A txt old dc w =
     (if txt \<noteq> [] then
        (let result = GetTabbedTextExtent A (hDC dc) txt w in
         if result \<noteq> 0 then (True, LOWORD result, HIWORD result) else (False, old))
      else (False, 0, 0))"

definition getTextWidth :: "('w, 'z) gdi_scheme \<Rightarrow> string \<Rightarrow> device_context \<Rightarrow> 'w \<Rightarrow> int" where
  "getTextWidth A txt dc w =
     (if txt \<noteq> [] then
        (let result = GetTabbedTextExtent A (hDC dc) txt w in if result \<noteq> 0 then LOWORD result else 0)
      else 0)"

record line_size =
  lineText :: string
  lineWidth :: int
  lineHeight :: int

text \<open>
  The \<open>unordered_multimap\<close> is the list of its elements; \<open>equal_range\<close> gives those under the hash.
\<close>

type_synonym line_cache = "(nat \<times> line_size) list"

definition getCachedTabTextExtent ::
    "('w, 'z) gdi_scheme \<Rightarrow> (string \<Rightarrow> nat) \<Rightarrow> string \<Rightarrow> int \<times> int \<Rightarrow> line_cache \<Rightarrow> device_context \<Rightarrow> 'w \<Rightarrow>
     (bool \<times> int \<times> int) \<times> line_cache" where
  "getCachedTabTextExtent A strHash txt old cache dc w =
     (if txt \<noteq> [] then
        (case find (\<lambda>(k, l). lineText l = txt) (filter (\<lambda>(k, l). k = strHash txt) cache) of
           Some (k, l) \<Rightarrow> ((True, lineWidth l, lineHeight l), cache)
         | None \<Rightarrow>
             (let result = GetTabbedTextExtent A (hDC dc) txt w in
              if result \<noteq> 0 then ((True, LOWORD result, HIWORD result),
                cache @ [(strHash txt, \<lparr>lineText = txt, lineWidth = LOWORD result, lineHeight = HIWORD result\<rparr>)])
              else ((False, old), cache)))
      else ((False, 0, 0), cache))"

section \<open>Breaking lines\<close>

text \<open>\<open>::GetTextExtentPoint32\<close>, which leaves the size as it was when it fails.\<close>

definition measure_text :: "('w, 'z) gdi_scheme \<Rightarrow> handle \<Rightarrow> string \<Rightarrow> size2 \<Rightarrow> 'w \<Rightarrow> size2" where
  "measure_text A h txt old w = (case TextExtentPoint A h txt w of Some z \<Rightarrow> z | None \<Rightarrow> old)"

function search_line ::
    "('w, 'z) gdi_scheme \<Rightarrow> handle \<Rightarrow> string \<Rightarrow> int \<Rightarrow> 'w \<Rightarrow> nat \<Rightarrow> nat \<Rightarrow> size2 \<Rightarrow> nat \<times> nat \<times> size2" where
  "search_line A h txt width w lo hi strSize =
     (if hi - 1 > lo then
        (let lastCharPos = (hi - lo) div 2 + lo; z = measure_text A h (take lastCharPos txt) strSize w in
         if cx z > width then search_line A h txt width w lo lastCharPos z
         else search_line A h txt width w lastCharPos hi z)
      else (lo, hi, strSize))"
  by pat_completeness auto
termination
  by (relation "measure (\<lambda>(A, h, txt, width, w, lo, hi, strSize). hi - lo)") auto

declare search_line.simps [simp del]

definition line_length ::
    "('w, 'z) gdi_scheme \<Rightarrow> handle \<Rightarrow> string \<Rightarrow> int \<Rightarrow> 'w \<Rightarrow> size2 \<Rightarrow> nat \<times> size2" where
  "line_length A h txt width w strSize =
     (case search_line A h txt width w 0 (length txt) strSize of (lo, hi, z) \<Rightarrow>
        (let z1 = measure_text A h (take (lo + 1) txt) z w in
         if cx z1 > width then (lo, z1) else (hi, z1)))"

partial_function (option) wrap_lines ::
    "('w, 'z) gdi_scheme \<Rightarrow> handle \<Rightarrow> rect \<Rightarrow> int \<Rightarrow> int \<Rightarrow> int \<Rightarrow> string \<Rightarrow> int \<Rightarrow> size2 \<Rightarrow> 'w \<Rightarrow> 'w option" where
  "wrap_lines A h textArea width height lh txt prevBottom strSize w =
     do { limit \<leftarrow> add32 (top textArea) height;
          room \<leftarrow> sub32 limit prevBottom;
          if room > lh \<and> txt \<noteq> [] then
            (case line_length A h txt width w strSize of (n, z) \<Rightarrow>
               do { below \<leftarrow> add32 prevBottom lh;
                    wrap_lines A h textArea width height lh (drop n txt) below z
                      (ExtTextOut A h (left textArea) prevBottom (take n txt) w) })
          else Some w }"

definition drawWrappableText ::
    "('w, 'z) gdi_scheme \<Rightarrow> string \<Rightarrow> rect \<Rightarrow> device_context \<Rightarrow> 'w \<Rightarrow> 'w option" where
  "drawWrappableText A txt textArea dc w =
     do { width \<leftarrow> rect_width textArea;
          height \<leftarrow> rect_height textArea;
          let strSize = measure_text A (hDC dc) txt \<lparr>cx = 0, cy = 0\<rparr> w;
          let lh = cy strSize;
          if cx strSize < width then Some (ExtTextOut A (hDC dc) (left textArea) (top textArea) txt w)
          else if height > lh then wrap_lines A (hDC dc) textArea width height lh txt (top textArea) strSize w
          else Some w }"

section \<open>The cache agrees with measuring\<close>

text \<open>Every entry is under the hash of its text and holds what measuring gives.\<close>

definition cache_ok :: "('w, 'z) gdi_scheme \<Rightarrow> (string \<Rightarrow> nat) \<Rightarrow> device_context \<Rightarrow> 'w \<Rightarrow> line_cache \<Rightarrow> bool" where
  "cache_ok A strHash dc w cache \<longleftrightarrow>
     (\<forall>(k, l)\<in>set cache. k = strHash (lineText l) \<and> lineText l \<noteq> [] \<and>
        (let r = GetTabbedTextExtent A (hDC dc) (lineText l) w in r \<noteq> 0 \<and> lineWidth l = LOWORD r \<and> lineHeight l = HIWORD r))"

text \<open>
  Property C34: on a cache filled on the same context the cached measurement returns what measuring
  returns, whatever the hash function, including on collisions, and the cache stays so.
\<close>

theorem cached_extent_agrees:
  assumes "cache_ok A strHash dc w cache"
  shows "fst (getCachedTabTextExtent A strHash txt old cache dc w) = getTabTextExtent A txt old dc w \<and>
    cache_ok A strHash dc w (snd (getCachedTabTextExtent A strHash txt old cache dc w))"
proof (cases "find (\<lambda>(k, l). lineText l = txt) (filter (\<lambda>(k, l). k = strHash txt) cache)")
  case None
  with assms show ?thesis
    by (auto simp: getCachedTabTextExtent_def getTabTextExtent_def cache_ok_def Let_def)
next
  case (Some e)
  obtain k l where e: "e = (k, l)" by (cases e)
  have "(k, l) \<in> set cache" "lineText l = txt"
    using Some unfolding e by (auto dest!: find_SomeD)
  with assms Some e show ?thesis
    by (auto simp: getCachedTabTextExtent_def getTabTextExtent_def cache_ok_def Let_def)
qed

section \<open>The lines are the longest that fit\<close>

text \<open>A font that measures every text, prefixes no wider than the whole, with lines of one height.\<close>

definition fixed_font :: "('w, 'z) gdi_scheme \<Rightarrow> handle \<Rightarrow> (string \<Rightarrow> int) \<Rightarrow> int \<Rightarrow> bool" where
  "fixed_font A h ext lh \<longleftrightarrow> (\<forall>txt w. TextExtentPoint A h txt w = Some \<lparr>cx = ext txt, cy = lh\<rparr>) \<and>
     (\<forall>txt m n. m \<le> n \<longrightarrow> ext (take m txt) \<le> ext (take n txt))"

text \<open>The reference: count the prefixes that fit, one after the other.\<close>

definition longest_fit :: "(string \<Rightarrow> int) \<Rightarrow> int \<Rightarrow> string \<Rightarrow> nat" where
  "longest_fit ext width txt = length (takeWhile (\<lambda>n. ext (take n txt) \<le> width) [1..<Suc (length txt)])"

primrec broken_lines :: "(string \<Rightarrow> nat) \<Rightarrow> nat \<Rightarrow> string \<Rightarrow> string list" where
  "broken_lines f 0 txt = []"
| "broken_lines f (Suc k) txt = (if txt = [] then [] else take (f txt) txt # broken_lines f k (drop (f txt) txt))"

primrec draw_lines :: "('w, 'z) gdi_scheme \<Rightarrow> handle \<Rightarrow> int \<Rightarrow> int \<Rightarrow> int \<Rightarrow> string list \<Rightarrow> 'w \<Rightarrow> 'w" where
  "draw_lines A h x y lh [] w = w"
| "draw_lines A h x y lh (l # ls) w = draw_lines A h x (y + lh) lh ls (ExtTextOut A h x y l w)"

definition line_count :: "int \<Rightarrow> int \<Rightarrow> nat" where
  "line_count height lh = nat ((height - 1) div lh)"

lemma longest_fit_eq:
  assumes "\<forall>m n. m \<le> n \<longrightarrow> ext (take m txt) \<le> ext (take n txt)" "n \<le> length txt"
    "n = 0 \<or> ext (take n txt) \<le> width" "n = length txt \<or> \<not> ext (take (Suc n) txt) \<le> width"
  shows "longest_fit ext width txt = n"
proof -
  let ?fits = "\<lambda>n. ext (take n txt) \<le> width"
  have split: "[1..<Suc (length txt)] = [1..<Suc n] @ [Suc n..<Suc (length txt)]"
    using assms(2) by (metis One_nat_def Suc_le_mono le0 le_add_diff_inverse upt_add_eq_append)
  have "?fits i" if "i \<in> set [1..<Suc n]" for i
  proof -
    have "n \<noteq> 0" "i \<le> n" using that by auto
    then show ?thesis using assms(1,3) by (meson order_trans)
  qed
  then have "takeWhile ?fits [1..<Suc (length txt)] = [1..<Suc n] @ takeWhile ?fits [Suc n..<Suc (length txt)]"
    unfolding split by (simp only: takeWhile_append2)
  moreover have "takeWhile ?fits [Suc n..<Suc (length txt)] = []"
    using assms(2,4) by (cases "n = length txt") (simp_all add: upt_rec [of "Suc n"] del: upt_Suc)
  ultimately show ?thesis by (simp add: longest_fit_def)
qed

lemma search_line_bounds:
  assumes "fixed_font A h ext lh" "lo < hi" "hi \<le> length txt" "lo = 0 \<or> ext (take lo txt) \<le> width"
    "hi = length txt \<or> \<not> ext (take hi txt) \<le> width"
  shows "\<exists>n z. search_line A h txt width w lo hi strSize = (n, Suc n, z) \<and> Suc n \<le> length txt \<and>
    (n = 0 \<or> ext (take n txt) \<le> width) \<and> (Suc n = length txt \<or> \<not> ext (take (Suc n) txt) \<le> width)"
  using assms(2-5)
proof (induction "hi - lo" arbitrary: lo hi strSize rule: less_induct)
  case less
  show ?case
  proof (cases "hi - 1 > lo")
    case False
    then have "hi = Suc lo" using less.prems(1) by simp
    with less.prems show ?thesis by (simp add: search_line.simps)
  next
    case True
    let ?mid = "(hi - lo) div 2 + lo"
    have mid: "lo < ?mid" "?mid < hi" "?mid - lo < hi - lo" "hi - ?mid < hi - lo" using True by linarith+
    let ?z = "\<lparr>cx = ext (take ?mid txt), cy = lh\<rparr>"
    have z: "measure_text A h (take ?mid txt) strSize w = ?z" using assms(1) by (simp add: measure_text_def fixed_font_def)
    show ?thesis
    proof (cases "ext (take ?mid txt) > width")
      case T: True
      have "search_line A h txt width w lo hi strSize = search_line A h txt width w lo ?mid ?z"
        using True T z by (subst search_line.simps) (simp add: Let_def)
      with less.hyps [OF mid(3) mid(1)] mid(2) T less.prems show ?thesis by simp
    next
      case F: False
      have "search_line A h txt width w lo hi strSize = search_line A h txt width w ?mid hi ?z"
        using True F z by (subst search_line.simps) (simp add: Let_def)
      with less.hyps [OF mid(4) mid(2)] F less.prems show ?thesis by simp
    qed
  qed
qed

lemma line_length_longest:
  assumes "fixed_font A h ext lh" "txt \<noteq> []"
  shows "\<exists>z. line_length A h txt width w strSize = (longest_fit ext width txt, z)"
proof -
  have m: "\<forall>m n. m \<le> n \<longrightarrow> ext (take m txt) \<le> ext (take n txt)" using assms(1) by (simp add: fixed_font_def)
  obtain n z where s: "search_line A h txt width w 0 (length txt) strSize = (n, Suc n, z)" "Suc n \<le> length txt"
    "n = 0 \<or> ext (take n txt) \<le> width" "Suc n = length txt \<or> \<not> ext (take (Suc n) txt) \<le> width"
    using search_line_bounds [OF assms(1), of 0 "length txt" "txt" width w strSize] assms(2) by auto
  let ?z = "\<lparr>cx = ext (take (Suc n) txt), cy = lh\<rparr>"
  have z: "measure_text A h (take (n + 1) txt) z w = ?z" using assms(1) by (simp add: measure_text_def fixed_font_def)
  show ?thesis
  proof (cases "ext (take (Suc n) txt) > width")
    case True
    have "longest_fit ext width txt = n" using longest_fit_eq [OF m _ s(3)] s(2) True by simp
    with s(1) z True show ?thesis by (simp add: line_length_def)
  next
    case False
    then have "longest_fit ext width txt = Suc n" using longest_fit_eq [OF m s(2)] s(4) by simp
    with s(1) z False show ?thesis by (simp add: line_length_def)
  qed
qed

lemma wrap_lines_eq:
  assumes "fixed_font A h ext lh" "0 < lh" "add32 (top area) height = Some limit" "limit - y \<le> height" "0 \<le> limit - y"
    "in_s32 height" "in_s32 y" "line_count (limit - y) lh = k"
  shows "wrap_lines A h area width height lh txt y strSize w =
    Some (draw_lines A h (left area) y lh (broken_lines (longest_fit ext width) k txt) w)"
  using assms(4-8)
proof (induction k arbitrary: y "txt" strSize w)
  case 0
  then have "(limit - y - 1) div lh \<le> 0" by (simp add: line_count_def)
  then have "limit - y - 1 < lh" using assms(2) by (metis linorder_not_less not_le pos_imp_zdiv_pos_iff)
  moreover have "in_s32 (limit - y)" using 0 assms(2) by (simp add: in_s32_iff)
  ultimately show ?case using assms(3) by (subst wrap_lines.simps) (simp add: sub32_def)
next
  case (Suc k)
  have room: "in_s32 (limit - y)" using Suc.prems assms(2) by (simp add: in_s32_iff)
  have "0 < (limit - y - 1) div lh" using Suc.prems(5) by (simp add: line_count_def)
  then have more: "lh < limit - y" using assms(2) by (simp add: pos_imp_zdiv_pos_iff)
  show ?case
  proof (cases "txt = []")
    case True
    with assms(3) room show ?thesis by (subst wrap_lines.simps) (simp add: sub32_def)
  next
    case False
    obtain z where n: "line_length A h txt width w strSize = (longest_fit ext width txt, z)"
      using line_length_longest [OF assms(1) False] by blast
    have below: "add32 y lh = Some (y + lh)" "in_s32 (y + lh)"
      using assms(2,3) more Suc.prems(4) by (auto simp: checked_arith in_s32_iff)
    have "limit - (y + lh) - 1 = (limit - y - 1) + (- 1) * lh" by simp
    then have "(limit - (y + lh) - 1) div lh = (limit - y - 1) div lh - 1"
      using assms(2) by (simp only: div_mult_self1)
    then have k: "line_count (limit - (y + lh)) lh = k" using Suc.prems(5) by (simp add: line_count_def nat_diff_distrib')
    have "wrap_lines A h area width height lh txt y strSize w =
      wrap_lines A h area width height lh (drop (longest_fit ext width txt) txt) (y + lh) z
        (ExtTextOut A h (left area) y (take (longest_fit ext width txt) txt) w)"
      using assms(3) room more False n below by (subst wrap_lines.simps) (simp add: sub32_def)
    with Suc.IH [OF _ _ Suc.prems(3) below(2) k] Suc.prems(1) assms(2) more False show ?thesis by simp
  qed
qed

text \<open>What the reference draws: pieces of the text in order, none wider than the area.\<close>

lemma broken_lines_concat: "\<exists>rest. concat (broken_lines f k txt) @ rest = txt"
proof (induction k arbitrary: "txt")
  case (Suc k)
  from Suc.IH [of "drop (f txt) txt"] obtain rest where "concat (broken_lines f k (drop (f txt) txt)) @ rest = drop (f txt) txt" by blast
  then show ?case by (auto intro: exI [of _ rest])
qed simp

lemma longest_fit_fits: "longest_fit ext width txt = 0 \<or> ext (take (longest_fit ext width txt) txt) \<le> width"
proof -
  let ?ns = "takeWhile (\<lambda>n. ext (take n txt) \<le> width) [1..<Suc (length txt)]"
  show ?thesis
  proof (cases "?ns = []")
    case False
    then have l: "length ?ns - 1 < length ?ns" by simp
    have "?ns ! (length ?ns - 1) = [1..<Suc (length txt)] ! (length ?ns - 1)" by (rule takeWhile_nth [OF l])
    also have "\<dots> = length ?ns"
      using False length_takeWhile_le [of "\<lambda>n. ext (take n txt) \<le> width" "[1..<Suc (length txt)]"]
      by (simp del: upt_Suc add: nth_upt)
    finally have "length ?ns \<in> set ?ns" by (metis l nth_mem)
    then show ?thesis unfolding longest_fit_def by (metis (mono_tags, lifting) set_takeWhileD)
  qed (simp add: longest_fit_def)
qed

lemma broken_lines_fit: "l \<in> set (broken_lines (longest_fit ext width) k txt) \<Longrightarrow> l = [] \<or> ext l \<le> width"
  by (induction k arbitrary: "txt") (use longest_fit_fits in \<open>fastforce split: if_splits\<close>)+


lemma ledger_font: "fixed_font ledger_gdi h (\<lambda>t. 8 * int (length t)) 10"
  by (simp add: fixed_font_def ledger_gdi_def min.coboundedI2)


lemma cached_extent_agrees_witness:
  "fst (getCachedTabTextExtent ledger_gdi length ''ab'' (0, 0) [(2, \<lparr>lineText = ''cd'', lineWidth = 16, lineHeight = 0\<rparr>)]
     (dc_of_handle 10) first_ledger) = (True, 16, 0)"
proof -
  have "cache_ok ledger_gdi length (dc_of_handle 10) first_ledger [(2, \<lparr>lineText = ''cd'', lineWidth = 16, lineHeight = 0\<rparr>)]"
    by (simp add: cache_ok_def ledger_gdi_def LOWORD_def HIWORD_def)
  from cached_extent_agrees [OF this] show ?thesis
    by (simp add: getTabTextExtent_def ledger_gdi_def LOWORD_def HIWORD_def)
qed

text \<open>
  Without a context nothing can be measured: every extent stays zero, and in an area whose right edge
  lies left of its left edge not even an empty line is narrow enough, so the loop never ends.
\<close>

lemma unmeasured_line:
  assumes "\<forall>txt w. TextExtentPoint A h txt w = None" "width < 0"
  shows "line_length A h txt width w \<lparr>cx = 0, cy = 0\<rparr> = (0, \<lparr>cx = 0, cy = 0\<rparr>)"
proof -
  have "search_line A h txt width w 0 hi \<lparr>cx = 0, cy = 0\<rparr> = (0, min hi 1, \<lparr>cx = 0, cy = 0\<rparr>)" for hi
  proof (induction hi rule: less_induct)
    case (less hi)
    show ?case
    proof (cases "1 < hi")
      case True
      then have "hi div 2 < hi" "0 < hi div 2" by linarith+
      with less [of "hi div 2"] True assms show ?thesis
        by (subst search_line.simps) (auto simp: measure_text_def Let_def)
    qed (subst search_line.simps, auto)
  qed
  with assms show ?thesis by (simp add: line_length_def measure_text_def)
qed

definition unmeasured where
  "unmeasured A h area width height lh txt y z \<longleftrightarrow> lh = 0 \<and> z = \<lparr>cx = 0, cy = 0\<rparr> \<and>
     (\<forall>txt w. TextExtentPoint A h txt w = None) \<and> width < 0 \<and> 0 < height \<and> txt \<noteq> [] \<and>
     (\<exists>limit. add32 (top area) height = Some limit \<and> sub32 limit y = Some height)"

lemma wrap_lines_no_result:
  "wrap_lines A h area width height lh txt y z w = Some r \<Longrightarrow> \<not> unmeasured A h area width height lh txt y z"
  apply (erule wrap_lines.raw_induct [rotated])
  apply (auto simp: unmeasured_line unmeasured_def bind_eq_Some_conv checked_arith split: if_splits)
  apply fastforce
  done

lemma wrap_lines_never_returns:
  "unmeasured A h area width height lh txt y z \<Longrightarrow> wrap_lines A h area width height lh txt y z w = None"
  using wrap_lines_no_result by (metis not_None_eq)

end
