(* ===== verification/List_Box.thy ===== *)
theory List_Box
  imports Control
begin

text \<open>
  \<open>WindowsLib/ListBoxControl\<close>: the list box. While redrawing is switched off, items that are added are
  queued, and handed to the control when it is switched on again. The control's own procedure and
  the parent's handlers are parameters; a message the object sends to its control runs through
  \<open>ControlProc\<close> when the procedure was redirected, as \<open>CreateThis\<close> asks.
\<close>

unbundle bit_operations_syntax

section \<open>Messages\<close>

type_synonym u64 = "64 word"

text \<open>The messages the class sends or handles; \<open>lParam\<close> of the strings is the address or the item.\<close>

datatype lb_message =
    LB_RESETCONTENT
  | LB_ADDSTRING u64
  | LB_INSERTSTRING int u64
  | LB_SETSEL bool int
  | LB_SETCURSEL int
  | LB_SETITEMDATA int u32
  | LB_SETITEMHEIGHT int int
  | LB_DELETESTRING int
  | LB_SETTOPINDEX int
  | LB_GETCOUNT
  | LB_GETITEMHEIGHT int
  | LB_GETCURSEL
  | LB_GETSELCOUNT
  | LB_GETTEXTLEN int
  | LB_GETITEMDATA int
  | LB_GETTOPINDEX
  | WM_SETREDRAW bool
  | WM_PAINT
  | WM_MOUSEWHEEL int
  | WM_LBUTTONDBLCLK
  | OtherBoxMessage u32 int int

datatype lb_notice = WM_PREMEASUREITEMS | WM_POSTMEASUREITEMS | WM_PREDRAWITEMS | WM_POSTDRAWITEMS | WM_DBLCLKITEM

text \<open>
  \<open>BoxProc\<close> is the procedure of the system's list box, the \<open>LbGet\<close> fields are the messages that fill a
  buffer, \<open>AddressOf\<close> the address of a converted string and \<open>CanQueue\<close> whether the queue can grow.
\<close>

record 'w box_controls = "'w controls" +
  BoxProc :: "hwnd \<Rightarrow> lb_message \<Rightarrow> 'w \<Rightarrow> int \<times> 'w"
  NotifyParent :: "hwnd \<Rightarrow> lb_notice \<Rightarrow> 'w \<Rightarrow> 'w"
  LbGetItemRect :: "hwnd \<Rightarrow> int \<Rightarrow> 'w \<Rightarrow> rect option"
  LbGetSelItems :: "hwnd \<Rightarrow> nat \<Rightarrow> 'w \<Rightarrow> int list option"
  LbGetText :: "hwnd \<Rightarrow> int \<Rightarrow> 'w \<Rightarrow> string option"
  AddressOf :: "string \<Rightarrow> 'w \<Rightarrow> u64"
  CanQueue :: "nat \<Rightarrow> bool"

definition LB_ERR :: int where "LB_ERR = - 1"
definition LB_ERRSPACE :: int where "LB_ERRSPACE = - 2"

section \<open>State\<close>

record list_box = control +
  autoRedraw :: bool
  itemsToAdd :: "u32 list"

definition new_list_box :: list_box where
  "new_list_box = control.extend new_control \<lparr>autoRedraw = True, itemsToAdd = []\<rparr>"

section \<open>The procedure\<close>

definition box_default :: "('w, 'z) box_controls_scheme \<Rightarrow> lb_message \<Rightarrow> list_box \<Rightarrow> 'w \<Rightarrow> int \<times> 'w" where
  "box_default A m b w = BoxProc A (getHandle b) m w"

definition box_parent :: "('w, 'z) box_controls_scheme \<Rightarrow> lb_notice \<Rightarrow> list_box \<Rightarrow> 'w \<Rightarrow> 'w" where
  "box_parent A n b w = NotifyParent A (getParent (desktop A) b w) n w"

text \<open>The loop that empties the queue into the control.\<close>

primrec add_queued :: "('w, 'z) box_controls_scheme \<Rightarrow> list_box \<Rightarrow> u32 list \<Rightarrow> 'w \<Rightarrow> 'w" where
  "add_queued A b [] w = w"
| "add_queued A b (x # xs) w = add_queued A b xs (snd (box_default A (LB_ADDSTRING (ucast x)) b w))"

definition WHEEL_DELTA :: int where "WHEEL_DELTA = 120"

fun box_ControlProc :: "('w, 'z) box_controls_scheme \<Rightarrow> lb_message \<Rightarrow> list_box \<Rightarrow> 'w \<Rightarrow> int \<times> list_box \<times> 'w" where
  "box_ControlProc A (LB_ADDSTRING lParam) b w =
     (if \<not> autoRedraw b then
        (if CanQueue A (length (itemsToAdd b)) then
           (int (length (itemsToAdd b)), b\<lparr>itemsToAdd := itemsToAdd b @ [ucast lParam]\<rparr>, w)
         else (- 1, b, w))
      else (let (r, w1) = box_default A (LB_ADDSTRING lParam) b w in (r, b, w1)))"
| "box_ControlProc A (WM_SETREDRAW on) b w =
     (let (b1, w1) =
        (if on \<and> \<not> autoRedraw b then
           (b\<lparr>itemsToAdd := [], autoRedraw := True\<rparr>,
            box_parent A WM_POSTMEASUREITEMS b (add_queued A b (itemsToAdd b) (box_parent A WM_PREMEASUREITEMS b w)))
         else if \<not> on \<and> autoRedraw b then (b\<lparr>autoRedraw := False\<rparr>, w)
         else (b, w));
        (r, w2) = box_default A (WM_SETREDRAW on) b1 w1
      in (r, b1, w2))"
| "box_ControlProc A WM_PAINT b w =
     (let (r, w1) = box_default A WM_PAINT b (box_parent A WM_PREDRAWITEMS b w)
      in (r, b, box_parent A WM_POSTDRAWITEMS b w1))"
| "box_ControlProc A (WM_MOUSEWHEEL delta) b w =
     (let (top, w1) = box_default A LB_GETTOPINDEX b w;
          (_, w2) = box_default A (LB_SETTOPINDEX (top - trunc_div delta WHEEL_DELTA)) b w1
      in (0, b, w2))"
| "box_ControlProc A WM_LBUTTONDBLCLK b w = (0, b, box_parent A WM_DBLCLKITEM b w)"
| "box_ControlProc A m b w = (let (r, w1) = box_default A m b w in (r, b, w1))"

text \<open>\<open>SendMessage\<close> to the object's own control.\<close>

definition send_box :: "('w, 'z) box_controls_scheme \<Rightarrow> lb_message \<Rightarrow> list_box \<Rightarrow> 'w \<Rightarrow> int \<times> list_box \<times> 'w" where
  "send_box A m b w =
     (if defaultProc b \<noteq> 0 then box_ControlProc A m b w else (let (r, w1) = box_default A m b w in (r, b, w1)))"

text \<open>A message that only asks.\<close>

definition ask_box :: "('w, 'z) box_controls_scheme \<Rightarrow> lb_message \<Rightarrow> list_box \<Rightarrow> 'w \<Rightarrow> int" where
  "ask_box A m b w = fst (send_box A m b w)"

definition succeeded :: "int \<times> list_box \<times> 'w \<Rightarrow> bool \<times> list_box \<times> 'w" where
  "succeeded s = (case s of (r, b, w) \<Rightarrow> (r \<noteq> LB_ERR, b, w))"

section \<open>Operations\<close>

definition LBS_NOTIFY :: u32 where "LBS_NOTIFY = 0x1"
definition LBS_SORT :: u32 where "LBS_SORT = 0x2"
definition LBS_OWNERDRAWFIXED :: u32 where "LBS_OWNERDRAWFIXED = 0x10"
definition LBS_OWNERDRAWVARIABLE :: u32 where "LBS_OWNERDRAWVARIABLE = 0x20"
definition LBS_MULTICOLUMN :: u32 where "LBS_MULTICOLUMN = 0x200"
definition LBS_EXTENDEDSEL :: u32 where "LBS_EXTENDEDSEL = 0x800"
definition BOX_VSCROLL :: u32 where "BOX_VSCROLL = 0x00200000"
definition WS_TABSTOP :: u32 where "WS_TABSTOP = 0x00010000"
definition LVS_EX_DOUBLEBUFFER :: u32 where "LVS_EX_DOUBLEBUFFER = 0x00010000"
definition BOX_CLIENTEDGE :: u32 where "BOX_CLIENTEDGE = 0x200"

definition box_CreateThis ::
    "('w, 'z) box_controls_scheme \<Rightarrow> hwnd \<Rightarrow> int \<Rightarrow> int \<Rightarrow> int \<Rightarrow> int \<Rightarrow> bool \<Rightarrow> bool \<Rightarrow> bool \<Rightarrow> bool \<Rightarrow> nat \<Rightarrow>
     list_box \<Rightarrow> 'w \<Rightarrow> bool \<times> list_box \<times> 'w" where
  "box_CreateThis A parent x y width height ownerDrawn multiColumn scrollBar alphaSort i b w =
     (let s1 = WS_CHILD OR WS_VISIBLE OR WS_TABSTOP OR LBS_NOTIFY;
          s2 = (if ownerDrawn \<and> multiColumn then s1 OR LBS_OWNERDRAWFIXED OR LBS_MULTICOLUMN OR LBS_EXTENDEDSEL
                else if ownerDrawn then s1 OR LBS_OWNERDRAWVARIABLE OR BOX_VSCROLL
                else if multiColumn then s1 OR LBS_MULTICOLUMN OR LBS_EXTENDEDSEL else s1);
          s3 = (if alphaSort then s2 OR LBS_SORT else s2);
          s4 = (if scrollBar then s3 OR BOX_VSCROLL else s3)
      in CreateControl A (BOX_CLIENTEDGE OR LVS_EX_DOUBLEBUFFER) ''ListBox'' [] s4 x y width height parent i True b w)"

definition box_ClearItems :: "('w, 'z) box_controls_scheme \<Rightarrow> list_box \<Rightarrow> 'w \<Rightarrow> list_box \<times> 'w" where
  "box_ClearItems A b w = snd (send_box A LB_RESETCONTENT b w)"

definition add_result :: "int \<times> list_box \<times> 'w \<Rightarrow> int \<times> list_box \<times> 'w" where
  "add_result s = (case s of (r, b, w) \<Rightarrow> (if r = LB_ERR \<or> r = LB_ERRSPACE then - 1 else r, b, w))"

definition AddItem :: "('w, 'z) box_controls_scheme \<Rightarrow> u32 \<Rightarrow> list_box \<Rightarrow> 'w \<Rightarrow> int \<times> list_box \<times> 'w" where
  "AddItem A x b w = add_result (send_box A (LB_ADDSTRING (ucast x)) b w)"

definition AddString :: "('w, 'z) box_controls_scheme \<Rightarrow> string \<Rightarrow> list_box \<Rightarrow> 'w \<Rightarrow> int \<times> list_box \<times> 'w" where
  "AddString A str b w = add_result (send_box A (LB_ADDSTRING (AddressOf A str w)) b w)"

definition AddStrings :: "('w, 'z) box_controls_scheme \<Rightarrow> string list \<Rightarrow> list_box \<Rightarrow> 'w \<Rightarrow> int \<times> list_box \<times> 'w" where
  "AddStrings A strs b w = fold (\<lambda>str (r, b, w). AddString A str b w) strs (- 1, b, w)"

definition insert_result :: "int \<times> list_box \<times> 'w \<Rightarrow> bool \<times> list_box \<times> 'w" where
  "insert_result s = (case s of (r, b, w) \<Rightarrow> (r \<noteq> LB_ERR \<and> r \<noteq> LB_ERRSPACE, b, w))"

definition InsertString where
  "InsertString A index str b w = insert_result (send_box A (LB_INSERTSTRING index (AddressOf A str w)) b w)"

definition InsertItem :: "('w, 'z) box_controls_scheme \<Rightarrow> int \<Rightarrow> u32 \<Rightarrow> list_box \<Rightarrow> 'w \<Rightarrow> bool \<times> list_box \<times> 'w" where
  "InsertItem A index x b w = insert_result (send_box A (LB_INSERTSTRING index (ucast x)) b w)"

definition ClearSel :: "('w, 'z) box_controls_scheme \<Rightarrow> list_box \<Rightarrow> 'w \<Rightarrow> bool \<times> list_box \<times> 'w" where
  "ClearSel A b w =
     (if GetWindowLong (desktop A) (getHandle b) GWL_STYLE w AND LBS_EXTENDEDSEL = LBS_EXTENDEDSEL
      then succeeded (send_box A (LB_SETSEL False (- 1)) b w)
      else succeeded (send_box A (LB_SETCURSEL (- 1)) b w))"

definition box_SetCurSel where "box_SetCurSel A index b w = succeeded (send_box A (LB_SETCURSEL index) b w)"
definition box_SelectItem where "box_SelectItem A index b w = succeeded (send_box A (LB_SETSEL True index) b w)"
definition box_SetItemData where "box_SetItemData A index data b w = succeeded (send_box A (LB_SETITEMDATA index data) b w)"
definition box_SetItemHeight where "box_SetItemHeight A index height b w = succeeded (send_box A (LB_SETITEMHEIGHT index height) b w)"
definition box_RemoveItem where "box_RemoveItem A index b w = succeeded (send_box A (LB_DELETESTRING index) b w)"
definition box_SetTopIndex where "box_SetTopIndex A index b w = succeeded (send_box A (LB_SETTOPINDEX index) b w)"

definition or_zero :: "int \<Rightarrow> int" where "or_zero r = (if r \<noteq> LB_ERR then r else 0)"
definition unless_err :: "int \<Rightarrow> int option" where "unless_err r = (if r \<noteq> LB_ERR then Some r else None)"

definition box_GetNumItems where "box_GetNumItems A b w = or_zero (ask_box A LB_GETCOUNT b w)"
definition box_ItemHeight where "box_ItemHeight A b w = or_zero (ask_box A (LB_GETITEMHEIGHT 0) b w)"
definition box_GetNumSel where "box_GetNumSel A b w = or_zero (ask_box A LB_GETSELCOUNT b w)"
definition box_GetItemHeight where "box_GetItemHeight A index b w = unless_err (ask_box A (LB_GETITEMHEIGHT index) b w)"
definition box_GetCurSel where "box_GetCurSel A b w = unless_err (ask_box A LB_GETCURSEL b w)"
definition box_GetTopIndex where "box_GetTopIndex A b w = ask_box A LB_GETTOPINDEX b w"

definition box_GetItemData :: "('w, 'z) box_controls_scheme \<Rightarrow> int \<Rightarrow> list_box \<Rightarrow> 'w \<Rightarrow> u32 option" where
  "box_GetItemData A index b w = map_option word_of_int (unless_err (ask_box A (LB_GETITEMDATA index) b w))"

definition box_ColumnWidth :: "('w, 'z) box_controls_scheme \<Rightarrow> list_box \<Rightarrow> 'w \<Rightarrow> int option" where
  "box_ColumnWidth A b w = (case LbGetItemRect A (getHandle b) 0 w of None \<Rightarrow> Some 0 | Some r \<Rightarrow> rect_width r)"

text \<open>
  The selected item number \<open>index\<close>, read from an array of \<open>index + 1\<close> elements; \<open>unset\<close> is what an
  element holds that the message did not fill (no value, or the zero of \<open>make_unique\<close>). \<open>None\<close> is an
  access outside the array.
\<close>

definition selection_at :: "('w, 'z) box_controls_scheme \<Rightarrow> int option \<Rightarrow> int \<Rightarrow> list_box \<Rightarrow> 'w \<Rightarrow> int option option" where
  "selection_at A unset index b w =
     (let numSel = ask_box A LB_GETSELCOUNT b w in
      if numSel \<noteq> LB_ERR \<and> numSel > 0 \<and> index < numSel then
        (if index < 0 then None
         else (case LbGetSelItems A (getHandle b) (nat index + 1) w of
                 None \<Rightarrow> Some None
               | Some items \<Rightarrow> if nat index < length items then Some (Some (items ! nat index)) else map_option Some unset))
      else Some None)"

definition text_of_item :: "('w, 'z) box_controls_scheme \<Rightarrow> int \<Rightarrow> list_box \<Rightarrow> 'w \<Rightarrow> string option" where
  "text_of_item A i b w =
     (if ask_box A (LB_GETTEXTLEN i) b w \<noteq> LB_ERR then LbGetText A (getHandle b) i w else None)"

definition GetSelString :: "('w, 'z) box_controls_scheme \<Rightarrow> int \<Rightarrow> list_box \<Rightarrow> 'w \<Rightarrow> string option option" where
  "GetSelString A index b w =
     map_option (\<lambda>s. case s of None \<Rightarrow> None | Some i \<Rightarrow> text_of_item A i b w) (selection_at A None index b w)"

text \<open>A negative size of the array is an exception, which \<open>GetSelItem\<close> catches and \<open>GetSelString\<close> does not.\<close>

definition GetSelItem :: "('w, 'z) box_controls_scheme \<Rightarrow> int \<Rightarrow> list_box \<Rightarrow> 'w \<Rightarrow> int option option" where
  "GetSelItem A index b w =
     (if index < - 1 then Some None
      else map_option (map_option (\<lambda>i. ask_box A (LB_GETITEMDATA i) b w)) (selection_at A (Some 0) index b w))"

definition GetCurSelString :: "('w, 'z) box_controls_scheme \<Rightarrow> list_box \<Rightarrow> 'w \<Rightarrow> string option" where
  "GetCurSelString A b w = (case box_GetCurSel A b w of None \<Rightarrow> None | Some i \<Rightarrow> text_of_item A i b w)"

definition GetCurSelItem :: "('w, 'z) box_controls_scheme \<Rightarrow> list_box \<Rightarrow> 'w \<Rightarrow> int option" where
  "GetCurSelItem A b w = map_option (\<lambda>i. ask_box A (LB_GETITEMDATA i) b w) (box_GetCurSel A b w)"

section \<open>Adding without redrawing\<close>

text \<open>The boxes after \<open>CreateThis\<close>; and what a caller does to add many items at once.\<close>

definition add_items :: "('w, 'z) box_controls_scheme \<Rightarrow> u32 list \<Rightarrow> list_box \<Rightarrow> 'w \<Rightarrow> list_box \<times> 'w" where
  "add_items A xs b w = fold (\<lambda>x (b, w). snd (AddItem A x b w)) xs (b, w)"

definition SetRedraw :: "('w, 'z) box_controls_scheme \<Rightarrow> bool \<Rightarrow> list_box \<Rightarrow> 'w \<Rightarrow> list_box \<times> 'w" where
  "SetRedraw A on b w = snd (send_box A (WM_SETREDRAW on) b w)"

lemma box_default_cong: "getHandle b = getHandle c \<Longrightarrow> box_default A m b = box_default A m c"
  by (simp add: box_default_def fun_eq_iff)

lemma add_queued_cong: "getHandle b = getHandle c \<Longrightarrow> add_queued A b xs w = add_queued A c xs w"
  by (induction xs arbitrary: w) (simp_all add: box_default_def)

lemma add_items_direct:
  assumes "defaultProc b \<noteq> 0" "autoRedraw b"
  shows "add_items A xs b w = (b, add_queued A b xs w)"
proof (induction xs arbitrary: w)
  case (Cons x xs)
  have "snd (AddItem A x b w) = (b, snd (box_default A (LB_ADDSTRING (ucast x)) b w))"
    using assms by (simp add: AddItem_def add_result_def send_box_def split: prod.splits)
  with Cons show ?case by (simp add: add_items_def)
qed (simp add: add_items_def)

lemma add_items_queued:
  assumes "defaultProc b \<noteq> 0" "\<not> autoRedraw b" "\<forall>n. CanQueue A n"
  shows "add_items A xs b w = (b\<lparr>itemsToAdd := itemsToAdd b @ xs\<rparr>, w)"
  using assms(1,2)
proof (induction xs arbitrary: b)
  case (Cons x xs)
  have u: "ucast (ucast x :: u64) = x" by (rule bit_word_eqI) (auto simp: bit_unsigned_iff)
  have "snd (AddItem A x b w) = (b\<lparr>itemsToAdd := itemsToAdd b @ [x]\<rparr>, w)"
    using Cons.prems assms(3) u by (simp add: AddItem_def add_result_def send_box_def)
  with Cons show ?case by (simp add: add_items_def)
qed (simp add: add_items_def)

text \<open>
  Property C30: switching redrawing off, adding items and switching it on again hands the control the same
  items in the same order as adding them one by one, between the two notices to the parent and the
  two messages that switch drawing; nothing stays queued.
\<close>

theorem deferred_items_arrive_in_order:
  assumes "defaultProc b \<noteq> 0" "autoRedraw b" "itemsToAdd b = []" "\<forall>n. CanQueue A n"
    "SetRedraw A False b w = (b1, w1)" "add_items A xs b1 w1 = (b2, w2)" "SetRedraw A True b2 w2 = (b3, w3)"
  shows "b3 = b \<and>
    (let w4 = box_parent A WM_PREMEASUREITEMS b (snd (box_default A (WM_SETREDRAW False) b w));
         w5 = snd (add_items A xs b w4)
     in w3 = snd (box_default A (WM_SETREDRAW True) b (box_parent A WM_POSTMEASUREITEMS b w5)))"
proof -
  note fields = getHandle_def box_default_def box_parent_def getParent_def
  have 1: "b1 = b\<lparr>autoRedraw := False\<rparr>" "w1 = snd (box_default A (WM_SETREDRAW False) b w)"
    using assms(1,2,5) by (auto simp: SetRedraw_def send_box_def fields split: prod.splits)
  have 2: "b2 = b\<lparr>autoRedraw := False, itemsToAdd := xs\<rparr>" "w2 = w1"
    using assms(1,3,4,6) add_items_queued [of b1 A xs w1] by (simp_all add: 1)
  have q: "add_queued A b2 xs w' = add_queued A b xs w'" for w'
    by (rule add_queued_cong) (simp add: 2 getHandle_def)
  have "b3 = b2\<lparr>itemsToAdd := [], autoRedraw := True\<rparr>"
    using assms(1,7) by (auto simp: SetRedraw_def send_box_def 2 split: prod.splits)
  then have 3: "b3 = b" using assms(2,3) by (cases b) (simp add: 2)
  have "w3 = snd (box_default A (WM_SETREDRAW True) b
      (box_parent A WM_POSTMEASUREITEMS b (add_queued A b xs (box_parent A WM_PREMEASUREITEMS b w1))))"
    using assms(1,7) q by (auto simp: SetRedraw_def send_box_def 2 fields split: prod.splits)
  with 3 1(2) show ?thesis by (simp add: Let_def add_items_direct [OF assms(1,2)])
qed

text \<open>
  A string is queued as the low half of the address of a temporary, so above 4 GB the control is
  given another address.
\<close>

lemma queued_string_address_is_cut:
  assumes "defaultProc b \<noteq> 0" "\<not> autoRedraw b" "\<forall>n. CanQueue A n" "AddString A str b w = (r, b1, w1)"
    "2 ^ 32 \<le> uint (AddressOf A str w)"
  shows "itemsToAdd b1 = itemsToAdd b @ [ucast (AddressOf A str w)] \<and>
    (ucast (ucast (AddressOf A str w) :: u32) :: u64) \<noteq> AddressOf A str w"
proof
  show "itemsToAdd b1 = itemsToAdd b @ [ucast (AddressOf A str w)]"
    using assms(1-4) by (auto simp: AddString_def add_result_def send_box_def)
  have "uint (ucast (ucast (AddressOf A str w) :: u32) :: u64) < 2 ^ 32"
    using uint_lt2p [of "ucast (AddressOf A str w) :: u32"] by (simp add: uint_up_ucast is_up)
  with assms(5) show "(ucast (ucast (AddressOf A str w) :: u32) :: u64) \<noteq> AddressOf A str w" by auto
qed

section \<open>Boxes on the small desktop\<close>

text \<open>An instance of the calls for the examples: every message to the control is recorded.\<close>

fun box_code :: "lb_message \<Rightarrow> u32" where
  "box_code (LB_ADDSTRING x) = ucast x"
| "box_code (WM_SETREDRAW on) = (if on then 2 else 1)"
| "box_code m = 0"

definition desk_boxes :: "desk box_controls" where
  "desk_boxes = controls.extend desk_controls \<lparr>
     BoxProc = (\<lambda>h m d. (0, d\<lparr>deskMessages := deskMessages d @ [(h, box_code m)]\<rparr>)),
     NotifyParent = (\<lambda>h n d. d),
     LbGetItemRect = (\<lambda>h i d. None),
     LbGetSelItems = (\<lambda>h n d. None),
     LbGetText = (\<lambda>h i d. None),
     AddressOf = (\<lambda>t d. 0),
     CanQueue = (\<lambda>n. True)\<rparr>"

definition example_box :: list_box where
  "example_box = new_list_box\<lparr>windowsItemHandle := 60, defaultProc := 7\<rparr>"

lemma deferred_items_arrive_in_order_witness:
  "\<exists>b1 w1 b2 w2 b3 w3. SetRedraw desk_boxes False example_box (example_desk \<lparr>px = 0, py = 0\<rparr>) = (b1, w1) \<and>
     add_items desk_boxes [11, 12] b1 w1 = (b2, w2) \<and> SetRedraw desk_boxes True b2 w2 = (b3, w3) \<and> b3 = example_box \<and>
     deskMessages w3 = [(60, 1), (60, 11), (60, 12), (60, 2)]"
proof -
  obtain b1 w1 where 1: "SetRedraw desk_boxes False example_box (example_desk \<lparr>px = 0, py = 0\<rparr>) = (b1, w1)" by fastforce
  obtain b2 w2 where 2: "add_items desk_boxes [11, 12] b1 w1 = (b2, w2)" by fastforce
  obtain b3 w3 where 3: "SetRedraw desk_boxes True b2 w2 = (b3, w3)" by fastforce
  have b: "defaultProc example_box \<noteq> 0" "autoRedraw example_box" "itemsToAdd example_box = []" "\<forall>n. CanQueue desk_boxes n"
    "getHandle example_box = 60"
    by (simp_all add: example_box_def new_list_box_def control.defs desk_boxes_def controls.defs getHandle_def)
  have p: "box_default desk_boxes m example_box d = (0, d\<lparr>deskMessages := deskMessages d @ [(60, box_code m)]\<rparr>)"
    "box_parent desk_boxes n example_box d = d" for m n d
    by (simp_all add: box_default_def box_parent_def b desk_boxes_def controls.defs)
  from deferred_items_arrive_in_order [OF b(1-4) 1 2 3] have "b3 = example_box"
    "deskMessages w3 = [(60, 1), (60, 11), (60, 12), (60, 2)]"
    by (simp_all add: Let_def p add_items_direct [OF b(1,2)] example_desk_def)
  with 1 2 3 show ?thesis by blast
qed

end
