(* ===== verification/Dialog_Controls.thy ===== *)
theory Dialog_Controls
  imports Edit_Control Resources
begin

text \<open>
  \<open>TreeViewControl\<close>, \<open>DropdownControl\<close>, \<open>TabControl\<close>, \<open>CheckBoxControl\<close> and \<open>ButtonControl\<close> of
  \<open>WindowsLib\<close>: the controls of the dialogs. The messages are further fields of the record of calls.
  \<open>EmptySubTree\<close> loops until the control reports no child; \<open>None\<close> is a loop that does not end.
\<close>

unbundle bit_operations_syntax

section \<open>The calls\<close>

type_synonym htreeitem = nat

text \<open>\<open>TVITEM\<close>: the members the program fills in or reads.\<close>

record tv_item =
  tvMask :: u32
  hItem :: htreeitem
  tvState :: u32
  tvText :: string
  tvParam :: int

record 'w dialog_controls = "'w controls" +
  BmGetCheck :: "hwnd \<Rightarrow> 'w \<Rightarrow> bool"
  BmSetCheck :: "hwnd \<Rightarrow> bool \<Rightarrow> 'w \<Rightarrow> 'w"
  BmSetStyle :: "hwnd \<Rightarrow> 'w \<Rightarrow> 'w"
  BmSetImage :: "hwnd \<Rightarrow> handle \<Rightarrow> 'w \<Rightarrow> 'w"
  GetDlgCtrlID :: "hwnd \<Rightarrow> 'w \<Rightarrow> u32"
  TcmSetImageList :: "hwnd \<Rightarrow> handle \<Rightarrow> 'w \<Rightarrow> 'w"
  TcmSetMinTabWidth :: "hwnd \<Rightarrow> int \<Rightarrow> 'w \<Rightarrow> 'w"
  TcmGetCurSel :: "hwnd \<Rightarrow> 'w \<Rightarrow> int"
  TcmSetCurSel :: "hwnd \<Rightarrow> u32 \<Rightarrow> 'w \<Rightarrow> int \<times> 'w"
  TcmInsertItem :: "hwnd \<Rightarrow> u32 \<Rightarrow> string \<Rightarrow> 'w \<Rightarrow> int \<times> 'w"
  TvmInsertItem :: "hwnd \<Rightarrow> htreeitem \<Rightarrow> bool \<Rightarrow> tv_item \<Rightarrow> 'w \<Rightarrow> htreeitem \<times> 'w"
  TvmSetItem :: "hwnd \<Rightarrow> tv_item \<Rightarrow> 'w \<Rightarrow> bool \<times> 'w"
  TvmGetItem :: "hwnd \<Rightarrow> tv_item \<Rightarrow> 'w \<Rightarrow> tv_item option"
  TvmExpand :: "hwnd \<Rightarrow> htreeitem \<Rightarrow> 'w \<Rightarrow> bool \<times> 'w"
  TvmGetChild :: "hwnd \<Rightarrow> htreeitem \<Rightarrow> 'w \<Rightarrow> htreeitem"
  TvmDeleteItem :: "hwnd \<Rightarrow> htreeitem \<Rightarrow> 'w \<Rightarrow> 'w"
  TvmSelectItem :: "hwnd \<Rightarrow> htreeitem \<Rightarrow> 'w \<Rightarrow> 'w"
  TvmGetSelection :: "hwnd \<Rightarrow> 'w \<Rightarrow> htreeitem"
  TvmHitTest :: "hwnd \<Rightarrow> int \<Rightarrow> int \<Rightarrow> 'w \<Rightarrow> htreeitem"
  SelTreeItem :: "hwnd \<Rightarrow> int \<Rightarrow> 'w \<Rightarrow> 'w"
  SetRedrawOf :: "hwnd \<Rightarrow> bool \<Rightarrow> 'w \<Rightarrow> 'w"
  CbAddString :: "hwnd \<Rightarrow> string \<Rightarrow> 'w \<Rightarrow> int \<times> 'w"
  CbSetCurSel :: "hwnd \<Rightarrow> int \<Rightarrow> 'w \<Rightarrow> 'w"
  CbClearEditSel :: "hwnd \<Rightarrow> 'w \<Rightarrow> 'w"
  CbGetCurSel :: "hwnd \<Rightarrow> 'w \<Rightarrow> int"
  CbGetItemData :: "hwnd \<Rightarrow> int \<Rightarrow> 'w \<Rightarrow> int"
  CbSetItemData :: "hwnd \<Rightarrow> int \<Rightarrow> int \<Rightarrow> 'w \<Rightarrow> 'w"
  CbGetLbText :: "hwnd \<Rightarrow> int \<Rightarrow> 'w \<Rightarrow> string option"
  CbGetCount :: "hwnd \<Rightarrow> 'w \<Rightarrow> int"
  CbResetContent :: "hwnd \<Rightarrow> 'w \<Rightarrow> 'w"
  CbDeleteString :: "hwnd \<Rightarrow> int \<Rightarrow> 'w \<Rightarrow> int \<times> 'w"

section \<open>Check boxes and buttons\<close>

definition BS_CHECKBOX :: u32 where "BS_CHECKBOX = 0x2"
definition BS_AUTOCHECKBOX :: u32 where "BS_AUTOCHECKBOX = 0x3"
definition BS_BITMAP :: u32 where "BS_BITMAP = 0x80"
definition BS_PUSHBUTTON :: u32 where "BS_PUSHBUTTON = 0"
definition BS_VCENTER :: u32 where "BS_VCENTER = 0xC00"
definition EDGE_STYLE :: u32 where "EDGE_STYLE = 0x200"

definition isChecked :: "('w, 'z) dialog_controls_scheme \<Rightarrow> 'a control_scheme \<Rightarrow> 'w \<Rightarrow> bool" where
  "isChecked A c w = BmGetCheck A (getHandle c) w"

definition SetCheck :: "('w, 'z) dialog_controls_scheme \<Rightarrow> bool \<Rightarrow> 'a control_scheme \<Rightarrow> 'w \<Rightarrow> 'w" where
  "SetCheck A on c w = (if on then BmSetCheck A (getHandle c) True w else BmSetCheck A (getHandle c) False w)"

definition check_CreateAuto ::
    "('w, 'z) dialog_controls_scheme \<Rightarrow> hwnd \<Rightarrow> int \<Rightarrow> int \<Rightarrow> int \<Rightarrow> int \<Rightarrow> bool \<Rightarrow> bool \<Rightarrow> string \<Rightarrow> nat \<Rightarrow>
     control \<Rightarrow> 'w \<Rightarrow> bool \<times> control \<times> 'w" where
  "check_CreateAuto A parent x y width height checked autoCheck label i c w =
     (let style = (WS_VISIBLE OR WS_CHILD OR BS_VCENTER) OR (if autoCheck then BS_AUTOCHECKBOX else BS_CHECKBOX);
          (ok, c1, w1) = CreateControl A 0 ''Button'' label style x y width height parent i False c w
      in if ok then (True, c1, if checked then BmSetCheck A (getHandle c1) True w1 else w1) else (False, c1, w1))"

definition check_CreateThis ::
    "('w, 'z) dialog_controls_scheme \<Rightarrow> hwnd \<Rightarrow> int \<Rightarrow> int \<Rightarrow> int \<Rightarrow> int \<Rightarrow> bool \<Rightarrow> string \<Rightarrow> nat \<Rightarrow>
     control \<Rightarrow> 'w \<Rightarrow> bool \<times> control \<times> 'w" where
  "check_CreateThis A parent x y width height checked label i c w =
     (let (ok, c1, w1) = CreateControl A 0 ''Button'' label (WS_VISIBLE OR WS_CHILD OR BS_AUTOCHECKBOX OR BS_VCENTER)
            x y width height parent i False c w
      in if ok then (True, c1, if checked then BmSetCheck A (getHandle c1) True w1 else w1) else (False, c1, w1))"

definition button_CreateThis ::
    "('w, 'z) dialog_controls_scheme \<Rightarrow> hwnd \<Rightarrow> int \<Rightarrow> int \<Rightarrow> int \<Rightarrow> int \<Rightarrow> string \<Rightarrow> nat \<Rightarrow> bool \<Rightarrow>
     control \<Rightarrow> 'w \<Rightarrow> bool \<times> control \<times> 'w" where
  "button_CreateThis A parent x y width height label i imageButton c w =
     (if imageButton then
        CreateControl A 0 ''Button'' label (WS_VISIBLE OR WS_CHILD OR BS_BITMAP) x y width height parent i True c w
      else CreateControl A EDGE_STYLE ''Button'' label (WS_VISIBLE OR WS_CHILD OR BS_PUSHBUTTON) x y width height parent i True c w)"

definition WM_LBUTTONUP :: u32 where "WM_LBUTTONUP = 0x202"

definition button_ControlProc ::
    "('w, 'z) dialog_controls_scheme \<Rightarrow> u32 \<Rightarrow> int \<Rightarrow> int \<Rightarrow> control \<Rightarrow> 'w \<Rightarrow> int \<times> 'w" where
  "button_ControlProc A msg wParam lParam c w =
     (let (result, w1) = ctl_default A msg wParam lParam c w
      in (result, if msg = WM_LBUTTONUP \<or> msg = WM_LBUTTONDOWN then BmSetStyle A (getHandle c) w1 else w1))"

definition button_SetText :: "('w, 'z) dialog_controls_scheme \<Rightarrow> string \<Rightarrow> control \<Rightarrow> 'w \<Rightarrow> bool \<times> 'w" where
  "button_SetText A t c w = SetWinText (desktop A) t c w"

text \<open>The bitmap comes from the table of the program's resources.\<close>

definition SetImageFromResourceId ::
    "('w, 'z) dialog_controls_scheme \<Rightarrow> ('w, 'y) gdi_scheme \<Rightarrow> nat \<Rightarrow> control \<Rightarrow> resources \<Rightarrow> 'w \<Rightarrow> bool \<times> resources \<times> 'w" where
  "SetImageFromResourceId A G i c R w =
     (let (image, R1, w1) = getSimpleBitmap G (of_nat i) R w in
      if image \<noteq> NULL then (True, R1, BmSetImage A (getHandle c) image w1) else (False, R1, w1))"

section \<open>Tabs\<close>

definition tab_CreateThis ::
    "('w, 'z) dialog_controls_scheme \<Rightarrow> hwnd \<Rightarrow> int \<Rightarrow> int \<Rightarrow> int \<Rightarrow> int \<Rightarrow> nat \<Rightarrow> control \<Rightarrow> 'w \<Rightarrow> bool \<times> control \<times> 'w" where
  "tab_CreateThis A parent x y width height i c w =
     CreateControl A 0 ''SysTabControl32'' [] (WS_VISIBLE OR WS_CHILD) x y width height parent i False c w"

definition GetCurSel :: "('w, 'z) dialog_controls_scheme \<Rightarrow> control \<Rightarrow> 'w \<Rightarrow> u32" where
  "GetCurSel A c w = word_of_int (TcmGetCurSel A (getHandle c) w)"

definition SetCurSel :: "('w, 'z) dialog_controls_scheme \<Rightarrow> u32 \<Rightarrow> control \<Rightarrow> 'w \<Rightarrow> bool \<times> 'w" where
  "SetCurSel A i c w = (let (r, w1) = TcmSetCurSel A (getHandle c) i w in (r \<noteq> - 1, w1))"

definition InsertTab :: "('w, 'z) dialog_controls_scheme \<Rightarrow> u32 \<Rightarrow> string \<Rightarrow> control \<Rightarrow> 'w \<Rightarrow> bool \<times> 'w" where
  "InsertTab A i label c w = (let (r, w1) = TcmInsertItem A (getHandle c) i label w in (r \<noteq> - 1, w1))"

definition ShowTab :: "('w, 'z) dialog_controls_scheme \<Rightarrow> u32 \<Rightarrow> control \<Rightarrow> 'w \<Rightarrow> 'w" where
  "ShowTab A i c w = ShowWindow (desktop A) (GetDlgItem A (getHandle c) i w) SW_SHOW w"

definition HideTab :: "('w, 'z) dialog_controls_scheme \<Rightarrow> u32 \<Rightarrow> control \<Rightarrow> 'w \<Rightarrow> 'w" where
  "HideTab A i c w = ShowWindow (desktop A) (GetDlgItem A (getHandle c) i w) SW_HIDE w"

definition SetImageList :: "('w, 'z) dialog_controls_scheme \<Rightarrow> handle \<Rightarrow> control \<Rightarrow> 'w \<Rightarrow> 'w" where
  "SetImageList A images c w = TcmSetImageList A (getHandle c) images w"

definition SetMinTabWidth :: "('w, 'z) dialog_controls_scheme \<Rightarrow> int \<Rightarrow> control \<Rightarrow> 'w \<Rightarrow> 'w" where
  "SetMinTabWidth A n c w = TcmSetMinTabWidth A (getHandle c) n w"

section \<open>Trees\<close>

definition TVS_HASBUTTONS :: u32 where "TVS_HASBUTTONS = 0x1"
definition TVS_HASLINES :: u32 where "TVS_HASLINES = 0x2"
definition TVS_LINESATROOT :: u32 where "TVS_LINESATROOT = 0x4"
definition TVS_NONEVENHEIGHT :: u32 where "TVS_NONEVENHEIGHT = 0x4000"
definition TVIF_TEXT :: u32 where "TVIF_TEXT = 0x1"
definition TVIF_PARAM :: u32 where "TVIF_PARAM = 0x4"
definition LVIF_PARAM :: u32 where "LVIF_PARAM = 0x4"
definition TVIF_STATE :: u32 where "TVIF_STATE = 0x8"
definition TVIF_HANDLE :: u32 where "TVIF_HANDLE = 0x10"
definition TVIS_SELECTED :: u32 where "TVIS_SELECTED = 0x2"

definition no_item :: tv_item where
  "no_item = \<lparr>tvMask = 0, hItem = NULL, tvState = 0, tvText = [], tvParam = 0\<rparr>"

definition tree_CreateThis ::
    "('w, 'z) dialog_controls_scheme \<Rightarrow> hwnd \<Rightarrow> int \<Rightarrow> int \<Rightarrow> int \<Rightarrow> int \<Rightarrow> bool \<Rightarrow> nat \<Rightarrow> control \<Rightarrow> 'w \<Rightarrow> bool \<times> control \<times> 'w" where
  "tree_CreateThis A parent x y width height hasButtons i c w =
     (let s = WS_VISIBLE OR WS_CHILD OR TVS_NONEVENHEIGHT OR TVS_HASLINES;
          style = (if hasButtons then s OR (TVS_HASBUTTONS OR TVS_LINESATROOT) else s)
      in CreateControl A EDGE_STYLE ''SysTreeView32'' [] style x y width height parent i True c w)"

text \<open>The flag of \<open>TvmInsertItem\<close> is whether the item goes to the root (\<open>TVI_ROOT\<close>) or after the last child.\<close>

definition InsertParent :: "('w, 'z) dialog_controls_scheme \<Rightarrow> string \<Rightarrow> int \<Rightarrow> control \<Rightarrow> 'w \<Rightarrow> htreeitem \<times> 'w" where
  "InsertParent A t lParam c w =
     TvmInsertItem A (getHandle c) NULL True (no_item\<lparr>tvMask := TVIF_TEXT OR TVIF_PARAM, tvText := t, tvParam := lParam\<rparr>) w"

definition InsertTreeItem ::
    "('w, 'z) dialog_controls_scheme \<Rightarrow> htreeitem \<Rightarrow> string \<Rightarrow> int \<Rightarrow> control \<Rightarrow> 'w \<Rightarrow> htreeitem \<times> 'w" where
  "InsertTreeItem A parent t lParam c w =
     (if parent = NULL then InsertParent A t lParam c w
      else TvmInsertItem A (getHandle c) parent False
             (no_item\<lparr>tvMask := TVIF_TEXT OR LVIF_PARAM, tvText := t, tvParam := lParam\<rparr>) w)"

definition tree_SetHandle :: "('w, 'z) dialog_controls_scheme \<Rightarrow> hwnd \<Rightarrow> control \<Rightarrow> 'w \<Rightarrow> bool \<times> control" where
  "tree_SetHandle A h c w = ctl_FindThis A (GetParent (desktop A) h w) (GetDlgCtrlID A h w) c w"

definition tree_SetItemText :: "('w, 'z) dialog_controls_scheme \<Rightarrow> htreeitem \<Rightarrow> string \<Rightarrow> control \<Rightarrow> 'w \<Rightarrow> bool \<times> 'w" where
  "tree_SetItemText A item t c w =
     TvmSetItem A (getHandle c) (no_item\<lparr>tvMask := TVIF_TEXT, hItem := item, tvText := t\<rparr>) w"

definition ExpandItem :: "('w, 'z) dialog_controls_scheme \<Rightarrow> htreeitem \<Rightarrow> control \<Rightarrow> 'w \<Rightarrow> bool \<times> 'w" where
  "ExpandItem A item c w = TvmExpand A (getHandle c) item w"

partial_function (option) EmptySubTree ::
    "('w, 'z) dialog_controls_scheme \<Rightarrow> htreeitem \<Rightarrow> control \<Rightarrow> 'w \<Rightarrow> 'w option" where
  "EmptySubTree A root c w =
     (let child = TvmGetChild A (getHandle c) root w in
      if child \<noteq> NULL then EmptySubTree A root c (TvmDeleteItem A (getHandle c) child w) else Some w)"

definition tree_SelectItem :: "('w, 'z) dialog_controls_scheme \<Rightarrow> htreeitem \<Rightarrow> control \<Rightarrow> 'w \<Rightarrow> 'w" where
  "tree_SelectItem A item c w = TvmSelectItem A (getHandle c) item w"

definition GetSelData :: "('w, 'z) dialog_controls_scheme \<Rightarrow> control \<Rightarrow> 'w \<Rightarrow> int option" where
  "GetSelData A c w =
     (let selection = TvmGetSelection A (getHandle c) w in
      if selection \<noteq> NULL then
        map_option tvParam (TvmGetItem A (getHandle c) (no_item\<lparr>tvMask := TVIF_HANDLE, hItem := selection\<rparr>) w)
      else None)"

definition tree_WM_CHAR :: u32 where "tree_WM_CHAR = 0x102"

text \<open>A click on the selected item is reported; a character typed with the control key is swallowed.\<close>

definition tree_ControlProc ::
    "('w, 'z) dialog_controls_scheme \<Rightarrow> u32 \<Rightarrow> int \<Rightarrow> int \<Rightarrow> int \<Rightarrow> int \<Rightarrow> control \<Rightarrow> 'w \<Rightarrow> int \<times> 'w" where
  "tree_ControlProc A msg wParam lParam x y c w =
     (if msg = WM_LBUTTONDOWN then
        (let item = TvmHitTest A (getHandle c) x y w;
             w1 = (if item \<noteq> NULL then
                 (case TvmGetItem A (getHandle c) (no_item\<lparr>tvMask := TVIF_HANDLE OR TVIF_STATE OR TVIF_PARAM, hItem := item\<rparr>) w of
                    Some info \<Rightarrow> if tvState info AND TVIS_SELECTED = TVIS_SELECTED
                       then SelTreeItem A (getParent (desktop A) c w) (tvParam info) w else w
                  | None \<Rightarrow> w) else w)
         in ctl_default A msg wParam lParam c w1)
      else if msg = tree_WM_CHAR \<and> GetKeyState A VK_CONTROL w then (0, w)
      else ctl_default A msg wParam lParam c w)"

section \<open>Drop-down lists\<close>

definition CB_ERR :: int where "CB_ERR = - 1"
definition CB_ERRSPACE :: int where "CB_ERRSPACE = - 2"
definition CBS_SIMPLE :: u32 where "CBS_SIMPLE = 0x1"
definition CBS_DROPDOWN :: u32 where "CBS_DROPDOWN = 0x2"
definition CBS_DROPDOWNLIST :: u32 where "CBS_DROPDOWNLIST = 0x3"
definition CBS_AUTOHSCROLL :: u32 where "CBS_AUTOHSCROLL = 0x40"
definition CBS_HASSTRINGS :: u32 where "CBS_HASSTRINGS = 0x200"

definition dropdown_style :: "bool \<Rightarrow> bool \<Rightarrow> u32" where
  "dropdown_style editable alwaysList =
     (let style = WS_VISIBLE OR WS_CHILD OR WS_VSCROLL OR CBS_AUTOHSCROLL OR CBS_HASSTRINGS in
      if editable then (if alwaysList then style OR CBS_DROPDOWNLIST else style OR CBS_DROPDOWN)
      else if alwaysList then style OR (CBS_SIMPLE OR CBS_DROPDOWNLIST) else style OR (CBS_SIMPLE OR CBS_DROPDOWN))"

definition dropdown_CreateThis ::
    "('w, 'z) dialog_controls_scheme \<Rightarrow> hwnd \<Rightarrow> int \<Rightarrow> int \<Rightarrow> int \<Rightarrow> int \<Rightarrow> bool \<Rightarrow> bool \<Rightarrow> nat \<Rightarrow> string list \<Rightarrow>
     control \<Rightarrow> 'w \<Rightarrow> bool \<times> control \<times> 'w" where
  "dropdown_CreateThis A parent x y width height editable alwaysList i items c w =
     (let (ok, c1, w1) = CreateControl A 0 ''ComboBox'' [] (dropdown_style editable alwaysList) x y width height parent i False c w
      in if ok then
           (let w2 = setDefaultFont A True c1 w1
            in (True, c1, fold (\<lambda>t w. snd (CbAddString A (getHandle c1) t w)) items w2))
         else (False, c1, w1))"

definition SetSel where "SetSel A index c w = CbSetCurSel A (getHandle c) index w"
definition ClearEditSel where "ClearEditSel A c w = CbClearEditSel A (getHandle c) w"
definition GetSel where "GetSel A c w = CbGetCurSel A (getHandle c) w"

definition drop_GetSelData :: "('w, 'z) dialog_controls_scheme \<Rightarrow> control \<Rightarrow> 'w \<Rightarrow> int" where
  "drop_GetSelData A c w =
     (let selIndex = CbGetCurSel A (getHandle c) w in
      if selIndex \<noteq> CB_ERR \<and> selIndex \<noteq> CB_ERRSPACE then CbGetItemData A (getHandle c) selIndex w else selIndex)"

definition drop_GetItemText where "drop_GetItemText A index c w = CbGetLbText A (getHandle c) index w"
definition drop_GetNumItems where "drop_GetNumItems A c w = CbGetCount A (getHandle c) w"
definition drop_ClearItems where "drop_ClearItems A c w = CbResetContent A (getHandle c) w"
definition drop_AddItem where "drop_AddItem A t c w = CbAddString A (getHandle c) t w"

definition drop_AddItemData :: "('w, 'z) dialog_controls_scheme \<Rightarrow> string \<Rightarrow> int \<Rightarrow> control \<Rightarrow> 'w \<Rightarrow> int \<times> 'w" where
  "drop_AddItemData A t data c w =
     (let (r, w1) = CbAddString A (getHandle c) t w
      in (r, if r \<noteq> CB_ERR \<and> r \<noteq> CB_ERRSPACE then CbSetItemData A (getHandle c) r data w1 else w1))"

definition drop_RemoveItem where "drop_RemoveItem A index c w = CbDeleteString A (getHandle c) index w"

definition drop_GetEditNum :: "('w, 'z) dialog_controls_scheme \<Rightarrow> control \<Rightarrow> 'w \<Rightarrow> ('n::len) word option" where
  "drop_GetEditNum A c w = (case GetWinText A c w of Some txt \<Rightarrow> edit_num txt | None \<Rightarrow> None)"

definition drop_SetEditNum :: "('w, 'z) dialog_controls_scheme \<Rightarrow> int \<Rightarrow> control \<Rightarrow> 'w \<Rightarrow> bool \<times> 'w" where
  "drop_SetEditNum A n c w = SetWinText (desktop A) (to_string_int n) c w"

section \<open>Emptying a tree\<close>

text \<open>
  Deleting a child removes it from the children the control reports; \<open>children\<close> observes them.
\<close>

definition deletes_children :: "('w, 'z) dialog_controls_scheme \<Rightarrow> hwnd \<Rightarrow> htreeitem \<Rightarrow> ('w \<Rightarrow> htreeitem list) \<Rightarrow> bool" where
  "deletes_children A h root children \<longleftrightarrow>
     (\<forall>w. NULL \<notin> set (children w) \<and> TvmGetChild A h root w = (case children w of [] \<Rightarrow> NULL | x # xs \<Rightarrow> x)) \<and>
     (\<forall>w x xs. children w = x # xs \<longrightarrow> children (TvmDeleteItem A h x w) = xs)"

text \<open>
  Property C35: when the control deletes the items it is told to, \<open>EmptySubTree\<close> returns, after deleting
  the children of the item in their order, and leaves none.
\<close>

theorem EmptySubTree_empties:
  assumes "deletes_children A (getHandle c) root children"
  shows "EmptySubTree A root c w = Some (fold (TvmDeleteItem A (getHandle c)) (children w) w) \<and>
    children (fold (TvmDeleteItem A (getHandle c)) (children w) w) = []"
proof (induction "children w" arbitrary: w)
  case Nil
  then have "children w = []" by simp
  moreover have "TvmGetChild A (getHandle c) root w = NULL" using assms Nil [symmetric] by (simp add: deletes_children_def)
  ultimately show ?case by (subst EmptySubTree.simps) (simp add: Let_def)
next
  case (Cons x xs)
  let ?w = "TvmDeleteItem A (getHandle c) x w"
  have ch: "children w = x # xs" using Cons.hyps(2) by simp
  moreover have "NULL \<notin> set (children w)" "TvmGetChild A (getHandle c) root w = (case children w of [] \<Rightarrow> NULL | x # xs \<Rightarrow> x)"
    "children ?w = xs"
    using assms ch unfolding deletes_children_def by blast+
  moreover have "EmptySubTree A root c ?w = Some (fold (TvmDeleteItem A (getHandle c)) xs ?w) \<and>
    children (fold (TvmDeleteItem A (getHandle c)) xs ?w) = []" using Cons.hyps(1) [of ?w] calculation(4) by simp
  ultimately show ?case by (subst EmptySubTree.simps) (auto simp: Let_def)
qed

text \<open>
  The instance of the calls for the examples: trees are lists of children (item, text, value), and a
  deletion removes the first entry of the item from every list. A combo box is empty.
\<close>

fun delete_entry :: "nat \<Rightarrow> (nat \<times> 'a) list \<Rightarrow> (nat \<times> 'a) list" where
  "delete_entry i [] = []"
| "delete_entry i (e # es) = (if fst e = i then es else e # delete_entry i es)"

definition desk_children :: "nat \<Rightarrow> desk \<Rightarrow> nat list" where
  "desk_children i d = filter (\<lambda>j. j \<noteq> NULL) (map fst (deskTree d i))"

lemma delete_entry_children:
  "filter (\<lambda>j. j \<noteq> NULL) (map fst es) = x # xs \<Longrightarrow> filter (\<lambda>j. j \<noteq> NULL) (map fst (delete_entry x es)) = xs"
  by (induction es) (auto split: if_splits dest: filter_eq_ConsD)

definition desk_dialogs :: "desk dialog_controls" where
  "desk_dialogs = controls.extend desk_controls \<lparr>
     BmGetCheck = (\<lambda>h d. deskChecked d h),
     BmSetCheck = (\<lambda>h b d. d\<lparr>deskChecked := (deskChecked d)(h := b)\<rparr>),
     BmSetStyle = (\<lambda>h d. d),
     BmSetImage = (\<lambda>h i d. d),
     GetDlgCtrlID = (\<lambda>h d. of_nat h),
     TcmSetImageList = (\<lambda>h i d. d),
     TcmSetMinTabWidth = (\<lambda>h n d. d),
     TcmGetCurSel = (\<lambda>h d. deskNumbers d h),
     TcmSetCurSel = (\<lambda>h i d. (deskNumbers d h, d\<lparr>deskNumbers := (deskNumbers d)(h := uint i)\<rparr>)),
     TcmInsertItem = (\<lambda>h i t d. (uint i, d)),
     TvmInsertItem = (\<lambda>h p top i d.
        (let n = Suc (length (deskTree d p)) in (n, d\<lparr>deskTree := (deskTree d)(p := deskTree d p @ [(n, tvText i, tvParam i)])\<rparr>))),
     TvmSetItem = (\<lambda>h i d. (True, d)),
     TvmGetItem = (\<lambda>h i d. Some i),
     TvmExpand = (\<lambda>h i d. (True, d)),
     TvmGetChild = (\<lambda>h i d. case desk_children i d of [] \<Rightarrow> NULL | x # xs \<Rightarrow> x),
     TvmDeleteItem = (\<lambda>h i d. d\<lparr>deskTree := (\<lambda>p. delete_entry i (deskTree d p))\<rparr>),
     TvmSelectItem = (\<lambda>h i d. d\<lparr>deskNumbers := (deskNumbers d)(h := int i)\<rparr>),
     TvmGetSelection = (\<lambda>h d. nat (deskNumbers d h)),
     TvmHitTest = (\<lambda>h x y d. NULL),
     SelTreeItem = (\<lambda>h n d. d),
     SetRedrawOf = (\<lambda>h b d. d),
     CbAddString = (\<lambda>h t d. (0, d)),
     CbSetCurSel = (\<lambda>h i d. d),
     CbClearEditSel = (\<lambda>h d. d),
     CbGetCurSel = (\<lambda>h d. - 1),
     CbGetItemData = (\<lambda>h i d. - 1),
     CbSetItemData = (\<lambda>h i n d. d),
     CbGetLbText = (\<lambda>h i d. None),
     CbGetCount = (\<lambda>h d. 0),
     CbResetContent = (\<lambda>h d. d),
     CbDeleteString = (\<lambda>h i d. (- 1, d))\<rparr>"

lemmas desk_dialogs_defs = desk_dialogs_def controls.defs

lemma desk_deletes_children: "deletes_children desk_dialogs h root (desk_children root)"
  unfolding deletes_children_def
  by (intro conjI allI impI)
    (auto simp: desk_dialogs_defs desk_children_def delete_entry_children)

lemma EmptySubTree_empties_witness:
  "\<exists>w. EmptySubTree desk_dialogs 1 (setHandle 50 new_control)
      ((example_desk \<lparr>px = 0, py = 0\<rparr>)\<lparr>deskTree := (\<lambda>i. if i = 1 then [(5, ''one'', 8), (6, ''two'', 9)] else [])\<rparr>) = Some w \<and>
     desk_children 1 w = []"
  using EmptySubTree_empties [OF desk_deletes_children] by blast

text \<open>An item the control does not delete keeps the loop running for ever.\<close>

lemma EmptySubTree_result: "EmptySubTree A root c w = Some r \<Longrightarrow> \<exists>w. TvmGetChild A (getHandle c) root w = NULL"
  by (erule EmptySubTree.raw_induct [rotated]) (auto simp: Let_def split: if_splits)

lemma EmptySubTree_stuck:
  assumes "\<forall>w. TvmGetChild A (getHandle c) root w \<noteq> NULL"
  shows "EmptySubTree A root c w = None"
  using EmptySubTree_result [of A root c w] assms by (metis not_None_eq)

text \<open>
  \<open>GetSelData\<close> asks with \<open>TVIF_HANDLE\<close> only, so a control that fills in what the mask asks for leaves
  the zero of the initialisation.
\<close>

lemma GetSelData_is_zero:
  assumes "\<forall>i w j. TvmGetItem A (getHandle c) i w = Some j \<longrightarrow> tvMask i AND TVIF_PARAM = 0 \<longrightarrow> tvParam j = tvParam i"
    "GetSelData A c w = Some n"
  shows "n = 0"
proof -
  let ?q = "no_item\<lparr>tvMask := TVIF_HANDLE, hItem := TvmGetSelection A (getHandle c) w\<rparr>"
  obtain j where j: "TvmGetItem A (getHandle c) ?q w = Some j" "n = tvParam j"
    using assms(2) by (auto simp: GetSelData_def Let_def split: if_splits)
  have "tvMask ?q AND TVIF_PARAM = 0" by (simp add: TVIF_HANDLE_def TVIF_PARAM_def)
  with assms(1) j have "tvParam j = tvParam ?q" by blast
  with j(2) show ?thesis by (simp add: no_item_def)
qed

text \<open>Only one of the four kinds of drop-down list can be edited: \<open>CBS_SIMPLE OR CBS_DROPDOWN\<close> is \<open>CBS_DROPDOWNLIST\<close>.\<close>

lemma dropdown_kinds:
  "dropdown_style editable alwaysList AND 0x3 = (if editable \<and> \<not> alwaysList then CBS_DROPDOWN else CBS_DROPDOWNLIST)"
  by (simp add: dropdown_style_def WS_VISIBLE_def WS_CHILD_def WS_VSCROLL_def CBS_AUTOHSCROLL_def CBS_HASSTRINGS_def
      CBS_DROPDOWN_def CBS_DROPDOWNLIST_def CBS_SIMPLE_def)

end
