(* ===== verification/Dialog_Parts.thy ===== *)
theory Dialog_Parts
  imports Dialog_Controls Device_Context_Facts
begin

text \<open>
  What the dialogs need besides the controls of \<open>Dialog_Controls\<close>: the members of \<open>WindowsItem\<close> for
  fonts, icons, tooltips and parents, the controls \<open>TextControl\<close>, \<open>GroupBoxControl\<close>,
  \<open>RadioButtonControl\<close>, \<open>StatusControl\<close> and \<open>DragListControl\<close>, the prompts of \<open>Popup\<close>, and the scaling
  of coordinates.
\<close>

unbundle bit_operations_syntax

section \<open>The calls\<close>

text \<open>
  \<open>FontAllChildren\<close> is \<open>EnumChildWindows\<close> with \<open>SetFont\<close>; the flag of \<open>SetIconOf\<close> is whether the
  icon is the large one; \<open>AskUser\<close> is \<open>MessageBox\<close> with its kind of buttons and the button pressed.
\<close>

datatype buttons = MB_OK | MB_YESNO | MB_YESNOCANCEL

record 'w dialog_calls = "'w dialog_controls" +
  SetFontOf :: "hwnd \<Rightarrow> handle \<Rightarrow> bool \<Rightarrow> 'w \<Rightarrow> 'w"
  FontAllChildren :: "hwnd \<Rightarrow> handle \<Rightarrow> 'w \<Rightarrow> 'w"
  SetIconOf :: "hwnd \<Rightarrow> bool \<Rightarrow> handle \<Rightarrow> 'w \<Rightarrow> 'w"
  SetParentOf :: "hwnd \<Rightarrow> hwnd \<Rightarrow> 'w \<Rightarrow> bool \<times> 'w"
  CreateTooltip :: "hwnd \<Rightarrow> 'w \<Rightarrow> hwnd \<times> 'w"
  TtmAddTool :: "hwnd \<Rightarrow> hwnd \<Rightarrow> hwnd \<Rightarrow> string \<Rightarrow> 'w \<Rightarrow> bool \<times> 'w"
  TtmActivate :: "hwnd \<Rightarrow> 'w \<Rightarrow> 'w"
  SbSetParts :: "hwnd \<Rightarrow> int list \<Rightarrow> 'w \<Rightarrow> bool \<times> 'w"
  SbSetText :: "hwnd \<Rightarrow> int \<Rightarrow> string \<Rightarrow> 'w \<Rightarrow> 'w"
  SendSize :: "hwnd \<Rightarrow> 'w \<Rightarrow> 'w"
  MakeDragList :: "hwnd \<Rightarrow> 'w \<Rightarrow> bool \<times> 'w"
  AskUser :: "buttons \<Rightarrow> string \<Rightarrow> string \<Rightarrow> 'w \<Rightarrow> int \<times> 'w"
  ShellExecute :: "string \<Rightarrow> string \<Rightarrow> 'w \<Rightarrow> 'w"
  MulDiv :: "int \<Rightarrow> int \<Rightarrow> int \<Rightarrow> int"
  DpiForSystem :: "'w \<Rightarrow> int"

section \<open>Fonts, icons, tooltips\<close>

definition setFont :: "('w, 'z) dialog_calls_scheme \<Rightarrow> handle \<Rightarrow> bool \<Rightarrow> 'a item_scheme \<Rightarrow> 'w \<Rightarrow> 'w" where
  "setFont A font redraw it w = SetFontOf A (getHandle it) font redraw w"

definition replaceChildFonts :: "('w, 'z) dialog_calls_scheme \<Rightarrow> handle \<Rightarrow> 'a item_scheme \<Rightarrow> 'w \<Rightarrow> 'w" where
  "replaceChildFonts A font it w = (if font \<noteq> NULL then FontAllChildren A (getHandle it) font w else w)"

definition replaceChildFontsBy ::
    "('w, 'z) dialog_calls_scheme \<Rightarrow> ('w, 'y) gdi_scheme \<Rightarrow> font_info \<Rightarrow> 'a item_scheme \<Rightarrow> resources \<Rightarrow> 'w \<Rightarrow> resources \<times> 'w" where
  "replaceChildFontsBy A G i it R w = (let (font, R1, w1) = getFont G i R w in (R1, replaceChildFonts A font it w1))"

definition defaultChildFonts ::
    "('w, 'z) dialog_calls_scheme \<Rightarrow> ('w, 'y) gdi_scheme \<Rightarrow> 'a item_scheme \<Rightarrow> resources \<Rightarrow> 'w \<Rightarrow> resources \<times> 'w" where
  "defaultChildFonts A G it R w = (let (font, R1, w1) = getDefaultFont G R w in (R1, replaceChildFonts A font it w1))"

definition SetSmallIcon :: "('w, 'z) dialog_calls_scheme \<Rightarrow> handle \<Rightarrow> 'a item_scheme \<Rightarrow> 'w \<Rightarrow> 'w" where
  "SetSmallIcon A icon it w = SetIconOf A (getHandle it) False icon w"

definition SetMedIcon :: "('w, 'z) dialog_calls_scheme \<Rightarrow> handle \<Rightarrow> 'a item_scheme \<Rightarrow> 'w \<Rightarrow> 'w" where
  "SetMedIcon A icon it w = SetIconOf A (getHandle it) True icon w"

definition SetParent :: "('w, 'z) dialog_calls_scheme \<Rightarrow> hwnd \<Rightarrow> 'a item_scheme \<Rightarrow> 'w \<Rightarrow> bool \<times> 'w" where
  "SetParent A h it w = SetParentOf A (getHandle it) h w"

definition item_SetRedraw :: "('w, 'z) dialog_calls_scheme \<Rightarrow> bool \<Rightarrow> 'a item_scheme \<Rightarrow> 'w \<Rightarrow> 'w" where
  "item_SetRedraw A on it w = (if on then SetRedrawOf A (getHandle it) True w else SetRedrawOf A (getHandle it) False w)"

definition AddTooltip ::
    "('w, 'z) dialog_calls_scheme \<Rightarrow> string \<Rightarrow> 'a item_scheme \<Rightarrow> 'w \<Rightarrow> bool \<times> 'a item_scheme \<times> 'w" where
  "AddTooltip A t it w =
     (let (tip, w1) = CreateTooltip A (getParent (desktop A) it w) w; it1 = it\<lparr>tooltipHandle := tip\<rparr>
      in if tip \<noteq> NULL then
           (let (added, w2) = TtmAddTool A tip (getParent (desktop A) it1 w1) (getHandle it1) t w1 in
            if added then (True, it1, TtmActivate A tip w2)
            else (False, it1\<lparr>tooltipHandle := NULL\<rparr>, DestroyWindow (desktop A) tip w2))
         else (False, it1, w1))"

section \<open>Small controls\<close>

definition BS_GROUPBOX :: u32 where "BS_GROUPBOX = 0x7"
definition BS_AUTORADIOBUTTON :: u32 where "BS_AUTORADIOBUTTON = 0x9"

definition text_CreateThis ::
    "('w, 'z) dialog_calls_scheme \<Rightarrow> hwnd \<Rightarrow> int \<Rightarrow> int \<Rightarrow> int \<Rightarrow> int \<Rightarrow> string \<Rightarrow> nat \<Rightarrow> control \<Rightarrow> 'w \<Rightarrow> bool \<times> control \<times> 'w" where
  "text_CreateThis A parent x y width height t i c w =
     CreateControl A 0 ''Static'' t (WS_VISIBLE OR WS_CHILD) x y width height parent i False c w"

definition text_SetText :: "('w, 'z) dialog_calls_scheme \<Rightarrow> string \<Rightarrow> control \<Rightarrow> 'w \<Rightarrow> bool \<times> 'w" where
  "text_SetText A t c w = SetWindowText (desktop A) (getHandle c) t w"

definition group_CreateThis ::
    "('w, 'z) dialog_calls_scheme \<Rightarrow> hwnd \<Rightarrow> int \<Rightarrow> int \<Rightarrow> int \<Rightarrow> int \<Rightarrow> string \<Rightarrow> nat \<Rightarrow> control \<Rightarrow> 'w \<Rightarrow> bool \<times> control \<times> 'w" where
  "group_CreateThis A parent x y width height t i c w =
     CreateControl A 0 ''Button'' t (WS_CHILD OR WS_VISIBLE OR BS_GROUPBOX) x y width height parent i False c w"

definition radio_CreateThis ::
    "('w, 'z) dialog_calls_scheme \<Rightarrow> hwnd \<Rightarrow> int \<Rightarrow> int \<Rightarrow> int \<Rightarrow> int \<Rightarrow> string \<Rightarrow> nat \<Rightarrow> control \<Rightarrow> 'w \<Rightarrow> bool \<times> control \<times> 'w" where
  "radio_CreateThis A parent x y width height t i c w =
     CreateControl A 0 ''Button'' t (WS_VISIBLE OR WS_CHILD OR BS_AUTORADIOBUTTON) x y width height parent i False c w"

definition radio_SetCheck :: "('w, 'z) dialog_calls_scheme \<Rightarrow> bool \<Rightarrow> control \<Rightarrow> 'w \<Rightarrow> 'w" where
  "radio_SetCheck A on c w = (if on then BmSetCheck A (getHandle c) True w else BmSetCheck A (getHandle c) False w)"

definition status_CreateThis ::
    "('w, 'z) dialog_calls_scheme \<Rightarrow> int list \<Rightarrow> u32 \<Rightarrow> u32 \<Rightarrow> hwnd \<Rightarrow> nat \<Rightarrow> control \<Rightarrow> 'w \<Rightarrow> bool \<times> control \<times> 'w" where
  "status_CreateThis A widths exStyle style parent i c w =
     (let (ok, c1, w1) = CreateControl A exStyle ''msctls_statusbar32'' [] style 0 0 0 0 parent i False c w in
      if ok then
        (let (parts, w2) = SbSetParts A (getHandle c1) widths w1 in
         if parts then (True, c1, w2)
         else (let (_, c2, w3) = ctl_DestroyThis A c1 w2 in (False, c2, w3)))
      else (False, c1, w1))"

definition status_AutoSize :: "('w, 'z) dialog_calls_scheme \<Rightarrow> control \<Rightarrow> 'w \<Rightarrow> 'w" where
  "status_AutoSize A c w = SendSize A (getHandle c) w"

definition status_SetText :: "('w, 'z) dialog_calls_scheme \<Rightarrow> int \<Rightarrow> string \<Rightarrow> control \<Rightarrow> 'w \<Rightarrow> 'w" where
  "status_SetText A i t c w = SbSetText A (getHandle c) i t w"

definition LBS_NOTIFY_SORT :: u32 where "LBS_NOTIFY_SORT = 0x3"
definition TABSTOP :: u32 where "TABSTOP = 0x00010000"

definition drag_CreateThis ::
    "('w, 'z) dialog_calls_scheme \<Rightarrow> hwnd \<Rightarrow> int \<Rightarrow> int \<Rightarrow> int \<Rightarrow> int \<Rightarrow> nat \<Rightarrow> control \<Rightarrow> 'w \<Rightarrow> bool \<times> control \<times> 'w" where
  "drag_CreateThis A parent x y width height i c w =
     (let (ok, c1, w1) = CreateControl A EDGE_STYLE ''ListBox'' [] (WS_CHILD OR TABSTOP OR LBS_NOTIFY_SORT)
            x y width height parent i False c w in
      if ok then
        (let (drag, w2) = MakeDragList A (getHandle c1) w1 in
         if drag then (True, c1, ShowWindow (desktop A) (getHandle c1) SW_SHOWNORMAL w2)
         else (let (_, c2, w3) = ctl_DestroyThis A c1 w2 in (False, c2, w3)))
      else (False, c1, w1))"

section \<open>Prompts\<close>

datatype prompt_result = Yes | No | Cancel | Unknown

definition IDCANCEL :: int where "IDCANCEL = 2"
definition IDYES :: int where "IDYES = 6"
definition IDNO :: int where "IDNO = 7"

definition Message :: "('w, 'z) dialog_calls_scheme \<Rightarrow> string \<Rightarrow> string \<Rightarrow> 'w \<Rightarrow> 'w" where
  "Message A t caption w = snd (AskUser A MB_OK t caption w)"

definition MessageNoCaption :: "('w, 'z) dialog_calls_scheme \<Rightarrow> string \<Rightarrow> 'w \<Rightarrow> 'w" where
  "MessageNoCaption A t w = snd (AskUser A MB_OK t ''Message'' w)"

definition GetYesNo :: "('w, 'z) dialog_calls_scheme \<Rightarrow> string \<Rightarrow> string \<Rightarrow> 'w \<Rightarrow> prompt_result \<times> 'w" where
  "GetYesNo A t caption w =
     (let (result, w1) = AskUser A MB_YESNO t caption w
      in (if result = IDYES then Yes else if result = IDNO then No else Unknown, w1))"

definition GetYesNoCancel :: "('w, 'z) dialog_calls_scheme \<Rightarrow> string \<Rightarrow> string \<Rightarrow> 'w \<Rightarrow> prompt_result \<times> 'w" where
  "GetYesNoCancel A t caption w =
     (let (result, w1) = AskUser A MB_YESNOCANCEL t caption w
      in (if result = IDYES then Yes else if result = IDNO then No else if result = IDCANCEL then Cancel else Unknown, w1))"

section \<open>Coordinates\<close>

definition DefaultDpi :: int where "DefaultDpi = 96"

definition DpiScale :: "('w, 'z) dialog_calls_scheme \<Rightarrow> int \<Rightarrow> int \<Rightarrow> int" where
  "DpiScale A coordinate dpi = MulDiv A coordinate dpi DefaultDpi"

section \<open>Calls of the examples\<close>

definition desk_calls :: "desk dialog_calls" where
  "desk_calls = dialog_controls.extend desk_dialogs \<lparr>
     SetFontOf = (\<lambda>h f r d. d),
     FontAllChildren = (\<lambda>h f d. d),
     SetIconOf = (\<lambda>h b i d. d),
     SetParentOf = (\<lambda>h p d. (True, d)),
     CreateTooltip = (\<lambda>p d. (NULL, d)),
     TtmAddTool = (\<lambda>t p h s d. (True, d)),
     TtmActivate = (\<lambda>t d. d),
     SbSetParts = (\<lambda>h ns d. (True, d)),
     SbSetText = (\<lambda>h i t d. d),
     SendSize = (\<lambda>h d. d),
     MakeDragList = (\<lambda>h d. (True, d)),
     AskUser = (\<lambda>b t c d. (IDYES, d)),
     ShellExecute = (\<lambda>v f d. d),
     MulDiv = (\<lambda>a b c. (a * b) div c),
     DpiForSystem = (\<lambda>d. 96)\<rparr>"

end
