(* ===== verification/Forms.thy ===== *)
theory Forms
  imports Dialog_Parts Edit_Control_Facts
begin

text \<open>
  What a form of check boxes and edit boxes shows: the text of a control with its length, its check
  mark, and whether it is enabled. \<open>form_laws\<close> states what the system documents of the calls that change
  these on the live controls \<open>H\<close>; the lemmas say what the members of the control classes show after them.
\<close>

section \<open>What a control shows\<close>

record look =
  lookText :: "string option"
  lookLength :: nat
  lookChecked :: bool
  lookEnabled :: bool

definition look_of :: "('w, 'z) dialog_calls_scheme \<Rightarrow> hwnd \<Rightarrow> 'w \<Rightarrow> look" where
  "look_of A h w = \<lparr>lookText = GetWindowText (desktop A) h w, lookLength = GetWindowTextLength A h w,
     lookChecked = BmGetCheck A h w, lookEnabled = IsWindowEnabled (desktop A) h w\<rparr>"

text \<open>A call \<open>f\<close> for the control \<open>h\<close> changes what \<open>h\<close> shows by \<open>upd\<close> and leaves the other live controls alone.\<close>

definition changes_look :: "('w, 'z) dialog_calls_scheme \<Rightarrow> hwnd set \<Rightarrow> hwnd \<Rightarrow> (look \<Rightarrow> look) \<Rightarrow> ('w \<Rightarrow> 'w) \<Rightarrow> bool" where
  "changes_look A H h upd f \<longleftrightarrow> (\<forall>g\<in>H. \<forall>w. look_of A g (f w) = (if g = h then upd (look_of A g w) else look_of A g w))"

definition keeps_looks :: "('w, 'z) dialog_calls_scheme \<Rightarrow> hwnd set \<Rightarrow> ('w \<Rightarrow> 'w) \<Rightarrow> bool" where
  "keeps_looks A H f \<longleftrightarrow> (\<forall>g\<in>H. \<forall>w. look_of A g (f w) = look_of A g w)"

definition form_laws :: "('w, 'z) dialog_calls_scheme \<Rightarrow> hwnd set \<Rightarrow> bool" where
  "form_laws A H \<longleftrightarrow>
     (\<forall>h\<in>H. \<forall>t w. fst (SetWindowText (desktop A) h t w)) \<and>
     (\<forall>h\<in>H. \<forall>t. changes_look A H h (\<lambda>x. x\<lparr>lookText := Some t, lookLength := length t\<rparr>) (\<lambda>w. snd (SetWindowText (desktop A) h t w))) \<and>
     (\<forall>h\<in>H. \<forall>b. changes_look A H h (lookChecked_update (\<lambda>x. b)) (BmSetCheck A h b)) \<and>
     (\<forall>h\<in>H. \<forall>b. changes_look A H h (lookEnabled_update (\<lambda>x. b)) (EnableWindow (desktop A) h b)) \<and>
     (\<forall>h i j. keeps_looks A H (EmSetSel A h i j)) \<and>
     (\<forall>h a. keeps_looks A H (SetLayeredAlpha (desktop A) h a)) \<and>
     (\<forall>h v i. keeps_looks A H (SetWindowLong (desktop A) h i v))"

lemma form_lawsD:
  assumes "form_laws A H"
  shows "h \<in> H \<Longrightarrow> fst (SetWindowText (desktop A) h t w)"
    "h \<in> H \<Longrightarrow> g \<in> H \<Longrightarrow> look_of A g (snd (SetWindowText (desktop A) h t w)) =
       (if g = h then (look_of A g w)\<lparr>lookText := Some t, lookLength := length t\<rparr> else look_of A g w)"
    "h \<in> H \<Longrightarrow> g \<in> H \<Longrightarrow> look_of A g (BmSetCheck A h b w) = (if g = h then (look_of A g w)\<lparr>lookChecked := b\<rparr> else look_of A g w)"
    "h \<in> H \<Longrightarrow> g \<in> H \<Longrightarrow> look_of A g (EnableWindow (desktop A) h b w) = (if g = h then (look_of A g w)\<lparr>lookEnabled := b\<rparr> else look_of A g w)"
    "g \<in> H \<Longrightarrow> look_of A g (EmSetSel A k i j w) = look_of A g w"
    "g \<in> H \<Longrightarrow> look_of A g (SetLayeredAlpha (desktop A) k a w) = look_of A g w"
    "g \<in> H \<Longrightarrow> look_of A g (SetWindowLong (desktop A) k n v w) = look_of A g w"
  using assms unfolding form_laws_def changes_look_def keeps_looks_def by auto

section \<open>The members of the controls\<close>

lemma look_SetCheck:
  assumes "form_laws A H" "getHandle c \<in> H" "g \<in> H"
  shows "look_of A g (SetCheck A b c w) = (if g = getHandle c then (look_of A g w)\<lparr>lookChecked := b\<rparr> else look_of A g w)"
  using form_lawsD(3) [OF assms, of True w] form_lawsD(3) [OF assms, of False w] by (auto simp: SetCheck_def)

lemma look_SetText:
  assumes "form_laws A H" "getHandle e \<in> H" "g \<in> H"
  shows "look_of A g (snd (SetText A t e w)) =
    (if g = getHandle e then (look_of A g w)\<lparr>lookText := Some t, lookLength := length t\<rparr> else look_of A g w)"
  using form_lawsD(2) [OF assms(1,2,3)] form_lawsD(1) [OF assms(1,2)] form_lawsD(5) [OF assms(1,3)]
  by (simp add: SetText_def SetWinText_def Let_def split: prod.split) (metis snd_conv)

lemmas look_SetEditNum = look_SetText [of _ _ _ _ "to_string_int n" for n, folded SetEditNum_def]

lemma look_EnableThis:
  assumes "form_laws A H" "getHandle c \<in> H" "g \<in> H"
  shows "look_of A g (EnableThis (desktop A) c w) = (if g = getHandle c then (look_of A g w)\<lparr>lookEnabled := True\<rparr> else look_of A g w)"
    "look_of A g (DisableThis (desktop A) c w) = (if g = getHandle c then (look_of A g w)\<lparr>lookEnabled := False\<rparr> else look_of A g w)"
  using form_lawsD(4) [OF assms] by (simp_all add: EnableThis_def DisableThis_def)

lemma look_edit_EnableThis:
  assumes "form_laws A H" "getHandle e \<in> H" "g \<in> H" "hBuddy e = NULL"
  shows "look_of A g (edit_EnableThis A e w) = (if g = getHandle e then (look_of A g w)\<lparr>lookEnabled := True\<rparr> else look_of A g w)"
    "look_of A g (edit_DisableThis A e w) = (if g = getHandle e then (look_of A g w)\<lparr>lookEnabled := False\<rparr> else look_of A g w)"
  using look_EnableThis [OF assms(1-3)] assms(4) by (simp_all add: edit_EnableThis_def edit_DisableThis_def)

text \<open>Reading back what is shown.\<close>

lemma look_reads:
  "isChecked A c w = lookChecked (look_of A (getHandle c) w)"
  "GetTextLength A e w = lookLength (look_of A (getHandle e) w)"
  "GetWinText A it w = (if lookLength (look_of A (getHandle it) w) > 0
     then map_option (take (lookLength (look_of A (getHandle it) w))) (lookText (look_of A (getHandle it) w)) else Some [])"
  by (simp_all add: isChecked_def GetTextLength_def GetWinTextLen_def GetWinText_def look_of_def)

text \<open>An edit box that shows a number.\<close>

definition shows_number :: "('w, 'z) dialog_calls_scheme \<Rightarrow> int \<Rightarrow> edit \<Rightarrow> 'w \<Rightarrow> bool" where
  "shows_number A n e w \<longleftrightarrow> lookText (look_of A (getHandle e) w) = Some (to_string_int n) \<and>
     lookLength (look_of A (getHandle e) w) = length (to_string_int n)"

lemma SetEditNum_shows:
  assumes "form_laws A H" "getHandle e \<in> H"
  shows "shows_number A n e (snd (SetEditNum A n e w))"
  using look_SetEditNum [OF assms assms(2)] by (simp add: shows_number_def)

lemma shows_number_reads:
  assumes "shows_number A n e w"
  shows "GetWinText A e w = Some (to_string_int n)"
proof -
  have "to_string_int n \<noteq> []" by (simp add: to_string_int_def to_string_nonempty)
  with assms show ?thesis by (simp add: look_reads(3) shows_number_def)
qed

section \<open>Parts of a look\<close>

definition text_shown :: "('w, 'z) dialog_calls_scheme \<Rightarrow> 'a item_scheme \<Rightarrow> 'w \<Rightarrow> string option \<times> nat" where
  "text_shown A c w = (lookText (look_of A (getHandle c) w), lookLength (look_of A (getHandle c) w))"

definition number_text :: "int \<Rightarrow> string option \<times> nat" where
  "number_text n = (Some (to_string_int n), length (to_string_int n))"

lemma shows_number_text: "shows_number A n e w \<longleftrightarrow> text_shown A e w = number_text n"
  by (auto simp: shows_number_def text_shown_def number_text_def)

text \<open>The controls of a form that are live; only what is shown matters, not the order of the calls.\<close>

lemma text_shown_steps:
  assumes "form_laws A H" "getHandle e \<in> H"
  shows "getHandle c \<in> H \<Longrightarrow> text_shown A e (SetCheck A b c w) = text_shown A e w"
    "getHandle c \<in> H \<Longrightarrow> text_shown A e (EnableThis (desktop A) c w) = text_shown A e w"
    "getHandle c \<in> H \<Longrightarrow> text_shown A e (DisableThis (desktop A) c w) = text_shown A e w"
    "getHandle d \<in> H \<Longrightarrow> text_shown A e (snd (SetText A t d w)) =
       (if getHandle e = getHandle d then (Some t, length t) else text_shown A e w)"
  by (auto simp add: text_shown_def look_SetCheck [OF assms(1) _ assms(2)] look_EnableThis [OF assms(1) _ assms(2)]
    look_SetText [OF assms(1) _ assms(2)])

lemma isChecked_steps:
  assumes "form_laws A H" "getHandle c \<in> H"
  shows "getHandle d \<in> H \<Longrightarrow> isChecked A c (SetCheck A b d w) = (if getHandle c = getHandle d then b else isChecked A c w)"
    "getHandle d \<in> H \<Longrightarrow> isChecked A c (EnableThis (desktop A) d w) = isChecked A c w"
    "getHandle d \<in> H \<Longrightarrow> isChecked A c (DisableThis (desktop A) d w) = isChecked A c w"
    "getHandle e \<in> H \<Longrightarrow> isChecked A c (snd (SetText A t e w)) = isChecked A c w"
  by (auto simp add: look_reads look_SetCheck [OF assms(1) _ assms(2)] look_EnableThis [OF assms(1) _ assms(2)]
    look_SetText [OF assms(1) _ assms(2)])

lemma isEnabled_look: "isEnabled (desktop A) c w = lookEnabled (look_of A (getHandle c) w)"
  by (simp add: isEnabled_def look_of_def)

lemma isEnabled_steps:
  assumes "form_laws A H" "getHandle c \<in> H"
  shows "getHandle d \<in> H \<Longrightarrow> isEnabled (desktop A) c (SetCheck A b d w) = isEnabled (desktop A) c w"
    "getHandle d \<in> H \<Longrightarrow> isEnabled (desktop A) c (EnableThis (desktop A) d w) =
       (if getHandle c = getHandle d then True else isEnabled (desktop A) c w)"
    "getHandle d \<in> H \<Longrightarrow> isEnabled (desktop A) c (DisableThis (desktop A) d w) =
       (if getHandle c = getHandle d then False else isEnabled (desktop A) c w)"
    "getHandle e \<in> H \<Longrightarrow> isEnabled (desktop A) c (snd (SetText A t e w)) = isEnabled (desktop A) c w"
  by (auto simp add: isEnabled_look look_SetCheck [OF assms(1) _ assms(2)] look_EnableThis [OF assms(1) _ assms(2)]
    look_SetText [OF assms(1) _ assms(2)])

text \<open>Something of the desktop that the calls for a form do not touch, such as the place of another window.\<close>

definition untouched :: "('w, 'z) dialog_calls_scheme \<Rightarrow> hwnd set \<Rightarrow> ('w \<Rightarrow> 'o) \<Rightarrow> bool" where
  "untouched A H obs \<longleftrightarrow>
     (\<forall>h\<in>H. \<forall>w t. obs (snd (SetWindowText (desktop A) h t w)) = obs w) \<and>
     (\<forall>h\<in>H. \<forall>w b. obs (BmSetCheck A h b w) = obs w \<and> obs (EnableWindow (desktop A) h b w) = obs w) \<and>
     (\<forall>h i j w. obs (EmSetSel A h i j w) = obs w)"

lemma untouched_steps:
  assumes "untouched A H obs"
  shows "getHandle d \<in> H \<Longrightarrow> obs (SetCheck A b d w) = obs w"
    "getHandle d \<in> H \<Longrightarrow> obs (EnableThis (desktop A) d w) = obs w"
    "getHandle d \<in> H \<Longrightarrow> obs (DisableThis (desktop A) d w) = obs w"
    "getHandle e \<in> H \<Longrightarrow> obs (snd (SetText A t e w)) = obs w"
proof -
  have laws: "h \<in> H \<Longrightarrow> obs (snd (SetWindowText (desktop A) h t v)) = obs v" "h \<in> H \<Longrightarrow> obs (BmSetCheck A h b v) = obs v"
    "h \<in> H \<Longrightarrow> obs (EnableWindow (desktop A) h b v) = obs v" "obs (EmSetSel A h i j v) = obs v" for h v b t i j
    using assms unfolding untouched_def by blast+
  show "getHandle d \<in> H \<Longrightarrow> obs (SetCheck A b d w) = obs w"
    "getHandle d \<in> H \<Longrightarrow> obs (EnableThis (desktop A) d w) = obs w"
    "getHandle d \<in> H \<Longrightarrow> obs (DisableThis (desktop A) d w) = obs w"
    by (simp_all add: SetCheck_def EnableThis_def DisableThis_def laws)
  show "getHandle e \<in> H \<Longrightarrow> obs (snd (SetText A t e w)) = obs w"
  proof -
    assume live: "getHandle e \<in> H"
    obtain ok w1 where set: "SetWindowText (desktop A) (getHandle e) t w = (ok, w1)" by fastforce
    with laws(1) [OF live, of t w] have "obs w1 = obs w" by simp
    with set show ?thesis by (cases "getHandle e = GetFocus A w") (auto simp: SetText_def SetWinText_def Let_def laws(4) split: prod.split)
  qed
qed

section \<open>The calls of the examples\<close>

lemmas desk_calls_defs = desk_calls_def desk_dialogs_def desk_controls_def desk_win32_def
  dialog_controls.defs controls.defs

lemma desk_looks:
  "look_of desk_calls h d = \<lparr>lookText = Some (deskTexts d h), lookLength = length (deskTexts d h),
     lookChecked = deskChecked d h, lookEnabled = (\<not> deskDisabled d h)\<rparr>"
  by (simp add: look_of_def desk_calls_defs)

lemma desk_form_laws: "form_laws desk_calls H"
  unfolding form_laws_def changes_look_def keeps_looks_def desk_looks
  by (intro conjI allI ballI) (simp_all add: desk_calls_defs update_window_def)

end
