(* ===== verification/General_Tab.thy ===== *)
theory General_Tab
  imports Forms Mini_Views_Facts
begin

text \<open>
  \<open>MiniViewsLib/MainDialog/GeneralTab\<close>: the tab with the edit mode, the buttons for views and the
  opacity level. Its handlers call the program, which calls the tab's \<open>RefreshWindow\<close> back; setting
  the text of the edit box makes the system send \<open>EN_UPDATE\<close> to the tab before the call returns, so
  refresh and handler call each other. \<open>general_updates\<close> bounds that nesting by fuel; one level
  is enough, because the tab drops notifications while it handles one.
\<close>

section \<open>Windows of the tabs\<close>

text \<open>
  \<open>CreateThis\<close> of the four tab classes, which differ in their names: the window fills the parent
  below the tab headers.
\<close>

definition tab_window ::
    "('w, 'z) dialog_calls_scheme \<Rightarrow> string \<Rightarrow> string \<Rightarrow> hwnd \<Rightarrow> int \<Rightarrow> string list \<Rightarrow> 'a item_scheme \<Rightarrow> 'w \<Rightarrow>
     (bool \<times> string list \<times> 'a item_scheme \<times> 'w) option" where
  "tab_window A cls title parent dpi registered it w =
     (case GetClientRect (desktop A) parent w of
        None \<Rightarrow> Some (False, registered, it, w)
      | Some r \<Rightarrow>
          (let (ok, registered1, it1, w1) = RegisterWindowClass (desktop A) cls registered it w in
           if ok then do {
             a \<leftarrow> rect_width r; width \<leftarrow> sub32 a (DpiScale A 5 dpi);
             b \<leftarrow> rect_height r; height \<leftarrow> sub32 b (DpiScale A 22 dpi);
             let (created, it2, w2) = CreateClassWindow (desktop A) 0 title WS_CHILD
                (DpiScale A 5 dpi) (DpiScale A 22 dpi) width height parent it1 w1;
             Some (created, registered1, it2, w2) }
           else Some (False, registered1, it1, w1)))"

section \<open>State\<close>

record general = item +
  checkEditMode :: control
  buttonAddMiniView :: control
  buttonClearMiniViews :: control
  editOpacity :: edit

definition new_general :: general where
  "new_general = item.extend new_item \<lparr>checkEditMode = new_control, buttonAddMiniView = new_control,
     buttonClearMiniViews = new_control, editOpacity = new_edit\<rparr>"

definition CheckEditMode :: int where "CheckEditMode = ID_FIRST"
definition ButtonAddMiniView :: int where "ButtonAddMiniView = ID_FIRST + 1"
definition ButtonClearMiniView :: int where "ButtonClearMiniView = ID_FIRST + 3"
definition EditOpacity :: int where "EditOpacity = ID_FIRST + 4"

definition checkEditModeTooltip :: string where "checkEditModeTooltip = ''(Ctrl Shift E)''"
definition addMiniViewTooltip :: string where "addMiniViewTooltip = ''(Ctrl Shift A)''"
definition opacityTooltip :: string where "opacityTooltip = ''(Ctrl Shift -)/(Ctrl Shift +)''"

section \<open>Creation\<close>

text \<open>
  The up-down control next to the edit box; the calls are made whether or not it was created.
\<close>

definition opacity_buddy :: "('w, 'z) dialog_calls_scheme \<Rightarrow> 'a item_scheme \<Rightarrow> edit \<Rightarrow> 'w \<Rightarrow> 'w" where
  "opacity_buddy A tab e w =
     (let (b, w1) = CreateUpDown A (getHandle tab) w
      in EnableWindow (desktop A) b True (UdmSetBuddy A b (getHandle e) 0 255 w1))"

definition general_CreateSubWindows ::
    "('w, 'z) dialog_calls_scheme \<Rightarrow> app \<Rightarrow> int \<Rightarrow> handle \<Rightarrow> general \<Rightarrow> 'w \<Rightarrow> (general \<times> 'w) option" where
  "general_CreateSubWindows A a dpi font g w =
     (let W = desktop A; S = (\<lambda>n. DpiScale A n dpi); h = getHandle g; padding = S 5;
          w1 = setFont A font False g w;
          (_, c, w2) = check_CreateThis A h 0 (S 5) (S 100) (S 23) (appEditMode a) ''Edit Mode'' (nat CheckEditMode)
             (checkEditMode g) w1;
          (_, c1, w3) = AddTooltip A checkEditModeTooltip c w2
      in do {
        y1 \<leftarrow> add32 (Bottom_of W c1 w3) padding;
        let (_, b, w4) = button_CreateThis A h 0 y1 (S 100) (S 23) ''Add Mini View'' (nat ButtonAddMiniView) False
           (buttonAddMiniView g) w3;
        let (_, b1, w5) = AddTooltip A addMiniViewTooltip b w4;
        y2 \<leftarrow> add32 (Bottom_of W b1 w5) padding;
        let (_, b2, w6) = button_CreateThis A h 0 y2 (S 100) (S 23) ''Clear Mini Views'' (nat ButtonClearMiniView) False
           (buttonClearMiniViews g) w5;
        y3 \<leftarrow> add32 (Bottom_of W b2 w6) padding; y4 \<leftarrow> add32 y3 (S 3);
        let (_, t, w7) = text_CreateThis A h 0 y4 (S 111) (S 23) ''Opacity Level (0-255): '' 0 new_control w6;
        x5 \<leftarrow> add32 (Right_of W t w7) padding; y5 \<leftarrow> sub32 (Top_of W t w7) (S 3);
        let (_, e, w8) = edit_CreateThis A h x5 y5 (S 75) (S 23) False (nat EditOpacity) (editOpacity g) w7;
        let (_, e1, w9) = AddTooltip A opacityTooltip e w8;
        let w10 = snd (SetEditNum A (uint (GetOpacityLevel a)) e1 (SetTextLimit A 3 e1 w9));
        let g1 = g\<lparr>checkEditMode := c1, buttonAddMiniView := b1, buttonClearMiniViews := b2, editOpacity := e1\<rparr>;
        Some (g1, opacity_buddy A g1 e1 w10) })"

definition general_CreateThis ::
    "('w, 'z) dialog_calls_scheme \<Rightarrow> hwnd \<Rightarrow> int \<Rightarrow> handle \<Rightarrow> general \<Rightarrow> app \<Rightarrow> 'w \<Rightarrow> (bool \<times> general \<times> app \<times> 'w) option" where
  "general_CreateThis A parent dpi font g a w =
     (if getHandle g \<noteq> NULL then (let (ok, w1) = SetParent A parent g w in Some (ok, g, a, w1))
      else do {
        (ok, registered, g1, w1) \<leftarrow> tab_window A ''GeneralWindow'' ''General Tab'' parent dpi (registeredClasses a) g w;
        let a1 = a\<lparr>registeredClasses := registered\<rparr>;
        if ok then map_option (\<lambda>(g2, w2). (True, g2, a1, w2)) (general_CreateSubWindows A a1 dpi font g1 w1)
        else Some (False, g1, a1, w1) })"

definition general_DestroyThis :: "('w, 'z) dialog_calls_scheme \<Rightarrow> general \<Rightarrow> 'w \<Rightarrow> bool \<times> general \<times> 'w" where
  "general_DestroyThis A g w = (let (g1, w1) = DestroyThis (desktop A) g w in (True, g1, w1))"

section \<open>Refresh and the opacity box\<close>

text \<open>
  \<open>updated\<close> is what the \<open>EN_UPDATE\<close> does that setting the text sends. The displayed number is compared
  as an 8-bit number.
\<close>

definition general_refresh ::
    "(general \<Rightarrow> app \<Rightarrow> 'w \<Rightarrow> general \<times> app \<times> 'w) \<Rightarrow> ('w, 'z) dialog_calls_scheme \<Rightarrow> general \<Rightarrow> app \<Rightarrow> 'w \<Rightarrow>
     general \<times> app \<times> 'w" where
  "general_refresh updated A g a w =
     (if getHandle g \<noteq> NULL then
        (let w1 = SetCheck A (appEditMode a) (checkEditMode g) w in
         if GetEditNum A (editOpacity g) w1 = Some (GetOpacityLevel a) then (g, a, w1)
         else updated g a (snd (SetEditNum A (uint (GetOpacityLevel a)) (editOpacity g) w1)))
      else (g, a, w))"

definition clamp_level :: "int \<Rightarrow> u8" where
  "clamp_level newOpacity = word_of_int (if newOpacity > 255 then 255 else if newOpacity < 0 then 0 else newOpacity)"

text \<open>
  The program's \<open>SetOpacityLevel\<close> ends with a call of \<open>RefreshWindow\<close>; the recorded call is run at once.
\<close>

definition general_NotifyEditUpdated ::
    "(general \<Rightarrow> app \<Rightarrow> 'w \<Rightarrow> general \<times> app \<times> 'w) \<Rightarrow> ('w, 'z) dialog_calls_scheme \<Rightarrow> int \<Rightarrow> general \<Rightarrow> app \<Rightarrow> 'w \<Rightarrow>
     general \<times> app \<times> 'w" where
  "general_NotifyEditUpdated updated A idFrom g a w =
     (if idFrom = EditOpacity then
        (case GetEditNum A (editOpacity g) w :: u32 option of
           Some newOpacity \<Rightarrow>
             (let (a1, w1) = SetOpacityLevel (desktop A) (clamp_level (sint newOpacity)) a w
              in general_refresh updated A g (a1\<lparr>dialogCalls := dialogCalls a\<rparr>) w1)
         | None \<Rightarrow>
             if GetTextLength A (editOpacity g) w \<noteq> 0 then
               updated g a (snd (SetEditNum A (uint (GetOpacityLevel a)) (editOpacity g) w))
             else (g, a, w))
      else (g, a, w))"

text \<open>\<open>SendNotifyEditUpdated\<close>: no notification is passed on while one is handled.\<close>

fun general_updates :: "nat \<Rightarrow> ('w, 'z) dialog_calls_scheme \<Rightarrow> general \<Rightarrow> app \<Rightarrow> 'w \<Rightarrow> general \<times> app \<times> 'w" where
  "general_updates 0 A g a w = (g, a, w)"
| "general_updates (Suc n) A g a w =
     (if allowEditNotify g then
        (let (g1, a1, w1) = general_NotifyEditUpdated (general_updates n A) A EditOpacity (g\<lparr>allowEditNotify := False\<rparr>) a w
         in (g1\<lparr>allowEditNotify := True\<rparr>, a1, w1))
      else (g, a, w))"

definition general_RefreshWindow :: "('w, 'z) dialog_calls_scheme \<Rightarrow> general \<Rightarrow> app \<Rightarrow> 'w \<Rightarrow> general \<times> app \<times> 'w" where
  "general_RefreshWindow A = general_refresh (general_updates 1 A) A"

section \<open>Buttons\<close>

text \<open>The refreshes of this tab an operation of the program asked for; the other calls stay recorded.\<close>

fun run_general :: "('w, 'z) dialog_calls_scheme \<Rightarrow> dialog_call list \<Rightarrow> general \<Rightarrow> app \<Rightarrow> 'w \<Rightarrow> general \<times> app \<times> 'w" where
  "run_general A [] g a w = (g, a, w)"
| "run_general A (c # cs) g a w =
     (if c = RefreshGeneralTab then
        (let (g1, a1, w1) = general_RefreshWindow A g a w in run_general A cs g1 a1 w1)
      else run_general A cs g (dialog c a) w)"

definition after_program :: "('w, 'z) dialog_calls_scheme \<Rightarrow> general \<Rightarrow> app \<Rightarrow> app \<times> 'w \<Rightarrow> general \<times> app \<times> 'w" where
  "after_program A g a r =
     (case r of (a1, w1) \<Rightarrow>
        run_general A (drop (length (dialogCalls a)) (dialogCalls a1)) g (a1\<lparr>dialogCalls := dialogCalls a\<rparr>) w1)"

definition EditModeCheckClicked ::
    "('w, 'z) dialog_calls_scheme \<Rightarrow> general \<Rightarrow> app \<Rightarrow> 'w \<Rightarrow> (general \<times> app \<times> 'w) option" where
  "EditModeCheckClicked A g a w =
     do { (g1, a1, w1) \<leftarrow>
            (if isChecked A (checkEditMode g) w \<noteq> appEditMode a then
               map_option (after_program A g a) (app_ToggleEditMode (desktop A) a w)
             else Some (g, a, w));
          Some (g1, a1, SetCheck A (appEditMode a1) (checkEditMode g1) w1) }"

definition general_NotifyButtonClicked ::
    "('w, 'z) dialog_calls_scheme \<Rightarrow> settings \<Rightarrow> size2 \<Rightarrow> int \<Rightarrow> general \<Rightarrow> app \<Rightarrow> 'w \<Rightarrow> (general \<times> app \<times> 'w) option" where
  "general_NotifyButtonClicked A S unset idFrom g a w =
     (if idFrom = CheckEditMode then EditModeCheckClicked A g a w
      else if idFrom = ButtonAddMiniView then
        map_option (after_program A g a) (app_AddMiniView (desktop A) S unset a w)
      else if idFrom = ButtonClearMiniView then
        Some (after_program A g a (ClearMiniViews (desktop A) a w))
      else Some (g, a, w))"

section \<open>Nesting\<close>

lemma updates_quiet: "\<not> allowEditNotify g \<Longrightarrow> general_updates n A g a w = (g, a, w)"
  by (cases n) auto

lemma edited_cong:
  assumes "updated g = updated' g"
  shows "general_NotifyEditUpdated updated A i g a w = general_NotifyEditUpdated updated' A i g a w"
  using assms by (simp add: general_NotifyEditUpdated_def general_refresh_def Let_def split: option.split prod.split)

text \<open>
  Property C31: handling an edit of the opacity box comes to an end. The refresh the program answers
  with may set the text and so cause another notification, but that one is dropped: whatever the
  bound on the nesting, the result is the one for a single level.
\<close>

theorem opacity_updates_end: "general_updates (Suc n) A g a w = general_updates 1 A g a w"
proof -
  have "general_NotifyEditUpdated (general_updates n A) A EditOpacity (g\<lparr>allowEditNotify := False\<rparr>) a w =
    general_NotifyEditUpdated (general_updates 0 A) A EditOpacity (g\<lparr>allowEditNotify := False\<rparr>) a w"
    by (rule edited_cong) (simp add: updates_quiet fun_eq_iff)
  then show ?thesis by simp
qed

section \<open>What refresh and typing do\<close>

lemma edit_num_u8: "(edit_num t :: u8 option) = map_option ucast (edit_num t :: u32 option)"
proof -
  have "(ucast (word_of_int i :: u32) :: u8) = word_of_int i" for i by transfer simp
  then show ?thesis by (simp add: edit_num_def split: prod.split)
qed

lemma GetEditNum_look:
  assumes "look_of A (getHandle e) w1 = look_of A (getHandle e) w"
  shows "GetEditNum A e w1 = GetEditNum A e w"
  using assms by (simp add: GetEditNum_def look_reads(3))

lemma GetEditNum_u8: "(GetEditNum A e w :: u8 option) = map_option ucast (GetEditNum A e w :: u32 option)"
  by (simp add: GetEditNum_def edit_num_u8 split: option.split)

lemma allow_simps [simp]:
  "editOpacity (allowEditNotify_update f g) = editOpacity g" "checkEditMode (allowEditNotify_update f g) = checkEditMode g"
  by (cases g, simp)+

lemma allow_again: "allowEditNotify g \<Longrightarrow> g\<lparr>allowEditNotify := True\<rparr> = g" for g :: general
  by (cases g) simp

text \<open>The tab is as before, and the program but for its opacity level.\<close>

definition only_level :: "general \<Rightarrow> app \<Rightarrow> general \<times> app \<times> 'w \<Rightarrow> bool" where
  "only_level g a s \<longleftrightarrow> fst s = g \<and> (\<exists>l. fst (snd s) = a\<lparr>transparencyAlpha := l\<rparr>)"

lemma only_levelE:
  assumes "only_level g a s"
  obtains l w' where "s = (g, a\<lparr>transparencyAlpha := l\<rparr>, w')"
  using assms by (cases s) (auto simp: only_level_def)

lemma only_level_same: "only_level g a (g, a, w)"
  unfolding only_level_def by (auto intro: exI [of _ "transparencyAlpha a"])

lemma only_level_set: "only_level g a (g, a\<lparr>transparencyAlpha := l\<rparr>, w)"
  unfolding only_level_def by auto

lemma quiet_edit:
  assumes "\<not> allowEditNotify g"
  shows "only_level g a (general_NotifyEditUpdated (general_updates n A) A i g a w)"
  using assms
  by (auto simp: general_NotifyEditUpdated_def general_refresh_def updates_quiet SetOpacityLevel_def dialog_def Let_def
      only_level_same only_level_set split: option.split)

lemma updates_frame: "only_level g a (general_updates n A g a w)"
proof (cases n)
  case (Suc m)
  show ?thesis
  proof (cases "allowEditNotify g")
    case True
    have "only_level (g\<lparr>allowEditNotify := False\<rparr>) a
      (general_NotifyEditUpdated (general_updates m A) A EditOpacity (g\<lparr>allowEditNotify := False\<rparr>) a w)"
      by (rule quiet_edit) simp
    then show ?thesis using Suc True allow_again [OF True] by (elim only_levelE) (simp add: only_level_set)
  qed (simp add: updates_quiet only_level_same)
qed (simp add: only_level_same)

lemma refresh_frame: "only_level g a (general_RefreshWindow A g a w)"
  by (simp add: general_RefreshWindow_def general_refresh_def Let_def updates_frame only_level_same del: One_nat_def)

lemma run_general_frame:
  "\<exists>l cs' w'. run_general A cs g a w = (g, a\<lparr>transparencyAlpha := l, dialogCalls := cs'\<rparr>, w')"
proof (induction cs arbitrary: a w)
  case Nil
  show ?case by (auto intro!: exI [of _ "transparencyAlpha a"] exI [of _ "dialogCalls a"])
next
  case (Cons c cs)
  obtain l w' where r: "general_RefreshWindow A g a w = (g, a\<lparr>transparencyAlpha := l\<rparr>, w')"
    by (rule only_levelE [OF refresh_frame [of g a A w]])
  show ?case using r Cons.IH [of "a\<lparr>transparencyAlpha := l\<rparr>" w'] Cons.IH [of "dialog c a" w]
    by (auto simp: dialog_def)
qed

lemma typed_step:
  assumes "form_laws A H" "getHandle (editOpacity g) \<in> H" "getHandle (checkEditMode g) \<in> H"
    "getHandle (editOpacity g) \<noteq> getHandle (checkEditMode g)" "getHandle g \<noteq> NULL" "allowEditNotify g"
    "GetEditNum A (editOpacity g) w = Some (v :: u32)"
    and w2: "w2 = SetCheck A (appEditMode a) (checkEditMode g) (SetLayeredAlpha (desktop A) (getHandle a) (clamp_level (sint v)) w)"
  shows "general_updates 1 A g a w = (g, a\<lparr>transparencyAlpha := clamp_level (sint v)\<rparr>,
      if ucast v = clamp_level (sint v) then w2 else snd (SetEditNum A (uint (clamp_level (sint v))) (editOpacity g) w2))"
    "look_of A (getHandle (editOpacity g)) w2 = look_of A (getHandle (editOpacity g)) w"
    "lookChecked (look_of A (getHandle (checkEditMode g)) w2) = appEditMode a"
proof -
  let ?l = "clamp_level (sint v)" and ?e = "editOpacity g" and ?c = "checkEditMode g"
  let ?g = "g\<lparr>allowEditNotify := False\<rparr>" and ?a = "a\<lparr>transparencyAlpha := clamp_level (sint v)\<rparr>"
  show look: "look_of A (getHandle ?e) w2 = look_of A (getHandle ?e) w" and "lookChecked (look_of A (getHandle ?c) w2) = appEditMode a"
    unfolding w2
    using look_SetCheck [OF assms(1,3,2)] look_SetCheck [OF assms(1,3,3)] form_lawsD(6) [OF assms(1,2)] assms(4) by simp_all
  have n: "(GetEditNum A ?e w2 :: u8 option) = Some (ucast v)"
    unfolding GetEditNum_u8 GetEditNum_look [OF look] assms(7) by simp
  have h: "getHandle ?g = getHandle g" "getHandle ?a = getHandle a" by (simp_all add: getHandle_def)
  have "general_NotifyEditUpdated (general_updates 0 A) A EditOpacity ?g a w =
      (?g, ?a, if ucast v = ?l then w2 else snd (SetEditNum A (uint ?l) ?e w2))"
    using assms(5,7) n [unfolded w2] h
    by (simp add: general_NotifyEditUpdated_def general_refresh_def SetOpacityLevel_def dialog_def Let_def GetOpacityLevel_def w2)
  then show "general_updates 1 A g a w = (g, ?a, if ucast v = ?l then w2 else snd (SetEditNum A (uint ?l) ?e w2))"
    using assms(6) allow_again [OF assms(6)] by simp
qed

text \<open>
  Property C16: the number typed into the opacity box becomes the opacity level, cut to 0 to 255, and
  nothing else of the program changes. Afterwards the box shows the level, except where the low eight
  bits of the typed number are the level already: then the typed text stays.
\<close>

theorem typed_opacity:
  assumes "form_laws A H" "getHandle (editOpacity g) \<in> H" "getHandle (checkEditMode g) \<in> H"
    "getHandle (editOpacity g) \<noteq> getHandle (checkEditMode g)" "getHandle g \<noteq> NULL" "allowEditNotify g"
    "GetEditNum A (editOpacity g) w = Some (v :: u32)"
  shows "\<exists>w'. general_updates 1 A g a w = (g, a\<lparr>transparencyAlpha := clamp_level (sint v)\<rparr>, w') \<and>
    isChecked A (checkEditMode g) w' = appEditMode a \<and>
    (if ucast v = clamp_level (sint v) then GetWinText A (editOpacity g) w' = GetWinText A (editOpacity g) w
     else shows_number A (uint (clamp_level (sint v))) (editOpacity g) w')"
proof -
  note step = typed_step [OF assms refl, of a]
  show ?thesis
    unfolding step(1)
    using step(2,3) SetEditNum_shows [OF assms(1,2)] look_SetEditNum [OF assms(1,2,3)] assms(4)
    by (simp add: look_reads)
qed

section \<open>Examples\<close>

text \<open>A tab (70) with its check box (71) and its opacity box (72).\<close>

definition example_general :: general where
  "example_general = new_general\<lparr>windowsItemHandle := 70, checkEditMode := setHandle 71 new_control,
     editOpacity := setHandle 72 new_edit\<rparr>"

definition typed_level :: "int \<Rightarrow> desk" where
  "typed_level n = (example_desk \<lparr>px = 0, py = 0\<rparr>)\<lparr>deskTexts := (\<lambda>h. to_string_int n)\<rparr>"

lemma example_general_simps:
  "getHandle example_general = 70" "getHandle (checkEditMode example_general) = 71"
  "getHandle (editOpacity example_general) = 72" "allowEditNotify example_general"
  by (simp_all add: example_general_def new_general_def item.defs new_item_def getHandle_def setHandle_def)

lemma typed_level_read:
  assumes "in_s32 n"
  shows "GetWinText desk_calls e (typed_level n) = Some (to_string_int n)"
    "GetEditNum desk_calls e (typed_level n) = Some (word_of_int n)"
proof -
  have "to_string_int n \<noteq> []" by (simp add: to_string_int_def to_string_nonempty)
  then show t: "GetWinText desk_calls e (typed_level n) = Some (to_string_int n)"
    by (simp add: look_reads(3) desk_looks typed_level_def)
  have "LLONG_MIN \<le> n \<and> n \<le> LLONG_MAX" using assms by (simp add: in_s32_def LLONG_MAX_def LLONG_MIN_def)
  with t show "GetEditNum desk_calls e (typed_level n) = Some (word_of_int n)"
    by (simp add: GetEditNum_def number_round)
qed

lemma example_levels:
  "clamp_level (sint (300 :: u32)) = 255" "clamp_level (sint (511 :: u32)) = 255"
  "(ucast (300 :: u32) :: u8) \<noteq> 255" "(ucast (511 :: u32) :: u8) = 255" "uint (255 :: u8) = 255"
  by (simp_all add: clamp_level_def)

lemmas example_typed = example_general_simps(1-4) desk_form_laws [of UNIV]

lemma typed_opacity_witness:
  "\<exists>w'. general_updates 1 desk_calls example_general example_app (typed_level 300) =
       (example_general, example_app\<lparr>transparencyAlpha := 255\<rparr>, w') \<and>
     shows_number desk_calls 255 (editOpacity example_general) w'"
proof -
  have v: "GetEditNum desk_calls (editOpacity example_general) (typed_level 300) = Some (300 :: u32)"
    using typed_level_read(2) [of 300 "editOpacity example_general"] by (simp add: in_s32_def)
  from typed_opacity [OF example_typed(5) _ _ _ _ example_typed(4) v, of example_app]
  show ?thesis unfolding example_levels(1) using example_levels(3,5) by (auto simp: example_typed NULL_def simp del: One_nat_def)
qed

text \<open>
  511 is 255 modulo 256: the level becomes 255, and the box still shows 511.
\<close>

lemma typed_511_stays:
  "\<exists>w'. general_updates 1 desk_calls example_general example_app (typed_level 511) =
       (example_general, example_app\<lparr>transparencyAlpha := 255\<rparr>, w') \<and>
     GetWinText desk_calls (editOpacity example_general) w' = Some (to_string_int 511)"
proof -
  have v: "GetEditNum desk_calls (editOpacity example_general) (typed_level 511) = Some (511 :: u32)"
    using typed_level_read(2) [of 511 "editOpacity example_general"] by (simp add: in_s32_def)
  have s: "GetWinText desk_calls (editOpacity example_general) (typed_level 511) = Some (to_string_int 511)"
    by (rule typed_level_read) (simp add: in_s32_def)
  have d: "getHandle (editOpacity example_general) \<noteq> getHandle (checkEditMode example_general)" "getHandle example_general \<noteq> NULL"
    by (simp_all add: example_typed NULL_def)
  note step = typed_step [OF example_typed(5) UNIV_I UNIV_I d example_typed(4) v refl, of example_app,
      unfolded example_levels(2,4), simplified if_True refl]
  have "GetWinText desk_calls (editOpacity example_general) (SetCheck desk_calls (appEditMode example_app) (checkEditMode example_general)
      (SetLayeredAlpha (desktop desk_calls) (getHandle example_app) 255 (typed_level 511))) = Some (to_string_int 511)"
    unfolding look_reads(3) step(2) using s unfolding look_reads(3) .
  with step(1) show ?thesis by (simp del: One_nat_def)
qed

section \<open>The edit mode box\<close>

text \<open>
  After a click on the edit mode box the program is in the mode the box showed, whichever
  mode it was in, and the box shows the mode.
\<close>

theorem edit_mode_box_agrees:
  assumes "form_laws A H" "getHandle (checkEditMode g) \<in> H" "EditModeCheckClicked A g a w = Some (g', a', w')"
  shows "appEditMode a' = isChecked A (checkEditMode g) w \<and> isChecked A (checkEditMode g') w' = appEditMode a' \<and> g' = g"
proof -
  let ?b = "isChecked A (checkEditMode g) w"
  obtain a1 w1 where 1: "appEditMode a1 = ?b"
    "(if ?b \<noteq> appEditMode a then map_option (after_program A g a) (app_ToggleEditMode (desktop A) a w) else Some (g, a, w)) =
       Some (g, a1, w1)" "a' = a1" "g' = g" "w' = SetCheck A (appEditMode a1) (checkEditMode g) w1"
  proof (cases "?b = appEditMode a")
    case True
    with assms(3) show ?thesis by (intro that [of a w]) (auto simp: EditModeCheckClicked_def)
  next
    case False
    obtain a2 w2 where t: "app_ToggleEditMode (desktop A) a w = Some (a2, w2)"
      using assms(3) False by (auto simp: EditModeCheckClicked_def bind_eq_Some_conv)
    have m: "appEditMode a2 = ?b"
      using t False by (auto simp: app_ToggleEditMode_def all_views_def dialog_def Let_def bind_eq_Some_conv)
    obtain l cs w3 where r: "after_program A g a (a2, w2) = (g, a2\<lparr>transparencyAlpha := l, dialogCalls := cs\<rparr>, w3)"
      using run_general_frame [of A _ g "a2\<lparr>dialogCalls := dialogCalls a\<rparr>" w2] by (fastforce simp: after_program_def)
    show ?thesis
      using assms(3) False t m r by (intro that [of "a2\<lparr>transparencyAlpha := l, dialogCalls := cs\<rparr>" w3]) (auto simp: EditModeCheckClicked_def)
  qed
  have "lookChecked (look_of A (getHandle (checkEditMode g)) w') = appEditMode a1"
    using look_SetCheck [OF assms(1,2,2)] 1(5) by simp
  with 1 show ?thesis by (simp add: look_reads)
qed

lemma edit_mode_box_agrees_witness:
  "\<exists>a' w'. EditModeCheckClicked desk_calls example_general (example_app\<lparr>currMiniViews := []\<rparr>) (typed_level 175) =
       Some (example_general, a', w') \<and> appEditMode a' = False"
proof -
  let ?a = "example_app\<lparr>currMiniViews := []\<rparr>" and ?w = "typed_level 175"
  have u: "isChecked desk_calls (checkEditMode example_general) ?w = False"
    by (simp add: isChecked_def desk_calls_defs typed_level_def example_desk_def)
  obtain g' a' w' where e: "EditModeCheckClicked desk_calls example_general ?a ?w = Some (g', a', w')"
    by (fastforce simp: EditModeCheckClicked_def app_ToggleEditMode_def all_views_def Let_def split: prod.splits)
  from edit_mode_box_agrees [OF example_typed(5) _ e] u e show ?thesis by simp
qed

end
