(* ===== verification/Advanced_Tab.thy ===== *)
theory Advanced_Tab
  imports Forms Mini_Views_Facts Registry General_Tab
begin

text \<open>
  \<open>MiniViewsLib/MainDialog/AdvancedTab\<close>: the tab of the saved settings. A check box for each boolean
  setting, an edit box for the default opacity and the button that clears the saved settings. The
  eleven check boxes and the settings behind them are indexed by \<open>setting\<close>. \<open>'r\<close> is the registry.
  Texts the tab sets itself cause no action, because \<open>blockEditNotify\<close> is set or the notification comes
  while another is handled.
\<close>

section \<open>State\<close>

datatype setting =
    DialogOnStart | NotificationIcon | MinimizeToIcon | ExitConfirmation
  | MatchPosition | MatchSize | LockRatio | HideOnTop | CachedImage | FrozenIcon | FrozenMenuItem

definition all_settings :: "setting list" where
  "all_settings = [DialogOnStart, NotificationIcon, MinimizeToIcon, ExitConfirmation,
     MatchPosition, MatchSize, LockRatio, HideOnTop, CachedImage, FrozenIcon, FrozenMenuItem]"

text \<open>The control ids.\<close>

fun check_id :: "setting \<Rightarrow> int" where
  "check_id DialogOnStart = ID_FIRST"
| "check_id NotificationIcon = ID_FIRST + 1"
| "check_id MinimizeToIcon = ID_FIRST + 2"
| "check_id ExitConfirmation = ID_FIRST + 3"
| "check_id MatchPosition = ID_FIRST + 6"
| "check_id MatchSize = ID_FIRST + 7"
| "check_id LockRatio = ID_FIRST + 8"
| "check_id HideOnTop = ID_FIRST + 9"
| "check_id CachedImage = ID_FIRST + 10"
| "check_id FrozenIcon = ID_FIRST + 11"
| "check_id FrozenMenuItem = ID_FIRST + 12"

definition EditDefaultOpacity :: int where "EditDefaultOpacity = ID_FIRST + 4"
definition ButtonClearSavedSettings :: int where "ButtonClearSavedSettings = ID_FIRST + 13"

text \<open>The members of the preferences.\<close>

fun get_setting :: "setting \<Rightarrow> preferences \<Rightarrow> reg_bool" where
  "get_setting DialogOnStart = ShowDialogOnStart"
| "get_setting NotificationIcon = UseNotificationIcon"
| "get_setting MinimizeToIcon = MinimizeToNotificationIcon"
| "get_setting ExitConfirmation = ConfirmExit"
| "get_setting MatchPosition = DefaultMatchSourcePosition"
| "get_setting MatchSize = DefaultMatchSourceSize"
| "get_setting LockRatio = DefaultLockSizeRatio"
| "get_setting HideOnTop = DefaultHideWhenSourceOnTop"
| "get_setting CachedImage = UseCachedImageWhenFrozen"
| "get_setting FrozenIcon = ShowFrozenIndicatorIcon"
| "get_setting FrozenMenuItem = ShowFrozenContextMenuItem"

fun put_setting :: "setting \<Rightarrow> reg_bool \<Rightarrow> preferences \<Rightarrow> preferences" where
  "put_setting DialogOnStart v = ShowDialogOnStart_update (\<lambda>x. v)"
| "put_setting NotificationIcon v = UseNotificationIcon_update (\<lambda>x. v)"
| "put_setting MinimizeToIcon v = MinimizeToNotificationIcon_update (\<lambda>x. v)"
| "put_setting ExitConfirmation v = ConfirmExit_update (\<lambda>x. v)"
| "put_setting MatchPosition v = DefaultMatchSourcePosition_update (\<lambda>x. v)"
| "put_setting MatchSize v = DefaultMatchSourceSize_update (\<lambda>x. v)"
| "put_setting LockRatio v = DefaultLockSizeRatio_update (\<lambda>x. v)"
| "put_setting HideOnTop v = DefaultHideWhenSourceOnTop_update (\<lambda>x. v)"
| "put_setting CachedImage v = UseCachedImageWhenFrozen_update (\<lambda>x. v)"
| "put_setting FrozenIcon v = ShowFrozenIndicatorIcon_update (\<lambda>x. v)"
| "put_setting FrozenMenuItem v = ShowFrozenContextMenuItem_update (\<lambda>x. v)"

definition setting_Get :: "'r reg_api \<Rightarrow> setting \<Rightarrow> preferences \<Rightarrow> 'r \<Rightarrow> bool \<times> preferences \<times> 'r" where
  "setting_Get Rg s p r = (let (b, v, r1) = bool_Get Rg (get_setting s p) r in (b, put_setting s v p, r1))"

definition setting_Toggle :: "'r reg_api \<Rightarrow> setting \<Rightarrow> preferences \<Rightarrow> 'r \<Rightarrow> bool \<times> preferences \<times> 'r" where
  "setting_Toggle Rg s p r = (let (ok, v, r1) = bool_Toggle Rg (get_setting s p) r in (ok, put_setting s v p, r1))"

record advanced = item +
  blockEditNotify :: bool
  lastActionClearedSettings :: bool
  settingCheck :: "setting \<Rightarrow> control"
  editDefaultOpacity :: edit
  groupViewDefaults :: control
  groupFrozenSourceBehaviorDefaults :: control
  buttonClearSavedSettings :: control

definition new_advanced :: advanced where
  "new_advanced = item.extend new_item \<lparr>blockEditNotify = True, lastActionClearedSettings = False,
     settingCheck = (\<lambda>s. new_control), editDefaultOpacity = new_edit, groupViewDefaults = new_control,
     groupFrozenSourceBehaviorDefaults = new_control, buttonClearSavedSettings = new_control\<rparr>"

definition LastActionClearedSettings :: "advanced \<Rightarrow> bool" where
  "LastActionClearedSettings t = lastActionClearedSettings t"

section \<open>Refresh\<close>

type_synonym ('r, 'w) prefs_state = "preferences \<times> 'r \<times> 'w"

definition show_setting ::
    "('w, 'z) dialog_calls_scheme \<Rightarrow> 'r reg_api \<Rightarrow> advanced \<Rightarrow> setting \<Rightarrow> ('r, 'w) prefs_state \<Rightarrow> ('r, 'w) prefs_state" where
  "show_setting A Rg t s st =
     (case st of (p, r, w) \<Rightarrow> let (b, p1, r1) = setting_Get Rg s p r in (p1, r1, SetCheck A b (settingCheck t s) w))"

text \<open>Minimizing to the notification icon can be chosen only while the icon is used.\<close>

definition show_icon_settings ::
    "('w, 'z) dialog_calls_scheme \<Rightarrow> 'r reg_api \<Rightarrow> advanced \<Rightarrow> ('r, 'w) prefs_state \<Rightarrow> ('r, 'w) prefs_state" where
  "show_icon_settings A Rg t st =
     (case st of (p, r, w) \<Rightarrow>
        (let (useIcon, p1, r1) = setting_Get Rg NotificationIcon p r;
             w1 = SetCheck A useIcon (settingCheck t NotificationIcon) w
         in if useIcon then
              (let (p2, r2, w2) = show_setting A Rg t MinimizeToIcon (p1, r1, w1)
               in (p2, r2, EnableThis (desktop A) (settingCheck t MinimizeToIcon) w2))
            else (p1, r1, DisableThis (desktop A) (settingCheck t MinimizeToIcon)
                            (SetCheck A False (settingCheck t MinimizeToIcon) w1))))"

definition show_opacity ::
    "('w, 'z) dialog_calls_scheme \<Rightarrow> 'r reg_api \<Rightarrow> advanced \<Rightarrow> ('r, 'w) prefs_state \<Rightarrow> ('r, 'w) prefs_state" where
  "show_opacity A Rg t st =
     (case st of (p, r, w) \<Rightarrow>
        (let (n, v, r1) = u32_Get Rg (DefaultOpacity p) r
         in (p\<lparr>DefaultOpacity := v\<rparr>, r1, snd (SetEditNum A (uint n) (editDefaultOpacity t) w))))"

definition advanced_RefreshWindow ::
    "('w, 'z) dialog_calls_scheme \<Rightarrow> 'r reg_api \<Rightarrow> advanced \<Rightarrow> ('r, 'w) prefs_state \<Rightarrow> advanced \<times> ('r, 'w) prefs_state" where
  "advanced_RefreshWindow A Rg t st =
     (let t1 = t\<lparr>blockEditNotify := True\<rparr>;
          st1 = show_icon_settings A Rg t1 (show_setting A Rg t1 DialogOnStart st);
          st2 = show_opacity A Rg t1 (show_setting A Rg t1 ExitConfirmation st1);
          st3 = fold (show_setting A Rg t1)
                  [MatchPosition, MatchSize, LockRatio, HideOnTop, CachedImage, FrozenIcon, FrozenMenuItem] st2
      in (t1\<lparr>blockEditNotify := False\<rparr>, st3))"

section \<open>Handlers\<close>

definition advanced_NotifyButtonClicked ::
    "('w, 'z) dialog_calls_scheme \<Rightarrow> 'r reg_api \<Rightarrow> ('r \<Rightarrow> 'w \<Rightarrow> nat) \<Rightarrow> 'a item_scheme \<Rightarrow> int \<Rightarrow> advanced \<Rightarrow> ('r, 'w) prefs_state \<Rightarrow>
     advanced \<times> ('r, 'w) prefs_state" where
  "advanced_NotifyButtonClicked A Rg lastError program idFrom t st =
     (case st of (p, r, w) \<Rightarrow>
        (let (performed, success, p1, r1, w1) =
           (case find (\<lambda>s. check_id s = idFrom) all_settings of
              Some s \<Rightarrow>
                (let (ok, p', r') = setting_Toggle Rg s p r
                 in (True, ok, p', r', if s = NotificationIcon then RemoveNotificationIcon (desktop A) program w else w))
            | None \<Rightarrow>
                if idFrom = ButtonClearSavedSettings then
                  (let (ok, p', r') = ClearSavedPreferences Rg p r in (True, ok, p', r', w))
                else (False, True, p, r, w))
         in if performed then
              (let t1 = t\<lparr>lastActionClearedSettings := (idFrom = ButtonClearSavedSettings)\<rparr>;
                   w2 = (if success then w1
                         else Message A (''Failed to update settings: '' @ to_string (lastError r1 w1)) ''Error!'' w1)
               in advanced_RefreshWindow A Rg t1 (p1, r1, w2))
            else (t, p1, r1, w1)))"

definition advanced_NotifyEditUpdated ::
    "('w, 'z) dialog_calls_scheme \<Rightarrow> 'r reg_api \<Rightarrow> int \<Rightarrow> advanced \<Rightarrow> ('r, 'w) prefs_state \<Rightarrow> ('r, 'w) prefs_state" where
  "advanced_NotifyEditUpdated A Rg idFrom t st =
     (case st of (p, r, w) \<Rightarrow>
        if \<not> blockEditNotify t \<and> idFrom = EditDefaultOpacity then
          (case GetEditNum A (editDefaultOpacity t) w :: u32 option of
             Some newOpacity \<Rightarrow>
               (let n = sint newOpacity; clamped = (if n > 255 then 255 else if n < 0 then 0 else n);
                    (ok, v, r1) = u32_Set Rg (word_of_int clamped) (DefaultOpacity p) r
                in (p\<lparr>DefaultOpacity := v\<rparr>, r1, w))
           | None \<Rightarrow>
               if GetTextLength A (editDefaultOpacity t) w \<noteq> 0 then show_opacity A Rg t (p, r, w) else (p, r, w))
        else (p, r, w))"

text \<open>A function of the file that nothing calls.\<close>

definition ToggleUseNotificationIcon ::
    "('w, 'z) dialog_calls_scheme \<Rightarrow> 'r reg_api \<Rightarrow> 'a item_scheme \<Rightarrow> ('r, 'w) prefs_state \<Rightarrow> bool \<times> ('r, 'w) prefs_state" where
  "ToggleUseNotificationIcon A Rg program st =
     (case st of (p, r, w) \<Rightarrow>
        (let (ok, p1, r1) = setting_Toggle Rg NotificationIcon p r in
         if ok then
           (let (useIcon, p2, r2) = setting_Get Rg NotificationIcon p1 r1
            in (True, p2, r2, if useIcon then snd (CreateNotificationIcon (desktop A) program w)
                              else RemoveNotificationIcon (desktop A) program w))
         else (False, p1, r1, w)))"

section \<open>Creation\<close>

definition place_check ::
    "('w, 'z) dialog_calls_scheme \<Rightarrow> int \<Rightarrow> setting \<Rightarrow> int \<Rightarrow> int \<Rightarrow> int \<Rightarrow> bool \<Rightarrow> string \<Rightarrow> advanced \<times> 'w \<Rightarrow> advanced \<times> 'w" where
  "place_check A dpi s x y width checked label tw =
     (case tw of (t, w) \<Rightarrow>
        (let (_, c, w1) = check_CreateThis A (getHandle t) x y (DpiScale A width dpi) (DpiScale A 23 dpi) checked label
               (nat (check_id s)) (settingCheck t s) w
         in (t\<lparr>settingCheck := (settingCheck t)(s := c)\<rparr>, w1)))"

text \<open>The edge of a control, moved by a scaled distance.\<close>

definition below :: "('w, 'z) dialog_calls_scheme \<Rightarrow> int \<Rightarrow> 'a item_scheme \<Rightarrow> int \<Rightarrow> 'w \<Rightarrow> int option" where
  "below A dpi it n w = add32 (Bottom_of (desktop A) it w) (DpiScale A n dpi)"

text \<open>A column of check boxes, each below the one before; the first is below \<open>prev\<close>.\<close>

fun check_column ::
    "('w, 'z) dialog_calls_scheme \<Rightarrow> int \<Rightarrow> control \<Rightarrow> int \<Rightarrow> (setting \<times> bool \<times> string) list \<Rightarrow> advanced \<times> 'w \<Rightarrow> (advanced \<times> 'w) option" where
  "check_column A dpi prev x [] tw = Some tw"
| "check_column A dpi prev x ((s, checked, label) # cs) tw =
     do { y \<leftarrow> below A dpi prev 2 (snd tw);
          let tw1 = place_check A dpi s x y 200 checked label tw;
          check_column A dpi (settingCheck (fst tw1) s) x cs tw1 }"

text \<open>The first four check boxes start as the settings are.\<close>

fun start_column ::
    "('w, 'z) dialog_calls_scheme \<Rightarrow> 'r reg_api \<Rightarrow> int \<Rightarrow> control option \<Rightarrow> (setting \<times> string) list \<Rightarrow> advanced \<times> ('r, 'w) prefs_state \<Rightarrow>
     (advanced \<times> ('r, 'w) prefs_state) option" where
  "start_column A Rg dpi prev [] st = Some st"
| "start_column A Rg dpi prev ((s, label) # cs) st =
     (case st of (t, p, r, w) \<Rightarrow>
        do { y \<leftarrow> (case prev of None \<Rightarrow> Some (DpiScale A 5 dpi) | Some c \<Rightarrow> below A dpi c 2 w);
             let (b, p1, r1) = setting_Get Rg s p r;
             let (t1, w1) = place_check A dpi s 0 y 180 b label (t, w);
             start_column A Rg dpi (Some (settingCheck t1 s)) cs (t1, p1, r1, w1) })"

definition advanced_CreateSubWindows ::
    "('w, 'z) dialog_calls_scheme \<Rightarrow> 'r reg_api \<Rightarrow> int \<Rightarrow> handle \<Rightarrow> advanced \<Rightarrow> ('r, 'w) prefs_state \<Rightarrow> (advanced \<times> ('r, 'w) prefs_state) option" where
  "advanced_CreateSubWindows A Rg dpi font t st =
     (case st of (p, r, w) \<Rightarrow>
        (let W = desktop A; S = (\<lambda>n. DpiScale A n dpi); h = getHandle t; w1 = setFont A font False t w
         in do {
           (t2, p2, r2, w2) \<leftarrow> start_column A Rg dpi None
              [(DialogOnStart, ''Always Show Dialog On Start''), (NotificationIcon, ''Use Notification Icon''),
               (MinimizeToIcon, ''Minimize To Notification Icon''), (ExitConfirmation, ''Confirm Exit By Dialog'')] (t, p, r, w1);
           y3 \<leftarrow> below A dpi (settingCheck t2 ExitConfirmation) 8 w2;
           let (_, label, w3) = text_CreateThis A h 0 y3 (S 150) (S 23) ''Default Opacity Level (0-255): '' 0 new_control w2;
           x4 \<leftarrow> add32 (Right_of W label w3) (S 5); y4 \<leftarrow> sub32 (Top_of W label w3) (S 3);
           let (_, e, w4) = edit_CreateThis A h x4 y4 (S 75) (S 23) False (nat EditDefaultOpacity) (editDefaultOpacity t2) w3;
           let w5 = SetTextLimit A 3 e w4;
           let t5 = t2\<lparr>editDefaultOpacity := e\<rparr>;
           let (p6, r6, w6) = show_opacity A Rg t5 (p2, r2, w5);
           let w7 = opacity_buddy A t5 e w6;
           y8 \<leftarrow> below A dpi e 10 w7;
           let (_, g1, w8) = group_CreateThis A h 0 y8 (S 250) (S 120) ''Mini View Defaults'' 0 (groupViewDefaults t5) w7;
           x9 \<leftarrow> add32 (Left_of W g1 w8) (S 10); y9 \<leftarrow> add32 (Top_of W g1 w8) (S 20);
           let tw9 = place_check A dpi MatchPosition x9 y9 200 False ''Match Source Position by Default'' (t5\<lparr>groupViewDefaults := g1\<rparr>, w8);
           (t10, w10) \<leftarrow> check_column A dpi (settingCheck (fst tw9) MatchPosition) x9
              [(MatchSize, False, ''Match Source Size by Default''), (LockRatio, True, ''Lock Size Ratio by Default''),
               (HideOnTop, True, ''Hide When Source on Top by Default'')] tw9;
           y11 \<leftarrow> below A dpi g1 10 w10;
           let (_, g2, w11) = group_CreateThis A h 0 y11 (S 250) (S 95) ''Frozen Source Behavior'' 0
              (groupFrozenSourceBehaviorDefaults t10) w10;
           x12 \<leftarrow> add32 (Left_of W g2 w11) (S 10); y12 \<leftarrow> add32 (Top_of W g2 w11) (S 20);
           let tw12 = place_check A dpi CachedImage x12 y12 200 True ''Use Cached Image When Frozen''
              (t10\<lparr>groupFrozenSourceBehaviorDefaults := g2\<rparr>, w11);
           (t13, w13) \<leftarrow> check_column A dpi (settingCheck (fst tw12) CachedImage) x12
              [(FrozenIcon, True, ''Show Frozen Indicator Icon''), (FrozenMenuItem, True, ''Show Frozen Context Menu Item'')] tw12;
           y14 \<leftarrow> below A dpi g2 8 w13;
           let (_, b, w14) = button_CreateThis A h 0 y14 (S 125) (S 23) ''Clear Saved Settings'' (nat ButtonClearSavedSettings) False
              (buttonClearSavedSettings t13) w13;
           Some (t13\<lparr>buttonClearSavedSettings := b\<rparr>, p6, r6, w14) }))"

definition advanced_CreateThis ::
    "('w, 'z) dialog_calls_scheme \<Rightarrow> 'r reg_api \<Rightarrow> hwnd \<Rightarrow> int \<Rightarrow> handle \<Rightarrow> string list \<Rightarrow> advanced \<Rightarrow> ('r, 'w) prefs_state \<Rightarrow>
     (bool \<times> string list \<times> advanced \<times> ('r, 'w) prefs_state) option" where
  "advanced_CreateThis A Rg parent dpi font registered t st =
     (case st of (p, r, w) \<Rightarrow>
        if getHandle t \<noteq> NULL then (let (ok, w1) = SetParent A parent t w in Some (ok, registered, t, p, r, w1))
        else do {
          (ok, registered1, t1, w1) \<leftarrow> tab_window A ''AdvancedWindow'' ''Advanced Tab'' parent dpi registered t w;
          if ok then
            map_option (\<lambda>(t2, st2). (True, registered1, t2\<lparr>blockEditNotify := False\<rparr>, st2))
              (advanced_CreateSubWindows A Rg dpi font (t1\<lparr>blockEditNotify := True\<rparr>) (p, r, w1))
          else Some (False, registered1, t1, p, r, w1) })"

definition advanced_DestroyThis :: "('w, 'z) dialog_calls_scheme \<Rightarrow> advanced \<Rightarrow> 'w \<Rightarrow> bool \<times> advanced \<times> 'w" where
  "advanced_DestroyThis A t w = (let (t1, w1) = DestroyThis (desktop A) t w in (True, t1, w1))"

section \<open>Settings\<close>

lemma get_put_setting [simp]:
  "get_setting s (put_setting s' v p) = (if s = s' then v else get_setting s p)"
  "DefaultOpacity (put_setting s' v p) = DefaultOpacity p"
  "get_setting s (p\<lparr>DefaultOpacity := n\<rparr>) = get_setting s p"
  by (cases s; cases s'; simp)+

lemma bool_Get_cached: "bool_Get Rg v r = (b, v', r') \<Longrightarrow> cachedBool v' = b"
  by (auto simp: bool_Get_def Let_def split: if_splits prod.splits)

lemma setting_Get_cached:
  assumes "setting_Get Rg s p r = (b, p', r')"
  shows "cachedBool (get_setting s p') = b" "s' \<noteq> s \<Longrightarrow> get_setting s' p' = get_setting s' p" "DefaultOpacity p' = DefaultOpacity p"
  using assms bool_Get_cached by (fastforce simp: setting_Get_def split: prod.splits)+

lemma setting_Get_assigned:
  assumes "isAssigned (get_setting s p)" "setting_Get Rg s p r = (b, p', r')"
  shows "b = cachedBool (get_setting s p)" "get_setting s p' = get_setting s p"
  using assms by (auto simp: setting_Get_def bool_Get_def)

lemma u32_Get_cached: "u32_Get Rg v r = (n, v', r') \<Longrightarrow> cachedU32 v' = n"
  by (auto simp: u32_Get_def Let_def split: if_splits prod.splits)

lemma find_check_id: "find (\<lambda>s. check_id s = check_id s') all_settings = Some s'"
  by (cases s') (simp_all add: all_settings_def)

lemma in_all_settings: "s \<in> set all_settings"
  by (cases s) (simp_all add: all_settings_def)

section \<open>What the tab shows\<close>

text \<open>The controls of the tab are live and different.\<close>

definition advanced_live :: "('w, 'z) dialog_calls_scheme \<Rightarrow> hwnd set \<Rightarrow> advanced \<Rightarrow> bool" where
  "advanced_live A H t \<longleftrightarrow> form_laws A H \<and> getHandle (editDefaultOpacity t) \<in> H \<and>
     (\<forall>s. getHandle (settingCheck t s) \<in> H \<and> getHandle (settingCheck t s) \<noteq> getHandle (editDefaultOpacity t)) \<and>
     (\<forall>s s'. getHandle (settingCheck t s) = getHandle (settingCheck t s') \<longrightarrow> s = s')"

lemma advanced_liveD:
  assumes "advanced_live A H t"
  shows "form_laws A H" "getHandle (editDefaultOpacity t) \<in> H" "getHandle (settingCheck t s) \<in> H"
    "getHandle (settingCheck t s) \<noteq> getHandle (editDefaultOpacity t)"
    "getHandle (settingCheck t s) = getHandle (settingCheck t s') \<longleftrightarrow> s = s'"
  using assms unfolding advanced_live_def by blast+

lemma look_setting:
  assumes "advanced_live A H t"
  shows "look_of A (getHandle (settingCheck t s')) (SetCheck A b (settingCheck t s) w) =
      (if s' = s then (look_of A (getHandle (settingCheck t s')) w)\<lparr>lookChecked := b\<rparr>
       else look_of A (getHandle (settingCheck t s')) w)"
    "look_of A (getHandle (editDefaultOpacity t)) (SetCheck A b (settingCheck t s) w) =
       look_of A (getHandle (editDefaultOpacity t)) w"
  using look_SetCheck [OF advanced_liveD(1) [OF assms] advanced_liveD(3) [OF assms] advanced_liveD(3) [OF assms]]
    look_SetCheck [OF advanced_liveD(1) [OF assms] advanced_liveD(3) [OF assms] advanced_liveD(2) [OF assms]]
    advanced_liveD(5) [OF assms] advanced_liveD(4) [OF assms, of s] by auto

lemma advanced_live_simps [simp]:
  "advanced_live A H (t\<lparr>blockEditNotify := b\<rparr>) = advanced_live A H t"
  "advanced_live A H (t\<lparr>lastActionClearedSettings := b\<rparr>) = advanced_live A H t"
  by (simp_all add: advanced_live_def)

text \<open>A check box shows its setting as it was last read.\<close>

definition shown :: "('w, 'z) dialog_calls_scheme \<Rightarrow> advanced \<Rightarrow> setting \<Rightarrow> ('r, 'w) prefs_state \<Rightarrow> bool" where
  "shown A t s st \<longleftrightarrow>
     (case st of (p, r, w) \<Rightarrow> lookChecked (look_of A (getHandle (settingCheck t s)) w) = cachedBool (get_setting s p))"

text \<open>The box for minimizing is enabled when the icon is used, and checked at most then.\<close>

definition icon_shown :: "('w, 'z) dialog_calls_scheme \<Rightarrow> advanced \<Rightarrow> ('r, 'w) prefs_state \<Rightarrow> bool" where
  "icon_shown A t st \<longleftrightarrow>
     (case st of (p, r, w) \<Rightarrow>
        look_of A (getHandle (settingCheck t MinimizeToIcon)) w =
          (look_of A (getHandle (settingCheck t MinimizeToIcon)) w)\<lparr>
             lookEnabled := cachedBool (UseNotificationIcon p),
             lookChecked := cachedBool (UseNotificationIcon p) \<and> cachedBool (MinimizeToNotificationIcon p)\<rparr>)"

definition opacity_shown :: "('w, 'z) dialog_calls_scheme \<Rightarrow> advanced \<Rightarrow> ('r, 'w) prefs_state \<Rightarrow> bool" where
  "opacity_shown A t st \<longleftrightarrow> (case st of (p, r, w) \<Rightarrow> shows_number A (uint (cachedU32 (DefaultOpacity p))) (editDefaultOpacity t) w)"

lemma shown_simps [simp]:
  "shown A (t\<lparr>blockEditNotify := b\<rparr>) = shown A t" "icon_shown A (t\<lparr>blockEditNotify := b\<rparr>) = icon_shown A t"
  "opacity_shown A (t\<lparr>blockEditNotify := b\<rparr>) = opacity_shown A t"
  by (simp_all add: shown_def icon_shown_def opacity_shown_def fun_eq_iff)

lemma show_setting_shows:
  assumes "advanced_live A H t" "s' = s \<or> shown A t s' st"
  shows "shown A t s' (show_setting A Rg t s st)"
proof -
  obtain p r w where st: "st = (p, r, w)" by (cases st)
  obtain b p1 r1 where g: "setting_Get Rg s p r = (b, p1, r1)" by (metis prod_cases3)
  show ?thesis
    using assms(2) look_setting(1) [OF assms(1), of s' b s w] setting_Get_cached [OF g]
    by (auto simp: show_setting_def st g shown_def)
qed

lemma show_setting_keeps:
  assumes "advanced_live A H t" "s \<noteq> NotificationIcon" "s \<noteq> MinimizeToIcon"
  shows "icon_shown A t st \<Longrightarrow> icon_shown A t (show_setting A Rg t s st)"
    "opacity_shown A t st \<Longrightarrow> opacity_shown A t (show_setting A Rg t s st)"
proof -
  obtain p r w where st: "st = (p, r, w)" by (cases st)
  obtain b p1 r1 where g: "setting_Get Rg s p r = (b, p1, r1)" by (metis prod_cases3)
  note m = look_setting(1) [OF assms(1), of MinimizeToIcon b s w] and e = look_setting(2) [OF assms(1), of b s w]
  have p: "UseNotificationIcon p1 = UseNotificationIcon p" "MinimizeToNotificationIcon p1 = MinimizeToNotificationIcon p"
    using setting_Get_cached(2) [OF g, of NotificationIcon] setting_Get_cached(2) [OF g, of MinimizeToIcon] assms(2,3) by auto
  show "icon_shown A t st \<Longrightarrow> icon_shown A t (show_setting A Rg t s st)"
    using m p assms(3) by (simp add: icon_shown_def show_setting_def st g)
  show "opacity_shown A t st \<Longrightarrow> opacity_shown A t (show_setting A Rg t s st)"
    using e setting_Get_cached(3) [OF g] by (simp add: opacity_shown_def show_setting_def st g shows_number_def)
qed

lemma show_settings_shows:
  assumes "advanced_live A H t" "s \<in> set ss \<or> shown A t s st"
  shows "shown A t s (fold (show_setting A Rg t) ss st)"
  using assms(2)
proof (induction ss arbitrary: st)
  case (Cons s' ss)
  then show ?case using show_setting_shows [OF assms(1), of s s' st] by (metis fold_simps(2) set_ConsD)
qed simp

lemma show_settings_keeps:
  assumes "advanced_live A H t" "NotificationIcon \<notin> set ss" "MinimizeToIcon \<notin> set ss"
  shows "(icon_shown A t st \<longrightarrow> icon_shown A t (fold (show_setting A Rg t) ss st)) \<and>
    (opacity_shown A t st \<longrightarrow> opacity_shown A t (fold (show_setting A Rg t) ss st))"
  using assms(2,3)
proof (induction ss arbitrary: st)
  case (Cons s' ss)
  then have ne: "s' \<noteq> NotificationIcon" "s' \<noteq> MinimizeToIcon" by auto
  show ?case using show_setting_keeps [OF assms(1) ne, of st Rg] Cons by simp
qed simp

lemma icon_settings_show:
  assumes "advanced_live A H t"
  shows "icon_shown A t (show_icon_settings A Rg t st)" "shown A t NotificationIcon (show_icon_settings A Rg t st)"
    "s \<noteq> MinimizeToIcon \<Longrightarrow> shown A t s st \<Longrightarrow> shown A t s (show_icon_settings A Rg t st)"
proof -
  obtain p r w where st: "st = (p, r, w)" by (cases st)
  obtain b p1 r1 where g: "setting_Get Rg NotificationIcon p r = (b, p1, r1)" by (metis prod_cases3)
  obtain c p2 r2 where h: "setting_Get Rg MinimizeToIcon p1 r1 = (c, p2, r2)" by (metis prod_cases3)
  let ?m = "settingCheck t MinimizeToIcon" and ?w1 = "SetCheck A b (settingCheck t NotificationIcon) w"
  note look = look_setting(1) [OF assms] and g' = setting_Get_cached [OF g] and h' = setting_Get_cached [OF h]
  have en: "look_of A (getHandle (settingCheck t s')) (EnableThis (desktop A) ?m v) =
      (if s' = MinimizeToIcon then (look_of A (getHandle (settingCheck t s')) v)\<lparr>lookEnabled := True\<rparr>
       else look_of A (getHandle (settingCheck t s')) v)"
    "look_of A (getHandle (settingCheck t s')) (DisableThis (desktop A) ?m v) =
      (if s' = MinimizeToIcon then (look_of A (getHandle (settingCheck t s')) v)\<lparr>lookEnabled := False\<rparr>
       else look_of A (getHandle (settingCheck t s')) v)" for s' v
    using look_EnableThis [OF advanced_liveD(1) [OF assms] advanced_liveD(3) [OF assms] advanced_liveD(3) [OF assms]]
      advanced_liveD(5) [OF assms, of s' MinimizeToIcon] by auto
  have r: "show_icon_settings A Rg t st =
      (if b then (p2, r2, EnableThis (desktop A) ?m (SetCheck A c ?m ?w1)) else (p1, r1, DisableThis (desktop A) ?m (SetCheck A False ?m ?w1)))"
    by (simp add: show_icon_settings_def show_setting_def st g h Let_def)
  have n: "UseNotificationIcon p2 = UseNotificationIcon p1" using h'(2) [of NotificationIcon] by simp
  show "icon_shown A t (show_icon_settings A Rg t st)"
    unfolding r using n g'(1) h'(1) by (cases b) (simp_all add: icon_shown_def en look)
  show "shown A t NotificationIcon (show_icon_settings A Rg t st)"
    unfolding r using n g'(1) by (cases b) (simp_all add: shown_def en look)
  show "shown A t s (show_icon_settings A Rg t st)" if "s \<noteq> MinimizeToIcon" "shown A t s st"
    unfolding r using that n g' h'(2) [of s] by (cases b; cases "s = NotificationIcon") (simp_all add: shown_def en look st)
qed

lemma opacity_shows:
  assumes "advanced_live A H t"
  shows "opacity_shown A t (show_opacity A Rg t st)"
    "shown A t s st \<Longrightarrow> shown A t s (show_opacity A Rg t st)"
    "icon_shown A t st \<Longrightarrow> icon_shown A t (show_opacity A Rg t st)"
proof -
  obtain p r w where st: "st = (p, r, w)" by (cases st)
  obtain n v r1 where u: "u32_Get Rg (DefaultOpacity p) r = (n, v, r1)" by (metis prod_cases3)
  have l: "look_of A (getHandle (settingCheck t s')) (snd (SetEditNum A (uint n) (editDefaultOpacity t) w)) =
      look_of A (getHandle (settingCheck t s')) w" for s'
    using look_SetEditNum [OF advanced_liveD(1) [OF assms] advanced_liveD(2) [OF assms] advanced_liveD(3) [OF assms]] advanced_liveD(4) [OF assms] by simp
  show "opacity_shown A t (show_opacity A Rg t st)"
    using SetEditNum_shows [OF advanced_liveD(1) [OF assms] advanced_liveD(2) [OF assms], of "uint n" w] u32_Get_cached [OF u]
    by (simp add: opacity_shown_def show_opacity_def st u)
  show "shown A t s st \<Longrightarrow> shown A t s (show_opacity A Rg t st)" using l by (simp add: shown_def show_opacity_def st u)
  show "icon_shown A t st \<Longrightarrow> icon_shown A t (show_opacity A Rg t st)" using l by (simp add: icon_shown_def show_opacity_def st u)
qed

section \<open>Properties\<close>

text \<open>What a refresh leaves on the controls.\<close>

lemma advanced_shows:
  assumes "advanced_live A H t" "advanced_RefreshWindow A Rg t (p, r, w) = (t', p', r', w')"
  shows "(\<forall>s. isChecked A (settingCheck t s) w' =
      (cachedBool (get_setting s p') \<and> (if s = MinimizeToIcon then cachedBool (UseNotificationIcon p') else True))) \<and>
    isEnabled (desktop A) (settingCheck t MinimizeToIcon) w' = cachedBool (UseNotificationIcon p') \<and>
    shows_number A (uint (cachedU32 (DefaultOpacity p'))) (editDefaultOpacity t) w'"
proof -
  let ?t = "t\<lparr>blockEditNotify := True\<rparr>"
  let ?ss = "[MatchPosition, MatchSize, LockRatio, HideOnTop, CachedImage, FrozenIcon, FrozenMenuItem]"
  have live: "advanced_live A H ?t" using assms(1) by simp
  let ?s0 = "show_setting A Rg ?t DialogOnStart (p, r, w)"
  let ?s1 = "show_icon_settings A Rg ?t ?s0"
  let ?s2 = "show_setting A Rg ?t ExitConfirmation ?s1"
  let ?s3 = "show_opacity A Rg ?t ?s2"
  let ?s4 = "fold (show_setting A Rg ?t) ?ss ?s3"
  have r: "?s4 = (p', r', w')" using assms(2) by (simp add: advanced_RefreshWindow_def Let_def)
  have "shown A ?t DialogOnStart ?s0" by (rule show_setting_shows [OF live]) simp
  then have 1: "icon_shown A ?t ?s1" "shown A ?t NotificationIcon ?s1" "shown A ?t DialogOnStart ?s1"
    by (simp_all del: shown_simps add: icon_settings_show [OF live])
  then have 2: "icon_shown A ?t ?s2" "shown A ?t NotificationIcon ?s2" "shown A ?t DialogOnStart ?s2" "shown A ?t ExitConfirmation ?s2"
    by (simp_all del: shown_simps add: show_setting_keeps(1) [OF live] show_setting_shows [OF live])
  then have 3: "icon_shown A ?t ?s3" "opacity_shown A ?t ?s3" "shown A ?t NotificationIcon ?s3" "shown A ?t DialogOnStart ?s3"
    "shown A ?t ExitConfirmation ?s3"
    by (simp_all del: shown_simps add: opacity_shows [OF live])
  have "icon_shown A ?t ?s4 \<and> opacity_shown A ?t ?s4"
    using show_settings_keeps [OF live, of ?ss ?s3 Rg] 3 by simp
  moreover have "shown A ?t s ?s4" if "s \<noteq> MinimizeToIcon" for s
    using show_settings_shows [OF live, of s ?ss ?s3 Rg] 3 that by (cases s) auto
  ultimately have icon: "icon_shown A t (p', r', w')" and op: "opacity_shown A t (p', r', w')"
    and sh: "s \<noteq> MinimizeToIcon \<Longrightarrow> shown A t s (p', r', w')" for s
    unfolding r by simp_all
  have m: "lookEnabled (look_of A (getHandle (settingCheck t MinimizeToIcon)) w') = cachedBool (UseNotificationIcon p')"
    "lookChecked (look_of A (getHandle (settingCheck t MinimizeToIcon)) w') =
       (cachedBool (UseNotificationIcon p') \<and> cachedBool (MinimizeToNotificationIcon p'))"
    using arg_cong [OF icon [unfolded icon_shown_def prod.case], of lookEnabled]
      arg_cong [OF icon [unfolded icon_shown_def prod.case], of lookChecked] by simp_all
  have "isChecked A (settingCheck t s) w' =
      (cachedBool (get_setting s p') \<and> (if s = MinimizeToIcon then cachedBool (UseNotificationIcon p') else True))" for s
    using sh [of s] m(2) by (auto simp: shown_def look_reads)
  moreover have "isEnabled (desktop A) (settingCheck t MinimizeToIcon) w' = cachedBool (UseNotificationIcon p')"
    using m(1) by (simp add: isEnabled_def look_of_def)
  ultimately show ?thesis using op by (simp add: opacity_shown_def)
qed

text \<open>
  After a refresh the tab shows the preferences: every check box is checked as its setting
  was read, the box for minimizing to the notification icon is checked and enabled only while the icon
  is used, and the edit box shows the default opacity.
\<close>

theorem advanced_shows_preferences:
  assumes "advanced_live A H t" "advanced_RefreshWindow A Rg t (p, r, w) = (t', p', r', w')"
  shows "(\<forall>s. isChecked A (settingCheck t s) w' =
      (cachedBool (get_setting s p') \<and> (if s = MinimizeToIcon then cachedBool (UseNotificationIcon p') else True))) \<and>
    isEnabled (desktop A) (settingCheck t MinimizeToIcon) w' = cachedBool (UseNotificationIcon p') \<and>
    shows_number A (uint (cachedU32 (DefaultOpacity p'))) (editDefaultOpacity t) w'"
  by (rule advanced_shows [OF assms])

text \<open>A setting whose value is cached is not touched by a refresh.\<close>

lemma show_setting_assigned:
  assumes "isAssigned (get_setting s (fst st))"
  shows "get_setting s (fst (show_setting A Rg t s' st)) = get_setting s (fst st)"
proof -
  obtain p r w where st: "st = (p, r, w)" by (cases st)
  obtain b p1 r1 where g: "setting_Get Rg s' p r = (b, p1, r1)" by (metis prod_cases3)
  show ?thesis
    using assms setting_Get_cached(2) [OF g, of s] setting_Get_assigned(2) [OF _ g]
    by (cases "s = s'") (auto simp: show_setting_def st g)
qed

lemma show_settings_assigned:
  "isAssigned (get_setting s (fst st)) \<Longrightarrow> get_setting s (fst (fold (show_setting A Rg t) ss st)) = get_setting s (fst st)"
  by (induction ss arbitrary: st) (simp_all add: show_setting_assigned)

lemma icon_settings_assigned:
  assumes "isAssigned (get_setting s (fst st))"
  shows "get_setting s (fst (show_icon_settings A Rg t st)) = get_setting s (fst st)"
proof -
  obtain p r w where st: "st = (p, r, w)" by (cases st)
  obtain b p1 r1 where g: "setting_Get Rg NotificationIcon p r = (b, p1, r1)" by (metis prod_cases3)
  let ?w = "SetCheck A b (settingCheck t NotificationIcon) w"
  have "get_setting s p1 = get_setting s p"
    using assms setting_Get_cached(2) [OF g, of s] setting_Get_assigned(2) [OF _ g] st by (cases "s = NotificationIcon") auto
  moreover obtain p2 r2 w2 where m: "show_setting A Rg t MinimizeToIcon (p1, r1, ?w) = (p2, r2, w2)" by (metis prod_cases3)
  moreover have "get_setting s p2 = get_setting s p1"
    using show_setting_assigned [of s "(p1, r1, ?w)" A Rg t MinimizeToIcon] assms calculation st by simp
  ultimately show ?thesis by (cases b) (simp_all add: show_icon_settings_def st g Let_def)
qed

lemma opacity_assigned: "get_setting s (fst (show_opacity A Rg t st)) = get_setting s (fst st)"
  by (simp add: show_opacity_def Let_def split: prod.split)

lemma refresh_assigned:
  assumes "advanced_RefreshWindow A Rg t (p, r, w) = (t', p', r', w')" "isAssigned (get_setting s p)"
  shows "get_setting s p' = get_setting s p"
proof -
  let ?t = "t\<lparr>blockEditNotify := True\<rparr>"
  let ?s1 = "show_icon_settings A Rg ?t (show_setting A Rg ?t DialogOnStart (p, r, w))"
  let ?s2 = "show_opacity A Rg ?t (show_setting A Rg ?t ExitConfirmation ?s1)"
  have 0: "get_setting s (fst (show_setting A Rg ?t DialogOnStart (p, r, w))) = get_setting s p"
    using show_setting_assigned [of s "(p, r, w)"] assms(2) by simp
  then have 1: "get_setting s (fst ?s1) = get_setting s p" using icon_settings_assigned [of s "show_setting A Rg ?t DialogOnStart (p, r, w)"] assms(2) by simp
  then have 2: "get_setting s (fst ?s2) = get_setting s p" using show_setting_assigned [of s ?s1] assms(2) by (simp add: opacity_assigned)
  have "fst (fold (show_setting A Rg ?t) [MatchPosition, MatchSize, LockRatio, HideOnTop, CachedImage, FrozenIcon, FrozenMenuItem] ?s2) = p'"
    using assms(1) by (simp add: advanced_RefreshWindow_def Let_def)
  then show ?thesis using show_settings_assigned [of s ?s2] 2 assms(2) by metis
qed

lemma toggled_setting:
  assumes "setting_Toggle Rg s p r = (True, p1, r1)"
  shows "isAssigned (get_setting s p1)" "cachedBool (get_setting s p1) = (\<not> cachedBool (get_setting s p))"
  using assms by (auto simp: setting_Toggle_def bool_Toggle_def Let_def split: prod.splits)

text \<open>
  Property C32: a click on a check box flips its setting: when the registry takes the new value, the
  setting is the negation of what it was, the box shows it (the one for minimizing only while the
  notification icon is used), and the tab remembers that the settings were not just cleared.
\<close>

theorem advanced_click_flips:
  assumes "advanced_live A H t" "setting_Toggle Rg s p r = (True, p1, r1)"
    "advanced_NotifyButtonClicked A Rg lastError program (check_id s) t (p, r, w) = (t', p', r', w')"
  shows "cachedBool (get_setting s p') = (\<not> cachedBool (get_setting s p)) \<and> isAssigned (get_setting s p') \<and>
    isChecked A (settingCheck t' s) w' =
      (\<not> cachedBool (get_setting s p) \<and> (if s = MinimizeToIcon then cachedBool (UseNotificationIcon p') else True)) \<and>
    \<not> LastActionClearedSettings t'"
proof -
  let ?t = "t\<lparr>lastActionClearedSettings := False\<rparr>"
  let ?w = "if s = NotificationIcon then RemoveNotificationIcon (desktop A) program w else w"
  have "check_id s \<noteq> ButtonClearSavedSettings" by (cases s) (simp_all add: ButtonClearSavedSettings_def)
  then have r: "advanced_RefreshWindow A Rg ?t (p1, r1, ?w) = (t', p', r', w')"
    using assms(3) by (simp add: advanced_NotifyButtonClicked_def find_check_id assms(2) Let_def)
  have t': "t' = ?t\<lparr>blockEditNotify := False\<rparr>" using r by (simp add: advanced_RefreshWindow_def Let_def)
  have live: "advanced_live A H ?t" using assms(1) by simp
  have g: "get_setting s p' = get_setting s p1" by (rule refresh_assigned [OF r toggled_setting(1) [OF assms(2)]])
  have "isChecked A (settingCheck t' s) w' =
      (cachedBool (get_setting s p') \<and> (if s = MinimizeToIcon then cachedBool (UseNotificationIcon p') else True))"
    using advanced_shows [OF live r] by (simp add: t')
  then show ?thesis using g toggled_setting [OF assms(2)] by (simp add: t' LastActionClearedSettings_def)
qed

section \<open>Examples\<close>

definition example_advanced :: advanced where
  "example_advanced = new_advanced\<lparr>settingCheck := (\<lambda>s. setHandle (nat (check_id s)) new_control),
     editDefaultOpacity := setHandle 120 new_edit\<rparr>"

abbreviation desk0 :: desk where "desk0 \<equiv> example_desk \<lparr>px = 0, py = 0\<rparr>"

lemma example_advanced_live: "advanced_live desk_calls UNIV example_advanced"
proof -
  have "nat (check_id s) \<noteq> 120" "nat (check_id s) = nat (check_id s') \<longrightarrow> s = s'" for s s'
    by (cases s; simp add: ID_FIRST_def) (cases s; cases s'; simp add: ID_FIRST_def)
  then show ?thesis
    by (simp add: advanced_live_def desk_form_laws example_advanced_def new_advanced_def item.defs getHandle_def setHandle_def)
qed

lemma advanced_shows_preferences_witness:
  "\<exists>t' p' r' w'. advanced_RefreshWindow desk_calls memory_api example_advanced (new_preferences mini_views_key, empty_registry, desk0) =
       (t', p', r', w') \<and>
     isChecked desk_calls (settingCheck example_advanced LockRatio) w' = cachedBool (DefaultLockSizeRatio p') \<and>
     shows_number desk_calls (uint (cachedU32 (DefaultOpacity p'))) (editDefaultOpacity example_advanced) w'"
proof -
  obtain t' p' r' w' where r: "advanced_RefreshWindow desk_calls memory_api example_advanced
      (new_preferences mini_views_key, empty_registry, desk0) = (t', p', r', w')" by (metis prod_cases4)
  from advanced_shows_preferences [OF example_advanced_live r]
  have "isChecked desk_calls (settingCheck example_advanced LockRatio) w' = cachedBool (get_setting LockRatio p')"
    "shows_number desk_calls (uint (cachedU32 (DefaultOpacity p'))) (editDefaultOpacity example_advanced) w'"
    by simp_all
  with r show ?thesis by auto
qed

lemma advanced_click_flips_witness:
  "\<exists>t' p' r' w'. advanced_NotifyButtonClicked desk_calls memory_api (\<lambda>r w. 0) example_app (check_id MatchPosition) example_advanced
       (new_preferences mini_views_key, empty_registry, desk0) = (t', p', r', w') \<and>
     cachedBool (DefaultMatchSourcePosition p') = True \<and> isChecked desk_calls (settingCheck t' MatchPosition) w' = True"
proof -
  let ?p = "new_preferences mini_views_key"
  obtain t' p' r' w' where r: "advanced_NotifyButtonClicked desk_calls memory_api (\<lambda>r w. 0) example_app (check_id MatchPosition)
      example_advanced (?p, empty_registry, desk0) = (t', p', r', w')" by (metis prod_cases4)
  obtain p1 r1 where t: "setting_Toggle memory_api MatchPosition ?p empty_registry = (True, p1, r1)"
    by (simp add: setting_Toggle_def bool_Toggle_def CreateOrSetBool_def CreateOrSetDword_def new_preferences_def registry_evals)
  have "cachedBool (get_setting MatchPosition ?p) = False" by (simp add: new_preferences_def registry_evals)
  with advanced_click_flips [OF example_advanced_live t r] r show ?thesis by simp
qed

end
