(* ===== verification/Views_Tab.thy ===== *)
theory Views_Tab
  imports Advanced_Tab
begin

text \<open>
  \<open>MiniViewsLib/MainDialog/ViewsTab\<close>: the tab with the tree of the views and the form for the
  selected one. The tab holds shared pointers to views: a view is known by its address, and a view the
  program has dropped lives on in \<open>keptViews\<close> (setting a clip region of such a view is not modelled). The
  eight numbers of the form are indexed by \<open>views_edit\<close>. \<open>None\<close> is undefined arithmetic, an
  exception of \<open>value()\<close>, or a loop that does not end.
\<close>

section \<open>State\<close>

datatype views_edit =
    EditWindowXPos | EditWindowYPos | EditWindowWidth | EditWindowHeight
  | EditClipLeft | EditClipTop | EditClipRight | EditClipBottom

definition window_edits :: "views_edit list" where
  "window_edits = [EditWindowXPos, EditWindowYPos, EditWindowWidth, EditWindowHeight]"

definition clip_edits :: "views_edit list" where
  "clip_edits = [EditClipLeft, EditClipTop, EditClipRight, EditClipBottom]"

fun edit_id :: "views_edit \<Rightarrow> int" where
  "edit_id EditWindowXPos = ID_FIRST"
| "edit_id EditWindowYPos = ID_FIRST + 1"
| "edit_id EditWindowWidth = ID_FIRST + 2"
| "edit_id EditWindowHeight = ID_FIRST + 3"
| "edit_id EditClipLeft = ID_FIRST + 8"
| "edit_id EditClipTop = ID_FIRST + 9"
| "edit_id EditClipRight = ID_FIRST + 10"
| "edit_id EditClipBottom = ID_FIRST + 11"

definition ButtonMatchSourcePos :: int where "ButtonMatchSourcePos = ID_FIRST + 4"
definition ButtonMatchSourceSize :: int where "ButtonMatchSourceSize = ID_FIRST + 5"
definition CheckClipped :: int where "CheckClipped = ID_FIRST + 6"
definition ButtonSetClipArea :: int where "ButtonSetClipArea = ID_FIRST + 7"
definition CheckLockSizeRatio :: int where "CheckLockSizeRatio = ID_FIRST + 12"
definition CheckHideWhenSourceOnTop :: int where "CheckHideWhenSourceOnTop = ID_FIRST + 13"

record views_tab = item +
  treeMiniViews :: control
  groupSize :: control
  groupClip :: control
  viewText :: "views_edit \<Rightarrow> control"
  viewEdit :: "views_edit \<Rightarrow> edit"
  buttonMatchSourcePos :: control
  buttonMatchSourceSize :: control
  buttonSetClip :: control
  checkClipped :: control
  checkHideWhenSourceOnTop :: control
  checkLockSizeRatio :: control
  currTreeItems :: "(htreeitem \<times> string \<times> nat) list"
  currMiniView :: "nat option"
  keptViews :: "(nat \<times> view) list"

definition new_views_tab :: views_tab where
  "new_views_tab = item.extend new_item \<lparr>treeMiniViews = new_control, groupSize = new_control, groupClip = new_control,
     viewText = (\<lambda>e. new_control), viewEdit = (\<lambda>e. new_edit), buttonMatchSourcePos = new_control,
     buttonMatchSourceSize = new_control, buttonSetClip = new_control, checkClipped = new_control,
     checkHideWhenSourceOnTop = new_control, checkLockSizeRatio = new_control, currTreeItems = [],
     currMiniView = None, keptViews = []\<rparr>"

text \<open>The view at an address, with the program or kept by the tab.\<close>

definition tab_view :: "views_tab \<Rightarrow> app \<Rightarrow> nat \<Rightarrow> view option" where
  "tab_view t a i = (case view_at i a of Some mv \<Rightarrow> Some mv | None \<Rightarrow> map_of (keptViews t) i)"

definition put_tab_view :: "nat \<Rightarrow> view \<Rightarrow> views_tab \<Rightarrow> app \<Rightarrow> views_tab \<times> app" where
  "put_tab_view i mv t a =
     (if view_at i a \<noteq> None then (t, put_view i mv a)
      else (t\<lparr>keptViews := map (\<lambda>(j, u). if j = i then (j, mv) else (j, u)) (keptViews t)\<rparr>, a))"

section \<open>The form\<close>

text \<open>The controls \<open>EnableEditing\<close> and \<open>DisableEditing\<close> go through, in order.\<close>

definition for_form :: "(control \<Rightarrow> 'w \<Rightarrow> 'w) \<Rightarrow> (edit \<Rightarrow> 'w \<Rightarrow> 'w) \<Rightarrow> views_tab \<Rightarrow> 'w \<Rightarrow> 'w" where
  "for_form f g t w =
     (let w1 = fold (\<lambda>e. f (viewText t e)) window_edits (f (groupSize t) w);
          w2 = fold (\<lambda>e. g (viewEdit t e)) window_edits w1;
          w3 = f (buttonMatchSourceSize t) (f (buttonMatchSourcePos t) w2);
          w4 = f (buttonSetClip t) (f (checkClipped t) (f (groupClip t) w3));
          w5 = fold (\<lambda>e. f (viewText t e)) clip_edits w4;
          w6 = fold (\<lambda>e. g (viewEdit t e)) clip_edits w5
      in f (checkHideWhenSourceOnTop t) (f (checkLockSizeRatio t) w6))"

definition EnableEditing :: "('w, 'z) dialog_calls_scheme \<Rightarrow> views_tab \<Rightarrow> 'w \<Rightarrow> 'w" where
  "EnableEditing A = for_form (EnableThis (desktop A)) (edit_EnableThis A)"

definition clear_texts :: "('w, 'z) dialog_calls_scheme \<Rightarrow> views_edit list \<Rightarrow> views_tab \<Rightarrow> 'w \<Rightarrow> 'w" where
  "clear_texts A es t = fold (\<lambda>e w. snd (SetText A [] (viewEdit t e) w)) es"

definition DisableEditing :: "('w, 'z) dialog_calls_scheme \<Rightarrow> views_tab \<Rightarrow> 'w \<Rightarrow> 'w" where
  "DisableEditing A t w =
     (let w1 = for_form (DisableThis (desktop A)) (edit_DisableThis A) t w;
          w2 = SetCheck A False (checkClipped t) (clear_texts A window_edits t w1);
          w3 = clear_texts A clip_edits t w2
      in SetCheck A False (checkHideWhenSourceOnTop t) (SetCheck A False (checkLockSizeRatio t) w3))"

definition show_number :: "('w, 'z) dialog_calls_scheme \<Rightarrow> views_tab \<Rightarrow> views_edit \<Rightarrow> int \<Rightarrow> 'w \<Rightarrow> 'w" where
  "show_number A t e n w = snd (SetEditNum A n (viewEdit t e) w)"

definition show_view :: "('w, 'z) dialog_calls_scheme \<Rightarrow> views_tab \<Rightarrow> view \<Rightarrow> 'w \<Rightarrow> 'w option" where
  "show_view A t mv w =
     (let W = desktop A;
          w1 = show_number A t EditWindowXPos (Left_of W mv w) w;
          w2 = show_number A t EditWindowYPos (Top_of W mv w1) w1
      in do {
        width \<leftarrow> cliWidth W mv w2;
        let w3 = show_number A t EditWindowWidth width w2;
        height \<leftarrow> cliHeight W mv w3;
        let w4 = show_number A t EditWindowHeight height w3;
        let w5 = SetCheck A (IsClipped mv) (checkClipped t) w4;
        let r = GetClipRect mv;
        let w6 = show_number A t EditClipTop (top r) (show_number A t EditClipLeft (left r) w5);
        let w7 = show_number A t EditClipBottom (bottom r) (show_number A t EditClipRight (right r) w6);
        let w8 = (if IsClipped mv then fold (\<lambda>e. edit_EnableThis A (viewEdit t e)) clip_edits w7
                  else fold (\<lambda>e. edit_DisableThis A (viewEdit t e)) clip_edits w7);
        let w9 = SetCheck A (HidesWhenSourceOnTop mv) (checkHideWhenSourceOnTop t) w8;
        Some (SetCheck A (SizeRatioLocked mv) (checkLockSizeRatio t) w9) })"

section \<open>The tree\<close>

fun add_tree_items ::
    "('w, 'z) dialog_calls_scheme \<Rightarrow> control \<Rightarrow> int \<Rightarrow> (nat \<times> view) list \<Rightarrow> 'w \<Rightarrow> ((htreeitem \<times> string \<times> nat) list \<times> 'w) option" where
  "add_tree_items A c i [] w = Some ([], w)"
| "add_tree_items A c i ((j, mv) # vs) w =
     do { miniViewTitle \<leftarrow> GetWinText A mv w;
          let (treeItem, w1) = InsertTreeItem A NULL miniViewTitle i c w;
          (rest, w2) \<leftarrow> add_tree_items A c (i + 1) vs w1;
          Some ((treeItem, miniViewTitle, j) # rest, w2) }"

definition rebuild_tree :: "('w, 'z) dialog_calls_scheme \<Rightarrow> views_tab \<Rightarrow> app \<Rightarrow> 'w \<Rightarrow> (views_tab \<times> 'w) option" where
  "rebuild_tree A t a w =
     (let c = treeMiniViews t; miniViewList = currMiniViews a
      in do {
        w1 \<leftarrow> EmptySubTree A NULL c (item_SetRedraw A False c w);
        (items, w2) \<leftarrow> add_tree_items A c 0 miniViewList w1;
        let includesCurrMiniView = (\<exists>v\<in>set miniViewList. currMiniView t = Some (fst v));
        let t1 = t\<lparr>currTreeItems := items\<rparr>;
        let t2 = (if includesCurrMiniView then t1
                  else t1\<lparr>currMiniView := (case miniViewList of [] \<Rightarrow> None | v # vs \<Rightarrow> Some (fst v))\<rparr>);
        Some (t2, item_SetRedraw A True c w2) })"

fun refresh_names ::
    "('w, 'z) dialog_calls_scheme \<Rightarrow> views_tab \<Rightarrow> app \<Rightarrow> (htreeitem \<times> string \<times> nat) list \<Rightarrow> 'w \<Rightarrow>
     ((htreeitem \<times> string \<times> nat) list \<times> 'w) option" where
  "refresh_names A t a [] w = Some ([], w)"
| "refresh_names A t a ((treeItem, title, j) # items) w =
     do { mv \<leftarrow> tab_view t a j;
          now \<leftarrow> GetWinText A mv w;
          let w1 = (if title \<noteq> now then snd (tree_SetItemText A treeItem now (treeMiniViews t) w) else w);
          (rest, w2) \<leftarrow> refresh_names A t a items w1;
          Some ((treeItem, now, j) # rest, w2) }"

definition views_RefreshWindow ::
    "('w, 'z) dialog_calls_scheme \<Rightarrow> bool \<Rightarrow> bool \<Rightarrow> views_tab \<Rightarrow> app \<Rightarrow> 'w \<Rightarrow> (views_tab \<times> 'w) option" where
  "views_RefreshWindow A rebuildTree refreshNames t a w =
     do { (t1, w1) \<leftarrow>
            (if rebuildTree then rebuild_tree A t a w
             else if refreshNames then
               map_option (\<lambda>(items, w1). (t\<lparr>currTreeItems := items\<rparr>, w1)) (refresh_names A t a (currTreeItems t) w)
             else Some (t, w));
          (case currMiniView t1 of
             None \<Rightarrow> Some (t1, DisableEditing A t1 w1)
           | Some i \<Rightarrow> do { mv \<leftarrow> tab_view t1 a i;
                            w2 \<leftarrow> show_view A t1 mv (EnableEditing A t1 w1);
                            Some (t1, w2) }) }"

section \<open>Handlers\<close>

definition views_NotifyTreeItemSelected ::
    "('w, 'z) dialog_calls_scheme \<Rightarrow> int \<Rightarrow> views_tab \<Rightarrow> app \<Rightarrow> 'w \<Rightarrow> (views_tab \<times> 'w) option" where
  "views_NotifyTreeItemSelected A newValue t a w =
     (let miniViewList = currMiniViews a;
          found = (if 0 \<le> newValue \<and> newValue < int (length miniViewList) then Some (fst (miniViewList ! nat newValue)) else None)
      in views_RefreshWindow A False False (t\<lparr>currMiniView := found\<rparr>) a w)"

text \<open>
  What a handler does after the view's own operation: the view is stored, the program answers what
  the view asked of it, and the form is refreshed.
\<close>

definition after_view ::
    "('w, 'z) dialog_calls_scheme \<Rightarrow> nat \<Rightarrow> view \<times> 'w \<Rightarrow> views_tab \<Rightarrow> app \<Rightarrow> (views_tab \<times> app \<times> 'w) option" where
  "after_view A j r t a =
     (case r of (mv, w) \<Rightarrow>
        (let (t1, a1) = put_tab_view j (mv\<lparr>requests := []\<rparr>) t a
         in do { (a2, w2) \<leftarrow> handle_requests (desktop A) j (requests mv) a1 w;
                 (t3, w3) \<leftarrow> views_RefreshWindow A False False t1 a2 w2;
                 Some (t3, a2, w3) }))"

text \<open>The operation of a button; \<open>Some None\<close> is no command.\<close>

definition button_command ::
    "'w win32 \<Rightarrow> settings \<Rightarrow> int \<Rightarrow> view \<Rightarrow> 'w \<Rightarrow> (view \<times> 'w) option option" where
  "button_command W S idFrom mv w =
     (if idFrom = ButtonMatchSourcePos then map_option Some (MatchSource W True False mv w)
      else if idFrom = ButtonMatchSourceSize then map_option Some (MatchSource W False True mv w)
      else if idFrom = ButtonSetClipArea then map_option Some (SetClipRegion W (Some (viewPrefs S)) mv w)
      else if idFrom = CheckClipped then map_option Some (ClearClipRegion W mv w)
      else if idFrom = CheckLockSizeRatio then map_option (\<lambda>mv1. Some (mv1, w)) (ToggleLockRatio W mv w)
      else if idFrom = CheckHideWhenSourceOnTop then map_option Some (ToggleHideWhenSourceOnTop W mv w)
      else Some None)"

definition views_NotifyButtonClicked ::
    "('w, 'z) dialog_calls_scheme \<Rightarrow> settings \<Rightarrow> int \<Rightarrow> views_tab \<Rightarrow> app \<Rightarrow> 'w \<Rightarrow> (views_tab \<times> app \<times> 'w) option" where
  "views_NotifyButtonClicked A S idFrom t a w =
     (case currMiniView t of
        None \<Rightarrow> Some (t, a, w)
      | Some j \<Rightarrow> do {
          mv \<leftarrow> tab_view t a j;
          r \<leftarrow> button_command (desktop A) S idFrom (mv\<lparr>requests := []\<rparr>) w;
          (case r of None \<Rightarrow> Some (t, a, w) | Some x \<Rightarrow> after_view A j x t a) })"

fun adjust_view :: "'w win32 \<Rightarrow> views_edit \<Rightarrow> int \<Rightarrow> view \<Rightarrow> 'w \<Rightarrow> (view \<times> 'w) option" where
  "adjust_view W EditWindowXPos n mv w = Some (mv, AdjustWindowLeft W n mv w)"
| "adjust_view W EditWindowYPos n mv w = Some (mv, AdjustWindowTop W n mv w)"
| "adjust_view W EditWindowWidth n mv w = AdjustCliWidth W n mv w"
| "adjust_view W EditWindowHeight n mv w = AdjustCliHeight W n mv w"
| "adjust_view W EditClipLeft n mv w = Some (AdjustClipLeft W n mv w, w)"
| "adjust_view W EditClipTop n mv w = Some (AdjustClipTop W n mv w, w)"
| "adjust_view W EditClipRight n mv w = Some (AdjustClipRight W n mv w, w)"
| "adjust_view W EditClipBottom n mv w = Some (AdjustClipBottom W n mv w, w)"

definition views_NotifyEditFocusLost ::
    "('w, 'z) dialog_calls_scheme \<Rightarrow> int \<Rightarrow> views_tab \<Rightarrow> app \<Rightarrow> 'w \<Rightarrow> (views_tab \<times> app \<times> 'w) option" where
  "views_NotifyEditFocusLost A idFrom t a w =
     (case (currMiniView t, find (\<lambda>e. edit_id e = idFrom) (window_edits @ clip_edits)) of
        (Some j, Some e) \<Rightarrow> do {
          mv \<leftarrow> tab_view t a j;
          r \<leftarrow> (case GetEditNum A (viewEdit t e) w :: u32 option of
                  Some num \<Rightarrow> adjust_view (desktop A) e (sint num) (mv\<lparr>requests := []\<rparr>) w
                | None \<Rightarrow> Some (mv\<lparr>requests := []\<rparr>, w));
          after_view A j r t a }
      | _ \<Rightarrow> Some (t, a, w))"

section \<open>Creation\<close>

text \<open>A column of labels in a group; \<open>first\<close> is the top of the first one.\<close>

fun view_texts ::
    "('w, 'z) dialog_calls_scheme \<Rightarrow> int \<Rightarrow> control \<Rightarrow> int \<Rightarrow> int \<Rightarrow> control option \<Rightarrow> (views_edit \<times> string) list \<Rightarrow>
     views_tab \<times> 'w \<Rightarrow> (views_tab \<times> 'w) option" where
  "view_texts A dpi grp width first prev [] tw = Some tw"
| "view_texts A dpi grp width first prev ((e, label) # cs) tw =
     (case tw of (t, w) \<Rightarrow>
        do { x \<leftarrow> add32 (Left_of (desktop A) grp w) (DpiScale A 10 dpi);
             y \<leftarrow> (case prev of None \<Rightarrow> Some first | Some c \<Rightarrow> below A dpi c 2 w);
             let (_, c, w1) = text_CreateThis A (getHandle t) x y (DpiScale A width dpi) (DpiScale A 23 dpi) label 0 (viewText t e) w;
             view_texts A dpi grp width first (Some c) cs (t\<lparr>viewText := (viewText t)(e := c)\<rparr>, w1) })"

text \<open>The edit boxes, each right of its label.\<close>

fun view_edits :: "('w, 'z) dialog_calls_scheme \<Rightarrow> int \<Rightarrow> views_edit list \<Rightarrow> views_tab \<times> 'w \<Rightarrow> (views_tab \<times> 'w) option" where
  "view_edits A dpi [] tw = Some tw"
| "view_edits A dpi (e # es) tw =
     (case tw of (t, w) \<Rightarrow>
        do { x \<leftarrow> add32 (Right_of (desktop A) (viewText t e) w) (DpiScale A 10 dpi);
             y \<leftarrow> sub32 (Top_of (desktop A) (viewText t e) w) (DpiScale A 3 dpi);
             let (_, ed, w1) = edit_CreateThis A (getHandle t) x y (DpiScale A 50 dpi) (DpiScale A 23 dpi) False (nat (edit_id e))
               (viewEdit t e) w;
             view_edits A dpi es (t\<lparr>viewEdit := (viewEdit t)(e := ed)\<rparr>, w1) })"

definition tree_height :: "('w, 'z) dialog_calls_scheme \<Rightarrow> int \<Rightarrow> views_tab \<Rightarrow> 'w \<Rightarrow> int option" where
  "tree_height A dpi t w = do { n \<leftarrow> cliHeight (desktop A) t w; sub32 n (DpiScale A 10 dpi) }"

definition views_FixPositions :: "('w, 'z) dialog_calls_scheme \<Rightarrow> int \<Rightarrow> views_tab \<Rightarrow> 'w \<Rightarrow> 'w option" where
  "views_FixPositions A dpi t w =
     map_option (\<lambda>n. SetPos (desktop A) 0 (DpiScale A 5 dpi) (DpiScale A 100 dpi) n (treeMiniViews t) w) (tree_height A dpi t w)"

definition views_CreateSubWindows ::
    "('w, 'z) dialog_calls_scheme \<Rightarrow> int \<Rightarrow> handle \<Rightarrow> views_tab \<Rightarrow> 'w \<Rightarrow> (views_tab \<times> 'w) option" where
  "views_CreateSubWindows A dpi font t w =
     (let W = desktop A; S = (\<lambda>n. DpiScale A n dpi); h = getHandle t; w1 = setFont A font False t w
      in do {
        n \<leftarrow> tree_height A dpi t w1;
        let (_, tree, w2) = tree_CreateThis A h 0 (S 5) (S 100) n False 0 (treeMiniViews t) w1;
        x3 \<leftarrow> add32 (Right_of W tree w2) (S 5);
        let (_, g1, w3) = group_CreateThis A h x3 (S 5) (S 145) (S 179) ''Window Settings'' 0 (groupSize t) w2;
        y4 \<leftarrow> add32 (Top_of W g1 w3) (S 20);
        tw4 \<leftarrow> view_texts A dpi g1 45 y4 None
           [(EditWindowXPos, ''X-Pos: ''), (EditWindowYPos, ''Y-Pos: ''), (EditWindowWidth, ''Width: ''), (EditWindowHeight, ''Height: '')]
           (t\<lparr>treeMiniViews := tree, groupSize := g1\<rparr>, w3);
        (t5, w5) \<leftarrow> view_edits A dpi window_edits tw4;
        x6 \<leftarrow> add32 (Left_of W g1 w5) (S 10); y6 \<leftarrow> below A dpi (viewEdit t5 EditWindowHeight) 5 w5;
        let (_, b1, w6) = button_CreateThis A h x6 y6 (S 125) (S 23) ''Match Source Position'' (nat ButtonMatchSourcePos) False
           (buttonMatchSourcePos t5) w5;
        y7 \<leftarrow> below A dpi b1 5 w6;
        let (_, b2, w7) = button_CreateThis A h x6 y7 (S 125) (S 23) ''Match Source Size'' (nat ButtonMatchSourceSize) False
           (buttonMatchSourceSize t5) w6;
        y8 \<leftarrow> below A dpi g1 5 w7;
        let (_, g2, w8) = group_CreateThis A h x3 y8 (S 145) (S 155) ''Clip Settings'' 0 (groupClip t5) w7;
        x9 \<leftarrow> add32 (Left_of W g2 w8) (S 10); y9 \<leftarrow> add32 (Top_of W g2 w8) (S 20);
        let (_, c1, w9) = check_CreateThis A h x9 y9 (S 55) (S 23) False ''Clipped'' (nat CheckClipped) (checkClipped t5) w8;
        y10 \<leftarrow> below A dpi c1 10 w9;
        tw10 \<leftarrow> view_texts A dpi g2 40 y10 None
           [(EditClipLeft, ''Left: ''), (EditClipTop, ''Top: ''), (EditClipRight, ''Right: ''), (EditClipBottom, ''Bottom: '')]
           (t5\<lparr>buttonMatchSourcePos := b1, buttonMatchSourceSize := b2, groupClip := g2, checkClipped := c1\<rparr>, w9);
        (t11, w11) \<leftarrow> view_edits A dpi clip_edits tw10;
        x12 \<leftarrow> sub32 (Right_of W (viewEdit t11 EditClipLeft) w11) (S 30); y12 \<leftarrow> add32 (Top_of W g2 w11) (S 20);
        let (_, b3, w12) = button_CreateThis A h x12 y12 (S 30) (S 23) ''Set'' (nat ButtonSetClipArea) False (buttonSetClip t11) w11;
        y13 \<leftarrow> below A dpi g2 5 w12;
        let (_, c2, w13) = check_CreateThis A h x3 y13 (S 150) (S 23) False ''Lock Size Ratio'' (nat CheckLockSizeRatio)
           (checkLockSizeRatio t11) w12;
        y14 \<leftarrow> below A dpi c2 2 w13;
        let (_, c3, w14) = check_CreateThis A h x3 y14 (S 150) (S 23) False ''Hide When Source On Top'' (nat CheckHideWhenSourceOnTop)
           (checkHideWhenSourceOnTop t11) w13;
        Some (t11\<lparr>buttonSetClip := b3, checkLockSizeRatio := c2, checkHideWhenSourceOnTop := c3\<rparr>, w14) })"

definition views_CreateThis ::
    "('w, 'z) dialog_calls_scheme \<Rightarrow> hwnd \<Rightarrow> int \<Rightarrow> handle \<Rightarrow> views_tab \<Rightarrow> app \<Rightarrow> 'w \<Rightarrow> (bool \<times> views_tab \<times> app \<times> 'w) option" where
  "views_CreateThis A parent dpi font t a w =
     (if getHandle t \<noteq> NULL then (let (ok, w1) = SetParent A parent t w in Some (ok, t, a, w1))
      else do {
        (ok, registered, t1, w1) \<leftarrow> tab_window A ''ViewsWindow'' ''Views Tab'' parent dpi (registeredClasses a) t w;
        let a1 = a\<lparr>registeredClasses := registered\<rparr>;
        if ok then map_option (\<lambda>(t2, w2). (True, t2, a1, w2)) (views_CreateSubWindows A dpi font t1 w1)
        else Some (False, t1, a1, w1) })"

definition views_DestroyThis :: "('w, 'z) dialog_calls_scheme \<Rightarrow> views_tab \<Rightarrow> 'w \<Rightarrow> bool \<times> views_tab \<times> 'w" where
  "views_DestroyThis A t w = (let (t1, w1) = DestroyThis (desktop A) t w in (True, t1, w1))"

section \<open>What the form shows\<close>

fun form_number :: "'w win32 \<Rightarrow> views_edit \<Rightarrow> view \<Rightarrow> 'w \<Rightarrow> int option" where
  "form_number W EditWindowXPos mv w = Some (Left_of W mv w)"
| "form_number W EditWindowYPos mv w = Some (Top_of W mv w)"
| "form_number W EditWindowWidth mv w = cliWidth W mv w"
| "form_number W EditWindowHeight mv w = cliHeight W mv w"
| "form_number W EditClipLeft mv w = Some (left (GetClipRect mv))"
| "form_number W EditClipTop mv w = Some (top (GetClipRect mv))"
| "form_number W EditClipRight mv w = Some (right (GetClipRect mv))"
| "form_number W EditClipBottom mv w = Some (bottom (GetClipRect mv))"

text \<open>The controls of the form are among the live ones, and those that are written are distinct.\<close>

definition views_live :: "('w, 'z) dialog_calls_scheme \<Rightarrow> hwnd set \<Rightarrow> views_tab \<Rightarrow> bool" where
  "views_live A H t \<longleftrightarrow> form_laws A H \<and>
     (\<forall>e. getHandle (viewText t e) \<in> H \<and> getHandle (viewEdit t e) \<in> H \<and> hBuddy (viewEdit t e) = NULL) \<and>
     (\<forall>c\<in>{groupSize t, groupClip t, buttonMatchSourcePos t, buttonMatchSourceSize t, buttonSetClip t, checkClipped t,
        checkHideWhenSourceOnTop t, checkLockSizeRatio t}. getHandle c \<in> H) \<and>
     (\<forall>e d. getHandle (viewEdit t e) = getHandle (viewEdit t d) \<longrightarrow> e = d) \<and>
     distinct [getHandle (checkClipped t), getHandle (checkHideWhenSourceOnTop t), getHandle (checkLockSizeRatio t)]"

definition view_place :: "'w win32 \<Rightarrow> view \<Rightarrow> 'w \<Rightarrow> int \<times> int \<times> int option \<times> int option" where
  "view_place W mv w = (Left_of W mv w, Top_of W mv w, cliWidth W mv w, cliHeight W mv w)"

lemma views_liveD:
  assumes "views_live A H t"
  shows "form_laws A H" "getHandle (viewText t e) \<in> H" "getHandle (viewEdit t e) \<in> H" "hBuddy (viewEdit t e) = NULL"
    "getHandle (groupSize t) \<in> H" "getHandle (groupClip t) \<in> H" "getHandle (buttonMatchSourcePos t) \<in> H"
    "getHandle (buttonMatchSourceSize t) \<in> H" "getHandle (buttonSetClip t) \<in> H" "getHandle (checkClipped t) \<in> H"
    "getHandle (checkHideWhenSourceOnTop t) \<in> H" "getHandle (checkLockSizeRatio t) \<in> H"
    "getHandle (viewEdit t e) = getHandle (viewEdit t d) \<longleftrightarrow> e = d"
    "getHandle (checkClipped t) \<noteq> getHandle (checkHideWhenSourceOnTop t)"
    "getHandle (checkClipped t) \<noteq> getHandle (checkLockSizeRatio t)"
    "getHandle (checkHideWhenSourceOnTop t) \<noteq> getHandle (checkLockSizeRatio t)"
    "getHandle (checkHideWhenSourceOnTop t) \<noteq> getHandle (checkClipped t)"
    "getHandle (checkLockSizeRatio t) \<noteq> getHandle (checkClipped t)"
    "getHandle (checkLockSizeRatio t) \<noteq> getHandle (checkHideWhenSourceOnTop t)"
  using assms unfolding views_live_def by auto

lemma for_form_keeps:
  assumes "views_live A H t" "\<And>c w. getHandle c \<in> H \<Longrightarrow> obs (f c w) = obs w"
    "\<And>e w. getHandle e \<in> H \<Longrightarrow> hBuddy e = NULL \<Longrightarrow> obs (g e w) = obs w"
  shows "obs (for_form f g t w) = obs w"
  by (simp add: for_form_def window_edits_def clip_edits_def assms(2,3) views_liveD [OF assms(1)] Let_def)

text \<open>A refresh leaves alone what the calls for the form do not touch.\<close>

lemma edit_enable_untouched:
  assumes "untouched A H obs" "getHandle e \<in> H" "hBuddy e = NULL"
  shows "obs (edit_EnableThis A e w) = obs w" "obs (edit_DisableThis A e w) = obs w"
  using assms(2,3) by (simp_all add: edit_EnableThis_def edit_DisableThis_def untouched_steps [OF assms(1)])

lemma EnableEditing_untouched:
  assumes "views_live A H t" "untouched A H obs"
  shows "obs (EnableEditing A t w) = obs w"
  unfolding EnableEditing_def
  by (rule for_form_keeps [OF assms(1)]) (simp_all add: untouched_steps [OF assms(2)] edit_enable_untouched [OF assms(2)])

lemma show_number_untouched:
  assumes "views_live A H t" "untouched A H obs"
  shows "obs (show_number A t e n w) = obs w"
  using views_liveD(3) [OF assms(1)] by (simp add: show_number_def SetEditNum_def untouched_steps [OF assms(2)])

text \<open>What a refresh writes, by the part of the look.\<close>

lemma text_shown_show_number:
  assumes "views_live A H t"
  shows "text_shown A (viewEdit t d) (show_number A t e n w) = (if d = e then number_text n else text_shown A (viewEdit t d) w)"
  using views_liveD(3,13) [OF assms]
  by (simp add: show_number_def SetEditNum_def text_shown_steps [OF views_liveD(1) [OF assms] views_liveD(3) [OF assms]] number_text_def)

lemma show_number_flags:
  assumes "views_live A H t" "getHandle c \<in> H"
  shows "isChecked A c (show_number A t e n w) = isChecked A c w"
    "isEnabled (desktop A) c (show_number A t e n w) = isEnabled (desktop A) c w"
  using views_liveD(3) [OF assms(1)]
  by (simp_all add: show_number_def SetEditNum_def isChecked_steps [OF views_liveD(1) [OF assms(1)] assms(2)]
      isEnabled_steps [OF views_liveD(1) [OF assms(1)] assms(2)])

lemma edit_enable_steps:
  assumes "form_laws A H" "getHandle e \<in> H" "hBuddy e = NULL" "getHandle c \<in> H"
  shows "text_shown A c (edit_EnableThis A e w) = text_shown A c w" "text_shown A c (edit_DisableThis A e w) = text_shown A c w"
    "isChecked A c (edit_EnableThis A e w) = isChecked A c w" "isChecked A c (edit_DisableThis A e w) = isChecked A c w"
    "isEnabled (desktop A) c (edit_EnableThis A e w) = (if getHandle c = getHandle e then True else isEnabled (desktop A) c w)"
    "isEnabled (desktop A) c (edit_DisableThis A e w) = (if getHandle c = getHandle e then False else isEnabled (desktop A) c w)"
  using look_edit_EnableThis [OF assms(1,2,4,3), of w] by (auto simp: text_shown_def look_reads isEnabled_look)

text \<open>The form after a refresh for a view.\<close>

definition form_shows :: "('w, 'z) dialog_calls_scheme \<Rightarrow> views_tab \<Rightarrow> view \<Rightarrow> 'w \<Rightarrow> bool" where
  "form_shows A t mv w \<longleftrightarrow>
     (\<forall>e. \<exists>n. form_number (desktop A) e mv w = Some n \<and> text_shown A (viewEdit t e) w = number_text n) \<and>
     isChecked A (checkClipped t) w = IsClipped mv \<and>
     isChecked A (checkHideWhenSourceOnTop t) w = HidesWhenSourceOnTop mv \<and>
     isChecked A (checkLockSizeRatio t) w = SizeRatioLocked mv \<and>
     (\<forall>e\<in>set clip_edits. isEnabled (desktop A) (viewEdit t e) w = IsClipped mv)"

text \<open>The switch of the clip boxes, the four of them in turn.\<close>

definition switch_clip :: "('w, 'z) dialog_calls_scheme \<Rightarrow> bool \<Rightarrow> views_tab \<Rightarrow> 'w \<Rightarrow> 'w" where
  "switch_clip A b t w = (if b then fold (\<lambda>e. edit_EnableThis A (viewEdit t e)) clip_edits w
     else fold (\<lambda>e. edit_DisableThis A (viewEdit t e)) clip_edits w)"

lemma switch_clip_keeps:
  assumes "views_live A H t"
  shows "untouched A H obs \<Longrightarrow> obs (switch_clip A b t w) = obs w"
    "getHandle c \<in> H \<Longrightarrow> text_shown A c (switch_clip A b t w) = text_shown A c w"
    "getHandle c \<in> H \<Longrightarrow> isChecked A c (switch_clip A b t w) = isChecked A c w"
    "e \<in> set clip_edits \<Longrightarrow> isEnabled (desktop A) (viewEdit t e) (switch_clip A b t w) = b"
  by (auto simp add: switch_clip_def clip_edits_def edit_enable_untouched views_liveD(3,4,13) [OF assms]
      edit_enable_steps [OF views_liveD(1) [OF assms] views_liveD(3) [OF assms] views_liveD(4) [OF assms]])

lemma show_view_shows:
  assumes live: "views_live A H t" and place: "untouched A H (view_place (desktop A) mv)"
    and run: "show_view A t mv w = Some w'"
  shows "form_shows A t mv w'"
proof -
  let ?W = "desktop A" and ?N = "show_number A t"
  let ?w1 = "?N EditWindowXPos (Left_of ?W mv w) w"
  let ?w2 = "?N EditWindowYPos (Top_of ?W mv ?w1) ?w1"
  obtain width where width: "cliWidth ?W mv ?w2 = Some width" using run by (auto simp: show_view_def Let_def split: bind_splits)
  let ?w3 = "?N EditWindowWidth width ?w2"
  obtain height where height: "cliHeight ?W mv ?w3 = Some height"
    using run by (auto simp: show_view_def Let_def width split: bind_splits)
  let ?w5 = "SetCheck A (IsClipped mv) (checkClipped t) (?N EditWindowHeight height ?w3)"
  let ?r = "GetClipRect mv"
  let ?w6 = "?N EditClipTop (top ?r) (?N EditClipLeft (left ?r) ?w5)"
  let ?w7 = "?N EditClipBottom (bottom ?r) (?N EditClipRight (right ?r) ?w6)"
  have w': "w' = SetCheck A (SizeRatioLocked mv) (checkLockSizeRatio t) (SetCheck A (HidesWhenSourceOnTop mv)
      (checkHideWhenSourceOnTop t) (switch_clip A (IsClipped mv) t ?w7))"
    using run by (simp add: show_view_def Let_def width height switch_clip_def split: if_splits)
  note kept = show_number_untouched [OF live place] untouched_steps [OF place] switch_clip_keeps(1) [OF live place]
  have "view_place ?W mv w' = view_place ?W mv w" "view_place ?W mv ?w1 = view_place ?W mv w"
    "view_place ?W mv ?w2 = view_place ?W mv w" "view_place ?W mv ?w3 = view_place ?W mv w"
    unfolding w' by (simp_all only: kept views_liveD [OF live])
  then have numbers: "Left_of ?W mv w' = Left_of ?W mv w" "Top_of ?W mv w' = Top_of ?W mv ?w1"
      "cliWidth ?W mv w' = Some width" "cliHeight ?W mv w' = Some height"
    using width height by (auto simp: view_place_def)
  have shown: "text_shown A (viewEdit t e) w' = text_shown A (viewEdit t e) ?w7" for e
    unfolding w' by (simp only: text_shown_steps [OF views_liveD(1) [OF live] views_liveD(3) [OF live]]
        switch_clip_keeps(2) [OF live] views_liveD [OF live])
  have "\<exists>n. form_number ?W e mv w' = Some n \<and> text_shown A (viewEdit t e) w' = number_text n" for e
    unfolding shown by (cases e) (simp_all add: numbers text_shown_show_number [OF live] views_liveD [OF live]
        text_shown_steps [OF views_liveD(1) [OF live] views_liveD(3) [OF live]])
  moreover have "isChecked A (checkClipped t) w' = IsClipped mv" "isChecked A (checkLockSizeRatio t) w' = SizeRatioLocked mv"
    "isChecked A (checkHideWhenSourceOnTop t) w' = HidesWhenSourceOnTop mv"
    unfolding w' by (simp_all add: isChecked_steps [OF views_liveD(1) [OF live]] switch_clip_keeps(3) [OF live]
        show_number_flags [OF live] views_liveD [OF live])
  moreover have "isEnabled ?W (viewEdit t e) w' = IsClipped mv" if "e \<in> set clip_edits" for e
    unfolding w' using that by (simp add: isEnabled_steps [OF views_liveD(1) [OF live] views_liveD(3) [OF live]]
        switch_clip_keeps(4) [OF live] views_liveD [OF live])
  ultimately show ?thesis unfolding form_shows_def by blast
qed

text \<open>The form without a view.\<close>

definition form_cleared :: "('w, 'z) dialog_calls_scheme \<Rightarrow> views_tab \<Rightarrow> 'w \<Rightarrow> bool" where
  "form_cleared A t w \<longleftrightarrow>
     (\<forall>e. text_shown A (viewEdit t e) w = (Some [], 0) \<and> \<not> isEnabled (desktop A) (viewEdit t e) w) \<and>
     (\<forall>c\<in>{checkClipped t, checkHideWhenSourceOnTop t, checkLockSizeRatio t}. \<not> isChecked A c w \<and> \<not> isEnabled (desktop A) c w) \<and>
     (\<forall>c\<in>{buttonMatchSourcePos t, buttonMatchSourceSize t, buttonSetClip t}. \<not> isEnabled (desktop A) c w)"

lemma for_form_disables:
  assumes "views_live A H t"
  shows "\<not> isEnabled (desktop A) (viewEdit t e) (for_form (DisableThis (desktop A)) (edit_DisableThis A) t w)"
    "c \<in> {checkClipped t, checkHideWhenSourceOnTop t, checkLockSizeRatio t, buttonMatchSourcePos t, buttonMatchSourceSize t,
       buttonSetClip t} \<Longrightarrow> \<not> isEnabled (desktop A) c (for_form (DisableThis (desktop A)) (edit_DisableThis A) t w)"
proof -
  note live = views_liveD [OF assms]
  note steps = isEnabled_steps [OF live(1)] edit_enable_steps [OF live(1) live(3) live(4)]
  show "\<not> isEnabled (desktop A) (viewEdit t e) (for_form (DisableThis (desktop A)) (edit_DisableThis A) t w)"
    by (cases e) (simp_all add: for_form_def window_edits_def clip_edits_def Let_def steps live)
  show "c \<in> {checkClipped t, checkHideWhenSourceOnTop t, checkLockSizeRatio t, buttonMatchSourcePos t, buttonMatchSourceSize t,
       buttonSetClip t} \<Longrightarrow> \<not> isEnabled (desktop A) c (for_form (DisableThis (desktop A)) (edit_DisableThis A) t w)"
    by (elim insertE emptyE) (simp_all add: for_form_def window_edits_def clip_edits_def Let_def steps live)
qed

lemma DisableEditing_clears:
  assumes "views_live A H t"
  shows "form_cleared A t (DisableEditing A t w)"
proof -
  note live = views_liveD [OF assms]
  let ?v = "for_form (DisableThis (desktop A)) (edit_DisableThis A) t w" and ?w = "DisableEditing A t w"
  have kept: "isEnabled (desktop A) c ?w = isEnabled (desktop A) c ?v" if "getHandle c \<in> H" for c :: "'c item_scheme"
    using that by (simp add: DisableEditing_def clear_texts_def window_edits_def clip_edits_def Let_def isEnabled_steps [OF live(1)] live)
  have shown: "text_shown A (viewEdit t e) ?w = (Some [], 0)" for e
    by (cases e) (simp_all add: DisableEditing_def clear_texts_def window_edits_def clip_edits_def Let_def
        text_shown_steps [OF live(1) live(3)] live)
  have checks: "\<not> isChecked A c ?w" if "c \<in> {checkClipped t, checkHideWhenSourceOnTop t, checkLockSizeRatio t}" for c
    using that by (elim insertE emptyE) (simp_all add: DisableEditing_def clear_texts_def window_edits_def clip_edits_def Let_def
        isChecked_steps [OF live(1)] live)
  show ?thesis
    using shown checks for_form_disables [OF assms, of _ w] by (auto simp: form_cleared_def kept live)
qed

text \<open>The members that a refresh changes are not part of the form.\<close>

lemma form_of_tab:
  "views_live A H (t\<lparr>currTreeItems := is, currMiniView := i\<rparr>) = views_live A H t"
  "views_live A H (t\<lparr>currTreeItems := is\<rparr>) = views_live A H t"
  "views_live A H (t\<lparr>currMiniView := i\<rparr>) = views_live A H t"
  "tab_view (t\<lparr>currTreeItems := is, currMiniView := i\<rparr>) = tab_view t" "tab_view (t\<lparr>currTreeItems := is\<rparr>) = tab_view t"
  "tab_view (t\<lparr>currMiniView := i\<rparr>) = tab_view t"
  by (simp_all add: views_live_def getHandle_def tab_view_def fun_eq_iff split: option.split)

lemma rebuild_tree_result:
  assumes "rebuild_tree A t a w = Some (t', w')"
  obtains items where "t' = t\<lparr>currTreeItems := items, currMiniView := currMiniView t'\<rparr>"
    "map (snd \<circ> snd) items = map fst (currMiniViews a)"
    "currMiniView t' = (if currMiniView t \<in> Some ` fst ` set (currMiniViews a) then currMiniView t
       else case currMiniViews a of [] \<Rightarrow> None | v # vs \<Rightarrow> Some (fst v))"
proof -
  have added: "map (snd \<circ> snd) items = map fst vs" if "add_tree_items A c i vs w = Some (items, w2)" for c i vs w items w2
    using that by (induction A c i vs w arbitrary: items w2 rule: add_tree_items.induct)
      (auto split: bind_splits prod.splits)
  obtain w1 items w2 where items: "add_tree_items A (treeMiniViews t) 0 (currMiniViews a) w1 = Some (items, w2)"
    and t': "t' = (if \<exists>v\<in>set (currMiniViews a). currMiniView t = Some (fst v) then t\<lparr>currTreeItems := items\<rparr>
      else t\<lparr>currTreeItems := items, currMiniView := (case currMiniViews a of [] \<Rightarrow> None | v # vs \<Rightarrow> Some (fst v))\<rparr>)"
    using assms by (auto simp: rebuild_tree_def Let_def split: bind_splits)
  show thesis
    by (rule that [OF _ added [OF items]]) (auto simp: t' image_iff)
qed

lemma refresh_tab:
  assumes "views_RefreshWindow A b1 b2 t a w = Some (t', w')"
  obtains items w1 where "t' = t\<lparr>currTreeItems := items, currMiniView := currMiniView t'\<rparr>"
    "b1 \<Longrightarrow> rebuild_tree A t a w = Some (t', w1)" "\<not> b1 \<Longrightarrow> currMiniView t' = currMiniView t"
    "(case currMiniView t' of None \<Rightarrow> Some (t', DisableEditing A t' w1)
      | Some i \<Rightarrow> do { mv \<leftarrow> tab_view t' a i; w2 \<leftarrow> show_view A t' mv (EnableEditing A t' w1); Some (t', w2) }) = Some (t', w')"
proof -
  obtain t1 w1 where r: "(if b1 then rebuild_tree A t a w
      else if b2 then map_option (\<lambda>(items, w1). (t\<lparr>currTreeItems := items\<rparr>, w1)) (refresh_names A t a (currTreeItems t) w)
      else Some (t, w)) = Some (t1, w1)"
    and f: "(case currMiniView t1 of None \<Rightarrow> Some (t1, DisableEditing A t1 w1)
      | Some i \<Rightarrow> do { mv \<leftarrow> tab_view t1 a i; w2 \<leftarrow> show_view A t1 mv (EnableEditing A t1 w1); Some (t1, w2) }) = Some (t', w')"
    using assms by (auto simp: views_RefreshWindow_def split: bind_splits)
  have t1: "t1 = t'" using f by (auto split: option.splits bind_splits)
  show thesis
  proof (cases b1)
    case True
    with r have "rebuild_tree A t a w = Some (t', w1)" by (simp add: t1)
    then show thesis using True f t1 that by (metis rebuild_tree_result)
  next
    case False
    then obtain items where "t' = t\<lparr>currTreeItems := items\<rparr>" using r t1 that by (cases t) (auto split: if_splits)
    then have "t' = t\<lparr>currTreeItems := items, currMiniView := currMiniView t'\<rparr>" "currMiniView t' = currMiniView t" by simp_all
    then show thesis using False f t1 that by metis
  qed
qed

lemma refresh_form:
  assumes "views_live A H t" "\<And>mv. untouched A H (view_place (desktop A) mv)"
    "views_RefreshWindow A rebuildTree refreshNames t a w = Some (t', w')"
  shows "(case currMiniView t' of None \<Rightarrow> form_cleared A t' w'
     | Some i \<Rightarrow> \<exists>mv. tab_view t' a i = Some mv \<and> form_shows A t' mv w')"
proof -
  obtain items w1 where t': "t' = t\<lparr>currTreeItems := items, currMiniView := currMiniView t'\<rparr>"
    and f: "(case currMiniView t' of None \<Rightarrow> Some (t', DisableEditing A t' w1)
      | Some i \<Rightarrow> do { mv \<leftarrow> tab_view t' a i; w2 \<leftarrow> show_view A t' mv (EnableEditing A t' w1); Some (t', w2) }) = Some (t', w')"
    using assms(3) by (rule refresh_tab)
  have live: "views_live A H t'" by (subst t') (simp only: form_of_tab assms(1))
  show ?thesis
    using f show_view_shows [OF live assms(2)] DisableEditing_clears [OF live, of w1]
    by (auto split: option.splits bind_splits)
qed

lemma refresh_selection:
  assumes "views_RefreshWindow A False b2 t a w = Some (t', w')"
  shows "currMiniView t' = currMiniView t"
  using assms by (rule refresh_tab) simp

text \<open>
  Property C6: after a refresh the form agrees with the selected view: its eight numbers are the place and
  the size of the view's window and the edges of its clip region, the three check boxes are its settings, and
  the clip boxes are enabled exactly for a clipped view; without a view the form is empty and disabled.
\<close>

theorem views_form_agrees:
  assumes "views_live A H t" "\<And>mv. untouched A H (view_place (desktop A) mv)"
    "views_RefreshWindow A rebuildTree refreshNames t a w = Some (t', w')"
  shows "(case currMiniView t' of None \<Rightarrow> form_cleared A t' w'
     | Some i \<Rightarrow> \<exists>mv. tab_view t' a i = Some mv \<and> form_shows A t' mv w')"
  by (rule refresh_form [OF assms])

lemma refresh_tree:
  assumes "views_RefreshWindow A True refreshNames t a w = Some (t', w')"
  shows "map (snd \<circ> snd) (currTreeItems t') = map fst (currMiniViews a) \<and>
    currMiniView t' = (if currMiniView t \<in> Some ` fst ` set (currMiniViews a) then currMiniView t
       else case currMiniViews a of [] \<Rightarrow> None | v # vs \<Rightarrow> Some (fst v)) \<and>
    (currMiniView t' = None \<longleftrightarrow> currMiniViews a = [])"
proof -
  obtain w1 where "rebuild_tree A t a w = Some (t', w1)" using assms by (rule refresh_tab) simp
  then obtain items where t': "t' = t\<lparr>currTreeItems := items, currMiniView := currMiniView t'\<rparr>"
    and items: "map (snd \<circ> snd) items = map fst (currMiniViews a)"
    and curr: "currMiniView t' = (if currMiniView t \<in> Some ` fst ` set (currMiniViews a) then currMiniView t
       else case currMiniViews a of [] \<Rightarrow> None | v # vs \<Rightarrow> Some (fst v))"
    by (rule rebuild_tree_result)
  have "currTreeItems t' = items" by (subst t') simp
  with items curr show ?thesis by (auto split: list.splits)
qed

text \<open>
  Property: rebuilding the tree gives one item for each view, in the order of the list of the
  views; a view that is still in the list stays selected, otherwise the first one is, and none is
  selected exactly when there is none.
\<close>

theorem tree_lists_views:
  assumes "views_RefreshWindow A True refreshNames t a w = Some (t', w')"
  shows "map (snd \<circ> snd) (currTreeItems t') = map fst (currMiniViews a) \<and>
    currMiniView t' = (if currMiniView t \<in> Some ` fst ` set (currMiniViews a) then currMiniView t
       else case currMiniViews a of [] \<Rightarrow> None | v # vs \<Rightarrow> Some (fst v)) \<and>
    (currMiniView t' = None \<longleftrightarrow> currMiniViews a = [])"
  by (rule refresh_tree [OF assms])

text \<open>What a number typed in a clip box does to the view.\<close>

definition clip_range :: "views_edit \<Rightarrow> rect \<Rightarrow> int \<times> int" where
  "clip_range e s = (if e \<in> {EditClipLeft, EditClipRight} then (left s, right s) else (top s, bottom s))"

lemma adjust_clip:
  assumes "e \<in> set clip_edits" "GetClientRect W (hSource mv) w = Some s"
  obtains mv' where "adjust_view W e n mv w = Some (mv', w)" "requests mv' = requests mv"
    "form_number W e mv' w = Some (clamp_to (fst (clip_range e s)) (snd (clip_range e s)) n)"
    "\<And>d. d \<in> set clip_edits \<Longrightarrow> d \<noteq> e \<Longrightarrow> form_number W d mv' w = form_number W d mv w"
proof -
  obtain mv' where mv': "adjust_view W e n mv w = Some (mv', w)"
    using assms(1) by (auto simp: clip_edits_def)
  show thesis
    by (rule that [OF mv'])
      (use assms mv' in \<open>auto simp: clip_edits_def AdjustClipLeft_def AdjustClipTop_def AdjustClipRight_def
         AdjustClipBottom_def clip_range_def ClearFixRatioCache_def GetClipRect_def Let_def\<close>)
qed

lemma view_at_put_view:
  assumes "view_at i a = Some mv"
  shows "view_at i (put_view i mv' a) = Some mv'"
proof -
  have "map_of (map (\<lambda>(j, u). if j = i then (j, mv') else (j, u)) vs) i = Some mv'" if "map_of vs i = Some mv" for vs
    using that by (induction vs) (auto split: if_splits)
  with assms show ?thesis by (simp add: view_at_def put_view_def)
qed

lemma find_edit: "e \<in> set clip_edits \<Longrightarrow> find (\<lambda>d. edit_id d = edit_id e) (window_edits @ clip_edits) = Some e"
  by (auto simp: clip_edits_def window_edits_def ID_FIRST_def)

lemma after_view_quiet:
  assumes "view_at j a = Some mv" "requests mv1 = []" "after_view A j (mv1, w1) t a = Some (t', a', w')"
  shows "a' = put_view j (mv1\<lparr>requests := []\<rparr>) a" "views_RefreshWindow A False False t a' w1 = Some (t', w')"
  using assms by (auto simp: after_view_def put_tab_view_def split: bind_splits)

text \<open>
  Property C15: when a clip box loses the focus, the number typed in it, brought into the client area of
  the source, becomes that edge of the view's clip region, while the other edges stay; text that is
  not a number changes nothing. Either way the box then shows the edge the view has.
\<close>

theorem typed_clip_edge:
  assumes "views_live A H t" "\<And>mv. untouched A H (view_place (desktop A) mv)"
    "e \<in> set clip_edits" "currMiniView t = Some j" "view_at j a = Some mv" "GetClientRect (desktop A) (hSource mv) w = Some s"
    "views_NotifyEditFocusLost A (edit_id e) t a w = Some (t', a', w')"
  shows "\<exists>mv' n. view_at j a' = Some mv' \<and>
    (case GetEditNum A (viewEdit t e) w :: u32 option of
       Some num \<Rightarrow> n = clamp_to (fst (clip_range e s)) (snd (clip_range e s)) (sint num)
     | None \<Rightarrow> form_number (desktop A) e mv w = Some n) \<and>
    form_number (desktop A) e mv' w' = Some n \<and> text_shown A (viewEdit t' e) w' = number_text n \<and>
    (\<forall>d\<in>set clip_edits - {e}. form_number (desktop A) d mv' w' = form_number (desktop A) d mv w)"
proof -
  let ?mv = "mv\<lparr>requests := []\<rparr>" and ?num = "GetEditNum A (viewEdit t e) w :: u32 option"
  have still: "form_number (desktop A) d m v = form_number (desktop A) d m w" if "d \<in> set clip_edits" for d m v
    using that by (auto simp: clip_edits_def)
  have plain: "form_number (desktop A) d (m\<lparr>requests := rs\<rparr>) w = form_number (desktop A) d m w" if "d \<in> set clip_edits" for d m rs
    using that by (auto simp: clip_edits_def GetClipRect_def)
  have "tab_view t a j = Some mv" using assms(5) by (simp add: tab_view_def)
  then obtain r where r: "(case ?num of Some num \<Rightarrow> adjust_view (desktop A) e (sint num) ?mv w | None \<Rightarrow> Some (?mv, w)) = Some r"
    and after: "after_view A j r t a = Some (t', a', w')"
    using assms(7) by (auto simp: views_NotifyEditFocusLost_def assms(4) find_edit [OF assms(3)] split: bind_splits)
  have "\<exists>mv1. r = (mv1, w) \<and> requests mv1 = [] \<and>
      (\<forall>d\<in>set clip_edits. form_number (desktop A) d mv1 w =
        (case ?num of Some num \<Rightarrow> if d = e then Some (clamp_to (fst (clip_range e s)) (snd (clip_range e s)) (sint num))
           else form_number (desktop A) d mv w | None \<Rightarrow> form_number (desktop A) d mv w))"
  proof (cases ?num)
    case None
    with r show ?thesis by (auto simp: plain)
  next
    case (Some num)
    have "GetClientRect (desktop A) (hSource ?mv) w = Some s" using assms(6) by simp
    from adjust_clip [OF assms(3) this, of "sint num"] obtain mv1 where
      "adjust_view (desktop A) e (sint num) ?mv w = Some (mv1, w)" "requests mv1 = requests ?mv"
      "form_number (desktop A) e mv1 w = Some (clamp_to (fst (clip_range e s)) (snd (clip_range e s)) (sint num))"
      "\<And>d. d \<in> set clip_edits \<Longrightarrow> d \<noteq> e \<Longrightarrow> form_number (desktop A) d mv1 w = form_number (desktop A) d ?mv w" by metis
    with r Some show ?thesis by (auto simp: plain)
  qed
  then obtain mv1 where mv1: "r = (mv1, w)" "requests mv1 = []" and
    edges: "\<And>d. d \<in> set clip_edits \<Longrightarrow> form_number (desktop A) d mv1 w =
        (case ?num of Some num \<Rightarrow> if d = e then Some (clamp_to (fst (clip_range e s)) (snd (clip_range e s)) (sint num))
           else form_number (desktop A) d mv w | None \<Rightarrow> form_number (desktop A) d mv w)" by blast
  note quiet = after_view_quiet [OF assms(5) mv1(2) after [unfolded mv1(1)]]
  let ?mv' = "mv1\<lparr>requests := []\<rparr>"
  have at: "view_at j a' = Some ?mv'" unfolding quiet(1) by (rule view_at_put_view [OF assms(5)])
  have "tab_view t' a' j = Some mv0 \<Longrightarrow> mv0 = ?mv'" for mv0 using at by (simp add: tab_view_def)
  with refresh_form [OF assms(1,2) quiet(2)] refresh_selection [OF quiet(2)] have "form_shows A t' ?mv' w'"
    by (auto simp: assms(4))
  then obtain n where n: "form_number (desktop A) e ?mv' w' = Some n" "text_shown A (viewEdit t' e) w' = number_text n"
    unfolding form_shows_def by blast
  have now: "form_number (desktop A) d ?mv' w' = form_number (desktop A) d mv1 w" if "d \<in> set clip_edits" for d
    using still [OF that, of ?mv' w'] by (simp add: plain [OF that])
  have "case ?num of Some num \<Rightarrow> n = clamp_to (fst (clip_range e s)) (snd (clip_range e s)) (sint num)
     | None \<Rightarrow> form_number (desktop A) e mv w = Some n"
    using n(1) now [OF assms(3)] edges [OF assms(3)] by (cases ?num) auto
  moreover have "\<forall>d\<in>set clip_edits - {e}. form_number (desktop A) d ?mv' w' = form_number (desktop A) d mv w"
    using now edges by (cases ?num) auto
  ultimately show ?thesis using at n by blast
qed

section \<open>Examples\<close>

text \<open>A refresh returns when the size of the view's window is defined.\<close>

lemma show_view_returns:
  assumes live: "views_live A H t" and place: "untouched A H (view_place (desktop A) mv)"
    and sizes: "cliWidth (desktop A) mv w \<noteq> None" "cliHeight (desktop A) mv w \<noteq> None"
  shows "\<exists>w'. show_view A t mv w = Some w'"
proof -
  let ?W = "desktop A" and ?N = "show_number A t"
  let ?w1 = "?N EditWindowXPos (Left_of ?W mv w) w"
  let ?w2 = "?N EditWindowYPos (Top_of ?W mv ?w1) ?w1"
  note kept = show_number_untouched [OF live place]
  have "view_place ?W mv ?w2 = view_place ?W mv w" by (simp only: kept)
  then obtain x where x: "cliWidth ?W mv ?w2 = Some x" using sizes(1) by (auto simp: view_place_def)
  have "view_place ?W mv (?N EditWindowWidth x ?w2) = view_place ?W mv w" by (simp only: kept)
  then obtain y where "cliHeight ?W mv (?N EditWindowWidth x ?w2) = Some y" using sizes(2) by (auto simp: view_place_def)
  with x show ?thesis by (simp add: show_view_def Let_def)
qed

lemma refresh_returns:
  assumes "views_live A H t" "untouched A H (view_place (desktop A) mv)" "currMiniView t = Some j" "tab_view t a j = Some mv"
    "cliWidth (desktop A) mv w \<noteq> None" "cliHeight (desktop A) mv w \<noteq> None"
  shows "\<exists>w'. views_RefreshWindow A False False t a w = Some (t, w')"
proof -
  have "view_place (desktop A) mv (EnableEditing A t w) = view_place (desktop A) mv w"
    by (rule EnableEditing_untouched [OF assms(1,2)])
  with assms(5,6) obtain w' where "show_view A t mv (EnableEditing A t w) = Some w'"
    using show_view_returns [OF assms(1,2), of "EnableEditing A t w"] by (auto simp: view_place_def)
  with assms(3,4) show ?thesis by (simp add: views_RefreshWindow_def)
qed

definition example_views :: views_tab where
  "example_views = new_views_tab\<lparr>viewEdit := (\<lambda>e. setHandle (nat (edit_id e)) new_edit),
     checkClipped := setHandle (nat CheckClipped) new_control, checkLockSizeRatio := setHandle (nat CheckLockSizeRatio) new_control,
     checkHideWhenSourceOnTop := setHandle (nat CheckHideWhenSourceOnTop) new_control, currMiniView := Some 0\<rparr>"

lemma example_views_live: "views_live desk_calls UNIV example_views"
proof -
  have "nat (edit_id e) = nat (edit_id d) \<Longrightarrow> e = d" for e d by (cases e; cases d; simp add: ID_FIRST_def)
  then show ?thesis
    by (auto simp add: views_live_def desk_form_laws example_views_def new_views_tab_def item.defs getHandle_def setHandle_def
        new_edit_def CheckClipped_def CheckLockSizeRatio_def CheckHideWhenSourceOnTop_def ID_FIRST_def)
qed

lemma desk_place_untouched: "untouched desk_calls UNIV (view_place (desktop desk_calls) mv)"
  by (simp add: untouched_def view_place_def Left_of_def Top_of_def parent_rect_def cliWidth_def cliHeight_def desk_calls_defs
      update_window_def desk_parent_def client_origin_def Let_def)

lemma example_place:
  assumes "getHandle mv = 40" "deskWindows w 40 = deskWindows (typed_level 0) 40"
  shows "cliWidth (desktop desk_calls) mv w = Some 200" "cliHeight (desktop desk_calls) mv w = Some 100"
  using assms(2) by (simp_all add: cliWidth_def cliHeight_def assms(1) desk_calls_defs desk_client_def typed_level_def
      example_desk_def rect_width_def rect_height_def sub32_def chk32_def in_s32_iff)

lemma example_views_refresh:
  assumes "view_at 0 a = Some mv" "getHandle mv = 40" "deskWindows w 40 = deskWindows (typed_level 0) 40"
    "t = example_views\<lparr>currTreeItems := is\<rparr>"
  shows "\<exists>w'. views_RefreshWindow desk_calls False False t a w = Some (t, w')"
proof (rule refresh_returns [OF _ desk_place_untouched])
  show "views_live desk_calls UNIV t" unfolding assms(4) form_of_tab by (rule example_views_live)
  show "currMiniView t = Some 0" by (simp add: assms(4) example_views_def)
  show "tab_view t a 0 = Some mv" by (simp add: tab_view_def assms(1))
qed (simp_all add: example_place [OF assms(2,3)])

lemma example_view_at: "view_at 0 example_app = Some example_view" "getHandle example_view = 40"
  by (simp_all add: view_at_def example_app_def example_view_def getHandle_def)

lemma example_selection:
  "currMiniView example_views = Some 0" "\<exists>v\<in>set (currMiniViews example_app). fst v = 0" "map fst (currMiniViews example_app) = [0, 1]"
  "0 \<in> fst ` set (currMiniViews example_app)"
  by (simp_all add: example_views_def example_app_def)

lemma typed_windows: "deskWindows (typed_level n) 40 = deskWindows (typed_level 0) 40"
  by (simp add: typed_level_def)

lemma views_form_agrees_witness:
  "\<exists>w' mv. views_RefreshWindow desk_calls False False example_views example_app (typed_level 7) = Some (example_views, w') \<and>
     tab_view example_views example_app 0 = Some mv \<and> form_shows desk_calls example_views mv w'"
proof -
  obtain w' where w': "views_RefreshWindow desk_calls False False example_views example_app (typed_level 7) = Some (example_views, w')"
    using example_views_refresh [OF example_view_at typed_windows, of example_views "currTreeItems example_views"] by auto
  from views_form_agrees [OF example_views_live desk_place_untouched this] this show ?thesis
    by (auto simp: example_selection)
qed

lemma desk_tree_items:
  "\<exists>items w'. add_tree_items desk_calls c i vs w = Some (items, w') \<and> deskWindows w' = deskWindows w"
proof (induction vs arbitrary: i w)
  case (Cons v vs)
  obtain j mv where v: "v = (j, mv)" by (cases v)
  obtain title where title: "GetWinText desk_calls mv w = Some title" by (cases "lookLength (look_of desk_calls (getHandle mv) w) = 0") (auto simp: look_reads(3) desk_looks)
  obtain item w1 where item: "InsertTreeItem desk_calls NULL title i c w = (item, w1)" by fastforce
  then have "deskWindows w1 = deskWindows w" by (auto simp: InsertTreeItem_def InsertParent_def desk_calls_defs Let_def)
  with Cons.IH [of "i + 1" w1] show ?case by (auto simp: v title item)
qed simp

lemma example_rebuild:
  assumes "view_at 0 a = Some mv" "getHandle mv = 40" "deskWindows w 40 = deskWindows (typed_level 0) 40" "deskTree w = (\<lambda>i. [])"
  shows "\<exists>items w'. views_RefreshWindow desk_calls True b example_views a w = Some (example_views\<lparr>currTreeItems := items\<rparr>, w')"
proof -
  let ?c = "treeMiniViews example_views"
  have empty: "EmptySubTree desk_calls NULL ?c (item_SetRedraw desk_calls False ?c w) = Some (item_SetRedraw desk_calls False ?c w)"
    by (subst EmptySubTree.simps) (simp add: Let_def desk_calls_defs desk_children_def item_SetRedraw_def assms(4))
  obtain items w1 where items: "add_tree_items desk_calls ?c 0 (currMiniViews a) (item_SetRedraw desk_calls False ?c w) =
      Some (items, w1)" "deskWindows w1 = deskWindows (item_SetRedraw desk_calls False ?c w)" using desk_tree_items by blast
  let ?t = "example_views\<lparr>currTreeItems := items\<rparr>" and ?w1 = "item_SetRedraw desk_calls True ?c w1"
  have "\<exists>v\<in>set (currMiniViews a). fst v = 0" using assms(1) by (force simp: view_at_def dest: map_of_SomeD)
  then have "rebuild_tree desk_calls example_views a w = Some (?t, ?w1)"
    by (auto simp: rebuild_tree_def Let_def empty items(1) example_selection(1))
  moreover have "deskWindows ?w1 40 = deskWindows (typed_level 0) 40"
    using items(2) assms(3) by (simp add: item_SetRedraw_def desk_calls_defs)
  then obtain w' where "views_RefreshWindow desk_calls False False ?t a ?w1 = Some (?t, w')"
    using example_views_refresh [OF assms(1,2), of ?w1 ?t items] by auto
  ultimately show ?thesis by (auto simp: views_RefreshWindow_def)
qed

lemma tree_lists_views_witness:
  "\<exists>t' w'. views_RefreshWindow desk_calls True False example_views example_app (typed_level 7) = Some (t', w') \<and>
     map (snd \<circ> snd) (currTreeItems t') = [0, 1] \<and> currMiniView t' = Some 0"
proof -
  have "deskTree (typed_level 7) = (\<lambda>i. [])" by (simp add: typed_level_def example_desk_def)
  then obtain items w' where run: "views_RefreshWindow desk_calls True False example_views example_app (typed_level 7) =
      Some (example_views\<lparr>currTreeItems := items\<rparr>, w')" using example_rebuild [OF example_view_at typed_windows] by blast
  show ?thesis
    by (rule exI, rule exI, rule conjI [OF run]) (use tree_lists_views [OF run] in \<open>simp add: example_selection\<close>)
qed

lemma typed_clip_edge_witness:
  "\<exists>a' w' mv'. views_NotifyEditFocusLost desk_calls (edit_id EditClipRight) example_views example_app (typed_level 5000) =
       Some (example_views, a', w') \<and> view_at 0 a' = Some mv' \<and> right (GetClipRect mv') = 600 \<and>
     text_shown desk_calls (viewEdit example_views EditClipRight) w' = number_text 600"
proof -
  let ?w = "typed_level 5000" and ?mv = "example_view\<lparr>requests := []\<rparr>" and ?e = "viewEdit example_views EditClipRight"
  let ?s = "\<lparr>left = 0, top = 0, right = 600, bottom = 400\<rparr>"
  let ?mv1 = "AdjustClipRight (desktop desk_calls) 5000 ?mv ?w"
  let ?a = "put_view 0 (?mv1\<lparr>requests := []\<rparr>) example_app"
  have num: "GetEditNum desk_calls ?e ?w = Some (5000 :: u32)" using typed_level_read(2) [of 5000 ?e] by (simp add: in_s32_def)
  have source: "GetClientRect (desktop desk_calls) (hSource example_view) ?w = Some ?s"
    by (simp add: desk_calls_defs desk_client_def typed_level_def example_desk_def view_evals)
  have edge: "getHandle (?mv1\<lparr>requests := []\<rparr>) = 40" "requests ?mv1 = []" "sint (5000 :: u32) = 5000"
    using source by (simp_all add: AdjustClipRight_def ClearFixRatioCache_def Let_def example_view_def getHandle_def)
  note at = example_view_at(1)
  have find: "find (\<lambda>d. edit_id d = edit_id EditClipRight) (window_edits @ clip_edits) = Some EditClipRight"
    by (rule find_edit) (simp add: clip_edits_def)
  obtain w' where "views_RefreshWindow desk_calls False False example_views ?a ?w = Some (example_views, w')"
    using example_views_refresh [OF view_at_put_view [OF at] edge(1) typed_windows, of example_views "currTreeItems example_views"] by auto
  then have run: "views_NotifyEditFocusLost desk_calls (edit_id EditClipRight) example_views example_app ?w = Some (example_views, ?a, w')"
    using edge find by (simp add: views_NotifyEditFocusLost_def tab_view_def at num after_view_def put_tab_view_def example_selection
        del: edit_id.simps)
  show ?thesis
    using typed_clip_edge [OF example_views_live desk_place_untouched _ _ at source run] run num edge(3)
    by (auto simp: clip_edits_def clip_range_def clamp_to_def example_selection)
qed

end
