(* ===== verification/Main_Dialog.thy ===== *)
theory Main_Dialog
  imports Views_Tab
begin

text \<open>
  \<open>MiniViewsLib/MainDialog/MainDialog\<close> and \<open>AboutTab\<close>: the dialog with its four tabs, over the tabs of
  \<open>General_Tab\<close>, \<open>Views_Tab\<close> and \<open>Advanced_Tab\<close>. A \<open>session\<close> is the program with its dialog: the dialog, the
  program, the preferences with the registry, the cache of resources, and the desktop. \<open>None\<close> is
  undefined arithmetic, an exception, or a loop of a tab that does not end.
\<close>

unbundle bit_operations_syntax

section \<open>The about tab\<close>

record about = item +
  buttonWebsite :: control
  buttonManual :: control

definition new_about :: about where
  "new_about = item.extend new_item \<lparr>buttonWebsite = new_control, buttonManual = new_control\<rparr>"

definition ButtonWebsite :: int where "ButtonWebsite = 0"
definition ButtonManual :: int where "ButtonManual = 1"

definition about_CreateSubWindows ::
    "('w, 'z) dialog_calls_scheme \<Rightarrow> string \<Rightarrow> string \<Rightarrow> int \<Rightarrow> handle \<Rightarrow> about \<Rightarrow> 'w \<Rightarrow> (about \<times> 'w) option" where
  "about_CreateSubWindows A date time dpi font t w =
     (let W = desktop A; S = (\<lambda>n. DpiScale A n dpi); h = getHandle t; w1 = setFont A font False t w; padding = S 5;
          (_, b1, w2) = button_CreateThis A h 0 (S 5) (S 100) (S 23) ''Website'' (nat ButtonWebsite) False (buttonWebsite t) w1
      in do {
        y2 \<leftarrow> add32 (Bottom_of W b1 w2) padding;
        let (_, b2, w3) = button_CreateThis A h 0 y2 (S 100) (S 23) ''Manual'' (nat ButtonManual) False (buttonManual t) w2;
        n \<leftarrow> cliHeight W t w3; y3 \<leftarrow> sub32 n (S 30); m \<leftarrow> cliWidth W t w3; width3 \<leftarrow> sub32 m (S 10);
        let (_, c, w4) = text_CreateThis A h (S 5) y3 width3 (S 20) ''All rights reserved (c) 2016 Justin Forsberg.'' 0 new_control w3;
        y4 \<leftarrow> sub32 (Top_of W c w4) (S 25); m4 \<leftarrow> cliWidth W t w4; width4 \<leftarrow> sub32 m4 (S 10);
        version \<leftarrow> (case GetFullVersionString date time of Inr v \<Rightarrow> Some v | Inl e \<Rightarrow> None);
        let (_, _, w5) = text_CreateThis A h (S 5) y4 width4 (S 20) (''Full Version ID: '' @ version) 0 new_control w4;
        Some (t\<lparr>buttonWebsite := b1, buttonManual := b2\<rparr>, w5) })"

definition about_CreateThis ::
    "('w, 'z) dialog_calls_scheme \<Rightarrow> string \<Rightarrow> string \<Rightarrow> hwnd \<Rightarrow> int \<Rightarrow> handle \<Rightarrow> about \<Rightarrow> app \<Rightarrow> 'w \<Rightarrow>
     (bool \<times> about \<times> app \<times> 'w) option" where
  "about_CreateThis A date time parent dpi font t a w =
     (if getHandle t \<noteq> NULL then (let (ok, w1) = SetParent A parent t w in Some (ok, t, a, w1))
      else do {
        (ok, registered, t1, w1) \<leftarrow> tab_window A ''AboutWindow'' ''About Tab'' parent dpi (registeredClasses a) t w;
        let a1 = a\<lparr>registeredClasses := registered\<rparr>;
        if ok then map_option (\<lambda>(t2, w2). (True, t2, a1, w2)) (about_CreateSubWindows A date time dpi font t1 w1)
        else Some (False, t1, a1, w1) })"

definition about_DestroyThis :: "('w, 'z) dialog_calls_scheme \<Rightarrow> about \<Rightarrow> 'w \<Rightarrow> bool \<times> about \<times> 'w" where
  "about_DestroyThis A t w = (let (t1, w1) = DestroyThis (desktop A) t w in (True, t1, w1))"

definition about_NotifyButtonClicked :: "('w, 'z) dialog_calls_scheme \<Rightarrow> int \<Rightarrow> 'w \<Rightarrow> 'w" where
  "about_NotifyButtonClicked A idFrom w =
     (if idFrom = ButtonWebsite then ShellExecute A ''open'' ''https://github.com/TheNitesWhoSay/MiniViews'' w
      else if idFrom = ButtonManual then
        ShellExecute A ''open'' ''https://github.com/TheNitesWhoSay/MiniViews/blob/master/README.md'' w
      else w)"

section \<open>State\<close>

text \<open>The tab of the dialog, a \<open>u32\<close> that \<open>TabSelChange\<close> takes from the control unchecked.\<close>

type_synonym tab_id = u32

abbreviation (input) GeneralTab :: tab_id where "GeneralTab \<equiv> 0"
abbreviation (input) ViewsTab :: tab_id where "ViewsTab \<equiv> 1"
abbreviation (input) AdvancedTab :: tab_id where "AdvancedTab \<equiv> 2"
abbreviation (input) AboutTab :: tab_id where "AboutTab \<equiv> 3"

definition GeneralWindow :: int where "GeneralWindow = ID_FIRST"
definition ViewsWindow :: int where "ViewsWindow = ID_FIRST + 1"
definition AdvancedWindow :: int where "AdvancedWindow = ID_FIRST + 2"
definition AboutWindow :: int where "AboutWindow = ID_FIRST + 3"
definition MainDialogTabs :: int where "MainDialogTabs = ID_FIRST + 4"

record main_dialog = item +
  tabs :: control
  dialogDpi :: int
  windowLeft :: int
  windowTop :: int
  selectedTab :: tab_id
  defaultFont :: handle
  generalWindow :: general
  viewsWindow :: views_tab
  advancedWindow :: advanced
  aboutWindow :: about

record ('r, 'w) session =
  mainDialog :: main_dialog
  program :: app
  preferencesOf :: preferences
  registryOf :: 'r
  resourcesOf :: resources
  desktopState :: 'w

text \<open>The font of the dialog at a resolution, and its icons.\<close>

definition dialog_font :: "('w, 'z) dialog_calls_scheme \<Rightarrow> int \<Rightarrow> font_info" where
  "dialog_font A dpi = \<lparr>fontWidth = DpiScale A 5 dpi, fontHeight = DpiScale A 14 dpi, fontName = ''Microsoft Sans Serif''\<rparr>"

definition IDI_MINIVIEWSICON :: u16 where "IDI_MINIVIEWSICON = 101"

definition dialog_icon :: "int \<Rightarrow> image_info" where
  "dialog_icon n = \<lparr>resourceId = IDI_MINIVIEWSICON, imageWidth = n, imageHeight = n, fuLoad = 0\<rparr>"

definition new_main_dialog ::
    "('w, 'z) dialog_calls_scheme \<Rightarrow> ('w, 'y) gdi_scheme \<Rightarrow> resources \<Rightarrow> 'w \<Rightarrow> main_dialog \<times> resources \<times> 'w" where
  "new_main_dialog A G R w =
     (let dpi = DpiForSystem A w; (font, R1, w1) = getFont G (dialog_font A dpi) R w
      in (item.extend new_item \<lparr>tabs = new_control, dialogDpi = dpi, windowLeft = 0, windowTop = 0, selectedTab = GeneralTab,
            defaultFont = font, generalWindow = new_general, viewsWindow = new_views_tab, advancedWindow = new_advanced,
            aboutWindow = new_about\<rparr>, R1, w1))"

section \<open>The tabs\<close>

definition refresh_general :: "('w, 'z) dialog_calls_scheme \<Rightarrow> ('r, 'w) session \<Rightarrow> ('r, 'w) session" where
  "refresh_general A s =
     (let (g, a, w) = general_RefreshWindow A (generalWindow (mainDialog s)) (program s) (desktopState s)
      in s\<lparr>mainDialog := (mainDialog s)\<lparr>generalWindow := g\<rparr>, program := a, desktopState := w\<rparr>)"

definition refresh_views ::
    "('w, 'z) dialog_calls_scheme \<Rightarrow> bool \<Rightarrow> bool \<Rightarrow> ('r, 'w) session \<Rightarrow> ('r, 'w) session option" where
  "refresh_views A rebuildTree refreshNames s =
     map_option (\<lambda>(t, w). s\<lparr>mainDialog := (mainDialog s)\<lparr>viewsWindow := t\<rparr>, desktopState := w\<rparr>)
       (views_RefreshWindow A rebuildTree refreshNames (viewsWindow (mainDialog s)) (program s) (desktopState s))"

definition refresh_advanced :: "('w, 'z) dialog_calls_scheme \<Rightarrow> 'r reg_api \<Rightarrow> ('r, 'w) session \<Rightarrow> ('r, 'w) session" where
  "refresh_advanced A Rg s =
     (let (t, p, r, w) = advanced_RefreshWindow A Rg (advancedWindow (mainDialog s)) (preferencesOf s, registryOf s, desktopState s)
      in s\<lparr>mainDialog := (mainDialog s)\<lparr>advancedWindow := t\<rparr>, preferencesOf := p, registryOf := r, desktopState := w\<rparr>)"

text \<open>The switches of \<open>ChangeTab\<close> and \<open>TabSelChange\<close>; the about tab refreshes nothing.\<close>

definition refresh_tab_at ::
    "('w, 'z) dialog_calls_scheme \<Rightarrow> 'r reg_api \<Rightarrow> tab_id \<Rightarrow> ('r, 'w) session \<Rightarrow> ('r, 'w) session option" where
  "refresh_tab_at A Rg tabId s =
     (if tabId = GeneralTab then Some (refresh_general A s)
      else if tabId = ViewsTab then refresh_views A True True s
      else if tabId = AdvancedTab then Some (refresh_advanced A Rg s)
      else Some s)"

definition ChangeTab :: "('w, 'z) dialog_calls_scheme \<Rightarrow> 'r reg_api \<Rightarrow> tab_id \<Rightarrow> ('r, 'w) session \<Rightarrow> ('r, 'w) session option" where
  "ChangeTab A Rg tabId s =
     refresh_tab_at A Rg tabId (s\<lparr>desktopState := snd (SetCurSel A tabId (tabs (mainDialog s)) (desktopState s))\<rparr>)"

definition dialog_RefreshViewsTab ::
    "('w, 'z) dialog_calls_scheme \<Rightarrow> bool \<Rightarrow> bool \<Rightarrow> ('r, 'w) session \<Rightarrow> ('r, 'w) session option" where
  "dialog_RefreshViewsTab A rebuildTree refreshNames s =
     (if getHandle (mainDialog s) \<noteq> NULL \<and> selectedTab (mainDialog s) = ViewsTab then refresh_views A rebuildTree refreshNames s
      else Some s)"

text \<open>The window of a tab, by its control id.\<close>

definition window_of_tab :: "tab_id \<Rightarrow> int option" where
  "window_of_tab tabId =
     (if tabId = GeneralTab then Some GeneralWindow else if tabId = ViewsTab then Some ViewsWindow
      else if tabId = AdvancedTab then Some AdvancedWindow else if tabId = AboutTab then Some AboutWindow else None)"

definition TabSelChange :: "('w, 'z) dialog_calls_scheme \<Rightarrow> 'r reg_api \<Rightarrow> ('r, 'w) session \<Rightarrow> ('r, 'w) session option" where
  "TabSelChange A Rg s =
     (let d = mainDialog s; tabId = GetCurSel A (tabs d) (desktopState s); s1 = s\<lparr>mainDialog := d\<lparr>selectedTab := tabId\<rparr>\<rparr>
      in case window_of_tab tabId of
           None \<Rightarrow> Some s1
         | Some i \<Rightarrow> refresh_tab_at A Rg tabId (s1\<lparr>desktopState := ShowTab A (word_of_int i) (tabs d) (desktopState s)\<rparr>))"

definition TabSelChanging :: "('w, 'z) dialog_calls_scheme \<Rightarrow> ('r, 'w) session \<Rightarrow> ('r, 'w) session" where
  "TabSelChanging A s =
     (let d = mainDialog s; w = desktopState s
      in case window_of_tab (GetCurSel A (tabs d) w) of
           None \<Rightarrow> s | Some i \<Rightarrow> s\<lparr>desktopState := HideTab A (word_of_int i) (tabs d) w\<rparr>)"

section \<open>Positions\<close>

text \<open>The client area of the dialog, then that of the tab control within it when it can be read.\<close>

definition FixPositions :: "('w, 'z) dialog_calls_scheme \<Rightarrow> int \<Rightarrow> main_dialog \<Rightarrow> 'w \<Rightarrow> 'w option" where
  "FixPositions A dpi d w =
     (let W = desktop A; r = or_zero (getClientRect W d w)
      in do {
        width \<leftarrow> rect_width r; height \<leftarrow> rect_height r;
        let w1 = SetPos W (left r) (top r) width height (tabs d) w;
        let r1 = (case getClientRect W (tabs d) w1 of Some x \<Rightarrow> x | None \<Rightarrow> r);
        let xPadding = DpiScale A 5 dpi; let yPadding = DpiScale A 22 dpi;
        x \<leftarrow> add32 (left r1) xPadding; y \<leftarrow> add32 (top r1) yPadding;
        a \<leftarrow> rect_width r1; tabWidth \<leftarrow> sub32 a xPadding; b \<leftarrow> rect_height r1; tabHeight \<leftarrow> sub32 b yPadding;
        let w2 = SetPos W x y tabWidth tabHeight (generalWindow d) w1;
        let w3 = SetPos W x y tabWidth tabHeight (viewsWindow d) w2;
        let w4 = SetPos W x y tabWidth tabHeight (advancedWindow d) w3;
        views_FixPositions A dpi (viewsWindow d) (SetPos W x y tabWidth tabHeight (aboutWindow d) w4) })"

section \<open>Opening and closing\<close>

definition set_icons ::
    "('w, 'z) dialog_calls_scheme \<Rightarrow> ('w, 'y) gdi_scheme \<Rightarrow> ('r, 'w) session \<Rightarrow> ('r, 'w) session" where
  "set_icons A G s =
     (let d = mainDialog s; (i1, R1, w1) = getIcon G (dialog_icon 16) (resourcesOf s) (desktopState s);
          (i2, R2, w2) = getIcon G (dialog_icon 32) R1 (SetSmallIcon A i1 d w1)
      in s\<lparr>resourcesOf := R2, desktopState := SetMedIcon A i2 d w2\<rparr>)"

definition create_tabs :: "('w, 'z) dialog_calls_scheme \<Rightarrow> int \<Rightarrow> ('r, 'w) session \<Rightarrow> ('r, 'w) session" where
  "create_tabs A dpi s =
     (let d = mainDialog s;
          (_, c, w1) = tab_CreateThis A (getHandle d) 0 0 (DpiScale A 263 dpi) (DpiScale A 426 dpi) (nat MainDialogTabs) (tabs d)
            (desktopState s);
          w2 = fold (\<lambda>(i, label) w. snd (InsertTab A i label c w))
            [(0, ''General''), (1, ''Views''), (2, ''Advanced''), (3, ''About'')] w1
      in s\<lparr>mainDialog := d\<lparr>tabs := c\<rparr>, desktopState := w2\<rparr>)"

definition create_tab_windows ::
    "('w, 'z) dialog_calls_scheme \<Rightarrow> 'r reg_api \<Rightarrow> string \<Rightarrow> string \<Rightarrow> int \<Rightarrow> ('r, 'w) session \<Rightarrow> ('r, 'w) session option" where
  "create_tab_windows A Rg date time dpi s =
     (let d = mainDialog s; parent = getHandle (tabs d); font = defaultFont d
      in do {
        (_, g, a1, w1) \<leftarrow> general_CreateThis A parent dpi font (generalWindow d) (program s) (desktopState s);
        (_, v, a2, w2) \<leftarrow> views_CreateThis A parent dpi font (viewsWindow d) a1 w1;
        (_, registered, t, p, r, w3) \<leftarrow>
          advanced_CreateThis A Rg parent dpi font (registeredClasses a2) (advancedWindow d) (preferencesOf s, registryOf s, w2);
        (_, b, a3, w4) \<leftarrow>
          about_CreateThis A date time parent dpi font (aboutWindow d) (a2\<lparr>registeredClasses := registered\<rparr>) w3;
        Some (s\<lparr>mainDialog := d\<lparr>generalWindow := g, viewsWindow := v, advancedWindow := t, aboutWindow := b\<rparr>,
                program := a3, preferencesOf := p, registryOf := r, desktopState := w4\<rparr>) })"

definition show_tab_window :: "('w, 'z) dialog_calls_scheme \<Rightarrow> tab_id \<Rightarrow> main_dialog \<Rightarrow> 'w \<Rightarrow> 'w" where
  "show_tab_window A tabId d w =
     (if tabId = GeneralTab then Show (desktop A) (generalWindow d) w
      else if tabId = ViewsTab then Show (desktop A) (viewsWindow d) w
      else if tabId = AdvancedTab then Show (desktop A) (advancedWindow d) w
      else if tabId = AboutTab then Show (desktop A) (aboutWindow d) w
      else w)"

definition dialog_CreateSubWindows ::
    "('w, 'z) dialog_calls_scheme \<Rightarrow> ('w, 'y) gdi_scheme \<Rightarrow> 'r reg_api \<Rightarrow> string \<Rightarrow> string \<Rightarrow> int \<Rightarrow> ('r, 'w) session \<Rightarrow>
     ('r, 'w) session option" where
  "dialog_CreateSubWindows A G Rg date time dpi s =
     do { s1 \<leftarrow> create_tab_windows A Rg date time dpi (create_tabs A dpi (set_icons A G s));
          s2 \<leftarrow> ChangeTab A Rg (selectedTab (mainDialog s1)) s1;
          let d = mainDialog s2;
          let w1 = replaceChildFonts A (defaultFont d) d (show_tab_window A (selectedTab d) d (desktopState s2));
          map_option (\<lambda>w2. s2\<lparr>desktopState := w2\<rparr>) (FixPositions A dpi d w1) }"

definition WS_EX_APPWINDOW :: u32 where "WS_EX_APPWINDOW = 0x00040000"
definition WS_MINIMIZEBOX :: u32 where "WS_MINIMIZEBOX = 0x00020000"

definition dialog_CreateThis ::
    "('w, 'z) dialog_calls_scheme \<Rightarrow> ('w, 'y) gdi_scheme \<Rightarrow> 'r reg_api \<Rightarrow> string \<Rightarrow> string \<Rightarrow> hwnd \<Rightarrow> ('r, 'w) session \<Rightarrow>
     (bool \<times> ('r, 'w) session) option" where
  "dialog_CreateThis A G Rg date time parent s =
     (let W = desktop A; w = desktopState s;
          dpi = (if parent \<noteq> NULL then GetDpiForWindow W parent w else DpiForSystem A w);
          (font, R1, w1) = getFont G (dialog_font A dpi) (resourcesOf s) w;
          (_, R2, w2) = getIcon G (dialog_icon 16) R1 w1; (_, R3, w3) = getIcon G (dialog_icon 32) R2 w2;
          (ok, registered, d1, w4) = RegisterWindowClass W ''MainMiniViewsDialog'' (registeredClasses (program s))
            ((mainDialog s)\<lparr>dialogDpi := dpi, defaultFont := font\<rparr>) w3;
          (created, d2, w5) =
            (if ok then CreateClassWindow W WS_EX_APPWINDOW mainWindowName (WS_SYSMENU OR WS_MINIMIZEBOX)
               CW_USEDEFAULT CW_USEDEFAULT (DpiScale A 279 dpi) (DpiScale A 464 dpi) parent d1 w4 else (False, d1, w4));
          s1 = s\<lparr>mainDialog := d2, program := (program s)\<lparr>registeredClasses := registered\<rparr>, resourcesOf := R3, desktopState := w5\<rparr>
      in if created then
           do { s2 \<leftarrow> dialog_CreateSubWindows A G Rg date time dpi s1;
                let d3 = mainDialog s2;
                Some (True, s2\<lparr>desktopState := SetForegroundWindow W (getHandle d3) (ShowNormal W d3 (desktopState s2))\<rparr>) }
         else Some (False, s1))"

definition dialog_DestroyThis :: "('w, 'z) dialog_calls_scheme \<Rightarrow> ('r, 'w) session \<Rightarrow> ('r, 'w) session" where
  "dialog_DestroyThis A s =
     (let W = desktop A; d = mainDialog s;
          (_, g, w1) = general_DestroyThis A (generalWindow d) (desktopState s);
          (_, v, w2) = views_DestroyThis A (viewsWindow d) w1;
          (_, t, w3) = advanced_DestroyThis A (advancedWindow d) w2;
          (_, b, w4) = about_DestroyThis A (aboutWindow d) w3;
          (_, c, w5) = ctl_DestroyThis A (tabs d) w4;
          r = or_zero (getWindowRect W d w5);
          d1 = d\<lparr>generalWindow := g, viewsWindow := v, advancedWindow := t, aboutWindow := b, tabs := c,
                 windowLeft := left r, windowTop := top r\<rparr>;
          (d2, w6) = (if getHandle d1 \<noteq> NULL then DestroyThis W d1 w5 else (d1, w5))
      in s\<lparr>mainDialog := d2, desktopState := w6\<rparr>)"

definition IsShown :: "('r, 'w) session \<Rightarrow> bool" where "IsShown s \<longleftrightarrow> getHandle (mainDialog s) \<noteq> NULL"

definition dialog_ToggleShown ::
    "('w, 'z) dialog_calls_scheme \<Rightarrow> ('w, 'y) gdi_scheme \<Rightarrow> 'r reg_api \<Rightarrow> string \<Rightarrow> string \<Rightarrow> hwnd \<Rightarrow> ('r, 'w) session \<Rightarrow>
     ('r, 'w) session option" where
  "dialog_ToggleShown A G Rg date time parent s =
     (if getHandle (mainDialog s) = NULL then map_option snd (dialog_CreateThis A G Rg date time parent s)
      else Some (dialog_DestroyThis A s))"

section \<open>Messages\<close>

definition read_setting :: "'r reg_api \<Rightarrow> setting \<Rightarrow> ('r, 'w) session \<Rightarrow> bool \<times> ('r, 'w) session" where
  "read_setting Rg x s =
     (let (b, p, r) = setting_Get Rg x (preferencesOf s) (registryOf s) in (b, s\<lparr>preferencesOf := p, registryOf := r\<rparr>))"

definition ProcessClose :: "('w, 'z) dialog_calls_scheme \<Rightarrow> 'r reg_api \<Rightarrow> ('r, 'w) session \<Rightarrow> ('r, 'w) session" where
  "ProcessClose A Rg s =
     (let (confirm, s1) = read_setting Rg ExitConfirmation s; w = desktopState s1
      in if confirm then
           (let (answer, w1) = GetYesNo A ''Would you like to exit Mini Views?'' ''Confirm Exit'' w
            in s1\<lparr>desktopState := if answer = Yes then PostQuitMessage (desktop A) w1 else w1\<rparr>)
         else s1\<lparr>desktopState := PostQuitMessage (desktop A) w\<rparr>)"

definition SC_MINIMIZE :: int where "SC_MINIMIZE = 0xF020"

text \<open>The second setting is read only when the first one holds.\<close>

definition SysCommand :: "('w, 'z) dialog_calls_scheme \<Rightarrow> 'r reg_api \<Rightarrow> int \<Rightarrow> ('r, 'w) session \<Rightarrow> ('r, 'w) session" where
  "SysCommand A Rg wParam s =
     (if wParam = SC_MINIMIZE then
        (let (useIcon, s1) = read_setting Rg NotificationIcon s in
         if useIcon then
           (let (minimize, s2) = read_setting Rg MinimizeToIcon s1 in if minimize then dialog_DestroyThis A s2 else s2)
         else s1)
      else s)"

datatype tab_notification = TCN_SELCHANGE | TCN_SELCHANGING | OtherNotification

datatype dialog_message =
    OnDpiChanged int
  | OnSysCommand int
  | OnClose
  | OnSize
  | OnNotify tab_notification
  | OnOther

datatype dialog_reply = Answered int | ByClassWindow

definition dialog_Notify ::
    "('w, 'z) dialog_calls_scheme \<Rightarrow> 'r reg_api \<Rightarrow> tab_notification \<Rightarrow> ('r, 'w) session \<Rightarrow> (dialog_reply \<times> ('r, 'w) session) option" where
  "dialog_Notify A Rg code s =
     (case code of
        TCN_SELCHANGE \<Rightarrow> map_option (Pair (Answered 0)) (TabSelChange A Rg s)
      | TCN_SELCHANGING \<Rightarrow> Some (Answered 0, TabSelChanging A s)
      | OtherNotification \<Rightarrow> Some (ByClassWindow, s))"

text \<open>
  \<open>ForwardWndProc\<close> passes notifications to \<open>Notify\<close> and the other messages to \<open>WndProc\<close>;
  \<open>ByClassWindow\<close> is the reply of the procedure of \<open>ClassWindow\<close>.
\<close>

definition dialog_WndProc ::
    "('w, 'z) dialog_calls_scheme \<Rightarrow> 'r reg_api \<Rightarrow> dialog_message \<Rightarrow> ('r, 'w) session \<Rightarrow> (dialog_reply \<times> ('r, 'w) session) option" where
  "dialog_WndProc A Rg msg s =
     (case msg of
        OnDpiChanged dpi \<Rightarrow> Some (Answered 0, s)
      | OnSysCommand wParam \<Rightarrow> Some (ByClassWindow, SysCommand A Rg wParam s)
      | OnClose \<Rightarrow> Some (Answered 0, ProcessClose A Rg s)
      | OnSize \<Rightarrow> map_option (\<lambda>w. (Answered 0, s\<lparr>desktopState := w\<rparr>))
           (FixPositions A (dialogDpi (mainDialog s)) (mainDialog s) (desktopState s))
      | OnNotify code \<Rightarrow> dialog_Notify A Rg code s
      | OnOther \<Rightarrow> Some (ByClassWindow, s))"

section \<open>The calls of the program\<close>

text \<open>
  The views of \<open>a\<close> that the program has dropped, and the tab still points to, stay with the tab.
\<close>

definition keep_dropped :: "app \<Rightarrow> app \<Rightarrow> views_tab \<Rightarrow> views_tab" where
  "keep_dropped a a1 t =
     (let held = set_option (currMiniView t) \<union> snd ` snd ` set (currTreeItems t)
      in t\<lparr>keptViews := filter (\<lambda>(j, mv). j \<in> held \<and> view_at j a1 = None) (currMiniViews a) @ keptViews t\<rparr>)"

definition run_call ::
    "('w, 'z) dialog_calls_scheme \<Rightarrow> ('w, 'y) gdi_scheme \<Rightarrow> 'r reg_api \<Rightarrow> string \<Rightarrow> string \<Rightarrow> dialog_call \<Rightarrow> ('r, 'w) session \<Rightarrow>
     ('r, 'w) session option" where
  "run_call A G Rg date time c s =
     (case c of
        RefreshViewsTab rebuildTree refreshNames \<Rightarrow> dialog_RefreshViewsTab A rebuildTree refreshNames s
      | RefreshGeneralTab \<Rightarrow> Some (refresh_general A s)
      | CreateDialog \<Rightarrow> map_option snd (dialog_CreateThis A G Rg date time NULL s)
      | ToggleDialogShown \<Rightarrow> dialog_ToggleShown A G Rg date time NULL s)"

fun run_calls ::
    "('w, 'z) dialog_calls_scheme \<Rightarrow> ('w, 'y) gdi_scheme \<Rightarrow> 'r reg_api \<Rightarrow> string \<Rightarrow> string \<Rightarrow> dialog_call list \<Rightarrow> ('r, 'w) session \<Rightarrow>
     ('r, 'w) session option" where
  "run_calls A G Rg date time [] s = Some s"
| "run_calls A G Rg date time (c # cs) s = do { s1 \<leftarrow> run_call A G Rg date time c s; run_calls A G Rg date time cs s1 }"

text \<open>An operation of the program with the calls it makes of the dialog.\<close>

definition program_operation ::
    "('w, 'z) dialog_calls_scheme \<Rightarrow> ('w, 'y) gdi_scheme \<Rightarrow> 'r reg_api \<Rightarrow> string \<Rightarrow> string \<Rightarrow>
     (app \<Rightarrow> 'w \<Rightarrow> (app \<times> 'w) option) \<Rightarrow> ('r, 'w) session \<Rightarrow> ('r, 'w) session option" where
  "program_operation A G Rg date time operation s =
     do { let a = (program s)\<lparr>dialogCalls := []\<rparr>;
          (a1, w1) \<leftarrow> operation a (desktopState s);
          let d = (mainDialog s)\<lparr>viewsWindow := keep_dropped a a1 (viewsWindow (mainDialog s))\<rparr>;
          run_calls A G Rg date time (dialogCalls a1)
            (s\<lparr>mainDialog := d, program := a1\<lparr>dialogCalls := []\<rparr>, desktopState := w1\<rparr>) }"

section \<open>Events of the tabs\<close>

text \<open>
  What \<open>ForwardWndProc\<close> passes to the window of a tab; a settings record is what the new or changed
  views read of the preferences, and \<open>lastError\<close> is \<open>GetLastError\<close>.
\<close>

datatype tab_event =
    GeneralClicked settings size2 int
  | GeneralEdited
  | ViewsSelected int
  | ViewsClicked settings int
  | ViewsFocusLost int
  | AdvancedClicked int
  | AdvancedEdited int
  | AboutClicked int

text \<open>The windows of two tabs with the program, and the rest of the session after them.\<close>

definition after_tab ::
    "('w, 'z) dialog_calls_scheme \<Rightarrow> ('w, 'y) gdi_scheme \<Rightarrow> 'r reg_api \<Rightarrow> string \<Rightarrow> string \<Rightarrow> general \<Rightarrow> views_tab \<Rightarrow> app \<Rightarrow> 'w \<Rightarrow>
     ('r, 'w) session \<Rightarrow> ('r, 'w) session option" where
  "after_tab A G Rg date time g t a1 w1 s =
     run_calls A G Rg date time (dialogCalls a1)
       (s\<lparr>mainDialog := (mainDialog s)\<lparr>generalWindow := g, viewsWindow := keep_dropped (program s) a1 t\<rparr>,
          program := a1\<lparr>dialogCalls := []\<rparr>, desktopState := w1\<rparr>)"

definition run_event ::
    "('w, 'z) dialog_calls_scheme \<Rightarrow> ('w, 'y) gdi_scheme \<Rightarrow> 'r reg_api \<Rightarrow> string \<Rightarrow> string \<Rightarrow> ('r \<Rightarrow> 'w \<Rightarrow> nat) \<Rightarrow> tab_event \<Rightarrow>
     ('r, 'w) session \<Rightarrow> ('r, 'w) session option" where
  "run_event A G Rg date time lastError ev s =
     (let d = mainDialog s; g = generalWindow d; v = viewsWindow d; t = advancedWindow d;
          a = (program s)\<lparr>dialogCalls := []\<rparr>; w = desktopState s; prefs = (preferencesOf s, registryOf s, w)
      in case ev of
           GeneralClicked S unset idFrom \<Rightarrow>
             do { (g1, a1, w1) \<leftarrow> general_NotifyButtonClicked A S unset idFrom g a w; after_tab A G Rg date time g1 v a1 w1 s }
         | GeneralEdited \<Rightarrow>
             (case general_updates 1 A g a w of (g1, a1, w1) \<Rightarrow> after_tab A G Rg date time g1 v a1 w1 s)
         | ViewsSelected newValue \<Rightarrow>
             map_option (\<lambda>(v1, w1). s\<lparr>mainDialog := d\<lparr>viewsWindow := v1\<rparr>, desktopState := w1\<rparr>)
               (views_NotifyTreeItemSelected A newValue v a w)
         | ViewsClicked S idFrom \<Rightarrow>
             do { (v1, a1, w1) \<leftarrow> views_NotifyButtonClicked A S idFrom v a w; after_tab A G Rg date time g v1 a1 w1 s }
         | ViewsFocusLost idFrom \<Rightarrow>
             do { (v1, a1, w1) \<leftarrow> views_NotifyEditFocusLost A idFrom v a w; after_tab A G Rg date time g v1 a1 w1 s }
         | AdvancedClicked idFrom \<Rightarrow>
             (case advanced_NotifyButtonClicked A Rg lastError (program s) idFrom t prefs of (t1, p, r, w1) \<Rightarrow>
                Some (s\<lparr>mainDialog := d\<lparr>advancedWindow := t1\<rparr>, preferencesOf := p, registryOf := r, desktopState := w1\<rparr>))
         | AdvancedEdited idFrom \<Rightarrow>
             (case (if allowEditNotify t then advanced_NotifyEditUpdated A Rg idFrom t prefs else prefs) of (p, r, w1) \<Rightarrow>
                Some (s\<lparr>preferencesOf := p, registryOf := r, desktopState := w1\<rparr>))
         | AboutClicked idFrom \<Rightarrow> Some (s\<lparr>desktopState := about_NotifyButtonClicked A idFrom w\<rparr>))"

section \<open>The dialog and its tabs\<close>

text \<open>What can happen to a session.\<close>

inductive dialog_step ::
    "('w, 'z) dialog_calls_scheme \<Rightarrow> ('w, 'y) gdi_scheme \<Rightarrow> 'r reg_api \<Rightarrow> ('r, 'w) session \<Rightarrow> ('r, 'w) session \<Rightarrow> bool"
  for A G Rg where
  opened: "dialog_CreateThis A G Rg date time parent s = Some (ok, s') \<Longrightarrow> dialog_step A G Rg s s'"
| closed: "dialog_step A G Rg s (dialog_DestroyThis A s)"
| message: "dialog_WndProc A Rg msg s = Some (r, s') \<Longrightarrow> dialog_step A G Rg s s'"
| event: "run_event A G Rg date time lastError ev s = Some s' \<Longrightarrow> dialog_step A G Rg s s'"
| operation: "program_operation A G Rg date time operation s = Some s' \<Longrightarrow> dialog_step A G Rg s s'"

text \<open>No window of a tab without the dialog.\<close>

definition no_orphans :: "('r, 'w) session \<Rightarrow> bool" where
  "no_orphans s \<longleftrightarrow> (getHandle (mainDialog s) = NULL \<longrightarrow>
     getHandle (generalWindow (mainDialog s)) = NULL \<and> getHandle (viewsWindow (mainDialog s)) = NULL \<and>
     getHandle (advancedWindow (mainDialog s)) = NULL \<and> getHandle (aboutWindow (mainDialog s)) = NULL)"

definition handles :: "main_dialog \<Rightarrow> hwnd list" where
  "handles d = [getHandle d, getHandle (generalWindow d), getHandle (viewsWindow d), getHandle (advancedWindow d), getHandle (aboutWindow d)]"

lemma orphans_by_handles: "no_orphans s \<Longrightarrow> handles (mainDialog s') = handles (mainDialog s) \<Longrightarrow> no_orphans s'"
  by (simp add: no_orphans_def handles_def)

text \<open>The refreshes keep every handle.\<close>

lemma refresh_general_handles: "handles (mainDialog (refresh_general A s)) = handles (mainDialog s)"
proof -
  obtain l w where "general_RefreshWindow A (generalWindow (mainDialog s)) (program s) (desktopState s) =
      (generalWindow (mainDialog s), (program s)\<lparr>transparencyAlpha := l\<rparr>, w)"
    by (rule only_levelE [OF refresh_frame])
  then show ?thesis by (simp add: refresh_general_def)
qed

lemma views_handle:
  assumes "views_RefreshWindow A b1 b2 t a w = Some (t', w')"
  shows "getHandle t' = getHandle t"
proof -
  obtain items where t': "t' = t\<lparr>currTreeItems := items, currMiniView := currMiniView t'\<rparr>" using assms by (rule refresh_tab)
  show ?thesis using arg_cong [OF t', of getHandle] by (simp add: getHandle_def)
qed

lemma advanced_handle:
  assumes "advanced_RefreshWindow A Rg t st = (t', st')"
  shows "getHandle t' = getHandle t"
  using assms by (auto simp: advanced_RefreshWindow_def Let_def getHandle_def)

lemma handles_steps [simp]:
  "getHandle g = getHandle (generalWindow d) \<Longrightarrow> handles (d\<lparr>generalWindow := g\<rparr>) = handles d"
  "getHandle v = getHandle (viewsWindow d) \<Longrightarrow> handles (d\<lparr>viewsWindow := v\<rparr>) = handles d"
  "getHandle t = getHandle (advancedWindow d) \<Longrightarrow> handles (d\<lparr>advancedWindow := t\<rparr>) = handles d"
  "handles (d\<lparr>tabs := c\<rparr>) = handles d" "handles (d\<lparr>selectedTab := i\<rparr>) = handles d"
  "handles (d\<lparr>dialogDpi := n\<rparr>) = handles d" "handles (d\<lparr>defaultFont := f\<rparr>) = handles d"
  by (cases d, simp add: handles_def getHandle_def)+

lemma refresh_views_handles: "refresh_views A b1 b2 s = Some s' \<Longrightarrow> handles (mainDialog s') = handles (mainDialog s)"
  by (auto simp: refresh_views_def views_handle)

lemma refresh_advanced_handles: "handles (mainDialog (refresh_advanced A Rg s)) = handles (mainDialog s)"
  by (auto simp: refresh_advanced_def advanced_handle split: prod.split)

lemma refresh_tab_handles: "refresh_tab_at A Rg i s = Some s' \<Longrightarrow> handles (mainDialog s') = handles (mainDialog s)"
  by (auto simp: refresh_tab_at_def refresh_general_handles refresh_views_handles refresh_advanced_handles split: if_splits)

lemma keep_dropped_handle [simp]: "getHandle (keep_dropped a a1 t) = getHandle t"
  by (simp add: keep_dropped_def Let_def getHandle_def)

text \<open>Closing leaves no window; a dialog that is not created leaves the tabs alone.\<close>

lemma DestroyThis_handle: "getHandle (fst (DestroyThis W it w)) = NULL"
  by (simp add: DestroyThis_def item_DestroyThis_def Let_def getHandle_def)

lemma DestroyThis_dialog: "handles (fst (DestroyThis W d w)) = NULL # tl (handles d)"
  by (cases d) (simp add: handles_def DestroyThis_def item_DestroyThis_def Let_def getHandle_def)

lemma handles_windows:
  "tl (handles (d\<lparr>generalWindow := g, viewsWindow := v, advancedWindow := t, aboutWindow := b, tabs := c, windowLeft := x, windowTop := y\<rparr>)) =
     [getHandle g, getHandle v, getHandle t, getHandle b]"
  "getHandle (d\<lparr>generalWindow := g, viewsWindow := v, advancedWindow := t, aboutWindow := b, tabs := c, windowLeft := x, windowTop := y\<rparr>) =
     getHandle d"
  by (cases d, simp add: handles_def getHandle_def)+

lemma closed_handles: "handles (mainDialog (dialog_DestroyThis A s)) = [NULL, NULL, NULL, NULL, NULL]"
proof -
  let ?W = "desktop A" and ?d = "mainDialog s"
  obtain g w1 where g: "DestroyThis ?W (generalWindow ?d) (desktopState s) = (g, w1)" by fastforce
  obtain v w2 where v: "DestroyThis ?W (viewsWindow ?d) w1 = (v, w2)" by fastforce
  obtain t w3 where t: "DestroyThis ?W (advancedWindow ?d) w2 = (t, w3)" by fastforce
  obtain b w4 where b: "DestroyThis ?W (aboutWindow ?d) w3 = (b, w4)" by fastforce
  obtain ok c w5 where c: "ctl_DestroyThis A (tabs ?d) w4 = (ok, c, w5)" by (metis prod_cases3)
  let ?r = "or_zero (getWindowRect ?W ?d w5)"
  let ?d1 = "?d\<lparr>generalWindow := g, viewsWindow := v, advancedWindow := t, aboutWindow := b, tabs := c,
                 windowLeft := left ?r, windowTop := top ?r\<rparr>"
  have null: "getHandle g = NULL" "getHandle v = NULL" "getHandle t = NULL" "getHandle b = NULL"
    using DestroyThis_handle [of ?W "generalWindow ?d" "desktopState s"] DestroyThis_handle [of ?W "viewsWindow ?d" w1]
      DestroyThis_handle [of ?W "advancedWindow ?d" w2] DestroyThis_handle [of ?W "aboutWindow ?d" w3] g v t b by simp_all
  have d1: "tl (handles ?d1) = [NULL, NULL, NULL, NULL]" unfolding handles_windows null by simp
  have final: "mainDialog (dialog_DestroyThis A s) = (if getHandle ?d1 \<noteq> NULL then fst (DestroyThis ?W ?d1 w5) else ?d1)"
    by (simp add: dialog_DestroyThis_def general_DestroyThis_def views_DestroyThis_def advanced_DestroyThis_def
        about_DestroyThis_def Let_def g v t b c split: prod.split)
  show ?thesis
  proof (cases "getHandle ?d1 = NULL")
    case True
    then have "handles ?d1 = NULL # tl (handles ?d1)" by (simp add: handles_def)
    then show ?thesis unfolding final using True d1 by simp
  next
    case False
    then show ?thesis unfolding final by (simp only: DestroyThis_dialog d1 if_True not_False_eq_True simp_thms)
  qed
qed

section \<open>No orphans\<close>

text \<open>Creating the parts of the dialog keeps its own handle.\<close>

lemma own_handle:
  "handles d' = handles d \<Longrightarrow> getHandle d' = getHandle d"
  "getHandle (d\<lparr>tabs := c\<rparr>) = getHandle d"
  "getHandle (d\<lparr>generalWindow := g, viewsWindow := v, advancedWindow := t, aboutWindow := b\<rparr>) = getHandle d"
  by (simp add: handles_def) (cases d, simp add: getHandle_def)+

lemma ChangeTab_handles: "ChangeTab A Rg i s = Some s' \<Longrightarrow> handles (mainDialog s') = handles (mainDialog s)"
  unfolding ChangeTab_def by (drule refresh_tab_handles) simp

lemma CreateSubWindows_handle:
  assumes "dialog_CreateSubWindows A G Rg date time dpi s = Some s'"
  shows "getHandle (mainDialog s') = getHandle (mainDialog s)"
proof -
  let ?s0 = "create_tabs A dpi (set_icons A G s)"
  obtain s1 s2 where s1: "create_tab_windows A Rg date time dpi ?s0 = Some s1"
    and s2: "ChangeTab A Rg (selectedTab (mainDialog s1)) s1 = Some s2" and s': "mainDialog s' = mainDialog s2"
    using assms by (auto simp: dialog_CreateSubWindows_def Let_def split: bind_splits)
  have "getHandle (mainDialog ?s0) = getHandle (mainDialog s)"
    by (auto simp: create_tabs_def set_icons_def Let_def own_handle(2) split: prod.split)
  moreover have "getHandle (mainDialog s1) = getHandle (mainDialog ?s0)"
    using s1 by (auto simp: create_tab_windows_def Let_def own_handle(3) split: bind_splits)
  ultimately show ?thesis using own_handle(1) [OF ChangeTab_handles [OF s2]] s' by simp
qed

text \<open>A window that is not created leaves the handle as it was.\<close>

lemma RegisterWindowClass_handle:
  "RegisterWindowClass W name registered it w = (ok, registered', it', w') \<Longrightarrow> getHandle it' = getHandle it"
  by (auto simp: RegisterWindowClass_def WindowClassIsRegistered_def Let_def getHandle_def split: prod.splits if_splits)

lemma CreateClassWindow_handle:
  assumes "CreateClassWindow W ex name st x y width height parent it w = (ok, it', w')"
  shows "(ok \<longrightarrow> getHandle it' \<noteq> NULL) \<and> (\<not> ok \<longrightarrow> getHandle it' = getHandle it)"
  using assms by (auto simp: CreateClassWindow_def Let_def getHandle_def split: prod.splits if_splits)

lemma windows_of_class:
  "RegisterWindowClass W name registered d w = (ok, registered', d', w') \<Longrightarrow> tl (handles d') = tl (handles d)"
  "CreateClassWindow W ex name st x y width height parent d w = (created, d', w') \<Longrightarrow> tl (handles d') = tl (handles d)"
proof -
  have plain: "tl (handles (d\<lparr>windowClassName := c\<rparr>)) = tl (handles d)" "tl (handles (d\<lparr>windowType := k\<rparr>)) = tl (handles d)"
    "tl (handles (d\<lparr>windowsItemHandle := h\<rparr>)) = tl (handles d)" for d c k h
    by (cases d, simp add: handles_def getHandle_def)+
  show "RegisterWindowClass W name registered d w = (ok, registered', d', w') \<Longrightarrow> tl (handles d') = tl (handles d)"
    by (auto simp: RegisterWindowClass_def WindowClassIsRegistered_def Let_def plain split: prod.splits if_splits)
  show "CreateClassWindow W ex name st x y width height parent d w = (created, d', w') \<Longrightarrow> tl (handles d') = tl (handles d)"
    by (auto simp: CreateClassWindow_def Let_def plain split: prod.splits if_splits)
qed

lemma create_no_orphans:
  assumes "dialog_CreateThis A G Rg date time parent s = Some (ok, s')" "no_orphans s"
  shows "no_orphans s'"
proof -
  let ?W = "desktop A" and ?w = "desktopState s"
  define dpi where "dpi = (if parent \<noteq> NULL then GetDpiForWindow ?W parent ?w else DpiForSystem A ?w)"
  obtain font R1 w1 where font: "getFont G (dialog_font A dpi) (resourcesOf s) ?w = (font, R1, w1)" by (metis prod_cases3)
  obtain i1 R2 w2 where i1: "getIcon G (dialog_icon 16) R1 w1 = (i1, R2, w2)" by (metis prod_cases3)
  obtain i2 R3 w3 where i2: "getIcon G (dialog_icon 32) R2 w2 = (i2, R3, w3)" by (metis prod_cases3)
  let ?d = "(mainDialog s)\<lparr>dialogDpi := dpi, defaultFont := font\<rparr>"
  obtain reg registered d1 w4 where reg: "RegisterWindowClass ?W ''MainMiniViewsDialog'' (registeredClasses (program s)) ?d w3 =
      (reg, registered, d1, w4)" by (metis prod_cases4)
  obtain created d2 w5 where new: "(if reg then CreateClassWindow ?W WS_EX_APPWINDOW mainWindowName (WS_SYSMENU OR WS_MINIMIZEBOX)
      CW_USEDEFAULT CW_USEDEFAULT (DpiScale A 279 dpi) (DpiScale A 464 dpi) parent d1 w4 else (False, d1, w4)) = (created, d2, w5)"
    by (metis prod_cases3)
  note run = assms(1) [unfolded dialog_CreateThis_def Let_def, folded dpi_def]
  have windows: "tl (handles d2) = tl (handles (mainDialog s))"
    using windows_of_class(1) [OF reg] windows_of_class(2) [of ?W WS_EX_APPWINDOW mainWindowName] new
    by (auto split: if_splits)
  show ?thesis
  proof (cases created)
    case True
    then have "getHandle d2 \<noteq> NULL" using CreateClassWindow_handle new by (metis prod.inject)
    moreover obtain s2 where "dialog_CreateSubWindows A G Rg date time dpi (s\<lparr>mainDialog := d2,
        program := (program s)\<lparr>registeredClasses := registered\<rparr>, resourcesOf := R3, desktopState := w5\<rparr>) = Some s2"
        "mainDialog s' = mainDialog s2"
      using run True by (auto simp: font i1 i2 reg new split: bind_splits)
    from this(1) [THEN CreateSubWindows_handle] this(2) have "getHandle (mainDialog s') = getHandle d2" by simp
    ultimately show ?thesis by (simp add: no_orphans_def)
  next
    case False
    have "getHandle ?d = getHandle (mainDialog s)" by (rule own_handle(1)) simp
    then have "getHandle d2 = getHandle (mainDialog s)"
      using False RegisterWindowClass_handle [OF reg] new
      by (cases reg) (use CreateClassWindow_handle [of ?W WS_EX_APPWINDOW mainWindowName] in force, auto)
    moreover have "mainDialog s' = d2"
      using run False by (auto simp: font i1 i2 reg new)
    ultimately show ?thesis using assms(2) windows by (simp add: no_orphans_def handles_def)
  qed
qed


text \<open>Every step.\<close>

lemma close_no_orphans: "no_orphans (dialog_DestroyThis A s)"
  using closed_handles [of A s] by (simp add: no_orphans_def handles_def)

lemma run_call_no_orphans:
  assumes "run_call A G Rg date time c s = Some s'" "no_orphans s"
  shows "no_orphans s'"
proof (cases c)
  case (RefreshViewsTab b1 b2)
  with assms show ?thesis
    by (auto simp: run_call_def dialog_RefreshViewsTab_def intro: orphans_by_handles refresh_views_handles split: if_splits)
next
  case RefreshGeneralTab
  with assms show ?thesis by (auto simp: run_call_def intro: orphans_by_handles refresh_general_handles)
next
  case CreateDialog
  with assms show ?thesis by (auto simp: run_call_def dest: create_no_orphans)
next
  case ToggleDialogShown
  with assms show ?thesis
    by (auto simp: run_call_def dialog_ToggleShown_def close_no_orphans dest: create_no_orphans split: if_splits)
qed

lemma run_calls_no_orphans: "run_calls A G Rg date time cs s = Some s' \<Longrightarrow> no_orphans s \<Longrightarrow> no_orphans s'"
  by (induction cs arbitrary: s) (auto dest: run_call_no_orphans split: bind_splits)

lemma read_setting_dialog [simp]: "mainDialog (snd (read_setting Rg x s)) = mainDialog s"
  by (simp add: read_setting_def split: prod.split)

lemma SysCommand_no_orphans: "no_orphans s \<Longrightarrow> no_orphans (SysCommand A Rg i s)"
proof -
  obtain b s1 where 1: "read_setting Rg NotificationIcon s = (b, s1)" by fastforce
  obtain b2 s2 where 2: "read_setting Rg MinimizeToIcon s1 = (b2, s2)" by fastforce
  have "mainDialog s1 = mainDialog s" "mainDialog s2 = mainDialog s1"
    using read_setting_dialog [of Rg NotificationIcon s] read_setting_dialog [of Rg MinimizeToIcon s1] 1 2 by simp_all
  then show "no_orphans s \<Longrightarrow> no_orphans (SysCommand A Rg i s)"
    by (auto simp: SysCommand_def Let_def 1 2 close_no_orphans intro: orphans_by_handles)
qed

lemma ProcessClose_dialog: "mainDialog (ProcessClose A Rg s) = mainDialog s"
proof -
  obtain b s1 where "read_setting Rg ExitConfirmation s = (b, s1)" by fastforce
  with read_setting_dialog [of Rg ExitConfirmation s] show ?thesis by (auto simp: ProcessClose_def Let_def split: prod.split)
qed

lemma TabSelChange_handles: "TabSelChange A Rg s = Some s' \<Longrightarrow> handles (mainDialog s') = handles (mainDialog s)"
  by (auto simp: TabSelChange_def Let_def dest: refresh_tab_handles split: option.splits)

lemma WndProc_no_orphans:
  assumes "dialog_WndProc A Rg msg s = Some (r, s')" "no_orphans s"
  shows "no_orphans s'"
proof (cases msg)
  case (OnNotify code)
  with assms show ?thesis
    by (cases code) (auto simp: dialog_WndProc_def dialog_Notify_def TabSelChanging_def Let_def
        intro: orphans_by_handles TabSelChange_handles split: option.splits)
next
  case OnClose
  with assms show ?thesis by (auto simp: dialog_WndProc_def ProcessClose_dialog intro: orphans_by_handles)
qed (use assms in \<open>auto simp: dialog_WndProc_def SysCommand_no_orphans intro: orphans_by_handles\<close>)

section \<open>The session\<close>

text \<open>The handlers of the tabs keep the handles of their windows.\<close>

lemma general_click_same:
  assumes "general_NotifyButtonClicked A S unset idFrom g a w = Some (g1, a1, w1)"
  shows "g1 = g"
proof -
  have after: "after_program A g a r = (g', a', w') \<Longrightarrow> g' = g" for r g' a' w'
    using run_general_frame [of A] by (cases r) (simp add: after_program_def, metis prod.inject)
  show ?thesis
    using assms by (auto simp: general_NotifyButtonClicked_def EditModeCheckClicked_def dest: after split: if_splits bind_splits)
qed

lemma general_edit_same:
  assumes "general_updates n A g a w = (g1, a1, w1)"
  shows "g1 = g"
  using updates_frame [of g a n A w] assms by (simp add: only_level_def)

lemma after_view_handle:
  assumes "after_view A j r t a = Some (t', a', w')"
  shows "getHandle t' = getHandle t"
proof -
  have put: "getHandle (fst (put_tab_view j mv t a)) = getHandle t" for mv
    by (simp add: put_tab_view_def getHandle_def)
  obtain mv w where r: "r = (mv, w)" by fastforce
  obtain t1 a1 where t1: "put_tab_view j (mv\<lparr>requests := []\<rparr>) t a = (t1, a1)" by fastforce
  obtain a2 w2 where "views_RefreshWindow A False False t1 a2 w2 = Some (t', w')"
    using assms by (auto simp: after_view_def r t1 split: bind_splits)
  then show ?thesis using views_handle put [of "mv\<lparr>requests := []\<rparr>"] t1 by fastforce
qed

lemma views_event_handles:
  "views_NotifyButtonClicked A S idFrom t a w = Some (t', a', w') \<Longrightarrow> getHandle t' = getHandle t"
  "views_NotifyEditFocusLost A idFrom t a w = Some (t', a', w') \<Longrightarrow> getHandle t' = getHandle t"
  "views_NotifyTreeItemSelected A newValue t a w = Some (t', w') \<Longrightarrow> getHandle t' = getHandle t"
  by (auto simp: views_NotifyButtonClicked_def views_NotifyEditFocusLost_def split: option.splits bind_splits
      dest: after_view_handle)
    (auto simp: views_NotifyTreeItemSelected_def Let_def getHandle_def dest!: views_handle)

lemma advanced_click_handle:
  assumes "advanced_NotifyButtonClicked A Rg lastError it idFrom t st = (t', st')"
  shows "getHandle t' = getHandle t"
  using assms by (cases st) (auto simp: advanced_NotifyButtonClicked_def Let_def getHandle_def
      dest!: advanced_handle split: prod.splits option.splits if_splits)

lemma after_tab_no_orphans:
  assumes "after_tab A G Rg date time g t a1 w1 s = Some s'" "no_orphans s"
    "getHandle g = getHandle (generalWindow (mainDialog s))" "getHandle t = getHandle (viewsWindow (mainDialog s))"
  shows "no_orphans s'"
proof -
  let ?d = "(mainDialog s)\<lparr>generalWindow := g, viewsWindow := keep_dropped (program s) a1 t\<rparr>"
  have "handles ?d = handles (mainDialog s)"
    using assms(3,4) handles_steps(2) [of "keep_dropped (program s) a1 t" "(mainDialog s)\<lparr>generalWindow := g\<rparr>"] by simp
  then have "no_orphans (s\<lparr>mainDialog := ?d, program := a1\<lparr>dialogCalls := []\<rparr>, desktopState := w1\<rparr>)"
    by (intro orphans_by_handles [OF assms(2)]) simp
  with assms(1) show ?thesis unfolding after_tab_def by (rule run_calls_no_orphans)
qed

lemma run_event_no_orphans:
  assumes "run_event A G Rg date time lastError ev s = Some s'" "no_orphans s"
  shows "no_orphans s'"
proof (cases ev)
  case (GeneralClicked S unset idFrom)
  with assms show ?thesis
    by (auto simp: run_event_def Let_def split: bind_splits dest: general_click_same intro: after_tab_no_orphans)
next
  case GeneralEdited
  with assms show ?thesis
    by (auto simp: run_event_def Let_def simp del: One_nat_def split: prod.splits dest!: general_edit_same intro: after_tab_no_orphans)
next
  case (ViewsSelected i)
  with assms show ?thesis
    by (auto simp: run_event_def Let_def dest!: views_event_handles intro: orphans_by_handles)
next
  case (ViewsClicked S i)
  with assms show ?thesis
    by (auto simp: run_event_def Let_def split: bind_splits dest!: views_event_handles(1) intro: after_tab_no_orphans)
next
  case (ViewsFocusLost i)
  with assms show ?thesis
    by (auto simp: run_event_def Let_def split: bind_splits dest!: views_event_handles(2) intro: after_tab_no_orphans)
next
  case (AdvancedClicked i)
  with assms show ?thesis
    by (auto simp: run_event_def Let_def split: prod.splits dest!: advanced_click_handle intro: orphans_by_handles)
next
  case (AdvancedEdited i)
  with assms show ?thesis by (auto simp: run_event_def Let_def split: prod.splits intro: orphans_by_handles)
next
  case (AboutClicked i)
  with assms show ?thesis by (auto simp: run_event_def Let_def intro: orphans_by_handles)
qed


section \<open>Properties\<close>

text \<open>
  Property C14: whatever happens to a session, opening and closing the dialog, its messages, the events of
  its tabs and the operations of the program, no tab keeps a window while the dialog has none.
\<close>

theorem closed_dialog_has_no_tabs:
  assumes "(dialog_step A G Rg)\<^sup>*\<^sup>* s s'" "no_orphans s"
  shows "no_orphans s'"
  using assms
proof (induction rule: rtranclp_induct)
  case (step s1 s2)
  from step(2) show ?case
  proof (cases rule: dialog_step.cases)
    case (operation date time operation)
    let ?a = "(program s1)\<lparr>dialogCalls := []\<rparr>"
    obtain a1 w1 where run: "run_calls A G Rg date time (dialogCalls a1)
        (s1\<lparr>mainDialog := (mainDialog s1)\<lparr>viewsWindow := keep_dropped ?a a1 (viewsWindow (mainDialog s1))\<rparr>,
            program := a1\<lparr>dialogCalls := []\<rparr>, desktopState := w1\<rparr>) = Some s2"
      using operation by (auto simp: program_operation_def Let_def split: bind_splits)
    show ?thesis
      by (rule run_calls_no_orphans [OF run]) (rule orphans_by_handles [OF step.IH [OF step.prems]], simp)
  qed (use step in \<open>auto intro: create_no_orphans close_no_orphans WndProc_no_orphans run_event_no_orphans\<close>)
qed

lemma read_setting_result: "fst (read_setting Rg x s) = fst (setting_Get Rg x (preferencesOf s) (registryOf s))"
  by (simp add: read_setting_def split: prod.split)

lemma destroyed_window_tab: "DestroyThis W d w = (d', w') \<Longrightarrow> selectedTab d' = selectedTab d"
  by (cases d) (auto simp: DestroyThis_def item_DestroyThis_def Let_def)

lemma destroyed_tab: "selectedTab (mainDialog (dialog_DestroyThis A s)) = selectedTab (mainDialog s)"
  by (auto simp: dialog_DestroyThis_def Let_def dest: destroyed_window_tab split: prod.splits if_splits)

text \<open>
  Minimizing the dialog closes it, with its tabs, exactly when the preferences say that the
  notification icon is used and that the program minimizes to it, each read as it is needed; the
  message goes on to the class of windows, and the dialog will come back on the tab it showed.
\<close>

theorem minimize_closes_to_icon:
  "\<exists>s'. dialog_WndProc A Rg (OnSysCommand SC_MINIMIZE) s = Some (ByClassWindow, s') \<and>
     (case setting_Get Rg NotificationIcon (preferencesOf s) (registryOf s) of (useIcon, p, r) \<Rightarrow>
        if useIcon \<and> fst (setting_Get Rg MinimizeToIcon p r) then handles (mainDialog s') = [NULL, NULL, NULL, NULL, NULL]
        else mainDialog s' = mainDialog s) \<and>
     selectedTab (mainDialog s') = selectedTab (mainDialog s)"
proof -
  obtain b p r where g: "setting_Get Rg NotificationIcon (preferencesOf s) (registryOf s) = (b, p, r)" by (metis prod_cases3)
  obtain m p2 r2 where m: "setting_Get Rg MinimizeToIcon p r = (m, p2, r2)" by (metis prod_cases3)
  show ?thesis
    by (auto simp: dialog_WndProc_def SysCommand_def read_setting_def g m closed_handles destroyed_tab)
qed

text \<open>The calls an operation records before the last one do not change what the tree is built from.\<close>

lemma refresh_general_frame:
  "program (refresh_general A s) = (program s)\<lparr>transparencyAlpha := transparencyAlpha (program (refresh_general A s))\<rparr>"
  "selectedTab (mainDialog (refresh_general A s)) = selectedTab (mainDialog s)"
proof -
  obtain l w where "general_RefreshWindow A (generalWindow (mainDialog s)) (program s) (desktopState s) =
      (generalWindow (mainDialog s), (program s)\<lparr>transparencyAlpha := l\<rparr>, w)"
    by (rule only_levelE [OF refresh_frame])
  then show "program (refresh_general A s) = (program s)\<lparr>transparencyAlpha := transparencyAlpha (program (refresh_general A s))\<rparr>"
    "selectedTab (mainDialog (refresh_general A s)) = selectedTab (mainDialog s)"
    by (simp_all add: refresh_general_def)
qed

lemma rebuilt_tree:
  assumes "dialog_RefreshViewsTab A True b s = Some s'" "IsShown s" "selectedTab (mainDialog s) = ViewsTab"
  shows "program s' = program s" "map (snd \<circ> snd) (currTreeItems (viewsWindow (mainDialog s'))) = map fst (currMiniViews (program s))"
    "currMiniView (viewsWindow (mainDialog s')) = None \<longleftrightarrow> currMiniViews (program s) = []"
  using assms refresh_tree
  by (fastforce simp: dialog_RefreshViewsTab_def IsShown_def refresh_views_def)+

lemma all_views_calls: "all_views f a w = Some (a1, w1) \<Longrightarrow> dialogCalls a1 = dialogCalls a"
  by (auto simp: all_views_def split: bind_splits)

lemma toggle_calls: "app_ToggleEditMode W a w = Some (a1, w1) \<Longrightarrow> dialogCalls a1 = dialogCalls a @ [RefreshGeneralTab]"
  by (auto simp: app_ToggleEditMode_def dialog_def Let_def dest!: all_views_calls split: bind_splits)

lemma close_calls: "app_CloseMiniView W j a w = Some (a1, w1) \<Longrightarrow> dialogCalls a1 = dialogCalls a @ [RefreshViewsTab True True]"
  by (auto simp: app_CloseMiniView_def dialog_def put_view_def Let_def split: bind_splits prod.splits option.splits)

lemma add_calls:
  assumes "app_AddMiniView W S unset a w = Some (a1, w1)"
  obtains cs where "dialogCalls a1 = dialogCalls a @ cs @ [RefreshViewsTab True True]" "set cs \<subseteq> {RefreshGeneralTab}"
  using assms by (auto simp: app_AddMiniView_def dialog_def Let_def dest!: toggle_calls split: bind_splits prod.splits option.splits if_splits)

lemma run_refreshes:
  assumes "run_calls A G Rg date time (cs @ [RefreshViewsTab True b]) s = Some s'" "set cs \<subseteq> {RefreshGeneralTab}"
    "IsShown s" "selectedTab (mainDialog s) = ViewsTab"
  shows "currMiniViews (program s') = currMiniViews (program s)"
    "map (snd \<circ> snd) (currTreeItems (viewsWindow (mainDialog s'))) = map fst (currMiniViews (program s))"
    "currMiniView (viewsWindow (mainDialog s')) = None \<longleftrightarrow> currMiniViews (program s) = []"
proof -
  have "currMiniViews (program s') = currMiniViews (program s) \<and>
    map (snd \<circ> snd) (currTreeItems (viewsWindow (mainDialog s'))) = map fst (currMiniViews (program s)) \<and>
    (currMiniView (viewsWindow (mainDialog s')) = None \<longleftrightarrow> currMiniViews (program s) = [])"
    using assms
  proof (induction cs arbitrary: s)
    case Nil
    then show ?case using rebuilt_tree [of A b s s'] by (simp add: run_call_def o_def split: bind_splits)
  next
    case (Cons c cs)
    let ?s = "refresh_general A s"
    have "IsShown ?s" using Cons.prems(3) own_handle(1) [OF refresh_general_handles [of A s]] by (simp add: IsShown_def)
    moreover have "currMiniViews (program ?s) = currMiniViews (program s)" by (subst refresh_general_frame(1)) simp
    moreover have "run_calls A G Rg date time (cs @ [RefreshViewsTab True b]) ?s = Some s'"
      using Cons.prems(1,2) by (simp add: run_call_def)
    ultimately show ?case using Cons.IH [of ?s] Cons.prems(2,4) by (simp add: refresh_general_frame(2))
  qed
  then show "currMiniViews (program s') = currMiniViews (program s)"
    "map (snd \<circ> snd) (currTreeItems (viewsWindow (mainDialog s'))) = map fst (currMiniViews (program s))"
    "currMiniView (viewsWindow (mainDialog s')) = None \<longleftrightarrow> currMiniViews (program s) = []" by simp_all
qed


section \<open>Examples\<close>

definition desk_gdi :: "desk gdi" where
  "desk_gdi = \<lparr>CreateSolidBrush = (\<lambda>c d. (6, d)), CreatePen = (\<lambda>s n c d. (6, d)), CreateFont = (\<lambda>y x n d. (6, d)),
     LoadBitmap = (\<lambda>i d. (6, d)), LoadImageBitmap = (\<lambda>i x y f d. (6, d)), LoadImageIcon = (\<lambda>i x y f d. (6, d)),
     GetDC = (\<lambda>h d. (7, d)), ReleaseDC = (\<lambda>h x d. d), CreateCompatibleDC = (\<lambda>h d. (8, d)), DeleteDC = (\<lambda>h d. d),
     CreateCompatibleBitmap = (\<lambda>h x y d. (9, d)), DeleteObject = (\<lambda>h d. d), SelectObject = (\<lambda>h x d. (5, d)),
     BitBlt = (\<lambda>p i j n m q i2 j2 d. (True, d)), ValidateRect = (\<lambda>h r d. (True, d)), DcClientRect = (\<lambda>h d. None),
     FillRectWith = (\<lambda>h r b d. (True, d)), FrameRectWith = (\<lambda>h r b d. (True, d)), GetTabbedTextExtent = (\<lambda>h t d. 0),
     TextExtentPoint = (\<lambda>h t d. None), ExtTextOut = (\<lambda>h x y t d. d)\<rparr>"

text \<open>A session whose dialog shows the views tab for the two views of \<open>example_app\<close>.\<close>

definition example_dialog :: main_dialog where
  "example_dialog = (fst (new_main_dialog desk_calls desk_gdi no_resources (typed_level 7)))
     \<lparr>windowsItemHandle := 90, selectedTab := ViewsTab, generalWindow := setHandle 91 new_general, viewsWindow := example_views\<rparr>"

definition example_session :: "(memory, desk) session" where
  "example_session = \<lparr>mainDialog = example_dialog, program = example_app, preferencesOf = new_preferences mini_views_key,
     registryOf = empty_registry, resourcesOf = no_resources, desktopState = typed_level 7\<rparr>"

lemma example_dialog_simps:
  "getHandle example_dialog = 90" "selectedTab example_dialog = ViewsTab" "viewsWindow example_dialog = example_views"
  "getHandle (generalWindow example_dialog) = 91"
proof -
  obtain d R w where d: "new_main_dialog desk_calls desk_gdi no_resources (typed_level 7) = (d, R, w)" by (metis prod_cases3)
  show "getHandle example_dialog = 90" "selectedTab example_dialog = ViewsTab" "viewsWindow example_dialog = example_views"
    "getHandle (generalWindow example_dialog) = 91"
    unfolding example_dialog_def d fst_conv by (cases d, simp add: getHandle_def setHandle_def)+
qed

lemma closed_dialog_has_no_tabs_witness:
  "\<exists>s'. (dialog_step desk_calls desk_gdi memory_api)\<^sup>*\<^sup>* example_session s' \<and>
     getHandle (mainDialog example_session) \<noteq> NULL \<and> getHandle (generalWindow (mainDialog example_session)) \<noteq> NULL \<and>
     getHandle (mainDialog s') = NULL \<and> getHandle (generalWindow (mainDialog s')) = NULL"
proof -
  let ?s1 = "TabSelChanging desk_calls example_session" and ?s = "dialog_DestroyThis desk_calls (TabSelChanging desk_calls example_session)"
  have "dialog_WndProc desk_calls memory_api (OnNotify TCN_SELCHANGING) example_session = Some (Answered 0, ?s1)"
    by (simp add: dialog_WndProc_def dialog_Notify_def)
  then have "dialog_step desk_calls desk_gdi memory_api example_session ?s1" by (rule message)
  moreover have "dialog_step desk_calls desk_gdi memory_api ?s1 ?s" by (rule closed)
  ultimately have steps: "(dialog_step desk_calls desk_gdi memory_api)\<^sup>*\<^sup>* example_session ?s" by simp
  have "getHandle (mainDialog example_session) \<noteq> NULL" "getHandle (generalWindow (mainDialog example_session)) \<noteq> NULL"
    by (simp_all add: example_session_def example_dialog_simps NULL_def)
  moreover have "getHandle (mainDialog ?s) = NULL" using closed_handles [of desk_calls ?s1] by (simp add: handles_def)
  moreover have "no_orphans ?s" using closed_dialog_has_no_tabs [OF steps] calculation by (simp add: no_orphans_def)
  ultimately show ?thesis using steps unfolding no_orphans_def by blast
qed

lemma example_close:
  obtains a1 w1 where "app_CloseMiniView (desktop desk_calls) 1 (example_app\<lparr>dialogCalls := []\<rparr>) (typed_level 7) = Some (a1, w1)"
    "dialogCalls a1 = [RefreshViewsTab True True]" "currMiniViews a1 = [(0, example_view)]"
    "deskWindows w1 40 = deskWindows (typed_level 0) 40" "deskTree w1 = (\<lambda>i. [])"
proof -
  let ?W = "desktop desk_calls" and ?mv = "example_view\<lparr>windowsItemHandle := 41, lockRatio := False\<rparr>" and ?w = "typed_level 7"
  have views: "currMiniViews (example_app\<lparr>dialogCalls := []\<rparr>) = [(0, example_view), (1, ?mv)]" by (simp add: example_app_def)
  have handles: "getHandle ?mv = 41" "tooltipHandle ?mv = NULL" "getHandle example_view = 40"
    by (simp_all add: view_evals)
  obtain mv1 w1 where gone: "DestroyThis ?W ?mv ?w = (mv1, w1)" by fastforce
  then have w1: "w1 = DestroyWindow ?W 41 ?w"
    using handles by (auto simp: DestroyThis_def item_DestroyThis_def Let_def NULL_def)
  have "deskWindows w1 40 = deskWindows (typed_level 0) 40" "deskTree w1 = (\<lambda>i. [])"
    by (simp_all add: w1 desk_calls_defs typed_level_def example_desk_def)
  moreover have "\<exists>a1. app_CloseMiniView ?W 1 (example_app\<lparr>dialogCalls := []\<rparr>) ?w = Some (a1, w1) \<and>
      dialogCalls a1 = [RefreshViewsTab True True] \<and> currMiniViews a1 = [(0, example_view)]"
    by (simp add: app_CloseMiniView_def view_at_def views handles gone put_view_def dialog_def)
  ultimately show thesis using that by blast
qed


end
