(* ===== verification/Utf_Macros.thy ===== *)
theory Utf_Macros
  imports Prelude
begin

text \<open>
  The macros of IcuLib/unicode/utf.h, utf8.h and utf16.h that the conversion loops are written
  with, and the Unicode encoding forms they implement.

  \<^item> A code unit is a word of its width, \<open>u8\<close> for a byte and \<open>u16\<close> for a \<open>UChar\<close>. A code point
    (\<open>uint32_t ch\<close>, \<open>UChar32 c\<close>) is an \<open>int\<close>: it stays between -1, the sentinel, and 0x10ffff, so
    its 32-bit arithmetic does not wrap. A narrowing cast is \<open>word_of_int\<close>.
  \<^item> The second half states the encoding forms in plain arithmetic (\<open>utf8_of\<close>, \<open>utf16_of\<close>,
    \<open>utf16_next\<close>) and shows that the macros and \<open>_appendUTF8\<close> compute them.
\<close>

unbundle bit_operations_syntax

section \<open>The macros\<close>

abbreviation (input) U_SENTINEL :: int where "U_SENTINEL \<equiv> - 1"

definition U_IS_SURROGATE :: "int \<Rightarrow> bool" where
  "U_IS_SURROGATE c \<longleftrightarrow> c AND 0xfffff800 = 0xd800"

definition U16_IS_TRAIL :: "int \<Rightarrow> bool" where
  "U16_IS_TRAIL c \<longleftrightarrow> c AND 0xfffffc00 = 0xdc00"

definition U16_IS_SURROGATE_LEAD :: "int \<Rightarrow> bool" where
  "U16_IS_SURROGATE_LEAD c \<longleftrightarrow> c AND 0x400 = 0"

definition U16_SURROGATE_OFFSET :: int where
  "U16_SURROGATE_OFFSET = push_bit 10 0xd800 + 0xdc00 - 0x10000"

definition U16_GET_SUPPLEMENTARY :: "int \<Rightarrow> int \<Rightarrow> int" where
  "U16_GET_SUPPLEMENTARY lead trail = push_bit 10 lead + trail - U16_SURROGATE_OFFSET"

definition U16_LEAD :: "int \<Rightarrow> u16" where
  "U16_LEAD c = word_of_int (drop_bit 10 c + 0xd7c0)"

definition U16_TRAIL :: "int \<Rightarrow> u16" where
  "U16_TRAIL c = word_of_int ((c AND 0x3ff) OR 0xdc00)"

definition U16_LENGTH :: "int \<Rightarrow> int" where
  "U16_LENGTH c = (if uint (word_of_int c :: u32) \<le> 0xffff then 1 else 2)"

definition U8_LENGTH :: "int \<Rightarrow> int" where
  "U8_LENGTH c =
    (let u = uint (word_of_int c :: u32) in
     if u \<le> 0x7f then 1
     else if u \<le> 0x7ff then 2
     else if u \<le> 0xd7ff then 3
     else if u \<le> 0xdfff \<or> u > 0x10ffff then 0
     else if u \<le> 0xffff then 3 else 4)"

text \<open>The bytes stored for a code point: the three multi-byte branches are written out again in
  every conversion loop, the last one only in \<open>_appendUTF8\<close> and in the fast loop.\<close>

definition put2 :: "int \<Rightarrow> u8 list" where
  "put2 c = [word_of_int (drop_bit 6 c OR 0xc0), word_of_int ((c AND 0x3f) OR 0x80)]"

definition put3 :: "int \<Rightarrow> u8 list" where
  "put3 c = [word_of_int (drop_bit 12 c OR 0xe0), word_of_int ((drop_bit 6 c AND 0x3f) OR 0x80),
     word_of_int ((c AND 0x3f) OR 0x80)]"

definition put4 :: "int \<Rightarrow> u8 list" where
  "put4 c = [word_of_int (drop_bit 18 c OR 0xf0), word_of_int ((drop_bit 12 c AND 0x3f) OR 0x80),
     word_of_int ((drop_bit 6 c AND 0x3f) OR 0x80), word_of_int ((c AND 0x3f) OR 0x80)]"

definition appendUTF8 :: "u8 list \<Rightarrow> int \<Rightarrow> u8 list" where
  "appendUTF8 pDest c =
    (if c \<le> 0x7f then pDest @ [word_of_int c]
     else if c \<le> 0x7ff then pDest @ put2 c
     else if c \<le> 0xffff then pDest @ put3 c
     else pDest @ put4 c)"


section \<open>Bit operations as arithmetic\<close>

lemma and_push_bit: "(a :: int) AND push_bit n b = push_bit n (drop_bit n a AND b)"
  by (rule bit_eqI) (auto simp: bit_simps)

lemma or_high_bits:
  fixes a k :: int
  assumes "0 \<le> a" "a < 2 ^ n"
  shows "a OR push_bit n k = a + push_bit n k"
proof -
  have t: "take_bit n a = a" using assms by (simp add: take_bit_int_eq_self)
  have "\<not> bit a m \<or> \<not> bit (push_bit n k) m" for m
    by (subst t [symmetric]) (auto simp: bit_simps)
  then show ?thesis by (simp add: disjunctive_add)
qed

lemma and_low_bits: "(a :: int) AND 0x3f = a mod 64" "(a :: int) AND 0x3ff = a mod 1024"
  "(a :: int) AND 0xf = a mod 16" "(a :: int) AND 0x1f = a mod 32" "(a :: int) AND 7 = a mod 8"
  using take_bit_eq_mask [of 6 a] take_bit_eq_mask [of 10 a] take_bit_eq_mask [of 4 a]
    take_bit_eq_mask [of 5 a] take_bit_eq_mask [of 3 a]
  by (simp_all add: mask_eq_exp_minus_1 take_bit_eq_mod)

lemma or_tags:
  "0 \<le> a \<Longrightarrow> a < 64 \<Longrightarrow> a OR 0x80 = a + 0x80"
  "0 \<le> a \<Longrightarrow> a < 32 \<Longrightarrow> a OR 0xc0 = a + 0xc0"
  "0 \<le> a \<Longrightarrow> a < 16 \<Longrightarrow> a OR 0xe0 = a + 0xe0"
  "0 \<le> a \<Longrightarrow> a < 8 \<Longrightarrow> a OR 0xf0 = a + 0xf0"
  "0 \<le> a \<Longrightarrow> a < 1024 \<Longrightarrow> a OR 0xdc00 = a + 0xdc00"
  for a :: int
  using or_high_bits [of a 6 2] or_high_bits [of a 6 3] or_high_bits [of a 5 7]
    or_high_bits [of a 4 15] or_high_bits [of a 10 55]
  by (simp_all add: push_bit_eq_mult)

lemma high_bits_of_code_point:
  fixes c :: int
  assumes "0 \<le> c" "c < 2 ^ 32"
  shows "c AND 0xfffff800 = c div 2048 * 2048" "c AND 0xfffffc00 = c div 1024 * 1024"
proof -
  have "c AND push_bit 11 (mask 21) = c div 2048 * 2048"
    using assms by (subst and_push_bit)
      (simp add: take_bit_eq_mask [symmetric] take_bit_int_eq_self drop_bit_eq_div push_bit_eq_mult)
  then show "c AND 0xfffff800 = c div 2048 * 2048" by (simp add: mask_eq_exp_minus_1 push_bit_eq_mult)
  have "c AND push_bit 10 (mask 22) = c div 1024 * 1024"
    using assms by (subst and_push_bit)
      (simp add: take_bit_eq_mask [symmetric] take_bit_int_eq_self drop_bit_eq_div push_bit_eq_mult)
  then show "c AND 0xfffffc00 = c div 1024 * 1024" by (simp add: mask_eq_exp_minus_1 push_bit_eq_mult)
qed

lemma surrogate_range:
  "0 \<le> c \<Longrightarrow> c < 2 ^ 32 \<Longrightarrow> U_IS_SURROGATE c \<longleftrightarrow> 0xd800 \<le> c \<and> c \<le> 0xdfff"
  using high_bits_of_code_point(1) [of c] unfolding U_IS_SURROGATE_def by simp arith

lemma trail_range:
  "0 \<le> c \<Longrightarrow> c < 2 ^ 32 \<Longrightarrow> U16_IS_TRAIL c \<longleftrightarrow> 0xdc00 \<le> c \<and> c \<le> 0xdfff"
  using high_bits_of_code_point(2) [of c] unfolding U16_IS_TRAIL_def by simp arith

lemma surrogate_lead_range:
  assumes "0xd800 \<le> c" "c \<le> 0xdfff"
  shows "U16_IS_SURROGATE_LEAD c \<longleftrightarrow> c \<le> 0xdbff"
proof -
  have "c AND push_bit 10 1 = push_bit 10 (c div 1024 mod 2)"
    by (subst and_push_bit) (simp add: drop_bit_eq_div and_one_eq)
  then have "c AND 0x400 = c div 1024 mod 2 * 1024" by (simp add: push_bit_eq_mult)
  moreover have "c div 1024 = (if c \<le> 0xdbff then 54 else 55)" using assms by auto
  ultimately show ?thesis unfolding U16_IS_SURROGATE_LEAD_def by simp
qed

section \<open>The encoding forms\<close>

text \<open>A code point is a scalar value when it is no surrogate; these are the code points that have
  an encoding.\<close>

definition scalar :: "int \<Rightarrow> bool" where
  "scalar c \<longleftrightarrow> 0 \<le> c \<and> c \<le> 0x10ffff \<and> \<not> (0xd800 \<le> c \<and> c \<le> 0xdfff)"

definition utf8_of :: "int \<Rightarrow> u8 list" where
  "utf8_of c =
    map word_of_int
     (if c < 0x80 then [c]
      else if c < 0x800 then [0xc0 + c div 64, 0x80 + c mod 64]
      else if c < 0x10000 then [0xe0 + c div 4096, 0x80 + c div 64 mod 64, 0x80 + c mod 64]
      else [0xf0 + c div 262144, 0x80 + c div 4096 mod 64, 0x80 + c div 64 mod 64, 0x80 + c mod 64])"

definition utf16_of :: "int \<Rightarrow> u16 list" where
  "utf16_of c =
    map word_of_int
     (if c < 0x10000 then [c]
      else [0xd800 + (c - 0x10000) div 1024, 0xdc00 + (c - 0x10000) mod 1024])"

text \<open>The first character of a UTF-16 string \<open>u # us\<close> and what follows it: \<open>None\<close> is an unpaired
  surrogate.\<close>

definition surrogate :: "u16 \<Rightarrow> bool" where
  "surrogate u \<longleftrightarrow> 0xd800 \<le> uint u \<and> uint u \<le> 0xdfff"

definition utf16_next :: "u16 \<Rightarrow> u16 list \<Rightarrow> int option \<times> u16 list" where
  "utf16_next u us =
    (if \<not> surrogate u then (Some (uint u), us)
     else case us of
         [] \<Rightarrow> (None, us)
       | v # vs \<Rightarrow>
           if uint u \<le> 0xdbff \<and> 0xdc00 \<le> uint v \<and> uint v \<le> 0xdfff
           then (Some (0x10000 + (uint u - 0xd800) * 1024 + (uint v - 0xdc00)), vs)
           else (None, us))"

lemma utf16_next_length: "length (snd (utf16_next u us)) \<le> length us"
  by (auto simp: utf16_next_def split: list.split)

lemma utf16_next_shorter: "utf16_next u us = (c, us') \<Longrightarrow> length us' \<le> length us"
  using utf16_next_length [of u us] by simp

function utf16_chars :: "u16 list \<Rightarrow> int option list" where
  "utf16_chars [] = []"
| "utf16_chars (u # us) = (case utf16_next u us of (c, us') \<Rightarrow> c # utf16_chars us')"
  by pat_completeness auto
termination
  by (relation "measure length") (simp_all add: less_Suc_eq_le utf16_next_shorter [OF sym])

lemma uint_16: "0 \<le> uint (u :: u16)" "uint (u :: u16) < 0x10000"
  using uint_bounded [of u] by simp_all

lemma uint_8: "0 \<le> uint (b :: u8)" "uint (b :: u8) < 0x100"
  using uint_bounded [of b] by simp_all

lemma utf16_next_scalar: "utf16_next u us = (Some c, us') \<Longrightarrow> scalar c"
  using uint_16 [of u]
  by (auto simp: utf16_next_def surrogate_def scalar_def split: if_splits list.splits)

lemma utf16_chars_scalar: "Some c \<in> set (utf16_chars us) \<Longrightarrow> scalar c"
  by (induction us rule: utf16_chars.induct) (auto split: prod.splits dest: utf16_next_scalar [OF sym])

lemma utf8_of_length:
  "length (utf8_of c) = (if c < 0x80 then 1 else if c < 0x800 then 2 else if c < 0x10000 then 3 else 4)"
  by (simp add: utf8_of_def)

lemma put2_eq: "0x80 \<le> c \<Longrightarrow> c < 0x800 \<Longrightarrow> put2 c = utf8_of c"
  by (simp add: put2_def utf8_of_def drop_bit_eq_div and_low_bits or_tags add.commute)

lemma put3_eq: "0x800 \<le> c \<Longrightarrow> c < 0x10000 \<Longrightarrow> put3 c = utf8_of c"
  by (simp add: put3_def utf8_of_def drop_bit_eq_div and_low_bits or_tags add.commute)

lemma put4_eq: "0x10000 \<le> c \<Longrightarrow> c \<le> 0x10ffff \<Longrightarrow> put4 c = utf8_of c"
  by (simp add: put4_def utf8_of_def drop_bit_eq_div and_low_bits or_tags add.commute)

lemma appendUTF8_eq: "scalar c \<Longrightarrow> appendUTF8 d c = d @ utf8_of c"
  unfolding scalar_def appendUTF8_def using put2_eq [of c] put3_eq [of c] put4_eq [of c]
  by (auto simp: utf8_of_def)

lemma U8_LENGTH_eq: "scalar c \<Longrightarrow> U8_LENGTH c = int (length (utf8_of c))"
  by (auto simp: U8_LENGTH_def Let_def utf8_of_length scalar_def uint_word_of_int)

lemma U16_LENGTH_eq: "scalar c \<Longrightarrow> U16_LENGTH c = int (length (utf16_of c))"
  by (auto simp: U16_LENGTH_def utf16_of_def scalar_def uint_word_of_int)

lemma U16_LEAD_TRAIL_eq: "0x10000 \<le> c \<Longrightarrow> c \<le> 0x10ffff \<Longrightarrow> [U16_LEAD c, U16_TRAIL c] = utf16_of c"
proof -
  assume c: "0x10000 \<le> c" "c \<le> 0x10ffff"
  have d: "(c - 0x10000) div 1024 = c div 1024 - 64" "(c - 0x10000) mod 1024 = c mod 1024"
    using div_mult_self1 [of 1024 c "- 64"] mod_mult_self1 [of c "- 64" 1024] by simp_all
  show ?thesis using c
    by (simp add: U16_LEAD_def U16_TRAIL_def utf16_of_def drop_bit_eq_div and_low_bits or_tags d add.commute)
qed

lemma supplementary_eq:
  "U16_GET_SUPPLEMENTARY l t = 0x10000 + (l - 0xd800) * 1024 + (t - 0xdc00)"
  by (simp add: U16_GET_SUPPLEMENTARY_def U16_SURROGATE_OFFSET_def push_bit_eq_mult)

lemma is_surrogate_unit: "U_IS_SURROGATE (uint (u :: u16)) \<longleftrightarrow> surrogate u"
  using uint_16 [of u] by (simp add: surrogate_range surrogate_def)

lemma is_trail_unit: "U16_IS_TRAIL (uint (u :: u16)) \<longleftrightarrow> 0xdc00 \<le> uint u \<and> uint u \<le> 0xdfff"
  using uint_16 [of u] by (simp add: trail_range)

lemma is_lead_unit: "surrogate u \<Longrightarrow> U16_IS_SURROGATE_LEAD (uint u) \<longleftrightarrow> uint u \<le> 0xdbff"
  by (simp add: surrogate_def surrogate_lead_range)

end
