(* ===== verification/Utf_Encode.thy ===== *)
theory Utf_Encode
  imports Utf_Macros
begin

text \<open>
  The conversions of IcuLib/ustrtrns.cpp out of UTF-16 and UTF-32: \<open>u_strToUTF8WithSub\<close>,
  \<open>u_strToUTF8\<close>, \<open>u_strFromUTF32WithSub\<close> and \<open>u_strFromUTF32\<close>, with the termination macro of
  IcuLib/ustring.cpp.

  \<^item> \<open>pSrc\<close> is the list of the units from the pointer on, so \<open>pSrcLimit - pSrc\<close> is its length, and
    a read with no unit left is the fault \<open>Read_Past_End\<close>. \<open>pDest\<close> is the list of the units
    written so far, \<open>pDest - dest\<close> is its length, and \<open>pDestLimit - pDest\<close> is the capacity less
    that length; that no write lies past the capacity is a theorem.
  \<^item> An early \<open>return NULL\<close> with \<open>U_INVALID_CHAR_FOUND\<close> is the fault \<open>Invalid_Char\<close>. What is in the
    buffer then is not described: no caller reads it.
  \<^item> The lengths are unbounded integers: a source of at most 2^29 units, the most that
    \<open>icux::toUtf8\<close> can pass, needs less than 2^31 bytes.
\<close>

unbundle bit_operations_syntax

section \<open>Results\<close>

datatype UErrorCode =
    U_ZERO_ERROR
  | U_STRING_NOT_TERMINATED_WARNING
  | U_ILLEGAL_ARGUMENT_ERROR
  | U_INVALID_CHAR_FOUND
  | U_BUFFER_OVERFLOW_ERROR

text \<open>Warnings are negative codes and \<open>U_ZERO_ERROR\<close> is 0.\<close>

definition U_FAILURE :: "UErrorCode \<Rightarrow> bool" where
  "U_FAILURE e \<longleftrightarrow> e \<in> {U_ILLEGAL_ARGUMENT_ERROR, U_INVALID_CHAR_FOUND, U_BUFFER_OVERFLOW_ERROR}"

datatype conv_fault = Invalid_Char | Read_Past_End

text \<open>What a conversion leaves: the units stored in the buffer, whether a NUL follows them, the
  required length (\<open>None\<close> when \<open>*pDestLength\<close> is not written), the number of substitutions
  (\<open>None\<close> when not written) and the error code. Returning \<open>NULL\<close> is \<open>rnull\<close>.\<close>

record 'u conversion =
  stored :: "'u list"
  nul_at :: "int option"
  destLength :: "int option"
  numSubs :: "int option"
  errorCode :: UErrorCode
  rnull :: bool

definition returns_NULL :: "int option \<Rightarrow> UErrorCode \<Rightarrow> 'u conversion" where
  "returns_NULL n e = \<lparr>stored = [], nul_at = None, destLength = None, numSubs = n, errorCode = e, rnull = True\<rparr>"

text \<open>\<open>__TERMINATE_STRING\<close>: where the NUL goes and the error code after it.\<close>

definition TERMINATE_STRING :: "int \<Rightarrow> int \<Rightarrow> UErrorCode \<Rightarrow> int option \<times> UErrorCode" where
  "TERMINATE_STRING destCapacity n e =
    (if U_FAILURE e then (None, e)
     else if n < 0 then (None, e)
     else if n < destCapacity
       then (Some n, if e = U_STRING_NOT_TERMINATED_WARNING then U_ZERO_ERROR else e)
     else if n = destCapacity then (None, U_STRING_NOT_TERMINATED_WARNING)
     else (None, U_BUFFER_OVERFLOW_ERROR))"

definition conversion_args_bad :: "bool \<Rightarrow> int \<Rightarrow> 'a list option \<Rightarrow> int \<Rightarrow> int \<Rightarrow> bool" where
  "conversion_args_bad dest_null destCapacity src srcLength subchar \<longleftrightarrow>
     (src = None \<and> srcLength \<noteq> 0) \<or> srcLength < - 1 \<or> destCapacity < 0
     \<or> (dest_null \<and> destCapacity > 0) \<or> subchar > 0x10ffff \<or> U_IS_SURROGATE subchar"

definition finish_conversion :: "int \<Rightarrow> 'u list \<Rightarrow> int \<Rightarrow> int \<Rightarrow> UErrorCode \<Rightarrow> 'u conversion" where
  "finish_conversion destCapacity out reqLength subs e =
    (let n = reqLength + int (length out); (at, e') = TERMINATE_STRING destCapacity n e in
     \<lparr>stored = out, nul_at = at, destLength = Some n, numSubs = Some subs, errorCode = e', rnull = False\<rparr>)"

section \<open>UTF-16 to UTF-8\<close>

text \<open>The inner loop of the fast conversion. \<open>count\<close> is decremented at the end of an iteration and
  once more before a surrogate is converted; when that reaches 0 the surrogate is put back.\<close>

fun to8_inner :: "int \<Rightarrow> nat \<Rightarrow> u16 list \<Rightarrow> u8 list \<Rightarrow> int \<Rightarrow> conv_fault + u16 list \<times> u8 list \<times> int" where
  "to8_inner subchar 0 pSrc pDest subs = Inr (pSrc, pDest, subs)"
| "to8_inner subchar (Suc count) [] pDest subs = Inl Read_Past_End"
| "to8_inner subchar (Suc count) (u # pSrc) pDest subs =
    (let ch = uint u in
     if ch \<le> 0x7f then to8_inner subchar count pSrc (pDest @ [word_of_int ch]) subs
     else if ch \<le> 0x7ff then to8_inner subchar count pSrc (pDest @ put2 ch) subs
     else if ch \<le> 0xd7ff \<or> ch \<ge> 0xe000 then to8_inner subchar count pSrc (pDest @ put3 ch) subs
     else if count = 0 then Inr (u # pSrc, pDest, subs)
     else if U16_IS_SURROGATE_LEAD ch
     then (case pSrc of
         [] \<Rightarrow> Inl Read_Past_End
       | v # pSrc' \<Rightarrow>
           if U16_IS_TRAIL (uint v)
           then to8_inner subchar (count - 1) pSrc' (pDest @ put4 (U16_GET_SUPPLEMENTARY ch (uint v))) subs
           else if subchar \<ge> 0 then to8_inner subchar (count - 1) pSrc (appendUTF8 pDest subchar) (subs + 1)
           else Inl Invalid_Char)
     else if subchar \<ge> 0 then to8_inner subchar (count - 1) pSrc (appendUTF8 pDest subchar) (subs + 1)
     else Inl Invalid_Char)"

text \<open>How far the inner loop may go before the limits are looked at again.\<close>

definition to8_count :: "int \<Rightarrow> u16 list \<Rightarrow> u8 list \<Rightarrow> int" where
  "to8_count destCapacity pSrc pDest =
    (let count = (destCapacity - int (length pDest)) div 3; srcLength = int (length pSrc) in
     if count > srcLength then srcLength else count)"

lemma unit_branches:
  "surrogate u \<Longrightarrow> \<not> uint u \<le> 0x7f" "surrogate u \<Longrightarrow> \<not> uint u \<le> 0x7ff"
  "uint u \<le> 0xd7ff \<or> 0xe000 \<le> uint u \<longleftrightarrow> \<not> surrogate u"
  by (auto simp: surrogate_def)

lemma put_unit:
  "uint (u :: u16) \<le> 0x7f \<Longrightarrow> [ucast u] = utf8_of (uint u)"
  "\<not> uint u \<le> 0x7f \<Longrightarrow> uint u \<le> 0x7ff \<Longrightarrow> put2 (uint u) = utf8_of (uint u)"
  "\<not> uint u \<le> 0x7ff \<Longrightarrow> put3 (uint u) = utf8_of (uint u)"
  using uint_16 [of u] by (simp_all add: put2_eq put3_eq) (simp add: utf8_of_def)

text \<open>One iteration in terms of the first character of the rest.\<close>

lemma to8_inner_step:
  "to8_inner subchar (Suc count) (u # us) d s =
    (if \<not> surrogate u then to8_inner subchar count us (d @ utf8_of (uint u)) s
     else if count = 0 then Inr (u # us, d, s)
     else if uint u \<le> 0xdbff \<and> us = [] then Inl Read_Past_End
     else case utf16_next u us of
         (Some c, us') \<Rightarrow> to8_inner subchar (count - 1) us' (d @ utf8_of c) s
       | (None, us') \<Rightarrow>
           if subchar \<ge> 0 then to8_inner subchar (count - 1) us' (appendUTF8 d subchar) (s + 1)
           else Inl Invalid_Char)"
proof (cases "surrogate u")
  case False
  then show ?thesis by (simp add: Let_def unit_branches put_unit)
next
  case True
  note b = True unit_branches(1,2) [OF True] unit_branches(3) [of u] is_lead_unit [OF True] is_trail_unit
  show ?thesis
  proof (cases us)
    case Nil
    show ?thesis unfolding Nil by (simp add: Let_def b utf16_next_def)
  next
    case (Cons v vs)
    have p: "put4 (U16_GET_SUPPLEMENTARY (uint u) (uint v))
        = utf8_of (0x10000 + (uint u - 0xd800) * 1024 + (uint v - 0xdc00))"
      if "uint u \<le> 0xdbff" "0xdc00 \<le> uint v" "uint v \<le> 0xdfff"
      unfolding supplementary_eq using True that by (intro put4_eq) (auto simp: surrogate_def)
    show ?thesis unfolding Cons by (simp add: Let_def b utf16_next_def p)
  qed
qed

lemma to8_inner_length:
  "to8_inner subchar count pSrc pDest subs = Inr (pSrc', pDest', subs') \<Longrightarrow> length pSrc' \<le> length pSrc"
proof (induction count arbitrary: pSrc pDest subs rule: less_induct)
  case (less count)
  show ?case
  proof (cases count)
    case 0
    with less.prems show ?thesis by simp
  next
    case (Suc n)
    show ?thesis
    proof (cases pSrc)
      case Nil
      with less.prems Suc show ?thesis by simp
    next
      case (Cons u us)
      have IH: "length pSrc' \<le> Suc (length us)"
        if "to8_inner subchar m us' d s = Inr (pSrc', pDest', subs')" "m < Suc n" "length us' \<le> length us"
        for m us' d s
        using less.IH [OF that(2) [folded Suc] that(1)] that(3) by simp
      from less.prems utf16_next_shorter [of u us] show ?thesis unfolding Suc Cons to8_inner_step
        by (auto split: if_split_asm prod.split_asm option.split_asm intro: IH)
    qed
  qed
qed

lemma to8_inner_shrinks:
  assumes "to8_inner subchar count pSrc pDest subs = Inr (pSrc', pDest', subs')" and "2 \<le> count"
  shows "length pSrc' < length pSrc"
proof -
  from assms(2) obtain n where n: "count = Suc n" "n \<noteq> 0" by (cases count) auto
  from assms(1) n obtain u us where u: "pSrc = u # us" by (cases pSrc) auto
  have "length pSrc' \<le> length us"
    if "to8_inner subchar m us' d s = Inr (pSrc', pDest', subs')" "length us' \<le> length us" for m us' d s
    using to8_inner_length [OF that(1)] that(2) by simp
  with assms(1) n utf16_next_shorter [of u us] show ?thesis unfolding u n(1) to8_inner_step
    by (auto split: if_split_asm prod.split_asm option.split_asm simp: less_Suc_eq_le)
qed

function to8_outer :: "int \<Rightarrow> int \<Rightarrow> u16 list \<Rightarrow> u8 list \<Rightarrow> int \<Rightarrow> conv_fault + u16 list \<times> u8 list \<times> int" where
  "to8_outer subchar destCapacity pSrc pDest subs =
    (let count = to8_count destCapacity pSrc pDest in
     if count < 3 then Inr (pSrc, pDest, subs)
     else (case to8_inner subchar (nat count) pSrc pDest subs of
         Inl f \<Rightarrow> Inl f
       | Inr (pSrc', pDest', subs') \<Rightarrow> to8_outer subchar destCapacity pSrc' pDest' subs'))"
  by pat_completeness auto
termination
proof (relation "measure (\<lambda>(subchar, destCapacity, pSrc, pDest, subs). length pSrc)", goal_cases)
  case (2 subchar destCapacity pSrc pDest subs count r pSrc' s pDest' subs')
  have "2 \<le> nat count" using 2(2) by simp
  with 2(3-) show ?case by (auto dest: to8_inner_shrinks)
qed simp

text \<open>The loop near the end of either string: each character is checked against the room left. The
  last component is the length of the character that did not fit, 0 when all did.\<close>

fun to8_careful ::
  "int \<Rightarrow> int \<Rightarrow> u16 list \<Rightarrow> u8 list \<Rightarrow> int \<Rightarrow> conv_fault + u16 list \<times> u8 list \<times> int \<times> int" where
  "to8_careful subchar destCapacity [] pDest subs = Inr ([], pDest, subs, 0)"
| "to8_careful subchar destCapacity (u # pSrc) pDest subs =
    (let ch = uint u; room = destCapacity - int (length pDest) in
     if ch \<le> 0x7f
     then (if room > 0 then to8_careful subchar destCapacity pSrc (pDest @ [word_of_int ch]) subs
           else Inr (pSrc, pDest, subs, 1))
     else if ch \<le> 0x7ff
     then (if room \<ge> 2 then to8_careful subchar destCapacity pSrc (pDest @ put2 ch) subs
           else Inr (pSrc, pDest, subs, 2))
     else if ch \<le> 0xd7ff \<or> ch \<ge> 0xe000
     then (if room \<ge> 3 then to8_careful subchar destCapacity pSrc (pDest @ put3 ch) subs
           else Inr (pSrc, pDest, subs, 3))
     else if U16_IS_SURROGATE_LEAD ch \<and> pSrc \<noteq> [] \<and> U16_IS_TRAIL (uint (hd pSrc))
     then (let c = U16_GET_SUPPLEMENTARY ch (uint (hd pSrc)) in
           if room \<ge> U8_LENGTH c
           then to8_careful subchar destCapacity (tl pSrc) (appendUTF8 pDest c) subs
           else Inr (tl pSrc, pDest, subs, U8_LENGTH c))
     else if subchar \<ge> 0
     then (if room \<ge> U8_LENGTH subchar
           then to8_careful subchar destCapacity pSrc (appendUTF8 pDest subchar) (subs + 1)
           else Inr (pSrc, pDest, subs + 1, U8_LENGTH subchar))
     else Inl Invalid_Char)"

text \<open>The rest of the string is only measured.\<close>

fun to8_preflight :: "int \<Rightarrow> u16 list \<Rightarrow> int \<Rightarrow> int \<Rightarrow> conv_fault + int \<times> int" where
  "to8_preflight subchar [] reqLength subs = Inr (reqLength, subs)"
| "to8_preflight subchar (u # pSrc) reqLength subs =
    (let ch = uint u in
     if ch \<le> 0x7f then to8_preflight subchar pSrc (reqLength + 1) subs
     else if ch \<le> 0x7ff then to8_preflight subchar pSrc (reqLength + 2) subs
     else if \<not> U_IS_SURROGATE ch then to8_preflight subchar pSrc (reqLength + 3) subs
     else if U16_IS_SURROGATE_LEAD ch \<and> pSrc \<noteq> [] \<and> U16_IS_TRAIL (uint (hd pSrc))
     then to8_preflight subchar (tl pSrc) (reqLength + 4) subs
     else if subchar \<ge> 0 then to8_preflight subchar pSrc (reqLength + U8_LENGTH subchar) (subs + 1)
     else Inl Invalid_Char)"

text \<open>A NUL-terminated source, \<open>srcLength == -1\<close>: the memory from the pointer on, in which a NUL ends
  the string.\<close>

fun to8_nul ::
  "int \<Rightarrow> int \<Rightarrow> u16 list \<Rightarrow> u8 list \<Rightarrow> int \<Rightarrow> conv_fault + u16 list \<times> u8 list \<times> int \<times> int" where
  "to8_nul subchar destCapacity [] pDest subs = Inl Read_Past_End"
| "to8_nul subchar destCapacity (u # pSrc) pDest subs =
    (let ch = uint u; room = destCapacity - int (length pDest) in
     if ch = 0 then Inr (u # pSrc, pDest, subs, 0)
     else if ch \<le> 0x7f
     then (if room > 0 then to8_nul subchar destCapacity pSrc (pDest @ [word_of_int ch]) subs
           else Inr (pSrc, pDest, subs, 1))
     else if ch \<le> 0x7ff
     then (if room \<ge> 2 then to8_nul subchar destCapacity pSrc (pDest @ put2 ch) subs
           else Inr (pSrc, pDest, subs, 2))
     else if ch \<le> 0xd7ff \<or> ch \<ge> 0xe000
     then (if room \<ge> 3 then to8_nul subchar destCapacity pSrc (pDest @ put3 ch) subs
           else Inr (pSrc, pDest, subs, 3))
     else if U16_IS_SURROGATE_LEAD ch \<and> pSrc = [] then Inl Read_Past_End
     else if U16_IS_SURROGATE_LEAD ch \<and> U16_IS_TRAIL (uint (hd pSrc))
     then (let c = U16_GET_SUPPLEMENTARY ch (uint (hd pSrc)) in
           if room \<ge> U8_LENGTH c
           then to8_nul subchar destCapacity (tl pSrc) (appendUTF8 pDest c) subs
           else Inr (tl pSrc, pDest, subs, U8_LENGTH c))
     else if subchar \<ge> 0
     then (if room \<ge> U8_LENGTH subchar
           then to8_nul subchar destCapacity pSrc (appendUTF8 pDest subchar) (subs + 1)
           else Inr (pSrc, pDest, subs + 1, U8_LENGTH subchar))
     else Inl Invalid_Char)"

fun to8_nul_preflight :: "int \<Rightarrow> u16 list \<Rightarrow> int \<Rightarrow> int \<Rightarrow> conv_fault + int \<times> int" where
  "to8_nul_preflight subchar [] reqLength subs = Inl Read_Past_End"
| "to8_nul_preflight subchar (u # pSrc) reqLength subs =
    (let ch = uint u in
     if ch = 0 then Inr (reqLength, subs)
     else if ch \<le> 0x7f then to8_nul_preflight subchar pSrc (reqLength + 1) subs
     else if ch \<le> 0x7ff then to8_nul_preflight subchar pSrc (reqLength + 2) subs
     else if \<not> U_IS_SURROGATE ch then to8_nul_preflight subchar pSrc (reqLength + 3) subs
     else if U16_IS_SURROGATE_LEAD ch \<and> pSrc = [] then Inl Read_Past_End
     else if U16_IS_SURROGATE_LEAD ch \<and> U16_IS_TRAIL (uint (hd pSrc))
     then to8_nul_preflight subchar (tl pSrc) (reqLength + 4) subs
     else if subchar \<ge> 0 then to8_nul_preflight subchar pSrc (reqLength + U8_LENGTH subchar) (subs + 1)
     else Inl Invalid_Char)"

text \<open>The two branches of \<open>u_strToUTF8WithSub\<close>: the bytes stored, the length of what was not stored,
  and the substitutions.\<close>

definition to8_nul_terminated :: "int \<Rightarrow> int \<Rightarrow> u16 list \<Rightarrow> conv_fault + u8 list \<times> int \<times> int" where
  "to8_nul_terminated subchar destCapacity pSrc =
    (case to8_nul subchar destCapacity pSrc [] 0 of
       Inl f \<Rightarrow> Inl f
     | Inr (pSrc', pDest, subs, reqLength) \<Rightarrow>
         (case to8_nul_preflight subchar pSrc' reqLength subs of
            Inl f \<Rightarrow> Inl f
          | Inr (reqLength', subs') \<Rightarrow> Inr (pDest, reqLength', subs')))"

definition to8_counted :: "int \<Rightarrow> int \<Rightarrow> u16 list \<Rightarrow> conv_fault + u8 list \<times> int \<times> int" where
  "to8_counted subchar destCapacity pSrc =
    (case to8_outer subchar destCapacity pSrc [] 0 of
       Inl f \<Rightarrow> Inl f
     | Inr (pSrc1, pDest1, subs1) \<Rightarrow>
         (case to8_careful subchar destCapacity pSrc1 pDest1 subs1 of
            Inl f \<Rightarrow> Inl f
          | Inr (pSrc2, pDest2, subs2, reqLength) \<Rightarrow>
              (case to8_preflight subchar pSrc2 reqLength subs2 of
                 Inl f \<Rightarrow> Inl f
               | Inr (reqLength', subs3) \<Rightarrow> Inr (pDest2, reqLength', subs3))))"

text \<open>The units a source gives: with a length those counted, without one all of the memory. A length
  past the end of the memory is the caller's fault.\<close>

definition source_units :: "'a list option \<Rightarrow> int \<Rightarrow> 'a list option" where
  "source_units src srcLength =
    (case src of
       None \<Rightarrow> Some []
     | Some mem \<Rightarrow>
         if srcLength < 0 then Some mem
         else if nat srcLength \<le> length mem then Some (take (nat srcLength) mem) else None)"

definition conversion_of :: "int \<Rightarrow> UErrorCode \<Rightarrow> conv_fault + 'u list \<times> int \<times> int \<Rightarrow> 'u conversion option" where
  "conversion_of destCapacity e r =
    (case r of
       Inl Read_Past_End \<Rightarrow> None
     | Inl Invalid_Char \<Rightarrow> Some (returns_NULL (Some 0) U_INVALID_CHAR_FOUND)
     | Inr (out, reqLength, subs) \<Rightarrow> Some (finish_conversion destCapacity out reqLength subs e))"

text \<open>\<open>None\<close> is a read outside the source.\<close>

definition u_strToUTF8WithSub ::
  "bool \<Rightarrow> int \<Rightarrow> u16 list option \<Rightarrow> int \<Rightarrow> int \<Rightarrow> UErrorCode \<Rightarrow> u8 conversion option" where
  "u_strToUTF8WithSub dest_null destCapacity pSrc srcLength subchar e =
    (if U_FAILURE e then Some (returns_NULL None e)
     else if conversion_args_bad dest_null destCapacity pSrc srcLength subchar
     then Some (returns_NULL None U_ILLEGAL_ARGUMENT_ERROR)
     else (case source_units pSrc srcLength of
         None \<Rightarrow> None
       | Some us \<Rightarrow> conversion_of destCapacity e
           (if srcLength = - 1 then to8_nul_terminated subchar destCapacity us
            else to8_counted subchar destCapacity us)))"

text \<open>\<open>u_strToUTF8\<close> passes no substitution character and no counter.\<close>

definition u_strToUTF8 ::
  "bool \<Rightarrow> int \<Rightarrow> u16 list option \<Rightarrow> int \<Rightarrow> UErrorCode \<Rightarrow> u8 conversion option" where
  "u_strToUTF8 dest_null destCapacity pSrc srcLength e =
    map_option (\<lambda>r. r\<lparr>numSubs := None\<rparr>)
      (u_strToUTF8WithSub dest_null destCapacity pSrc srcLength U_SENTINEL e)"

section \<open>UTF-32 to UTF-16\<close>

text \<open>The loop over the leading BMP characters of a NUL-terminated string; the rest of the memory is
  what follows them.\<close>

fun from32_bmp :: "int \<Rightarrow> int list \<Rightarrow> u16 list \<Rightarrow> int \<Rightarrow> conv_fault + int list \<times> u16 list \<times> int" where
  "from32_bmp destCapacity [] pDest reqLength = Inl Read_Past_End"
| "from32_bmp destCapacity (ch # src) pDest reqLength =
    (if ch \<noteq> 0 \<and> ((0 \<le> ch \<and> ch < 0xd800) \<or> (0xe000 \<le> ch \<and> ch \<le> 0xffff))
     then (if int (length pDest) < destCapacity
           then from32_bmp destCapacity src (pDest @ [word_of_int ch]) reqLength
           else from32_bmp destCapacity src pDest (reqLength + 1))
     else Inr (ch # src, pDest, reqLength))"

text \<open>Where the string ends: \<open>while(*++srcLimit != 0)\<close> starts after the first unit.\<close>

fun until_nul :: "int list \<Rightarrow> int list option" where
  "until_nul [] = None"
| "until_nul (c # cs) = (if c = 0 then Some [] else map_option ((#) c) (until_nul cs))"

text \<open>One pass of \<open>do ... while(TRUE)\<close>; the second one, for a substitution, writes \<open>subchar\<close>.\<close>

definition from32_put :: "int \<Rightarrow> int \<Rightarrow> u16 list \<Rightarrow> int \<Rightarrow> (u16 list \<times> int) option" where
  "from32_put destCapacity ch pDest reqLength =
    (if (0 \<le> ch \<and> ch < 0xd800) \<or> (0xe000 \<le> ch \<and> ch \<le> 0xffff)
     then Some (if int (length pDest) < destCapacity then (pDest @ [word_of_int ch], reqLength)
                else (pDest, reqLength + 1))
     else if 0x10000 \<le> ch \<and> ch \<le> 0x10ffff
     then Some (if int (length pDest) + 2 \<le> destCapacity
                then (pDest @ [U16_LEAD ch, U16_TRAIL ch], reqLength)
                else (pDest, reqLength + 2))
     else None)"

fun from32_loop ::
  "int \<Rightarrow> int \<Rightarrow> int list \<Rightarrow> u16 list \<Rightarrow> int \<Rightarrow> int \<Rightarrow> conv_fault + u16 list \<times> int \<times> int" where
  "from32_loop subchar destCapacity [] pDest reqLength subs = Inr (pDest, reqLength, subs)"
| "from32_loop subchar destCapacity (ch # src) pDest reqLength subs =
    (case from32_put destCapacity ch pDest reqLength of
       Some (pDest', reqLength') \<Rightarrow> from32_loop subchar destCapacity src pDest' reqLength' subs
     | None \<Rightarrow>
         if subchar < 0 then Inl Invalid_Char
         else (case from32_put destCapacity subchar pDest reqLength of
             Some (pDest', reqLength') \<Rightarrow> from32_loop subchar destCapacity src pDest' reqLength' (subs + 1)
           | None \<Rightarrow> Inl Invalid_Char))"

definition from32_nul_terminated :: "int \<Rightarrow> int \<Rightarrow> int list \<Rightarrow> conv_fault + u16 list \<times> int \<times> int" where
  "from32_nul_terminated subchar destCapacity src =
    (case from32_bmp destCapacity src [] 0 of
       Inl f \<Rightarrow> Inl f
     | Inr (rest, pDest, reqLength) \<Rightarrow>
         (case until_nul rest of
            None \<Rightarrow> Inl Read_Past_End
          | Some cs \<Rightarrow> from32_loop subchar destCapacity cs pDest reqLength 0))"

definition u_strFromUTF32WithSub ::
  "bool \<Rightarrow> int \<Rightarrow> int list option \<Rightarrow> int \<Rightarrow> int \<Rightarrow> UErrorCode \<Rightarrow> u16 conversion option" where
  "u_strFromUTF32WithSub dest_null destCapacity src srcLength subchar e =
    (if U_FAILURE e then Some (returns_NULL None e)
     else if conversion_args_bad dest_null destCapacity src srcLength subchar
     then Some (returns_NULL None U_ILLEGAL_ARGUMENT_ERROR)
     else (case source_units src srcLength of
         None \<Rightarrow> None
       | Some cs \<Rightarrow> conversion_of destCapacity e
           (if srcLength < 0 then from32_nul_terminated subchar destCapacity cs
            else from32_loop subchar destCapacity cs [] 0 0)))"

definition u_strFromUTF32 ::
  "bool \<Rightarrow> int \<Rightarrow> int list option \<Rightarrow> int \<Rightarrow> UErrorCode \<Rightarrow> u16 conversion option" where
  "u_strFromUTF32 dest_null destCapacity src srcLength e =
    map_option (\<lambda>r. r\<lparr>numSubs := None\<rparr>)
      (u_strFromUTF32WithSub dest_null destCapacity src srcLength U_SENTINEL e)"

end
