(* ===== verification/Utf_Encode_Facts.thy ===== *)
theory Utf_Encode_Facts
  imports Utf_Encode
begin

text \<open>
  What the conversions of \<open>Utf_Encode\<close> compute. The specification reads the whole source as
  characters and encodes each; a buffer holds the encodings that fit, in order, up to the first that
  does not. The fast loop, the careful loop and the preflight together compute exactly that, without
  a read past the source or a write past the capacity.
\<close>

section \<open>The specification\<close>

definition encoding :: "(int \<Rightarrow> 'u list) \<Rightarrow> int \<Rightarrow> int option \<Rightarrow> 'u list" where
  "encoding enc subchar c = enc (case c of Some x \<Rightarrow> x | None \<Rightarrow> subchar)"

lemma encoding_simps [simp]: "encoding enc subchar (Some x) = enc x" "encoding enc subchar None = enc subchar"
  by (simp_all add: encoding_def)

definition unpaired :: "int option list \<Rightarrow> int" where
  "unpaired cs = int (length (filter Option.is_none cs))"

text \<open>What fits into a buffer: whole characters up to the first that does not fit.\<close>

fun fitting :: "int \<Rightarrow> 'u list list \<Rightarrow> 'u list" where
  "fitting cap [] = []"
| "fitting cap (w # ws) = (if int (length w) \<le> cap then w @ fitting (cap - int (length w)) ws else [])"

definition conversion_spec ::
  "(int \<Rightarrow> 'u list) \<Rightarrow> int \<Rightarrow> int \<Rightarrow> int option list \<Rightarrow> conv_fault + 'u list \<times> int \<times> int" where
  "conversion_spec enc subchar cap cs =
    (if subchar < 0 \<and> None \<in> set cs then Inl Invalid_Char
     else let ws = map (encoding enc subchar) cs; out = fitting cap ws in
       Inr (out, int (length (concat ws)) - int (length out), unpaired cs))"

lemma fitting_length: "0 \<le> cap \<Longrightarrow> int (length (fitting cap ws)) \<le> cap"
proof (induction ws arbitrary: cap)
  case (Cons w ws)
  show ?case
  proof (cases "int (length w) \<le> cap")
    case True
    then have "int (length (fitting (cap - int (length w)) ws)) \<le> cap - int (length w)" by (intro Cons.IH) simp
    with True show ?thesis by simp
  qed (use Cons.prems in simp)
qed simp

lemma fitting_prefix: "\<exists>ys. concat ws = fitting cap ws @ ys"
  by (induction ws arbitrary: cap) auto

lemma fitting_all: "int (length (concat ws)) \<le> cap \<Longrightarrow> fitting cap ws = concat ws"
  by (induction ws arbitrary: cap) auto

lemma unpaired_simps [simp]:
  "unpaired [] = 0" "unpaired (Some c # cs) = unpaired cs" "unpaired (None # cs) = unpaired cs + 1"
  by (simp_all add: unpaired_def)

section \<open>From UTF-16 to UTF-8\<close>

text \<open>What remains of the specification once \<open>d\<close> is stored and \<open>s\<close> substitutions are counted.\<close>

definition to8_rest :: "int \<Rightarrow> int \<Rightarrow> int option list \<Rightarrow> u8 list \<Rightarrow> int \<Rightarrow> conv_fault + u8 list \<times> int \<times> int" where
  "to8_rest subchar cap cs d s =
    (case conversion_spec utf8_of subchar (cap - int (length d)) cs of
       Inl f \<Rightarrow> Inl f
     | Inr (out, req, n) \<Rightarrow> Inr (d @ out, req, s + n))"

abbreviation good_sub :: "int \<Rightarrow> bool" where
  "good_sub subchar \<equiv> subchar < 0 \<or> scalar subchar"

lemma to8_rest_simps:
  "to8_rest subchar cap [] d s = Inr (d, 0, s)"
  "int (length d + length (utf8_of c)) \<le> cap \<Longrightarrow>
     to8_rest subchar cap (Some c # cs) d s = to8_rest subchar cap cs (d @ utf8_of c) s"
  "subchar < 0 \<Longrightarrow> to8_rest subchar cap (None # cs) d s = Inl Invalid_Char"
  "0 \<le> subchar \<Longrightarrow> int (length d + length (utf8_of subchar)) \<le> cap \<Longrightarrow>
     to8_rest subchar cap (None # cs) d s = to8_rest subchar cap cs (d @ utf8_of subchar) (s + 1)"
  by (auto simp: to8_rest_def conversion_spec_def encoding_def Let_def algebra_simps)

lemma utf8_of_le: "length (utf8_of c) \<le> 4" "c < 0x10000 \<Longrightarrow> length (utf8_of c) \<le> 3"
  by (simp_all add: utf8_of_length)

lemma unit_bytes_le: "length (utf8_of (uint (u :: u16))) \<le> 3"
  using uint_16(2) [of u] by (intro utf8_of_le) 

lemma utf16_next_unit: "\<not> surrogate u \<Longrightarrow> utf16_next u us = (Some (uint u), us)"
  by (simp add: utf16_next_def)

lemma utf16_next_none: "utf16_next u us = (None, us') \<Longrightarrow> us' = us"
  by (auto simp: utf16_next_def split: if_splits list.splits)

lemma utf16_next_some_length:
  "surrogate u \<Longrightarrow> utf16_next u us = (Some c, us') \<Longrightarrow> length us = Suc (length us')"
  by (auto simp: utf16_next_def split: if_splits list.splits)

text \<open>The fast loop: as long as three bytes per unit of the count are left, and the count is no more
  than the units left, it stores what the specification says, stays inside both strings, and leaves
  the rest to do.\<close>

lemma to8_inner_correct:
  assumes "good_sub subchar" and "count \<le> length src" and "int (length d + 3 * count) \<le> cap"
  shows "case to8_inner subchar count src d s of
      Inl f \<Rightarrow> f = Invalid_Char \<and> to8_rest subchar cap (utf16_chars src) d s = Inl Invalid_Char
    | Inr (src', d', s') \<Rightarrow> int (length d') \<le> cap
        \<and> to8_rest subchar cap (utf16_chars src') d' s' = to8_rest subchar cap (utf16_chars src) d s"
  using assms(2,3)
proof (induction count arbitrary: src d s rule: less_induct)
  case (less count)
  show ?case
  proof (cases count)
    case 0
    with less.prems show ?thesis by simp
  next
    case (Suc n)
    with less.prems(1) obtain u us where src: "src = u # us" by (cases src) auto
    obtain c us' where nx: "utf16_next u us = (c, us')" by fastforce
    note IH = less.IH [unfolded Suc]
    show ?thesis
    proof (cases "surrogate u")
      case False
      have r: "to8_rest subchar cap (utf16_chars src) d s
          = to8_rest subchar cap (utf16_chars us) (d @ utf8_of (uint u)) s"
        using less.prems(2) unit_bytes_le [of u]
        by (simp add: src utf16_next_unit False Suc to8_rest_simps(2))
      show ?thesis
        unfolding r unfolding src Suc to8_inner_step
        using False IH [of n us "d @ utf8_of (uint u)" s] less.prems unit_bytes_le [of u]
        by (simp add: src Suc)
    next
      case True
      have us: "n \<noteq> 0 \<Longrightarrow> us \<noteq> []" using less.prems(1) by (auto simp: src Suc)
      show ?thesis
      proof (cases c)
        case None
        have us': "us' = us" using nx None by (simp add: utf16_next_none)
        have sub: "0 \<le> subchar \<Longrightarrow> appendUTF8 d subchar = d @ utf8_of subchar"
          using assms(1) by (auto intro!: appendUTF8_eq)
        have ch: "utf16_chars src = None # utf16_chars us" using nx None us' by (simp add: src)
        have lt: "n - 1 < Suc n" by simp
        consider "n = 0" | "n \<noteq> 0" "subchar < 0" | "n \<noteq> 0" "0 \<le> subchar" by linarith
        then show ?thesis
        proof cases
          case 1
          with True less.prems show ?thesis unfolding src Suc to8_inner_step by simp
        next
          case 2
          with True us nx None us' show ?thesis unfolding ch unfolding src Suc to8_inner_step
            by (simp add: to8_rest_simps)
        next
          case 3
          have k: "n - 1 \<le> length us" "int (length (d @ utf8_of subchar) + 3 * (n - 1)) \<le> cap"
            "int (length d + length (utf8_of subchar)) \<le> cap"
            using less.prems utf8_of_le(1) [of subchar] 3 by (simp_all add: src Suc)
          show ?thesis unfolding ch to8_rest_simps(4) [OF 3(2) k(3)] unfolding src Suc to8_inner_step
            using True us nx None us' sub [OF 3(2)] 3 IH [OF lt k(1,2), of "s + 1"] by simp
        qed
      next
        case (Some x)
        have l: "length us = Suc (length us')" using True nx Some by (simp add: utf16_next_some_length)
        have ch: "utf16_chars src = Some x # utf16_chars us'" using nx Some by (simp add: src)
        have lt: "n - 1 < Suc n" by simp
        show ?thesis
        proof (cases "n = 0")
          case True
          with \<open>surrogate u\<close> less.prems show ?thesis unfolding src Suc to8_inner_step by simp
        next
          case False
          have k: "n - 1 \<le> length us'" "int (length (d @ utf8_of x) + 3 * (n - 1)) \<le> cap"
            "int (length d + length (utf8_of x)) \<le> cap"
            using less.prems utf8_of_le(1) [of x] l False by (simp_all add: src Suc)
          show ?thesis unfolding ch to8_rest_simps(2) [OF k(3)] unfolding src Suc to8_inner_step
            using True us nx Some False IH [OF lt k(1,2), of s] by simp
        qed
      qed
    qed
  qed
qed

lemma to8_outer_correct:
  assumes "good_sub subchar" and "int (length d) \<le> cap"
  shows "case to8_outer subchar cap src d s of
      Inl f \<Rightarrow> f = Invalid_Char \<and> to8_rest subchar cap (utf16_chars src) d s = Inl Invalid_Char
    | Inr (src', d', s') \<Rightarrow> int (length d') \<le> cap
        \<and> to8_rest subchar cap (utf16_chars src') d' s' = to8_rest subchar cap (utf16_chars src) d s"
  using assms
proof (induction subchar cap src d s rule: to8_outer.induct)
  case (1 subchar cap src d s)
  define count where "count = to8_count cap src d"
  show ?case
  proof (cases "count < 3")
    case True
    then show ?thesis using 1(3) by (simp add: to8_outer.simps [of subchar cap src d s] count_def)
  next
    case False
    have c: "nat count \<le> length src" "int (length d + 3 * nat count) \<le> cap"
      using False by (auto simp: count_def to8_count_def Let_def split: if_splits)
    show ?thesis
    proof (cases "to8_inner subchar (nat count) src d s")
      case (Inl f)
      then show ?thesis using to8_inner_correct [OF 1(2) c, of s] False
        by (simp add: to8_outer.simps [of subchar cap src d s] count_def Let_def)
    next
      case (Inr r)
      obtain src' d' s' where r: "r = (src', d', s')" by (cases r)
      have i: "int (length d') \<le> cap"
        "to8_rest subchar cap (utf16_chars src') d' s' = to8_rest subchar cap (utf16_chars src) d s"
        using to8_inner_correct [OF 1(2) c, of s] Inr r by simp_all
      have e: "to8_outer subchar cap src d s = to8_outer subchar cap src' d' s'"
        using Inr False by (simp add: to8_outer.simps [of subchar cap src d s] count_def Let_def r)
      show ?thesis
        unfolding e i(2) [symmetric]
        by (rule 1(1) [OF refl _ _ refl refl]) (use Inr False i(1) 1(2) r in \<open>simp_all add: count_def\<close>)
    qed
  qed
qed

text \<open>One iteration of the careful loop and of the preflight.\<close>

lemma careful_room:
  "uint (u :: u16) \<le> 0x7f \<Longrightarrow> length (utf8_of (uint u)) = 1"
  "\<not> uint u \<le> 0x7f \<Longrightarrow> uint u \<le> 0x7ff \<Longrightarrow> length (utf8_of (uint u)) = 2"
  "\<not> uint u \<le> 0x7ff \<Longrightarrow> length (utf8_of (uint u)) = 3"
  using uint_16(2) [of u] by (simp_all add: utf8_of_length)

lemma pair_char:
  assumes "surrogate u" "U16_IS_SURROGATE_LEAD (uint u)" "U16_IS_TRAIL (uint v)"
  shows "utf16_next u (v # vs) = (Some (U16_GET_SUPPLEMENTARY (uint u) (uint v)), vs)"
    and "appendUTF8 d (U16_GET_SUPPLEMENTARY (uint u) (uint v))
      = d @ utf8_of (U16_GET_SUPPLEMENTARY (uint u) (uint v))"
    and "U8_LENGTH (U16_GET_SUPPLEMENTARY (uint u) (uint v))
      = int (length (utf8_of (U16_GET_SUPPLEMENTARY (uint u) (uint v))))"
    and "length (utf8_of (U16_GET_SUPPLEMENTARY (uint u) (uint v))) = 4"
proof -
  show n: "utf16_next u (v # vs) = (Some (U16_GET_SUPPLEMENTARY (uint u) (uint v)), vs)" for vs
    using assms by (simp add: utf16_next_def supplementary_eq is_lead_unit is_trail_unit)
  then have c: "scalar (U16_GET_SUPPLEMENTARY (uint u) (uint v))" by (blast intro: utf16_next_scalar)
  show "appendUTF8 d (U16_GET_SUPPLEMENTARY (uint u) (uint v))
      = d @ utf8_of (U16_GET_SUPPLEMENTARY (uint u) (uint v))"
    by (rule appendUTF8_eq [OF c])
  show "U8_LENGTH (U16_GET_SUPPLEMENTARY (uint u) (uint v))
      = int (length (utf8_of (U16_GET_SUPPLEMENTARY (uint u) (uint v))))"
    by (rule U8_LENGTH_eq [OF c])
  show "length (utf8_of (U16_GET_SUPPLEMENTARY (uint u) (uint v))) = 4"
    using assms(1,3) unfolding supplementary_eq is_trail_unit surrogate_def by (simp add: utf8_of_length)
qed

lemma unpaired_char:
  assumes "surrogate u" "\<not> (U16_IS_SURROGATE_LEAD (uint u) \<and> us \<noteq> [] \<and> U16_IS_TRAIL (uint (hd us)))"
  shows "utf16_next u us = (None, us)"
  using assms by (auto simp: utf16_next_def is_lead_unit is_trail_unit split: list.split)

lemma unit_cases:
  obtains (ascii) "\<not> surrogate u" "uint u \<le> 0x7f"
  | (two) "\<not> surrogate u" "\<not> uint u \<le> 0x7f" "uint u \<le> 0x7ff"
  | (three) "\<not> surrogate u" "\<not> uint u \<le> 0x7f" "\<not> uint u \<le> 0x7ff"
  | (pair) v vs where "surrogate u" "us = v # vs" "U16_IS_SURROGATE_LEAD (uint u)" "U16_IS_TRAIL (uint v)"
  | (lone) "surrogate u" "\<not> (U16_IS_SURROGATE_LEAD (uint u) \<and> us \<noteq> [] \<and> U16_IS_TRAIL (uint (hd us)))"
  by (cases us) (fastforce simp del: One_nat_def)+

lemma to8_careful_step:
  assumes "good_sub subchar"
  shows "to8_careful subchar cap (u # us) d s =
    (case utf16_next u us of
       (Some c, us') \<Rightarrow>
         if int (length d + length (utf8_of c)) \<le> cap then to8_careful subchar cap us' (d @ utf8_of c) s
         else Inr (us', d, s, int (length (utf8_of c)))
     | (None, us') \<Rightarrow>
         if subchar < 0 then Inl Invalid_Char
         else if int (length d + length (utf8_of subchar)) \<le> cap
         then to8_careful subchar cap us' (d @ utf8_of subchar) (s + 1)
         else Inr (us', d, s + 1, int (length (utf8_of subchar))))"
proof (rule unit_cases [where u = u and us = us])
  note b = Let_def unit_branches unit_branches(3) [of u] utf16_next_unit
  show ?thesis if "\<not> surrogate u" "uint u \<le> 0x7f"
    using that put_unit(1) [OF that(2)] careful_room(1) [OF that(2)] by (simp add: b; arith?)
  show ?thesis if "\<not> surrogate u" "\<not> uint u \<le> 0x7f" "uint u \<le> 0x7ff"
    using that put_unit(2) [OF that(2,3)] careful_room(2) [OF that(2,3)] by (simp add: b; arith?)
  show ?thesis if "\<not> surrogate u" "\<not> uint u \<le> 0x7f" "\<not> uint u \<le> 0x7ff"
    using that put_unit(3) [OF that(3)] careful_room(3) [OF that(3)] by (simp add: b; arith?)
  show ?thesis
    if "surrogate u" "us = v # vs" "U16_IS_SURROGATE_LEAD (uint u)" "U16_IS_TRAIL (uint v)" for v vs
    using that pair_char [OF that(1,3,4)] by (simp add: b; arith?)
  show ?thesis
    if "surrogate u" "\<not> (U16_IS_SURROGATE_LEAD (uint u) \<and> us \<noteq> [] \<and> U16_IS_TRAIL (uint (hd us)))"
  proof (cases "subchar < 0")
    case True
    with that unpaired_char [OF that] show ?thesis by (auto simp: b)
  next
    case False
    with assms have "scalar subchar" by simp
    from False that unpaired_char [OF that] appendUTF8_eq [OF this, of d] U8_LENGTH_eq [OF this]
    show ?thesis by (auto simp: b)
  qed
qed

lemma to8_preflight_step:
  assumes "good_sub subchar"
  shows "to8_preflight subchar (u # us) r s =
    (case utf16_next u us of
       (Some c, us') \<Rightarrow> to8_preflight subchar us' (r + int (length (utf8_of c))) s
     | (None, us') \<Rightarrow>
         if subchar < 0 then Inl Invalid_Char
         else to8_preflight subchar us' (r + int (length (utf8_of subchar))) (s + 1))"
proof (rule unit_cases [where u = u and us = us])
  note b = Let_def unit_branches unit_branches(3) [of u] utf16_next_unit is_surrogate_unit
  show ?thesis if "\<not> surrogate u" "uint u \<le> 0x7f"
    using that careful_room(1) [OF that(2)] by (simp add: b)
  show ?thesis if "\<not> surrogate u" "\<not> uint u \<le> 0x7f" "uint u \<le> 0x7ff"
    using that careful_room(2) [OF that(2,3)] by (simp add: b)
  show ?thesis if "\<not> surrogate u" "\<not> uint u \<le> 0x7f" "\<not> uint u \<le> 0x7ff"
    using that careful_room(3) [OF that(3)] by (simp add: b)
  show ?thesis
    if "surrogate u" "us = v # vs" "U16_IS_SURROGATE_LEAD (uint u)" "U16_IS_TRAIL (uint v)" for v vs
    using that pair_char [OF that(1,3,4)] by (simp add: b)
  show ?thesis
    if "surrogate u" "\<not> (U16_IS_SURROGATE_LEAD (uint u) \<and> us \<noteq> [] \<and> U16_IS_TRAIL (uint (hd us)))"
  proof (cases "subchar < 0")
    case True
    with that unpaired_char [OF that] show ?thesis by (auto simp: b)
  next
    case False
    with assms have "scalar subchar" by simp
    from False that unpaired_char [OF that] U8_LENGTH_eq [OF this]
    show ?thesis by (auto simp: b)
  qed
qed

declare to8_careful.simps(2) [simp del] to8_preflight.simps(2) [simp del] to8_outer.simps [simp del]

text \<open>The preflight measures the encodings of what is left.\<close>

abbreviation (input) encodings :: "int \<Rightarrow> u16 list \<Rightarrow> u8 list list" where
  "encodings subchar us \<equiv> map (encoding utf8_of subchar) (utf16_chars us)"

lemma to8_preflight_eq:
  assumes "good_sub subchar"
  shows "to8_preflight subchar us r s =
    (if subchar < 0 \<and> None \<in> set (utf16_chars us) then Inl Invalid_Char
     else Inr (r + int (length (concat (encodings subchar us))), s + unpaired (utf16_chars us)))"
proof (induction us arbitrary: r s rule: utf16_chars.induct)
  case (2 u us)
  obtain c us' where nx: "utf16_next u us = (c, us')" by fastforce
  have IH: "to8_preflight subchar us' r s =
    (if subchar < 0 \<and> None \<in> set (utf16_chars us') then Inl Invalid_Char
     else Inr (r + int (length (concat (encodings subchar us'))), s + unpaired (utf16_chars us')))" for r s
    by (rule "2.IH" [OF nx [symmetric]])
  show ?case
    by (cases c) (auto simp: IH nx to8_preflight_step [OF assms])
qed simp

lemma to8_rest_full:
  "cap < int (length d + length (encoding utf8_of subchar c)) \<Longrightarrow>
    to8_rest subchar cap (c # cs) d s =
     (if subchar < 0 \<and> None \<in> set (c # cs) then Inl Invalid_Char
      else Inr (d, int (length (concat (map (encoding utf8_of subchar) (c # cs)))), s + unpaired (c # cs)))"
  by (auto simp: to8_rest_def conversion_spec_def Let_def)

definition to8_finish :: "int \<Rightarrow> conv_fault + u16 list \<times> u8 list \<times> int \<times> int \<Rightarrow> conv_fault + u8 list \<times> int \<times> int" where
  "to8_finish subchar r =
    (case r of
       Inl f \<Rightarrow> Inl f
     | Inr (pSrc, pDest, subs, reqLength) \<Rightarrow>
         (case to8_preflight subchar pSrc reqLength subs of
            Inl f \<Rightarrow> Inl f
          | Inr (reqLength', subs') \<Rightarrow> Inr (pDest, reqLength', subs')))"

lemma to8_careful_correct:
  assumes "good_sub subchar"
  shows "to8_finish subchar (to8_careful subchar cap us d s) = to8_rest subchar cap (utf16_chars us) d s"
proof (induction us arbitrary: d s rule: utf16_chars.induct)
  case 1
  show ?case by (simp add: to8_finish_def to8_rest_simps(1))
next
  case (2 u us)
  obtain c us' where nx: "utf16_next u us = (c, us')" by fastforce
  have IH: "to8_finish subchar (to8_careful subchar cap us' d s) = to8_rest subchar cap (utf16_chars us') d s" for d s
    by (rule "2.IH" [OF nx [symmetric]])
  have ch: "utf16_chars (u # us) = c # utf16_chars us'" by (simp add: nx)
  note st = to8_careful_step [OF assms, of cap u us d s] to8_preflight_eq [OF assms]
  show ?case
  proof (cases c)
    case None
    show ?thesis
    proof (cases "subchar < 0")
      case True
      then show ?thesis unfolding ch by (simp add: st nx None to8_rest_simps to8_finish_def)
    next
      case False
      show ?thesis
      proof (cases "int (length d + length (utf8_of subchar)) \<le> cap")
        case True
        with False show ?thesis unfolding ch by (simp add: st nx None to8_rest_simps IH)
      next
        case full: False
        with False show ?thesis unfolding ch
          by (simp add: st nx None to8_rest_full to8_finish_def)
      qed
    qed
  next
    case (Some x)
    show ?thesis
    proof (cases "int (length d + length (utf8_of x)) \<le> cap")
      case True
      then show ?thesis unfolding ch by (simp add: st nx Some to8_rest_simps IH)
    next
      case False
      then show ?thesis unfolding ch
        by (simp add: st nx Some to8_rest_full to8_finish_def)
    qed
  qed
qed

lemma to8_rest_start: "to8_rest subchar cap cs [] 0 = conversion_spec utf8_of subchar cap cs"
  by (simp add: to8_rest_def split: sum.split prod.split)

text \<open>The two loops and the preflight compute the specification.\<close>

lemma to8_counted_correct:
  assumes "good_sub subchar" and "0 \<le> cap"
  shows "to8_counted subchar cap us = conversion_spec utf8_of subchar cap (utf16_chars us)"
proof -
  have o: "case to8_outer subchar cap us [] 0 of
      Inl f \<Rightarrow> f = Invalid_Char \<and> to8_rest subchar cap (utf16_chars us) [] 0 = Inl Invalid_Char
    | Inr (src', d', s') \<Rightarrow> int (length d') \<le> cap
        \<and> to8_rest subchar cap (utf16_chars src') d' s' = to8_rest subchar cap (utf16_chars us) [] 0"
    using assms(2) by (intro to8_outer_correct [OF assms(1)]) simp
  have "to8_counted subchar cap us =
    (case to8_outer subchar cap us [] 0 of
       Inl f \<Rightarrow> Inl f
     | Inr (src', d', s') \<Rightarrow> to8_finish subchar (to8_careful subchar cap src' d' s'))"
    by (simp add: to8_counted_def to8_finish_def split: sum.split)
  also have "\<dots> = to8_rest subchar cap (utf16_chars us) [] 0"
    using o by (auto simp: to8_careful_correct [OF assms(1)] split: sum.splits)
  finally show ?thesis by (simp add: to8_rest_start)
qed

text \<open>On a NUL-terminated source the loops do what the careful loop does on the units before the NUL.\<close>

lemma surrogate_not_nul: "surrogate u \<Longrightarrow> uint u \<noteq> 0"
  by (auto simp: surrogate_def)

lemma nul_is_no_trail: "\<not> U16_IS_TRAIL 0"
  by (simp add: U16_IS_TRAIL_def)

lemma to8_nul_eq:
  assumes "0 \<notin> set us"
  shows "to8_nul subchar cap (us @ 0 # rest) d s =
    map_sum id (map_prod (\<lambda>src. src @ 0 # rest) id) (to8_careful subchar cap us d s)"
  using assms
proof (induction subchar cap us d s rule: to8_careful.induct)
  case (2 subchar cap u us d s)
  have u: "uint u \<noteq> 0" using "2.prems" by (auto simp: uint_0_iff)
  note IH = "2.IH" [OF refl refl]
  show ?case
    using "2.prems" u IH by (cases us) (auto simp: to8_careful.simps(2) Let_def nul_is_no_trail)
qed simp


lemma to8_nul_preflight_eq:
  assumes "0 \<notin> set us"
  shows "to8_nul_preflight subchar (us @ 0 # rest) r s = to8_preflight subchar us r s"
  using assms
proof (induction subchar us r s rule: to8_preflight.induct)
  case (2 subchar u us r s)
  have u: "uint u \<noteq> 0" using "2.prems" by (auto simp: uint_0_iff)
  note IH = "2.IH" [OF refl]
  show ?case
    using "2.prems" u IH by (cases us) (auto simp: to8_preflight.simps(2) Let_def nul_is_no_trail)
qed simp

lemma to8_careful_suffix:
  "to8_careful subchar cap us d s = Inr (src, d', s', r) \<Longrightarrow> set src \<subseteq> set us"
  by (induction subchar cap us d s rule: to8_careful.induct)
    (auto simp: to8_careful.simps(2) Let_def neq_Nil_conv split: if_split_asm)

lemma to8_nul_terminated_correct:
  assumes "good_sub subchar" and "0 \<le> cap" and "0 \<notin> set us"
  shows "to8_nul_terminated subchar cap (us @ 0 # rest)
    = conversion_spec utf8_of subchar cap (utf16_chars us)"
proof -
  have "to8_nul_terminated subchar cap (us @ 0 # rest) = to8_finish subchar (to8_careful subchar cap us [] 0)"
  proof (cases "to8_careful subchar cap us [] 0")
    case (Inr r)
    obtain src d s q where r: "r = (src, d, s, q)" by (cases r)
    have "0 \<notin> set src" using to8_careful_suffix [OF Inr [unfolded r]] assms(3) by blast
    then show ?thesis
      by (simp add: to8_nul_terminated_def to8_finish_def to8_nul_eq [OF assms(3)] Inr r to8_nul_preflight_eq)
  qed (simp add: to8_nul_terminated_def to8_finish_def to8_nul_eq [OF assms(3)])
  then show ?thesis by (simp add: to8_careful_correct [OF assms(1)] to8_rest_start)
qed

text \<open>A substitution character the argument check lets through.\<close>

abbreviation sub_arg :: "int \<Rightarrow> bool" where
  "sub_arg subchar \<equiv> subchar = U_SENTINEL \<or> scalar subchar"

lemma good_args:
  assumes "sub_arg subchar" and "0 \<le> cap" and "- 1 \<le> n"
  shows "\<not> conversion_args_bad False cap (Some us) n subchar"
proof -
  have "\<not> U_IS_SURROGATE subchar \<and> subchar \<le> 0x10ffff"
    using assms(1)
  proof
    assume "scalar subchar"
    then show ?thesis by (simp add: surrogate_range scalar_def)
  qed (simp add: U_IS_SURROGATE_def)
  with assms show ?thesis by (simp add: conversion_args_bad_def)
qed

lemma source_counted: "source_units (Some us) (int (length us)) = Some us"
  by (simp add: source_units_def)

lemma source_nul: "source_units (Some us) (- 1) = Some us"
  by (simp add: source_units_def)

theorem u_strToUTF8WithSub_eq:
  assumes "sub_arg subchar" and "0 \<le> cap" and "\<not> U_FAILURE e"
  shows "u_strToUTF8WithSub False cap (Some us) (int (length us)) subchar e
    = conversion_of cap e (conversion_spec utf8_of subchar cap (utf16_chars us))"
proof -
  have "good_sub subchar" using assms(1) by auto
  with assms show ?thesis
    by (simp add: u_strToUTF8WithSub_def good_args source_counted to8_counted_correct)
qed

theorem u_strToUTF8WithSub_nul_eq:
  assumes "sub_arg subchar" and "0 \<le> cap" and "\<not> U_FAILURE e" and "0 \<notin> set us"
  shows "u_strToUTF8WithSub False cap (Some (us @ 0 # rest)) (- 1) subchar e
    = u_strToUTF8WithSub False cap (Some us) (int (length us)) subchar e"
proof -
  have "good_sub subchar" using assms(1) by auto
  with assms show ?thesis unfolding u_strToUTF8WithSub_eq [OF assms(1-3)]
    by (simp add: u_strToUTF8WithSub_def good_args source_nul to8_nul_terminated_correct)
qed

section \<open>The call as a whole\<close>

lemma conversion_of_fault: "conversion_of cap e (Inl Invalid_Char) = Some (returns_NULL (Some 0) U_INVALID_CHAR_FOUND)"
  by (simp add: conversion_of_def)

definition termination_code :: "int \<Rightarrow> int \<Rightarrow> UErrorCode" where
  "termination_code cap n =
    (if n < cap then U_ZERO_ERROR
     else if n = cap then U_STRING_NOT_TERMINATED_WARNING else U_BUFFER_OVERFLOW_ERROR)"

lemma finish_conversion_result:
  assumes "0 \<le> n + int (length out)"
  shows "finish_conversion cap out n k U_ZERO_ERROR
    = \<lparr>stored = out, nul_at = (if n + int (length out) < cap then Some (n + int (length out)) else None),
       destLength = Some (n + int (length out)), numSubs = Some k,
       errorCode = termination_code cap (n + int (length out)), rnull = False\<rparr>"
  using assms
  by (auto simp: finish_conversion_def TERMINATE_STRING_def termination_code_def U_FAILURE_def Let_def)



end
