(* ===== verification/Utf_Decode.thy ===== *)
theory Utf_Decode
  imports Utf_Encode_Facts
begin

text \<open>
  The conversion of IcuLib/ustrtrns.cpp from UTF-8 to UTF-16, \<open>u_strFromUTF8WithSub\<close>, with the
  macros of IcuLib/unicode/utf8.h and \<open>utf8_nextCharSafeBody\<close> of IcuLib/utf_impl.cpp.

  \<^item> \<open>src + i\<close> is the list of the bytes from the index on. With a length the list ends where the
    source does; for a NUL-terminated source it is the memory, and \<open>None\<close> is a read past its end.
  \<^item> The six loops hold a modified copy of \<open>U8_NEXT\<close> each: first the inline test for a valid two or
    three byte sequence (\<open>u8_inline\<close>), then the call for the other cases.
\<close>

unbundle bit_operations_syntax

section \<open>The macros\<close>

definition U8_IS_SINGLE :: "int \<Rightarrow> bool" where
  "U8_IS_SINGLE c \<longleftrightarrow> c AND 0x80 = 0"

definition U8_LEAD3_T1_BITS :: "int list" where
  "U8_LEAD3_T1_BITS = [0x20, 0x30, 0x30, 0x30, 0x30, 0x30, 0x30, 0x30, 0x30, 0x30, 0x30, 0x30, 0x30, 0x10, 0x30, 0x30]"

definition U8_IS_VALID_LEAD3_AND_T1 :: "int \<Rightarrow> u8 \<Rightarrow> bool" where
  "U8_IS_VALID_LEAD3_AND_T1 lead t1 \<longleftrightarrow>
     U8_LEAD3_T1_BITS ! nat (lead AND 0xf) AND push_bit (nat (drop_bit 5 (uint t1))) 1 \<noteq> 0"

definition U8_LEAD4_T1_BITS :: "int list" where
  "U8_LEAD4_T1_BITS = [0, 0, 0, 0, 0, 0, 0, 0, 0x1e, 0x0f, 0x0f, 0x0f, 0, 0, 0, 0]"

definition U8_IS_VALID_LEAD4_AND_T1 :: "int \<Rightarrow> u8 \<Rightarrow> bool" where
  "U8_IS_VALID_LEAD4_AND_T1 lead t1 \<longleftrightarrow>
     U8_LEAD4_T1_BITS ! nat (drop_bit 4 (uint t1)) AND push_bit (nat (lead AND 7)) 1 \<noteq> 0"

definition U_IS_UNICODE_NONCHAR :: "int \<Rightarrow> bool" where
  "U_IS_UNICODE_NONCHAR c \<longleftrightarrow> c \<ge> 0xfdd0 \<and> (c \<le> 0xfdef \<or> c AND 0xfffe = 0xfffe) \<and> c \<le> 0x10ffff"

text \<open>\<open>(__t = src[i] - 0x80) <= 0x3f\<close>, where \<open>__t\<close> is a \<open>uint8_t\<close>.\<close>

abbreviation is_t :: "u8 \<Rightarrow> bool" where "is_t b \<equiv> b - 0x80 \<le> 0x3f"

definition two_bytes :: "int \<Rightarrow> u8 \<Rightarrow> int" where
  "two_bytes c t1 = push_bit 6 (c AND 0x1f) OR uint (t1 - 0x80)"

definition three_bytes :: "int \<Rightarrow> u8 \<Rightarrow> u8 \<Rightarrow> int" where
  "three_bytes c t1 t2 = push_bit 12 (c AND 0xf) OR push_bit 6 (uint t1 AND 0x3f) OR uint (t2 - 0x80)"

definition four_bytes :: "int \<Rightarrow> u8 \<Rightarrow> u8 \<Rightarrow> u8 \<Rightarrow> int" where
  "four_bytes c t1 t2 t3 =
    push_bit 18 (c AND 7) OR push_bit 12 (uint t1 AND 0x3f) OR push_bit 6 (uint (t2 - 0x80)) OR uint (t3 - 0x80)"

section \<open>utf8_nextCharSafeBody\<close>

definition utf8_errorValue :: "int list" where
  "utf8_errorValue = [0x15, 0x9f, 0xffff, 0x10ffff, 0, 0]"

definition errorValue :: "nat \<Rightarrow> int \<Rightarrow> int" where
  "errorValue count strict =
    (if strict \<ge> 0 then utf8_errorValue ! count else if strict = - 3 then 0xfffd else U_SENTINEL)"

text \<open>\<open>nul\<close> is \<open>length < 0\<close>; \<open>s\<close> is the source from \<open>*pi\<close> on and the second component of the result
  the source from the new \<open>*pi\<close> on. A failing test leaves \<open>i\<close> after the bytes that passed.\<close>

definition utf8_nextCharSafeBody :: "bool \<Rightarrow> u8 list \<Rightarrow> int \<Rightarrow> int \<Rightarrow> (int \<times> u8 list) option" where
  "utf8_nextCharSafeBody nul s c strict =
    (let bad = (\<lambda>n rest. Some (errorValue n strict, rest));
         at_end = (\<lambda>n rest. if nul then None else bad n rest);
         char_ok = (\<lambda>x. strict \<le> 0 \<or> \<not> U_IS_UNICODE_NONCHAR x) in
     if (\<not> nul \<and> s = []) \<or> c > 0xf4 then bad 0 s
     else if c \<ge> 0xf0
     then (case s of
         [] \<Rightarrow> None
       | t1 # s1 \<Rightarrow>
           if \<not> U8_IS_VALID_LEAD4_AND_T1 (c AND 7) t1 then bad 0 s
           else (case s1 of
               [] \<Rightarrow> at_end 1 s1
             | t2 # s2 \<Rightarrow>
                 if \<not> is_t t2 then bad 1 s1
                 else (case s2 of
                     [] \<Rightarrow> at_end 2 s2
                   | t3 # s3 \<Rightarrow>
                       if \<not> is_t t3 then bad 2 s2
                       else if char_ok (four_bytes c t1 t2 t3) then Some (four_bytes c t1 t2 t3, s3)
                       else bad 3 s3)))
     else if c \<ge> 0xe0
     then (case s of
         [] \<Rightarrow> None
       | t1 # s1 \<Rightarrow>
           if strict \<noteq> - 2
           then (if \<not> U8_IS_VALID_LEAD3_AND_T1 (c AND 0xf) t1 then bad 0 s
             else (case s1 of
                 [] \<Rightarrow> at_end 1 s1
               | t2 # s2 \<Rightarrow>
                   if \<not> is_t t2 then bad 1 s1
                   else if char_ok (three_bytes c t1 t2) then Some (three_bytes c t1 t2, s2)
                   else bad 2 s2))
           else (if \<not> (is_t t1 \<and> (c AND 0xf > 0 \<or> t1 - 0x80 \<ge> 0x20)) then bad 0 s
             else (case s1 of
                 [] \<Rightarrow> at_end 1 s1
               | t2 # s2 \<Rightarrow>
                   if \<not> is_t t2 then bad 1 s1
                   else Some (push_bit 12 (c AND 0xf) OR push_bit 6 (uint (t1 - 0x80)) OR uint (t2 - 0x80), s2))))
     else if c \<ge> 0xc2
     then (case s of
         [] \<Rightarrow> None
       | t1 # s1 \<Rightarrow> if is_t t1 then Some (push_bit 6 (c - 0xc0) OR uint (t1 - 0x80), s1) else bad 0 s)
     else bad 0 s)"

text \<open>The inline part of \<open>U8_NEXT\<close>, for \<open>c\<close> that is no single byte.\<close>

definition u8_inline :: "int \<Rightarrow> u8 list \<Rightarrow> (int \<times> u8 list) option" where
  "u8_inline c s =
    (if 0xe0 \<le> c \<and> c < 0xf0 \<and> 2 \<le> length s \<and> U8_IS_VALID_LEAD3_AND_T1 c (s ! 0) \<and> is_t (s ! 1)
     then Some (three_bytes c (s ! 0) (s ! 1), drop 2 s)
     else if c < 0xe0 \<and> c \<ge> 0xc2 \<and> s \<noteq> [] \<and> is_t (hd s)
     then Some (two_bytes c (hd s), tl s)
     else None)"

section \<open>The conversion\<close>

text \<open>What one character stores. The inline cases are below U+10000.\<close>

definition put16 :: "int \<Rightarrow> u16 list" where
  "put16 c = (if c \<le> 0xffff then [word_of_int c] else [U16_LEAD c, U16_TRAIL c])"

fun from8_inner :: "int \<Rightarrow> nat \<Rightarrow> u8 list \<Rightarrow> u16 list \<Rightarrow> int \<Rightarrow> conv_fault + u8 list \<times> u16 list \<times> int" where
  "from8_inner subchar 0 src pDest subs = Inr (src, pDest, subs)"
| "from8_inner subchar (Suc count) [] pDest subs = Inl Read_Past_End"
| "from8_inner subchar (Suc count) (b # s) pDest subs =
    (let c = uint b in
     if U8_IS_SINGLE c then from8_inner subchar count s (pDest @ [word_of_int c]) subs
     else (case u8_inline c s of
         Some (x, s') \<Rightarrow> from8_inner subchar count s' (pDest @ [word_of_int x]) subs
       | None \<Rightarrow>
           let wide = c \<ge> 0xf0 \<or> subchar > 0xffff; count' = (if wide then count - 1 else count) in
           if wide \<and> count = 0 then Inr (b # s, pDest, subs)
           else (case utf8_nextCharSafeBody False s c (- 1) of
               None \<Rightarrow> Inl Read_Past_End
             | Some (x, s') \<Rightarrow>
                 if x < 0
                 then (if subchar < 0 then Inl Invalid_Char
                       else from8_inner subchar count' s' (pDest @ put16 subchar) (subs + 1))
                 else from8_inner subchar count' s' (pDest @ put16 x) subs)))"

definition from8_count :: "int \<Rightarrow> u8 list \<Rightarrow> u16 list \<Rightarrow> int" where
  "from8_count destCapacity src pDest =
    (let count = destCapacity - int (length pDest); count2 = int (length src) div 3 in
     if count > count2 then count2 else count)"

text \<open>One character of the careful loops: the new rest, what is stored, the substitutions and the
  units that did not fit. There is room for one unit, so only the trail of a pair can be left over.\<close>

definition from8_char ::
  "bool \<Rightarrow> int \<Rightarrow> int \<Rightarrow> int \<Rightarrow> u8 list \<Rightarrow> u16 list \<Rightarrow> int \<Rightarrow> conv_fault + u8 list \<times> u16 list \<times> int \<times> int" where
  "from8_char nul subchar destCapacity c s pDest subs =
    (if U8_IS_SINGLE c then Inr (s, pDest @ [word_of_int c], subs, 0)
     else (case u8_inline c s of
         Some (x, s') \<Rightarrow> Inr (s', pDest @ [word_of_int x], subs, 0)
       | None \<Rightarrow>
           (case utf8_nextCharSafeBody nul s c (- 1) of
              None \<Rightarrow> Inl Read_Past_End
            | Some (x, s') \<Rightarrow>
                if x < 0 \<and> subchar < 0 then Inl Invalid_Char
                else let y = (if x < 0 then subchar else x); subs' = (if x < 0 then subs + 1 else subs) in
                  if y \<le> 0xffff then Inr (s', pDest @ [word_of_int y], subs', 0)
                  else if int (length pDest) + 1 < destCapacity
                  then Inr (s', pDest @ [U16_LEAD y, U16_TRAIL y], subs', 0)
                  else Inr (s', pDest @ [U16_LEAD y], subs', 1))))"

text \<open>And of the preflights: the rest, the required length and the substitutions.\<close>

definition from8_measure :: "bool \<Rightarrow> int \<Rightarrow> int \<Rightarrow> u8 list \<Rightarrow> int \<Rightarrow> int \<Rightarrow> conv_fault + u8 list \<times> int \<times> int" where
  "from8_measure nul subchar c s reqLength subs =
    (if U8_IS_SINGLE c then Inr (s, reqLength + 1, subs)
     else (case u8_inline c s of
         Some (x, s') \<Rightarrow> Inr (s', reqLength + 1, subs)
       | None \<Rightarrow>
           (case utf8_nextCharSafeBody nul s c (- 1) of
              None \<Rightarrow> Inl Read_Past_End
            | Some (x, s') \<Rightarrow>
                if x < 0 \<and> subchar < 0 then Inl Invalid_Char
                else let y = (if x < 0 then subchar else x); subs' = (if x < 0 then subs + 1 else subs) in
                  Inr (s', reqLength + U16_LENGTH y, subs'))))"

lemma utf8_nextCharSafeBody_shorter:
  "utf8_nextCharSafeBody nul s c strict = Some (x, s') \<Longrightarrow> length s' \<le> length s"
  by (auto simp: utf8_nextCharSafeBody_def Let_def split: if_split_asm list.split_asm)

lemma u8_inline_shorter: "u8_inline c s = Some (x, s') \<Longrightarrow> length s' \<le> length s"
  by (auto simp: u8_inline_def split: if_split_asm)

lemma from8_char_shorter:
  "from8_char nul subchar cap c s d n = Inr (s', d', n', r) \<Longrightarrow> length s' \<le> length s"
  by (auto simp: from8_char_def Let_def dest: utf8_nextCharSafeBody_shorter u8_inline_shorter
      split: if_split_asm option.split_asm prod.split_asm)

lemma from8_measure_shorter:
  "from8_measure nul subchar c s r n = Inr (s', r', n') \<Longrightarrow> length s' \<le> length s"
  by (auto simp: from8_measure_def Let_def dest: utf8_nextCharSafeBody_shorter u8_inline_shorter
      split: if_split_asm option.split_asm prod.split_asm)

lemma from8_inner_length:
  "from8_inner subchar count src d n = Inr (src', d', n') \<Longrightarrow> length src' \<le> length src"
proof (induction count arbitrary: src d n rule: less_induct)
  case (less count)
  show ?case
  proof (cases count)
    case 0
    with less.prems show ?thesis by simp
  next
    case (Suc k)
    show ?thesis
    proof (cases src)
      case Nil
      with less.prems Suc show ?thesis by simp
    next
      case (Cons b s)
      have IH: "length src' \<le> Suc (length s)"
        if "from8_inner subchar m t d n = Inr (src', d', n')" "m < Suc k" "length t \<le> length s" for m t d n
        using less.IH [OF that(2) [folded Suc] that(1)] that(3) by simp
      have lt: "k - Suc 0 < Suc k" by simp
      from less.prems show ?thesis unfolding Suc Cons
        by (auto simp: Let_def split: if_split_asm option.split_asm
            dest!: utf8_nextCharSafeBody_shorter u8_inline_shorter intro: IH IH [OF _ lt])
    qed
  qed
qed

lemma from8_inner_shrinks:
  assumes "from8_inner subchar count src d n = Inr (src', d', n')" and "2 \<le> count"
  shows "length src' < length src"
proof -
  from assms(2) obtain k where k: "count = Suc k" "k \<noteq> 0" by (cases count) auto
  from assms(1) k obtain b s where b: "src = b # s" by (cases src) auto
  have "length src' \<le> length s"
    if "from8_inner subchar m t d n = Inr (src', d', n')" "length t \<le> length s" for m t d n
    using from8_inner_length [OF that(1)] that(2) by simp
  with assms(1) k show ?thesis unfolding b k(1)
    by (auto simp: Let_def less_Suc_eq_le split: if_split_asm option.split_asm
        dest!: utf8_nextCharSafeBody_shorter u8_inline_shorter)
qed

function from8_outer :: "int \<Rightarrow> int \<Rightarrow> u8 list \<Rightarrow> u16 list \<Rightarrow> int \<Rightarrow> conv_fault + u8 list \<times> u16 list \<times> int" where
  "from8_outer subchar destCapacity src pDest subs =
    (let count = from8_count destCapacity src pDest in
     if count < 3 then Inr (src, pDest, subs)
     else (case from8_inner subchar (nat count) src pDest subs of
         Inl f \<Rightarrow> Inl f
       | Inr (src', pDest', subs') \<Rightarrow> from8_outer subchar destCapacity src' pDest' subs'))"
  by pat_completeness auto
termination
proof (relation "measure (\<lambda>(subchar, destCapacity, src, pDest, subs). length src)", goal_cases)
  case (2 subchar destCapacity src pDest subs count r src' s pDest' subs')
  have "2 \<le> nat count" using 2(2) by simp
  with 2(3-) show ?case by (auto dest: from8_inner_shrinks)
qed simp

function from8_careful ::
  "int \<Rightarrow> int \<Rightarrow> u8 list \<Rightarrow> u16 list \<Rightarrow> int \<Rightarrow> conv_fault + u8 list \<times> u16 list \<times> int \<times> int" where
  "from8_careful subchar destCapacity [] pDest subs = Inr ([], pDest, subs, 0)"
| "from8_careful subchar destCapacity (b # s) pDest subs =
    (if \<not> int (length pDest) < destCapacity then Inr (b # s, pDest, subs, 0)
     else (case from8_char False subchar destCapacity (uint b) s pDest subs of
         Inl f \<Rightarrow> Inl f
       | Inr (s', pDest', subs', reqLength) \<Rightarrow>
           if reqLength \<noteq> 0 then Inr (s', pDest', subs', reqLength)
           else from8_careful subchar destCapacity s' pDest' subs'))"
  by pat_completeness auto
termination
  by (relation "measure (\<lambda>(subchar, destCapacity, s, pDest, subs). length s)")
    (auto dest!: from8_char_shorter [OF sym] from8_char_shorter)

function from8_preflight :: "int \<Rightarrow> u8 list \<Rightarrow> int \<Rightarrow> int \<Rightarrow> conv_fault + int \<times> int" where
  "from8_preflight subchar [] reqLength subs = Inr (reqLength, subs)"
| "from8_preflight subchar (b # s) reqLength subs =
    (case from8_measure False subchar (uint b) s reqLength subs of
       Inl f \<Rightarrow> Inl f
     | Inr (s', reqLength', subs') \<Rightarrow> from8_preflight subchar s' reqLength' subs')"
  by pat_completeness auto
termination
  by (relation "measure (\<lambda>(subchar, s, reqLength, subs). length s)")
    (auto dest!: from8_measure_shorter [OF sym] from8_measure_shorter)

text \<open>The loops on a NUL-terminated source: only a NUL in the place of a first byte ends it.\<close>

function from8_nul ::
  "int \<Rightarrow> int \<Rightarrow> u8 list \<Rightarrow> u16 list \<Rightarrow> int \<Rightarrow> conv_fault + u8 list \<times> u16 list \<times> int \<times> int" where
  "from8_nul subchar destCapacity [] pDest subs = Inl Read_Past_End"
| "from8_nul subchar destCapacity (b # s) pDest subs =
    (if b = 0 \<or> \<not> int (length pDest) < destCapacity then Inr (b # s, pDest, subs, 0)
     else (case from8_char True subchar destCapacity (uint b) s pDest subs of
         Inl f \<Rightarrow> Inl f
       | Inr (s', pDest', subs', reqLength) \<Rightarrow>
           if reqLength \<noteq> 0 then Inr (s', pDest', subs', reqLength)
           else from8_nul subchar destCapacity s' pDest' subs'))"
  by pat_completeness auto
termination
  by (relation "measure (\<lambda>(subchar, destCapacity, s, pDest, subs). length s)")
    (auto dest!: from8_char_shorter [OF sym] from8_char_shorter)

function from8_nul_preflight :: "int \<Rightarrow> u8 list \<Rightarrow> int \<Rightarrow> int \<Rightarrow> conv_fault + int \<times> int" where
  "from8_nul_preflight subchar [] reqLength subs = Inl Read_Past_End"
| "from8_nul_preflight subchar (b # s) reqLength subs =
    (if b = 0 then Inr (reqLength, subs)
     else (case from8_measure True subchar (uint b) s reqLength subs of
         Inl f \<Rightarrow> Inl f
       | Inr (s', reqLength', subs') \<Rightarrow> from8_nul_preflight subchar s' reqLength' subs'))"
  by pat_completeness auto
termination
  by (relation "measure (\<lambda>(subchar, s, reqLength, subs). length s)")
    (auto dest!: from8_measure_shorter [OF sym] from8_measure_shorter)

definition from8_counted :: "int \<Rightarrow> int \<Rightarrow> u8 list \<Rightarrow> conv_fault + u16 list \<times> int \<times> int" where
  "from8_counted subchar destCapacity src =
    (case from8_outer subchar destCapacity src [] 0 of
       Inl f \<Rightarrow> Inl f
     | Inr (src1, pDest1, subs1) \<Rightarrow>
         (case from8_careful subchar destCapacity src1 pDest1 subs1 of
            Inl f \<Rightarrow> Inl f
          | Inr (src2, pDest2, subs2, reqLength) \<Rightarrow>
              (case from8_preflight subchar src2 reqLength subs2 of
                 Inl f \<Rightarrow> Inl f
               | Inr (reqLength', subs3) \<Rightarrow> Inr (pDest2, reqLength', subs3))))"

definition from8_nul_terminated :: "int \<Rightarrow> int \<Rightarrow> u8 list \<Rightarrow> conv_fault + u16 list \<times> int \<times> int" where
  "from8_nul_terminated subchar destCapacity src =
    (case from8_nul subchar destCapacity src [] 0 of
       Inl f \<Rightarrow> Inl f
     | Inr (src', pDest, subs, reqLength) \<Rightarrow>
         (case from8_nul_preflight subchar src' reqLength subs of
            Inl f \<Rightarrow> Inl f
          | Inr (reqLength', subs') \<Rightarrow> Inr (pDest, reqLength', subs')))"

definition u_strFromUTF8WithSub ::
  "bool \<Rightarrow> int \<Rightarrow> u8 list option \<Rightarrow> int \<Rightarrow> int \<Rightarrow> UErrorCode \<Rightarrow> u16 conversion option" where
  "u_strFromUTF8WithSub dest_null destCapacity src srcLength subchar e =
    (if U_FAILURE e then Some (returns_NULL None e)
     else if conversion_args_bad dest_null destCapacity src srcLength subchar
     then Some (returns_NULL None U_ILLEGAL_ARGUMENT_ERROR)
     else (case source_units src srcLength of
         None \<Rightarrow> None
       | Some bs \<Rightarrow> conversion_of destCapacity e
           (if srcLength < 0 then from8_nul_terminated subchar destCapacity bs
            else from8_counted subchar destCapacity bs)))"

definition u_strFromUTF8 ::
  "bool \<Rightarrow> int \<Rightarrow> u8 list option \<Rightarrow> int \<Rightarrow> UErrorCode \<Rightarrow> u16 conversion option" where
  "u_strFromUTF8 dest_null destCapacity src srcLength e =
    map_option (\<lambda>r. r\<lparr>numSubs := None\<rparr>)
      (u_strFromUTF8WithSub dest_null destCapacity src srcLength U_SENTINEL e)"

end
