(* ===== verification/Utf_Decode_Facts.thy ===== *)
theory Utf_Decode_Facts
  imports Utf_Decode
begin

text \<open>
  What the UTF-8 decoder computes. \<open>utf8_next\<close> states in arithmetic which byte sequences are well
  formed and how far an ill-formed one reaches; the inline tests, the bit tables and
  \<open>utf8_nextCharSafeBody\<close> together read exactly that, and the loops convert the characters so read.
\<close>

unbundle bit_operations_syntax

section \<open>The specification\<close>

definition cont :: "u8 \<Rightarrow> bool" where
  "cont b \<longleftrightarrow> 0x80 \<le> uint b \<and> uint b \<le> 0xbf"

text \<open>The second byte of a well-formed sequence: no overlong form, no surrogate, nothing above
  U+10FFFF.\<close>

definition second :: "int \<Rightarrow> u8 \<Rightarrow> bool" where
  "second c t \<longleftrightarrow>
    (if c = 0xe0 then 0xa0 \<le> uint t \<and> uint t \<le> 0xbf
     else if c = 0xed then 0x80 \<le> uint t \<and> uint t \<le> 0x9f
     else if c = 0xf0 then 0x90 \<le> uint t \<and> uint t \<le> 0xbf
     else if c = 0xf4 then 0x80 \<le> uint t \<and> uint t \<le> 0x8f
     else cont t)"

abbreviation low6 :: "u8 \<Rightarrow> int" where "low6 b \<equiv> uint b - 0x80"

text \<open>The first character of \<open>b # s\<close> and what follows it; \<open>None\<close> is an ill-formed sequence, which
  reaches to the first byte that cannot continue it.\<close>

definition utf8_next :: "u8 \<Rightarrow> u8 list \<Rightarrow> int option \<times> u8 list" where
  "utf8_next b s =
    (let c = uint b in
     if c < 0x80 then (Some c, s)
     else if c < 0xc2 \<or> c > 0xf4 \<or> s = [] \<or> \<not> second c (hd s) then (None, s)
     else let t1 = hd s; s1 = tl s in
       if c < 0xe0 then (Some ((c - 0xc0) * 64 + low6 t1), s1)
       else if s1 = [] \<or> \<not> cont (hd s1) then (None, s1)
       else let t2 = hd s1; s2 = tl s1 in
         if c < 0xf0 then (Some ((c - 0xe0) * 4096 + low6 t1 * 64 + low6 t2), s2)
         else if s2 = [] \<or> \<not> cont (hd s2) then (None, s2)
         else (Some ((c - 0xf0) * 262144 + low6 t1 * 4096 + low6 t2 * 64 + low6 (hd s2)), tl s2))"

lemma utf8_next_length: "length (snd (utf8_next b s)) \<le> length s"
  by (auto simp: utf8_next_def Let_def)

lemma utf8_next_shorter: "utf8_next b s = (c, s') \<Longrightarrow> length s' \<le> length s"
  using utf8_next_length [of b s] by simp

function utf8_chars :: "u8 list \<Rightarrow> int option list" where
  "utf8_chars [] = []"
| "utf8_chars (b # s) = (case utf8_next b s of (c, s') \<Rightarrow> c # utf8_chars s')"
  by pat_completeness auto
termination
  by (relation "measure length") (simp_all add: less_Suc_eq_le utf8_next_shorter [OF sym])

section \<open>The bit tables\<close>

lemma uint_sub_80: "cont b \<Longrightarrow> uint (b - 0x80) = low6 b"
  by (simp add: cont_def uint_word_ariths)

lemma is_t_iff: "is_t b \<longleftrightarrow> cont b"
proof -
  have "uint (b - 0x80) = (uint b - 0x80) mod 256" by (simp add: uint_word_ariths)
  moreover have "(uint b - 0x80) mod 256 \<le> 0x3f \<longleftrightarrow> 0x80 \<le> uint b \<and> uint b \<le> 0xbf"
  proof (cases "uint b < 0x80")
    case True
    then have "(uint b - 0x80) mod 256 = uint b + 0x80"
      using uint_8 [of b] mod_add_self2 [of "uint b - 0x80" 256] by simp
    then show ?thesis using True uint_8 [of b] by linarith
  next
    case False
    then show ?thesis using uint_8 [of b] by simp
  qed
  ultimately show ?thesis by (simp add: word_le_def cont_def)
qed

lemma single_iff: "0 \<le> c \<Longrightarrow> c < 0x100 \<Longrightarrow> U8_IS_SINGLE c \<longleftrightarrow> c < 0x80"
proof -
  assume c: "0 \<le> c" "c < 0x100"
  have "c AND push_bit 7 1 = push_bit 7 (c div 128 mod 2)"
    by (subst and_push_bit) (simp add: drop_bit_eq_div and_one_eq)
  then have "c AND 0x80 = c div 128 mod 2 * 128" by (simp add: push_bit_eq_mult)
  moreover have "c div 128 = (if c < 0x80 then 0 else 1)" using c by auto
  ultimately show ?thesis by (simp add: U8_IS_SINGLE_def)
qed

lemma table_bit: "(v :: int) AND push_bit n 1 \<noteq> 0 \<longleftrightarrow> bit v n"
  by (simp add: push_bit_eq_mult and_exp_eq_0_iff_not_bit)

lemma small_nat_cases: "(n :: nat) < 8 \<Longrightarrow> n = 0 \<or> n = 1 \<or> n = 2 \<or> n = 3 \<or> n = 4 \<or> n = 5 \<or> n = 6 \<or> n = 7"
  by arith

lemma table_entries:
  "n < 8 \<Longrightarrow> bit (0x20 :: int) n \<longleftrightarrow> n = 5"
  "n < 8 \<Longrightarrow> bit (0x30 :: int) n \<longleftrightarrow> n = 4 \<or> n = 5"
  "n < 8 \<Longrightarrow> bit (0x10 :: int) n \<longleftrightarrow> n = 4"
  "n < 8 \<Longrightarrow> bit (0x1e :: int) n \<longleftrightarrow> 1 \<le> n \<and> n \<le> 4"
  "n < 8 \<Longrightarrow> bit (0x0f :: int) n \<longleftrightarrow> n \<le> 3"
  by (drule small_nat_cases, elim disjE, simp_all)+

lemma table_index: "(n :: nat) < 16 \<Longrightarrow> n = 0 \<or> n = 1 \<or> n = 2 \<or> n = 3 \<or> n = 4 \<or> n = 5 \<or> n = 6 \<or> n = 7
    \<or> n = 8 \<or> n = 9 \<or> n = 10 \<or> n = 11 \<or> n = 12 \<or> n = 13 \<or> n = 14 \<or> n = 15"
  by arith

lemma lead3_table:
  assumes "0xe0 \<le> c" "c < 0xf0"
  shows "U8_LEAD3_T1_BITS ! nat (c - 0xe0) = (if c = 0xe0 then 0x20 else if c = 0xed then 0x10 else 0x30)"
proof -
  define n where "n = nat (c - 0xe0)"
  from assms have n: "n < 16" and c: "c = 0xe0 + int n" by (simp_all add: n_def)
  show ?thesis unfolding U8_LEAD3_T1_BITS_def n_def [symmetric] unfolding c
    using table_index [OF n] by (elim disjE) simp_all
qed

lemma lead3_second:
  assumes "0xe0 \<le> c" "c < 0xf0"
  shows "U8_IS_VALID_LEAD3_AND_T1 c t \<longleftrightarrow> second c t" "U8_IS_VALID_LEAD3_AND_T1 (c AND 0xf) t \<longleftrightarrow> second c t"
proof -
  have m: "c AND 0xf = c - 0xe0" "(c - 0xe0) AND 0xf = c - 0xe0"
    using assms mod_mult_self2 [of "c - 0xe0" 16 14] by (simp_all add: and_low_bits)
  define n where "n = nat (uint t div 32)"
  have n: "n < 8" "nat (drop_bit 5 (uint t)) = n"
    using uint_8 [of t] by (simp_all add: n_def drop_bit_eq_div)
  have r: "n = 4 \<longleftrightarrow> 0x80 \<le> uint t \<and> uint t \<le> 0x9f" "n = 5 \<longleftrightarrow> 0xa0 \<le> uint t \<and> uint t \<le> 0xbf"
    using uint_8 [of t] unfolding n_def by auto
  have "bit (U8_LEAD3_T1_BITS ! nat (c - 0xe0)) n \<longleftrightarrow> second c t"
    unfolding lead3_table [OF assms] using table_entries [OF n(1)] r assms
    by (auto simp: second_def cont_def)
  then show "U8_IS_VALID_LEAD3_AND_T1 c t \<longleftrightarrow> second c t" "U8_IS_VALID_LEAD3_AND_T1 (c AND 0xf) t \<longleftrightarrow> second c t"
    unfolding U8_IS_VALID_LEAD3_AND_T1_def m n(2) table_bit by simp_all
qed

lemma lead4_table:
  assumes "n < 16"
  shows "U8_LEAD4_T1_BITS ! n = (if n = 8 then 0x1e else if 9 \<le> n \<and> n \<le> 11 then 0x0f else 0)"
proof -
  show ?thesis unfolding U8_LEAD4_T1_BITS_def using table_index [OF assms] by (elim disjE) simp_all
qed

lemma lead4_second:
  assumes "0xf0 \<le> c" "c \<le> 0xf4"
  shows "U8_IS_VALID_LEAD4_AND_T1 (c AND 7) t \<longleftrightarrow> second c t"
proof -
  have m: "(c AND 7) AND 7 = c - 0xf0"
    using assms mod_mult_self2 [of "c - 0xf0" 8 30] by (simp add: and_low_bits)
  define n where "n = nat (uint t div 16)"
  have n: "n < 16" "nat (drop_bit 4 (uint t)) = n"
    using uint_8 [of t] by (simp_all add: n_def drop_bit_eq_div)
  have r: "n = 8 \<longleftrightarrow> 0x80 \<le> uint t \<and> uint t \<le> 0x8f" "9 \<le> n \<and> n \<le> 11 \<longleftrightarrow> 0x90 \<le> uint t \<and> uint t \<le> 0xbf"
    using uint_8 [of t] unfolding n_def by auto
  have k: "nat (c - 0xf0) < 8" using assms by simp
  have e: "n = 8 \<Longrightarrow> bit (U8_LEAD4_T1_BITS ! n) (nat (c - 0xf0)) \<longleftrightarrow> c \<noteq> 0xf0"
    "9 \<le> n \<and> n \<le> 11 \<Longrightarrow> bit (U8_LEAD4_T1_BITS ! n) (nat (c - 0xf0)) \<longleftrightarrow> c \<noteq> 0xf4"
    "n \<noteq> 8 \<Longrightarrow> \<not> (9 \<le> n \<and> n \<le> 11) \<Longrightarrow> \<not> bit (U8_LEAD4_T1_BITS ! n) (nat (c - 0xf0))"
    unfolding lead4_table [OF n(1)] using assms table_entries(4,5) [OF k] by auto
  have "bit (U8_LEAD4_T1_BITS ! n) (nat (c - 0xf0)) \<longleftrightarrow> second c t"
  proof -
    consider "n = 8" | "9 \<le> n \<and> n \<le> 11" | "n \<noteq> 8" "\<not> (9 \<le> n \<and> n \<le> 11)" by blast
    then show ?thesis
    proof cases
      case 1
      with r(1) assms show ?thesis unfolding e(1) [OF 1] by (simp add: second_def cont_def)
    next
      case 2
      with r(2) assms show ?thesis unfolding e(2) [OF 2] by (simp add: second_def cont_def)
    next
      case 3
      with r assms show ?thesis using e(3) [OF 3] by (auto simp: second_def cont_def)
    qed
  qed
  then show ?thesis unfolding U8_IS_VALID_LEAD4_AND_T1_def m n(2) table_bit .
qed

section \<open>One character\<close>

lemma low6_of_cont: "cont t \<Longrightarrow> uint t AND 0x3f = low6 t" "cont t \<Longrightarrow> 0 \<le> low6 t \<and> low6 t < 64"
  using mod_mult_self2 [of "low6 t" 64 2] by (simp_all add: cont_def and_low_bits)

lemma or_join:
  fixes a x :: int
  assumes "0 \<le> x" "x < 2 ^ n"
  shows "push_bit n a OR x = a * 2 ^ n + x"
  using or_high_bits [OF assms, of a] by (simp add: or.commute push_bit_eq_mult)

lemma second_cont: "second c t \<Longrightarrow> cont t"
  by (auto simp: second_def cont_def split: if_splits)

lemma two_bytes_eq:
  assumes "0xc2 \<le> c" "c < 0xe0" "cont t"
  shows "two_bytes c t = (c - 0xc0) * 64 + low6 t" "push_bit 6 (c - 0xc0) OR uint (t - 0x80) = (c - 0xc0) * 64 + low6 t"
proof -
  have "c AND 0x1f = c - 0xc0" using assms mod_mult_self2 [of "c - 0xc0" 32 6] by (simp add: and_low_bits)
  then show "two_bytes c t = (c - 0xc0) * 64 + low6 t" "push_bit 6 (c - 0xc0) OR uint (t - 0x80) = (c - 0xc0) * 64 + low6 t"
    using low6_of_cont [OF assms(3)] or_join [of "low6 t" 6]
    by (simp_all add: two_bytes_def uint_sub_80 [OF assms(3)])
qed

lemma three_bytes_eq:
  assumes "0xe0 \<le> c" "c < 0xf0" "cont t" "cont u"
  shows "three_bytes c t u = (c - 0xe0) * 4096 + low6 t * 64 + low6 u"
proof -
  have "c AND 0xf = c - 0xe0" using assms mod_mult_self2 [of "c - 0xe0" 16 14] by (simp add: and_low_bits)
  then show ?thesis
    using low6_of_cont [OF assms(3)] low6_of_cont [OF assms(4)] or_join [of "low6 u" 6]
      or_join [of "low6 t * 64 + low6 u" 12]
    by (simp add: three_bytes_def uint_sub_80 [OF assms(4)])
qed

lemma four_bytes_eq:
  assumes "0xf0 \<le> c" "c \<le> 0xf4" "cont t" "cont u" "cont v"
  shows "four_bytes c t u v = (c - 0xf0) * 262144 + low6 t * 4096 + low6 u * 64 + low6 v"
proof -
  have "c AND 7 = c - 0xf0" using assms mod_mult_self2 [of "c - 0xf0" 8 30] by (simp add: and_low_bits)
  then show ?thesis
    using low6_of_cont [OF assms(3)] low6_of_cont [OF assms(4)] low6_of_cont [OF assms(5)]
      or_join [of "low6 v" 6] or_join [of "low6 u * 64 + low6 v" 12]
      or_join [of "low6 t * 4096 + low6 u * 64 + low6 v" 18]
    by (simp add: four_bytes_def uint_sub_80 [OF assms(4)] uint_sub_80 [OF assms(5)])
qed

lemma utf8_next_scalar: "utf8_next b s = (Some c, s') \<Longrightarrow> scalar c"
  using uint_8 [of b]
  by (auto simp: utf8_next_def Let_def second_def cont_def scalar_def split: if_split_asm)

lemma utf8_next_consumes:
  "utf8_next b s = (c, s') \<Longrightarrow> length s \<le> length s' + 3"
  "utf8_next b s = (c, s') \<Longrightarrow> uint b < 0xf0 \<Longrightarrow> length s \<le> length s' + 2"
  by (cases s; cases "tl s"; cases "tl (tl s)"; auto simp: utf8_next_def Let_def split: if_split_asm)+

lemma utf8_next_inline:
  assumes "\<not> U8_IS_SINGLE (uint b)" and "u8_inline (uint b) s = Some (x, s')"
  shows "utf8_next b s = (Some x, s')" and "x \<le> 0xffff"
proof -
  have b: "0x80 \<le> uint b" using assms(1) uint_8 [of b] by (simp add: single_iff)
  from assms(2) consider
      (three) t u r where "0xe0 \<le> uint b" "uint b < 0xf0" "s = t # u # r"
        "U8_IS_VALID_LEAD3_AND_T1 (uint b) t" "is_t u" "x = three_bytes (uint b) t u" "s' = r"
    | (two) t r where "0xc2 \<le> uint b" "uint b < 0xe0" "s = t # r" "is_t t" "x = two_bytes (uint b) t" "s' = r"
    by (cases s; cases "tl s") (auto simp: u8_inline_def split: if_split_asm)
  then have "utf8_next b s = (Some x, s') \<and> x \<le> 0xffff"
  proof cases
    case three
    from three(4) have t: "second (uint b) t" by (simp add: lead3_second [OF three(1,2)])
    from three(5) have u: "cont u" by (simp add: is_t_iff)
    show ?thesis
      using three t u second_cont [OF t] low6_of_cont(2) [OF second_cont [OF t]] low6_of_cont(2) [OF u]
      by (simp add: utf8_next_def Let_def three_bytes_eq)
  next
    case two
    from two(4) have t: "cont t" by (simp add: is_t_iff)
    then have "second (uint b) t" using two by (simp add: second_def)
    then show ?thesis
      using two t low6_of_cont(2) [OF t] by (simp add: utf8_next_def Let_def two_bytes_eq)
  qed
  then show "utf8_next b s = (Some x, s')" and "x \<le> 0xffff" by simp_all
qed

definition or_sentinel :: "int option \<times> u8 list \<Rightarrow> int \<times> u8 list" where
  "or_sentinel r = (case r of (c, s) \<Rightarrow> (case c of Some x \<Rightarrow> x | None \<Rightarrow> U_SENTINEL, s))"

lemma utf8_next_body:
  assumes "\<not> U8_IS_SINGLE (uint b)"
  shows "utf8_nextCharSafeBody False s (uint b) (- 1) = Some (or_sentinel (utf8_next b s))"
proof -
  have b: "0x80 \<le> uint b" using assms uint_8 [of b] by (simp add: single_iff)
  consider "uint b < 0xc2" | "0xc2 \<le> uint b" "uint b < 0xe0" | "0xe0 \<le> uint b" "uint b < 0xf0"
    | "0xf0 \<le> uint b" "uint b \<le> 0xf4" | "0xf4 < uint b" by linarith
  then show ?thesis
  proof cases
    case 1
    with b show ?thesis by (auto simp: utf8_nextCharSafeBody_def utf8_next_def or_sentinel_def errorValue_def Let_def)
  next
    case 2
    with b show ?thesis
      by (cases s) (auto simp: utf8_nextCharSafeBody_def utf8_next_def or_sentinel_def errorValue_def Let_def
          is_t_iff second_def two_bytes_eq)
  next
    case 3
    with b second_cont [of "uint b"] show ?thesis
      by (cases s; cases "tl s")
        (auto simp: utf8_nextCharSafeBody_def utf8_next_def or_sentinel_def errorValue_def Let_def
          is_t_iff lead3_second three_bytes_eq)
  next
    case 4
    with b second_cont [of "uint b"] show ?thesis
      by (cases s; cases "tl s"; cases "tl (tl s)")
        (auto simp: utf8_nextCharSafeBody_def utf8_next_def or_sentinel_def errorValue_def Let_def
          is_t_iff lead4_second four_bytes_eq)
  next
    case 5
    with b show ?thesis by (auto simp: utf8_nextCharSafeBody_def utf8_next_def or_sentinel_def errorValue_def Let_def)
  qed
qed

lemma utf8_next_single: "U8_IS_SINGLE (uint b) \<Longrightarrow> utf8_next b s = (Some (uint b), s)"
  using uint_8 [of b] by (simp add: single_iff utf8_next_def)

section \<open>The loops\<close>

text \<open>A buffer holds the units that fit, and may end in the lead half of a pair.\<close>

definition from8_spec :: "int \<Rightarrow> int \<Rightarrow> int option list \<Rightarrow> conv_fault + u16 list \<times> int \<times> int" where
  "from8_spec subchar cap cs =
    (if subchar < 0 \<and> None \<in> set cs then Inl Invalid_Char
     else let text = concat (map (encoding utf16_of subchar) cs); out = take (nat cap) text in
       Inr (out, int (length text) - int (length out), unpaired cs))"

definition from8_rest :: "int \<Rightarrow> int \<Rightarrow> int option list \<Rightarrow> u16 list \<Rightarrow> int \<Rightarrow> conv_fault + u16 list \<times> int \<times> int" where
  "from8_rest subchar cap cs d n =
    (case from8_spec subchar (cap - int (length d)) cs of
       Inl f \<Rightarrow> Inl f
     | Inr (out, req, k) \<Rightarrow> Inr (d @ out, req, n + k))"

lemma from8_rest_start: "from8_rest subchar cap cs [] 0 = from8_spec subchar cap cs"
  by (simp add: from8_rest_def split: sum.split prod.split)

lemma from8_rest_simps:
  "from8_rest subchar cap [] d n = Inr (d, 0, n)"
  "int (length d + length (utf16_of x)) \<le> cap \<Longrightarrow>
     from8_rest subchar cap (Some x # cs) d n = from8_rest subchar cap cs (d @ utf16_of x) n"
  "subchar < 0 \<Longrightarrow> from8_rest subchar cap (None # cs) d n = Inl Invalid_Char"
  "0 \<le> subchar \<Longrightarrow> int (length d + length (utf16_of subchar)) \<le> cap \<Longrightarrow>
     from8_rest subchar cap (None # cs) d n = from8_rest subchar cap cs (d @ utf16_of subchar) (n + 1)"
  by (auto simp: from8_rest_def from8_spec_def Let_def algebra_simps nat_diff_distrib' nat_int_add)

lemma utf16_of_length: "length (utf16_of c) = (if c < 0x10000 then 1 else 2)"
  by (simp add: utf16_of_def)

lemma put16_eq: "scalar c \<Longrightarrow> put16 c = utf16_of c"
  using U16_LEAD_TRAIL_eq [of c] by (auto simp: put16_def scalar_def utf16_of_def)

lemma unit16: "c \<le> 0xffff \<Longrightarrow> [word_of_int c] = utf16_of c"
  by (simp add: utf16_of_def)

text \<open>One iteration of the fast loop.\<close>

lemma from8_inner_step:
  assumes "good_sub subchar"
  shows "from8_inner subchar (Suc count) (b # s) d n =
    (let wide = \<not> U8_IS_SINGLE (uint b) \<and> u8_inline (uint b) s = None \<and> (uint b \<ge> 0xf0 \<or> subchar > 0xffff);
         count' = (if wide then count - 1 else count) in
     if wide \<and> count = 0 then Inr (b # s, d, n)
     else case utf8_next b s of
         (Some x, s') \<Rightarrow> from8_inner subchar count' s' (d @ utf16_of x) n
       | (None, s') \<Rightarrow>
           if subchar < 0 then Inl Invalid_Char
           else from8_inner subchar count' s' (d @ utf16_of subchar) (n + 1))"
proof (cases "U8_IS_SINGLE (uint b)")
  case True
  then show ?thesis using utf8_next_single [OF True, of s] uint_8 [of b]
    by (simp add: Let_def unit16 [of "uint b", symmetric])
next
  case False
  show ?thesis
  proof (cases "u8_inline (uint b) s")
    case None
    obtain c s' where nx: "utf8_next b s = (c, s')" by fastforce
    have x: "0 \<le> x \<and> put16 x = utf16_of x" if "c = Some x" for x
      using utf8_next_scalar [of b s x s'] nx that by (simp add: put16_eq) (simp add: scalar_def)
    have y: "\<not> subchar < 0 \<Longrightarrow> put16 subchar = utf16_of subchar" using assms by (auto simp: put16_eq)
    show ?thesis using False None x y
      by (cases c) (auto simp: Let_def utf8_next_body [OF False] nx or_sentinel_def)
  next
    case (Some r)
    obtain x s' where r: "r = (x, s')" by (cases r)
    show ?thesis using utf8_next_inline [OF False Some [unfolded r]] False Some r
      by (simp add: Let_def unit16)
  qed
qed

lemma wide_only:
  assumes "\<not> (\<not> U8_IS_SINGLE (uint b) \<and> u8_inline (uint b) s = None \<and> (uint b \<ge> 0xf0 \<or> subchar > 0xffff))"
    and "utf8_next b s = (c, s')"
  shows "length s \<le> length s' + 2" "c = Some x \<Longrightarrow> length (utf16_of x) = 1"
    "c = None \<Longrightarrow> length (utf16_of subchar) = 1"
proof -
  have "(length s \<le> length s' + 2) \<and> (c = Some x \<longrightarrow> length (utf16_of x) = 1)
      \<and> (c = None \<longrightarrow> length (utf16_of subchar) = 1)"
  proof (cases "U8_IS_SINGLE (uint b)")
    case True
    with assms(2) uint_8 [of b] show ?thesis
      by (auto simp: utf8_next_single utf16_of_length)
  next
    case single: False
    show ?thesis
    proof (cases "u8_inline (uint b) s")
      case (Some r)
      obtain y t where r: "r = (y, t)" by (cases r)
      from utf8_next_inline [OF single Some [unfolded r]] assms(2)
      have "c = Some y" "s' = t" "y \<le> 0xffff" by auto
      with Some r show ?thesis by (auto simp: u8_inline_def utf16_of_length split: if_split_asm)
    next
      case None
      with assms(1) single have b: "uint b < 0xf0" "subchar \<le> 0xffff" by auto
      have "c = Some x \<Longrightarrow> x \<le> 0xffff"
        using assms(2) b(1) uint_8 [of b]
        by (auto simp: utf8_next_def Let_def second_def cont_def split: if_split_asm)
      with utf8_next_consumes(2) [OF assms(2) b(1)] b(2) show ?thesis by (auto simp: utf16_of_length)
    qed
  qed
  then show "length s \<le> length s' + 2" "c = Some x \<Longrightarrow> length (utf16_of x) = 1"
    "c = None \<Longrightarrow> length (utf16_of subchar) = 1" by simp_all
qed

lemma from8_inner_correct:
  assumes "good_sub subchar" and "3 * count \<le> length src" and "int (length d + count) \<le> cap"
  shows "case from8_inner subchar count src d n of
      Inl f \<Rightarrow> f = Invalid_Char \<and> from8_rest subchar cap (utf8_chars src) d n = Inl Invalid_Char
    | Inr (src', d', n') \<Rightarrow> int (length d') \<le> cap
        \<and> from8_rest subchar cap (utf8_chars src') d' n' = from8_rest subchar cap (utf8_chars src) d n"
  using assms(2,3)
proof (induction count arbitrary: src d n rule: less_induct)
  case (less count)
  show ?case
  proof (cases count)
    case 0
    with less.prems show ?thesis by simp
  next
    case (Suc k)
    with less.prems(1) obtain b s where src: "src = b # s" by (cases src) auto
    obtain c s' where nx: "utf8_next b s = (c, s')" by fastforce
    define wide where "wide \<longleftrightarrow> \<not> U8_IS_SINGLE (uint b) \<and> u8_inline (uint b) s = None
      \<and> (uint b \<ge> 0xf0 \<or> subchar > 0xffff)"
    define k' where "k' = (if wide then k - 1 else k)"
    have ch: "utf8_chars src = c # utf8_chars s'" by (simp add: src nx)
    show ?thesis
    proof (cases "wide \<and> k = 0")
      case True
      with less.prems show ?thesis
        by (simp only: src Suc from8_inner_step [OF assms(1)] Let_def wide_def [symmetric]) simp
    next
      case False
      have lt: "k' < count" using Suc by (cases k) (simp_all add: k'_def)
      have len: "3 * k' \<le> length s'"
        using less.prems(1) False utf8_next_consumes(1) [OF nx] wide_only(1) [OF _ nx, of subchar]
        by (auto simp: k'_def wide_def [symmetric] src Suc)
      have room: "int (length (d @ utf16_of x) + k') \<le> cap" if "c = Some x \<or> c = None \<and> x = subchar" for x
        using less.prems(2) False that wide_only(2) [OF _ nx, of subchar x] wide_only(3) [OF _ nx, of subchar]
          utf16_of_length [of x]
        by (auto simp: k'_def wide_def [symmetric] src Suc split: if_split_asm)
      have e: "from8_inner subchar count src d n =
        (case utf8_next b s of
           (Some x, s') \<Rightarrow> from8_inner subchar k' s' (d @ utf16_of x) n
         | (None, s') \<Rightarrow>
             if subchar < 0 then Inl Invalid_Char
             else from8_inner subchar k' s' (d @ utf16_of subchar) (n + 1))"
        unfolding src Suc from8_inner_step [OF assms(1)] Let_def wide_def [symmetric] k'_def using False by auto
      show ?thesis
      proof (cases c)
        case None
        show ?thesis
        proof (cases "subchar < 0")
          case True
          with None show ?thesis by (simp add: e nx ch from8_rest_simps)
        next
          case False
          have r: "int (length (d @ utf16_of subchar) + k') \<le> cap" using room [of subchar] None by simp
          have m: "from8_rest subchar cap (c # utf8_chars s') d n
              = from8_rest subchar cap (utf8_chars s') (d @ utf16_of subchar) (n + 1)"
            using False None r by (simp add: from8_rest_simps(4))
          from False None show ?thesis unfolding e nx ch m
            using less.IH [OF lt len r, of "n + 1"] by simp
        qed
      next
        case (Some x)
        have r: "int (length (d @ utf16_of x) + k') \<le> cap" using room [of x] Some by simp
        have m: "from8_rest subchar cap (c # utf8_chars s') d n
            = from8_rest subchar cap (utf8_chars s') (d @ utf16_of x) n"
          using Some r by (simp add: from8_rest_simps(2))
        from Some show ?thesis unfolding e nx ch m
          using less.IH [OF lt len r, of n] by simp
      qed
    qed
  qed
qed

lemma from8_outer_correct:
  assumes "good_sub subchar" and "int (length d) \<le> cap"
  shows "case from8_outer subchar cap src d n of
      Inl f \<Rightarrow> f = Invalid_Char \<and> from8_rest subchar cap (utf8_chars src) d n = Inl Invalid_Char
    | Inr (src', d', n') \<Rightarrow> int (length d') \<le> cap
        \<and> from8_rest subchar cap (utf8_chars src') d' n' = from8_rest subchar cap (utf8_chars src) d n"
  using assms
proof (induction subchar cap src d n rule: from8_outer.induct)
  case (1 subchar cap src d n)
  define count where "count = from8_count cap src d"
  show ?case
  proof (cases "count < 3")
    case True
    then show ?thesis using 1(3) by (simp add: from8_outer.simps [of subchar cap src d n] count_def)
  next
    case False
    have c: "3 * nat count \<le> length src" "int (length d + nat count) \<le> cap"
      using False by (auto simp: count_def from8_count_def Let_def split: if_splits)
    show ?thesis
    proof (cases "from8_inner subchar (nat count) src d n")
      case (Inl f)
      then show ?thesis using from8_inner_correct [OF 1(2) c, of n] False
        by (simp add: from8_outer.simps [of subchar cap src d n] count_def Let_def)
    next
      case (Inr r)
      obtain src' d' n' where r: "r = (src', d', n')" by (cases r)
      have i: "int (length d') \<le> cap"
        "from8_rest subchar cap (utf8_chars src') d' n' = from8_rest subchar cap (utf8_chars src) d n"
        using from8_inner_correct [OF 1(2) c, of n] Inr r by simp_all
      have e: "from8_outer subchar cap src d n = from8_outer subchar cap src' d' n'"
        using Inr False by (simp add: from8_outer.simps [of subchar cap src d n] count_def Let_def r)
      show ?thesis
        unfolding e i(2) [symmetric]
        by (rule 1(1) [OF refl _ _ refl refl]) (use Inr False i(1) 1(2) r in \<open>simp_all add: count_def\<close>)
    qed
  qed
qed

declare from8_outer.simps [simp del]

text \<open>One character of the careful loop and of the preflight.\<close>

definition put_in_room ::
  "int \<Rightarrow> u16 list \<Rightarrow> int \<Rightarrow> u8 list \<Rightarrow> int \<Rightarrow> conv_fault + u8 list \<times> u16 list \<times> int \<times> int" where
  "put_in_room cap d y s' n =
    (if int (length d + length (utf16_of y)) \<le> cap then Inr (s', d @ utf16_of y, n, 0)
     else Inr (s', d @ take 1 (utf16_of y), n, 1))"

lemma from8_char_eq:
  assumes "good_sub subchar" and "int (length d) < cap"
  shows "from8_char False subchar cap (uint b) s d n =
    (case utf8_next b s of
       (Some x, s') \<Rightarrow> put_in_room cap d x s' n
     | (None, s') \<Rightarrow> if subchar < 0 then Inl Invalid_Char else put_in_room cap d subchar s' (n + 1))"
proof -
  have narrow: "put_in_room cap d y s' n = Inr (s', d @ [word_of_int y], n, 0)" if "y \<le> 0xffff" for y s' n
    using that assms(2) by (simp add: put_in_room_def utf16_of_length unit16 [symmetric])
  have wide: "put_in_room cap d y s' n =
      (if int (length d) + 1 < cap then Inr (s', d @ [U16_LEAD y, U16_TRAIL y], n, 0)
       else Inr (s', d @ [U16_LEAD y], n, 1))"
    if "\<not> y \<le> 0xffff" "y \<le> 0x10ffff" for y s' n
    using that U16_LEAD_TRAIL_eq [of y, symmetric] by (simp add: put_in_room_def)
  show ?thesis
  proof (cases "U8_IS_SINGLE (uint b)")
    case True
    then show ?thesis using utf8_next_single [OF True, of s] uint_8 [of b]
      by (simp add: from8_char_def narrow)
  next
    case False
    show ?thesis
    proof (cases "u8_inline (uint b) s")
      case (Some r)
      obtain x s' where r: "r = (x, s')" by (cases r)
      show ?thesis using utf8_next_inline [OF False Some [unfolded r]] False Some r
        by (simp add: from8_char_def narrow)
    next
      case None
      obtain c s' where nx: "utf8_next b s = (c, s')" by fastforce
      have x: "0 \<le> x" "x \<le> 0x10ffff" if "c = Some x" for x
        using utf8_next_scalar [of b s x s'] nx that by (simp_all add: scalar_def)
      have y: "\<not> subchar < 0 \<Longrightarrow> subchar \<le> 0x10ffff" using assms(1) by (auto simp: scalar_def)
      show ?thesis using False None x y
        by (cases c) (auto simp: from8_char_def Let_def utf8_next_body [OF False] nx or_sentinel_def narrow wide)
    qed
  qed
qed

lemma from8_measure_eq:
  assumes "good_sub subchar"
  shows "from8_measure False subchar (uint b) s r n =
    (case utf8_next b s of
       (Some x, s') \<Rightarrow> Inr (s', r + int (length (utf16_of x)), n)
     | (None, s') \<Rightarrow>
         if subchar < 0 then Inl Invalid_Char else Inr (s', r + int (length (utf16_of subchar)), n + 1))"
proof (cases "U8_IS_SINGLE (uint b)")
  case True
  then show ?thesis using utf8_next_single [OF True, of s] uint_8 [of b]
    by (simp add: from8_measure_def utf16_of_length)
next
  case False
  show ?thesis
  proof (cases "u8_inline (uint b) s")
    case (Some r)
    obtain x s' where r: "r = (x, s')" by (cases r)
    show ?thesis using utf8_next_inline [OF False Some [unfolded r]] False Some r
      by (simp add: from8_measure_def utf16_of_length)
  next
    case None
    obtain c s' where nx: "utf8_next b s = (c, s')" by fastforce
    have x: "0 \<le> x" "U16_LENGTH x = int (length (utf16_of x))" if "c = Some x" for x
      using utf8_next_scalar [of b s x s'] nx that by (simp_all add: U16_LENGTH_eq) (simp add: scalar_def)
    have y: "\<not> subchar < 0 \<Longrightarrow> U16_LENGTH subchar = int (length (utf16_of subchar))"
      using assms by (auto simp: U16_LENGTH_eq)
    show ?thesis using False None x y
      by (cases c) (auto simp: from8_measure_def Let_def utf8_next_body [OF False] nx or_sentinel_def)
  qed
qed

abbreviation (input) texts :: "int \<Rightarrow> u8 list \<Rightarrow> u16 list" where
  "texts subchar s \<equiv> concat (map (encoding utf16_of subchar) (utf8_chars s))"

lemma from8_preflight_eq:
  assumes "good_sub subchar"
  shows "from8_preflight subchar s r n =
    (if subchar < 0 \<and> None \<in> set (utf8_chars s) then Inl Invalid_Char
     else Inr (r + int (length (texts subchar s)), n + unpaired (utf8_chars s)))"
proof (induction s arbitrary: r n rule: utf8_chars.induct)
  case (2 b s)
  obtain c s' where nx: "utf8_next b s = (c, s')" by fastforce
  have IH: "from8_preflight subchar s' r n =
    (if subchar < 0 \<and> None \<in> set (utf8_chars s') then Inl Invalid_Char
     else Inr (r + int (length (texts subchar s')), n + unpaired (utf8_chars s')))" for r n
    by (rule "2.IH" [OF nx [symmetric]])
  show ?case
    by (cases c) (auto simp: IH nx from8_measure_eq [OF assms])
qed simp

definition from8_finish :: "int \<Rightarrow> conv_fault + u8 list \<times> u16 list \<times> int \<times> int \<Rightarrow> conv_fault + u16 list \<times> int \<times> int" where
  "from8_finish subchar r =
    (case r of
       Inl f \<Rightarrow> Inl f
     | Inr (src, pDest, subs, reqLength) \<Rightarrow>
         (case from8_preflight subchar src reqLength subs of
            Inl f \<Rightarrow> Inl f
          | Inr (reqLength', subs') \<Rightarrow> Inr (pDest, reqLength', subs')))"

text \<open>A buffer with no room left, and one with room for half of the next character.\<close>

lemma from8_rest_full:
  "int (length d) = cap \<Longrightarrow>
    from8_rest subchar cap cs d n =
     (if subchar < 0 \<and> None \<in> set cs then Inl Invalid_Char
      else Inr (d, int (length (concat (map (encoding utf16_of subchar) cs))), n + unpaired cs))"
  by (auto simp: from8_rest_def from8_spec_def Let_def)

lemma from8_rest_half:
  assumes "int (length d) < cap" "cap < int (length d + length (encoding utf16_of subchar c))"
  shows "from8_rest subchar cap (c # cs) d n =
     (if subchar < 0 \<and> None \<in> set (c # cs) then Inl Invalid_Char
      else Inr (d @ take 1 (encoding utf16_of subchar c),
        1 + int (length (concat (map (encoding utf16_of subchar) cs))), n + unpaired (c # cs)))"
proof -
  have l: "length (encoding utf16_of subchar c) = 2" "cap - int (length d) = 1"
    using assms utf16_of_length [of "case c of Some x \<Rightarrow> x | None \<Rightarrow> subchar"]
    by (auto simp: encoding_def split: if_split_asm)
  then show ?thesis by (simp add: from8_rest_def from8_spec_def Let_def)
qed

lemma from8_careful_correct:
  assumes "good_sub subchar" and "int (length d) \<le> cap"
  shows "from8_finish subchar (from8_careful subchar cap s d n) = from8_rest subchar cap (utf8_chars s) d n"
  using assms(2)
proof (induction s arbitrary: d n rule: utf8_chars.induct)
  case 1
  show ?case by (simp add: from8_finish_def from8_rest_simps(1))
next
  case (2 b s)
  obtain c s' where nx: "utf8_next b s = (c, s')" by fastforce
  have IH: "from8_finish subchar (from8_careful subchar cap s' d n) = from8_rest subchar cap (utf8_chars s') d n"
    if "int (length d) \<le> cap" for d n
    by (rule "2.IH" [OF nx [symmetric] that])
  have ch: "utf8_chars (b # s) = c # utf8_chars s'" by (simp add: nx)
  note pre = from8_preflight_eq [OF assms(1)]
  show ?case
  proof (cases "int (length d) < cap")
    case False
    with "2.prems" have "int (length d) = cap" by simp
    then show ?thesis
      by (simp add: from8_finish_def from8_rest_full pre del: utf8_chars.simps(2) from8_preflight.simps(2))
  next
    case room: True
    note char = from8_char_eq [OF assms(1) room, of b s n, unfolded nx]
    show ?thesis
    proof (cases "c = None \<and> subchar < 0")
      case True
      with room char show ?thesis unfolding ch by (simp add: from8_finish_def from8_rest_simps(3))
    next
      case False
      define y where "y = (case c of Some x \<Rightarrow> x | None \<Rightarrow> subchar)"
      define n' where "n' = (if c = None then n + 1 else n)"
      have p: "from8_char False subchar cap (uint b) s d n = put_in_room cap d y s' n'"
        using char False by (cases c) (simp_all add: y_def n'_def)
      have y: "encoding utf16_of subchar c = utf16_of y" by (simp add: encoding_def y_def)
      show ?thesis
      proof (cases "int (length d + length (utf16_of y)) \<le> cap")
        case True
        have "from8_rest subchar cap (c # utf8_chars s') d n = from8_rest subchar cap (utf8_chars s') (d @ utf16_of y) n'"
          using False True by (cases c) (simp_all add: y_def n'_def from8_rest_simps)
        with room True IH [of "d @ utf16_of y" n'] show ?thesis unfolding ch
          by (simp add: p put_in_room_def)
      next
        case half: False
        have "n' + unpaired cs = n + unpaired (c # cs)" for cs
          by (cases c) (simp_all add: n'_def)
        with room half False show ?thesis unfolding ch
          by (auto simp: p put_in_room_def from8_finish_def pre from8_rest_half y)
      qed
    qed
  qed
qed

lemma from8_counted_correct:
  assumes "good_sub subchar" and "0 \<le> cap"
  shows "from8_counted subchar cap s = from8_spec subchar cap (utf8_chars s)"
proof -
  have o: "case from8_outer subchar cap s [] 0 of
      Inl f \<Rightarrow> f = Invalid_Char \<and> from8_rest subchar cap (utf8_chars s) [] 0 = Inl Invalid_Char
    | Inr (src', d', n') \<Rightarrow> int (length d') \<le> cap
        \<and> from8_rest subchar cap (utf8_chars src') d' n' = from8_rest subchar cap (utf8_chars s) [] 0"
    using assms(2) by (intro from8_outer_correct [OF assms(1)]) simp
  have "from8_counted subchar cap s =
    (case from8_outer subchar cap s [] 0 of
       Inl f \<Rightarrow> Inl f
     | Inr (src', d', n') \<Rightarrow> from8_finish subchar (from8_careful subchar cap src' d' n'))"
    by (simp add: from8_counted_def from8_finish_def split: sum.split)
  also have "\<dots> = from8_rest subchar cap (utf8_chars s) [] 0"
    using o by (auto simp: from8_careful_correct [OF assms(1)] split: sum.splits)
  finally show ?thesis by (simp add: from8_rest_start)
qed

theorem u_strFromUTF8WithSub_eq:
  assumes "sub_arg subchar" and "0 \<le> cap" and "\<not> U_FAILURE e"
  shows "u_strFromUTF8WithSub False cap (Some s) (int (length s)) subchar e
    = conversion_of cap e (from8_spec subchar cap (utf8_chars s))"
proof -
  have "good_sub subchar" using assms(1) by auto
  with assms show ?thesis
    by (simp add: u_strFromUTF8WithSub_def good_args source_counted from8_counted_correct)
qed

section \<open>A NUL-terminated source\<close>

lemma nul_continues_nothing: "\<not> is_t 0" "\<not> second c 0"
  by (simp_all add: is_t_iff cont_def second_def)

lemma body_nul:
  assumes "0x80 \<le> c"
  shows "utf8_nextCharSafeBody True (s @ 0 # rest) c (- 1)
    = map_option (map_prod id (\<lambda>s'. s' @ 0 # rest)) (utf8_nextCharSafeBody False s c (- 1))"
proof -
  have l3: "\<not> U8_IS_VALID_LEAD3_AND_T1 (c AND 0xf) 0" if "0xe0 \<le> c" "c < 0xf0"
    using lead3_second(2) [OF that] by (simp add: nul_continues_nothing)
  have l4: "\<not> U8_IS_VALID_LEAD4_AND_T1 (c AND 7) 0" if "0xf0 \<le> c" "c \<le> 0xf4"
    using lead4_second [OF that] by (simp add: nul_continues_nothing)
  have z: "\<not> (0 :: u8) - 0x80 \<le> 0x3f" by (rule nul_continues_nothing)
  consider "s = []" | t where "s = [t]" | t u where "s = [t, u]" | t u v r where "s = t # u # v # r"
    by (metis list.exhaust)
  then show ?thesis
    by cases (simp_all add: utf8_nextCharSafeBody_def errorValue_def Let_def l3 l4 z)
qed

lemma inline_nul: "u8_inline c (s @ 0 # rest) = map_option (map_prod id (\<lambda>s'. s' @ 0 # rest)) (u8_inline c s)"
proof -
  have l3: "\<not> U8_IS_VALID_LEAD3_AND_T1 c 0" if "0xe0 \<le> c" "c < 0xf0"
    using lead3_second(1) [OF that] by (simp add: nul_continues_nothing)
  have z: "\<not> (0 :: u8) - 0x80 \<le> 0x3f" by (rule nul_continues_nothing)
  consider "s = []" | t where "s = [t]" | t u r where "s = t # u # r"
    by (metis list.exhaust)
  then show ?thesis
    by cases (auto simp: u8_inline_def l3 z)
qed

lemma char_nul:
  assumes "0 \<le> c" "c < 0x100"
  shows "from8_char True subchar cap c (s @ 0 # rest) d n
    = map_sum id (map_prod (\<lambda>s'. s' @ 0 # rest) id) (from8_char False subchar cap c s d n)"
proof (cases "U8_IS_SINGLE c")
  case False
  then have "0x80 \<le> c" using assms by (simp add: single_iff)
  then show ?thesis using False
    by (auto simp: from8_char_def inline_nul body_nul Let_def split: option.split)
qed (simp add: from8_char_def)

lemma measure_nul:
  assumes "0 \<le> c" "c < 0x100"
  shows "from8_measure True subchar c (s @ 0 # rest) r n
    = map_sum id (map_prod (\<lambda>s'. s' @ 0 # rest) id) (from8_measure False subchar c s r n)"
proof (cases "U8_IS_SINGLE c")
  case False
  then have "0x80 \<le> c" using assms by (simp add: single_iff)
  then show ?thesis using False
    by (auto simp: from8_measure_def inline_nul body_nul Let_def split: option.split)
qed (simp add: from8_measure_def)

lemma utf8_next_suffix: "utf8_next b s = (c, s') \<Longrightarrow> set s' \<subseteq> set s"
  by (auto simp: utf8_next_def Let_def split: if_split_asm dest!: list.set_sel(2) [rotated])

lemma from8_nul_eq:
  assumes "good_sub subchar" and "int (length d) \<le> cap" and "0 \<notin> set s"
  shows "from8_nul subchar cap (s @ 0 # rest) d n
    = map_sum id (map_prod (\<lambda>s'. s' @ 0 # rest) id) (from8_careful subchar cap s d n)"
  using assms(2,3)
proof (induction s arbitrary: d n rule: utf8_chars.induct)
  case (2 b s)
  obtain c s' where nx: "utf8_next b s = (c, s')" by fastforce
  have "0 \<notin> set s'" using utf8_next_suffix [OF nx] "2.prems"(2) by auto
  then have IH: "from8_nul subchar cap (s' @ 0 # rest) d n
    = map_sum id (map_prod (\<lambda>s'. s' @ 0 # rest) id) (from8_careful subchar cap s' d n)"
    if "int (length d) \<le> cap" for d n
    by (rule "2.IH" [OF nx [symmetric] that])
  have b: "b \<noteq> 0" using "2.prems"(2) by auto
  show ?case
  proof (cases "int (length d) < cap")
    case False
    then show ?thesis by simp
  next
    case True
    note st = char_nul [OF uint_8, of subchar cap b s rest d n] from8_char_eq [OF assms(1) True, of b s n]
    show ?thesis
      using True b IH by (cases c) (auto simp: st nx put_in_room_def id_def)
  qed
qed simp

lemma from8_nul_preflight_eq:
  assumes "good_sub subchar" and "0 \<notin> set s"
  shows "from8_nul_preflight subchar (s @ 0 # rest) r n = from8_preflight subchar s r n"
  using assms(2)
proof (induction s arbitrary: r n rule: utf8_chars.induct)
  case (2 b s)
  obtain c s' where nx: "utf8_next b s = (c, s')" by fastforce
  have "0 \<notin> set s'" using utf8_next_suffix [OF nx] "2.prems" by auto
  then have IH: "from8_nul_preflight subchar (s' @ 0 # rest) r n = from8_preflight subchar s' r n" for r n
    by (rule "2.IH" [OF nx [symmetric]])
  have b: "b \<noteq> 0" using "2.prems" by auto
  note st = measure_nul [OF uint_8, of subchar b s rest r n] from8_measure_eq [OF assms(1), of b s r n]
  show ?case
    using b IH by (cases c) (auto simp: st nx)
qed simp

lemma from8_careful_suffix:
  assumes "good_sub subchar"
  shows "from8_careful subchar cap s d n = Inr (src, d', n', r) \<Longrightarrow> set src \<subseteq> set s"
proof (induction s arbitrary: d n rule: utf8_chars.induct)
  case (2 b s)
  obtain c s' where nx: "utf8_next b s = (c, s')" by fastforce
  have IH: "set src \<subseteq> set s'" if "from8_careful subchar cap s' d n = Inr (src, d', n', r)" for d n
    by (rule "2.IH" [OF nx [symmetric] that])
  show ?case
  proof (cases "int (length d) < cap")
    case False
    with "2.prems" show ?thesis by auto
  next
    case True
    note st = from8_char_eq [OF assms True, of b s n]
    from "2.prems" show ?thesis
      using True IH utf8_next_suffix [OF nx]
      by (cases c) (auto simp: st nx put_in_room_def split: if_split_asm)
  qed
qed simp

theorem u_strFromUTF8WithSub_nul_eq:
  assumes "sub_arg subchar" and "0 \<le> cap" and "\<not> U_FAILURE e" and "0 \<notin> set s"
  shows "u_strFromUTF8WithSub False cap (Some (s @ 0 # rest)) (- 1) subchar e
    = u_strFromUTF8WithSub False cap (Some s) (int (length s)) subchar e"
proof -
  have g: "good_sub subchar" using assms(1) by auto
  have c0: "int (length ([] :: u16 list)) \<le> cap" using assms(2) by simp
  have "from8_nul_terminated subchar cap (s @ 0 # rest) = from8_finish subchar (from8_careful subchar cap s [] 0)"
  proof (cases "from8_careful subchar cap s [] 0")
    case (Inr r)
    obtain src d n q where r: "r = (src, d, n, q)" by (cases r)
    have "0 \<notin> set src" using from8_careful_suffix [OF g Inr [unfolded r]] assms(4) by blast
    then show ?thesis
      by (simp add: from8_nul_terminated_def from8_finish_def from8_nul_eq [OF g c0 assms(4)] Inr r
          from8_nul_preflight_eq [OF g])
  qed (simp add: from8_nul_terminated_def from8_finish_def from8_nul_eq [OF g c0 assms(4)])
  then have "from8_nul_terminated subchar cap (s @ 0 # rest) = from8_spec subchar cap (utf8_chars s)"
    by (simp add: from8_careful_correct [OF g c0] from8_rest_start)
  with assms show ?thesis unfolding u_strFromUTF8WithSub_eq [OF assms(1-3)]
    by (simp add: u_strFromUTF8WithSub_def good_args source_nul)
qed

section \<open>The call as a whole\<close>



end
