(* ===== verification/Simple_Icu.thy ===== *)
theory Simple_Icu
  imports Utf_Decode_Facts
begin

text \<open>
  CrossCutLib/SimpleIcu.cpp, the string conversions the program calls: \<open>toUtf8\<close>, \<open>toUtf16\<close>,
  \<open>toFilestring\<close> and \<open>toUistring\<close>, over the conversion routines of \<open>Utf_Encode\<close> and \<open>Utf_Decode\<close>.

  \<^item> A \<open>std::wstring\<close> is a list of UTF-16 units and a \<open>std::string\<close> a list of bytes. The build is the
    Windows one with \<open>UNICODE\<close>, where \<open>filestring\<close> and \<open>uistring\<close> are \<open>std::wstring\<close>.
  \<^item> The buffer size is computed in \<open>int32_t\<close>: \<open>Undefined\<close> is an overflow there, a read outside a
    string or a read of bytes nobody stored; \<open>Bad_Array_Length\<close> is what \<open>new char[n]\<close> throws for a
    negative \<open>n\<close>.
\<close>

section \<open>The functions\<close>

datatype icu_fault = Undefined | Bad_Array_Length

text \<open>\<open>std::string(buffer.get(), resultSize)\<close>; \<open>resultSize\<close> is 0 unless the conversion writes it.\<close>

definition string_of_buffer :: "'u conversion \<Rightarrow> icu_fault + 'u list" where
  "string_of_buffer r =
    (let n = (case destLength r of Some k \<Rightarrow> nat k | None \<Rightarrow> 0) in
     if n \<le> length (stored r) then Inr (take n (stored r)) else Inl Undefined)"

definition convert_with ::
  "int \<Rightarrow> (int \<Rightarrow> int \<Rightarrow> 'u conversion option) \<Rightarrow> nat \<Rightarrow> icu_fault + 'u list" where
  "convert_with factor conv len =
    (let n = signed_take_bit 31 (int len) in
     case Option.bind (mul32 n factor) (\<lambda>m. add32 m 1) of
       None \<Rightarrow> Inl Undefined
     | Some bufferSize \<Rightarrow>
         if bufferSize < 0 then Inl Bad_Array_Length
         else (case conv bufferSize n of None \<Rightarrow> Inl Undefined | Some r \<Rightarrow> string_of_buffer r))"

definition toUtf8 :: "u16 list \<Rightarrow> icu_fault + u8 list" where
  "toUtf8 s = convert_with 4 (\<lambda>bufferSize n. u_strToUTF8 False bufferSize (Some s) n U_ZERO_ERROR) (length s)"

definition toUtf8_same :: "u8 list \<Rightarrow> u8 list" where
  "toUtf8_same s = s"

definition toUtf8_wchar :: "u16 \<Rightarrow> icu_fault + u8 list" where
  "toUtf8_wchar c = toUtf8 [c]"

text \<open>\<open>char32_t\<close>: by way of a buffer of four units, all 0 to begin with.\<close>

definition toUtf8_char32 :: "u32 \<Rightarrow> icu_fault + u8 list" where
  "toUtf8_char32 c =
    (case u_strFromUTF32 False 4 (Some [sint c]) 1 U_ZERO_ERROR of
       None \<Rightarrow> Inl Undefined
     | Some r \<Rightarrow>
         if errorCode r = U_ZERO_ERROR
         then (let utf16Char = take 4 (stored r @ replicate 4 0);
                   utf16Size = (case destLength r of Some k \<Rightarrow> k | None \<Rightarrow> 0) in
           case u_strToUTF8 False 16 (Some utf16Char) utf16Size U_ZERO_ERROR of
             None \<Rightarrow> Inl Undefined
           | Some r' \<Rightarrow> string_of_buffer r')
         else Inr [])"

text \<open>The substitution character is \<open>'?'\<close>, 0x3f.\<close>

definition toUtf16 :: "u8 list \<Rightarrow> icu_fault + u16 list" where
  "toUtf16 s =
    convert_with 2 (\<lambda>bufferSize n. u_strFromUTF8WithSub False bufferSize (Some s) n 0x3f U_ZERO_ERROR)
      (length s)"

definition toUtf16_same :: "u16 list \<Rightarrow> u16 list" where
  "toUtf16_same s = s"

definition toFilestring :: "u8 list \<Rightarrow> icu_fault + u16 list" where
  "toFilestring s = toUtf16 s"

definition toUistring :: "u8 list \<Rightarrow> icu_fault + u16 list" where
  "toUistring s = toUtf16 s"

definition toUistring_of_filestring :: "u16 list \<Rightarrow> u16 list" where
  "toUistring_of_filestring s = s"

section \<open>Encoding and decoding are inverse\<close>

text \<open>
  What an encoding form promises: reading the first character undoes writing one, and writing it
  undoes reading. Texts then can be decoded and encoded as a whole.
\<close>

locale encoding_form =
  fixes enc :: "int \<Rightarrow> 'u list"
    and nxt :: "'u \<Rightarrow> 'u list \<Rightarrow> int option \<times> 'u list"
    and chars :: "'u list \<Rightarrow> int option list"
  assumes chars_Nil: "chars [] = []"
    and chars_Cons: "chars (u # us) = (case nxt u us of (c, us') \<Rightarrow> c # chars us')"
    and nxt_shorter: "nxt u us = (x, us') \<Longrightarrow> length us' \<le> length us"
    and nxt_scalar: "nxt u us = (Some c, us') \<Longrightarrow> scalar c"
    and nxt_enc: "scalar c \<Longrightarrow> \<exists>u r. enc c = u # r \<and> (\<forall>rest. nxt u (r @ rest) = (Some c, rest))"
    and enc_nxt: "nxt u us = (Some c, us') \<Longrightarrow> u # us = enc c @ us'"
begin

lemma text_induct [case_names Nil Cons]:
  assumes "P []" and "\<And>u us c us'. nxt u us = (c, us') \<Longrightarrow> P us' \<Longrightarrow> P (u # us)"
  shows "P us"
proof (induction us rule: length_induct)
  case (1 us)
  show ?case
  proof (cases us)
    case (Cons u vs)
    obtain c us' where n: "nxt u vs = (c, us')" by fastforce
    show ?thesis unfolding Cons by (rule assms(2) [OF n]) (use 1 nxt_shorter [OF n] Cons in simp)
  qed (simp add: assms(1))
qed

lemma chars_scalar: "Some x \<in> set (chars us) \<Longrightarrow> scalar x"
  by (induction us rule: text_induct) (auto simp: chars_Nil chars_Cons nxt_scalar)

lemma chars_encode: "(\<And>c. c \<in> set cs \<Longrightarrow> scalar c) \<Longrightarrow> chars (concat (map enc cs)) = map Some cs"
proof (induction cs)
  case (Cons c cs)
  from nxt_enc [of c] Cons.prems obtain u r
    where "enc c = u # r" "\<And>rest. nxt u (r @ rest) = (Some c, rest)" by auto
  with Cons show ?case by (simp add: chars_Cons)
qed (simp add: chars_Nil)

lemma encode_chars: "None \<notin> set (chars us) \<Longrightarrow> concat (map (\<lambda>c. enc (the c)) (chars us)) = us"
proof (induction us rule: text_induct)
  case (Cons u us c us')
  from Cons.prems Cons.hyps obtain x where "c = Some x" by (cases c) (auto simp: chars_Cons)
  with Cons show ?case by (simp add: chars_Cons enc_nxt [of u us x us', symmetric])
qed (simp add: chars_Nil)

end

lemma utf16_next_utf16_of:
  assumes "scalar c"
  obtains u r where "utf16_of c = u # r" "\<And>rest. utf16_next u (r @ rest) = (Some c, rest)"
proof (cases "c < 0x10000")
  case True
  with assms have "uint (word_of_int c :: u16) = c" by (simp add: scalar_def uint_word_of_int)
  with True assms show ?thesis
    by (intro that [of "word_of_int c" "[]"]) (simp_all add: utf16_of_def utf16_next_def surrogate_def scalar_def)
next
  case False
  define h l where "h = (c - 0x10000) div 1024" and "l = (c - 0x10000) mod 1024"
  have hl: "0 \<le> h" "h < 1024" "0 \<le> l" "l < 1024" "c = 0x10000 + h * 1024 + l"
    using assms False by (simp_all add: h_def l_def scalar_def)
  then have v: "uint (word_of_int (0xd800 + h) :: u16) = 0xd800 + h" "uint (word_of_int (0xdc00 + l) :: u16) = 0xdc00 + l"
    by (simp_all add: uint_word_of_int del: of_int_add)
  show ?thesis
    using False hl
    by (intro that [of "word_of_int (0xd800 + h)" "[word_of_int (0xdc00 + l)]"])
      (simp_all add: utf16_of_def h_def [symmetric] l_def [symmetric] utf16_next_def surrogate_def v del: of_int_add)
qed

lemma digits64:
  fixes c :: int
  shows "c = c div 4096 * 4096 + c div 64 mod 64 * 64 + c mod 64"
    and "c = c div 262144 * 262144 + c div 4096 mod 64 * 4096 + c div 64 mod 64 * 64 + c mod 64"
proof -
  have d: "c div 4096 = c div 64 div 64" "c div 262144 = c div 4096 div 64"
    using zdiv_zmult2_eq [of 64 c 64] zdiv_zmult2_eq [of 64 c 4096] by simp_all
  show a: "c = c div 4096 * 4096 + c div 64 mod 64 * 64 + c mod 64"
    using div_mult_mod_eq [of c 64] div_mult_mod_eq [of "c div 64" 64] unfolding d(1) by linarith
  show "c = c div 262144 * 262144 + c div 4096 mod 64 * 4096 + c div 64 mod 64 * 64 + c mod 64"
    using a div_mult_mod_eq [of "c div 4096" 64] unfolding d(2) by linarith
qed

lemma utf8_next_utf8_of:
  assumes "scalar c"
  obtains b r where "utf8_of c = b # r" "\<And>rest. utf8_next b (r @ rest) = (Some c, rest)"
proof -
  have w: "uint (word_of_int x :: u8) = x" if "0 \<le> x" "x < 0x100" for x
    using that by (simp add: uint_word_of_int)
  consider "c < 0x80" | "0x80 \<le> c" "c < 0x800" | "0x800 \<le> c" "c < 0x10000" | "0x10000 \<le> c" by linarith
  then show ?thesis
  proof cases
    case 1
    with assms show ?thesis
      by (intro that [of "word_of_int c" "[]"]) (simp_all add: utf8_of_def utf8_next_def w scalar_def)
  next
    case 2
    define h l where "h = c div 64" and "l = c mod 64"
    have hl: "2 \<le> h" "h < 32" "0 \<le> l" "l < 64" "c = h * 64 + l"
      using 2 by (simp_all add: h_def l_def)
    have v: "uint (word_of_int (0xc0 + h) :: u8) = 0xc0 + h" "uint (word_of_int (0x80 + l) :: u8) = 0x80 + l"
      using hl by (intro w; simp)+
    have e: "utf8_of c = word_of_int (0xc0 + h) # [word_of_int (0x80 + l)]"
      using 2 by (simp add: utf8_of_def h_def l_def del: of_int_add)
    show ?thesis
      by (rule that [OF e]) (use hl in \<open>simp add: utf8_next_def Let_def second_def cont_def v del: of_int_add\<close>)
  next
    case 3
    define h m l where "h = c div 4096" and "m = c div 64 mod 64" and "l = c mod 64"
    have c: "c = h * 4096 + m * 64 + l" unfolding h_def m_def l_def by (rule digits64(1))
    have hl: "0 \<le> h" "h < 16" "0 \<le> m" "m < 64" "0 \<le> l" "l < 64"
      using 3 by (simp_all add: h_def m_def l_def)
    have v: "uint (word_of_int (0xe0 + h) :: u8) = 0xe0 + h" "uint (word_of_int (0x80 + m) :: u8) = 0x80 + m"
      "uint (word_of_int (0x80 + l) :: u8) = 0x80 + l"
      using hl by (intro w; simp)+
    have s: "second (0xe0 + h) (word_of_int (0x80 + m))"
      using assms 3 hl c unfolding second_def cont_def v scalar_def by auto
    have e: "utf8_of c = word_of_int (0xe0 + h) # [word_of_int (0x80 + m), word_of_int (0x80 + l)]"
      using 3 by (simp add: utf8_of_def h_def m_def l_def del: of_int_add)
    show ?thesis
      by (rule that [OF e]) (use hl c in \<open>simp add: utf8_next_def Let_def s cont_def v del: of_int_add\<close>)
  next
    case 4
    define h k m l where "h = c div 262144" and "k = c div 4096 mod 64" and "m = c div 64 mod 64" and "l = c mod 64"
    have hl: "0 \<le> h" "h \<le> 4" "0 \<le> k" "k < 64" "0 \<le> m" "m < 64" "0 \<le> l" "l < 64"
      using 4 assms by (simp_all add: h_def k_def m_def l_def scalar_def)
    have c: "c = h * 262144 + k * 4096 + m * 64 + l" unfolding h_def k_def m_def l_def by (rule digits64(2))
    have v: "uint (word_of_int (0xf0 + h) :: u8) = 0xf0 + h" "uint (word_of_int (0x80 + k) :: u8) = 0x80 + k"
      "uint (word_of_int (0x80 + m) :: u8) = 0x80 + m" "uint (word_of_int (0x80 + l) :: u8) = 0x80 + l"
      using hl by (intro w; simp)+
    have s: "second (0xf0 + h) (word_of_int (0x80 + k))"
      using assms 4 hl c unfolding second_def cont_def v scalar_def by auto
    have e: "utf8_of c = word_of_int (0xf0 + h)
        # [word_of_int (0x80 + k), word_of_int (0x80 + m), word_of_int (0x80 + l)]"
      using 4 by (simp add: utf8_of_def h_def k_def m_def l_def del: of_int_add)
    show ?thesis
      by (rule that [OF e]) (use hl c in \<open>simp add: utf8_next_def Let_def s cont_def v del: of_int_add\<close>)
  qed
qed

lemma digit_split:
  fixes l k h :: int
  assumes "0 \<le> l" "l < k"
  shows "(h * k + l) div k = h" "(h * k + l) mod k = l"
  using assms by simp_all

lemma utf16_of_next: "utf16_next u us = (Some c, us') \<Longrightarrow> u # us = utf16_of c @ us'"
proof (cases "surrogate u")
  case False
  assume "utf16_next u us = (Some c, us')"
  with False uint_16 [of u] show ?thesis by (simp add: utf16_next_unit) (auto simp: utf16_of_def)
next
  case True
  assume n: "utf16_next u us = (Some c, us')"
  with True obtain v where v: "us = v # us'" "0xd800 \<le> uint u" "uint u \<le> 0xdbff" "0xdc00 \<le> uint v" "uint v \<le> 0xdfff"
      "c = 0x10000 + (uint u - 0xd800) * 1024 + (uint v - 0xdc00)"
    by (auto simp: utf16_next_def surrogate_def split: list.splits if_split_asm)
  have "c - 0x10000 = (uint u - 0xd800) * 1024 + (uint v - 0xdc00)" by (simp add: v(6))
  then have "(c - 0x10000) div 1024 = uint u - 0xd800" "(c - 0x10000) mod 1024 = uint v - 0xdc00"
    using v digit_split [of "uint v - 0xdc00" 1024 "uint u - 0xd800"] by simp_all
  moreover have "\<not> c < 0x10000" using v by simp
  ultimately show ?thesis by (simp add: utf16_of_def v(1) del: of_int_add of_int_diff)
qed

lemma utf8_of_next: "utf8_next b s = (Some c, s') \<Longrightarrow> b # s = utf8_of c @ s'"
proof -
  assume n: "utf8_next b s = (Some c, s')"
  have c: "scalar c" by (rule utf8_next_scalar [OF n])
  have lo: "0 \<le> low6 t" "low6 t < 64" "word_of_int (0x80 + low6 t) = t" if "cont t" for t :: u8
    using that by (simp_all add: cont_def)
  consider "uint b < 0x80" | "0xc2 \<le> uint b" "uint b < 0xe0" | "0xe0 \<le> uint b" "uint b < 0xf0"
    | "0xf0 \<le> uint b" "uint b \<le> 0xf4" | "0x80 \<le> uint b" "uint b < 0xc2 \<or> 0xf4 < uint b" by linarith
  then show ?thesis
  proof cases
    case 1
    with n show ?thesis by (simp add: utf8_next_def) (auto simp: utf8_of_def)
  next
    case 2
    with n obtain t where t: "s = t # s'" "cont t" "c = (uint b - 0xc0) * 64 + low6 t"
      by (cases s) (auto simp: utf8_next_def Let_def second_def split: if_split_asm)
    have "c div 64 = uint b - 0xc0" "c mod 64 = low6 t"
      unfolding t(3) using lo [OF t(2)] by (simp_all only: digit_split)
    moreover have "0x80 \<le> c" "c < 0x800" using lo(1,2) [OF t(2)] 2 t(3) by auto
    ultimately show ?thesis using lo(3) [OF t(2)] t(1) by (simp add: utf8_of_def)
  next
    case 3
    with n obtain t u where t: "s = t # u # s'" "second (uint b) t" "cont u"
        "c = (uint b - 0xe0) * 4096 + low6 t * 64 + low6 u"
      by (cases s; cases "tl s") (auto simp: utf8_next_def Let_def split: if_split_asm)
    have ct: "cont t" by (rule second_cont [OF t(2)])
    have "0xe0 < uint b \<or> 0x20 \<le> low6 t" using t(2) 3 by (cases "uint b = 0xe0") (simp_all add: second_def)
    then have g: "0x800 \<le> c" using 3 t(4) lo(1,2) [OF ct] lo(1,2) [OF t(3)] by (elim disjE) auto
    have g2: "c < 0x10000" using 3 t(4) lo(1,2) [OF ct] lo(1,2) [OF t(3)] by auto
    have e: "c = ((uint b - 0xe0) * 64 + low6 t) * 64 + low6 u" using t(4) by simp
    have d: "c div 64 = (uint b - 0xe0) * 64 + low6 t" "c mod 64 = low6 u"
      unfolding e using lo [OF t(3)] by (simp_all only: digit_split)
    have "c div 64 mod 64 = low6 t" "c div 64 div 64 = uint b - 0xe0"
      unfolding d(1) using lo [OF ct] by (simp_all only: digit_split)
    moreover have "c div 4096 = c div 64 div 64" using zdiv_zmult2_eq [of 64 c 64] by simp
    ultimately have k: "0xe0 + c div 4096 = uint b" "0x80 + c div 64 mod 64 = 0x80 + low6 t"
        "0x80 + c mod 64 = 0x80 + low6 u"
      using d(2) by simp_all
    have "utf8_of c = map word_of_int [0xe0 + c div 4096, 0x80 + c div 64 mod 64, 0x80 + c mod 64]"
      using g g2 unfolding utf8_of_def by simp
    then show ?thesis unfolding k t(1) list.map lo(3) [OF ct] lo(3) [OF t(3)] by simp
  next
    case 4
    with n obtain t u v where t: "s = t # u # v # s'" "second (uint b) t" "cont u" "cont v"
        "c = (uint b - 0xf0) * 262144 + low6 t * 4096 + low6 u * 64 + low6 v"
      by (cases s; cases "tl s"; cases "tl (tl s)") (auto simp: utf8_next_def Let_def split: if_split_asm)
    have ct: "cont t" by (rule second_cont [OF t(2)])
    have "0xf0 < uint b \<or> 0x10 \<le> low6 t" using t(2) 4 by (cases "uint b = 0xf0") (simp_all add: second_def)
    then have g: "0x10000 \<le> c"
      using 4 t(5) lo(1,2) [OF ct] lo(1,2) [OF t(3)] lo(1,2) [OF t(4)] by (elim disjE) auto
    have e: "c = (((uint b - 0xf0) * 64 + low6 t) * 64 + low6 u) * 64 + low6 v" using t(5) by simp
    have d: "c div 64 = ((uint b - 0xf0) * 64 + low6 t) * 64 + low6 u" "c mod 64 = low6 v"
      unfolding e using lo [OF t(4)] by (simp_all only: digit_split)
    have d2: "c div 64 mod 64 = low6 u" "c div 64 div 64 = (uint b - 0xf0) * 64 + low6 t"
      unfolding d(1) using lo [OF t(3)] by (simp_all only: digit_split)
    have "c div 64 div 64 mod 64 = low6 t" "c div 64 div 64 div 64 = uint b - 0xf0"
      unfolding d2(2) using lo [OF ct] by (simp_all only: digit_split)
    moreover have "c div 4096 = c div 64 div 64" "c div 262144 = c div 4096 div 64"
      using zdiv_zmult2_eq [of 64 c 64] zdiv_zmult2_eq [of 64 c 4096] by simp_all
    ultimately have k: "0xf0 + c div 262144 = uint b" "0x80 + c div 4096 mod 64 = 0x80 + low6 t"
        "0x80 + c div 64 mod 64 = 0x80 + low6 u" "0x80 + c mod 64 = 0x80 + low6 v"
      using d(2) d2(1) by simp_all
    have "utf8_of c
        = map word_of_int [0xf0 + c div 262144, 0x80 + c div 4096 mod 64, 0x80 + c div 64 mod 64, 0x80 + c mod 64]"
      using g unfolding utf8_of_def by simp
    then show ?thesis unfolding k t(1) list.map lo(3) [OF ct] lo(3) [OF t(3)] lo(3) [OF t(4)] by simp
  next
    case 5
    with n show ?thesis by (simp add: utf8_next_def Let_def split: if_split_asm)
  qed
qed

interpretation utf16: encoding_form utf16_of utf16_next utf16_chars
proof
  show "\<exists>u r. utf16_of c = u # r \<and> (\<forall>rest. utf16_next u (r @ rest) = (Some c, rest))" if "scalar c" for c
    by (rule utf16_next_utf16_of [OF that]) blast
qed (simp_all add: utf16_next_shorter utf16_next_scalar utf16_of_next)

interpretation utf8: encoding_form utf8_of utf8_next utf8_chars
proof
  show "\<exists>b r. utf8_of c = b # r \<and> (\<forall>rest. utf8_next b (r @ rest) = (Some c, rest))" if "scalar c" for c
    by (rule utf8_next_utf8_of [OF that]) blast
qed (simp_all add: utf8_next_shorter utf8_next_scalar utf8_of_next)

section \<open>The buffers are large enough\<close>

lemma utf16_next_consumes: "utf16_next u us = (Some c, us') \<Longrightarrow> length (utf8_of c) + 3 * length us' \<le> 3 + 3 * length us"
proof (cases "surrogate u")
  case True
  assume "utf16_next u us = (Some c, us')"
  with True utf16_next_some_length [OF True] utf8_of_le(1) [of c] show ?thesis by fastforce
next
  case False
  assume "utf16_next u us = (Some c, us')"
  with False unit_bytes_le [of u] show ?thesis by (simp add: utf16_next_unit)
qed

lemma utf8_length_le:
  "None \<notin> set (utf16_chars us) \<Longrightarrow> length (concat (map (encoding utf8_of subchar) (utf16_chars us))) \<le> 3 * length us"
proof (induction us rule: utf16_chars.induct)
  case (2 u us)
  obtain c us' where nx: "utf16_next u us = (c, us')" by fastforce
  with "2.prems" obtain x where c: "c = Some x" by (cases c) auto
  have "length (concat (map (encoding utf8_of subchar) (utf16_chars us'))) \<le> 3 * length us'"
    by (rule "2.IH" [OF nx [symmetric]]) (use "2.prems" nx in simp)
  with utf16_next_consumes [OF nx [unfolded c]] show ?case by (simp add: nx c)
qed simp

lemma utf16_length_le:
  assumes "subchar \<le> 0xffff"
  shows "length (concat (map (encoding utf16_of subchar) (utf8_chars s))) \<le> length s"
proof (induction s rule: utf8_chars.induct)
  case (2 b s)
  obtain c s' where nx: "utf8_next b s = (c, s')" by fastforce
  have IH: "length (concat (map (encoding utf16_of subchar) (utf8_chars s'))) \<le> length s'"
    by (rule "2.IH" [OF nx [symmetric]])
  have "length (encoding utf16_of subchar c) + length s' \<le> Suc (length s)"
  proof (cases c)
    case None
    with assms utf8_next_shorter [OF nx] show ?thesis by (simp add: utf16_of_length)
  next
    case (Some x)
    show ?thesis
    proof (cases "x < 0x10000")
      case True
      with utf8_next_shorter [OF nx] show ?thesis by (simp add: Some utf16_of_length)
    next
      case False
      have "length s' < length s"
        using nx False uint_8 [of b] unfolding Some
        by (cases s; auto simp: utf8_next_def Let_def split: if_split_asm)
      then show ?thesis by (simp add: Some utf16_of_length)
    qed
  qed
  with IH show ?case by (simp add: nx)
qed simp

lemma string_of_stored:
  "destLength r = Some (int (length (stored r))) \<Longrightarrow> string_of_buffer r = Inr (stored r)"
  by (simp add: string_of_buffer_def)

lemma convert_with_eq:
  assumes "int len * factor + 1 \<le> INT_MAX" and "1 \<le> factor"
  shows "convert_with factor conv len =
    (case conv (int len * factor + 1) (int len) of None \<Rightarrow> Inl Undefined | Some r \<Rightarrow> string_of_buffer r)"
proof -
  have l: "int len \<le> int len * factor" using assms(2) mult_left_mono [of 1 factor "int len"] by simp
  then have "signed_take_bit 31 (int len) = int len"
    using assms(1) by (intro signed_take_bit_int_eq_self) simp_all
  then show ?thesis using assms l by (simp add: convert_with_def Let_def mul32_def add32_def in_s32_def)
qed

definition utf8_text :: "u16 list \<Rightarrow> u8 list" where
  "utf8_text s = concat (map (\<lambda>c. utf8_of (the c)) (utf16_chars s))"

definition utf16_text :: "u8 list \<Rightarrow> u16 list" where
  "utf16_text s = concat (map (\<lambda>c. utf16_of (case c of Some x \<Rightarrow> x | None \<Rightarrow> 0x3f)) (utf8_chars s))"

lemma utf8_text_encoding:
  "None \<notin> set (utf16_chars s) \<Longrightarrow> concat (map (encoding utf8_of subchar) (utf16_chars s)) = utf8_text s"
  unfolding utf8_text_def by (rule arg_cong [of _ _ concat], rule map_cong) (auto simp: encoding_def split: option.splits)

lemma utf16_text_encoding: "concat (map (encoding utf16_of 0x3f) (utf8_chars s)) = utf16_text s"
  by (simp add: utf16_text_def encoding_def [abs_def])

lemma no_failure: "\<not> U_FAILURE U_ZERO_ERROR"
  by (simp add: U_FAILURE_def)

lemma question_mark: "scalar 0x3f" "(0x3f :: int) \<le> 0xffff" "0 \<le> (0x3f :: int)"
  by (simp_all add: scalar_def)

theorem toUtf8_eq:
  assumes "length s < 2 ^ 29"
  shows "toUtf8 s = Inr (if None \<in> set (utf16_chars s) then [] else utf8_text s)"
proof -
  have n: "int (length s) * 4 + 1 \<le> INT_MAX" using assms by simp
  let ?cap = "int (length s) * 4 + 1"
  have u: "u_strToUTF8 False ?cap (Some s) (int (length s)) U_ZERO_ERROR
    = map_option (\<lambda>r. r\<lparr>numSubs := None\<rparr>)
       (conversion_of ?cap U_ZERO_ERROR (conversion_spec utf8_of U_SENTINEL ?cap (utf16_chars s)))"
    unfolding u_strToUTF8_def by (subst u_strToUTF8WithSub_eq) (simp_all add: no_failure)
  have t: "toUtf8 s = (case u_strToUTF8 False ?cap (Some s) (int (length s)) U_ZERO_ERROR of
      None \<Rightarrow> Inl Undefined | Some r \<Rightarrow> string_of_buffer r)"
    unfolding toUtf8_def by (rule convert_with_eq [OF n]) simp
  show ?thesis
  proof (cases "None \<in> set (utf16_chars s)")
    case True
    then show ?thesis
      by (simp add: t u conversion_spec_def conversion_of_def returns_NULL_def string_of_buffer_def)
  next
    case False
    have "length (utf8_text s) \<le> 3 * length s"
      using utf8_length_le [OF False, of 0] by (simp add: utf8_text_encoding [OF False])
    then have "fitting ?cap (map (encoding utf8_of U_SENTINEL) (utf16_chars s)) = utf8_text s"
      using fitting_all [of "map (encoding utf8_of U_SENTINEL) (utf16_chars s)" ?cap]
      by (simp add: utf8_text_encoding [OF False])
    with False show ?thesis
      by (simp add: t u conversion_spec_def conversion_of_def finish_conversion_def Let_def
          utf8_text_encoding [OF False] string_of_stored split: prod.split)
  qed
qed

theorem toUtf16_eq:
  assumes "length s < 2 ^ 30"
  shows "toUtf16 s = Inr (utf16_text s)"
proof -
  have n: "int (length s) * 2 + 1 \<le> INT_MAX" using assms by simp
  let ?cap = "int (length s) * 2 + 1"
  have u: "u_strFromUTF8WithSub False ?cap (Some s) (int (length s)) 0x3f U_ZERO_ERROR
    = conversion_of ?cap U_ZERO_ERROR (from8_spec 0x3f ?cap (utf8_chars s))"
    using question_mark(1) by (intro u_strFromUTF8WithSub_eq) (simp_all add: no_failure)
  have t: "toUtf16 s = (case u_strFromUTF8WithSub False ?cap (Some s) (int (length s)) 0x3f U_ZERO_ERROR of
      None \<Rightarrow> Inl Undefined | Some r \<Rightarrow> string_of_buffer r)"
    unfolding toUtf16_def by (rule convert_with_eq [OF n]) simp
  have l: "length (utf16_text s) \<le> length s"
    using utf16_length_le [OF question_mark(2), of s] by (simp only: utf16_text_encoding)
  have "from8_spec 0x3f ?cap (utf8_chars s)
      = Inr (utf16_text s, 0, unpaired (utf8_chars s))"
    using question_mark(3) l unfolding from8_spec_def utf16_text_encoding by (simp add: Let_def)
  then show ?thesis
    by (simp add: t u conversion_of_def finish_conversion_def Let_def string_of_stored split: prod.split)
qed

section \<open>Single characters\<close>

definition code_points :: "int list \<Rightarrow> int option list" where
  "code_points cs = map (\<lambda>c. if scalar c then Some c else None) cs"

lemma from32_put_scalar:
  assumes "scalar c" and "int (length d + length (utf16_of c)) \<le> cap"
  shows "from32_put cap c d r = Some (d @ utf16_of c, r)"
  using assms U16_LEAD_TRAIL_eq [of c] unit16 [of c]
  by (auto simp: from32_put_def scalar_def utf16_of_length)

lemma from32_put_not_scalar: "\<not> scalar c \<Longrightarrow> from32_put cap c d r = None"
  by (auto simp: from32_put_def scalar_def)

lemma from32_loop_fits:
  assumes "good_sub subchar"
    and "int (length d + length (concat (map (encoding utf16_of subchar) (code_points cs)))) \<le> cap"
  shows "from32_loop subchar cap cs d r n =
    (if subchar < 0 \<and> None \<in> set (code_points cs) then Inl Invalid_Char
     else Inr (d @ concat (map (encoding utf16_of subchar) (code_points cs)), r, n + unpaired (code_points cs)))"
  using assms(2)
proof (induction cs arbitrary: d n)
  case (Cons c cs)
  show ?case
  proof (cases "scalar c")
    case True
    then show ?thesis using Cons.prems Cons.IH [of "d @ utf16_of c" n]
      by (simp add: code_points_def from32_put_scalar)
  next
    case False
    show ?thesis
    proof (cases "subchar < 0")
      case True
      with False show ?thesis by (simp add: code_points_def from32_put_not_scalar)
    next
      case sub: False
      with assms(1) have "scalar subchar" by simp
      with False sub show ?thesis using Cons.prems Cons.IH [of "d @ utf16_of subchar" "n + 1"]
        by (simp add: code_points_def from32_put_not_scalar from32_put_scalar)
    qed
  qed
qed (simp add: code_points_def)

theorem u_strFromUTF32WithSub_fits:
  assumes "sub_arg subchar" and "\<not> U_FAILURE e"
    and "int (length (concat (map (encoding utf16_of subchar) (code_points cs)))) \<le> cap"
  shows "u_strFromUTF32WithSub False cap (Some cs) (int (length cs)) subchar e
    = conversion_of cap e
        (if subchar < 0 \<and> None \<in> set (code_points cs) then Inl Invalid_Char
         else Inr (concat (map (encoding utf16_of subchar) (code_points cs)), 0, unpaired (code_points cs)))"
proof -
  have g: "good_sub subchar" and c: "0 \<le> cap" using assms by auto
  show ?thesis
    using assms(2) from32_loop_fits [OF g, of "[]" cs cap 0 0] assms(3)
    by (simp add: u_strFromUTF32WithSub_def source_counted good_args [OF assms(1) c])
qed

lemma toUtf8_char32_eq:
  "toUtf8_char32 c = Inr (if scalar (sint c) then utf8_of (sint c) else [])"
proof -
  have l: "length (encoding utf16_of U_SENTINEL x) \<le> 2" for x
    by (simp add: encoding_def utf16_of_length)
  have f: "u_strFromUTF32 False 4 (Some [sint c]) 1 U_ZERO_ERROR = map_option (\<lambda>r. r\<lparr>numSubs := None\<rparr>)
      (conversion_of 4 U_ZERO_ERROR
        (if None \<in> set (code_points [sint c]) then Inl Invalid_Char
         else Inr (concat (map (encoding utf16_of U_SENTINEL) (code_points [sint c])), 0, unpaired (code_points [sint c]))))"
    using u_strFromUTF32WithSub_fits [of U_SENTINEL U_ZERO_ERROR "[sint c]" 4] l
    by (simp add: u_strFromUTF32_def no_failure code_points_def order_trans [OF l])
  show ?thesis
  proof (cases "scalar (sint c)")
    case False
    then show ?thesis
      by (simp add: toUtf8_char32_def f code_points_def conversion_of_def returns_NULL_def)
  next
    case True
    have n: "length (utf16_of (sint c)) < 4" by (simp add: utf16_of_length)
    let ?buf = "utf16_of (sint c) @ replicate (4 - length (utf16_of (sint c))) (0 :: u16)"
    have src: "source_units (Some ?buf) (int (length (utf16_of (sint c)))) = Some (utf16_of (sint c))"
      by (simp add: source_units_def)
    have ch: "utf16_chars (utf16_of (sint c)) = [Some (sint c)]"
      using utf16.chars_encode [of "[sint c]"] True by simp
    have "int (length (utf8_of (sint c))) \<le> 16" using utf8_of_le(1) [of "sint c"] by simp
    then have w: "u_strToUTF8 False 16 (Some ?buf)
        (int (length (utf16_of (sint c)))) U_ZERO_ERROR
      = map_option (\<lambda>r. r\<lparr>numSubs := None\<rparr>) (conversion_of 16 U_ZERO_ERROR (Inr (utf8_of (sint c), 0, 0)))"
      using src no_failure
      by (simp add: good_args u_strToUTF8_def u_strToUTF8WithSub_def to8_counted_correct conversion_spec_def ch Let_def
          encoding_def)
    from True n show ?thesis
      by (simp add: toUtf8_char32_def f w code_points_def conversion_of_def finish_conversion_def
          TERMINATE_STRING_def no_failure Let_def string_of_buffer_def split: prod.split)
  qed
qed

section \<open>Properties\<close>

lemma toUtf8_well_formed:
  "length s < 2 ^ 29 \<Longrightarrow> None \<notin> set (utf16_chars s) \<Longrightarrow> toUtf8 s = Inr (utf8_text s)"
  by (simp add: toUtf8_eq)

lemma utf8_text_length: "None \<notin> set (utf16_chars s) \<Longrightarrow> length (utf8_text s) \<le> 3 * length s"
  using utf8_length_le [of s 0] by (simp add: utf8_text_encoding)

lemma map_Some_the: "None \<notin> set cs \<Longrightarrow> map Some (map the cs) = cs"
  by (induction cs) auto

lemma utf8_text_chars:
  assumes "None \<notin> set (utf16_chars s)"
  shows "utf8_chars (utf8_text s) = utf16_chars s"
proof -
  have "scalar c" if "c \<in> set (map the (utf16_chars s))" for c
  proof -
    from that obtain y where y: "y \<in> set (utf16_chars s)" "c = the y" by auto
    with assms obtain x where "y = Some x" by (cases y) auto
    with y show ?thesis by (simp add: utf16_chars_scalar)
  qed
  then have "utf8_chars (concat (map utf8_of (map the (utf16_chars s)))) = map Some (map the (utf16_chars s))"
    by (rule utf8.chars_encode)
  then show ?thesis using map_Some_the [OF assms] by (simp add: utf8_text_def o_def)
qed

lemma utf16_text_chars:
  "utf16_chars (utf16_text s) = map (\<lambda>c. Some (case c of Some x \<Rightarrow> x | None \<Rightarrow> 0x3f)) (utf8_chars s)"
proof -
  let ?f = "\<lambda>c. case c of Some x \<Rightarrow> x | None \<Rightarrow> (0x3f :: int)"
  have "scalar c" if "c \<in> set (map ?f (utf8_chars s))" for c
  proof -
    from that obtain y where y: "y \<in> set (utf8_chars s)" "c = ?f y" by auto
    show ?thesis
    proof (cases y)
      case None
      with y(2) question_mark(1) show ?thesis by simp
    next
      case (Some x)
      with y show ?thesis by (simp add: utf8.chars_scalar)
    qed
  qed
  then have "utf16_chars (concat (map utf16_of (map ?f (utf8_chars s)))) = map Some (map ?f (utf8_chars s))"
    by (rule utf16.chars_encode)
  then show ?thesis by (simp add: utf16_text_def o_def)
qed

text \<open>
  Property C24: a UTF-16 string without an unpaired surrogate survives the conversion to UTF-8 and back:
  `toUtf8` returns a string, and `toUtf16` of it is the string that went in.
\<close>

theorem toUtf16_toUtf8:
  assumes "None \<notin> set (utf16_chars s)" and "3 * length s < 2 ^ 30"
  shows "\<exists>b. toUtf8 s = Inr b \<and> toUtf16 b = Inr s"
proof -
  have b: "toUtf8 s = Inr (utf8_text s)" using assms by (intro toUtf8_well_formed) simp_all
  have t: "toUtf16 (utf8_text s) = Inr (utf16_text (utf8_text s))"
    using assms utf8_text_length [of s] by (intro toUtf16_eq) simp
  have "utf16_text (utf8_text s) = concat (map (\<lambda>c. utf16_of (the c)) (utf16_chars s))"
    unfolding utf16_text_def utf8_text_chars [OF assms(1)] using assms(1)
    by (intro arg_cong [of _ _ concat] map_cong) (auto split: option.splits)
  then have e: "utf16_text (utf8_text s) = s" by (simp only: utf16.encode_chars [OF assms(1)])
  show ?thesis
  proof (intro exI conjI)
    show "toUtf8 s = Inr (utf8_text s)" by (rule b)
    show "toUtf16 (utf8_text s) = Inr s" unfolding t e by (rule refl)
  qed
qed

theorem toUtf16_toUtf8_witness:
  "\<exists>b. toUtf8 [0x41, 0xd83d, 0xde00] = Inr b \<and> toUtf16 b = Inr [0x41, 0xd83d, 0xde00]"
  by (rule toUtf16_toUtf8) (simp_all add: utf16_next_def surrogate_def)

text \<open>
  Property C25: `toUtf8` reports an ill-formed string by losing it. For a string short enough for the
  buffer size it never fails, and the result is empty exactly when the string is or when there is an
  unpaired surrogate anywhere in it, however much text there is around it.
\<close>

theorem toUtf8_empty_iff:
  assumes "length s < 2 ^ 29"
  shows "\<exists>b. toUtf8 s = Inr b \<and> (b = [] \<longleftrightarrow> s = [] \<or> None \<in> set (utf16_chars s))"
proof -
  have "utf8_text s = [] \<longleftrightarrow> s = []"
  proof (cases s)
    case (Cons u us)
    have "utf8_of c \<noteq> []" for c by (simp add: utf8_of_def)
    then show ?thesis by (cases "utf16_next u us") (simp add: Cons utf8_text_def)
  qed (simp add: utf8_text_def)
  then show ?thesis unfolding toUtf8_eq [OF assms] by auto
qed

theorem toUtf8_empty_iff_witness:
  "\<exists>b. toUtf8 [0x41, 0xd83d, 0x42] = Inr b \<and> b = []"
  using toUtf8_empty_iff [of "[0x41, 0xd83d, 0x42]"] by (auto simp: utf16_next_def surrogate_def)

text \<open>
  Property C26: `toUtf16` loses nothing but ill-formed sequences. Whatever the bytes are, it returns
  well-formed UTF-16, which `toUtf8` turns back into the same characters with a question mark for
  each ill-formed sequence; a well-formed string comes back as it was.
\<close>

theorem toUtf8_toUtf16:
  assumes "length s < 2 ^ 29"
  shows "\<exists>t. toUtf16 s = Inr t \<and> None \<notin> set (utf16_chars t)
    \<and> toUtf8 t = Inr (concat (map (\<lambda>c. utf8_of (case c of Some x \<Rightarrow> x | None \<Rightarrow> 0x3f)) (utf8_chars s)))
    \<and> (None \<notin> set (utf8_chars s) \<longrightarrow> toUtf8 t = Inr s)"
proof -
  let ?f = "\<lambda>c. case c of Some x \<Rightarrow> x | None \<Rightarrow> (0x3f :: int)"
  have t: "toUtf16 s = Inr (utf16_text s)" using assms by (intro toUtf16_eq) simp
  have n: "None \<notin> set (utf16_chars (utf16_text s))" by (auto simp: utf16_text_chars)
  have l: "length (utf16_text s) < 2 ^ 29"
    using utf16_length_le [OF question_mark(2), of s, unfolded utf16_text_encoding] assms by linarith
  have b: "toUtf8 (utf16_text s) = Inr (concat (map (\<lambda>c. utf8_of (?f c)) (utf8_chars s)))"
    by (simp add: toUtf8_well_formed [OF l n] utf8_text_def utf16_text_chars o_def)
  have w: "concat (map (\<lambda>c. utf8_of (?f c)) (utf8_chars s)) = s" if "None \<notin> set (utf8_chars s)"
  proof -
    have "map (\<lambda>c. utf8_of (?f c)) (utf8_chars s) = map (\<lambda>c. utf8_of (the c)) (utf8_chars s)"
      using that by (intro map_cong) (auto split: option.splits)
    then show ?thesis by (simp only: utf8.encode_chars [OF that])
  qed
  show ?thesis
  proof (intro exI conjI impI)
    show "toUtf16 s = Inr (utf16_text s)" by (rule t)
    show "None \<notin> set (utf16_chars (utf16_text s))" by (rule n)
    show "toUtf8 (utf16_text s) = Inr (concat (map (\<lambda>c. utf8_of (?f c)) (utf8_chars s)))" by (rule b)
    show "toUtf8 (utf16_text s) = Inr s" if "None \<notin> set (utf8_chars s)"
      unfolding b w [OF that] by (rule refl)
  qed
qed

theorem toUtf8_toUtf16_witness:
  "\<exists>t. toUtf16 [0x41, 0xff, 0xc3, 0xa9] = Inr t \<and> toUtf8 t = Inr [0x41, 0x3f, 0xc3, 0xa9]"
proof -
  have c: "utf8_chars [0x41, 0xff, 0xc3, 0xa9] = [Some 0x41, None, Some 0xe9]"
    by (simp add: utf8_next_def Let_def second_def cont_def)
  show ?thesis
    using toUtf8_toUtf16 [of "[0x41, 0xff, 0xc3, 0xa9]", unfolded c] by (auto simp: utf8_of_def)
qed

text \<open>The size of the buffer leaves the range of \<open>int32_t\<close> from 2^29 units on.\<close>

theorem toUtf8_overflows:
  assumes "2 ^ 29 \<le> length s" and "length s < 2 ^ 31"
  shows "toUtf8 s = Inl Undefined"
proof -
  have "signed_take_bit 31 (int (length s)) = int (length s)"
    using assms(2) by (intro signed_take_bit_int_eq_self) simp_all
  then show ?thesis
    using assms(1) by (simp add: toUtf8_def convert_with_def Let_def mul32_def add32_def chk32_def in_s32_def)
qed

theorem toUtf8_overflows_witness: "toUtf8 (replicate (2 ^ 29) 0x41) = Inl Undefined"
  by (rule toUtf8_overflows) simp_all

text \<open>
  Property: for a source that ends in NUL, `srcLength == -1` gives what its length gives, in both
  directions, whatever follows the NUL in memory. The code has its own loops for such sources; they
  read nothing past the NUL.
\<close>

theorem nul_terminated_is_counted:
  assumes "sub_arg subchar" and "0 \<le> cap"
  shows "(0 \<notin> set us \<longrightarrow> u_strToUTF8WithSub False cap (Some (us @ 0 # rest)) (- 1) subchar U_ZERO_ERROR
      = u_strToUTF8WithSub False cap (Some us) (int (length us)) subchar U_ZERO_ERROR)
    \<and> (0 \<notin> set s \<longrightarrow> u_strFromUTF8WithSub False cap (Some (s @ 0 # rest')) (- 1) subchar U_ZERO_ERROR
      = u_strFromUTF8WithSub False cap (Some s) (int (length s)) subchar U_ZERO_ERROR)"
  using u_strToUTF8WithSub_nul_eq [OF assms no_failure] u_strFromUTF8WithSub_nul_eq [OF assms no_failure]
  by blast

theorem nul_terminated_is_counted_witness:
  "u_strFromUTF8WithSub False 8 (Some [0xc3, 0xa9, 0, 0x41]) (- 1) 0x3f U_ZERO_ERROR
    = u_strFromUTF8WithSub False 8 (Some [0xc3, 0xa9]) 2 0x3f U_ZERO_ERROR"
  using nul_terminated_is_counted [of "0x3f" 8 _ _ "[0xc3, 0xa9]" "[0x41]"] by (simp add: scalar_def)

end
