(* ===== verification/Class_Procs.thy ===== *)
theory Class_Procs
  imports Windows_Item
begin

text \<open>
  The window procedures of \<open>WindowsLib/ClassWindow\<close>: how a C++ object is bound to the window it
  creates, how messages find it, and how it is unbound again, with \<open>MdiClient\<close>. A window keeps
  two values for the program, its user data and its procedure; both live in the system and are
  read and written through \<open>proc_api\<close>. The objects of the program are a partial map from
  addresses: a read through the address of an object that is gone, or through a null pointer, is
  undefined behaviour, the result \<open>None\<close> of a step. The theory shows that no run of the program
  gets there.
\<close>

section \<open>The system and the program\<close>

text \<open>What the procedure of a window can be, and what its user data can hold.\<close>

datatype wnd_proc = No_Proc | Setup_Proc | Setup_Mdi_Proc | Forward_Proc | System_Proc nat

datatype class_ptr = Null_Ptr | Obj nat

text \<open>
  The calls into the system. \<open>Open\<close> is the part of \<open>CreateWindowEx\<close> and \<open>CreateMDIWindow\<close> that
  makes the window of a class, before its first message; \<open>Open_Client\<close> makes the window of the
  class \<open>MDICLIENT\<close> under a parent. \<open>SetProc\<close> returns the procedure it replaced, \<open>No_Proc\<close> when it
  failed.
\<close>

record 'w proc_api =
  IsWindow :: "hwnd \<Rightarrow> 'w \<Rightarrow> bool"
  GetUser :: "hwnd \<Rightarrow> 'w \<Rightarrow> class_ptr"
  SetUser :: "hwnd \<Rightarrow> class_ptr \<Rightarrow> 'w \<Rightarrow> 'w"
  GetProc :: "hwnd \<Rightarrow> 'w \<Rightarrow> wnd_proc"
  SetProc :: "hwnd \<Rightarrow> wnd_proc \<Rightarrow> 'w \<Rightarrow> wnd_proc \<times> 'w"
  Open :: "string \<Rightarrow> 'w \<Rightarrow> hwnd \<times> 'w"
  Open_Client :: "hwnd \<Rightarrow> 'w \<Rightarrow> hwnd \<times> 'w"
  Close :: "hwnd \<Rightarrow> 'w \<Rightarrow> 'w"
  Focused :: "'w \<Rightarrow> int \<times> hwnd"

text \<open>An object of \<open>ClassWindow\<close>; its first fields are those of \<open>WindowsItem\<close>.\<close>

record class_window = item +
  hWndMDIClient :: hwnd
  defaultProc :: wnd_proc

definition new_class_window :: class_window where
  "new_class_window = item.extend new_item \<lparr>hWndMDIClient = NULL, defaultProc = No_Proc\<rparr>"

text \<open>
  The default procedures of the system, what the virtual functions of \<open>ClassWindow\<close> return the
  result of, and what the program and the system were seen to do: a notification of an object, a
  message handled by an object's virtual function, and a message that no object saw.
\<close>

datatype default_proc = DefWindowProc | DefFrameProc hwnd | DefMDIChildProc

datatype call =
    Notified nat notification
  | Handled nat handler default_proc
  | Unhandled hwnd default_proc

record 'w program =
  sys :: 'w
  objects :: "nat \<Rightarrow> class_window option"
  calls :: "call list"

text \<open>
  The messages a window procedure can get: \<open>WM_NCCREATE\<close> with the creation parameter, which is the
  object itself for a window and a structure that holds it for an MDI child, and all others.
\<close>

datatype create_param = Plain class_ptr | In_Mdi_Struct class_ptr

datatype wnd_message = WM_NCCREATE create_param | Msg message

section \<open>Handlers of an object\<close>

text \<open>\<open>Notify\<close>, \<open>Command\<close> and \<open>WndProc\<close> of the base class choose the same default procedure.\<close>

definition default_of :: "class_window \<Rightarrow> default_proc" where
  "default_of cw = (case windowType cw of
      MDIFrame \<Rightarrow> DefFrameProc (hWndMDIClient cw)
    | MDIChild \<Rightarrow> DefMDIChildProc
    | _ \<Rightarrow> DefWindowProc)"

definition logged :: "call list \<Rightarrow> 'w program \<Rightarrow> 'w program" where
  "logged cs st = st\<lparr>calls := calls st @ cs\<rparr>"

definition put_object :: "nat \<Rightarrow> class_window \<Rightarrow> 'w program \<Rightarrow> 'w program" where
  "put_object a cw st = st\<lparr>objects := (objects st)(a \<mapsto> cw)\<rparr>"

text \<open>\<open>ForwardWndProc\<close>: the object is the user data of the window.\<close>

definition forwarded :: "'w proc_api \<Rightarrow> nat \<Rightarrow> class_window \<Rightarrow> message \<Rightarrow> 'w \<Rightarrow> call list" where
  "forwarded A a cw m w =
     (let (ns, hd) = ForwardWndProc (allowEditNotify cw) (Focused A w) m
      in map (Notified a) ns @ [Handled a hd (default_of cw)])"

definition object_of :: "class_ptr \<Rightarrow> 'w program \<Rightarrow> (nat \<times> class_window) option" where
  "object_of p st = (case p of
      Null_Ptr \<Rightarrow> None
    | Obj a \<Rightarrow> (case objects st a of None \<Rightarrow> None | Some cw \<Rightarrow> Some (a, cw)))"

definition plain_message :: "wnd_message \<Rightarrow> message" where
  "plain_message m = (case m of Msg m' \<Rightarrow> m' | WM_NCCREATE c \<Rightarrow> OtherMessage 0x81)"

definition forward :: "'w proc_api \<Rightarrow> hwnd \<Rightarrow> wnd_message \<Rightarrow> 'w program \<Rightarrow> (bool \<times> 'w program) option" where
  "forward A h m st = do {
     (a, cw) \<leftarrow> object_of (GetUser A h (sys st)) st;
     Some (True, logged (forwarded A a cw (plain_message m) (sys st)) st) }"

text \<open>
  \<open>SetupWndProc\<close> and \<open>SetupMDIChildProc\<close>: the first message binds the object. The pointer is used
  for \<open>defaultProc\<close> before it is compared with null, and the structure of the wrong kind is read
  as the other kind. The result says whether the procedure did not give up with \<open>FALSE\<close>; what an
  object's \<open>WndProc\<close> returns is part of the choice \<open>ok\<close> of the operations below.
\<close>

definition bind_object :: "'w proc_api \<Rightarrow> hwnd \<Rightarrow> class_ptr \<Rightarrow> 'w program \<Rightarrow> (bool \<times> 'w program) option" where
  "bind_object A h p st = do {
     let w1 = SetUser A h p (sys st);
     (a, cw) \<leftarrow> object_of p st;
     let st1 = put_object a (cw\<lparr>defaultProc := GetProc A h w1\<rparr>) (st\<lparr>sys := w1\<rparr>);
     if GetUser A h w1 = p \<and> p \<noteq> Null_Ptr then
       (let (old, w2) = SetProc A h Forward_Proc w1; st2 = st1\<lparr>sys := w2\<rparr> in
        if old \<noteq> No_Proc then Some (True, logged [Handled a ToWndProc (default_of cw)] st2)
        else Some (False, st2))
     else Some (False, st1) }"

definition SetupWndProc :: "'w proc_api \<Rightarrow> hwnd \<Rightarrow> wnd_message \<Rightarrow> 'w program \<Rightarrow> (bool \<times> 'w program) option" where
  "SetupWndProc A h m st = (case m of
      WM_NCCREATE c \<Rightarrow> (case c of Plain p \<Rightarrow> bind_object A h p st | In_Mdi_Struct p \<Rightarrow> None)
    | Msg m' \<Rightarrow> Some (True, logged [Unhandled h DefWindowProc] st))"

definition SetupMDIChildProc :: "'w proc_api \<Rightarrow> hwnd \<Rightarrow> wnd_message \<Rightarrow> 'w program \<Rightarrow> (bool \<times> 'w program) option" where
  "SetupMDIChildProc A h m st = (case m of
      WM_NCCREATE c \<Rightarrow> (case c of In_Mdi_Struct p \<Rightarrow> bind_object A h p st | Plain p \<Rightarrow> None)
    | Msg m' \<Rightarrow> Some (True, logged [Unhandled h DefMDIChildProc] st))"

text \<open>
  The system delivers a message to a window: it calls the window's procedure. A window without one
  cannot be called. The windows of the system's own classes do not concern the program.
\<close>

definition deliver :: "'w proc_api \<Rightarrow> hwnd \<Rightarrow> wnd_message \<Rightarrow> 'w program \<Rightarrow> (bool \<times> 'w program) option" where
  "deliver A h m st = (case GetProc A h (sys st) of
      No_Proc \<Rightarrow> None
    | Setup_Proc \<Rightarrow> SetupWndProc A h m st
    | Setup_Mdi_Proc \<Rightarrow> SetupMDIChildProc A h m st
    | Forward_Proc \<Rightarrow> forward A h m st
    | System_Proc n \<Rightarrow> Some (True, st))"

fun deliver_all :: "'w proc_api \<Rightarrow> hwnd \<Rightarrow> message list \<Rightarrow> 'w program \<Rightarrow> 'w program option" where
  "deliver_all A h [] st = Some st"
| "deliver_all A h (m # ms) st = do { (r, st1) \<leftarrow> deliver A h (Msg m) st; deliver_all A h ms st1 }"

section \<open>Operations\<close>

text \<open>
  \<open>RegisterWindowClass\<close> of \<open>ClassWindow\<close> adds the procedure to the call of \<open>WindowsItem\<close>; a class
  keeps it for all its windows.
\<close>

definition class_proc :: "bool \<Rightarrow> wnd_proc" where
  "class_proc isMDIChild = (if isMDIChild then Setup_Mdi_Proc else Setup_Proc)"

text \<open>
  \<open>CreateWindowEx\<close> and \<open>CreateMDIWindow\<close> for an object: the window is made, gets \<open>WM_NCCREATE\<close>,
  then the messages \<open>ms\<close>. When \<open>WM_NCCREATE\<close> is refused, or \<open>ok\<close> is false because a later message
  is, the system takes the window down again and the call returns \<open>NULL\<close>.
\<close>

definition create_window ::
    "'w proc_api \<Rightarrow> string \<Rightarrow> create_param \<Rightarrow> message list \<Rightarrow> bool \<Rightarrow> 'w program \<Rightarrow> (hwnd \<times> 'w program) option" where
  "create_window A name c ms ok st =
     (let (h, w1) = Open A name (sys st); st1 = st\<lparr>sys := w1\<rparr> in
      if h = NULL then Some (NULL, st1)
      else do {
        (r, st2) \<leftarrow> deliver A h (WM_NCCREATE c) st1;
        if r then do {
          st3 \<leftarrow> deliver_all A h ms st2;
          if ok then Some (h, st3) else Some (NULL, st3\<lparr>sys := Close A h (sys st3)\<rparr>) }
        else Some (NULL, st2\<lparr>sys := Close A h (sys st2)\<rparr>) })"

text \<open>The end of \<open>CreateClassWindow\<close> and \<open>CreateMdiChild\<close>; the object may have changed meanwhile.\<close>

definition keep_handle :: "nat \<Rightarrow> hwnd \<Rightarrow> 'w program \<Rightarrow> (bool \<times> 'w program) option" where
  "keep_handle a h st = do {
     cw \<leftarrow> objects st a;
     let cw1 = cw\<lparr>windowsItemHandle := h\<rparr>;
     if h \<noteq> NULL then Some (True, put_object a (cw1\<lparr>windowClassName := []\<rparr>) st)
     else Some (False, put_object a (cw1\<lparr>windowType := NoWindow\<rparr>) st) }"

definition cw_Create ::
    "window_type \<Rightarrow> (class_ptr \<Rightarrow> create_param) \<Rightarrow> 'w proc_api \<Rightarrow> nat \<Rightarrow> message list \<Rightarrow> bool \<Rightarrow>
     'w program \<Rightarrow> (bool \<times> 'w program) option" where
  "cw_Create t param A a ms ok st = do {
     cw \<leftarrow> objects st a;
     if getHandle cw = NULL \<and> length (windowClassName cw) > 0 then do {
       (h, st1) \<leftarrow> create_window A (windowClassName cw) (param (Obj a)) ms ok
                    (put_object a (cw\<lparr>windowType := t\<rparr>) st);
       keep_handle a h st1 }
     else Some (False, put_object a (cw\<lparr>windowType := NoWindow\<rparr>) st) }"

definition cw_CreateClassWindow ::
    "'w proc_api \<Rightarrow> nat \<Rightarrow> message list \<Rightarrow> bool \<Rightarrow> 'w program \<Rightarrow> (bool \<times> 'w program) option" where
  "cw_CreateClassWindow = cw_Create Regular Plain"

definition CreateMdiChild ::
    "'w proc_api \<Rightarrow> nat \<Rightarrow> message list \<Rightarrow> bool \<Rightarrow> 'w program \<Rightarrow> (bool \<times> 'w program) option" where
  "CreateMdiChild = cw_Create MDIChild In_Mdi_Struct"

text \<open>\<open>MdiClient\<close> is a \<open>WindowsItem\<close>; the frame keeps the handle of its client window.\<close>

definition CreateMdiClient :: "'w proc_api \<Rightarrow> hwnd \<Rightarrow> item \<Rightarrow> 'w \<Rightarrow> bool \<times> item \<times> 'w" where
  "CreateMdiClient A parent client w =
     (let (h, w1) = Open_Client A parent w in (h \<noteq> NULL, setHandle h client, w1))"

definition BecomeMDIFrame :: "'w proc_api \<Rightarrow> nat \<Rightarrow> item \<Rightarrow> 'w program \<Rightarrow> (bool \<times> item \<times> 'w program) option" where
  "BecomeMDIFrame A a client st = do {
     cw \<leftarrow> objects st a;
     let cw1 = cw\<lparr>windowType := MDIFrame\<rparr>;
     let (made, client1, w1) = CreateMdiClient A (getHandle cw1) client (sys st);
     let st1 = st\<lparr>sys := w1\<rparr>;
     if made then Some (True, client1, put_object a (cw1\<lparr>hWndMDIClient := getHandle client1\<rparr>) st1)
     else Some (False, client1, put_object a (cw1\<lparr>windowType := windowType cw\<rparr>) st1) }"

text \<open>
  \<open>DestroyWindow\<close>: the window gets its last messages \<open>ms\<close> (\<open>WM_DESTROY\<close>, \<open>WM_NCDESTROY\<close>), then it is
  gone. A handle without a window is left alone.
\<close>

definition destroy_window :: "'w proc_api \<Rightarrow> hwnd \<Rightarrow> message list \<Rightarrow> 'w program \<Rightarrow> 'w program option" where
  "destroy_window A h ms st =
     (if IsWindow A h (sys st) then do {
        st1 \<leftarrow> deliver_all A h ms st;
        Some (st1\<lparr>sys := Close A h (sys st1)\<rparr>) }
      else Some st)"

definition cw_DestroyThis :: "'w proc_api \<Rightarrow> nat \<Rightarrow> message list \<Rightarrow> 'w program \<Rightarrow> 'w program option" where
  "cw_DestroyThis A a ms st = do {
     cw \<leftarrow> objects st a;
     st1 \<leftarrow> (if getHandle cw \<noteq> NULL then destroy_window A (getHandle cw) ms st else Some st);
     st2 \<leftarrow> (if tooltipHandle cw \<noteq> NULL then destroy_window A (tooltipHandle cw) [] st1 else Some st1);
     cw1 \<leftarrow> objects st2 a;
     Some (put_object a (cw1\<lparr>windowsItemHandle := NULL, tooltipHandle := NULL, hWndMDIClient := NULL,
       windowType := NoWindow, allowEditNotify := True, defaultProc := No_Proc, windowClassName := []\<rparr>) st2) }"

definition cw_ResetProc :: "'w proc_api \<Rightarrow> nat \<Rightarrow> 'w program \<Rightarrow> (bool \<times> 'w program) option" where
  "cw_ResetProc A a st = do {
     cw \<leftarrow> objects st a;
     if getHandle cw \<noteq> NULL then
       (let (old, w1) = SetProc A (getHandle cw) (defaultProc cw) (sys st)
        in Some (old \<noteq> No_Proc, st\<lparr>sys := w1\<rparr>))
     else Some (False, st) }"

text \<open>The destructor, after which the address holds no object.\<close>

definition delete_window :: "'w proc_api \<Rightarrow> nat \<Rightarrow> message list \<Rightarrow> 'w program \<Rightarrow> 'w program option" where
  "delete_window A a ms st = do {
     (r, st1) \<leftarrow> cw_ResetProc A a st;
     cw \<leftarrow> objects st1 a;
     st2 \<leftarrow> (if getHandle cw \<noteq> NULL then destroy_window A (getHandle cw) ms st1 else Some st1);
     Some (st2\<lparr>objects := (objects st2)(a := None)\<rparr>) }"

section \<open>What the system promises\<close>

definition same_window :: "('w, 'x) proc_api_scheme \<Rightarrow> hwnd \<Rightarrow> 'w \<Rightarrow> 'w \<Rightarrow> bool" where
  "same_window A h w w' \<longleftrightarrow> IsWindow A h w' = IsWindow A h w \<and> GetUser A h w' = GetUser A h w \<and>
     GetProc A h w' = GetProc A h w"

definition set_user_ok :: "('w, 'x) proc_api_scheme \<Rightarrow> bool" where
  "set_user_ok A \<longleftrightarrow> (\<forall>h p w. (\<forall>k. k \<noteq> h \<longrightarrow> same_window A k w (SetUser A h p w)) \<and>
     IsWindow A h (SetUser A h p w) = IsWindow A h w \<and> GetProc A h (SetUser A h p w) = GetProc A h w)"

definition set_proc_ok :: "('w, 'x) proc_api_scheme \<Rightarrow> bool" where
  "set_proc_ok A \<longleftrightarrow> (\<forall>h p w old w'. SetProc A h p w = (old, w') \<longrightarrow>
     (\<forall>k. k \<noteq> h \<longrightarrow> same_window A k w w') \<and> IsWindow A h w' = IsWindow A h w \<and>
     GetUser A h w' = GetUser A h w \<and> GetProc A h w' = (if old = No_Proc then GetProc A h w else p))"

text \<open>\<open>mdi\<close> says which classes were registered with \<open>isMDIChild\<close>.\<close>

definition open_ok :: "'w proc_api \<Rightarrow> (string \<Rightarrow> bool) \<Rightarrow> bool" where
  "open_ok A mdi \<longleftrightarrow> (\<forall>name w h w'. Open A name w = (h, w') \<longrightarrow>
     (\<forall>k. k \<noteq> h \<longrightarrow> same_window A k w w') \<and>
     (h \<noteq> NULL \<longrightarrow> \<not> IsWindow A h w \<and> IsWindow A h w' \<and> GetProc A h w' = class_proc (mdi name)))"

definition open_client_ok :: "'w proc_api \<Rightarrow> bool" where
  "open_client_ok A \<longleftrightarrow> (\<forall>parent w h w'. Open_Client A parent w = (h, w') \<longrightarrow>
     (\<forall>k. k \<noteq> h \<longrightarrow> same_window A k w w') \<and>
     (h \<noteq> NULL \<longrightarrow> \<not> IsWindow A h w \<and> (\<exists>n. GetProc A h w' = System_Proc n)))"

definition close_ok :: "('w, 'x) proc_api_scheme \<Rightarrow> bool" where
  "close_ok A \<longleftrightarrow> (\<forall>h w. \<not> IsWindow A h (Close A h w) \<and>
     (\<forall>k. k \<noteq> h \<longrightarrow> same_window A k w (Close A h w)))"

definition proc_api_ok :: "'w proc_api \<Rightarrow> (string \<Rightarrow> bool) \<Rightarrow> bool" where
  "proc_api_ok A mdi \<longleftrightarrow> (\<forall>w. \<not> IsWindow A NULL w) \<and> set_user_ok A \<and> set_proc_ok A \<and>
     open_ok A mdi \<and> open_client_ok A \<and> close_ok A"

section \<open>Runs of the program\<close>

text \<open>
  What the program, the user and the system can do. The program calls an object while it lives,
  makes objects at addresses that hold none, and creates a window of the kind its class was
  registered for; messages come to windows that exist. Nothing else restricts the order: an
  object may be asked twice for a window, deleted with its window open, or reset first.
\<close>

datatype program_step =
    New_Object nat
  | Use_Class nat string  \<comment> \<open>what \<open>RegisterWindowClass\<close> leaves in the object\<close>
  | Create nat "message list" bool
  | Create_Mdi nat "message list" bool
  | Become_Frame nat item
  | Post hwnd message
  | System_Closes hwnd "message list"
  | Reset nat
  | Destroy nat "message list"
  | Delete nat "message list"

definition class_name :: "nat \<Rightarrow> 'w program \<Rightarrow> string" where
  "class_name a st = (case objects st a of Some cw \<Rightarrow> windowClassName cw | None \<Rightarrow> [])"

fun possible :: "'w proc_api \<Rightarrow> (string \<Rightarrow> bool) \<Rightarrow> program_step \<Rightarrow> 'w program \<Rightarrow> bool" where
  "possible A mdi (New_Object a) st \<longleftrightarrow> objects st a = None"
| "possible A mdi (Use_Class a name) st \<longleftrightarrow> objects st a \<noteq> None"
| "possible A mdi (Create a ms ok) st \<longleftrightarrow> objects st a \<noteq> None \<and> \<not> mdi (class_name a st)"
| "possible A mdi (Create_Mdi a ms ok) st \<longleftrightarrow> objects st a \<noteq> None \<and> mdi (class_name a st)"
| "possible A mdi (Become_Frame a client) st \<longleftrightarrow> objects st a \<noteq> None"
| "possible A mdi (Post h m) st \<longleftrightarrow> IsWindow A h (sys st)"
| "possible A mdi (System_Closes h ms) st \<longleftrightarrow> IsWindow A h (sys st)"
| "possible A mdi (Reset a) st \<longleftrightarrow> objects st a \<noteq> None"
| "possible A mdi (Destroy a ms) st \<longleftrightarrow> objects st a \<noteq> None"
| "possible A mdi (Delete a ms) st \<longleftrightarrow> objects st a \<noteq> None"

fun perform :: "'w proc_api \<Rightarrow> program_step \<Rightarrow> 'w program \<Rightarrow> 'w program option" where
  "perform A (New_Object a) st = Some (put_object a new_class_window st)"
| "perform A (Use_Class a name) st =
     do { cw \<leftarrow> objects st a; Some (put_object a (cw\<lparr>windowClassName := name\<rparr>) st) }"
| "perform A (Create a ms ok) st = map_option snd (cw_CreateClassWindow A a ms ok st)"
| "perform A (Create_Mdi a ms ok) st = map_option snd (CreateMdiChild A a ms ok st)"
| "perform A (Become_Frame a client) st = map_option (snd \<circ> snd) (BecomeMDIFrame A a client st)"
| "perform A (Post h m) st = map_option snd (deliver A h (Msg m) st)"
| "perform A (System_Closes h ms) st = destroy_window A h ms st"
| "perform A (Reset a) st = map_option snd (cw_ResetProc A a st)"
| "perform A (Destroy a ms) st = cw_DestroyThis A a ms st"
| "perform A (Delete a ms) st = delete_window A a ms st"

fun run_program :: "'w proc_api \<Rightarrow> (string \<Rightarrow> bool) \<Rightarrow> program_step list \<Rightarrow> 'w program \<Rightarrow> 'w program option" where
  "run_program A mdi [] st = Some st"
| "run_program A mdi (e # es) st =
     (if possible A mdi e st then do { st1 \<leftarrow> perform A e st; run_program A mdi es st1 }
      else run_program A mdi es st)"

text \<open>A start of the program: it has no objects, and no window has its procedures yet.\<close>

definition program_starts :: "'w proc_api \<Rightarrow> 'w program \<Rightarrow> bool" where
  "program_starts A st \<longleftrightarrow> objects st = (\<lambda>a. None) \<and>
     (\<forall>h. IsWindow A h (sys st) \<longrightarrow> (\<exists>n. GetProc A h (sys st) = System_Proc n))"

section \<open>The invariant\<close>

text \<open>
  A window that forwards its messages belongs to an object that lives and holds its handle; no
  window has a null procedure; and an object that has a handle has a procedure to put back.
\<close>

definition window_ok :: "'w proc_api \<Rightarrow> 'w program \<Rightarrow> hwnd \<Rightarrow> bool" where
  "window_ok A st h \<longleftrightarrow> (IsWindow A h (sys st) \<longrightarrow>
     GetProc A h (sys st) \<noteq> No_Proc \<and>
     (GetProc A h (sys st) = Forward_Proc \<longrightarrow>
       (\<exists>a cw. GetUser A h (sys st) = Obj a \<and> objects st a = Some cw \<and> getHandle cw = h)))"

definition object_ok :: "class_window \<Rightarrow> bool" where
  "object_ok cw \<longleftrightarrow> (getHandle cw \<noteq> NULL \<longrightarrow> defaultProc cw \<in> {Setup_Proc, Setup_Mdi_Proc})"

definition procs_ok_but :: "'w proc_api \<Rightarrow> hwnd set \<Rightarrow> 'w program \<Rightarrow> bool" where
  "procs_ok_but A X st \<longleftrightarrow> (\<forall>h. h \<notin> X \<longrightarrow> window_ok A st h) \<and>
     (\<forall>a cw. objects st a = Some cw \<longrightarrow> object_ok cw)"

abbreviation procs_ok :: "'w proc_api \<Rightarrow> 'w program \<Rightarrow> bool" where
  "procs_ok A st \<equiv> procs_ok_but A {} st"

lemma procs_okD:
  "procs_ok_but A X st \<Longrightarrow> h \<notin> X \<Longrightarrow> window_ok A st h"
  "procs_ok_but A X st \<Longrightarrow> objects st a = Some cw \<Longrightarrow> object_ok cw"
  by (simp_all add: procs_ok_but_def)

lemma procs_okI:
  "(\<And>h. h \<notin> X \<Longrightarrow> window_ok A st h) \<Longrightarrow> (\<And>a cw. objects st a = Some cw \<Longrightarrow> object_ok cw) \<Longrightarrow>
   procs_ok_but A X st"
  by (simp add: procs_ok_but_def)

lemma procs_ok_weaken: "procs_ok_but A X st \<Longrightarrow> X \<subseteq> Y \<Longrightarrow> procs_ok_but A Y st"
  by (auto simp: procs_ok_but_def)

lemma logged_simps [simp]:
  "sys (logged cs st) = sys st" "objects (logged cs st) = objects st"
  "calls (logged cs st) = calls st @ cs" "logged [] st = st"
  "logged cs (logged ds st) = logged (ds @ cs) st"
  by (simp_all add: logged_def)

lemma put_object_simps [simp]:
  "sys (put_object a cw st) = sys st" "objects (put_object a cw st) = (objects st)(a \<mapsto> cw)"
  "calls (put_object a cw st) = calls st"
  by (simp_all add: put_object_def)

lemma window_ok_logged [simp]: "window_ok A (logged cs st) h = window_ok A st h"
  by (simp add: window_ok_def)

lemma procs_ok_logged [simp]: "procs_ok_but A X (logged cs st) = procs_ok_but A X st"
  by (simp add: procs_ok_but_def)

lemma window_ok_same:
  assumes "window_ok A st h" "same_window A h (sys st) (sys st')"
    "\<And>a cw. objects st a = Some cw \<Longrightarrow> getHandle cw = h \<Longrightarrow> \<exists>cw'. objects st' a = Some cw' \<and> getHandle cw' = h"
  shows "window_ok A st' h"
  using assms unfolding window_ok_def same_window_def by metis

lemma same_window_refl [simp]: "same_window A h w w"
  by (simp add: same_window_def)

lemma same_window_trans: "same_window A h w w' \<Longrightarrow> same_window A h w' w'' \<Longrightarrow> same_window A h w w''"
  by (simp add: same_window_def)

section \<open>Messages\<close>

text \<open>A window that can take a message: if it forwards, its object lives.\<close>

definition answers :: "'w proc_api \<Rightarrow> hwnd \<Rightarrow> 'w program \<Rightarrow> bool" where
  "answers A h st \<longleftrightarrow> GetProc A h (sys st) \<noteq> No_Proc \<and>
     (GetProc A h (sys st) = Forward_Proc \<longrightarrow>
       (\<exists>a cw. GetUser A h (sys st) = Obj a \<and> objects st a = Some cw))"

lemma answers_logged [simp]: "answers A h (logged cs st) = answers A h st"
  by (simp add: answers_def)

lemma window_answers: "window_ok A st h \<Longrightarrow> IsWindow A h (sys st) \<Longrightarrow> answers A h st"
  unfolding window_ok_def answers_def by blast

lemma deliver_answers:
  assumes "answers A h st"
  shows "\<exists>cs. deliver A h (Msg m) st = Some (True, logged cs st)"
proof (cases "GetProc A h (sys st)")
  case Forward_Proc
  with assms obtain a cw where "GetUser A h (sys st) = Obj a" "objects st a = Some cw"
    by (auto simp: answers_def)
  with Forward_Proc show ?thesis
    by (auto simp: deliver_def forward_def object_of_def)
next
  case (System_Proc n)
  then have "deliver A h (Msg m) st = Some (True, logged [] st)" by (simp add: deliver_def)
  then show ?thesis ..
qed (use assms in \<open>auto simp: deliver_def SetupWndProc_def SetupMDIChildProc_def answers_def\<close>)

lemma deliver_all_answers:
  assumes "answers A h st"
  shows "\<exists>cs. deliver_all A h ms st = Some (logged cs st)"
  using assms
proof (induction ms arbitrary: st)
  case Nil
  have "deliver_all A h [] st = Some (logged [] st)" by simp
  then show ?case ..
next
  case (Cons m ms)
  from deliver_answers [OF Cons.prems] obtain cs where "deliver A h (Msg m) st = Some (True, logged cs st)" ..
  moreover from Cons.IH [of "logged cs st"] Cons.prems
  obtain ds where "deliver_all A h ms (logged cs st) = Some (logged ds (logged cs st))" by auto
  ultimately show ?case by auto
qed

section \<open>Steps keep the invariant\<close>


lemma close_okD:
  "close_ok A \<Longrightarrow> \<not> IsWindow A h (Close A h w)"
  "close_ok A \<Longrightarrow> k \<noteq> h \<Longrightarrow> same_window A k w (Close A h w)"
  by (simp_all add: close_ok_def)

lemma window_ok_system:
  "window_ok A st h \<Longrightarrow> same_window A h (sys st) w \<Longrightarrow> window_ok A (st\<lparr>sys := w\<rparr>) h"
  by (erule window_ok_same) simp_all

lemma procs_ok_system:
  assumes "procs_ok_but A X st" "\<And>k. k \<notin> Y \<Longrightarrow> k \<notin> X \<and> same_window A k (sys st) w"
  shows "procs_ok_but A Y (st\<lparr>sys := w\<rparr>)"
  by (rule procs_okI) (use assms in \<open>auto intro: window_ok_system dest: procs_okD\<close>)

lemma procs_ok_closed:
  assumes ok: "procs_ok_but A {h} st" and A: "close_ok A"
  shows "procs_ok A (st\<lparr>sys := Close A h (sys st)\<rparr>)"
proof (rule procs_okI)
  fix k
  show "window_ok A (st\<lparr>sys := Close A h (sys st)\<rparr>) k"
  proof (cases "k = h")
    case True
    then show ?thesis using close_okD(1) [OF A] by (simp add: window_ok_def)
  next
    case False
    with procs_okD(1) [OF ok] have "window_ok A st k" by simp
    then show ?thesis by (rule window_ok_system) (rule close_okD(2) [OF A False])
  qed
qed (use procs_okD(2) [OF ok] in simp)

text \<open>An object none of whose windows is left may change, or go.\<close>

lemma procs_ok_object:
  assumes ok: "procs_ok_but A X st" and a: "objects st a = Some cw"
    and gone: "\<not> IsWindow A (getHandle cw) (sys st)"
    and new: "objects st' = (objects st)(a := new)" "\<And>cw'. new = Some cw' \<Longrightarrow> object_ok cw'" "sys st' = sys st"
  shows "procs_ok_but A X st'"
proof (rule procs_okI)
  fix h assume "h \<notin> X"
  with ok have "window_ok A st h" by (simp add: procs_okD)
  with a gone new show "window_ok A st' h"
    unfolding window_ok_def by (metis fun_upd_apply option.inject)
qed (use procs_okD(2) [OF ok] new in \<open>auto split: if_splits\<close>)

text \<open>An object may change everything but its handle.\<close>

lemma procs_ok_same_handle:
  assumes ok: "procs_ok_but A X st" and a: "objects st a = Some cw"
    and new: "getHandle cw' = getHandle cw" "object_ok cw'"
  shows "procs_ok_but A X (put_object a cw' st)"
proof (rule procs_okI)
  fix h assume "h \<notin> X"
  with ok have "window_ok A st h" by (simp add: procs_okD)
  with a new show "window_ok A (put_object a cw' st) h"
    by (elim window_ok_same) auto
qed (use procs_okD(2) [OF ok] new in \<open>auto split: if_splits\<close>)

lemma destroy_window_ok:
  assumes ok: "procs_ok A st" and A: "close_ok A"
  shows "\<exists>st'. destroy_window A h ms st = Some st' \<and> procs_ok A st' \<and> objects st' = objects st \<and>
    \<not> IsWindow A h (sys st') \<and> (\<forall>k. k \<noteq> h \<longrightarrow> same_window A k (sys st) (sys st'))"
proof (cases "IsWindow A h (sys st)")
  case True
  with ok have "answers A h st" by (simp add: procs_okD window_answers)
  then obtain cs where cs: "deliver_all A h ms st = Some (logged cs st)"
    using deliver_all_answers by blast
  have "procs_ok A ((logged cs st)\<lparr>sys := Close A h (sys st)\<rparr>)"
    using procs_ok_closed [of A h "logged cs st"] procs_ok_weaken [OF ok, of "{h}"] A by simp
  with True cs close_okD [OF A] show ?thesis by (simp add: destroy_window_def)
next
  case False
  with ok show ?thesis by (simp add: destroy_window_def)
qed


lemma not_No_Proc_class [simp]: "class_proc m \<noteq> No_Proc" "class_proc m \<noteq> Forward_Proc" "class_proc m \<noteq> System_Proc n"
  by (simp_all add: class_proc_def)

lemma class_proc_in [simp]: "class_proc m \<in> {Setup_Proc, Setup_Mdi_Proc}"
  by (simp add: class_proc_def)

text \<open>The first message of a window binds it to the object, or refuses it.\<close>

lemma bind_object_ok:
  assumes A: "set_user_ok A" "set_proc_ok A"
    and st: "objects st a = Some cw" "GetProc A h (sys st) = class_proc m"
  shows "\<exists>r st'. bind_object A h (Obj a) st = Some (r, st') \<and>
    objects st' = (objects st)(a \<mapsto> cw\<lparr>defaultProc := class_proc m\<rparr>) \<and>
    (\<forall>k. k \<noteq> h \<longrightarrow> same_window A k (sys st) (sys st')) \<and> IsWindow A h (sys st') = IsWindow A h (sys st) \<and>
    (r \<longrightarrow> GetProc A h (sys st') = Forward_Proc \<and> GetUser A h (sys st') = Obj a)"
proof -
  let ?w1 = "SetUser A h (Obj a) (sys st)"
  from A(1) have user: "\<And>k. k \<noteq> h \<Longrightarrow> same_window A k (sys st) ?w1"
    "IsWindow A h ?w1 = IsWindow A h (sys st)" "GetProc A h ?w1 = GetProc A h (sys st)"
    by (simp_all add: set_user_ok_def)
  obtain old w2 where p: "SetProc A h Forward_Proc ?w1 = (old, w2)" by (cases "SetProc A h Forward_Proc ?w1")
  with A(2) have proc: "\<And>k. k \<noteq> h \<Longrightarrow> same_window A k ?w1 w2" "IsWindow A h w2 = IsWindow A h ?w1"
    "GetUser A h w2 = GetUser A h ?w1" "GetProc A h w2 = (if old = No_Proc then GetProc A h ?w1 else Forward_Proc)"
    unfolding set_proc_ok_def by blast+
  have "same_window A k (sys st) w2" if "k \<noteq> h" for k
    by (rule same_window_trans [OF user(1) [OF that] proc(1) [OF that]])
  note moved = this
  let ?st1 = "put_object a (cw\<lparr>defaultProc := class_proc m\<rparr>) (st\<lparr>sys := ?w1\<rparr>)"
  have e: "bind_object A h (Obj a) st =
      (if GetUser A h ?w1 = Obj a then
         Some (if old \<noteq> No_Proc then (True, logged [Handled a ToWndProc (default_of cw)] (?st1\<lparr>sys := w2\<rparr>))
               else (False, ?st1\<lparr>sys := w2\<rparr>))
       else Some (False, ?st1))"
    using st user(3) p by (simp add: bind_object_def object_of_def Let_def)
  show ?thesis
  proof (cases "GetUser A h ?w1 = Obj a \<and> old \<noteq> No_Proc")
    case True
    with e proc user(2) moved show ?thesis
      by (intro exI [of _ True] exI [of _ "logged [Handled a ToWndProc (default_of cw)] (?st1\<lparr>sys := w2\<rparr>)"]) simp
  next
    case False
    with e have "bind_object A h (Obj a) st =
        Some (False, ?st1\<lparr>sys := if GetUser A h ?w1 = Obj a then w2 else ?w1\<rparr>)" by simp
    with proc(2) user(1,2) moved show ?thesis
      by (intro exI [of _ False] exI [of _ "?st1\<lparr>sys := if GetUser A h ?w1 = Obj a then w2 else ?w1\<rparr>"]) simp
  qed
qed

lemma deliver_nccreate:
  assumes "GetProc A h (sys st) = class_proc m" "c = (if m then In_Mdi_Struct else Plain) p"
  shows "deliver A h (WM_NCCREATE c) st = bind_object A h p st"
  using assms by (simp add: deliver_def class_proc_def SetupWndProc_def SetupMDIChildProc_def split: if_splits)

text \<open>The other windows do not notice.\<close>

lemma procs_ok_bound:
  assumes ok: "procs_ok_but A {h} st" and st: "objects st a = Some cw" "getHandle cw = NULL"
    and new: "objects st' = (objects st)(a \<mapsto> cw\<lparr>defaultProc := d\<rparr>)"
      "\<And>k. k \<noteq> h \<Longrightarrow> same_window A k (sys st) (sys st')"
  shows "procs_ok_but A {h} st'"
proof (rule procs_okI)
  fix k assume k: "k \<notin> {h}"
  with ok have "window_ok A st k" by (rule procs_okD)
  then show "window_ok A st' k"
    by (rule window_ok_same) (use st new k in \<open>auto simp: getHandle_def\<close>)
next
  fix b cw' assume "objects st' b = Some cw'"
  with new(1) st(2) procs_okD(2) [OF ok] show "object_ok cw'"
    by (auto simp: object_ok_def getHandle_def split: if_splits)
qed

text \<open>
  What a successful, and what a failed creation leaves: the object has its procedure to put back,
  and the new window, when it stays, forwards to the object.
\<close>

lemma create_window_ok:
  assumes A: "proc_api_ok A mdi" and ok: "procs_ok A st"
    and st: "objects st a = Some cw" "getHandle cw = NULL"
    and c: "c = (if mdi name then In_Mdi_Struct else Plain) (Obj a)"
  shows "\<exists>h st' d. create_window A name c ms ok' st = Some (h, st') \<and> procs_ok_but A {h} st' \<and>
    objects st' = (objects st)(a \<mapsto> cw\<lparr>defaultProc := d\<rparr>) \<and>
    (h \<noteq> NULL \<longrightarrow> d = class_proc (mdi name) \<and> IsWindow A h (sys st') \<and>
       GetProc A h (sys st') = Forward_Proc \<and> GetUser A h (sys st') = Obj a)"
proof -
  from A have null: "\<And>w. \<not> IsWindow A NULL w" and laws: "set_user_ok A" "set_proc_ok A" "close_ok A" "open_ok A mdi"
    by (simp_all add: proc_api_ok_def)
  obtain h w1 where o: "Open A name (sys st) = (h, w1)" by (cases "Open A name (sys st)")
  with laws(4) have opened: "\<And>k. k \<noteq> h \<Longrightarrow> same_window A k (sys st) w1"
    "h \<noteq> NULL \<Longrightarrow> IsWindow A h w1 \<and> GetProc A h w1 = class_proc (mdi name)"
    unfolding open_ok_def by blast+
  let ?st1 = "st\<lparr>sys := w1\<rparr>"
  have ok1: "procs_ok_but A {h} ?st1"
    using procs_ok_system [OF ok, of "{h}" w1] opened(1) by simp
  show ?thesis
  proof (cases "h = NULL")
    case True
    with o st ok1 show ?thesis by (intro exI [of _ NULL] exI [of _ ?st1] exI [of _ "defaultProc cw"])
        (simp add: create_window_def fun_upd_idem)
  next
    case False
    let ?cw = "cw\<lparr>defaultProc := class_proc (mdi name)\<rparr>"
    from False opened(2) st(1) bind_object_ok [OF laws(1,2), of ?st1 a cw h "mdi name"]
    obtain r st2 where b: "bind_object A h (Obj a) ?st1 = Some (r, st2)" "objects st2 = (objects st)(a \<mapsto> ?cw)"
      "\<And>k. k \<noteq> h \<Longrightarrow> same_window A k w1 (sys st2)" "IsWindow A h (sys st2)"
      "r \<Longrightarrow> GetProc A h (sys st2) = Forward_Proc \<and> GetUser A h (sys st2) = Obj a"
      by auto
    have ok2: "procs_ok_but A {h} st2"
      using procs_ok_bound [OF ok1 _ st(2)] st(1) b(2,3) by simp
    have gone: "procs_ok_but A {NULL} (st'\<lparr>sys := Close A h (sys st')\<rparr>)" if "procs_ok_but A {h} st'" for st'
      using procs_ok_closed [OF that laws(3)] by (rule procs_ok_weaken) simp
    have c1: "deliver A h (WM_NCCREATE c) ?st1 = Some (r, st2)"
      using deliver_nccreate [of A h ?st1 "mdi name"] opened(2) False c b(1) by simp
    show ?thesis
    proof (cases r)
      case True
      with b(2,5) have "answers A h st2" by (simp add: answers_def)
      then obtain cs where "deliver_all A h ms st2 = Some (logged cs st2)" using deliver_all_answers by blast
      with o False c1 True have e: "create_window A name c ms ok' st =
          Some (if ok' then (h, logged cs st2) else (NULL, (logged cs st2)\<lparr>sys := Close A h (sys st2)\<rparr>))"
        by (simp add: create_window_def)
      show ?thesis
      proof (cases ok')
        case True
        with e \<open>r\<close> b ok2 show ?thesis
          by (intro exI [of _ h] exI [of _ "logged cs st2"] exI [of _ "class_proc (mdi name)"]) simp
      next
        case False
        with e b(2) gone [of "logged cs st2"] ok2 show ?thesis
          by (intro exI [of _ NULL] exI [of _ "(logged cs st2)\<lparr>sys := Close A h (sys st2)\<rparr>"]
              exI [of _ "class_proc (mdi name)"]) simp
      qed
    next
      case False
      with o \<open>h \<noteq> NULL\<close> c1 have "create_window A name c ms ok' st = Some (NULL, st2\<lparr>sys := Close A h (sys st2)\<rparr>)"
        by (simp add: create_window_def)
      with b(2) gone [OF ok2] show ?thesis
        by (intro exI [of _ NULL] exI [of _ "st2\<lparr>sys := Close A h (sys st2)\<rparr>"]
            exI [of _ "class_proc (mdi name)"]) simp
    qed
  qed
qed


text \<open>The handle is stored when the call returns; from then on the invariant covers the window.\<close>

lemma keep_handle_ok:
  assumes ok: "procs_ok_but A {h} st" and null: "\<And>w. \<not> IsWindow A NULL w"
    and st: "objects st a = Some cw" "getHandle cw = NULL"
    and h: "h \<noteq> NULL \<Longrightarrow> defaultProc cw \<in> {Setup_Proc, Setup_Mdi_Proc} \<and>
      GetProc A h (sys st) = Forward_Proc \<and> GetUser A h (sys st) = Obj a"
  shows "\<exists>st'. keep_handle a h st = Some (h \<noteq> NULL, st') \<and> procs_ok A st'"
proof -
  have other: "window_ok A (put_object a cw' st) k" if "k \<noteq> h" for cw' k
  proof (cases "k = NULL")
    case False
    from ok that have "window_ok A st k" by (simp add: procs_okD)
    then show ?thesis by (rule window_ok_same) (use st False in auto)
  qed (use null in \<open>simp add: window_ok_def\<close>)
  have objs: "object_ok cw''" if "objects (put_object a cw' st) b = Some cw''" "object_ok cw'" for b cw' cw''
    using that procs_okD(2) [OF ok] by (auto split: if_splits)
  show ?thesis
  proof (cases "h = NULL")
    case True
    let ?cw = "cw\<lparr>windowsItemHandle := h, windowType := NoWindow\<rparr>"
    have "procs_ok A (put_object a ?cw st)"
    proof (rule procs_okI)
      show "window_ok A (put_object a ?cw st) k" for k
        using other [of k] null True by (cases "k = h") (simp_all add: window_ok_def)
    qed (erule objs, simp add: object_ok_def getHandle_def True)
    with st True show ?thesis by (simp add: keep_handle_def)
  next
    case False
    let ?cw = "cw\<lparr>windowsItemHandle := h, windowClassName := []\<rparr>"
    have "procs_ok A (put_object a ?cw st)"
    proof (rule procs_okI)
      show "window_ok A (put_object a ?cw st) k" for k
        using other [of k] h [OF False] by (cases "k = h") (simp_all add: window_ok_def getHandle_def)
    qed (erule objs, use h [OF False] in \<open>simp add: object_ok_def\<close>)
    with st False show ?thesis by (simp add: keep_handle_def)
  qed
qed

lemma keep_handle_object:
  assumes "keep_handle a h st = Some (True, st')" "objects st a = Some cw"
  shows "h \<noteq> NULL" "sys st' = sys st"
    "objects st' a = Some (cw\<lparr>windowsItemHandle := h, windowClassName := []\<rparr>)"
  using assms by (auto simp: keep_handle_def Let_def split: if_splits)

lemma cw_Create_ok:
  assumes A: "proc_api_ok A mdi" and ok: "procs_ok A st" and a: "objects st a = Some cw"
    and param: "param = (if mdi (windowClassName cw) then In_Mdi_Struct else Plain)"
  shows "\<exists>b st'. cw_Create t param A a ms ok' st = Some (b, st') \<and> procs_ok A st' \<and>
    (b \<longrightarrow> (\<exists>cw' h. objects st' a = Some cw' \<and> getHandle cw' = h \<and> h \<noteq> NULL \<and> windowType cw' = t \<and>
       defaultProc cw' = class_proc (mdi (windowClassName cw)) \<and>
       GetProc A h (sys st') = Forward_Proc \<and> GetUser A h (sys st') = Obj a))"
proof (cases "getHandle cw = NULL \<and> length (windowClassName cw) > 0")
  case True
  from A have null: "\<And>w. \<not> IsWindow A NULL w" by (simp add: proc_api_ok_def)
  let ?cw = "cw\<lparr>windowType := t\<rparr>" and ?m = "mdi (windowClassName cw)"
  have "procs_ok A (put_object a ?cw st)"
    using ok a procs_okD(2) [OF ok a]
    by (intro procs_ok_same_handle [where cw = cw]) (simp_all add: object_ok_def getHandle_def)
  moreover have "objects (put_object a ?cw st) a = Some ?cw" "getHandle ?cw = NULL"
    using True by (simp_all add: getHandle_def)
  moreover have "param (Obj a) = (if ?m then In_Mdi_Struct else Plain) (Obj a)" using param by simp
  ultimately obtain h st1 d where
    c0: "create_window A (windowClassName cw) (param (Obj a)) ms ok' (put_object a ?cw st) = Some (h, st1)"
      "procs_ok_but A {h} st1" "objects st1 = (objects (put_object a ?cw st))(a \<mapsto> ?cw\<lparr>defaultProc := d\<rparr>)"
      "h \<noteq> NULL \<longrightarrow> d = class_proc ?m \<and> IsWindow A h (sys st1) \<and>
       GetProc A h (sys st1) = Forward_Proc \<and> GetUser A h (sys st1) = Obj a"
    using create_window_ok [OF A, of "put_object a ?cw st" a ?cw "param (Obj a)" "windowClassName cw" ms ok'] by blast
  from c0(3,4) have c3: "objects st1 a = Some (?cw\<lparr>defaultProc := d\<rparr>)"
    and c4: "h \<noteq> NULL \<Longrightarrow> d = class_proc ?m \<and> GetProc A h (sys st1) = Forward_Proc \<and> GetUser A h (sys st1) = Obj a"
    by simp_all
  note c = c0(1,2) c3 c4
  with keep_handle_ok [OF c(2) null c(3)] True
  obtain st2 where k: "keep_handle a h st1 = Some (h \<noteq> NULL, st2)" "procs_ok A st2"
    using class_proc_in by (force simp: getHandle_def)
  from True a c(1) k(1) have e: "cw_Create t param A a ms ok' st = Some (h \<noteq> NULL, st2)"
    by (simp add: cw_Create_def)
  have "\<exists>cw' h. objects st2 a = Some cw' \<and> getHandle cw' = h \<and> h \<noteq> NULL \<and> windowType cw' = t \<and>
     defaultProc cw' = class_proc ?m \<and> GetProc A h (sys st2) = Forward_Proc \<and> GetUser A h (sys st2) = Obj a"
    if "h \<noteq> NULL"
    using keep_handle_object [of a h st1 st2, OF _ c(3)] k(1) c(4) [OF that] that by (simp add: getHandle_def)
  with e k(2) show ?thesis by blast
next
  case False
  let ?cw = "cw\<lparr>windowType := NoWindow\<rparr>"
  have "procs_ok A (put_object a ?cw st)"
    using ok a procs_okD(2) [OF ok a]
    by (intro procs_ok_same_handle [where cw = cw]) (simp_all add: object_ok_def getHandle_def)
  with False a show ?thesis by (auto simp: cw_Create_def)
qed


lemma destroy_handle_ok:
  assumes A: "proc_api_ok A mdi" and ok: "procs_ok A st"
  shows "\<exists>st'. (if h \<noteq> NULL then destroy_window A h ms st else Some st) = Some st' \<and> procs_ok A st' \<and>
    objects st' = objects st \<and> \<not> IsWindow A h (sys st') \<and>
    (\<forall>k. k \<noteq> h \<longrightarrow> same_window A k (sys st) (sys st'))"
proof (cases "h = NULL")
  case True
  with A ok show ?thesis by (simp add: proc_api_ok_def)
next
  case False
  from A have "close_ok A" by (simp add: proc_api_ok_def)
  from destroy_window_ok [OF ok this, of h ms] False show ?thesis by simp
qed

lemma cw_DestroyThis_ok:
  assumes A: "proc_api_ok A mdi" and ok: "procs_ok A st" and a: "objects st a = Some cw"
  shows "\<exists>st'. cw_DestroyThis A a ms st = Some st' \<and> procs_ok A st'"
proof -
  let ?h = "getHandle cw" and ?t = "tooltipHandle cw"
  from destroy_handle_ok [OF A ok, of ?h ms] obtain st1 where
    st1: "(if ?h \<noteq> NULL then destroy_window A ?h ms st else Some st) = Some st1"
      "procs_ok A st1" "objects st1 = objects st" "\<not> IsWindow A ?h (sys st1)" by blast
  from destroy_handle_ok [OF A st1(2), of ?t "[]"] obtain st2 where
    st2: "(if ?t \<noteq> NULL then destroy_window A ?t [] st1 else Some st1) = Some st2"
      "procs_ok A st2" "objects st2 = objects st1" "\<not> IsWindow A ?t (sys st2)"
      "\<forall>k. k \<noteq> ?t \<longrightarrow> same_window A k (sys st1) (sys st2)" by blast
  have gone: "\<not> IsWindow A ?h (sys st2)"
    using st1(4) st2(4,5) by (cases "?h = ?t") (simp_all add: same_window_def)
  let ?cw = "cw\<lparr>windowsItemHandle := NULL, tooltipHandle := NULL, hWndMDIClient := NULL,
       windowType := NoWindow, allowEditNotify := True, defaultProc := No_Proc, windowClassName := []\<rparr>"
  have "procs_ok A (put_object a ?cw st2)"
    using st1(3) st2(3) a
    by (intro procs_ok_object [OF st2(2) _ gone, of a _ "Some ?cw"]) (auto simp: object_ok_def getHandle_def)
  moreover have "cw_DestroyThis A a ms st = Some (put_object a ?cw st2)"
    using a st1(1,3) st2(1,3) by (simp add: cw_DestroyThis_def)
  ultimately show ?thesis by blast
qed

text \<open>The procedure that is put back is one of the two that were there first.\<close>

lemma cw_ResetProc_ok:
  assumes A: "set_proc_ok A" and ok: "procs_ok A st" and a: "objects st a = Some cw"
  shows "\<exists>r st'. cw_ResetProc A a st = Some (r, st') \<and> procs_ok A st' \<and> objects st' = objects st"
proof (cases "getHandle cw = NULL")
  case True
  with a have "cw_ResetProc A a st = Some (False, st)" by (simp add: cw_ResetProc_def)
  with ok show ?thesis by blast
next
  case False
  obtain old w1 where p: "SetProc A (getHandle cw) (defaultProc cw) (sys st) = (old, w1)"
    by (cases "SetProc A (getHandle cw) (defaultProc cw) (sys st)")
  with A have proc: "\<And>k. k \<noteq> getHandle cw \<Longrightarrow> same_window A k (sys st) w1"
    "IsWindow A (getHandle cw) w1 = IsWindow A (getHandle cw) (sys st)"
    "GetUser A (getHandle cw) w1 = GetUser A (getHandle cw) (sys st)"
    "GetProc A (getHandle cw) w1 = (if old = No_Proc then GetProc A (getHandle cw) (sys st) else defaultProc cw)"
    unfolding set_proc_ok_def by blast+
  from procs_okD(2) [OF ok a] False have restored: "defaultProc cw \<in> {Setup_Proc, Setup_Mdi_Proc}"
    by (simp add: object_ok_def)
  have "procs_ok A (st\<lparr>sys := w1\<rparr>)"
  proof (rule procs_okI)
    fix k
    have w: "window_ok A st k" using ok by (simp add: procs_okD)
    show "window_ok A (st\<lparr>sys := w1\<rparr>) k"
    proof (cases "k = getHandle cw")
      case True
      with w proc(2-4) restored show ?thesis by (cases "old = No_Proc") (auto simp: window_ok_def)
    qed (rule window_ok_system [OF w proc(1)])
  qed (use procs_okD(2) [OF ok] in simp)
  with a False p show ?thesis by (simp add: cw_ResetProc_def)
qed

lemma delete_window_ok:
  assumes A: "proc_api_ok A mdi" and ok: "procs_ok A st" and a: "objects st a = Some cw"
  shows "\<exists>st'. delete_window A a ms st = Some st' \<and> procs_ok A st'"
proof -
  from A have "set_proc_ok A" by (simp add: proc_api_ok_def)
  from cw_ResetProc_ok [OF this ok a] obtain r st1 where
    r: "cw_ResetProc A a st = Some (r, st1)" "procs_ok A st1" "objects st1 = objects st" by blast
  from destroy_handle_ok [OF A r(2), of "getHandle cw" ms] r(3) obtain st2 where
    st2: "(if getHandle cw \<noteq> NULL then destroy_window A (getHandle cw) ms st1 else Some st1) = Some st2"
      "procs_ok A st2" "objects st2 = objects st" "\<not> IsWindow A (getHandle cw) (sys st2)" by metis
  have "procs_ok A (st2\<lparr>objects := (objects st2)(a := None)\<rparr>)"
    using st2(3) a by (intro procs_ok_object [OF st2(2) _ st2(4), of a _ None]) simp_all
  with a r(1,3) st2(1) show ?thesis by (simp add: delete_window_def)
qed

lemma BecomeMDIFrame_ok:
  assumes A: "proc_api_ok A mdi" and ok: "procs_ok A st" and a: "objects st a = Some cw"
  shows "\<exists>r st'. BecomeMDIFrame A a client st = Some (fst r, snd r, st') \<and> procs_ok A st'"
proof -
  from A have null: "\<And>w. \<not> IsWindow A NULL w" and client: "open_client_ok A" by (simp_all add: proc_api_ok_def)
  obtain h w1 where o: "Open_Client A (getHandle cw) (sys st) = (h, w1)"
    by (cases "Open_Client A (getHandle cw) (sys st)")
  with client have same: "\<forall>k. k \<noteq> h \<longrightarrow> same_window A k (sys st) w1"
    and new: "h \<noteq> NULL \<longrightarrow> (\<exists>n. GetProc A h w1 = System_Proc n)"
    unfolding open_client_ok_def by blast+
  have "window_ok A (st\<lparr>sys := w1\<rparr>) k" for k
  proof (cases "k = h")
    case True
    with null new show ?thesis by (cases "h = NULL") (auto simp: window_ok_def)
  next
    case False
    have "window_ok A st k" using ok by (simp add: procs_okD)
    then show ?thesis by (rule window_ok_system) (use same False in simp)
  qed
  then have ok1: "procs_ok A (st\<lparr>sys := w1\<rparr>)" using procs_okD(2) [OF ok] by (simp add: procs_ok_but_def)
  have put: "procs_ok A (put_object a cw' (st\<lparr>sys := w1\<rparr>))"
    if "getHandle cw' = getHandle cw" "defaultProc cw' = defaultProc cw" for cw'
    using a that procs_okD(2) [OF ok a] by (intro procs_ok_same_handle [OF ok1, of a cw]) (simp_all add: object_ok_def)
  let ?cw1 = "cw\<lparr>windowType := MDIFrame, hWndMDIClient := h\<rparr>" and ?cw2 = "cw\<lparr>windowType := windowType cw\<rparr>"
  have "BecomeMDIFrame A a client st = Some (h \<noteq> NULL, setHandle h client,
      put_object a (if h \<noteq> NULL then ?cw1 else ?cw2) (st\<lparr>sys := w1\<rparr>))"
    using a o by (simp add: BecomeMDIFrame_def CreateMdiClient_def getHandle_def setHandle_def)
  moreover have "procs_ok A (put_object a (if h \<noteq> NULL then ?cw1 else ?cw2) (st\<lparr>sys := w1\<rparr>))"
    by (rule put) (simp_all add: getHandle_def)
  ultimately show ?thesis by (metis fst_conv snd_conv)
qed


lemma perform_ok:
  assumes A: "proc_api_ok A mdi" and ok: "procs_ok A st" and e: "possible A mdi e st"
  shows "\<exists>st'. perform A e st = Some st' \<and> procs_ok A st'"
proof (cases e)
  case (New_Object a)
  with e have none: "objects st a = None" by simp
  have "procs_ok A (put_object a new_class_window st)"
  proof (rule procs_okI)
    fix h
    have "window_ok A st h" using ok by (simp add: procs_okD)
    then show "window_ok A (put_object a new_class_window st) h"
      by (rule window_ok_same) (use none in auto)
  qed (use procs_okD(2) [OF ok] in
      \<open>auto simp: object_ok_def new_class_window_def new_item_def item.extend_def getHandle_def split: if_splits\<close>)
  with New_Object show ?thesis by simp
next
  case (Use_Class a name)
  with e obtain cw where a: "objects st a = Some cw" by auto
  with procs_okD(2) [OF ok a] have "procs_ok A (put_object a (cw\<lparr>windowClassName := name\<rparr>) st)"
    by (intro procs_ok_same_handle [OF ok a]) (simp_all add: object_ok_def getHandle_def)
  with Use_Class a show ?thesis by simp
next
  case (Create a ms ok')
  with e obtain cw where a: "objects st a = Some cw" "\<not> mdi (windowClassName cw)" by (auto simp: class_name_def)
  then have "Plain = (if mdi (windowClassName cw) then In_Mdi_Struct else Plain)" by simp
  from cw_Create_ok [OF A ok a(1) this, of Regular ms ok'] Create show ?thesis
    by (auto simp: cw_CreateClassWindow_def)
next
  case (Create_Mdi a ms ok')
  with e obtain cw where a: "objects st a = Some cw" "mdi (windowClassName cw)" by (auto simp: class_name_def)
  then have "In_Mdi_Struct = (if mdi (windowClassName cw) then In_Mdi_Struct else Plain)" by simp
  from cw_Create_ok [OF A ok a(1) this, of MDIChild ms ok'] Create_Mdi show ?thesis
    by (auto simp: CreateMdiChild_def)
next
  case (Become_Frame a client)
  with e obtain cw where "objects st a = Some cw" by auto
  from BecomeMDIFrame_ok [OF A ok this, of client] Become_Frame show ?thesis by auto
next
  case (Post h m)
  with e ok have "answers A h st" by (simp add: procs_okD window_answers)
  from deliver_answers [OF this, of m] Post ok show ?thesis by auto
next
  case (System_Closes h ms)
  from A have "close_ok A" by (simp add: proc_api_ok_def)
  from destroy_window_ok [OF ok this, of h ms] System_Closes show ?thesis by auto
next
  case (Reset a)
  from A have p: "set_proc_ok A" by (simp add: proc_api_ok_def)
  from Reset e obtain cw where "objects st a = Some cw" by auto
  from cw_ResetProc_ok [OF p ok this] Reset show ?thesis by auto
next
  case (Destroy a ms)
  with e obtain cw where "objects st a = Some cw" by auto
  from cw_DestroyThis_ok [OF A ok this, of ms] Destroy show ?thesis by auto
next
  case (Delete a ms)
  with e obtain cw where "objects st a = Some cw" by auto
  from delete_window_ok [OF A ok this, of ms] Delete show ?thesis by auto
qed

lemma run_program_ok:
  assumes "proc_api_ok A mdi" "procs_ok A st"
  shows "\<exists>st'. run_program A mdi es st = Some st' \<and> procs_ok A st'"
  using assms(2)
proof (induction es arbitrary: st)
  case (Cons e es)
  show ?case
  proof (cases "possible A mdi e st")
    case True
    from perform_ok [OF assms(1) Cons.prems True] obtain st1 where "perform A e st = Some st1" "procs_ok A st1" by blast
    with Cons.IH [of st1] True show ?thesis by simp
  qed (use Cons in simp)
qed simp

lemma program_starts_ok: "program_starts A st \<Longrightarrow> procs_ok A st"
  by (rule procs_okI) (force simp: program_starts_def window_ok_def)+

section \<open>A system to run on\<close>

text \<open>
  A small system with the promised behaviour: the number of windows made, and the user data and
  procedure of those that exist. The user data of window 13 cannot be set.
\<close>

type_synonym small_system = "nat \<times> (hwnd \<Rightarrow> (class_ptr \<times> wnd_proc) option)"

definition small_open :: "wnd_proc \<Rightarrow> small_system \<Rightarrow> hwnd \<times> small_system" where
  "small_open p w = (case snd w (Suc (fst w)) of
      None \<Rightarrow> (Suc (fst w), (Suc (fst w), (snd w)(Suc (fst w) \<mapsto> (Null_Ptr, p))))
    | Some x \<Rightarrow> (NULL, w))"

definition small_api :: "small_system proc_api" where
  "small_api = \<lparr>
     IsWindow = (\<lambda>h w. h \<noteq> NULL \<and> snd w h \<noteq> None),
     GetUser = (\<lambda>h w. case snd w h of Some (u, p) \<Rightarrow> u | None \<Rightarrow> Null_Ptr),
     SetUser = (\<lambda>h u w. case snd w h of
        Some (u', p) \<Rightarrow> if h = 13 then w else (fst w, (snd w)(h \<mapsto> (u, p))) | None \<Rightarrow> w),
     GetProc = (\<lambda>h w. case snd w h of Some (u, p) \<Rightarrow> p | None \<Rightarrow> No_Proc),
     SetProc = (\<lambda>h p w. case snd w h of
        Some (u, p') \<Rightarrow> if p' = No_Proc then (No_Proc, w) else (p', (fst w, (snd w)(h \<mapsto> (u, p))))
      | None \<Rightarrow> (No_Proc, w)),
     Open = (\<lambda>name w. small_open (class_proc (name = ''child'')) w),
     Open_Client = (\<lambda>parent w. small_open (System_Proc 7) w),
     Close = (\<lambda>h w. (fst w, (snd w)(h := None))),
     Focused = (\<lambda>w. (0, NULL))\<rparr>"

lemma small_api_ok: "proc_api_ok small_api (\<lambda>name. name = ''child'')"
proof -
  have "set_user_ok small_api" "set_proc_ok small_api" "close_ok small_api"
    by (auto simp: set_user_ok_def set_proc_ok_def close_ok_def same_window_def small_api_def
        split: option.splits prod.splits if_splits)
  moreover have "open_ok small_api (\<lambda>name. name = ''child'')" "open_client_ok small_api"
    by (auto simp: open_ok_def open_client_ok_def same_window_def small_api_def small_open_def NULL_def
        split: option.splits prod.splits if_splits)
  moreover have "\<not> IsWindow small_api NULL w" for w by (simp add: small_api_def)
  ultimately show ?thesis by (simp add: proc_api_ok_def)
qed

definition small_start :: "small_system program" where
  "small_start = \<lparr>sys = (0, \<lambda>h. None), objects = (\<lambda>a. None), calls = []\<rparr>"

lemma small_starts: "program_starts small_api small_start"
  by (simp add: program_starts_def small_start_def small_api_def)


section \<open>Properties\<close>


definition example_run :: "program_step list" where
  "example_run =
     [New_Object 4, Use_Class 4 ''main'', Create 4 [OtherMessage 1] True, Become_Frame 4 new_item,
      New_Object 5, Use_Class 5 ''child'', Create_Mdi 5 [] True, Post 3 (WM_SHOWWINDOW True),
      Delete 5 [OtherMessage 2], Post 3 (OtherMessage 3), Post 1 (OtherMessage 4), Reset 4, Post 1 (OtherMessage 5)]"


text \<open>
  Property C12: a window that \<open>CreateClassWindow\<close> made for an object, after any run, hands its messages
  to that object: each causes the notifications of \<open>ForwardWndProc\<close> and then the object's handler,
  with the default procedure of a plain window. Once \<open>ResetProc\<close> succeeded no message reaches the
  object.
\<close>

theorem created_window_reaches_its_object:
  assumes "proc_api_ok A mdi" "program_starts A st" "run_program A mdi es st = Some st1"
    "possible A mdi (Create a ms ok) st1" "cw_CreateClassWindow A a ms ok st1 = Some (True, st2)"
  shows "\<exists>cw. objects st2 a = Some cw \<and>
    deliver A (getHandle cw) (Msg m) st2 = Some (True, logged (forwarded A a cw m (sys st2)) st2) \<and>
    default_of cw = DefWindowProc \<and>
    (\<forall>r st3. cw_ResetProc A a st2 = Some (r, st3) \<longrightarrow> r \<longrightarrow>
       deliver A (getHandle cw) (Msg m) st3 = Some (True, logged [Unhandled (getHandle cw) DefWindowProc] st3))"
proof -
  have ok: "procs_ok A st1"
    using run_program_ok [OF assms(1) program_starts_ok [OF assms(2)], of es] assms(3) by simp
  from assms(4) obtain cw0 where a: "objects st1 a = Some cw0" "\<not> mdi (windowClassName cw0)"
    by (auto simp: class_name_def)
  then have "Plain = (if mdi (windowClassName cw0) then In_Mdi_Struct else Plain)" by simp
  from cw_Create_ok [OF assms(1) ok a(1) this, of Regular ms ok] assms(5) a(2)
  obtain cw where cw: "objects st2 a = Some cw" "getHandle cw \<noteq> NULL" "windowType cw = Regular"
    "defaultProc cw = Setup_Proc" "GetProc A (getHandle cw) (sys st2) = Forward_Proc"
    "GetUser A (getHandle cw) (sys st2) = Obj a"
    by (auto simp: cw_CreateClassWindow_def class_proc_def)
  have "GetProc A (getHandle cw) (sys st3) = Setup_Proc" if "cw_ResetProc A a st2 = Some (True, st3)" for st3
    using that cw assms(1)
    by (auto simp: cw_ResetProc_def proc_api_ok_def set_proc_ok_def Let_def split: prod.splits)
  with cw show ?thesis
    by (auto simp: deliver_def forward_def object_of_def plain_message_def default_of_def SetupWndProc_def)
qed

definition small_main :: "small_system program" where
  "small_main = \<lparr>sys = (0, \<lambda>h. None), objects = (\<lambda>a. None)(4 \<mapsto> new_class_window\<lparr>windowClassName := ''main''\<rparr>), calls = []\<rparr>"

lemma small_main_run:
  "run_program small_api (\<lambda>name. name = ''child'') [New_Object 4, Use_Class 4 ''main''] small_start = Some small_main"
  by (simp add: small_start_def small_main_def put_object_def)

lemma created_window_reaches_its_object_witness:
  "\<exists>st2 cw. cw_CreateClassWindow small_api 4 [OtherMessage 1] True small_main = Some (True, st2) \<and>
     objects st2 4 = Some cw \<and>
     deliver small_api (getHandle cw) (Msg (WM_SHOWWINDOW True)) st2 =
       Some (True, logged (forwarded small_api 4 cw (WM_SHOWWINDOW True) (sys st2)) st2)"
proof -
  have p: "possible small_api (\<lambda>name. name = ''child'') (Create 4 [OtherMessage 1] True) small_main"
    by (simp add: small_main_def class_name_def)
  have "\<exists>st2. cw_CreateClassWindow small_api 4 [OtherMessage 1] True small_main = Some (True, st2)"
    by (simp add: cw_CreateClassWindow_def cw_Create_def create_window_def small_main_def small_api_def small_open_def
        class_proc_def deliver_def SetupWndProc_def bind_object_def object_of_def keep_handle_def forward_def
        new_class_window_def new_item_def item.extend_def getHandle_def NULL_def put_object_def logged_def)
  then obtain st2 where c: "cw_CreateClassWindow small_api 4 [OtherMessage 1] True small_main = Some (True, st2)" ..
  from created_window_reaches_its_object [OF small_api_ok small_starts small_main_run p c, of "WM_SHOWWINDOW True"] c
  show ?thesis by blast
qed

text \<open>
  Asking for a window twice: the second call is refused, and still forgets which kind of window
  the object has, so an MDI frame falls back to the procedure of a plain window.
\<close>

theorem second_window_forgets_the_type:
  assumes "objects st a = Some cw" "getHandle cw \<noteq> NULL"
  shows "\<exists>st'. cw_CreateClassWindow A a ms ok st = Some (False, st') \<and>
    objects st' a = Some (cw\<lparr>windowType := NoWindow\<rparr>) \<and> default_of (cw\<lparr>windowType := NoWindow\<rparr>) = DefWindowProc"
  using assms by (simp add: cw_CreateClassWindow_def cw_Create_def default_of_def)

text \<open>The test for a null pointer comes after the pointer was used.\<close>

theorem null_object_is_used: "bind_object A h Null_Ptr st = None"
  by (simp add: bind_object_def object_of_def)

end
