(* ===== verification/Class_Dialog.thy ===== *)
theory Class_Dialog
  imports Class_Procs
begin

text \<open>
  \<open>WindowsLib/ClassDialog\<close> and \<open>WindowsLib/WindowMenu\<close>: an object that owns a dialog of the system,
  modeless or modal, and the menu of a window. A dialog has the same two values as a window, at
  other offsets: \<open>GetUser\<close> and \<open>SetUser\<close> are the value \<open>DWLP_USER\<close>, \<open>GetProc\<close> and \<open>SetProc\<close> the
  dialog procedure, where \<open>Setup_Proc\<close> is \<open>SetupDialogProc\<close> and \<open>Forward_Proc\<close> is
  \<open>ForwardDlgProc\<close>. The theory follows one object, at the address \<open>a\<close>; a dialog with other user data
  does not concern it. Differently from \<open>ClassWindow\<close> the object gets its handle with the first
  message.
\<close>

section \<open>State\<close>

record 'w dialog_api = "'w proc_api" +
  Open_Dialog :: "hwnd \<Rightarrow> 'w \<Rightarrow> hwnd \<times> 'w"
  EndDialog :: "hwnd \<Rightarrow> 'w \<Rightarrow> bool \<times> 'w"
  DestroyDlgWindow :: "hwnd \<Rightarrow> 'w \<Rightarrow> bool \<times> 'w"
  SetDlgItemText :: "hwnd \<Rightarrow> int \<Rightarrow> string \<Rightarrow> 'w \<Rightarrow> bool \<times> 'w"

record class_dialog =
  dialogHandle :: hwnd
  modeless :: bool
  dialogEditNotify :: bool
  dialogDefaultProc :: wnd_proc

definition new_class_dialog :: class_dialog where
  "new_class_dialog = \<lparr>dialogHandle = NULL, modeless = False, dialogEditNotify = True, dialogDefaultProc = No_Proc\<rparr>"

datatype dialog_handler = ToDlgProc | ToDlgNotify | ToDlgCommand

datatype dialog_call = DlgNotified notification | DlgHandled dialog_handler

record 'w dialog_state =
  dsys :: 'w
  dialog :: class_dialog
  dcalls :: "dialog_call list"

datatype dialog_message = WM_INITDIALOG class_ptr | DlgMsg message

section \<open>Messages\<close>

fun ForwardDlgProc :: "bool \<Rightarrow> int \<times> hwnd \<Rightarrow> message \<Rightarrow> notification list \<times> dialog_handler" where
  "ForwardDlgProc allow focus (WM_SHOWWINDOW shown) =
     (if shown then [NotifyWindowShown]
      else [NotifyEditFocusLost (fst focus) (snd focus), NotifyComboEditFocusLost (fst focus) (snd focus),
            NotifyWindowHidden], ToDlgProc)"
| "ForwardDlgProc allow focus (WM_NOTIFY sel) =
     (case sel of Some v \<Rightarrow> [NotifyTreeItemSelected v] | None \<Rightarrow> [], ToDlgNotify)"
| "ForwardDlgProc allow focus (WM_SELTREEITEM v) = ([NotifyTreeItemSelected v], ToDlgProc)"
| "ForwardDlgProc allow focus (WM_DROPFILES path) = ([], ToDlgProc)"
| "ForwardDlgProc allow focus (WM_COMMAND code i h) =
     ((case code of
         BN_CLICKED \<Rightarrow> [NotifyButtonClicked i h]
       | EN_UPDATE \<Rightarrow> if allow then [NotifyEditUpdated i h] else []
       | EN_SETFOCUS \<Rightarrow> [NotifyEditFocused i h]
       | EN_KILLFOCUS \<Rightarrow> [NotifyEditFocusLost i h]
       | CBN_SELCHANGE \<Rightarrow> [NotifyComboSelChanged i h]
       | CBN_EDITCHANGE \<Rightarrow> [NotifyComboEditUpdated i h]
       | CBN_SETFOCUS \<Rightarrow> [NotifyComboEditFocused i h]
       | CBN_KILLFOCUS \<Rightarrow> [NotifyComboEditFocusLost i h]
       | OtherCode \<Rightarrow> []), ToDlgCommand)"
| "ForwardDlgProc allow focus (OtherMessage m) = ([], ToDlgProc)"

definition dlg_forwarded :: "('w, 'x) dialog_api_scheme \<Rightarrow> 'w dialog_state \<Rightarrow> message \<Rightarrow> dialog_call list" where
  "dlg_forwarded A st m =
     (let (ns, hd) = ForwardDlgProc (dialogEditNotify (dialog st)) (Focused A (dsys st)) m
      in map DlgNotified ns @ [DlgHandled hd])"

definition dlg_logged :: "dialog_call list \<Rightarrow> 'w dialog_state \<Rightarrow> 'w dialog_state" where
  "dlg_logged cs st = st\<lparr>dcalls := dcalls st @ cs\<rparr>"

text \<open>
  \<open>SetupDialogProc\<close>: like \<open>SetupWndProc\<close>, but the handle is stored before the object's \<open>DlgProc\<close>
  sees the message. The pointer is used before the test for null; \<open>None\<close> for a pointer that is
  not the object.
\<close>

definition SetupDialogProc ::
    "nat \<Rightarrow> ('w, 'x) dialog_api_scheme \<Rightarrow> hwnd \<Rightarrow> dialog_message \<Rightarrow> 'w dialog_state \<Rightarrow> (bool \<times> 'w dialog_state) option" where
  "SetupDialogProc a A h m st = (case m of
      DlgMsg m' \<Rightarrow> Some (False, st)
    | WM_INITDIALOG p \<Rightarrow>
        (let w1 = SetUser A h p (dsys st) in
         if p \<noteq> Obj a then None
         else
           (let st1 = st\<lparr>dsys := w1, dialog := (dialog st)\<lparr>dialogDefaultProc := GetProc A h w1\<rparr>\<rparr> in
            if GetUser A h w1 = p \<and> p \<noteq> Null_Ptr then
              (let (old, w2) = SetProc A h Forward_Proc w1; st2 = st1\<lparr>dsys := w2\<rparr> in
               if old \<noteq> No_Proc then
                 Some (True, dlg_logged [DlgHandled ToDlgProc] (st2\<lparr>dialog := (dialog st2)\<lparr>dialogHandle := h\<rparr>\<rparr>))
               else Some (False, st2))
            else Some (False, st1))))"

text \<open>The system gives a message of the dialog \<open>h\<close> to its procedure.\<close>

definition dlg_deliver ::
    "nat \<Rightarrow> ('w, 'x) dialog_api_scheme \<Rightarrow> hwnd \<Rightarrow> dialog_message \<Rightarrow> 'w dialog_state \<Rightarrow> (bool \<times> 'w dialog_state) option" where
  "dlg_deliver a A h m st = (case GetProc A h (dsys st) of
      Setup_Proc \<Rightarrow> SetupDialogProc a A h m st
    | Forward_Proc \<Rightarrow>
        if GetUser A h (dsys st) = Obj a then
          Some (True, dlg_logged (dlg_forwarded A st (case m of DlgMsg m' \<Rightarrow> m' | WM_INITDIALOG p \<Rightarrow> OtherMessage 0x110)) st)
        else Some (True, st)
    | _ \<Rightarrow> Some (False, st))"

fun dlg_deliver_all ::
    "nat \<Rightarrow> ('w, 'x) dialog_api_scheme \<Rightarrow> hwnd \<Rightarrow> message list \<Rightarrow> 'w dialog_state \<Rightarrow> 'w dialog_state option" where
  "dlg_deliver_all a A h [] st = Some st"
| "dlg_deliver_all a A h (m # ms) st =
     do { (r, st1) \<leftarrow> dlg_deliver a A h (DlgMsg m) st; dlg_deliver_all a A h ms st1 }"

section \<open>Operations\<close>

text \<open>
  \<open>CreateDialogParam\<close> and \<open>DialogBoxParam\<close> open the dialog, which gets
  \<open>WM_INITDIALOG\<close> (\<open>SetupDialogProc\<close> ignores what comes before it) and then the messages \<open>ms\<close>. The first returns the handle. The second returns
  when the dialog ended and is destroyed, with the value given to \<open>EndDialog\<close>, \<open>result\<close>.
\<close>

definition open_dialog ::
    "nat \<Rightarrow> ('w, 'x) dialog_api_scheme \<Rightarrow> hwnd \<Rightarrow> message list \<Rightarrow> 'w dialog_state \<Rightarrow> (hwnd \<times> 'w dialog_state) option" where
  "open_dialog a A parent ms st =
     (let (h, w1) = Open_Dialog A parent (dsys st); st1 = st\<lparr>dsys := w1\<rparr> in
      if h = NULL then Some (NULL, st1)
      else do {
        (r, st2) \<leftarrow> dlg_deliver a A h (WM_INITDIALOG (Obj a)) st1;
        st3 \<leftarrow> dlg_deliver_all a A h ms st2;
        Some (h, st3) })"

definition CreateModelessDialog ::
    "nat \<Rightarrow> ('w, 'x) dialog_api_scheme \<Rightarrow> hwnd \<Rightarrow> message list \<Rightarrow> 'w dialog_state \<Rightarrow> (bool \<times> 'w dialog_state) option" where
  "CreateModelessDialog a A parent ms st = do {
     st1 \<leftarrow> (if dialogHandle (dialog st) = NULL then do {
               (h, st1) \<leftarrow> open_dialog a A parent ms st;
               Some (st1\<lparr>dialog := (dialog st1)\<lparr>dialogHandle := h\<rparr>\<rparr>) }
             else Some st);
     if dialogHandle (dialog st1) \<noteq> NULL then Some (True, st1\<lparr>dialog := (dialog st1)\<lparr>modeless := True\<rparr>\<rparr>)
     else Some (False, st1) }"

definition CreateDialogBox ::
    "nat \<Rightarrow> ('w, 'x) dialog_api_scheme \<Rightarrow> hwnd \<Rightarrow> message list \<Rightarrow> int \<Rightarrow> 'w dialog_state \<Rightarrow> (int \<times> 'w dialog_state) option" where
  "CreateDialogBox a A parent ms result st = do {
     (h, st1) \<leftarrow> open_dialog a A parent ms (st\<lparr>dialog := (dialog st)\<lparr>modeless := False\<rparr>\<rparr>);
     if h = NULL then Some (-1, st1) else Some (result, st1\<lparr>dsys := Close A h (dsys st1)\<rparr>) }"

definition DestroyDialog :: "('w, 'x) dialog_api_scheme \<Rightarrow> 'w dialog_state \<Rightarrow> bool \<times> 'w dialog_state" where
  "DestroyDialog A st =
     (let h = dialogHandle (dialog st) in
      if h \<noteq> NULL then
        (let (ended, w1) = EndDialog A h (dsys st); st1 = st\<lparr>dsys := w1\<rparr> in
         if ended then
           (let (gone, w2) = (if modeless (dialog st1) then DestroyDlgWindow A h w1 else EndDialog A h w1);
                st2 = st1\<lparr>dsys := w2\<rparr> in
            if gone then (True, st2\<lparr>dialog := (dialog st2)\<lparr>dialogHandle := NULL, dialogEditNotify := True,
                                                         dialogDefaultProc := No_Proc\<rparr>\<rparr>)
            else (False, st2))
         else (False, st1))
      else (False, st))"

definition dlg_ResetProc :: "('w, 'x) dialog_api_scheme \<Rightarrow> 'w dialog_state \<Rightarrow> bool \<times> 'w dialog_state" where
  "dlg_ResetProc A st =
     (if dialogHandle (dialog st) \<noteq> NULL then
        (let (old, w1) = SetProc A (dialogHandle (dialog st)) (dialogDefaultProc (dialog st)) (dsys st)
         in (old \<noteq> No_Proc, st\<lparr>dsys := w1\<rparr>))
      else (False, st))"

text \<open>The destructor of \<open>ClassDialog\<close>.\<close>

definition delete_dialog :: "('w, 'x) dialog_api_scheme \<Rightarrow> 'w dialog_state \<Rightarrow> 'w dialog_state" where
  "delete_dialog A st =
     (let st1 = snd (dlg_ResetProc A st)
      in if dialogHandle (dialog st1) \<noteq> NULL then snd (DestroyDialog A st1) else st1)"

definition SetDialogItemText :: "('w, 'x) dialog_api_scheme \<Rightarrow> int \<Rightarrow> string \<Rightarrow> 'w dialog_state \<Rightarrow> bool \<times> 'w dialog_state" where
  "SetDialogItemText A i t st =
     (let (ok, w1) = SetDlgItemText A (dialogHandle (dialog st)) i t (dsys st) in (ok, st\<lparr>dsys := w1\<rparr>))"


section \<open>Menus\<close>

text \<open>
  \<open>WindowMenu\<close> holds the handle of a menu. \<open>GetMenuItemInfo\<close> is asked for the item's id only, to see
  whether the item exists.
\<close>

type_synonym hmenu = nat

record 'w menu_api =
  GetMenu :: "hwnd \<Rightarrow> 'w \<Rightarrow> hmenu"
  CheckMenuItem :: "hmenu \<Rightarrow> u32 \<Rightarrow> bool \<Rightarrow> 'w \<Rightarrow> 'w"
  GetMenuItemInfo :: "hmenu \<Rightarrow> u32 \<Rightarrow> 'w \<Rightarrow> bool"
  SetMenuItemInfo :: "hmenu \<Rightarrow> u32 \<Rightarrow> string \<Rightarrow> 'w \<Rightarrow> 'w"

definition menu_FindThis :: "'w menu_api \<Rightarrow> hwnd \<Rightarrow> 'w \<Rightarrow> bool \<times> hmenu" where
  "menu_FindThis M parent w = (let hMenu = GetMenu M parent w in (hMenu \<noteq> 0, hMenu))"

definition menu_SetCheck :: "'w menu_api \<Rightarrow> hmenu \<Rightarrow> u32 \<Rightarrow> bool \<Rightarrow> 'w \<Rightarrow> 'w" where
  "menu_SetCheck M hMenu itemId checked w =
     (if checked then CheckMenuItem M hMenu itemId True w else CheckMenuItem M hMenu itemId False w)"

definition menu_SetText :: "'w menu_api \<Rightarrow> hmenu \<Rightarrow> u32 \<Rightarrow> string \<Rightarrow> 'w \<Rightarrow> 'w" where
  "menu_SetText M hMenu itemId t w =
     (if GetMenuItemInfo M hMenu itemId w then SetMenuItemInfo M hMenu itemId t w else w)"

section \<open>Facts on dialogs\<close>

lemma dlg_logged_simps [simp]:
  "dsys (dlg_logged cs st) = dsys st" "dialog (dlg_logged cs st) = dialog st"
  "dcalls (dlg_logged cs st) = dcalls st @ cs"
  by (simp_all add: dlg_logged_def)

text \<open>A new dialog that the object at \<open>a\<close> can be bound to.\<close>

definition can_bind :: "nat \<Rightarrow> ('w, 'x) dialog_api_scheme \<Rightarrow> hwnd \<Rightarrow> 'w \<Rightarrow> bool" where
  "can_bind a A h w \<longleftrightarrow> h \<noteq> NULL \<and> GetProc A h w = Setup_Proc \<and>
     GetUser A h (SetUser A h (Obj a) w) = Obj a \<and> fst (SetProc A h Forward_Proc (SetUser A h (Obj a) w)) \<noteq> No_Proc"

text \<open>What a bound dialog looks like to its object.\<close>

definition dialog_bound :: "nat \<Rightarrow> ('w, 'x) dialog_api_scheme \<Rightarrow> hwnd \<Rightarrow> 'w dialog_state \<Rightarrow> bool" where
  "dialog_bound a A h st \<longleftrightarrow> dialogHandle (dialog st) = h \<and> dialogDefaultProc (dialog st) = Setup_Proc \<and>
     GetProc A h (dsys st) = Forward_Proc \<and> GetUser A h (dsys st) = Obj a"

lemma dialog_bound_logged [simp]: "dialog_bound a A h (dlg_logged cs st) = dialog_bound a A h st"
  by (simp add: dialog_bound_def)

lemma bound_deliver:
  "dialog_bound a A h st \<Longrightarrow>
   dlg_deliver a A h (DlgMsg m) st = Some (True, dlg_logged (dlg_forwarded A st m) st)"
  by (simp add: dialog_bound_def dlg_deliver_def)

lemma bound_deliver_all:
  "dialog_bound a A h st \<Longrightarrow> \<exists>st'. dlg_deliver_all a A h ms st = Some st' \<and> dialog_bound a A h st'"
  by (induction ms arbitrary: st) (auto simp: bound_deliver)

lemma initdialog_binds:
  assumes A: "set_user_ok A" "set_proc_ok A" and b: "can_bind a A h (dsys st)"
  shows "\<exists>st'. dlg_deliver a A h (WM_INITDIALOG (Obj a)) st = Some (True, st') \<and> dialog_bound a A h st'"
proof -
  let ?w1 = "SetUser A h (Obj a) (dsys st)"
  obtain old w2 where p: "SetProc A h Forward_Proc ?w1 = (old, w2)" by (cases "SetProc A h Forward_Proc ?w1")
  with b have old: "old \<noteq> No_Proc" "GetUser A h ?w1 = Obj a" "GetProc A h (dsys st) = Setup_Proc"
    by (simp_all add: can_bind_def)
  from A(1) old(3) have w1: "GetProc A h ?w1 = Setup_Proc" by (simp add: set_user_ok_def)
  from A(2) p old have w2: "GetProc A h w2 = Forward_Proc" "GetUser A h w2 = Obj a"
    unfolding set_proc_ok_def by (metis (full_types))+
  from p old w1 w2 show ?thesis
    by (simp add: dlg_deliver_def SetupDialogProc_def dialog_bound_def Let_def)
qed

lemma open_dialog_binds:
  assumes A: "set_user_ok A" "set_proc_ok A"
    and o: "Open_Dialog A parent (dsys st) = (h, w)" "can_bind a A h w"
  shows "\<exists>st'. open_dialog a A parent ms st = Some (h, st') \<and> dialog_bound a A h st'"
proof -
  from o(2) have h: "h \<noteq> NULL" by (simp add: can_bind_def)
  from initdialog_binds [OF A, of a h "st\<lparr>dsys := w\<rparr>"] o(2) obtain st1 where
    "dlg_deliver a A h (WM_INITDIALOG (Obj a)) (st\<lparr>dsys := w\<rparr>) = Some (True, st1)" "dialog_bound a A h st1"
    by auto
  with bound_deliver_all [of a A h st1 ms] o(1) h show ?thesis by (auto simp: open_dialog_def)
qed

section \<open>Properties of dialogs\<close>

text \<open>
  A modeless dialog that could be bound hands its messages to its object, and after
  \<open>ResetProc\<close> succeeded none reaches the object.
\<close>

theorem modeless_dialog_reaches_its_object:
  assumes "set_user_ok A" "set_proc_ok A" "dialogHandle (dialog st) = NULL"
    "Open_Dialog A parent (dsys st) = (h, w)" "can_bind a A h w"
  shows "\<exists>st'. CreateModelessDialog a A parent ms st = Some (True, st') \<and> dialogHandle (dialog st') = h \<and>
    dlg_deliver a A h (DlgMsg m) st' = Some (True, dlg_logged (dlg_forwarded A st' m) st') \<and>
    (\<forall>st''. dlg_ResetProc A st' = (True, st'') \<longrightarrow> dlg_deliver a A h (DlgMsg m) st'' = Some (False, st''))"
proof -
  from assms(5) have h: "h \<noteq> NULL" by (simp add: can_bind_def)
  from open_dialog_binds [OF assms(1,2,4,5), of ms] obtain st1 where
    o: "open_dialog a A parent ms st = Some (h, st1)" "dialog_bound a A h st1" by blast
  let ?st = "st1\<lparr>dialog := (dialog st1)\<lparr>modeless := True\<rparr>\<rparr>"
  from o(2) have b: "dialog_bound a A h ?st" by (simp add: dialog_bound_def)
  from o(2) have "st1\<lparr>dialog := (dialog st1)\<lparr>dialogHandle := h\<rparr>\<rparr> = st1" by (auto simp: dialog_bound_def)
  with o assms(3) h b have "CreateModelessDialog a A parent ms st = Some (True, ?st)"
    by (simp add: CreateModelessDialog_def dialog_bound_def)
  moreover have "dlg_deliver a A h (DlgMsg m) st'' = Some (False, st'')"
    if "dlg_ResetProc A ?st = (True, st'')" for st''
  proof -
    from that b h have "GetProc A h (dsys st'') = Setup_Proc"
      using assms(2) by (auto simp: dlg_ResetProc_def dialog_bound_def set_proc_ok_def Let_def split: prod.splits)
    then show ?thesis by (simp add: dlg_deliver_def SetupDialogProc_def)
  qed
  ultimately show ?thesis using b bound_deliver [OF b] by (auto simp: dialog_bound_def)
qed

text \<open>
  A dialog box that has ended leaves its handle in the object, although the dialog is gone. A
  modeless dialog asked for afterwards is reported as created, and nothing is created.
\<close>

theorem dialog_box_leaves_its_handle:
  assumes "set_user_ok A" "set_proc_ok A" "close_ok A"
    "Open_Dialog A parent (dsys st) = (h, w)" "can_bind a A h w"
  shows "\<exists>st'. CreateDialogBox a A parent ms result st = Some (result, st') \<and>
    dialogHandle (dialog st') = h \<and> \<not> IsWindow A h (dsys st') \<and>
    CreateModelessDialog a A parent' ms' st' = Some (True, st'\<lparr>dialog := (dialog st')\<lparr>modeless := True\<rparr>\<rparr>)"
proof -
  from assms(5) have h: "h \<noteq> NULL" by (simp add: can_bind_def)
  let ?st = "st\<lparr>dialog := (dialog st)\<lparr>modeless := False\<rparr>\<rparr>"
  from open_dialog_binds [OF assms(1,2), of parent ?st h w a ms] assms(4,5) obtain st1 where
    o: "open_dialog a A parent ms ?st = Some (h, st1)" "dialog_bound a A h st1" by auto
  then have "dialogHandle (dialog st1) = h" by (simp add: dialog_bound_def)
  with o(1) h close_okD(1) show ?thesis
    using assms(3) by (simp add: CreateDialogBox_def CreateModelessDialog_def close_ok_def)
qed

text \<open>
  \<open>DestroyDialog\<close> ends a dialog box twice. When the second call is refused, since the dialog has
  ended, the result is false and the handle stays.
\<close>

theorem box_is_ended_twice:
  assumes "dialogHandle (dialog st) = h" "h \<noteq> NULL" "\<not> modeless (dialog st)"
    "EndDialog A h (dsys st) = (True, w1)" "EndDialog A h w1 = (False, w2)"
  shows "DestroyDialog A st = (False, st\<lparr>dsys := w2\<rparr>)"
  using assms by (simp add: DestroyDialog_def Let_def)

end
